(* ===== verification/Prelude.thy ===== *)
theory Prelude
  imports Main "HOL-Library.Word"
begin

text \<open>
  Shared vocabulary of the development: the ways the C++ program can stop (\<open>fault\<close>),
  the result type of every fallible operation (\<open>'a res\<close>), the combinators the
  operations are written with, and the generic facts about them that carry the component
  proofs (\<open>res_simps\<close>, \<open>res_intros\<close>).

  An \<open>assert\<close> that fails, an exception that nobody catches and a read past the end
  of an allocation all end the run of the program (or leave it undefined); each of them
  is a value \<open>Inl f\<close> of the model, so that "this never happens" is a statement
  about results. The build of the repository does not define \<open>NDEBUG\<close>, so the
  assertions are part of the code.
\<close>

named_theorems res_simps "evaluation of results"
named_theorems res_intros "when a result is a value"

subsection \<open>Faults and results\<close>

datatype fault =
    Assertion_failure  \<comment> \<open>\<open>assert()\<close>: \<open>SIGABRT\<close>\<close>
  | Out_of_bounds      \<comment> \<open>a read outside of the allocation\<close>
  | Out_of_range       \<comment> \<open>\<open>std::out_of_range\<close> of a container's \<open>.at()\<close>\<close>
  | Length_error       \<comment> \<open>\<open>std::length_error\<close> of \<open>std::vector::resize\<close>\<close>
  | System_error       \<comment> \<open>\<open>std::filesystem::filesystem_error\<close>\<close>
  | Format_error       \<comment> \<open>\<open>fmt::format_error\<close>\<close>
  | No_such_field      \<comment> \<open>a member name the struct does not have\<close>
  | No_return          \<comment> \<open>a loop that does not end\<close>
  | Exit int           \<comment> \<open>\<open>::exit( status )\<close>\<close>

type_synonym 'a res = "fault + 'a"
type_synonym byte = "8 word"
type_synonym size_t = "64 word"

definition require :: "bool \<Rightarrow> 'a res \<Rightarrow> 'a res" where
  "require b r = (if b then r else Inl Assertion_failure)"

definition and_then :: "'a res \<Rightarrow> ('a \<Rightarrow> 'b res) \<Rightarrow> 'b res" where
  "and_then r f = (case r of Inl e \<Rightarrow> Inl e | Inr x \<Rightarrow> f x)"

definition map_res :: "('a \<Rightarrow> 'b) \<Rightarrow> 'a res \<Rightarrow> 'b res" where
  "map_res f r = and_then r (\<lambda>x. Inr (f x))"

fun collect :: "'a res list \<Rightarrow> 'a list res" where
  "collect [] = Inr []"
| "collect (r # rs) = and_then r (\<lambda>x. and_then (collect rs) (\<lambda>xs. Inr (x # xs)))"

definition lookup_at :: "('k \<rightharpoonup> 'v) \<Rightarrow> 'k \<Rightarrow> 'v res" where
  \<comment> \<open>\<open>.at( key )\<close> of a standard container\<close>
  "lookup_at m k = (case m k of None \<Rightarrow> Inl Out_of_range | Some v \<Rightarrow> Inr v)"

definition is_ok :: "'a res \<Rightarrow> bool" where
  "is_ok r = (\<exists>x. r = Inr x)"

lemma require_simps [simp, res_simps]:
  "require True r = r"
  "require False r = Inl Assertion_failure"
  by (simp_all add: require_def)

lemma and_then_simps [simp, res_simps]:
  "and_then (Inl e) f = Inl e"
  "and_then (Inr x) f = f x"
  by (simp_all add: and_then_def)

lemma map_res_simps [simp, res_simps]:
  "map_res f (Inl e) = Inl e"
  "map_res f (Inr x) = Inr (f x)"
  by (simp_all add: map_res_def)

lemma lookup_at_simps [simp, res_simps]:
  "m k = Some v \<Longrightarrow> lookup_at m k = Inr v"
  "m k = None \<Longrightarrow> lookup_at m k = Inl Out_of_range"
  by (simp_all add: lookup_at_def)

lemma is_ok_simps [simp]:
  "is_ok (Inr x)"
  "\<not> is_ok (Inl e)"
  by (simp_all add: is_ok_def)

lemma require_eq_Inr [simp]: "require b r = Inr x \<longleftrightarrow> b \<and> r = Inr x"
  by (simp add: require_def)

lemma and_then_eq_Inr: "and_then r f = Inr y \<longleftrightarrow> (\<exists>x. r = Inr x \<and> f x = Inr y)"
  by (cases r) auto

lemma map_res_eq_Inr: "map_res f r = Inr y \<longleftrightarrow> (\<exists>x. r = Inr x \<and> y = f x)"
  by (cases r) auto

lemma is_ok_require [simp]: "is_ok (require b r) \<longleftrightarrow> b \<and> is_ok r"
  by (simp add: require_def)

lemma is_ok_and_then: "is_ok (and_then r f) \<longleftrightarrow> (\<exists>x. r = Inr x \<and> is_ok (f x))"
  by (cases r) auto

lemma is_ok_map_res [simp]: "is_ok (map_res f r) = is_ok r"
  by (cases r) auto

lemma is_okI [res_intros]: "r = Inr x \<Longrightarrow> is_ok r"
  by simp

lemma is_okE: "is_ok r \<Longrightarrow> (\<And>x. r = Inr x \<Longrightarrow> P) \<Longrightarrow> P"
  by (auto simp: is_ok_def)

text \<open>Taking an operation apart.\<close>

lemma and_thenE:
  assumes "and_then r f = Inr y"
  obtains x where "r = Inr x" and "f x = Inr y"
  using assms by (auto simp: and_then_eq_Inr)

lemma map_resE:
  assumes "map_res f r = Inr y"
  obtains x where "r = Inr x" and "y = f x"
  using assms by (auto simp: map_res_eq_Inr)

lemma requireE:
  assumes "require b r = Inr y"
  obtains b and "r = Inr y"
  using assms by simp

lemma ifE:
  assumes "(if b then r else r') = Inr x"
  obtains "b" "r = Inr x" | "\<not> b" "r' = Inr x"
  using assms by (auto split: if_splits)

lemmas parser_elims = and_thenE map_resE requireE

lemma and_then_cong:
  "r = r' \<Longrightarrow> (\<And>x. r' = Inr x \<Longrightarrow> f x = g x) \<Longrightarrow> and_then r f = and_then r' g"
  by (cases r') auto

lemma is_ok_collect: "is_ok (collect rs) \<longleftrightarrow> (\<forall>r \<in> set rs. is_ok r)"
  by (induction rs) (auto simp: is_ok_def and_then_eq_Inr)

lemma collect_eq_Inr: "collect rs = Inr xs \<longleftrightarrow> rs = map Inr xs"
  by (induction rs arbitrary: xs) (auto simp: and_then_eq_Inr)

lemma collect_map_Inr [simp]: "collect (map Inr xs) = Inr xs"
  by (simp add: collect_eq_Inr)

subsection \<open>Characters\<close>

text \<open>
  The log is text. The only characters that \<open>--multiline\<close> moves are blanks and line
  breaks; \<open>squeeze\<close> is what is left of a text without them.
\<close>

definition is_blank :: "char \<Rightarrow> bool" where
  "is_blank c = (c = CHR '' '' \<or> c = CHR 0x0A)"

definition squeeze :: "string \<Rightarrow> string" where
  "squeeze s = filter (\<lambda>c. \<not> is_blank c) s"

lemma squeeze_simps [simp]:
  "squeeze [] = []"
  "squeeze (c # s) = (if is_blank c then squeeze s else c # squeeze s)"
  "squeeze (s @ t) = squeeze s @ squeeze t"
  by (simp_all add: squeeze_def)

lemma squeeze_concat [simp]: "squeeze (concat ss) = concat (map squeeze ss)"
  by (induction ss) simp_all

lemma squeeze_replicate_blank [simp]: "squeeze (replicate n (CHR '' '')) = []"
  by (induction n) (simp_all add: is_blank_def)

end
