(* ===== verification/Wire.thy ===== *)
theory Wire
  imports Prelude
begin

text \<open>
  The wire format: padding and alignment units (\<open>X11ProtocolParser::Alignment\<close>),
  the byte order of host and client (\<open>X11ProtocolParser::little_endian\<close>,
  \<open>_ordered\<close>), the integer types of the protocol (\<open>protocol/common_types.hpp\<close>) and
  the packed structs that the parsers lay over the received bytes.

  A memory is the byte list that starts at the C++ pointer \<open>data\<close> and ends with the
  allocation it points into; reading beyond it is the fault \<open>Out_of_bounds\<close>. The
  value of a member as the C++ program sees it is the \<^emph>\<open>encoded\<close> value: the
  member's bytes read in the order of the host (\<open>host_val\<close>). \<open>ordered\<close> turns it
  into the value the client meant.
\<close>

unbundle bit_operations_syntax

subsection \<open>Alignment\<close>

definition ALIGN :: size_t where
  "ALIGN = 4"

definition Alignment_pad :: "size_t \<Rightarrow> size_t" where
  "Alignment_pad sz = sz + ((ALIGN - (sz mod ALIGN)) mod ALIGN)"

definition Alignment_units :: "size_t \<Rightarrow> size_t" where
  "Alignment_units sz = Alignment_pad sz div ALIGN"

definition Alignment_size :: "size_t \<Rightarrow> size_t" where
  "Alignment_size units = units * ALIGN"

lemma unat_ALIGN [simp]: "unat ALIGN = 4"
  by (simp add: ALIGN_def)

lemma unat_pad_offset: "unat (ALIGN - (sz mod ALIGN)) = 4 - unat sz mod 4"
proof -
  have m: "unat (sz mod ALIGN) = unat sz mod 4"
    by (simp add: unat_mod_distrib)
  have "sz mod ALIGN \<le> ALIGN"
    unfolding word_le_nat_alt m by simp
  then show ?thesis
    by (simp add: unat_sub m)
qed

lemma pad_nat: "(n::nat) + (4 - n mod 4) mod 4 = (n + 3) div 4 * 4"
proof -
  obtain q r where n: "n = r + 4 * q" and "r < 4"
    by (metis add.commute mod_less_divisor mult_div_mod_eq zero_less_numeral)
  then have "n mod 4 = r" and "r = 0 \<or> r = 1 \<or> r = 2 \<or> r = 3"
    by auto
  then show ?thesis
    by (elim disjE) (simp_all add: n)
qed

lemma unat_Alignment_pad: "unat (Alignment_pad sz) = ((unat sz + 3) div 4 * 4) mod 2 ^ 64"
proof -
  have "unat (Alignment_pad sz) = (unat sz + (4 - unat sz mod 4) mod 4) mod 2 ^ 64"
    unfolding Alignment_pad_def by (simp add: unat_word_ariths unat_mod_distrib unat_pad_offset)
  then show ?thesis
    by (simp add: pad_nat)
qed

lemma unat_Alignment_pad_small:
  "unat sz + 3 < 2 ^ 64 \<Longrightarrow> unat (Alignment_pad sz) = (unat sz + 3) div 4 * 4"
  by (simp add: unat_Alignment_pad)

lemma unat_Alignment_units_small:
  "unat sz + 3 < 2 ^ 64 \<Longrightarrow> unat (Alignment_units sz) = (unat sz + 3) div 4"
  by (simp add: Alignment_units_def unat_div_distrib unat_Alignment_pad_small)

lemma unat_Alignment_size_small:
  "unat u < 2 ^ 62 \<Longrightarrow> unat (Alignment_size u) = 4 * unat u"
  by (simp add: Alignment_size_def unat_word_ariths)

subsection \<open>Byte order\<close>

fun le_val :: "byte list \<Rightarrow> nat" where
  "le_val [] = 0"
| "le_val (b # bs) = unat b + 256 * le_val bs"

fun le_bytes :: "nat \<Rightarrow> nat \<Rightarrow> byte list" where
  "le_bytes 0 n = []"
| "le_bytes (Suc w) n = of_nat (n mod 256) # le_bytes w (n div 256)"

lemma length_le_bytes [simp]: "length (le_bytes w n) = w"
  by (induction w arbitrary: n) auto

lemma le_val_bound: "le_val bs < 256 ^ length bs"
proof (induction bs)
  case (Cons b bs)
  have "unat b < 256"
    using unsigned_less [of b] by simp
  then show ?case
    using Cons by simp
qed simp

lemma le_val_le_bytes: "le_val (le_bytes w n) = n mod 256 ^ w"
proof (induction w arbitrary: n)
  case (Suc w)
  have "unat (of_nat (n mod 256) :: byte) = n mod 256"
    by (simp add: unat_of_nat)
  then show ?case
    using Suc by (simp add: mod_mult2_eq)
qed simp

lemma le_bytes_le_val: "le_bytes (length bs) (le_val bs) = bs"
proof (induction bs)
  case (Cons b bs)
  have "unat b < 256"
    using unsigned_less [of b] by simp
  then show ?case
    using Cons by simp
qed simp

text \<open>
  \<open>host_val le bs\<close> is what a load of the bytes \<open>bs\<close> gives on a host that is
  little-endian (\<open>le\<close>) or big-endian; \<open>builtin_bswap w\<close> is
  \<open>__builtin_bswap16/32/64\<close> on a value of \<open>w\<close> bytes.
\<close>

definition host_val :: "bool \<Rightarrow> byte list \<Rightarrow> nat" where
  "host_val le bs = le_val (if le then bs else rev bs)"

definition builtin_bswap :: "nat \<Rightarrow> nat \<Rightarrow> nat" where
  "builtin_bswap w n = le_val (rev (le_bytes w n))"

definition ordered :: "nat \<Rightarrow> bool \<Rightarrow> nat \<Rightarrow> nat" where
  "ordered w byteswap val =
     (if byteswap
      then (if w = 8 then builtin_bswap 8 val
            else if w = 4 then builtin_bswap 4 val
            else if w = 2 then builtin_bswap 2 val
            else val)
      else val)"

lemma host_val_bound: "host_val le bs < 256 ^ length bs"
  using le_val_bound [of bs] le_val_bound [of "rev bs"] by (simp add: host_val_def)

lemma builtin_bswap_host_val:
  "builtin_bswap (length bs) (host_val le bs) = host_val (\<not> le) bs"
  using le_bytes_le_val [of bs] le_bytes_le_val [of "rev bs"]
  by (simp add: builtin_bswap_def host_val_def)

lemma builtin_bswap_twice: "n < 256 ^ w \<Longrightarrow> builtin_bswap w (builtin_bswap w n) = n"
  using le_bytes_le_val [of "rev (le_bytes w n)"]
  by (simp add: builtin_bswap_def le_val_le_bytes)

lemma ordered_no_swap [simp]: "ordered w False n = n"
  by (simp add: ordered_def)

lemma ordered_one [simp]: "ordered (Suc 0) bsw n = n"
  by (simp add: ordered_def)

text \<open>Whatever the host, swapping a loaded integer gives the other byte order.\<close>

lemma ordered_host_val:
  assumes "length bs \<in> {1, 2, 4, 8}"
  shows "ordered (length bs) bsw (host_val le bs) = host_val (le \<noteq> bsw) bs"
proof (cases "length bs = 1")
  case True
  then have "rev bs = bs"
    by (cases bs) auto
  with True show ?thesis
    by (simp add: ordered_def host_val_def)
next
  case False
  with assms show ?thesis
    using builtin_bswap_host_val [of bs le] by (auto simp: ordered_def)
qed

definition signed_val :: "nat \<Rightarrow> nat \<Rightarrow> int" where
  \<comment> \<open>two's complement value of a \<open>w\<close>-byte integer\<close>
  "signed_val w n = (if 2 * n < 256 ^ w then int n else int n - int (256 ^ w))"

lemma signed_val_bounds:
  assumes "n < 256 ^ w" and "0 < w"
  shows "- int (256 ^ w div 2) \<le> signed_val w n \<and> signed_val w n < int (256 ^ w div 2)"
proof -
  have "even ((256 :: nat) ^ w)"
    using assms(2) by simp
  then obtain h where h: "(256 :: nat) ^ w = 2 * h"
    by (rule evenE)
  show ?thesis
    using assms(1) unfolding signed_val_def h by auto
qed

subsection \<open>Memory\<close>

definition read_bytes :: "byte list \<Rightarrow> nat \<Rightarrow> nat \<Rightarrow> byte list res" where
  "read_bytes m off n =
     (if off + n \<le> length m then Inr (take n (drop off m)) else Inl Out_of_bounds)"

definition load :: "bool \<Rightarrow> byte list \<Rightarrow> nat \<Rightarrow> nat \<Rightarrow> nat res" where
  \<comment> \<open>load an integer of \<open>w\<close> bytes\<close>
  "load le m off w = map_res (host_val le) (read_bytes m off w)"

lemma read_bytes_ok [simp]:
  "off + n \<le> length m \<Longrightarrow> read_bytes m off n = Inr (take n (drop off m))"
  by (simp add: read_bytes_def)

lemma read_bytes_length: "read_bytes m off n = Inr bs \<Longrightarrow> length bs = n"
  by (auto simp: read_bytes_def split: if_splits)

lemma load_ok: "off + w \<le> length m \<Longrightarrow> load le m off w = Inr (host_val le (take w (drop off m)))"
  by (simp add: load_def)

lemma load_bound: "load le m off w = Inr n \<Longrightarrow> n < 256 ^ w"
  using host_val_bound by (fastforce simp: load_def map_res_eq_Inr dest: read_bytes_length)

subsection \<open>Properties\<close>

text \<open>
  \<open>Alignment::pad\<close> rounds up to the next multiple of 4, and \<open>units\<close> and \<open>size\<close>
  convert between padded bytes and units, unless the count is within 3 of \<open>2 ^ 64\<close>.
\<close>

theorem alignment_rounds_up:
  assumes "unat sz + 3 < 2 ^ 64"
  shows "4 dvd unat (Alignment_pad sz) \<and> unat sz \<le> unat (Alignment_pad sz) \<and>
    unat (Alignment_pad sz) < unat sz + 4 \<and>
    unat (Alignment_size (Alignment_units sz)) = unat (Alignment_pad sz)"
proof -
  have pad: "unat (Alignment_pad sz) = (unat sz + 3) div 4 * 4"
    and units: "unat (Alignment_units sz) = (unat sz + 3) div 4"
    using assms by (simp_all add: unat_Alignment_pad_small unat_Alignment_units_small)
  have "(unat sz + 3) div 4 < 2 ^ 62"
    using assms by (simp add: div_less_iff_less_mult)
  then have "unat (Alignment_size (Alignment_units sz)) = (unat sz + 3) div 4 * 4"
    by (simp add: unat_Alignment_size_small units)
  moreover have "unat sz \<le> (unat sz + 3) div 4 * 4 \<and> (unat sz + 3) div 4 * 4 < unat sz + 4"
    using div_mult_mod_eq [of "unat sz + 3" 4] mod_less_divisor [of 4 "unat sz + 3"] by linarith
  ultimately show ?thesis
    unfolding pad by simp
qed

theorem alignment_rounds_up_witness:
  "4 dvd unat (Alignment_pad 5) \<and> unat (5 :: size_t) \<le> unat (Alignment_pad 5) \<and>
    unat (Alignment_pad 5) < unat (5 :: size_t) + 4 \<and>
    unat (Alignment_size (Alignment_units 5)) = unat (Alignment_pad 5)"
  by (rule alignment_rounds_up) simp

text \<open>
  C33: \<open>_ordered\<close> undoes the difference of byte order: an integer of 1, 2, 4 or 8 bytes that a
  client with byte order \<open>lsb\<close> sent is read by any host as the integer the client meant.
\<close>

theorem ordered_is_client_value:
  assumes "length bs \<in> {1, 2, 4, 8}" and "bsw = (host_le \<noteq> lsb)"
  shows "ordered (length bs) bsw (host_val host_le bs) = host_val lsb bs"
  using ordered_host_val [OF assms(1), of bsw host_le] assms(2) by (cases host_le; cases lsb) simp_all

theorem ordered_is_client_value_witness:
  "ordered (length [0 :: byte, 0, 1, 2]) True (host_val True [0, 0, 1, 2]) = host_val False [0, 0, 1, 2]"
  by (rule ordered_is_client_value) simp_all

end
