(* ===== verification/SocketBuf.thy ===== *)
theory SocketBuf
  imports Wire
begin

text \<open>
  \<open>class SocketBuffer\<close> (\<open>SocketBuffer.hpp\<close>, \<open>SocketBuffer.cpp\<close>): the byte buffer
  between two sockets. The members keep the short names of the diagram in the header's
  doc comment: \<open>br\<close>, \<open>bp\<close>, \<open>bw\<close> for \<open>_bytes_read\<close>, \<open>_bytes_parsed\<close>,
  \<open>_bytes_written\<close> and \<open>nms\<close> for \<open>_next_message_sz\<close>; all four are 64-bit
  \<open>size_t\<close> values that wrap. \<open>recv(2)\<close> and \<open>send(2)\<close> are arguments: what the
  call returned.
\<close>

record socket_buffer =
  buf :: "byte list"
  br  :: size_t
  bp  :: size_t
  bw  :: size_t
  nms :: size_t

definition BLOCK_SZ :: size_t where
  "BLOCK_SZ = 2048"

definition UNKNOWN_SZ :: size_t where
  "UNKNOWN_SZ = - 1"

definition SocketBuffer_new :: socket_buffer where
  "SocketBuffer_new = \<lparr>buf = replicate (unat BLOCK_SZ) 0, br = 0, bp = 0, bw = 0, nms = UNKNOWN_SZ\<rparr>"

definition buffer_length :: "socket_buffer \<Rightarrow> size_t" where
  \<comment> \<open>\<open>_buffer.size()\<close>\<close>
  "buffer_length b = of_nat (length (buf b))"

definition buffer_size :: "socket_buffer \<Rightarrow> size_t" where
  "buffer_size b = br b - bw b"

definition buffer_empty :: "socket_buffer \<Rightarrow> bool" where
  "buffer_empty b = (br b = 0)"

definition capacity :: "socket_buffer \<Rightarrow> size_t" where
  "capacity b = buffer_length b - br b"

definition buffer_data :: "socket_buffer \<Rightarrow> byte list" where
  \<comment> \<open>the memory from \<open>data()\<close> to the end of the allocation\<close>
  "buffer_data b = drop (unat (bw b)) (buf b)"

definition messageSizeSet :: "socket_buffer \<Rightarrow> bool" where
  "messageSizeSet b = (nms b \<noteq> UNKNOWN_SZ)"

definition messageSize :: "socket_buffer \<Rightarrow> size_t" where
  "messageSize b = nms b"

definition setMessageSize :: "size_t \<Rightarrow> socket_buffer \<Rightarrow> socket_buffer res" where
  "setMessageSize message_sz b =
     require (message_sz \<noteq> UNKNOWN_SZ) (
     require (\<not> messageSizeSet b) (
     Inr (b\<lparr>nms := message_sz\<rparr>)))"

definition parsed :: "socket_buffer \<Rightarrow> size_t" where
  "parsed b = bp b"

definition unparsed :: "socket_buffer \<Rightarrow> size_t" where
  "unparsed b = buffer_size b - bp b"

definition incompleteMessage :: "socket_buffer \<Rightarrow> bool" where
  "incompleteMessage b =
     (unparsed b > 0 \<and> (\<not> messageSizeSet b \<or> unparsed b < messageSize b))"

definition markMessageParsed :: "socket_buffer \<Rightarrow> socket_buffer res" where
  "markMessageParsed b =
     require (messageSizeSet b) (
     require (bp b + nms b \<le> buffer_size b) (
     Inr (b\<lparr>bp := bp b + nms b, nms := UNKNOWN_SZ\<rparr>)))"

definition readReady :: "socket_buffer \<Rightarrow> bool" where
  "readReady b = (buffer_empty b \<or> incompleteMessage b)"

definition writeReady :: "socket_buffer \<Rightarrow> bool" where
  "writeReady b = (\<not> buffer_empty b \<and> bp b > 0)"

definition clear :: "socket_buffer \<Rightarrow> socket_buffer res" where
  "clear b =
     require (parsed b = buffer_size b) (
     Inr (b\<lparr>br := 0, nms := UNKNOWN_SZ, bp := 0, bw := 0\<rparr>))"

definition clear_if_drained :: "socket_buffer \<Rightarrow> socket_buffer res" where
  \<comment> \<open>\<open>if ( _bytes_written == _bytes_read ) clear();\<close>\<close>
  "clear_if_drained b = (if bw b = br b then clear b else Inr b)"

definition VECTOR_MAX :: nat where
  \<comment> \<open>\<open>std::vector< uint8_t >::max_size()\<close>, the largest \<open>ptrdiff_t\<close>\<close>
  "VECTOR_MAX = 2 ^ 63 - 1"

definition vector_resize :: "size_t \<Rightarrow> byte list \<Rightarrow> byte list res" where
  "vector_resize n xs =
     (if unat n > VECTOR_MAX then Inl Length_error
      else Inr (take (unat n) xs @ replicate (unat n - length xs) 0))"

definition reserve :: "size_t \<Rightarrow> socket_buffer \<Rightarrow> socket_buffer res" where
  \<comment> \<open>the growing step that \<open>read\<close> and \<open>load\<close> share\<close>
  "reserve n b =
     (if n > capacity b
      then let raw_sz = buffer_length b + (n - capacity b)
           in and_then (vector_resize
                (raw_sz + ((BLOCK_SZ - (raw_sz mod BLOCK_SZ)) mod BLOCK_SZ)) (buf b)) (\<lambda>v.
              require (capacity (b\<lparr>buf := v\<rparr>) \<ge> n) (
              Inr (b\<lparr>buf := v\<rparr>)))
      else Inr b)"

definition store_bytes :: "byte list \<Rightarrow> socket_buffer \<Rightarrow> socket_buffer res" where
  \<comment> \<open>bytes written at \<open>_buffer.data() + _bytes_read\<close>\<close>
  "store_bytes bs b =
     (if unat (br b) + length bs \<le> length (buf b)
      then Inr (b\<lparr>buf := take (unat (br b)) (buf b) @ bs @ drop (unat (br b) + length bs) (buf b),
                   br := br b + of_nat (length bs)\<rparr>)
      else Inl Out_of_bounds)"

text \<open>
  \<open>read( sockfd, n )\<close>. The argument \<open>recv\<close> is the socket: for a number of requested
  bytes, an error message or the bytes received. The result is the buffer, the number of
  bytes read and the optional error message.
\<close>

type_synonym recv_fn = "size_t \<Rightarrow> string + byte list"
type_synonym send_fn = "byte list \<Rightarrow> string + size_t"

definition read_n ::
  "recv_fn \<Rightarrow> size_t \<Rightarrow> socket_buffer \<Rightarrow> (socket_buffer \<times> size_t \<times> string option) res" where
  "read_n recv bytes_to_read b =
     and_then (reserve bytes_to_read b) (\<lambda>b'.
       case recv bytes_to_read of
         Inl err \<Rightarrow> Inr (b', 0, Some err)
       | Inr bs \<Rightarrow> map_res (\<lambda>b''. (b'', of_nat (length bs), None)) (store_bytes bs b'))"

definition read_all :: "recv_fn \<Rightarrow> socket_buffer \<Rightarrow> (socket_buffer \<times> size_t \<times> string option) res" where
  "read_all recv b =
     (let bytes_to_read = (if \<not> messageSizeSet b then capacity b else nms b - buffer_size b)
      in read_n recv bytes_to_read b)"

definition buffer_load :: "byte list \<Rightarrow> socket_buffer \<Rightarrow> (socket_buffer \<times> size_t) res" where
  "buffer_load input b =
     require (input \<noteq> []) (
     and_then (reserve (of_nat (length input)) b) (\<lambda>b'.
     map_res (\<lambda>b''. (b'', of_nat (length input))) (store_bytes input b')))"

text \<open>
  \<open>write( sockfd, n )\<close>: the bytes handed to \<open>send(2)\<close> are the \<open>n\<close> bytes at
  \<open>data()\<close>; \<open>send\<close> answers with an error or with the number of bytes it took.
\<close>

definition write_n ::
  "send_fn \<Rightarrow> size_t \<Rightarrow> socket_buffer \<Rightarrow> (socket_buffer \<times> size_t \<times> string option) res" where
  "write_n send bytes_to_write b =
     require (bytes_to_write \<le> bp b) (
     and_then (read_bytes (buffer_data b) 0 (unat bytes_to_write)) (\<lambda>out.
       case send out of
         Inl err \<Rightarrow> Inr (b, 0, Some err)
       | Inr send_sz \<Rightarrow>
           require (send_sz = bytes_to_write) (
           map_res (\<lambda>b'. (b', send_sz, None))
             (clear_if_drained (b\<lparr>bw := bw b + send_sz, bp := bp b - send_sz\<rparr>)))))"

definition write_all :: "send_fn \<Rightarrow> socket_buffer \<Rightarrow> (socket_buffer \<times> size_t \<times> string option) res" where
  "write_all send b = write_n send (bp b) b"

definition unload :: "size_t \<Rightarrow> socket_buffer \<Rightarrow> (socket_buffer \<times> size_t) res" where
  "unload bytes_to_unload b =
     require (bytes_to_unload \<le> buffer_size b) (
     map_res (\<lambda>b'. (b', bytes_to_unload))
       (clear_if_drained (b\<lparr>bw := bw b + bytes_to_unload\<rparr>)))"

definition unload_to :: "size_t \<Rightarrow> socket_buffer \<Rightarrow> (socket_buffer \<times> byte list \<times> size_t) res" where
  \<comment> \<open>\<open>unload( output, n )\<close>: the middle component is what is copied to \<open>output\<close>\<close>
  "unload_to bytes_to_unload b =
     require (bytes_to_unload \<le> buffer_size b) (
     and_then (read_bytes (buffer_data b) 0 (unat bytes_to_unload)) (\<lambda>output.
     map_res (\<lambda>b'. (b', output, bytes_to_unload))
       (clear_if_drained (b\<lparr>bw := bw b + bytes_to_unload\<rparr>))))"

subsection \<open>The representation invariant\<close>

definition wf_buffer :: "socket_buffer \<Rightarrow> bool" where
  "wf_buffer b \<longleftrightarrow>
     unat (bw b) + unat (bp b) \<le> unat (br b) \<and>
     unat (br b) \<le> length (buf b) \<and>
     length (buf b) \<le> VECTOR_MAX \<and>
     (bw b = br b \<longrightarrow> br b = 0)"

definition content :: "socket_buffer \<Rightarrow> byte list" where
  \<comment> \<open>the bytes read and not yet written\<close>
  "content b = take (unat (br b) - unat (bw b)) (drop (unat (bw b)) (buf b))"

lemma VECTOR_MAX_bound: "n \<le> VECTOR_MAX \<Longrightarrow> n < 2 ^ 63"
  by (simp add: VECTOR_MAX_def)

lemma wf_bounds:
  assumes "wf_buffer b"
  shows "unat (bw b) \<le> unat (br b)" "unat (br b) < 2 ^ 63" "length (buf b) < 2 ^ 63"
  using assms VECTOR_MAX_bound [of "length (buf b)"] by (simp_all add: wf_buffer_def)

lemma unat_buffer_length: "length (buf b) \<le> VECTOR_MAX \<Longrightarrow> unat (buffer_length b) = length (buf b)"
  by (simp add: buffer_length_def unat_of_nat VECTOR_MAX_def)

lemma unat_buffer_size: "wf_buffer b \<Longrightarrow> unat (buffer_size b) = unat (br b) - unat (bw b)"
  using wf_bounds [of b] by (simp add: buffer_size_def unat_sub word_le_nat_alt)

lemma unat_capacity: "wf_buffer b \<Longrightarrow> unat (capacity b) = length (buf b) - unat (br b)"
  by (simp add: capacity_def unat_sub word_le_nat_alt unat_buffer_length wf_buffer_def)

lemma unat_unparsed: "wf_buffer b \<Longrightarrow> unat (unparsed b) = unat (br b) - unat (bw b) - unat (bp b)"
  unfolding unparsed_def using unat_buffer_size [of b]
  by (subst unat_sub) (auto simp: word_le_nat_alt wf_buffer_def)

lemma length_content: "wf_buffer b \<Longrightarrow> length (content b) = unat (br b) - unat (bw b)"
  by (auto simp: content_def wf_buffer_def)

lemma wf_SocketBuffer_new: "wf_buffer SocketBuffer_new"
  by (simp add: wf_buffer_def SocketBuffer_new_def BLOCK_SZ_def VECTOR_MAX_def)

lemma content_SocketBuffer_new [simp]: "content SocketBuffer_new = []"
  by (simp add: content_def SocketBuffer_new_def)

lemma buffer_empty_iff: "wf_buffer b \<Longrightarrow> buffer_empty b \<longleftrightarrow> content b = []"
proof -
  assume wf: "wf_buffer b"
  have "content b = [] \<longleftrightarrow> unat (br b) \<le> unat (bw b)"
    using length_content [OF wf] by (metis diff_is_0_eq length_0_conv)
  also have "\<dots> \<longleftrightarrow> br b = 0"
    using wf by (auto simp: wf_buffer_def word_unat_eq_iff)
  finally show ?thesis
    by (simp add: buffer_empty_def)
qed

subsection \<open>Reading\<close>

lemma store_bytes_law:
  assumes "store_bytes bs b = Inr b'" and "length (buf b) \<le> VECTOR_MAX"
  shows "buf b' = take (unat (br b)) (buf b) @ bs @ drop (unat (br b) + length bs) (buf b)"
    and "unat (br b') = unat (br b) + length bs"
    and "bp b' = bp b" "bw b' = bw b" "nms b' = nms b"
    and "unat (br b) + length bs \<le> length (buf b)"
  using assms
  by (auto simp: store_bytes_def VECTOR_MAX_def unat_word_ariths unat_of_nat split: if_splits)

lemma reserve_law:
  assumes "reserve n b = Inr b'" and "length (buf b) \<le> VECTOR_MAX"
  shows "length (buf b') \<le> VECTOR_MAX"
    and "br b' = br b" "bp b' = bp b" "bw b' = bw b" "nms b' = nms b"
    and "k \<le> length (buf b') \<Longrightarrow> k \<le> length (buf b) \<Longrightarrow> take k (buf b') = take k (buf b)"
  using assms
  by (auto simp: reserve_def vector_resize_def Let_def and_then_eq_Inr min_def split: if_splits)

text \<open>Whatever comes in is appended to the content; nothing else changes.\<close>

lemma receive_law:
  assumes "wf_buffer b" "reserve n b = Inr b1" "store_bytes bs b1 = Inr b2"
  shows "wf_buffer b2" and "content b2 = content b @ bs"
    and "bp b2 = bp b" "nms b2 = nms b" "bw b2 = bw b"
    and "unat (br b2) = unat (br b) + length bs"
proof -
  from assms(1) have len: "length (buf b) \<le> VECTOR_MAX"
    by (simp add: wf_buffer_def)
  note r = reserve_law [OF assms(2) len]
  note s = store_bytes_law [OF assms(3) r(1)]
  show eqs: "bp b2 = bp b" "nms b2 = nms b" "bw b2 = bw b"
    and br2: "unat (br b2) = unat (br b) + length bs"
    using r s by simp_all
  have pre: "take (unat (br b)) (buf b1) = take (unat (br b)) (buf b)"
    using assms(1) s(6) r(2,6) by (simp add: wf_buffer_def)
  have buf2: "buf b2 = take (unat (br b)) (buf b) @ bs @ drop (unat (br b) + length bs) (buf b1)"
    using s(1) pre r(2) by simp
  show "content b2 = content b @ bs"
    using assms(1) unfolding content_def buf2 eqs br2
    by (auto simp: wf_buffer_def drop_take min_absorb2)
  show "wf_buffer b2"
  proof -
    have "length (buf b2) = length (buf b1)"
      using s(6) assms(1) r(2) by (simp add: buf2 wf_buffer_def)
    moreover have "bw b2 = br b2 \<Longrightarrow> br b2 = 0"
      using assms(1) br2 eqs(3) unfolding wf_buffer_def
      by (metis add_is_0 add_leD1 le_add1 le_antisym unat_0 word_unat_eq_iff)
    ultimately show ?thesis
      using assms(1) r(1,2) s(6) br2 eqs by (auto simp: wf_buffer_def)
  qed
qed

lemma read_n_law:
  assumes "wf_buffer b" "read_n recv n b = Inr (b', k, None)"
  shows "\<exists>bs. recv n = Inr bs \<and> wf_buffer b' \<and> content b' = content b @ bs \<and>
    k = of_nat (length bs) \<and> bp b' = bp b \<and> nms b' = nms b"
proof -
  from assms(2) obtain b1 bs where "reserve n b = Inr b1" "recv n = Inr bs"
    and "store_bytes bs b1 = Inr b'" "k = of_nat (length bs)"
    by (cases "recv n") (auto simp: read_n_def and_then_eq_Inr map_res_eq_Inr)
  with receive_law [OF assms(1)] show ?thesis
    by blast
qed

lemma read_n_error:
  "read_n recv n b = Inr (b', k, Some err) \<Longrightarrow> k = 0 \<and> recv n = Inl err"
  by (cases "recv n") (auto simp: read_n_def and_then_eq_Inr map_res_eq_Inr)

text \<open>The allocation grows to the least multiple of the block size that is enough.\<close>

definition grown_length :: "nat \<Rightarrow> nat" where
  "grown_length n = (n + 2047) div 2048 * 2048"

lemma grown_length_ge: "n \<le> grown_length n"
  using div_mult_mod_eq [of "n + 2047" 2048] mod_less_divisor [of 2048 "n + 2047"]
  unfolding grown_length_def by linarith

lemma grown_length_less: "grown_length n < n + 2048"
  using div_mult_mod_eq [of "n + 2047" 2048] unfolding grown_length_def by linarith

lemma block_round: "(n::nat) + (2048 - n mod 2048) mod 2048 = grown_length n"
proof (cases "n mod 2048 = 0")
  case True
  then obtain q where "n = 2048 * q"
    by (metis mod_0_imp_dvd dvdE)
  then show ?thesis
    by (simp add: grown_length_def)
next
  case False
  define q r where "q = n div 2048" and "r = n mod 2048"
  have n: "n = 2048 * q + r"
    by (simp add: q_def r_def)
  have r: "0 < r" "r < 2048"
    using False by (simp_all add: r_def)
  have "(n + 2047) div 2048 = q + (r + 2047) div 2048"
    unfolding n by simp
  also have "(r + 2047) div 2048 = 1"
    using r by simp
  finally show ?thesis
    using r by (simp add: grown_length_def n)
qed

lemma reserve_grows:
  assumes wf: "wf_buffer b" and fits: "unat (br b) + unat n + 2048 \<le> VECTOR_MAX"
    and more: "n > capacity b"
  shows "reserve n b =
    Inr (b\<lparr>buf := buf b @ replicate (grown_length (unat (br b) + unat n) - length (buf b)) 0\<rparr>)"
proof -
  let ?m = "unat (br b) + unat n"
  define raw where "raw = buffer_length b + (n - capacity b)"
  have cap: "unat (capacity b) = length (buf b) - unat (br b)"
    using wf by (rule unat_capacity)
  have bl: "unat (buffer_length b) = length (buf b)"
    using wf by (simp add: unat_buffer_length wf_buffer_def)
  have "unat (n - capacity b) = unat n - unat (capacity b)"
    using more by (simp add: unat_sub word_le_nat_alt word_less_nat_alt)
  then have sum: "unat (buffer_length b) + unat (n - capacity b) = ?m"
    using more wf bl cap by (simp add: word_less_nat_alt wf_buffer_def)
  have raw: "unat raw = ?m"
    unfolding raw_def unat_word_ariths(1) sum using fits by (simp add: VECTOR_MAX_def)
  have modr: "unat (raw mod BLOCK_SZ) = ?m mod 2048"
    unfolding unat_mod_distrib raw by (simp add: BLOCK_SZ_def)
  then have "unat (BLOCK_SZ - raw mod BLOCK_SZ) = 2048 - ?m mod 2048"
    by (subst unat_sub) (simp_all add: word_le_nat_alt BLOCK_SZ_def)
  then have off: "unat ((BLOCK_SZ - raw mod BLOCK_SZ) mod BLOCK_SZ) = (2048 - ?m mod 2048) mod 2048"
    by (simp add: unat_mod_distrib BLOCK_SZ_def)
  have new: "unat (raw + (BLOCK_SZ - raw mod BLOCK_SZ) mod BLOCK_SZ) = grown_length ?m"
    unfolding unat_word_ariths(1) raw off block_round
    using grown_length_less [of ?m] fits by (simp add: VECTOR_MAX_def)
  have le: "length (buf b) \<le> grown_length ?m"
    using more cap wf grown_length_ge [of ?m] by (simp add: word_less_nat_alt wf_buffer_def)
  have small: "grown_length ?m \<le> VECTOR_MAX"
    using grown_length_less [of ?m] fits by simp
  let ?v = "buf b @ replicate (grown_length ?m - length (buf b)) 0"
  have res: "vector_resize (raw + (BLOCK_SZ - raw mod BLOCK_SZ) mod BLOCK_SZ) (buf b) = Inr ?v"
    using small le by (simp add: vector_resize_def new)
  have "unat (capacity (b\<lparr>buf := ?v\<rparr>)) = grown_length ?m - unat (br b)"
    using wf small le by (subst unat_capacity) (auto simp: wf_buffer_def)
  then have "n \<le> capacity (b\<lparr>buf := ?v\<rparr>)"
    using grown_length_ge [of ?m] by (simp add: word_le_nat_alt)
  then show ?thesis
    using more by (simp add: reserve_def Let_def res flip: raw_def)
qed

lemma reserve_total:
  assumes wf: "wf_buffer b" and fits: "unat (br b) + unat n + 2048 \<le> VECTOR_MAX"
  shows "\<exists>b'. reserve n b = Inr b' \<and> wf_buffer b' \<and> unat (br b) + unat n \<le> length (buf b')"
proof (cases "n > capacity b")
  case True
  let ?m = "unat (br b) + unat n"
  have "length (buf b) \<le> grown_length ?m" if "length (buf b) - unat (br b) < unat n"
    using that grown_length_ge [of ?m] by simp
  then have "length (buf b) \<le> grown_length ?m"
    using True unat_capacity [OF wf] by (simp add: word_less_nat_alt)
  then show ?thesis
    using reserve_grows [OF wf fits True] wf grown_length_ge [of ?m] grown_length_less [of ?m] fits
    by (auto simp: wf_buffer_def)
next
  case False
  then have "unat (br b) + unat n \<le> length (buf b)"
    using wf unat_capacity [OF wf] by (auto simp: word_le_nat_alt wf_buffer_def not_less)
  with False wf show ?thesis
    by (simp add: reserve_def)
qed

lemma read_n_total:
  assumes wf: "wf_buffer b" and fits: "unat (br b) + unat n + 2048 \<le> VECTOR_MAX"
    and recv: "recv n = Inr bs" "length bs \<le> unat n"
  shows "\<exists>b'. read_n recv n b = Inr (b', of_nat (length bs), None)"
proof -
  obtain b1 where r: "reserve n b = Inr b1" "unat (br b) + unat n \<le> length (buf b1)"
    using reserve_total [OF wf fits] by blast
  moreover have "br b1 = br b"
    using wf reserve_law(2) [OF r(1)] by (simp add: wf_buffer_def)
  ultimately have "\<exists>b2. store_bytes bs b1 = Inr b2"
    using recv(2) by (auto simp: store_bytes_def)
  with r(1) recv(1) show ?thesis
    by (auto simp: read_n_def)
qed

subsection \<open>Marking and writing\<close>

lemma setMessageSize_law:
  "setMessageSize n b = Inr b' \<Longrightarrow> b' = b\<lparr>nms := n\<rparr> \<and> n \<noteq> UNKNOWN_SZ \<and> \<not> messageSizeSet b"
  by (simp add: setMessageSize_def)

lemma wf_nms [simp]: "wf_buffer (b\<lparr>nms := n\<rparr>) = wf_buffer b"
  by (simp add: wf_buffer_def)

lemma content_nms [simp]: "content (b\<lparr>nms := n\<rparr>) = content b"
  by (simp add: content_def)

lemma markMessageParsed_law:
  assumes wf: "wf_buffer b" and fit: "unat (bp b) + unat (nms b) < 2 ^ 64"
    and mark: "markMessageParsed b = Inr b'"
  shows "wf_buffer b' \<and> content b' = content b \<and>
    unat (bp b') = unat (bp b) + unat (nms b) \<and> unat (bp b') \<le> length (content b) \<and>
    \<not> messageSizeSet b'"
proof -
  have sum: "unat (bp b + nms b) = unat (bp b) + unat (nms b)"
    using fit by (simp add: unat_word_ariths)
  have le: "unat (bp b) + unat (nms b) \<le> unat (br b) - unat (bw b)"
    using mark by (simp add: markMessageParsed_def word_le_nat_alt sum unat_buffer_size [OF wf])
  have b': "b' = b\<lparr>bp := bp b + nms b, nms := UNKNOWN_SZ\<rparr>"
    using mark by (simp add: markMessageParsed_def)
  show ?thesis
    using wf le length_content [OF wf] wf_bounds(1) [OF wf]
    by (auto simp: b' wf_buffer_def content_def sum messageSizeSet_def)
qed

lemma drain_law:
  assumes wf: "wf_buffer b" and n: "unat n \<le> unat (bp b)"
    and d: "clear_if_drained (b\<lparr>bw := bw b + n, bp := bp b - n\<rparr>) = Inr b'"
  shows "wf_buffer b'" and "content b' = drop (unat n) (content b)"
    and "unat (bp b') = unat (bp b) - unat n"
proof -
  have bwn: "unat (bw b + n) = unat (bw b) + unat n"
    using wf n wf_bounds [OF wf] by (auto simp: wf_buffer_def unat_word_ariths)
  have bpn: "unat (bp b - n) = unat (bp b) - unat n"
    using n by (simp add: unat_sub word_le_nat_alt)
  have all: "wf_buffer b' \<and> content b' = drop (unat n) (content b) \<and>
      unat (bp b') = unat (bp b) - unat n"
  proof (cases "bw b + n = br b")
    case True
    then have br: "unat (br b) = unat (bw b) + unat n"
      using bwn by simp
    then have "unat n = unat (bp b)"
      using wf n by (simp add: wf_buffer_def)
    moreover have "b' = b\<lparr>br := 0, nms := UNKNOWN_SZ, bp := 0, bw := 0\<rparr>"
      using d True by (simp add: clear_if_drained_def clear_def)
    ultimately show ?thesis
      using wf length_content [OF wf] br by (simp add: wf_buffer_def content_def)
  next
    case False
    then have b': "b' = b\<lparr>bw := bw b + n, bp := bp b - n\<rparr>"
      using d by (simp add: clear_if_drained_def)
    have "wf_buffer b'"
      using wf n False bwn unfolding b' wf_buffer_def by (simp add: bpn)
    moreover have "content b' = drop (unat n) (content b)"
    proof -
      have "drop (unat (bw b) + unat n) (buf b) = drop (unat n) (drop (unat (bw b)) (buf b))"
        by (simp add: add.commute)
      then show ?thesis
        unfolding b' content_def by (simp add: bwn drop_take)
    qed
    ultimately show ?thesis
      by (simp add: b' bpn)
  qed
  then show "wf_buffer b'" "content b' = drop (unat n) (content b)"
    "unat (bp b') = unat (bp b) - unat n"
    by simp_all
qed

lemma buffer_data_content:
  "wf_buffer b \<Longrightarrow> n \<le> length (content b) \<Longrightarrow> take n (buffer_data b) = take n (content b)"
  by (simp add: buffer_data_def content_def length_content min_absorb1)

lemma write_n_law:
  assumes wf: "wf_buffer b" and w: "write_n send n b = Inr (b', k, None)"
  shows "\<exists>out. send out = Inr n \<and> out = take (unat n) (content b) \<and> k = n \<and>
    n \<le> bp b \<and> wf_buffer b' \<and> content b' = drop (unat n) (content b) \<and>
    unat (bp b') = unat (bp b) - unat n"
proof -
  from w obtain out where le: "n \<le> bp b" and out: "read_bytes (buffer_data b) 0 (unat n) = Inr out"
    by (auto simp: write_n_def and_then_eq_Inr)
  from w le out have snd: "send out = Inr n" and k: "k = n"
    and d: "clear_if_drained (b\<lparr>bw := bw b + n, bp := bp b - n\<rparr>) = Inr b'"
    by (cases "send out"; auto simp: write_n_def map_res_eq_Inr)+
  have nle: "unat n \<le> unat (bp b)"
    using le by (simp add: word_le_nat_alt)
  have "unat n \<le> length (content b)"
    using nle wf length_content [OF wf] unfolding wf_buffer_def by linarith
  then have "out = take (unat n) (content b)"
    using out wf by (auto simp: read_bytes_def buffer_data_content split: if_splits)
  with snd k le drain_law [OF wf nle d] show ?thesis
    by auto
qed


subsection \<open>The buffer as a queue\<close>

text \<open>
  What the rest of the proxy does with a buffer: put in what the socket delivers, mark
  the message at the front of the unparsed bytes as parsed, and send off everything that
  is parsed. The interface promises that \<open>put\<close> appends, that \<open>mark\<close> only releases, and
  that \<open>flush\<close> takes exactly the released bytes from the front.
\<close>

datatype buffer_op = Receive size_t "byte list" | Mark size_t | Flush

fun received :: "buffer_op list \<Rightarrow> byte list" where
  "received [] = []"
| "received (Receive n bs # ops) = bs @ received ops"
| "received (Mark n # ops) = received ops"
| "received (Flush # ops) = received ops"

fun marked :: "buffer_op list \<Rightarrow> nat" where
  "marked [] = 0"
| "marked (Receive n bs # ops) = marked ops"
| "marked (Mark n # ops) = unat n + marked ops"
| "marked (Flush # ops) = marked ops"

locale message_queue =
  fixes inv :: "'b \<Rightarrow> bool"
    and queued :: "'b \<Rightarrow> byte list"
    and released :: "'b \<Rightarrow> nat"
    and put :: "size_t \<Rightarrow> byte list \<Rightarrow> 'b \<Rightarrow> 'b res"
    and mark :: "size_t \<Rightarrow> 'b \<Rightarrow> 'b res"
    and flush :: "'b \<Rightarrow> ('b \<times> byte list) res"
  assumes put_law: "inv b \<Longrightarrow> put n bs b = Inr b' \<Longrightarrow>
      inv b' \<and> queued b' = queued b @ bs \<and> released b' = released b"
    and mark_law: "inv b \<Longrightarrow> mark n b = Inr b' \<Longrightarrow>
      inv b' \<and> queued b' = queued b \<and> released b' \<le> released b + unat n"
    and flush_law: "inv b \<Longrightarrow> flush b = Inr (b', out) \<Longrightarrow>
      inv b' \<and> queued b = out @ queued b' \<and> length out = released b \<and> released b' = 0"
begin

definition op_step :: "buffer_op \<Rightarrow> 'b \<Rightarrow> ('b \<times> byte list) res" where
  "op_step oper b =
     (case oper of
        Receive n bs \<Rightarrow> map_res (\<lambda>b'. (b', [])) (put n bs b)
      | Mark n \<Rightarrow> map_res (\<lambda>b'. (b', [])) (mark n b)
      | Flush \<Rightarrow> flush b)"

fun run :: "buffer_op list \<Rightarrow> 'b \<Rightarrow> ('b \<times> byte list) res" where
  "run [] b = Inr (b, [])"
| "run (oper # ops) b =
     and_then (op_step oper b) (\<lambda>(b', out).
       map_res (\<lambda>(b'', out'). (b'', out @ out')) (run ops b'))"

lemma run_fifo:
  "inv b \<Longrightarrow> run ops b = Inr (b', sent) \<Longrightarrow>
   inv b' \<and> queued b @ received ops = sent @ queued b'"
proof (induction ops arbitrary: b sent)
  case (Cons oper ops)
  from Cons.prems(2) obtain b1 out out' where
      step: "op_step oper b = Inr (b1, out)" and rest: "run ops b1 = Inr (b', out')"
      and sent: "sent = out @ out'"
    by (auto simp: and_then_eq_Inr map_res_eq_Inr)
  have "inv b1 \<and> queued b @ received [oper] = out @ queued b1"
    using step put_law [OF Cons.prems(1)] mark_law [OF Cons.prems(1)] flush_law [OF Cons.prems(1)]
    by (cases oper) (auto simp: op_step_def map_res_eq_Inr)
  moreover have "received (oper # ops) = received [oper] @ received ops"
    by (cases oper) simp_all
  ultimately show ?case
    using Cons.IH [OF _ rest] sent by (metis append.assoc)
qed simp

lemma run_sends_marked:
  "inv b \<Longrightarrow> run ops b = Inr (b', sent) \<Longrightarrow>
   length sent + released b' \<le> released b + marked ops"
proof (induction ops arbitrary: b sent)
  case (Cons oper ops)
  from Cons.prems(2) obtain b1 out out' where
      step: "op_step oper b = Inr (b1, out)" and rest: "run ops b1 = Inr (b', out')"
      and sent: "sent = out @ out'"
    by (auto simp: and_then_eq_Inr map_res_eq_Inr)
  have "inv b1 \<and> length out + released b1 \<le> released b + marked [oper]"
    using step put_law [OF Cons.prems(1)] mark_law [OF Cons.prems(1)] flush_law [OF Cons.prems(1)]
    by (cases oper) (fastforce simp: op_step_def map_res_eq_Inr)+
  moreover have "marked (oper # ops) = marked [oper] + marked ops"
    by (cases oper) simp_all
  ultimately show ?case
    using Cons.IH [OF _ rest] sent by simp
qed simp

end

text \<open>The three operations on the model; \<open>recv\<close> delivers \<open>bs\<close>, \<open>send\<close> takes all.\<close>

definition buffer_put :: "size_t \<Rightarrow> byte list \<Rightarrow> socket_buffer \<Rightarrow> socket_buffer res" where
  "buffer_put n bs b = map_res fst (read_n (\<lambda>_. Inr bs) n b)"

definition buffer_mark :: "size_t \<Rightarrow> socket_buffer \<Rightarrow> socket_buffer res" where
  "buffer_mark n b = and_then (setMessageSize n b) markMessageParsed"

definition buffer_flush :: "socket_buffer \<Rightarrow> (socket_buffer \<times> byte list) res" where
  "buffer_flush b =
     map_res (\<lambda>(b', k, err). (b', take (unat k) (buffer_data b)))
       (write_all (\<lambda>out. Inr (of_nat (length out))) b)"

lemma buffer_put_law:
  assumes "wf_buffer b" "buffer_put n bs b = Inr b'"
  shows "wf_buffer b' \<and> content b' = content b @ bs \<and> unat (bp b') = unat (bp b)"
proof -
  from assms(2) obtain k e where r: "read_n (\<lambda>_. Inr bs) n b = Inr (b', k, e)"
    by (auto simp: buffer_put_def map_res_eq_Inr)
  then have "e = None"
    by (auto simp: read_n_def and_then_eq_Inr map_res_eq_Inr)
  with read_n_law [OF assms(1)] r show ?thesis
    by fastforce
qed

lemma buffer_mark_law:
  assumes wf: "wf_buffer b" and m: "buffer_mark n b = Inr b'"
  shows "wf_buffer b' \<and> content b' = content b \<and> unat (bp b') \<le> unat (bp b) + unat n"
proof -
  have b': "b' = b\<lparr>bp := bp b + n, nms := UNKNOWN_SZ\<rparr>" and le: "bp b + n \<le> buffer_size b"
    using m by (auto simp: buffer_mark_def and_then_eq_Inr markMessageParsed_def setMessageSize_def
      buffer_size_def)
  have "unat (bp b + n) \<le> unat (br b) - unat (bw b)"
    using le by (simp add: word_le_nat_alt unat_buffer_size [OF wf])
  moreover have "unat (bp b + n) \<le> unat (bp b) + unat n"
    by (simp add: unat_word_ariths)
  ultimately show ?thesis
    using wf unfolding b' by (auto simp: wf_buffer_def content_def)
qed

lemma buffer_flush_law:
  assumes wf: "wf_buffer b" and f: "buffer_flush b = Inr (b', out)"
  shows "wf_buffer b' \<and> content b = out @ content b' \<and> length out = unat (bp b) \<and> unat (bp b') = 0"
proof -
  from f obtain k e where w: "write_n (\<lambda>out. Inr (of_nat (length out))) (bp b) b = Inr (b', k, e)"
      and out: "out = take (unat k) (buffer_data b)"
    by (auto simp: buffer_flush_def write_all_def map_res_eq_Inr)
  from w have "e = None"
    by (auto simp: write_n_def and_then_eq_Inr map_res_eq_Inr)
  with write_n_law [OF wf] w have k: "k = bp b" and wf': "wf_buffer b'"
    and c: "content b' = drop (unat (bp b)) (content b)" and bp: "unat (bp b') = 0"
    by fastforce+
  have le: "unat (bp b) \<le> length (content b)"
    using wf length_content [OF wf] unfolding wf_buffer_def by linarith
  have "out = take (unat (bp b)) (content b)"
    using buffer_data_content [OF wf le] by (simp add: out k)
  with c bp wf' le show ?thesis
    by (simp add: min_absorb2)
qed

interpretation sb: message_queue wf_buffer content "\<lambda>b. unat (bp b)" buffer_put buffer_mark buffer_flush
  by unfold_locales
    (fact buffer_put_law buffer_mark_law buffer_flush_law)+

text \<open>A run of the three operations, written out over the model for the properties.\<close>

fun run_buffer :: "buffer_op list \<Rightarrow> socket_buffer \<Rightarrow> (socket_buffer \<times> byte list) res" where
  "run_buffer [] b = Inr (b, [])"
| "run_buffer (Receive n bs # ops) b = and_then (buffer_put n bs b) (run_buffer ops)"
| "run_buffer (Mark n # ops) b = and_then (buffer_mark n b) (run_buffer ops)"
| "run_buffer (Flush # ops) b =
     and_then (buffer_flush b) (\<lambda>(b', out).
       map_res (\<lambda>(b'', out'). (b'', out @ out')) (run_buffer ops b'))"

lemma run_buffer_run: "run_buffer ops b = sb.run ops b"
proof (induction ops b rule: run_buffer.induct)
  case (2 n bs ops b)
  then show ?case
    by (cases "buffer_put n bs b"; cases "\<exists>b'. buffer_put n bs b = Inr b'")
      (auto simp: sb.op_step_def map_res_def and_then_def split: sum.splits)
next
  case (3 n ops b)
  then show ?case
    by (cases "buffer_mark n b") (auto simp: sb.op_step_def map_res_def and_then_def split: sum.splits)
next
  case (4 ops b)
  then show ?case
    by (cases "buffer_flush b") (auto simp: sb.op_step_def)
qed simp

subsection \<open>Reading the rest of a message\<close>

text \<open>
  \<open>read( sockfd )\<close> asks for \<open>_next_message_sz - size()\<close> bytes, and \<open>size()\<close> counts the
  bytes that are parsed and not yet sent. When there are such bytes the subtraction is short
  by \<open>parsed()\<close>, or wraps.
\<close>

lemma read_all_request:
  assumes "wf_buffer b" "messageSizeSet b" "unat (buffer_size b) \<le> unat (nms b)"
  shows "read_all recv b = read_n recv (nms b - buffer_size b) b"
    and "unat (nms b - buffer_size b) = unat (nms b) - unat (buffer_size b)"
  using assms by (simp_all add: read_all_def unat_sub word_le_nat_alt)

lemma wrapped_request:
  assumes "wf_buffer b" "unat (nms b) < unat (buffer_size b)"
  shows "unat (nms b - buffer_size b) = 2 ^ 64 - (unat (buffer_size b) - unat (nms b))"
  using assms(2) by (simp add: unat_sub_if')

lemma wrapped_read_fails:
  assumes wf: "wf_buffer b" and less: "unat (nms b) < unat (buffer_size b)"
    and recv: "recv (nms b - buffer_size b) = Inr bs"
  shows "\<exists>e. read_n recv (nms b - buffer_size b) b = Inl e"
proof (rule ccontr)
  let ?n = "nms b - buffer_size b"
  assume "\<nexists>e. read_n recv ?n b = Inl e"
  then obtain b1 b2 where r: "reserve ?n b = Inr b1" and s: "store_bytes bs b1 = Inr b2"
    using recv by (cases "reserve ?n b"; cases "store_bytes bs (projr (reserve ?n b))")
      (auto simp: read_n_def)
  have len: "length (buf b) \<le> VECTOR_MAX" and brlen: "unat (br b) \<le> length (buf b)"
    using wf by (simp_all add: wf_buffer_def)
  note rl = reserve_law [OF r len]
  have n: "unat ?n = 2 ^ 64 - (unat (buffer_size b) - unat (nms b))"
    using wrapped_request [OF wf less] .
  have size: "unat (buffer_size b) = unat (br b) - unat (bw b)"
    using unat_buffer_size [OF wf] .
  note bnd = wf_bounds [OF wf]
  have big: "2 ^ 63 < unat ?n"
    using size bnd(2) unfolding n by simp
  have "unat (capacity b) < 2 ^ 63"
    using unat_capacity [OF wf] bnd by linarith
  then have more: "?n > capacity b"
    using big by (simp add: word_less_nat_alt)
  then have "capacity b1 \<ge> ?n"
    using r by (auto simp: reserve_def Let_def and_then_eq_Inr)
  then have cap: "2 ^ 63 < unat (capacity b1)"
    using big by (simp add: word_le_nat_alt)
  have "unat (br b1) \<le> length (buf b1)"
    using s store_bytes_law(6) [OF s rl(1)] by simp
  then have "unat (capacity b1) \<le> length (buf b1)"
    using rl(1) by (simp add: capacity_def unat_sub word_le_nat_alt unat_buffer_length)
  moreover have "length (buf b1) < 2 ^ 63"
    using VECTOR_MAX_bound [OF rl(1)] .
  ultimately show False
    using cap by linarith
qed

lemma read_all_stays_incomplete:
  assumes wf: "wf_buffer b" and set: "messageSizeSet b" and p: "0 < bp b"
    and r: "read_all recv b = Inr (b', k, None)"
    and recv: "\<And>n bs. recv n = Inr bs \<Longrightarrow> length bs \<le> unat n"
  shows "unat (unparsed b') < unat (messageSize b')"
proof (cases "unat (buffer_size b) \<le> unat (nms b)")
  case True
  let ?n = "nms b - buffer_size b"
  have "read_n recv ?n b = Inr (b', k, None)"
    using r read_all_request(1) [OF wf set True] by simp
  then obtain bs where bs: "recv ?n = Inr bs" "wf_buffer b'" "content b' = content b @ bs"
      "bp b' = bp b" "nms b' = nms b"
    using read_n_law [OF wf] by blast
  have "unat (buffer_size b') = unat (buffer_size b) + length bs"
    using arg_cong [OF bs(3), of length] length_content [OF wf] length_content [OF bs(2)]
    by (simp add: unat_buffer_size wf bs(2))
  also have "\<dots> \<le> unat (nms b)"
    using recv [OF bs(1)] read_all_request(2) [OF wf set True] True by linarith
  finally have "unat (buffer_size b') \<le> unat (nms b)" .
  moreover have "unat (unparsed b') = unat (buffer_size b') - unat (bp b)"
    using bs(2,4) by (simp add: unat_unparsed unat_buffer_size)
  moreover have "0 < unat (bp b)" "unat (bp b) \<le> unat (buffer_size b')"
    using p bs(2,4) by (auto simp: unat_gt_0 wf_buffer_def unat_buffer_size)
  ultimately show ?thesis
    using bs(5) by (simp add: messageSize_def)
next
  case False
  then have "unat (nms b) < unat (buffer_size b)"
    by simp
  moreover obtain bs where "recv (nms b - buffer_size b) = Inr bs"
    using r set by (cases "recv (nms b - buffer_size b)")
      (auto simp: read_all_def read_n_def and_then_eq_Inr)
  ultimately obtain e where "read_n recv (nms b - buffer_size b) b = Inl e"
    using wrapped_read_fails [OF wf] by blast
  with r set show ?thesis
    by (simp add: read_all_def)
qed

subsection \<open>Properties\<close>


lemma fifo_example:
  "run_buffer [Receive 3 [7, 8, 9], Mark 2, Flush] SocketBuffer_new =
     Inr (\<lparr>buf = [7, 8, 9] @ replicate 2045 0, br = 3, bp = 0, bw = 2, nms = UNKNOWN_SZ\<rparr>, [7, 8])"
  by (simp add: buffer_put_def read_n_def reserve_def capacity_def buffer_length_def
    SocketBuffer_new_def BLOCK_SZ_def store_bytes_def buffer_mark_def setMessageSize_def
    markMessageParsed_def messageSizeSet_def UNKNOWN_SZ_def buffer_size_def buffer_flush_def
    write_all_def write_n_def buffer_data_def clear_if_drained_def)


text \<open>
  Only parsed bytes leave the proxy: what was sent is never longer than the messages that
  were marked as parsed.
\<close>

lemma only_parsed_is_sent:
  "run_buffer ops SocketBuffer_new = Inr (b', sent) \<Longrightarrow> length sent \<le> marked ops"
  using sb.run_sends_marked [OF wf_SocketBuffer_new, of ops b' sent]
  by (simp add: run_buffer_run SocketBuffer_new_def)

text \<open>
  \<open>read( sockfd, n )\<close> always finds room: as long as the content is far from the maximal
  size of a vector, a receive of at most \<open>n\<close> bytes succeeds, appends the bytes to the content
  and keeps the buffer well formed.
\<close>

theorem read_n_appends:
  assumes "wf_buffer b" and "unat (br b) + unat n + 2048 \<le> VECTOR_MAX"
    and "recv n = Inr bs" and "length bs \<le> unat n"
  shows "\<exists>b'. read_n recv n b = Inr (b', of_nat (length bs), None) \<and> wf_buffer b' \<and>
    content b' = content b @ bs \<and> bp b' = bp b \<and> nms b' = nms b"
proof -
  obtain b' where r: "read_n recv n b = Inr (b', of_nat (length bs), None)"
    using read_n_total [OF assms(1,2), of recv bs] assms(3,4) by blast
  with read_n_law [OF assms(1) r] assms(3) show ?thesis
    by auto
qed

theorem read_n_appends_witness:
  "\<exists>b'. read_n (\<lambda>_. Inr [5, 6]) 4000 SocketBuffer_new = Inr (b', of_nat (length [5 :: byte, 6]), None) \<and>
    wf_buffer b' \<and> content b' = content SocketBuffer_new @ [5, 6] \<and>
    bp b' = bp SocketBuffer_new \<and> nms b' = nms SocketBuffer_new"
  by (rule read_n_appends)
    (rule wf_SocketBuffer_new, simp_all add: SocketBuffer_new_def VECTOR_MAX_def)

text \<open>
  When the free space is too small for \<open>n\<close> bytes, the allocation grows to the least
  multiple of 2048 that holds the bytes read so far and \<open>n\<close> more; what was in it stays, the
  new bytes are zero.
\<close>

theorem reserve_to_block:
  assumes "wf_buffer b" and "unat (br b) + unat n + 2048 \<le> VECTOR_MAX" and "n > capacity b"
  shows "\<exists>m. reserve n b = Inr (b\<lparr>buf := buf b @ replicate (m - length (buf b)) 0\<rparr>) \<and>
    2048 dvd m \<and> unat (br b) + unat n \<le> m \<and> m < unat (br b) + unat n + 2048"
  using reserve_grows [OF assms] grown_length_ge [of "unat (br b) + unat n"]
    grown_length_less [of "unat (br b) + unat n"]
  by (intro exI [of _ "grown_length (unat (br b) + unat n)"]) (simp add: grown_length_def)

theorem reserve_to_block_witness:
  "\<exists>m. reserve 3000 SocketBuffer_new =
      Inr (SocketBuffer_new\<lparr>buf := buf SocketBuffer_new @ replicate (m - length (buf SocketBuffer_new)) 0\<rparr>) \<and>
    2048 dvd m \<and> unat (br SocketBuffer_new) + unat (3000 :: size_t) \<le> m \<and>
    m < unat (br SocketBuffer_new) + unat (3000 :: size_t) + 2048"
  by (rule reserve_to_block)
    (rule wf_SocketBuffer_new, simp_all add: SocketBuffer_new_def VECTOR_MAX_def capacity_def
      buffer_length_def BLOCK_SZ_def word_less_nat_alt)



text \<open>
  A \<open>send(2)\<close> that takes fewer bytes than it was given, which a socket may do at any
  time, ends the program by a failed assertion.
\<close>

theorem partial_send_aborts:
  assumes "wf_buffer b" and "n \<le> bp b"
    and "send (take (unat n) (content b)) = Inr k" and "k \<noteq> n"
  shows "write_n send n b = Inl Assertion_failure"
proof -
  have "unat n \<le> length (content b)"
    using assms(1,2) length_content [OF assms(1)] unfolding wf_buffer_def word_le_nat_alt by linarith
  moreover from this have "unat n \<le> length (buffer_data b)"
    by (simp add: content_def buffer_data_def)
  ultimately show ?thesis
    using assms buffer_data_content [OF assms(1), of "unat n"]
    by (simp add: write_n_def)
qed

theorem partial_send_aborts_witness:
  "write_n (\<lambda>out. Inr 1) 2 \<lparr>buf = replicate 2048 0, br = 3, bp = 2, bw = 0, nms = UNKNOWN_SZ\<rparr> =
     Inl Assertion_failure"
  by (rule partial_send_aborts [where k = 1]) (simp_all add: wf_buffer_def VECTOR_MAX_def)

end
