(* ===== verification/Conn.thy ===== *)
theory Conn
  imports SocketBuf
begin

text \<open>
  \<open>class Connection\<close> (\<open>Connection.hpp\<close>, \<open>Connection.cpp\<close>): the state of one client
  connection. Sequence numbers are \<open>uint16_t\<close> and wrap after 65536 requests. The map
  of open requests is \<open>std::unordered_map\<close>, whose \<open>emplace\<close> leaves an entry that is
  already there as it is.
\<close>

datatype status = UNESTABLISHED | OPEN | CLOSED | FAILED | AUTHENTICATION

record request_opcodes =
  major :: byte
  minor :: byte

record connection =
  request_opcodes_by_seq_num :: "16 word \<rightharpoonup> request_opcodes"
  extensions :: "string \<rightharpoonup> bool"
  conn_id :: "32 word"
  start_time :: "64 word"
  client_desc :: string
  client_fd :: int
  client_buffer :: socket_buffer
  server_fd :: int
  server_buffer :: socket_buffer
  sequence :: "16 word"
  byteswap :: bool
  conn_status :: status

definition FD_CLOSED :: int where
  "FD_CLOSED = - 1"

definition big_requests_name :: string where
  "big_requests_name = ''BIG-REQUESTS''"

text \<open>
  The constructor takes the next serial number (the static \<open>_next_id\<close>, returned
  incremented) and the current time.
\<close>

definition Connection_new :: "32 word \<Rightarrow> 64 word \<Rightarrow> connection \<times> 32 word" where
  "Connection_new next_id now =
     (\<lparr>request_opcodes_by_seq_num = Map.empty,
       extensions = [big_requests_name \<mapsto> False],
       conn_id = next_id, start_time = now, client_desc = [],
       client_fd = FD_CLOSED, client_buffer = SocketBuffer_new,
       server_fd = FD_CLOSED, server_buffer = SocketBuffer_new,
       sequence = 0, byteswap = False, conn_status = UNESTABLISHED\<rparr>,
      next_id + 1)"

definition clientSideClosed :: "connection \<Rightarrow> bool" where
  "clientSideClosed c = (client_fd c = FD_CLOSED)"

definition clientSideOpen :: "connection \<Rightarrow> bool" where
  "clientSideOpen c = (client_fd c \<noteq> FD_CLOSED)"

definition serverSideClosed :: "connection \<Rightarrow> bool" where
  "serverSideClosed c = (server_fd c = FD_CLOSED)"

definition serverSideOpen :: "connection \<Rightarrow> bool" where
  "serverSideOpen c = (server_fd c \<noteq> FD_CLOSED)"

text \<open>\<open>close(2)\<close> is the argument \<open>close\<close>: whether it succeeds on a descriptor.\<close>

definition closeClientSide :: "(int \<Rightarrow> bool) \<Rightarrow> connection \<Rightarrow> connection res" where
  "closeClientSide close c =
     (if clientSideClosed c then Inr c
      else if \<not> close (client_fd c) then Inl (Exit 1)
      else Inr (c\<lparr>client_fd := FD_CLOSED\<rparr>))"

definition closeServerSide :: "(int \<Rightarrow> bool) \<Rightarrow> connection \<Rightarrow> connection res" where
  "closeServerSide close c =
     (if serverSideClosed c then Inr c
      else if \<not> close (server_fd c) then Inl (Exit 1)
      else Inr (c\<lparr>server_fd := FD_CLOSED\<rparr>))"

definition emplace :: "'k \<Rightarrow> 'v \<Rightarrow> ('k \<rightharpoonup> 'v) \<Rightarrow> ('k \<rightharpoonup> 'v)" where
  \<comment> \<open>\<open>std::unordered_map::emplace\<close>\<close>
  "emplace k v m = (case m k of None \<Rightarrow> m(k \<mapsto> v) | Some _ \<Rightarrow> m)"

definition registerRequest :: "byte \<Rightarrow> byte \<Rightarrow> connection \<Rightarrow> connection \<times> 16 word" where
  "registerRequest mj mn c =
     (let s = sequence c + 1
      in (c\<lparr>sequence := s,
            request_opcodes_by_seq_num :=
              emplace s \<lparr>major = mj, minor = mn\<rparr> (request_opcodes_by_seq_num c)\<rparr>, s))"

definition lookupRequest :: "16 word \<Rightarrow> connection \<Rightarrow> request_opcodes res" where
  "lookupRequest seq_num c = lookup_at (request_opcodes_by_seq_num c) seq_num"

definition unregisterRequest :: "16 word \<Rightarrow> connection \<Rightarrow> connection" where
  "unregisterRequest seq_num c =
     c\<lparr>request_opcodes_by_seq_num := (request_opcodes_by_seq_num c)(seq_num := None)\<rparr>"

definition set_extension :: "string \<Rightarrow> bool \<Rightarrow> connection \<Rightarrow> connection" where
  \<comment> \<open>a toggle that exists is set, any other name is ignored\<close>
  "set_extension name on c =
     (case extensions c name of
        None \<Rightarrow> c
      | Some _ \<Rightarrow> c\<lparr>extensions := (extensions c)(name \<mapsto> on)\<rparr>)"

definition enableExtension :: "string \<Rightarrow> connection \<Rightarrow> connection" where
  "enableExtension name c = set_extension name True c"

definition extensionEnabled :: "string \<Rightarrow> connection \<Rightarrow> bool" where
  "extensionEnabled name c = (case extensions c name of None \<Rightarrow> False | Some on \<Rightarrow> on)"

definition disableExtension :: "string \<Rightarrow> connection \<Rightarrow> connection" where
  "disableExtension name c = set_extension name False c"

subsection \<open>Open requests\<close>

abbreviation open_requests :: "connection \<Rightarrow> (16 word \<rightharpoonup> request_opcodes)" where
  "open_requests \<equiv> request_opcodes_by_seq_num"

lemma emplace_fresh [simp]: "m k = None \<Longrightarrow> emplace k v m = m(k \<mapsto> v)"
  by (simp add: emplace_def)

lemma emplace_taken [simp]: "m k = Some w \<Longrightarrow> emplace k v m = m"
  by (simp add: emplace_def)

lemma emplace_keeps: "m k' = Some w \<Longrightarrow> emplace k v m k' = Some w"
  by (auto simp: emplace_def split: option.splits)

lemma emplace_other [simp]: "k' \<noteq> k \<Longrightarrow> emplace k v m k' = m k'"
  by (simp add: emplace_def split: option.splits)

lemma registerRequest_lookup:
  assumes "registerRequest mj mn c = (c', s)" and "open_requests c (sequence c + 1) = None"
  shows "lookupRequest s c' = Inr \<lparr>major = mj, minor = mn\<rparr>"
  using assms by (auto simp: registerRequest_def Let_def lookupRequest_def)

lemma unregisterRequest_lookup:
  "lookupRequest s (unregisterRequest s' c) = (if s = s' then Inl Out_of_range else lookupRequest s c)"
  by (simp add: lookupRequest_def unregisterRequest_def lookup_at_def)

text \<open>Requests in a row, none of them answered.\<close>

fun register_all :: "(byte \<times> byte) list \<Rightarrow> connection \<Rightarrow> connection" where
  "register_all [] c = c"
| "register_all ((mj, mn) # rs) c = register_all rs (fst (registerRequest mj mn c))"

lemma registerRequest_sequence [simp]: "sequence (fst (registerRequest mj mn c)) = sequence c + 1"
  by (simp add: registerRequest_def Let_def)

lemma register_all_sequence: "sequence (register_all rs c) = sequence c + of_nat (length rs)"
  by (induction rs c rule: register_all.induct) (simp_all add: algebra_simps)

lemma register_all_keeps:
  "open_requests c k = Some v \<Longrightarrow> open_requests (register_all rs c) k = Some v"
  by (induction rs c rule: register_all.induct)
    (simp_all add: registerRequest_def Let_def emplace_keeps)

lemma register_all_entry:
  assumes "i < length rs" and "i < 2 ^ 16"
    and "\<And>j. j \<le> i \<Longrightarrow> open_requests c (sequence c + of_nat (Suc j)) = None"
  shows "open_requests (register_all rs c) (sequence c + of_nat (Suc i)) =
    Some \<lparr>major = fst (rs ! i), minor = snd (rs ! i)\<rparr>"
  using assms
proof (induction rs c arbitrary: i rule: register_all.induct)
  case (2 mj mn rs c)
  let ?c = "fst (registerRequest mj mn c)"
  show ?case
  proof (cases i)
    case 0
    then have "open_requests ?c (sequence c + 1) = Some \<lparr>major = mj, minor = mn\<rparr>"
      using "2.prems"(3) [of 0] by (simp add: registerRequest_def Let_def)
    with 0 show ?thesis
      using register_all_keeps by simp
  next
    case (Suc i')
    have free: "open_requests ?c (sequence ?c + of_nat (Suc j)) = None" if "j \<le> i'" for j
    proof -
      have "Suc j < 2 ^ 16"
        using that Suc "2.prems"(2) by simp
      then have "unat (of_nat (Suc j) :: 16 word) = Suc j"
        by (simp add: unat_of_nat take_bit_nat_def del: of_nat_Suc)
      then have "(of_nat (Suc j) :: 16 word) \<noteq> 0"
        by (metis unat_0 nat.distinct(1))
      then have "sequence c + 1 + of_nat (Suc j) \<noteq> sequence c + 1"
        by simp
      moreover have "open_requests c (sequence c + 1 + of_nat (Suc j)) = None"
        using "2.prems"(3) [of "Suc j"] that Suc by (simp add: algebra_simps)
      ultimately show ?thesis
        by (simp add: registerRequest_def Let_def del: of_nat_Suc)
    qed
    have "open_requests (register_all rs ?c) (sequence ?c + of_nat (Suc i')) =
        Some \<lparr>major = fst (rs ! i'), minor = snd (rs ! i')\<rparr>"
      using "2.prems"(1,2) Suc free by (intro "2.IH") simp_all
    then show ?thesis
      using Suc by (simp add: algebra_simps)
  qed
qed simp

subsection \<open>Extension toggles\<close>

lemma extensionEnabled_set:
  "extensionEnabled name (set_extension name' on c) =
     (if name = name' \<and> extensions c name \<noteq> None then on else extensionEnabled name c)"
  by (auto simp: extensionEnabled_def set_extension_def split: option.splits)

subsection \<open>Properties\<close>



text \<open>
  An entry that is not removed is never replaced: after 65536 further requests the
  sequence number of the latest one still finds the opcodes of the old one, so the reply to the
  latest request is taken for a reply to the old one.
\<close>

theorem stale_request_shadows:
  assumes "length rs = 2 ^ 16 + Suc i" and "i < 2 ^ 16"
    and "c = register_all rs (fst (Connection_new cid now))"
  shows "lookupRequest (sequence c) c = Inr \<lparr>major = fst (rs ! i), minor = snd (rs ! i)\<rparr>"
proof -
  have "sequence c = of_nat (2 ^ 16 + Suc i)"
    by (simp add: assms(3) register_all_sequence assms(1) Connection_new_def del: of_nat_Suc)
  also have "\<dots> = of_nat (2 ^ 16) + of_nat (Suc i)"
    by (rule of_nat_add)
  also have "(of_nat (2 ^ 16) :: 16 word) = 0"
    by simp
  finally have "sequence c = of_nat (Suc i)"
    by simp
  then show ?thesis
    using register_all_entry [of i rs "fst (Connection_new cid now)"] assms
    by (simp add: lookupRequest_def Connection_new_def)
qed

theorem stale_request_shadows_witness:
  "lookupRequest
     (sequence (register_all ((98 :: byte, 0 :: byte) # replicate (2 ^ 16) (43, 0)) (fst (Connection_new 1 0))))
     (register_all ((98 :: byte, 0 :: byte) # replicate (2 ^ 16) (43, 0)) (fst (Connection_new 1 0))) =
   Inr \<lparr>major = fst (((98 :: byte, 0 :: byte) # replicate (2 ^ 16) (43, 0)) ! 0),
        minor = snd (((98 :: byte, 0 :: byte) # replicate (2 ^ 16) (43, 0)) ! 0)\<rparr>"
  by (rule stale_request_shadows [OF _ _ refl]) simp_all

end
