(* ===== verification/SettingsModel.thy ===== *)
theory SettingsModel
  imports Conn
begin

text \<open>
  \<open>class Settings\<close> (\<open>Settings.hpp\<close>, \<open>Settings.cpp\<close>). The command line is the list of
  options \<open>getopt_long(3)\<close> reports, one \<open>opt\<close> per turn of the loop with its \<open>optarg\<close>;
  \<open>fopen\<close> and \<open>setvbuf\<close> are arguments that say whether the call succeeds. What is
  printed before an \<open>exit\<close> is left out.
\<close>

datatype opt =
    Opt_d string | Opt_D string | Opt_k | Opt_e string | Opt_E string | Opt_w | Opt_u
  | Opt_o string | Opt_m | Opt_v | Opt_s | Opt_p | Opt_help
  | Opt_error  \<comment> \<open>\<open>':'\<close>, \<open>'?'\<close> and anything else\<close>

record settings =
  readwritedebug :: bool
  copyauth :: bool
  keeprunning :: bool
  multiline :: bool
  verbose :: bool
  systemtimeformat :: bool
  prefetchatoms :: bool
  unbuffered :: bool
  log_path :: "string option"
  out_displayname :: "string option"
  in_displayname :: "string option"
  ref_TIMESTAMP :: "32 word"
  ref_unix_time :: int
  allowed_extensions :: "string set"

definition recognized_extensions :: "string set" where
  "recognized_extensions = {big_requests_name}"

definition EXT_ALL :: string where
  "EXT_ALL = ''all''"

definition Settings_default :: settings where
  "Settings_default =
     \<lparr>readwritedebug = False, copyauth = True, keeprunning = False, multiline = False,
      verbose = False, systemtimeformat = False, prefetchatoms = False, unbuffered = False,
      log_path = None, out_displayname = None, in_displayname = None,
      ref_TIMESTAMP = 0, ref_unix_time = 0, allowed_extensions = recognized_extensions\<rparr>"

definition extensionDenied :: "settings \<Rightarrow> string \<Rightarrow> bool" where
  "extensionDenied S name = (name \<notin> allowed_extensions S)"

definition validateExtensionName :: "string \<Rightarrow> unit res" where
  \<comment> \<open>a name that is not recognized ends the program; the scores of the partial
     matches only go into the message\<close>
  "validateExtensionName name =
     (if name \<in> recognized_extensions then Inr () else Inl (Exit 1))"

fun optarg :: "opt \<Rightarrow> string option" where
  "optarg (Opt_d a) = Some a"
| "optarg (Opt_D a) = Some a"
| "optarg (Opt_e a) = Some a"
| "optarg (Opt_E a) = Some a"
| "optarg (Opt_o a) = Some a"
| "optarg _ = None"

definition begins_with_dash :: "string option \<Rightarrow> bool" where
  "begins_with_dash a = (case a of Some (c # _) \<Rightarrow> c = CHR ''-'' | _ \<Rightarrow> False)"

text \<open>
  The loop's state: the settings with \<open>enabled_extensions\<close> and \<open>disabled_extensions\<close>.
\<close>

type_synonym argv_state = "settings \<times> string set \<times> string set"

fun parse_opt :: "(string \<Rightarrow> bool) \<Rightarrow> opt \<Rightarrow> argv_state \<Rightarrow> argv_state res" where
  "parse_opt fopen (Opt_d a) (S, en, dis) = Inr (S\<lparr>out_displayname := Some a\<rparr>, en, dis)"
| "parse_opt fopen (Opt_D a) (S, en, dis) = Inr (S\<lparr>in_displayname := Some a\<rparr>, en, dis)"
| "parse_opt fopen Opt_k (S, en, dis) = Inr (S\<lparr>keeprunning := True\<rparr>, en, dis)"
| "parse_opt fopen (Opt_e a) (S, en, dis) =
     (if en \<noteq> {} then Inl (Exit 1)
      else if a = EXT_ALL then Inr (S, en, recognized_extensions)
      else map_res (\<lambda>_. (S, en, insert a dis)) (validateExtensionName a))"
| "parse_opt fopen (Opt_E a) (S, en, dis) =
     (if dis \<noteq> {} then Inl (Exit 1)
      else map_res (\<lambda>_. (S, insert a en, dis)) (validateExtensionName a))"
| "parse_opt fopen Opt_w (S, en, dis) = Inr (S\<lparr>readwritedebug := True\<rparr>, en, dis)"
| "parse_opt fopen Opt_u (S, en, dis) = Inr (S\<lparr>unbuffered := True\<rparr>, en, dis)"
| "parse_opt fopen (Opt_o a) (S, en, dis) =
     (if log_path S \<noteq> None then Inl (Exit 1)
      else require (a \<noteq> []) (
        if fopen a then Inr (S\<lparr>log_path := Some a\<rparr>, en, dis) else Inl (Exit 1)))"
| "parse_opt fopen Opt_m (S, en, dis) = Inr (S\<lparr>multiline := True\<rparr>, en, dis)"
| "parse_opt fopen Opt_v (S, en, dis) = Inr (S\<lparr>verbose := True\<rparr>, en, dis)"
| "parse_opt fopen Opt_s (S, en, dis) = Inr (S\<lparr>systemtimeformat := True\<rparr>, en, dis)"
| "parse_opt fopen Opt_p (S, en, dis) = Inr (S\<lparr>prefetchatoms := True\<rparr>, en, dis)"
| "parse_opt fopen Opt_help (S, en, dis) = Inl (Exit 0)"
| "parse_opt fopen Opt_error (S, en, dis) = Inl (Exit 1)"

fun parse_opts :: "(string \<Rightarrow> bool) \<Rightarrow> opt list \<Rightarrow> argv_state \<Rightarrow> argv_state res" where
  "parse_opts fopen [] st = Inr st"
| "parse_opts fopen (c # cs) st =
     (if begins_with_dash (optarg c) then Inl (Exit 1)
      else and_then (parse_opt fopen c st) (parse_opts fopen cs))"

definition apply_extension_options :: "argv_state \<Rightarrow> settings" where
  "apply_extension_options = (\<lambda>(S, en, dis).
     let allowed = allowed_extensions S - dis
     in S\<lparr>allowed_extensions :=
            (if en \<noteq> {} then allowed - (recognized_extensions - en) else allowed)\<rparr>)"

definition parseFromArgv :: "(string \<Rightarrow> bool) \<Rightarrow> bool \<Rightarrow> opt list \<Rightarrow> settings \<Rightarrow> settings res" where
  "parseFromArgv fopen setvbuf_ok opts S0 =
     and_then (parse_opts fopen opts (S0, {}, {})) (\<lambda>st.
       let S = apply_extension_options st
       in if unbuffered S \<and> \<not> setvbuf_ok then Inl (Exit 1) else Inr S)"

subsection \<open>What the extension options mean\<close>

fun denied_by :: "opt \<Rightarrow> string set" where
  "denied_by (Opt_e a) = (if a = EXT_ALL then recognized_extensions else {a})"
| "denied_by _ = {}"

fun allowed_by :: "opt \<Rightarrow> string set" where
  "allowed_by (Opt_E a) = {a}"
| "allowed_by _ = {}"

lemma EXT_ALL_not_recognized: "EXT_ALL \<notin> recognized_extensions"
  by (simp add: EXT_ALL_def recognized_extensions_def big_requests_name_def)

lemma validateExtensionName_eq_Inr [simp]:
  "validateExtensionName a = Inr u \<longleftrightarrow> a \<in> recognized_extensions"
  by (simp add: validateExtensionName_def)

lemma parse_opt_sets:
  assumes "parse_opt fopen c (S, en, dis) = Inr (S', en', dis')"
    and "en \<subseteq> recognized_extensions" "dis \<subseteq> recognized_extensions" "en = {} \<or> dis = {}"
  shows "en' = en \<union> allowed_by c \<and> dis' = dis \<union> denied_by c \<and>
    allowed_extensions S' = allowed_extensions S \<and>
    en' \<subseteq> recognized_extensions \<and> dis' \<subseteq> recognized_extensions \<and> (en' = {} \<or> dis' = {})"
  using assms by (cases c) (auto simp: map_res_eq_Inr split: if_splits)

lemma parse_opts_sets:
  assumes "parse_opts fopen cs (S, en, dis) = Inr (S', en', dis')"
    and "en \<subseteq> recognized_extensions" "dis \<subseteq> recognized_extensions" "en = {} \<or> dis = {}"
  shows "en' = en \<union> (\<Union>c \<in> set cs. allowed_by c) \<and>
    dis' = dis \<union> (\<Union>c \<in> set cs. denied_by c) \<and>
    allowed_extensions S' = allowed_extensions S \<and> (en' = {} \<or> dis' = {})"
  using assms
proof (induction cs arbitrary: S en dis)
  case (Cons c cs)
  from Cons.prems(1) obtain S1 en1 dis1 where
    step: "parse_opt fopen c (S, en, dis) = Inr (S1, en1, dis1)"
    and rest: "parse_opts fopen cs (S1, en1, dis1) = Inr (S', en', dis')"
    by (auto simp: and_then_eq_Inr split: if_splits)
  from parse_opt_sets [OF step Cons.prems(2-4)] Cons.IH [OF rest] show ?case
    by auto
qed auto

subsection \<open>Properties\<close>

text \<open>
  C34: When the command line is accepted, an extension is denied exactly if it is not one the
  program recognizes, or was named with \<open>-e\<close>, or \<open>-E\<close> was used and never named it; and
  \<open>-e\<close> and \<open>-E\<close> were not both used.
\<close>

theorem extension_options:
  assumes "parseFromArgv fopen setvbuf_ok opts Settings_default = Inr S"
  shows "(extensionDenied S name \<longleftrightarrow>
      name \<notin> recognized_extensions \<or> name \<in> (\<Union>c \<in> set opts. denied_by c) \<or>
      (\<Union>c \<in> set opts. allowed_by c) \<noteq> {} \<and> name \<notin> (\<Union>c \<in> set opts. allowed_by c)) \<and>
    ((\<Union>c \<in> set opts. denied_by c) = {} \<or> (\<Union>c \<in> set opts. allowed_by c) = {})"
proof -
  from assms obtain S1 en dis where run: "parse_opts fopen opts (Settings_default, {}, {}) = Inr (S1, en, dis)"
    and S: "S = apply_extension_options (S1, en, dis)"
    by (auto simp: parseFromArgv_def and_then_eq_Inr Let_def split: if_splits)
  from parse_opts_sets [OF run]
  have sets: "en = (\<Union>c \<in> set opts. allowed_by c)" "dis = (\<Union>c \<in> set opts. denied_by c)"
    "allowed_extensions S1 = recognized_extensions" "en = {} \<or> dis = {}"
    by (auto simp: Settings_default_def)
  show ?thesis
    unfolding sets(1,2) [symmetric] using sets(3,4)
    by (auto simp: S extensionDenied_def apply_extension_options_def Let_def)
qed

theorem extension_options_witness:
  "\<exists>S. (extensionDenied S big_requests_name \<longleftrightarrow>
      big_requests_name \<notin> recognized_extensions \<or>
      big_requests_name \<in> (\<Union>c \<in> set [Opt_v, Opt_e EXT_ALL]. denied_by c) \<or>
      (\<Union>c \<in> set [Opt_v, Opt_e EXT_ALL]. allowed_by c) \<noteq> {} \<and>
      big_requests_name \<notin> (\<Union>c \<in> set [Opt_v, Opt_e EXT_ALL]. allowed_by c)) \<and>
    ((\<Union>c \<in> set [Opt_v, Opt_e EXT_ALL]. denied_by c) = {} \<or>
     (\<Union>c \<in> set [Opt_v, Opt_e EXT_ALL]. allowed_by c) = {})"
proof -
  obtain S where "parseFromArgv (\<lambda>_. True) True [Opt_v, Opt_e EXT_ALL] Settings_default = Inr S"
    by (simp add: parseFromArgv_def begins_with_dash_def EXT_ALL_def apply_extension_options_def
      Let_def Settings_default_def)
  from extension_options [OF this, of big_requests_name] show ?thesis
    by blast
qed

end
