(* ===== verification/Types.thy ===== *)
theory Types
  imports Wire
begin

text \<open>
  The types of the protocol (\<open>protocol/common_types.hpp\<close>) and the packed structs made of
  them. A struct is a \<open>layout\<close>: its members in order, with the bytes each takes; a member
  that is itself a struct is spliced in with its name as a prefix (\<open>''header.code''\<close> is
  \<open>header.code\<close>). \<open>uint8_t\<close>, \<open>uint16_t\<close> and \<open>uint32_t\<close> are what the aliases
  \<open>CARD8\<close>, \<open>CARD16\<close> and \<open>CARD32\<close> stand for. \<open>load_member\<close> is
  \<open>encoding->member\<close>: the encoded value, with the type that selects the overload of
  \<open>_formatVariable\<close>.
\<close>

datatype ptype =
    CARD8 | CARD16 | CARD32 | INT8 | INT16 | INT32
  | WINDOW | PIXMAP | CURSOR | FONT | GCONTEXT | COLORMAP | DRAWABLE | FONTABLE
  | ATOM | VISUALID | TIMESTAMP | BITGRAVITY | WINGRAVITY | BOOL
  | SETofEVENT | SETofPOINTEREVENT | SETofDEVICEEVENT | KEYSYM | KEYCODE | BUTTON
  | SETofKEYBUTMASK | SETofKEYMASK
  | Bytes nat  \<comment> \<open>an array of \<open>uint8_t\<close>\<close>

fun ptype_size :: "ptype \<Rightarrow> nat" where
  "ptype_size CARD8 = 1"
| "ptype_size CARD16 = 2"
| "ptype_size CARD32 = 4"
| "ptype_size INT8 = 1"
| "ptype_size INT16 = 2"
| "ptype_size INT32 = 4"
| "ptype_size WINDOW = 4"
| "ptype_size PIXMAP = 4"
| "ptype_size CURSOR = 4"
| "ptype_size FONT = 4"
| "ptype_size GCONTEXT = 4"
| "ptype_size COLORMAP = 4"
| "ptype_size DRAWABLE = 4"
| "ptype_size FONTABLE = 4"
| "ptype_size ATOM = 4"
| "ptype_size VISUALID = 4"
| "ptype_size TIMESTAMP = 4"
| "ptype_size BITGRAVITY = 1"
| "ptype_size WINGRAVITY = 1"
| "ptype_size BOOL = 1"
| "ptype_size SETofEVENT = 4"
| "ptype_size SETofPOINTEREVENT = 2"
| "ptype_size SETofDEVICEEVENT = 2"
| "ptype_size KEYSYM = 4"
| "ptype_size KEYCODE = 1"
| "ptype_size BUTTON = 1"
| "ptype_size SETofKEYBUTMASK = 2"
| "ptype_size SETofKEYMASK = 2"
| "ptype_size (Bytes n) = n"

text \<open>\<open>ZERO_BITS\<close> of a type: bits that are asserted to be 0. Types without it have none.\<close>

fun ZERO_BITS :: "ptype \<Rightarrow> nat" where
  "ZERO_BITS WINDOW = 0xE0000000"
| "ZERO_BITS PIXMAP = 0xE0000000"
| "ZERO_BITS CURSOR = 0xE0000000"
| "ZERO_BITS FONT = 0xE0000000"
| "ZERO_BITS GCONTEXT = 0xE0000000"
| "ZERO_BITS COLORMAP = 0xE0000000"
| "ZERO_BITS DRAWABLE = 0xE0000000"
| "ZERO_BITS FONTABLE = 0xE0000000"
| "ZERO_BITS ATOM = 0xE0000000"
| "ZERO_BITS VISUALID = 0xE0000000"
| "ZERO_BITS SETofEVENT = 0xFE000000"
| "ZERO_BITS SETofPOINTEREVENT = 0xFFFF8003"
| "ZERO_BITS SETofDEVICEEVENT = 0xFFFFC0B0"
| "ZERO_BITS SETofKEYBUTMASK = 0xE000"
| "ZERO_BITS SETofKEYMASK = 0xFF00"
| "ZERO_BITS _ = 0"

definition ANYMODIFIER :: nat where
  "ANYMODIFIER = 0x8000"

definition anymodifier_flag_name :: string where
  "anymodifier_flag_name = ''AnyModifier''"

definition BITGRAVITY_enum_names :: "string list" where
  "BITGRAVITY_enum_names =
     [''Forget'', ''NorthWest'', ''North'', ''NorthEast'', ''West'', ''Center'', ''East'',
      ''SouthWest'', ''South'', ''SouthEast'', ''Static'']"

definition WINGRAVITY_enum_names :: "string list" where
  "WINGRAVITY_enum_names =
     [''Unmap'', ''NorthWest'', ''North'', ''NorthEast'', ''West'', ''Center'', ''East'',
      ''SouthWest'', ''South'', ''SouthEast'', ''Static'']"

definition BOOL_enum_names :: "string list" where
  "BOOL_enum_names = [''False'', ''True'']"

definition SETofEVENT_flag_names :: "string list" where
  \<comment> \<open>of \<open>SETofEVENTBase\<close>, shared with \<open>SETofPOINTEREVENT\<close> and \<open>SETofDEVICEEVENT\<close>\<close>
  "SETofEVENT_flag_names =
     [''KeyPress'', ''KeyRelease'', ''ButtonPress'', ''ButtonRelease'', ''EnterWindow'',
      ''LeaveWindow'', ''PointerMotion'', ''PointerMotionHint'', ''Button1Motion'',
      ''Button2Motion'', ''Button3Motion'', ''Button4Motion'', ''Button5Motion'',
      ''ButtonMotion'', ''KeymapState'', ''Exposure'', ''VisibilityChange'',
      ''StructureNotify'', ''ResizeRedirect'', ''SubstructureNotify'',
      ''SubstructureRedirect'', ''FocusChange'', ''PropertyChange'', ''ColormapChange'',
      ''OwnerGrabButton'']"

definition SETofKEYBUTMASK_flag_names :: "string list" where
  \<comment> \<open>shared with \<open>SETofKEYMASK\<close>\<close>
  "SETofKEYBUTMASK_flag_names =
     [''Shift'', ''Lock'', ''Control'', ''Mod1'', ''Mod2'', ''Mod3'', ''Mod4'', ''Mod5'',
      ''Button1'', ''Button2'', ''Button3'', ''Button4'', ''Button5'']"

subsection \<open>Packed structs\<close>

type_synonym layout = "(string \<times> ptype) list"

definition sizeof :: "layout \<Rightarrow> nat" where
  "sizeof L = sum_list (map (\<lambda>(f, t). ptype_size t) L)"

definition embed :: "string \<Rightarrow> layout \<Rightarrow> layout" where
  "embed p L = map (\<lambda>(f, t). (p @ ''.'' @ f, t)) L"

fun field_at :: "layout \<Rightarrow> string \<Rightarrow> (nat \<times> ptype) option" where
  "field_at [] f = None"
| "field_at ((g, t) # L) f =
     (if f = g then Some (0, t)
      else map_option (\<lambda>(off, t'). (ptype_size t + off, t')) (field_at L f))"

definition load_member :: "bool \<Rightarrow> layout \<Rightarrow> byte list \<Rightarrow> string \<Rightarrow> (ptype \<times> nat) res" where
  "load_member le L m f =
     (case field_at L f of
        None \<Rightarrow> Inl No_such_field
      | Some (off, t) \<Rightarrow> map_res (\<lambda>n. (t, n)) (load le m off (ptype_size t)))"

lemma sizeof_simps [simp]:
  "sizeof [] = 0"
  "sizeof ((f, t) # L) = ptype_size t + sizeof L"
  "sizeof (L @ L') = sizeof L + sizeof L'"
  by (simp_all add: sizeof_def)

lemma sizeof_embed [simp]: "sizeof (embed p L) = sizeof L"
  by (induction L) (auto simp: embed_def sizeof_def)

lemma field_at_bound:
  "field_at L f = Some (off, t) \<Longrightarrow> off + ptype_size t \<le> sizeof L"
  by (induction L f arbitrary: off rule: field_at.induct) (auto split: if_splits)

text \<open>Members do not overlap: in a struct with distinct names each has its own bytes.\<close>

lemma field_at_disjoint:
  assumes "field_at L f = Some (off, t)" and "field_at L g = Some (off', t')" and "f \<noteq> g"
  shows "off + ptype_size t \<le> off' \<or> off' + ptype_size t' \<le> off"
  using assms
proof (induction L f arbitrary: off off' rule: field_at.induct)
  case (2 h u L f)
  show ?case
  proof (cases "f = h \<or> g = h")
    case True
    with 2 show ?thesis
      by (auto split: if_splits)
  next
    case False
    with 2 show ?thesis
      by (fastforce split: if_splits)
  qed
qed simp

lemma load_member_ok:
  assumes "field_at L f = Some (off, t)" and "sizeof L \<le> length m"
  shows "load_member le L m f = Inr (t, host_val le (take (ptype_size t) (drop off m)))"
  using field_at_bound [OF assms(1)] assms by (simp add: load_member_def load_ok)

lemma load_member_bound:
  "load_member le L m f = Inr (t, n) \<Longrightarrow> n < 256 ^ ptype_size t"
  by (auto simp: load_member_def map_res_eq_Inr split: option.splits dest: load_bound)

text \<open>Only the bytes of the struct matter.\<close>

lemma load_member_append:
  assumes "sizeof L \<le> length m"
  shows "load_member le L (m @ m') f = load_member le L m f"
proof (cases "field_at L f")
  case None
  then show ?thesis
    by (simp add: load_member_def)
next
  case (Some p)
  obtain off t where p: "p = (off, t)"
    by (cases p)
  have "off + ptype_size t \<le> length m"
    using field_at_bound Some assms unfolding p by fastforce
  then show ?thesis
    using Some by (simp add: p load_member_def load_def read_bytes_def)
qed

lemma load_member_take:
  assumes "sizeof L \<le> length m"
  shows "load_member le L (take (sizeof L) m) f = load_member le L m f"
  using load_member_append [of L "take (sizeof L) m" le "drop (sizeof L) m" f] assms
  by simp

end
