(* ===== verification/Names.thy ===== *)
theory Names
  imports Prelude
begin

text \<open>
  The name tables shared by several messages (\<open>protocol/enum_names.hpp\<close>): one list per
  table, the position in the list is the value (or the bit) that has the name. A table that
  belongs to one struct is with the layout of the struct.
\<close>

definition enum_names_host_family :: "string list" where
  "enum_names_host_family =
     [''Internet'', ''DECnet'', ''Chaos'', '''', '''', ''ServerInterpreted'', ''InternetV6'']"

definition enum_names_byte_order :: "string list" where
  "enum_names_byte_order =
     [''LSBFirst'', ''MSBFirst'']"

definition enum_names_window_class :: "string list" where
  "enum_names_window_class =
     [''CopyFromParent'', ''InputOutput'', ''InputOnly'']"

definition enum_names_zero_copy_from_parent :: "string list" where
  "enum_names_zero_copy_from_parent =
     [''CopyFromParent'']"

definition enum_names_window_attribute_value_mask :: "string list" where
  "enum_names_window_attribute_value_mask =
     [''background-pixmap'', ''background-pixel'', ''border-pixmap'', ''border-pixel'',
      ''bit-gravity'', ''win-gravity'', ''backing-store'', ''backing-planes'',
      ''backing-pixel'', ''override-redirect'', ''save-under'', ''event-mask'',
      ''do-not-propagate-mask'', ''colormap'', ''cursor'']"

definition enum_names_window_attribute_background_pixmap :: "string list" where
  "enum_names_window_attribute_background_pixmap =
     [''None'', ''ParentRelative'']"

definition enum_names_window_attribute_backing_store :: "string list" where
  "enum_names_window_attribute_backing_store =
     [''NotUseful'', ''WhenMapped'', ''Always'']"

definition enum_names_zero_none :: "string list" where
  "enum_names_zero_none =
     [''None'']"

definition enum_names_change_mode :: "string list" where
  "enum_names_change_mode =
     [''Insert'', ''Delete'']"

definition enum_names_window_value_mask :: "string list" where
  "enum_names_window_value_mask =
     [''x'', ''y'', ''width'', ''height'', ''border-width'', ''sibling'', ''stack-mode'']"

definition enum_names_window_value_stack_mode :: "string list" where
  "enum_names_window_value_stack_mode =
     [''Above'', ''Below'', ''TopIf'', ''BottomIf'', ''Opposite'']"

definition enum_names_button :: "string list" where
  "enum_names_button =
     [''AnyButton'']"

definition enum_names_grab_status :: "string list" where
  "enum_names_grab_status =
     [''Success'', ''AlreadyGrabbed'', ''InvalidTime'', ''NotViewable'', ''Frozen'']"

definition enum_names_input_mode :: "string list" where
  "enum_names_input_mode =
     [''Synchronous'', ''Asynchronous'']"

definition enum_names_key :: "string list" where
  "enum_names_key =
     [''AnyKey'']"

definition enum_names_time :: "string list" where
  "enum_names_time =
     [''CurrentTime'']"

definition enum_names_input_focus :: "string list" where
  "enum_names_input_focus =
     [''None'', ''PointerRoot'', ''Parent'']"

definition enum_names_draw_direction :: "string list" where
  "enum_names_draw_direction =
     [''LeftToRight'', ''RightToLeft'']"

definition enum_names_gc_value_mask :: "string list" where
  "enum_names_gc_value_mask =
     [''function'', ''plane-mask'', ''foreground'', ''background'', ''line-width'',
      ''line-style'', ''cap-style'', ''join-style'', ''fill-style'', ''fill-rule'', ''tile'',
      ''stipple'', ''tile-stipple-x-origin'', ''tile-stipple-y-origin'', ''font'',
      ''subwindow-mode'', ''graphics-exposures'', ''clip-x-origin'', ''clip-y-origin'',
      ''clip-mask'', ''dash-offset'', ''dashes'', ''arc-mode'']"

definition enum_names_gc_value_function :: "string list" where
  "enum_names_gc_value_function =
     [''Clear'', ''And'', ''AndReverse'', ''Copy'', ''AndInverted'', ''NoOp'', ''Xor'', ''Or'',
      ''Nor'', ''Equiv'', ''Invert'', ''OrReverse'', ''CopyInverted'', ''OrInverted'',
      ''Nand'', ''Set'']"

definition enum_names_gc_value_line_style :: "string list" where
  "enum_names_gc_value_line_style =
     [''Solid'', ''OnOffDash'', ''DoubleDash'']"

definition enum_names_gc_value_cap_style :: "string list" where
  "enum_names_gc_value_cap_style =
     [''NotLast'', ''Butt'', ''Round'', ''Projecting'']"

definition enum_names_gc_value_join_style :: "string list" where
  "enum_names_gc_value_join_style =
     [''Miter'', ''Round'', ''Bevel'']"

definition enum_names_gc_value_fill_style :: "string list" where
  "enum_names_gc_value_fill_style =
     [''Solid'', ''Tiled'', ''Stippled'', ''OpaqueStippled'']"

definition enum_names_gc_value_fill_rule :: "string list" where
  "enum_names_gc_value_fill_rule =
     [''EvenOdd'', ''Winding'']"

definition enum_names_gc_value_subwindow_mode :: "string list" where
  "enum_names_gc_value_subwindow_mode =
     [''ClipByChildren'', ''IncludeInferiors'']"

definition enum_names_gc_value_arc_mode :: "string list" where
  "enum_names_gc_value_arc_mode =
     [''Chord'', ''PieSlice'']"

definition enum_names_poly_coordinate_mode :: "string list" where
  "enum_names_poly_coordinate_mode =
     [''Origin'', ''Previous'']"

definition enum_names_image_format :: "string list" where
  "enum_names_image_format =
     [''Bitmap'', ''XYPixmap'', ''ZPixmap'']"

definition enum_names_do_rgb_mask :: "string list" where
  "enum_names_do_rgb_mask =
     [''do-red'', ''do-green'', ''do-blue'']"

definition enum_names_off_on :: "string list" where
  "enum_names_off_on =
     [''Off'', ''On'', ''Default'']"

definition enum_names_no_yes :: "string list" where
  "enum_names_no_yes =
     [''No'', ''Yes'', ''Default'']"

definition enum_names_mapping_status :: "string list" where
  "enum_names_mapping_status =
     [''Success'', ''Busy'', ''Failed'']"

definition enum_names_focus_mode :: "string list" where
  "enum_names_focus_mode =
     [''Normal'', ''Grab'', ''Ungrab'', ''WhileGrabbed'']"

definition enum_names_focus_same_screen_mask :: "string list" where
  "enum_names_focus_same_screen_mask =
     [''focus'', ''same-screen'']"

definition enum_names_focus_detail :: "string list" where
  "enum_names_focus_detail =
     [''Ancestor'', ''Virtual'', ''Inferior'', ''Nonlinear'', ''NonlinearVirtual'',
      ''Pointer'', ''PointerRoot'', ''None'']"

definition enum_names_circulate_place :: "string list" where
  "enum_names_circulate_place =
     [''Top'', ''Bottom'']"

lemmas shared_tables =
  enum_names_host_family_def
  enum_names_byte_order_def
  enum_names_window_class_def
  enum_names_zero_copy_from_parent_def
  enum_names_window_attribute_value_mask_def
  enum_names_window_attribute_background_pixmap_def
  enum_names_window_attribute_backing_store_def
  enum_names_zero_none_def
  enum_names_change_mode_def
  enum_names_window_value_mask_def
  enum_names_window_value_stack_mode_def
  enum_names_button_def
  enum_names_grab_status_def
  enum_names_input_mode_def
  enum_names_key_def
  enum_names_time_def
  enum_names_input_focus_def
  enum_names_draw_direction_def
  enum_names_gc_value_mask_def
  enum_names_gc_value_function_def
  enum_names_gc_value_line_style_def
  enum_names_gc_value_cap_style_def
  enum_names_gc_value_join_style_def
  enum_names_gc_value_fill_style_def
  enum_names_gc_value_fill_rule_def
  enum_names_gc_value_subwindow_mode_def
  enum_names_gc_value_arc_mode_def
  enum_names_poly_coordinate_mode_def
  enum_names_image_format_def
  enum_names_do_rgb_mask_def
  enum_names_off_on_def
  enum_names_no_yes_def
  enum_names_mapping_status_def
  enum_names_focus_mode_def
  enum_names_focus_same_screen_mask_def
  enum_names_focus_detail_def
  enum_names_circulate_place_def

end
