(* ===== verification/Format.thy ===== *)
theory Format
  imports SettingsModel Types Names
begin

text \<open>
  Formatting of single values and of the member rows of a message
  (\<open>X11ProtocolParser.hpp\<close>, \<open>X11ProtocolParser__formatVariable.cpp\<close>).

  The fmt library and \<open>localtime(3)\<close> are not part of the repository: their conversions are
  the record \<open>fmt_lib\<close>, an argument of everything here. Plain \<open>{}\<close> fields, which put
  a string into the output as it is, are written as concatenation.

  A value of the protocol is its encoded value (a natural number below \<open>256 ^ w\<close>)
  together with its type; \<open>formatVariable\<close> selects by the type, as overload resolution does.
\<close>

record fmt_lib =
  fmt_hex :: "nat \<Rightarrow> nat \<Rightarrow> string"   \<comment> \<open>\<open>{:#0{}x}\<close>: value, width\<close>
  fmt_dec :: "int \<Rightarrow> string"           \<comment> \<open>\<open>{:d}\<close>\<close>
  fmt_zpad :: "nat \<Rightarrow> nat \<Rightarrow> string"   \<comment> \<open>\<open>{:0nd}\<close>: n, value\<close>
  fmt_pad :: "nat \<Rightarrow> string \<Rightarrow> string" \<comment> \<open>\<open>{: <{}}\<close>: width, text\<close>
  fmt_debug :: "string \<Rightarrow> string"      \<comment> \<open>\<open>{:?}\<close>\<close>
  fmt_localtime :: "int \<Rightarrow> string"     \<comment> \<open>\<open>{:%FT:%TZ%Z}\<close> of \<open>localtime\<close>\<close>

text \<open>
  What is documented of \<open>{: <{}}\<close>: the text followed by as many blanks as the width asks for.
\<close>

definition fmt_pads_blank :: "fmt_lib \<Rightarrow> bool" where
  "fmt_pads_blank F \<longleftrightarrow>
     (\<forall>w s. fmt_pad F w s = s @ replicate (w - length s) (CHR '' ''))"

subsection \<open>The parser object\<close>

record whitespace =
  default_multiline :: bool
  ws_multiline :: bool
  base_tab_ct :: byte
  encl_indent :: string
  memb_indent :: string
  equals :: string
  separator :: string

definition WHITESPACE_SIZE :: nat where
  "WHITESPACE_SIZE = 118"

definition tabIndent :: "byte \<Rightarrow> string res" where
  "tabIndent tab_ct =
     (let indent_sz = unat tab_ct * 2
      in require (indent_sz \<le> WHITESPACE_SIZE) (Inr (replicate indent_sz (CHR '' ''))))"

definition Whitespace3 :: "byte \<Rightarrow> bool \<Rightarrow> bool \<Rightarrow> whitespace res" where
  \<comment> \<open>the private constructor\<close>
  "Whitespace3 tab_ct' default_ml' ml' =
     and_then (if \<not> ml' then Inr [] else tabIndent tab_ct') (\<lambda>encl.
     and_then (if \<not> ml' then Inr [] else tabIndent (tab_ct' + 1)) (\<lambda>memb.
     Inr \<lparr>default_multiline = default_ml', ws_multiline = ml',
          base_tab_ct = tab_ct', encl_indent = encl, memb_indent = memb,
          equals = (if ml' then '' = '' else ''=''),
          separator = (if ml' then [CHR 0x0A] else '' '')\<rparr>))"

definition Whitespace2 :: "byte \<Rightarrow> bool \<Rightarrow> whitespace res" where
  \<comment> \<open>the primary constructor\<close>
  "Whitespace2 tab_ct' ml' = Whitespace3 tab_ct' ml' ml'"

definition nested :: "bool \<Rightarrow> whitespace \<Rightarrow> whitespace res" where
  \<comment> \<open>the argument is \<open>FORCE_SINGLELINE\<close>\<close>
  "nested force_singleline ws =
     Whitespace3 (base_tab_ct ws + 1) (default_multiline ws)
       (if force_singleline then False else default_multiline ws)"

text \<open>
  A \<open>string_view\<close> into the client's buffer: the size of the allocation it points into, the
  bytes from its first character to the end of the allocation, and its length. Stashed strings
  are such views, by connection and sequence number. The table \<open>_major_opcodes\<close> starts as the
  table of core requests and gets entries of extensions: \<open>None\<close> is an entry copied from the
  table of core requests, \<open>Some name\<close> is the entry of an extension.
\<close>

record string_view =
  view_alloc :: nat
  view_to_end :: nat
  view_len :: nat

record parser =
  fmtl :: fmt_lib
  little_endian :: bool
  settings :: settings
  interned_atoms :: "nat \<rightharpoonup> string"
  stashed_strings :: "32 word \<times> 16 word \<rightharpoonup> string_view"
  major_opcodes :: "nat \<rightharpoonup> string option"
  ROOT_WS :: whitespace

record parsing_outputs =
  str :: string
  bytes_parsed :: "32 word"

subsection \<open>Enum names\<close>

record enum_range =
  names :: "string list"
  range_min :: nat
  range_max :: nat

datatype bound = Bound_MIN | Bound_MAX

definition range_none :: enum_range where
  "range_none = \<lparr>names = [], range_min = 2 ^ 32 - 1, range_max = 2 ^ 32 - 1\<rparr>"

definition range_min_max :: "string list \<Rightarrow> nat \<Rightarrow> nat \<Rightarrow> enum_range res" where
  "range_min_max names' min' max' =
     require (names' \<noteq> []) (require (max' < length names') (require (min' \<le> max') (
     Inr \<lparr>names = names', range_min = min', range_max = max'\<rparr>)))"

definition range_bound :: "string list \<Rightarrow> bound \<Rightarrow> nat \<Rightarrow> enum_range res" where
  "range_bound names' b value =
     range_min_max names' (if b = Bound_MIN then value else 0)
       (if b = Bound_MIN then length names' - 1 else value)"

definition range_all :: "string list \<Rightarrow> enum_range res" where
  "range_all names' = range_min_max names' 0 (length names' - 1)"

definition in_range :: "enum_range \<Rightarrow> int \<Rightarrow> bool" where
  "in_range r val =
     (0 \<le> val \<and> names r \<noteq> [] \<and> range_min r \<le> nat val \<and> nat val \<le> range_max r)"

definition range_at :: "enum_range \<Rightarrow> int \<Rightarrow> string" where
  "range_at r val = (if in_range r val then names r ! nat val else [])"

subsection \<open>Integers\<close>

definition flag_step :: "enum_range \<Rightarrow> nat \<Rightarrow> string \<Rightarrow> nat \<Rightarrow> string" where
  "flag_step r val flag_str i =
     (if bit val i
      then flag_str @ (if flag_str = [] then [] else '','') @ range_at r (int i)
      else flag_str)"

definition flag_names :: "enum_range \<Rightarrow> nat \<Rightarrow> string" where
  "flag_names r val =
     (if names r = [] then []
      else foldl (flag_step r val) [] [range_min r ..< Suc (range_max r)])"

definition int_value :: "nat \<Rightarrow> bool \<Rightarrow> nat \<Rightarrow> int" where
  \<comment> \<open>the value of a \<open>w\<close>-byte integer type, signed or not\<close>
  "int_value w is_signed n = (if is_signed then signed_val w n else int n)"

definition hex_str :: "parser \<Rightarrow> nat \<Rightarrow> nat \<Rightarrow> string" where
  "hex_str P w encoded_val = fmt_hex (fmtl P) encoded_val (w * 2 + 2)"

definition with_hex :: "parser \<Rightarrow> nat \<Rightarrow> nat \<Rightarrow> string \<Rightarrow> string" where
  \<comment> \<open>\<open>settings.verbose ? fmt::format( "{}({})", hex_str, s ) : s\<close>\<close>
  "with_hex P w encoded_val s =
     (if verbose (settings P) then hex_str P w encoded_val @ ''('' @ s @ '')'' else s)"

definition formatInt ::
  "parser \<Rightarrow> nat \<Rightarrow> bool \<Rightarrow> nat \<Rightarrow> bool \<Rightarrow> enum_range \<Rightarrow> bool \<Rightarrow> string res" where
  "formatInt P w is_signed encoded_val bsw r bitmask =
     (let val = ordered w bsw encoded_val in
      if bitmask
      then require (\<not> is_signed) (
             let flag_str = flag_names r val in
             if flag_str = [] then Inr (hex_str P w encoded_val)
             else Inr (with_hex P w encoded_val flag_str))
      else let name_str = range_at r (int_value w is_signed val) in
           if name_str \<noteq> [] then Inr (with_hex P w encoded_val name_str)
           else Inr (with_hex P w encoded_val (fmt_dec (fmtl P) (int_value w is_signed val))))"

subsection \<open>The overloads of \<open>_formatVariable\<close>\<close>

definition GetProperty_type_names :: "string list" where
  "GetProperty_type_names = [''AnyPropertyType'']"

definition formatResourceId :: "parser \<Rightarrow> ptype \<Rightarrow> nat \<Rightarrow> bool \<Rightarrow> enum_range \<Rightarrow> string res" where
  \<comment> \<open>also \<open>DRAWABLE\<close> (as \<open>WINDOW\<close>) and \<open>FONTABLE\<close> (as \<open>FONT\<close>)\<close>
  "formatResourceId P t var bsw r =
     require (var AND ZERO_BITS t = 0) (formatInt P 4 False var bsw r False)"

definition formatATOM :: "parser \<Rightarrow> nat \<Rightarrow> bool \<Rightarrow> enum_range \<Rightarrow> string res" where
  "formatATOM P atom bsw r =
     require (atom AND ZERO_BITS ATOM = 0) (
     require (names r \<noteq> [] \<longrightarrow> names r = enum_names_zero_none \<or> names r = GetProperty_type_names) (
     if in_range r (int atom) then formatInt P 4 False atom bsw r False
     else map_res (\<lambda>s. s @ ''('' @
            (case interned_atoms P atom of
               None \<Rightarrow> ''unrecognized atom''
             | Some name \<Rightarrow> fmt_debug (fmtl P) name) @ '')'')
          (formatInt P 4 False atom bsw range_none False)))"

definition formatTIMESTAMP :: "parser \<Rightarrow> nat \<Rightarrow> bool \<Rightarrow> enum_range \<Rightarrow> string res" where
  "formatTIMESTAMP P time bsw r =
     require (names r \<noteq> [] \<longrightarrow> names r = enum_names_time) (
     and_then (formatInt P 4 False time bsw range_none True) (\<lambda>hex.
       if in_range r (int time) then Inr (hex @ ''('' @ range_at r (int time) @ '')'')
       else if systemtimeformat (settings P)
       then let delta = int time - uint (ref_TIMESTAMP (settings P));
                time' = sgn delta * (\<bar>delta\<bar> div 1000) + ref_unix_time (settings P)
            in Inr (hex @ ''('' @ fmt_localtime (fmtl P) time' @ '')'')
       else Inr hex))"

definition formatNamed :: "parser \<Rightarrow> string list \<Rightarrow> nat \<Rightarrow> bool \<Rightarrow> string res" where
  \<comment> \<open>\<open>BITGRAVITY\<close>, \<open>WINGRAVITY\<close>, \<open>BOOL\<close>: the names come with the type\<close>
  "formatNamed P ns n bsw = and_then (range_all ns) (\<lambda>r. formatInt P 1 False n bsw r False)"

definition formatSETof :: "parser \<Rightarrow> ptype \<Rightarrow> string list \<Rightarrow> nat \<Rightarrow> bool \<Rightarrow> string res" where
  "formatSETof P t ns n bsw =
     require (n AND ZERO_BITS t = 0) (
     and_then (range_all ns) (\<lambda>r. formatInt P (ptype_size t) False n bsw r True))"

definition formatSETofKEYMASK :: "parser \<Rightarrow> nat \<Rightarrow> bool \<Rightarrow> string res" where
  "formatSETofKEYMASK P n bsw =
     (if n = ANYMODIFIER
      then if verbose (settings P)
           then map_res (\<lambda>hex. hex @ ''('' @ anymodifier_flag_name @ '')'')
                  (formatInt P 2 False n bsw range_none True)
           else Inr anymodifier_flag_name
      else formatSETof P SETofKEYMASK SETofKEYBUTMASK_flag_names n bsw)"

definition formatChecked :: "parser \<Rightarrow> string list \<Rightarrow> nat \<Rightarrow> bool \<Rightarrow> enum_range \<Rightarrow> string res" where
  \<comment> \<open>\<open>KEYCODE\<close> and \<open>BUTTON\<close>: names, if given, have to be the ones of the type\<close>
  "formatChecked P ns n bsw r =
     require (names r \<noteq> [] \<longrightarrow> names r = ns) (formatInt P 1 False n bsw r False)"

text \<open>
  \<open>bitmask\<close> is the last argument of the integer overload; the others do not have it. The
  call on an array of bytes does not exist.
\<close>

fun formatVariable ::
  "parser \<Rightarrow> ptype \<Rightarrow> nat \<Rightarrow> bool \<Rightarrow> enum_range \<Rightarrow> bool \<Rightarrow> string res" where
  "formatVariable P CARD8 n bsw r bm = formatInt P 1 False n bsw r bm"
| "formatVariable P CARD16 n bsw r bm = formatInt P 2 False n bsw r bm"
| "formatVariable P CARD32 n bsw r bm = formatInt P 4 False n bsw r bm"
| "formatVariable P INT8 n bsw r bm = formatInt P 1 True n bsw r bm"
| "formatVariable P INT16 n bsw r bm = formatInt P 2 True n bsw r bm"
| "formatVariable P INT32 n bsw r bm = formatInt P 4 True n bsw r bm"
| "formatVariable P ATOM n bsw r bm = formatATOM P n bsw r"
| "formatVariable P TIMESTAMP n bsw r bm = formatTIMESTAMP P n bsw r"
| "formatVariable P BITGRAVITY n bsw r bm = formatNamed P BITGRAVITY_enum_names n bsw"
| "formatVariable P WINGRAVITY n bsw r bm = formatNamed P WINGRAVITY_enum_names n bsw"
| "formatVariable P BOOL n bsw r bm = formatNamed P BOOL_enum_names n bsw"
| "formatVariable P SETofEVENT n bsw r bm = formatSETof P SETofEVENT SETofEVENT_flag_names n bsw"
| "formatVariable P SETofPOINTEREVENT n bsw r bm =
     formatSETof P SETofPOINTEREVENT SETofEVENT_flag_names n bsw"
| "formatVariable P SETofDEVICEEVENT n bsw r bm =
     formatSETof P SETofDEVICEEVENT SETofEVENT_flag_names n bsw"
| "formatVariable P KEYSYM n bsw r bm = formatInt P 4 False n bsw range_none True"
| "formatVariable P KEYCODE n bsw r bm = formatChecked P enum_names_key n bsw r"
| "formatVariable P BUTTON n bsw r bm = formatChecked P enum_names_button n bsw r"
| "formatVariable P SETofKEYBUTMASK n bsw r bm =
     formatSETof P SETofKEYBUTMASK SETofKEYBUTMASK_flag_names n bsw"
| "formatVariable P SETofKEYMASK n bsw r bm = formatSETofKEYMASK P n bsw"
| "formatVariable P (Bytes k) n bsw r bm = Inl No_such_field"
| "formatVariable P t n bsw r bm = formatResourceId P t n bsw r"

subsection \<open>Member rows\<close>

text \<open>
  The body of a message or struct is \<open>{\<close>, one row \<open>label = value\<close> per member and
  \<open>}\<close>. A row that is only printed with \<open>--verbose\<close> is not evaluated otherwise.
\<close>

record row =
  only_verbose :: bool
  label :: string
  formatted :: "string res"

definition always :: "string \<Rightarrow> string res \<Rightarrow> row" where
  "always l v = \<lparr>only_verbose = False, label = l, formatted = v\<rparr>"

definition verbose_only :: "string \<Rightarrow> string res \<Rightarrow> row" where
  "verbose_only l v = \<lparr>only_verbose = True, label = l, formatted = v\<rparr>"

definition shown :: "parser \<Rightarrow> row \<Rightarrow> bool" where
  "shown P x = (verbose (settings P) \<or> \<not> only_verbose x)"

definition format_row :: "parser \<Rightarrow> whitespace \<Rightarrow> nat \<Rightarrow> row \<Rightarrow> string res" where
  "format_row P ws memb_name_w x =
     map_res (\<lambda>v. memb_indent ws @ fmt_pad (fmtl P) memb_name_w (label x) @ equals ws @ v @
                   separator ws)
       (formatted x)"

definition braces :: "parser \<Rightarrow> whitespace \<Rightarrow> nat \<Rightarrow> row list \<Rightarrow> string res" where
  "braces P ws memb_name_w xs =
     map_res (\<lambda>rs. ''{'' @ separator ws @ concat rs @ encl_indent ws @ ''}'')
       (collect (map (format_row P ws memb_name_w) (filter (shown P) xs)))"

definition name_width :: "whitespace \<Rightarrow> string \<Rightarrow> nat" where
  \<comment> \<open>\<open>!ws.multiline ? 0 : sizeof( "name" ) - 1\<close>\<close>
  "name_width ws s = (if \<not> ws_multiline ws then 0 else length s)"

definition member ::
  "parser \<Rightarrow> bool \<Rightarrow> layout \<Rightarrow> byte list \<Rightarrow> string \<Rightarrow> enum_range res \<Rightarrow> bool \<Rightarrow> string res" where
  \<comment> \<open>\<open>_formatVariable( encoding->f, byteswap, names, bitmask )\<close>\<close>
  "member P bsw L data f names' bitmask =
     and_then names' (\<lambda>r.
     and_then (load_member (little_endian P) L data f) (\<lambda>(t, n).
     formatVariable P t n bsw r bitmask))"

definition no_names :: "enum_range res" where
  \<comment> \<open>the default \<open>{}\<close>\<close>
  "no_names = Inr range_none"

definition ordered_member ::
  "parser \<Rightarrow> bool \<Rightarrow> layout \<Rightarrow> byte list \<Rightarrow> string \<Rightarrow> nat res" where
  \<comment> \<open>\<open>_ordered( encoding->f, byteswap )\<close>\<close>
  "ordered_member P bsw L data f =
     map_res (\<lambda>(t, n). ordered (ptype_size t) bsw n) (load_member (little_endian P) L data f)"

definition outputs_of :: "layout \<Rightarrow> string res \<Rightarrow> parsing_outputs res" where
  \<comment> \<open>the text of a fixed-size encoding, with its size as the bytes parsed\<close>
  "outputs_of L r = map_res (\<lambda>s. \<lparr>str = s, bytes_parsed = of_nat (sizeof L)\<rparr>) r"

definition NOT_BITMASK :: bool where
  "NOT_BITMASK = False"

definition BITMASK :: bool where
  "BITMASK = True"

subsection \<open>When formatting succeeds\<close>

definition names_ok :: "ptype \<Rightarrow> enum_range \<Rightarrow> bool \<Rightarrow> bool" where
  \<comment> \<open>what the overload for the type asserts of the names and of \<open>bitmask\<close>\<close>
  "names_ok t r bm =
     (case t of
        INT8 \<Rightarrow> \<not> bm | INT16 \<Rightarrow> \<not> bm | INT32 \<Rightarrow> \<not> bm
      | ATOM \<Rightarrow> names r = [] \<or> names r = enum_names_zero_none \<or> names r = GetProperty_type_names
      | TIMESTAMP \<Rightarrow> names r = [] \<or> names r = enum_names_time
      | KEYCODE \<Rightarrow> names r = [] \<or> names r = enum_names_key
      | BUTTON \<Rightarrow> names r = [] \<or> names r = enum_names_button
      | Bytes k \<Rightarrow> False
      | _ \<Rightarrow> True)"

definition value_ok :: "ptype \<Rightarrow> nat \<Rightarrow> bool" where
  "value_ok t n = (n AND ZERO_BITS t = 0 \<or> t = SETofKEYMASK \<and> n = ANYMODIFIER)"

lemma range_all_ok [simp]:
  "range_all (x # xs) = Inr \<lparr>names = x # xs, range_min = 0, range_max = length xs\<rparr>"
  by (simp add: range_all_def range_min_max_def)

lemma names_range_none [simp]: "names range_none = []"
  by (simp add: range_none_def)

lemma in_range_none [simp]: "\<not> in_range range_none v"
  by (simp add: in_range_def)

lemma is_ok_formatInt [simp]:
  "is_ok (formatInt P w s n bsw r bm) \<longleftrightarrow> (bm \<longrightarrow> \<not> s)"
  by (simp add: formatInt_def Let_def)

lemma is_ok_formatNamed [simp]: "is_ok (formatNamed P (x # xs) n bsw)"
  by (simp add: formatNamed_def)

lemma is_ok_formatSETof [simp]:
  "is_ok (formatSETof P t (x # xs) n bsw) \<longleftrightarrow> n AND ZERO_BITS t = 0"
  by (simp add: formatSETof_def)

lemma is_ok_formatResourceId [simp]:
  "is_ok (formatResourceId P t n bsw r) \<longleftrightarrow> n AND ZERO_BITS t = 0"
  by (simp add: formatResourceId_def)

lemma is_ok_formatTIMESTAMP [simp]:
  "is_ok (formatTIMESTAMP P n bsw r) \<longleftrightarrow> names r = [] \<or> names r = enum_names_time"
  by (auto simp: formatTIMESTAMP_def is_ok_and_then Let_def) (auto simp: formatInt_def Let_def)

lemma is_ok_formatATOM [simp]:
  "is_ok (formatATOM P n bsw r) \<longleftrightarrow> n AND ZERO_BITS ATOM = 0 \<and>
     (names r = [] \<or> names r = enum_names_zero_none \<or> names r = GetProperty_type_names)"
  by (auto simp: formatATOM_def)

lemma is_ok_formatSETofKEYMASK [simp]:
  "is_ok (formatSETofKEYMASK P n bsw) \<longleftrightarrow> value_ok SETofKEYMASK n"
  by (simp add: formatSETofKEYMASK_def value_ok_def SETofKEYBUTMASK_flag_names_def)

lemma is_ok_formatChecked [simp]:
  "is_ok (formatChecked P ns n bsw r) \<longleftrightarrow> names r = [] \<or> names r = ns"
  by (auto simp: formatChecked_def)

text \<open>Formatting a value fails exactly when one of the assertions of its type does.\<close>

lemma is_ok_formatVariable:
  "is_ok (formatVariable P t n bsw r bm) \<longleftrightarrow> names_ok t r bm \<and> value_ok t n"
  by (cases t)
    (simp_all add: names_ok_def value_ok_def BITGRAVITY_enum_names_def WINGRAVITY_enum_names_def
      BOOL_enum_names_def SETofEVENT_flag_names_def SETofKEYBUTMASK_flag_names_def ANYMODIFIER_def
      conj_commute)

definition zero_bits_ok :: "bool \<Rightarrow> layout \<Rightarrow> byte list \<Rightarrow> bool" where
  \<comment> \<open>the members of a struct in memory satisfy the zero-bit assertions of their types\<close>
  "zero_bits_ok le L m =
     list_all (\<lambda>(f, t). case load_member le L m f of
                          Inl _ \<Rightarrow> False
                        | Inr (u, n) \<Rightarrow> value_ok u n) L"

lemma field_at_in: "field_at L f = Some p \<Longrightarrow> \<exists>t. (f, t) \<in> set L"
  by (induction L f arbitrary: p rule: field_at.induct) (auto split: if_splits)

lemma member_ok:
  assumes "field_at L f = Some (off, t)" and "sizeof L \<le> length m"
    and "zero_bits_ok (little_endian P) L m" and "names' = Inr r" and "names_ok t r bm"
  shows "is_ok (member P bsw L m f names' bm)"
proof -
  let ?n = "host_val (little_endian P) (take (ptype_size t) (drop off m))"
  have l: "load_member (little_endian P) L m f = Inr (t, ?n)"
    using assms(1,2) by (rule load_member_ok)
  obtain u where "(f, u) \<in> set L"
    using field_at_in [OF assms(1)] by blast
  then have "value_ok t ?n"
    using assms(3) l by (auto simp: zero_bits_ok_def list_all_iff)
  with l assms(4,5) show ?thesis
    by (simp add: member_def is_ok_formatVariable)
qed

definition member_fits :: "layout \<Rightarrow> string \<Rightarrow> enum_range res \<Rightarrow> bool \<Rightarrow> bool" where
  \<comment> \<open>the call type-checks and its names are the ones the overload wants\<close>
  "member_fits L f names' bm =
     (case field_at L f of
        None \<Rightarrow> False
      | Some (off, t) \<Rightarrow> (case names' of Inl _ \<Rightarrow> False | Inr r \<Rightarrow> names_ok t r bm))"

lemma member_fits_ok:
  assumes "member_fits L f names' bm" and "sizeof L \<le> length m"
    and "zero_bits_ok (little_endian P) L m"
  shows "is_ok (member P bsw L m f names' bm)"
proof -
  from assms(1) obtain off t r where "field_at L f = Some (off, t)" "names' = Inr r" "names_ok t r bm"
    by (auto simp: member_fits_def split: option.splits prod.splits sum.splits)
  with assms(2,3) show ?thesis
    by (simp add: member_ok)
qed

subsection \<open>Rows\<close>

lemma rows_simps [simp]:
  "only_verbose (always l v) = False" "label (always l v) = l" "formatted (always l v) = v"
  "only_verbose (verbose_only l v) = True" "label (verbose_only l v) = l"
  "formatted (verbose_only l v) = v"
  by (simp_all add: always_def verbose_only_def)

lemma braces_ok:
  "is_ok (braces P ws w xs) \<longleftrightarrow> (\<forall>x \<in> set xs. shown P x \<longrightarrow> is_ok (formatted x))"
  by (auto simp: braces_def is_ok_collect format_row_def)

lemma braces_okI [res_intros]:
  "list_all (\<lambda>x. is_ok (formatted x)) xs \<Longrightarrow> is_ok (braces P ws w xs)"
  by (auto simp: braces_ok list_all_iff)

lemma squeeze_fmt_pad: "fmt_pads_blank F \<Longrightarrow> squeeze (fmt_pad F w s) = squeeze s"
  by (simp add: fmt_pads_blank_def)

text \<open>
  Two whitespace settings are \<open>squeeze\<close>-equal: the parts that differ between single-line
  and multi-line mode are blanks and line breaks. A message body printed with one has the
  same text, blanks aside, as with the other.
\<close>

definition only_blanks :: "whitespace \<Rightarrow> bool" where
  "only_blanks ws \<longleftrightarrow>
     squeeze (encl_indent ws) = [] \<and> squeeze (memb_indent ws) = [] \<and>
     squeeze (equals ws) = ''='' \<and> squeeze (separator ws) = []"

lemma tabIndent_blank: "tabIndent n = Inr s \<Longrightarrow> squeeze s = []"
  by (auto simp: tabIndent_def Let_def)

lemma Whitespace3_only_blanks:
  assumes "Whitespace3 n d m = Inr ws"
  shows "only_blanks ws"
  using assms
  by (auto simp: Whitespace3_def only_blanks_def is_blank_def and_then_eq_Inr
    dest: tabIndent_blank split: if_splits)

lemma nested_only_blanks: "nested f ws = Inr ws' \<Longrightarrow> only_blanks ws'"
  unfolding nested_def by (rule Whitespace3_only_blanks)

definition row_text :: "row \<Rightarrow> string res" where
  "row_text x = map_res (\<lambda>v. squeeze (label x) @ ''='' @ squeeze v) (formatted x)"

lemma collect_squeeze:
  "map_res (\<lambda>rs. f (concat (map squeeze rs))) (collect (map g xs)) =
   map_res (\<lambda>rs. f (concat rs)) (collect (map (\<lambda>x. map_res squeeze (g x)) xs))"
proof (induction xs arbitrary: f)
  case (Cons x xs)
  show ?case
  proof (cases "g x")
    case (Inr v)
    have "map_res (\<lambda>rs. f (squeeze v @ concat (map squeeze rs))) (collect (map g xs)) =
        map_res (\<lambda>rs. f (squeeze v @ concat rs)) (collect (map (\<lambda>x. map_res squeeze (g x)) xs))"
      by (rule Cons.IH)
    with Inr show ?thesis
      by (cases "collect (map g xs)"; cases "collect (map (\<lambda>x. map_res squeeze (g x)) xs)") simp_all
  qed simp
qed simp

lemma braces_text:
  assumes "only_blanks ws" and "fmt_pads_blank (fmtl P)"
  shows "map_res squeeze (braces P ws w xs) =
    map_res (\<lambda>rs. ''{'' @ concat rs @ ''}'') (collect (map row_text (filter (shown P) xs)))"
proof -
  have row: "map_res squeeze (format_row P ws w x) = row_text x" for x
    using assms
    by (cases "formatted x")
      (simp_all add: format_row_def row_text_def only_blanks_def squeeze_fmt_pad)
  have "map_res squeeze (braces P ws w xs) =
      map_res (\<lambda>rs. ''{'' @ concat (map squeeze rs) @ ''}'')
        (collect (map (format_row P ws w) (filter (shown P) xs)))"
    using assms(1)
    by (cases "collect (map (format_row P ws w) (filter (shown P) xs))")
      (simp_all add: braces_def only_blanks_def is_blank_def)
  also have "\<dots> = map_res (\<lambda>rs. ''{'' @ concat rs @ ''}'')
      (collect (map row_text (filter (shown P) xs)))"
    by (simp only: collect_squeeze [where f = "\<lambda>s. ''{'' @ s @ ''}''"] row)
  finally show ?thesis .
qed

lemma braces_same_text:
  assumes "only_blanks ws" "only_blanks ws'" "fmt_pads_blank (fmtl P)"
  shows "map_res squeeze (braces P ws w xs) = map_res squeeze (braces P ws' w' xs)"
  using assms by (simp add: braces_text)

subsection \<open>Parsers of fixed-size encodings\<close>

definition parses :: "nat \<Rightarrow> parsing_outputs res \<Rightarrow> bool" where
  \<comment> \<open>returns a text, with \<open>n\<close> bytes parsed\<close>
  "parses n r \<longleftrightarrow> (\<exists>s. r = Inr \<lparr>str = s, bytes_parsed = of_nat n\<rparr>)"

lemma parses_require [simp]: "parses n (require b r) \<longleftrightarrow> b \<and> parses n r"
  by (simp add: parses_def require_def)

lemma parses_outputs_of [simp]: "sizeof L = n \<Longrightarrow> parses n (outputs_of L r) \<longleftrightarrow> is_ok r"
  by (cases r) (simp_all add: parses_def outputs_of_def)

lemma parses_is_ok: "parses n r \<Longrightarrow> is_ok r"
  by (auto simp: parses_def)

lemma ordered_member_first:
  assumes "field_at L f = Some (0, CARD8)" and "data \<noteq> []"
  shows "ordered_member P bsw L data f = Inr (unat (hd data))"
proof -
  obtain b bs where "data = b # bs"
    using assms(2) by (cases data) auto
  with assms(1) show ?thesis
    by (simp add: ordered_member_def load_member_def load_def read_bytes_def host_val_def)
qed

definition readable :: "parser \<Rightarrow> layout \<Rightarrow> byte list \<Rightarrow> size_t \<Rightarrow> bool" where
  \<comment> \<open>the encoding is in memory and said to be readable, with zeroes where the types
     of the members want them\<close>
  "readable P L data sz \<longleftrightarrow>
     sizeof L \<le> length data \<and> sizeof L \<le> unat sz \<and> zero_bits_ok (little_endian P) L data"

lemma readable_member:
  "readable P L data sz \<Longrightarrow> member_fits L f names' bm \<Longrightarrow> is_ok (member P bsw L data f names' bm)"
  by (simp add: readable_def member_fits_ok)

lemma readable_bounds:
  assumes "readable P L data sz" and "sizeof L = n" and "0 < n"
  shows "data \<noteq> []" "n \<le> length data" "n \<le> unat sz"
  using assms by (auto simp: readable_def)

text \<open>Two results with the same text up to blanks and line breaks.\<close>

definition same_text :: "parsing_outputs res \<Rightarrow> parsing_outputs res \<Rightarrow> bool" where
  "same_text r r' \<longleftrightarrow>
     map_res (\<lambda>x. x\<lparr>str := squeeze (str x)\<rparr>) r = map_res (\<lambda>x. x\<lparr>str := squeeze (str x)\<rparr>) r'"

lemma same_text_refl [simp]: "same_text r r"
  by (simp add: same_text_def)

lemma same_text_require [simp]: "same_text (require b r) (require b r') \<longleftrightarrow> (b \<longrightarrow> same_text r r')"
  by (simp add: require_def)

lemma same_text_requireI: "same_text r r' \<Longrightarrow> same_text (require b r) (require b r')"
  by simp

lemma same_text_and_then:
  "(\<And>x. r = Inr x \<Longrightarrow> same_text (f x) (f' x)) \<Longrightarrow> same_text (and_then r f) (and_then r f')"
  by (cases r) simp_all

lemma same_text_braces:
  assumes "only_blanks ws" "only_blanks ws'" "fmt_pads_blank (fmtl P)"
  shows "same_text (outputs_of L (braces P ws w xs)) (outputs_of L (braces P ws' w' xs))"
  using braces_same_text [OF assms, of w xs w']
  by (cases "braces P ws w xs"; cases "braces P ws' w' xs") (simp_all add: same_text_def outputs_of_def)

subsection \<open>Flags\<close>

fun join_names :: "string list \<Rightarrow> string" where
  "join_names [] = []"
| "join_names [s] = s"
| "join_names (s # ss) = s @ '','' @ join_names ss"

lemma join_names_snoc:
  "join_names (ss @ [s]) = join_names ss @ (if ss = [] then [] else '','') @ s"
  by (induction ss rule: join_names.induct) simp_all

lemma join_names_empty: "[] \<notin> set ss \<Longrightarrow> join_names ss = [] \<longleftrightarrow> ss = []"
  by (induction ss rule: join_names.induct) auto

lemma flag_steps_join:
  assumes "[] \<notin> set (map (\<lambda>i. range_at r (int i)) is)"
  shows "foldl (flag_step r v) [] is = join_names (map (\<lambda>i. range_at r (int i)) (filter (bit v) is))"
  using assms
proof (induction "is" rule: rev_induct)
  case (snoc i "is")
  have "join_names (map (\<lambda>i. range_at r (int i)) (filter (bit v) is)) = [] \<longleftrightarrow> filter (bit v) is = []"
    using snoc.prems by (subst join_names_empty) auto
  with snoc show ?case
    by (simp add: flag_step_def join_names_snoc)
qed simp

lemma flag_names_join:
  assumes "range_all ns = Inr r" and "[] \<notin> set ns"
  shows "flag_names r v = join_names (map ((!) ns) (filter (bit v) [0 ..< length ns]))"
proof -
  from assms(1) have r: "r = \<lparr>names = ns, range_min = 0, range_max = length ns - 1\<rparr>" and ns: "ns \<noteq> []"
    by (auto simp: range_all_def range_min_max_def)
  have at: "range_at r (int i) = ns ! i" if "i < length ns" for i
    using that by (auto simp: r range_at_def in_range_def)
  have idx: "[range_min r ..< Suc (range_max r)] = [0 ..< length ns]"
    using ns by (simp add: r)
  have same: "map (\<lambda>i. range_at r (int i)) (filter p [0 ..< length ns]) =
      map ((!) ns) (filter p [0 ..< length ns])" for p
    by (rule map_cong) (auto simp: at)
  have "[] \<notin> set (map (\<lambda>i. range_at r (int i)) [0 ..< length ns])"
    using assms(2) by (auto simp: at in_set_conv_nth)
  from flag_steps_join [OF this]
  have "foldl (flag_step r v) [] [range_min r ..< Suc (range_max r)] =
      join_names (map ((!) ns) (filter (bit v) [0 ..< length ns]))"
    by (simp only: idx same)
  moreover have "names r \<noteq> []"
    using ns by (simp add: r)
  ultimately show ?thesis
    by (simp add: flag_names_def)
qed

lemma and_shifted_mask:
  "(n :: nat) AND push_bit k (mask m) = push_bit k (take_bit m (drop_bit k n))"
  by (rule bit_eqI) (auto simp: bit_simps)

lemma and_top_bits: "(n :: nat) AND 0xE0000000 = push_bit 29 (take_bit 3 (n div 2 ^ 29))"
proof -
  have "push_bit 29 (mask 3) = (0xE0000000 :: nat)"
    by (simp only: push_bit_eq_mult mask_eq_exp_minus_1) simp
  then show ?thesis
    using and_shifted_mask [of n 29 3] by (simp only: drop_bit_eq_div)
qed

lemma top_byte:
  "a < 256 \<Longrightarrow> b < 256 \<Longrightarrow> c < 256 \<Longrightarrow> (a + 256 * (b + 256 * (c + 256 * (d :: nat)))) div 2 ^ 24 = d"
  by (rule div_nat_eqI) simp_all

lemma bswap_top_byte:
  assumes "x < 2 ^ 32"
  shows "builtin_bswap 4 x div 2 ^ 24 = x mod 256"
proof -
  have four: "(4 :: nat) = Suc (Suc (Suc (Suc 0)))"
    by simp
  have "rev (le_bytes 4 x) = [of_nat (x div 256 div 256 div 256 mod 256), of_nat (x div 256 div 256 mod 256),
      of_nat (x div 256 mod 256), of_nat (x mod 256)]"
    by (simp only: four le_bytes.simps rev.simps append.simps)
  then have "builtin_bswap 4 x = x div 256 div 256 div 256 mod 256 +
      256 * (x div 256 div 256 mod 256 + 256 * (x div 256 mod 256 + 256 * (x mod 256)))"
    by (simp add: builtin_bswap_def unat_of_nat take_bit_nat_def)
  then show ?thesis
    by (simp only:) (rule top_byte, simp_all)
qed

subsection \<open>Properties\<close>

text \<open>
  Printing a value fails exactly when an assertion of its type does: bits that the type
  says are zero are set, or the caller passed names (or asked for flags) the type does not take.
\<close>

theorem value_formatting_total:
  "is_ok (formatVariable P t n bsw r bm) \<longleftrightarrow> names_ok t r bm \<and> value_ok t n"
  by (rule is_ok_formatVariable)

text \<open>
  An integer prints as the number its client sent: whatever the byte order of client and
  host, the text is the name of the client's value, if it has one, and else its decimal digits.
\<close>

lemma integer_is_clients:
  assumes "length bs = w" and "w \<in> {1, 2, 4}" and "bsw = (host_le \<noteq> lsb)"
    and "\<not> verbose (settings P)"
  shows "formatInt P w is_signed (host_val host_le bs) bsw r False =
    Inr (let v = int_value w is_signed (host_val lsb bs)
         in if range_at r v \<noteq> [] then range_at r v else fmt_dec (fmtl P) v)"
proof -
  have "length bs \<in> {1, 2, 4, 8}"
    using assms(1,2) by auto
  from ordered_host_val [OF this, of bsw host_le]
  have "ordered w bsw (host_val host_le bs) = host_val lsb bs"
    using assms(1,3) by (cases host_le; cases lsb) simp_all
  with assms(4) show ?thesis
    by (simp add: formatInt_def with_hex_def Let_def)
qed

text \<open>
  A set of flags prints as the names of the bits that are set in the client's value, in
  the order of the bits and separated by commas.
\<close>

theorem flags_print_set_bits:
  assumes "\<not> verbose (settings P)" and "ns \<noteq> []" and "[] \<notin> set ns"
    and "n AND ZERO_BITS t = 0" and "v = ordered (ptype_size t) bsw n"
    and "\<exists>i < length ns. bit v i"
  shows "formatSETof P t ns n bsw =
    Inr (join_names (map ((!) ns) (filter (bit v) [0 ..< length ns])))"
proof -
  let ?names = "map ((!) ns) (filter (bit v) [0 ..< length ns])"
  have "is_ok (range_all ns)"
    using assms(2) by (cases ns) simp_all
  then obtain r where r: "range_all ns = Inr r"
    by (rule is_okE)
  have "?names \<noteq> []"
    using assms(6) by (auto simp: filter_empty_conv)
  moreover have "[] \<notin> set ?names"
    using assms(3) by (auto simp: in_set_conv_nth)
  ultimately have "join_names ?names \<noteq> []"
    by (simp add: join_names_empty)
  with assms(1,4) flag_names_join [OF r assms(3), of v] show ?thesis
    by (simp add: formatSETof_def r formatInt_def Let_def with_hex_def assms(5))
qed

text \<open>
  The zero-bit assertion looks at the bytes before they are swapped: for a client of the
  other byte order, any resource ID whose low byte is 32 or more ends the program.
\<close>

theorem swapped_id_aborts:
  assumes "xid < 2 ^ 32" and "32 \<le> xid mod 256"
  shows "formatVariable P WINDOW (builtin_bswap 4 xid) True r bm = Inl Assertion_failure"
proof -
  let ?n = "builtin_bswap 4 xid"
  have "?n div 2 ^ 29 = ?n div 2 ^ 24 div 2 ^ 5"
    by (simp add: div_mult2_eq [symmetric])
  also have "\<dots> = xid mod 256 div 32"
    using bswap_top_byte [OF assms(1)] by simp
  finally have "?n div 2 ^ 29 = xid mod 256 div 32" .
  moreover have "take_bit 3 (xid mod 256 div 32) = xid mod 256 div 32"
    by (rule take_bit_nat_eq_self) (simp add: div_less_iff_less_mult)
  ultimately have "?n AND ZERO_BITS WINDOW = push_bit 29 (xid mod 256 div 32)"
    by (simp add: and_top_bits)
  moreover have "xid mod 256 div 32 \<noteq> 0"
    using assms(2) by (simp add: div_eq_0_iff)
  ultimately show ?thesis
    by (simp add: formatResourceId_def require_def)
qed

subsection \<open>Witnesses\<close>

text \<open>
  Conversions that pass for the ones of the library: digits are written in unary, which is
  enough to apply the properties to a concrete parser.
\<close>

definition unary :: "int \<Rightarrow> string" where
  "unary i = (if i < 0 then ''-'' else []) @ replicate (nat \<bar>i\<bar>) (CHR ''1'')"

definition sample_fmt :: fmt_lib where
  "sample_fmt =
     \<lparr>fmt_hex = (\<lambda>n w. ''0x'' @ unary (int n)), fmt_dec = unary,
      fmt_zpad = (\<lambda>w n. replicate (w - n) (CHR ''0'') @ unary (int n)),
      fmt_pad = (\<lambda>w s. s @ replicate (w - length s) (CHR '' '')),
      fmt_debug = (\<lambda>s. [CHR 0x22] @ s @ [CHR 0x22]), fmt_localtime = unary\<rparr>"

definition sample_ws :: whitespace where
  "sample_ws =
     \<lparr>default_multiline = False, ws_multiline = False, base_tab_ct = 0, encl_indent = [],
      memb_indent = [], equals = ''='', separator = '' ''\<rparr>"

definition sample_parser :: parser where
  "sample_parser =
     \<lparr>fmtl = sample_fmt, little_endian = True, settings = Settings_default,
      interned_atoms = Map.empty, stashed_strings = Map.empty, major_opcodes = Map.empty,
      ROOT_WS = sample_ws\<rparr>"

lemma sample_parser_simps [simp]:
  "settings sample_parser = Settings_default"
  "fmtl sample_parser = sample_fmt"
  "little_endian sample_parser = True"
  "ROOT_WS sample_parser = sample_ws"
  by (simp_all add: sample_parser_def)

lemma Settings_default_simps [simp]:
  "verbose Settings_default = False" "multiline Settings_default = False"
  "readwritedebug Settings_default = False"
  by (simp_all add: Settings_default_def)

lemma sample_fmt_pads [simp]: "fmt_pads_blank sample_fmt"
  by (simp add: fmt_pads_blank_def sample_fmt_def)

lemma sample_ws_Whitespace2: "Whitespace2 0 False = Inr sample_ws"
  by (simp add: Whitespace2_def Whitespace3_def sample_ws_def)

theorem flags_print_set_bits_witness:
  "formatSETof sample_parser SETofKEYBUTMASK SETofKEYBUTMASK_flag_names 5 False =
    Inr (join_names (map ((!) SETofKEYBUTMASK_flag_names)
      (filter (bit (ordered (ptype_size SETofKEYBUTMASK) False 5)) [0 ..< length SETofKEYBUTMASK_flag_names])))"
  by (rule flags_print_set_bits)
    (auto simp: SETofKEYBUTMASK_flag_names_def intro: exI [of _ 0])

theorem swapped_id_aborts_witness:
  "formatVariable sample_parser WINDOW (builtin_bswap 4 0x600020) True range_none False =
    Inl Assertion_failure"
  by (rule swapped_id_aborts) simp_all

end
