(* ===== verification/ListFormat.thy ===== *)
theory ListFormat
  imports Format
begin

text \<open>
  Lists of values (\<open>_parseListMember\<close> and \<open>_parseLISTof\<close> of \<open>X11ProtocolParser.hpp\<close>):
  members are read one after the other from the memory at \<open>data\<close>, each may use what
  is left of \<open>sz\<close>. Counts of parsed bytes are 32 bits wide, member counts 16 bits.
\<close>

definition FORCE_SINGLELINE :: bool where
  "FORCE_SINGLELINE = True"

definition DEFAULT :: bool where
  "DEFAULT = False"

definition parseListMember_int ::
  "parser \<Rightarrow> ptype \<Rightarrow> byte list \<Rightarrow> size_t \<Rightarrow> bool \<Rightarrow> enum_range res \<Rightarrow> bool \<Rightarrow> parsing_outputs res"
where
  "parseListMember_int P t data sz bsw names' bitmask =
     require (unat sz \<ge> ptype_size t) (
     and_then names' (\<lambda>r.
     and_then (load (little_endian P) data 0 (ptype_size t)) (\<lambda>memb.
     map_res (\<lambda>s. \<lparr>str = s, bytes_parsed = of_nat (ptype_size t)\<rparr>)
       (formatVariable P t memb bsw r bitmask))))"

definition append_member :: "whitespace \<Rightarrow> parsing_outputs \<Rightarrow> parsing_outputs \<Rightarrow> parsing_outputs" where
  "append_member ws outputs m =
     \<lparr>str = str outputs @ memb_indent ws @ str m @ separator ws,
      bytes_parsed = bytes_parsed outputs + bytes_parsed m\<rparr>"

fun parse_members ::
  "(byte list \<Rightarrow> size_t \<Rightarrow> parsing_outputs res) \<Rightarrow> byte list \<Rightarrow> size_t \<Rightarrow> whitespace \<Rightarrow> nat \<Rightarrow>
   parsing_outputs \<Rightarrow> parsing_outputs res"
where
  "parse_members parse data sz ws 0 outputs = Inr outputs"
| "parse_members parse data sz ws (Suc n) outputs =
     and_then (parse (drop (unat (bytes_parsed outputs)) data) (sz - ucast (bytes_parsed outputs)))
       (\<lambda>m. parse_members parse data sz ws n (append_member ws outputs m))"

definition parseLISTof ::
  "(byte list \<Rightarrow> size_t \<Rightarrow> parsing_outputs res) \<Rightarrow> byte list \<Rightarrow> size_t \<Rightarrow> 16 word \<Rightarrow> whitespace \<Rightarrow>
   parsing_outputs res"
where
  "parseLISTof parse data sz memb_ct ws =
     map_res (\<lambda>out. out\<lparr>str := str out @ (if memb_ct = 0 then [] else encl_indent ws) @ '']''\<rparr>)
       (parse_members parse data sz ws (unat memb_ct)
         \<lparr>str = ''['' @ (if memb_ct = 0 then [] else separator ws), bytes_parsed = 0\<rparr>)"

definition parseLISTof_int ::
  "parser \<Rightarrow> ptype \<Rightarrow> byte list \<Rightarrow> size_t \<Rightarrow> 16 word \<Rightarrow> bool \<Rightarrow> whitespace \<Rightarrow> enum_range res \<Rightarrow>
   bool \<Rightarrow> parsing_outputs res"
where
  "parseLISTof_int P t data sz memb_ct bsw ws names' bitmask =
     parseLISTof (\<lambda>d n. parseListMember_int P t d n bsw names' bitmask) data sz memb_ct ws"

subsection \<open>Lists of members of one size\<close>

text \<open>
  The loop reads member \<open>i\<close> at offset \<open>i * w\<close> when every member takes \<open>w\<close> bytes; what it
  leaves is the concatenation of the members' texts.
\<close>

lemma parse_members_fixed:
  assumes fixed: "\<And>i. i < k + n \<Longrightarrow>
      parse (drop (i * w) data) (sz - of_nat (i * w)) = Inr \<lparr>str = f i, bytes_parsed = of_nat w\<rparr>"
    and small: "(k + n) * w < 2 ^ 32"
  shows "parse_members parse data sz ws n \<lparr>str = s, bytes_parsed = of_nat (k * w)\<rparr> =
    Inr \<lparr>str = s @ concat (map (\<lambda>i. memb_indent ws @ f i @ separator ws) [k ..< k + n]),
         bytes_parsed = of_nat ((k + n) * w)\<rparr>"
  using assms
proof (induction n arbitrary: k s)
  case (Suc n)
  have "k * w \<le> (k + Suc n) * w"
    by (rule mult_le_mono1) simp
  then have kw: "k * w < 2 ^ 32"
    using Suc.prems(2) by linarith
  then have u: "unat (of_nat (k * w) :: 32 word) = k * w"
    by (simp add: unat_of_nat take_bit_nat_def del: of_nat_mult)
  have uc: "(ucast (of_nat (k * w) :: 32 word) :: size_t) = of_nat (k * w)"
    using u by (metis of_nat_unat)
  have "parse_members parse data sz ws (Suc n) \<lparr>str = s, bytes_parsed = of_nat (k * w)\<rparr> =
      parse_members parse data sz ws n
        \<lparr>str = s @ memb_indent ws @ f k @ separator ws, bytes_parsed = of_nat (Suc k * w)\<rparr>"
    using Suc.prems(1) [of k] by (simp add: u uc append_member_def add.commute del: of_nat_mult)
  also have "\<dots> = Inr \<lparr>str = (s @ memb_indent ws @ f k @ separator ws) @
        concat (map (\<lambda>i. memb_indent ws @ f i @ separator ws) [Suc k ..< Suc k + n]),
        bytes_parsed = of_nat ((Suc k + n) * w)\<rparr>"
    using Suc.prems by (intro Suc.IH) simp_all
  finally show ?case
    by (simp add: upt_rec [of k])
qed simp

lemma parseListMember_int_ok:
  assumes "ptype_size t \<le> length data" and "ptype_size t \<le> unat sz" and "names' = Inr r"
    and "names_ok t r bm" and "value_ok t (host_val (little_endian P) (take (ptype_size t) data))"
  shows "\<exists>s. parseListMember_int P t data sz bsw names' bm =
    Inr \<lparr>str = s, bytes_parsed = of_nat (ptype_size t)\<rparr>"
proof -
  have "is_ok (formatVariable P t (host_val (little_endian P) (take (ptype_size t) data)) bsw r bm)"
    using assms(4,5) by (simp add: is_ok_formatVariable)
  with assms(1-3) show ?thesis
    by (auto simp: parseListMember_int_def load_ok is_ok_def)
qed

definition the_text :: "string res \<Rightarrow> string" where
  "the_text r = (case r of Inl _ \<Rightarrow> [] | Inr s \<Rightarrow> s)"

definition list_text :: "whitespace \<Rightarrow> string list \<Rightarrow> string" where
  \<comment> \<open>brackets around the members, each on a line of its own in multi-line mode\<close>
  "list_text ws xs =
     ''['' @ (if xs = [] then [] else separator ws) @
     concat (map (\<lambda>x. memb_indent ws @ x @ separator ws) xs) @
     (if xs = [] then [] else encl_indent ws) @ '']''"

definition member_at :: "parser \<Rightarrow> ptype \<Rightarrow> byte list \<Rightarrow> nat \<Rightarrow> nat" where
  \<comment> \<open>the encoded value of member \<open>i\<close> of an array at \<open>data\<close>\<close>
  "member_at P t data i =
     host_val (little_endian P) (take (ptype_size t) (drop (i * ptype_size t) data))"

text \<open>
  A list of integers prints every member, in order, from its own bytes, and consumes
  exactly the bytes of its members.
\<close>

lemma parseLISTof_int_eq:
  assumes len: "unat memb_ct * ptype_size t \<le> length data"
    and sz: "unat memb_ct * ptype_size t \<le> unat sz" "ptype_size t \<le> 4"
    and names: "names' = Inr r" "names_ok t r bm"
    and vals: "\<forall>i < unat memb_ct. value_ok t (member_at P t data i)"
  shows "parseLISTof_int P t data sz memb_ct bsw ws names' bm =
    Inr \<lparr>str = list_text ws
          (map (\<lambda>i. the_text (formatVariable P t (member_at P t data i) bsw r bm)) [0 ..< unat memb_ct]),
         bytes_parsed = of_nat (unat memb_ct * ptype_size t)\<rparr>"
proof -
  let ?w = "ptype_size t" and ?n = "unat memb_ct"
  let ?f = "\<lambda>i. the_text (formatVariable P t (member_at P t data i) bsw r bm)"
  have step: "parseListMember_int P t (drop (i * ?w) data) (sz - of_nat (i * ?w)) bsw names' bm =
      Inr \<lparr>str = ?f i, bytes_parsed = of_nat ?w\<rparr>" if "i < 0 + ?n" for i
  proof -
    from that have "Suc i * ?w \<le> ?n * ?w"
      by (intro mult_le_mono1) simp
    then have le: "i * ?w + ?w \<le> ?n * ?w"
      by simp
    have "unat sz < 2 ^ 64"
      using unsigned_less [of sz] by simp
    then have big: "?n * ?w < 2 ^ 64"
      using sz(1) by linarith
    have u: "unat (of_nat (i * ?w) :: size_t) = i * ?w"
      using le big by (simp add: unat_of_nat take_bit_nat_def del: of_nat_mult)
    have "of_nat (i * ?w) \<le> sz"
      unfolding word_le_nat_alt u using le sz(1) by linarith
    then have "unat (sz - of_nat (i * ?w)) = unat sz - i * ?w"
      by (simp add: unat_sub u del: of_nat_mult)
    then have room: "?w \<le> unat (sz - of_nat (i * ?w))"
      using le sz(1) by simp
    have "is_ok (formatVariable P t (member_at P t data i) bsw r bm)"
      using names(2) vals that by (simp add: is_ok_formatVariable)
    then obtain s where s: "formatVariable P t (member_at P t data i) bsw r bm = Inr s"
      by (rule is_okE)
    have "load (little_endian P) (drop (i * ?w) data) 0 ?w = Inr (member_at P t data i)"
      using le len by (simp add: load_ok member_at_def)
    with room s names(1) show ?thesis
      by (simp add: parseListMember_int_def the_text_def del: of_nat_mult)
  qed
  have "?n < 2 ^ 16"
    using unsigned_less [of memb_ct] by simp
  then have "?n \<le> 2 ^ 16 - 1"
    by simp
  then have "?n * ?w \<le> (2 ^ 16 - 1) * 4"
    using sz(2) by (rule mult_le_mono)
  then have small: "(0 + ?n) * ?w < 2 ^ 32"
    by simp
  have "memb_ct = 0 \<longleftrightarrow> ?n = 0"
    by (simp add: unat_eq_0)
  then show ?thesis
    using parse_members_fixed [where k = 0 and n = ?n and w = ?w and f = ?f, OF step small, of ws]
    by (simp add: parseLISTof_int_def parseLISTof_def list_text_def comp_def)
qed

subsection \<open>Properties\<close>

text \<open>
  C32: A list of integers prints every member in order, each from its own bytes, between
  brackets, and accounts for exactly the bytes of its members.
\<close>

theorem integer_list_is_parsed:
  assumes "unat memb_ct * ptype_size t \<le> length data" and "unat memb_ct * ptype_size t \<le> unat sz"
    and "ptype_size t \<le> 4" and "names' = Inr r" and "names_ok t r bm"
    and "\<forall>i < unat memb_ct. value_ok t (member_at P t data i)"
  shows "parseLISTof_int P t data sz memb_ct bsw ws names' bm =
    Inr \<lparr>str = list_text ws
          (map (\<lambda>i. the_text (formatVariable P t (member_at P t data i) bsw r bm)) [0 ..< unat memb_ct]),
         bytes_parsed = of_nat (unat memb_ct * ptype_size t)\<rparr>"
  using assms by (rule parseLISTof_int_eq)

theorem integer_list_is_parsed_witness:
  "parseLISTof_int sample_parser CARD16 [1, 0, 2, 0, 3] 5 2 False sample_ws (Inr range_none) False =
    Inr \<lparr>str = list_text sample_ws
          (map (\<lambda>i. the_text (formatVariable sample_parser CARD16
             (member_at sample_parser CARD16 [1, 0, 2, 0, 3] i) False range_none False))
           [0 ..< unat (2 :: 16 word)]),
         bytes_parsed = of_nat (unat (2 :: 16 word) * ptype_size CARD16)\<rparr>"
  by (rule integer_list_is_parsed) (simp_all add: names_ok_def value_ok_def)

end
