(* ===== verification/RequestLayout.thy ===== *)
theory RequestLayout
  imports Types Names
begin

text \<open>
  The requests on the wire (\<open>protocol/requests.hpp\<close>): opcodes, names, the segments of
  their fixed encodings and the name tables of their members. \<open>request_type\<close> is what
  the templates over a request type use of it: the layouts of its \<open>Prefix\<close>, \<open>Length\<close>,
  \<open>BigLength\<close> and (if it has one) \<open>Encoding\<close>, and the two sizes. The structs of
  \<open>protocol/common_types.hpp\<close> that occur in lists are here too.
\<close>

definition size_of :: "layout \<Rightarrow> size_t" where
  "size_of L = of_nat (sizeof L)"

definition EXTENDED_LENGTH_FLAG :: nat where
  "EXTENDED_LENGTH_FLAG = 0"

record request_type =
  prefix_layout :: layout
  length_layout :: layout
  big_length_layout :: layout
  encoding_layout :: "layout option"
  BASE_ENCODING_SZ :: size_t
  BASE_BIG_ENCODING_SZ :: size_t

subsection \<open>Opcodes\<close>

definition CREATEWINDOW :: nat where
  "CREATEWINDOW = 1"

definition CHANGEWINDOWATTRIBUTES :: nat where
  "CHANGEWINDOWATTRIBUTES = 2"

definition GETWINDOWATTRIBUTES :: nat where
  "GETWINDOWATTRIBUTES = 3"

definition DESTROYWINDOW :: nat where
  "DESTROYWINDOW = 4"

definition DESTROYSUBWINDOWS :: nat where
  "DESTROYSUBWINDOWS = 5"

definition CHANGESAVESET :: nat where
  "CHANGESAVESET = 6"

definition REPARENTWINDOW :: nat where
  "REPARENTWINDOW = 7"

definition MAPWINDOW :: nat where
  "MAPWINDOW = 8"

definition MAPSUBWINDOWS :: nat where
  "MAPSUBWINDOWS = 9"

definition UNMAPWINDOW :: nat where
  "UNMAPWINDOW = 10"

definition UNMAPSUBWINDOWS :: nat where
  "UNMAPSUBWINDOWS = 11"

definition CONFIGUREWINDOW :: nat where
  "CONFIGUREWINDOW = 12"

definition CIRCULATEWINDOW :: nat where
  "CIRCULATEWINDOW = 13"

definition GETGEOMETRY :: nat where
  "GETGEOMETRY = 14"

definition QUERYTREE :: nat where
  "QUERYTREE = 15"

definition INTERNATOM :: nat where
  "INTERNATOM = 16"

definition GETATOMNAME :: nat where
  "GETATOMNAME = 17"

definition CHANGEPROPERTY :: nat where
  "CHANGEPROPERTY = 18"

definition DELETEPROPERTY :: nat where
  "DELETEPROPERTY = 19"

definition GETPROPERTY :: nat where
  "GETPROPERTY = 20"

definition LISTPROPERTIES :: nat where
  "LISTPROPERTIES = 21"

definition SETSELECTIONOWNER :: nat where
  "SETSELECTIONOWNER = 22"

definition GETSELECTIONOWNER :: nat where
  "GETSELECTIONOWNER = 23"

definition CONVERTSELECTION :: nat where
  "CONVERTSELECTION = 24"

definition SENDEVENT :: nat where
  "SENDEVENT = 25"

definition GRABPOINTER :: nat where
  "GRABPOINTER = 26"

definition UNGRABPOINTER :: nat where
  "UNGRABPOINTER = 27"

definition GRABBUTTON :: nat where
  "GRABBUTTON = 28"

definition UNGRABBUTTON :: nat where
  "UNGRABBUTTON = 29"

definition CHANGEACTIVEPOINTERGRAB :: nat where
  "CHANGEACTIVEPOINTERGRAB = 30"

definition GRABKEYBOARD :: nat where
  "GRABKEYBOARD = 31"

definition UNGRABKEYBOARD :: nat where
  "UNGRABKEYBOARD = 32"

definition GRABKEY :: nat where
  "GRABKEY = 33"

definition UNGRABKEY :: nat where
  "UNGRABKEY = 34"

definition ALLOWEVENTS :: nat where
  "ALLOWEVENTS = 35"

definition GRABSERVER :: nat where
  "GRABSERVER = 36"

definition UNGRABSERVER :: nat where
  "UNGRABSERVER = 37"

definition QUERYPOINTER :: nat where
  "QUERYPOINTER = 38"

definition GETMOTIONEVENTS :: nat where
  "GETMOTIONEVENTS = 39"

definition TRANSLATECOORDINATES :: nat where
  "TRANSLATECOORDINATES = 40"

definition WARPPOINTER :: nat where
  "WARPPOINTER = 41"

definition SETINPUTFOCUS :: nat where
  "SETINPUTFOCUS = 42"

definition GETINPUTFOCUS :: nat where
  "GETINPUTFOCUS = 43"

definition QUERYKEYMAP :: nat where
  "QUERYKEYMAP = 44"

definition OPENFONT :: nat where
  "OPENFONT = 45"

definition CLOSEFONT :: nat where
  "CLOSEFONT = 46"

definition QUERYFONT :: nat where
  "QUERYFONT = 47"

definition QUERYTEXTEXTENTS :: nat where
  "QUERYTEXTEXTENTS = 48"

definition LISTFONTS :: nat where
  "LISTFONTS = 49"

definition LISTFONTSWITHINFO :: nat where
  "LISTFONTSWITHINFO = 50"

definition SETFONTPATH :: nat where
  "SETFONTPATH = 51"

definition GETFONTPATH :: nat where
  "GETFONTPATH = 52"

definition CREATEPIXMAP :: nat where
  "CREATEPIXMAP = 53"

definition FREEPIXMAP :: nat where
  "FREEPIXMAP = 54"

definition CREATEGC :: nat where
  "CREATEGC = 55"

definition CHANGEGC :: nat where
  "CHANGEGC = 56"

definition COPYGC :: nat where
  "COPYGC = 57"

definition SETDASHES :: nat where
  "SETDASHES = 58"

definition SETCLIPRECTANGLES :: nat where
  "SETCLIPRECTANGLES = 59"

definition FREEGC :: nat where
  "FREEGC = 60"

definition CLEARAREA :: nat where
  "CLEARAREA = 61"

definition COPYAREA :: nat where
  "COPYAREA = 62"

definition COPYPLANE :: nat where
  "COPYPLANE = 63"

definition POLYPOINT :: nat where
  "POLYPOINT = 64"

definition POLYLINE :: nat where
  "POLYLINE = 65"

definition POLYSEGMENT :: nat where
  "POLYSEGMENT = 66"

definition POLYRECTANGLE :: nat where
  "POLYRECTANGLE = 67"

definition POLYARC :: nat where
  "POLYARC = 68"

definition FILLPOLY :: nat where
  "FILLPOLY = 69"

definition POLYFILLRECTANGLE :: nat where
  "POLYFILLRECTANGLE = 70"

definition POLYFILLARC :: nat where
  "POLYFILLARC = 71"

definition PUTIMAGE :: nat where
  "PUTIMAGE = 72"

definition GETIMAGE :: nat where
  "GETIMAGE = 73"

definition POLYTEXT8 :: nat where
  "POLYTEXT8 = 74"

definition POLYTEXT16 :: nat where
  "POLYTEXT16 = 75"

definition IMAGETEXT8 :: nat where
  "IMAGETEXT8 = 76"

definition IMAGETEXT16 :: nat where
  "IMAGETEXT16 = 77"

definition CREATECOLORMAP :: nat where
  "CREATECOLORMAP = 78"

definition FREECOLORMAP :: nat where
  "FREECOLORMAP = 79"

definition COPYCOLORMAPANDFREE :: nat where
  "COPYCOLORMAPANDFREE = 80"

definition INSTALLCOLORMAP :: nat where
  "INSTALLCOLORMAP = 81"

definition UNINSTALLCOLORMAP :: nat where
  "UNINSTALLCOLORMAP = 82"

definition LISTINSTALLEDCOLORMAPS :: nat where
  "LISTINSTALLEDCOLORMAPS = 83"

definition ALLOCCOLOR :: nat where
  "ALLOCCOLOR = 84"

definition ALLOCNAMEDCOLOR :: nat where
  "ALLOCNAMEDCOLOR = 85"

definition ALLOCCOLORCELLS :: nat where
  "ALLOCCOLORCELLS = 86"

definition ALLOCCOLORPLANES :: nat where
  "ALLOCCOLORPLANES = 87"

definition FREECOLORS :: nat where
  "FREECOLORS = 88"

definition STORECOLORS :: nat where
  "STORECOLORS = 89"

definition STORENAMEDCOLOR :: nat where
  "STORENAMEDCOLOR = 90"

definition QUERYCOLORS :: nat where
  "QUERYCOLORS = 91"

definition LOOKUPCOLOR :: nat where
  "LOOKUPCOLOR = 92"

definition CREATECURSOR :: nat where
  "CREATECURSOR = 93"

definition CREATEGLYPHCURSOR :: nat where
  "CREATEGLYPHCURSOR = 94"

definition FREECURSOR :: nat where
  "FREECURSOR = 95"

definition RECOLORCURSOR :: nat where
  "RECOLORCURSOR = 96"

definition QUERYBESTSIZE :: nat where
  "QUERYBESTSIZE = 97"

definition QUERYEXTENSION :: nat where
  "QUERYEXTENSION = 98"

definition LISTEXTENSIONS :: nat where
  "LISTEXTENSIONS = 99"

definition CHANGEKEYBOARDMAPPING :: nat where
  "CHANGEKEYBOARDMAPPING = 100"

definition GETKEYBOARDMAPPING :: nat where
  "GETKEYBOARDMAPPING = 101"

definition CHANGEKEYBOARDCONTROL :: nat where
  "CHANGEKEYBOARDCONTROL = 102"

definition GETKEYBOARDCONTROL :: nat where
  "GETKEYBOARDCONTROL = 103"

definition BELL :: nat where
  "BELL = 104"

definition CHANGEPOINTERCONTROL :: nat where
  "CHANGEPOINTERCONTROL = 105"

definition GETPOINTERCONTROL :: nat where
  "GETPOINTERCONTROL = 106"

definition SETSCREENSAVER :: nat where
  "SETSCREENSAVER = 107"

definition GETSCREENSAVER :: nat where
  "GETSCREENSAVER = 108"

definition CHANGEHOSTS :: nat where
  "CHANGEHOSTS = 109"

definition LISTHOSTS :: nat where
  "LISTHOSTS = 110"

definition SETACCESSCONTROL :: nat where
  "SETACCESSCONTROL = 111"

definition SETCLOSEDOWNMODE :: nat where
  "SETCLOSEDOWNMODE = 112"

definition KILLCLIENT :: nat where
  "KILLCLIENT = 113"

definition ROTATEPROPERTIES :: nat where
  "ROTATEPROPERTIES = 114"

definition FORCESCREENSAVER :: nat where
  "FORCESCREENSAVER = 115"

definition SETPOINTERMAPPING :: nat where
  "SETPOINTERMAPPING = 116"

definition GETPOINTERMAPPING :: nat where
  "GETPOINTERMAPPING = 117"

definition SETMODIFIERMAPPING :: nat where
  "SETMODIFIERMAPPING = 118"

definition GETMODIFIERMAPPING :: nat where
  "GETMODIFIERMAPPING = 119"

definition NOOPERATION :: nat where
  "NOOPERATION = 127"

lemmas request_opcodes_defs =
  CREATEWINDOW_def CHANGEWINDOWATTRIBUTES_def GETWINDOWATTRIBUTES_def DESTROYWINDOW_def
  DESTROYSUBWINDOWS_def CHANGESAVESET_def REPARENTWINDOW_def MAPWINDOW_def MAPSUBWINDOWS_def
  UNMAPWINDOW_def UNMAPSUBWINDOWS_def CONFIGUREWINDOW_def CIRCULATEWINDOW_def GETGEOMETRY_def
  QUERYTREE_def INTERNATOM_def GETATOMNAME_def CHANGEPROPERTY_def DELETEPROPERTY_def
  GETPROPERTY_def LISTPROPERTIES_def SETSELECTIONOWNER_def GETSELECTIONOWNER_def
  CONVERTSELECTION_def SENDEVENT_def GRABPOINTER_def UNGRABPOINTER_def GRABBUTTON_def
  UNGRABBUTTON_def CHANGEACTIVEPOINTERGRAB_def GRABKEYBOARD_def UNGRABKEYBOARD_def GRABKEY_def
  UNGRABKEY_def ALLOWEVENTS_def GRABSERVER_def UNGRABSERVER_def QUERYPOINTER_def
  GETMOTIONEVENTS_def TRANSLATECOORDINATES_def WARPPOINTER_def SETINPUTFOCUS_def
  GETINPUTFOCUS_def QUERYKEYMAP_def OPENFONT_def CLOSEFONT_def QUERYFONT_def
  QUERYTEXTEXTENTS_def LISTFONTS_def LISTFONTSWITHINFO_def SETFONTPATH_def GETFONTPATH_def
  CREATEPIXMAP_def FREEPIXMAP_def CREATEGC_def CHANGEGC_def COPYGC_def SETDASHES_def
  SETCLIPRECTANGLES_def FREEGC_def CLEARAREA_def COPYAREA_def COPYPLANE_def POLYPOINT_def
  POLYLINE_def POLYSEGMENT_def POLYRECTANGLE_def POLYARC_def FILLPOLY_def POLYFILLRECTANGLE_def
  POLYFILLARC_def PUTIMAGE_def GETIMAGE_def POLYTEXT8_def POLYTEXT16_def IMAGETEXT8_def
  IMAGETEXT16_def CREATECOLORMAP_def FREECOLORMAP_def COPYCOLORMAPANDFREE_def
  INSTALLCOLORMAP_def UNINSTALLCOLORMAP_def LISTINSTALLEDCOLORMAPS_def ALLOCCOLOR_def
  ALLOCNAMEDCOLOR_def ALLOCCOLORCELLS_def ALLOCCOLORPLANES_def FREECOLORS_def STORECOLORS_def
  STORENAMEDCOLOR_def QUERYCOLORS_def LOOKUPCOLOR_def CREATECURSOR_def CREATEGLYPHCURSOR_def
  FREECURSOR_def RECOLORCURSOR_def QUERYBESTSIZE_def QUERYEXTENSION_def LISTEXTENSIONS_def
  CHANGEKEYBOARDMAPPING_def GETKEYBOARDMAPPING_def CHANGEKEYBOARDCONTROL_def
  GETKEYBOARDCONTROL_def BELL_def CHANGEPOINTERCONTROL_def GETPOINTERCONTROL_def
  SETSCREENSAVER_def GETSCREENSAVER_def CHANGEHOSTS_def LISTHOSTS_def SETACCESSCONTROL_def
  SETCLOSEDOWNMODE_def KILLCLIENT_def ROTATEPROPERTIES_def FORCESCREENSAVER_def
  SETPOINTERMAPPING_def GETPOINTERMAPPING_def SETMODIFIERMAPPING_def GETMODIFIERMAPPING_def
  NOOPERATION_def

definition request_names :: "string list" where
  "request_names =
     [''(unused core opcode)'', ''CreateWindow'', ''ChangeWindowAttributes'',
      ''GetWindowAttributes'', ''DestroyWindow'', ''DestroySubwindows'', ''ChangeSaveSet'',
      ''ReparentWindow'', ''MapWindow'', ''MapSubwindows'', ''UnmapWindow'',
      ''UnmapSubwindows'', ''ConfigureWindow'', ''CirculateWindow'', ''GetGeometry'',
      ''QueryTree'', ''InternAtom'', ''GetAtomName'', ''ChangeProperty'', ''DeleteProperty'',
      ''GetProperty'', ''ListProperties'', ''SetSelectionOwner'', ''GetSelectionOwner'',
      ''ConvertSelection'', ''SendEvent'', ''GrabPointer'', ''UngrabPointer'', ''GrabButton'',
      ''UngrabButton'', ''ChangeActivePointerGrab'', ''GrabKeyboard'', ''UngrabKeyboard'',
      ''GrabKey'', ''UngrabKey'', ''AllowEvents'', ''GrabServer'', ''UngrabServer'',
      ''QueryPointer'', ''GetMotionEvents'', ''TranslateCoordinates'', ''WarpPointer'',
      ''SetInputFocus'', ''GetInputFocus'', ''QueryKeymap'', ''OpenFont'', ''CloseFont'',
      ''QueryFont'', ''QueryTextExtents'', ''ListFonts'', ''ListFontsWithInfo'',
      ''SetFontPath'', ''GetFontPath'', ''CreatePixmap'', ''FreePixmap'', ''CreateGC'',
      ''ChangeGC'', ''CopyGC'', ''SetDashes'', ''SetClipRectangles'', ''FreeGC'',
      ''ClearArea'', ''CopyArea'', ''CopyPlane'', ''PolyPoint'', ''PolyLine'', ''PolySegment'',
      ''PolyRectangle'', ''PolyArc'', ''FillPoly'', ''PolyFillRectangle'', ''PolyFillArc'',
      ''PutImage'', ''GetImage'', ''PolyText8'', ''PolyText16'', ''ImageText8'',
      ''ImageText16'', ''CreateColormap'', ''FreeColormap'', ''CopyColormapAndFree'',
      ''InstallColormap'', ''UninstallColormap'', ''ListInstalledColormaps'', ''AllocColor'',
      ''AllocNamedColor'', ''AllocColorCells'', ''AllocColorPlanes'', ''FreeColors'',
      ''StoreColors'', ''StoreNamedColor'', ''QueryColors'', ''LookupColor'', ''CreateCursor'',
      ''CreateGlyphCursor'', ''FreeCursor'', ''RecolorCursor'', ''QueryBestSize'',
      ''QueryExtension'', ''ListExtensions'', ''ChangeKeyboardMapping'',
      ''GetKeyboardMapping'', ''ChangeKeyboardControl'', ''GetKeyboardControl'', ''Bell'',
      ''ChangePointerControl'', ''GetPointerControl'', ''SetScreenSaver'', ''GetScreenSaver'',
      ''ChangeHosts'', ''ListHosts'', ''SetAccessControl'', ''SetCloseDownMode'',
      ''KillClient'', ''RotateProperties'', ''ForceScreenSaver'', ''SetPointerMapping'',
      ''GetPointerMapping'', ''SetModifierMapping'', ''GetModifierMapping'',
      ''(unused core opcode)'', ''(unused core opcode)'', ''(unused core opcode)'',
      ''(unused core opcode)'', ''(unused core opcode)'', ''(unused core opcode)'',
      ''(unused core opcode)'', ''NoOperation'']"

subsection \<open>Structs of lists\<close>

definition CHAR2B :: layout where
  "CHAR2B =
     [(''byte1'', CARD8), (''byte2'', CARD8)]"

definition POINT :: layout where
  "POINT =
     [(''x'', INT16), (''y'', INT16)]"

definition RECTANGLE :: layout where
  "RECTANGLE =
     [(''x'', INT16), (''y'', INT16), (''width'', CARD16), (''height'', CARD16)]"

definition ARC :: layout where
  "ARC =
     [(''x'', INT16), (''y'', INT16), (''width'', CARD16), (''height'', CARD16),
      (''angle1'', INT16), (''angle2'', INT16)]"

definition HOST_Header :: layout where
  "HOST_Header =
     [(''family'', CARD8), (''_unused'', CARD8), (''address_len'', CARD16)]"

definition STR_Header :: layout where
  "STR_Header =
     [(''name_len'', CARD8)]"

definition HOST_family_names :: "string list" where
  "HOST_family_names = enum_names_host_family"

subsection \<open>Encodings\<close>

definition Request_Prefix :: layout where
  "Request_Prefix =
     [(''opcode'', CARD8), (''_unused'', CARD8)]"

definition Request_Length :: layout where
  "Request_Length =
     [(''tl_aligned_units'', CARD16)]"

definition Request_BigLength :: layout where
  "Request_BigLength =
     [(''extended_length_flag'', CARD16), (''tl_aligned_units'', CARD32)]"

definition SimpleWindowRequest_Encoding :: layout where
  "SimpleWindowRequest_Encoding =
     [(''window'', WINDOW)]"

definition ListFontsRequest_Encoding :: layout where
  "ListFontsRequest_Encoding =
     [(''max_names'', CARD16), (''pattern_len'', CARD16)]"

definition PolyPointRequest_Prefix :: layout where
  "PolyPointRequest_Prefix =
     [(''opcode'', CARD8), (''coordinate_mode'', CARD8)]"

definition PolyPointRequest_Encoding :: layout where
  "PolyPointRequest_Encoding =
     [(''drawable'', DRAWABLE), (''gc'', GCONTEXT)]"

definition PolyPointRequest_coordinate_mode_names :: "string list" where
  "PolyPointRequest_coordinate_mode_names = enum_names_poly_coordinate_mode"

definition SimpleCmapRequest_Encoding :: layout where
  "SimpleCmapRequest_Encoding =
     [(''cmap'', COLORMAP)]"

definition CreateWindow_Prefix :: layout where
  "CreateWindow_Prefix =
     [(''opcode'', CARD8), (''depth'', CARD8)]"

definition CreateWindow_Encoding :: layout where
  "CreateWindow_Encoding =
     [(''wid'', WINDOW), (''parent'', WINDOW), (''x'', INT16), (''y'', INT16),
      (''width'', CARD16), (''height'', CARD16), (''border_width'', CARD16),
      (''class_'', CARD16), (''visual'', VISUALID), (''value_mask'', CARD32)]"

definition WindowValueListRequest_background_pixmap_names :: "string list" where
  "WindowValueListRequest_background_pixmap_names = enum_names_window_attribute_background_pixmap"

definition WindowValueListRequest_border_pixmap_names :: "string list" where
  "WindowValueListRequest_border_pixmap_names = enum_names_zero_copy_from_parent"

definition WindowValueListRequest_backing_store_names :: "string list" where
  "WindowValueListRequest_backing_store_names = enum_names_window_attribute_backing_store"

definition WindowValueListRequest_colormap_names :: "string list" where
  "WindowValueListRequest_colormap_names = enum_names_zero_copy_from_parent"

definition WindowValueListRequest_cursor_names :: "string list" where
  "WindowValueListRequest_cursor_names = enum_names_zero_none"

definition WindowValueListRequest_value_types :: "ptype list" where
  "WindowValueListRequest_value_types =
     [PIXMAP, CARD32, PIXMAP, CARD32, BITGRAVITY, WINGRAVITY, CARD8, CARD32, CARD32, BOOL,
      BOOL, SETofEVENT, SETofDEVICEEVENT, COLORMAP, CURSOR]"

definition WindowValueListRequest_value_names :: "string list" where
  "WindowValueListRequest_value_names = enum_names_window_attribute_value_mask"

definition CreateWindow_class_names :: "string list" where
  "CreateWindow_class_names = enum_names_window_class"

definition CreateWindow_visual_names :: "string list" where
  "CreateWindow_visual_names = enum_names_zero_copy_from_parent"

definition ChangeWindowAttributes_Encoding :: layout where
  "ChangeWindowAttributes_Encoding =
     [(''window'', WINDOW), (''value_mask'', CARD32)]"

definition ChangeSaveSet_Prefix :: layout where
  "ChangeSaveSet_Prefix =
     [(''opcode'', CARD8), (''mode'', CARD8)]"

definition ChangeSaveSet_Encoding :: layout where
  "ChangeSaveSet_Encoding =
     [(''window'', WINDOW)]"

definition ChangeSaveSet_mode_names :: "string list" where
  "ChangeSaveSet_mode_names = enum_names_change_mode"

definition ReparentWindow_Encoding :: layout where
  "ReparentWindow_Encoding =
     [(''window'', WINDOW), (''parent'', WINDOW), (''x'', INT16), (''y'', INT16)]"

definition ConfigureWindow_Encoding :: layout where
  "ConfigureWindow_Encoding =
     [(''window'', WINDOW), (''value_mask'', CARD16), (''_unused'', Bytes 2)]"

definition ConfigureWindow_stack_mode_names :: "string list" where
  "ConfigureWindow_stack_mode_names = enum_names_window_value_stack_mode"

definition ConfigureWindow_value_types :: "ptype list" where
  "ConfigureWindow_value_types =
     [INT16, INT16, CARD16, CARD16, CARD16, WINDOW, CARD8]"

definition ConfigureWindow_value_names :: "string list" where
  "ConfigureWindow_value_names = enum_names_window_value_mask"

definition CirculateWindow_Prefix :: layout where
  "CirculateWindow_Prefix =
     [(''opcode'', CARD8), (''direction'', CARD8)]"

definition CirculateWindow_Encoding :: layout where
  "CirculateWindow_Encoding =
     [(''window'', WINDOW)]"

definition CirculateWindow_direction_names :: "string list" where
  "CirculateWindow_direction_names =
     [''RaiseLowest'', ''LowerHighest'']"

definition GetGeometry_Encoding :: layout where
  "GetGeometry_Encoding =
     [(''drawable'', DRAWABLE)]"

definition InternAtom_Prefix :: layout where
  "InternAtom_Prefix =
     [(''opcode'', CARD8), (''only_if_exists'', BOOL)]"

definition InternAtom_Encoding :: layout where
  "InternAtom_Encoding =
     [(''name_len'', CARD16), (''_unused'', Bytes 2)]"

definition GetAtomName_Encoding :: layout where
  "GetAtomName_Encoding =
     [(''atom'', ATOM)]"

definition ChangeProperty_Prefix :: layout where
  "ChangeProperty_Prefix =
     [(''opcode'', CARD8), (''mode'', CARD8)]"

definition ChangeProperty_Encoding :: layout where
  "ChangeProperty_Encoding =
     [(''window'', WINDOW), (''property'', ATOM), (''type'', ATOM), (''format'', CARD8),
      (''_unused'', Bytes 3), (''data_fmt_unit_len'', CARD32)]"

definition ChangeProperty_mode_names :: "string list" where
  "ChangeProperty_mode_names =
     [''Replace'', ''Prepend'', ''Append'']"

definition DeleteProperty_Encoding :: layout where
  "DeleteProperty_Encoding =
     [(''window'', WINDOW), (''property'', ATOM)]"

definition GetProperty_Prefix :: layout where
  "GetProperty_Prefix =
     [(''opcode'', CARD8), (''delete_'', BOOL)]"

definition GetProperty_Encoding :: layout where
  "GetProperty_Encoding =
     [(''window'', WINDOW), (''property'', ATOM), (''type'', ATOM), (''long_offset'', CARD32),
      (''long_length'', CARD32)]"

definition SetSelectionOwner_Encoding :: layout where
  "SetSelectionOwner_Encoding =
     [(''owner'', WINDOW), (''selection'', ATOM), (''time'', TIMESTAMP)]"

definition SetSelectionOwner_owner_names :: "string list" where
  "SetSelectionOwner_owner_names = enum_names_zero_none"

definition SetSelectionOwner_time_names :: "string list" where
  "SetSelectionOwner_time_names = enum_names_time"

definition GetSelectionOwner_Encoding :: layout where
  "GetSelectionOwner_Encoding =
     [(''selection'', ATOM)]"

definition ConvertSelection_Encoding :: layout where
  "ConvertSelection_Encoding =
     [(''requestor'', WINDOW), (''selection'', ATOM), (''target'', ATOM),
      (''property'', ATOM), (''time'', TIMESTAMP)]"

definition ConvertSelection_property_names :: "string list" where
  "ConvertSelection_property_names = enum_names_zero_none"

definition ConvertSelection_time_names :: "string list" where
  "ConvertSelection_time_names = enum_names_time"

definition SendEvent_Prefix :: layout where
  "SendEvent_Prefix =
     [(''opcode'', CARD8), (''propagate'', BOOL)]"

definition SendEvent_Encoding :: layout where
  "SendEvent_Encoding =
     [(''destination'', WINDOW), (''event_mask'', SETofEVENT)]"

definition SendEvent_destination_names :: "string list" where
  "SendEvent_destination_names =
     [''PointerWindow'', ''InputFocus'']"

definition GrabPointer_Prefix :: layout where
  "GrabPointer_Prefix =
     [(''opcode'', CARD8), (''owner_events'', BOOL)]"

definition GrabPointer_Encoding :: layout where
  "GrabPointer_Encoding =
     [(''grab_window'', WINDOW), (''event_mask'', SETofPOINTEREVENT),
      (''pointer_mode'', CARD8), (''keyboard_mode'', CARD8), (''confine_to'', WINDOW),
      (''cursor'', CURSOR), (''time'', TIMESTAMP)]"

definition GrabPointer_pointer_mode_names :: "string list" where
  "GrabPointer_pointer_mode_names = enum_names_input_mode"

definition GrabPointer_keyboard_mode_names :: "string list" where
  "GrabPointer_keyboard_mode_names = enum_names_input_mode"

definition GrabPointer_confine_to_names :: "string list" where
  "GrabPointer_confine_to_names = enum_names_zero_none"

definition GrabPointer_cursor_names :: "string list" where
  "GrabPointer_cursor_names = enum_names_zero_none"

definition GrabPointer_time_names :: "string list" where
  "GrabPointer_time_names = enum_names_time"

definition UngrabPointer_Encoding :: layout where
  "UngrabPointer_Encoding =
     [(''time'', TIMESTAMP)]"

definition UngrabPointer_time_names :: "string list" where
  "UngrabPointer_time_names = enum_names_time"

definition GrabButton_Prefix :: layout where
  "GrabButton_Prefix =
     [(''opcode'', CARD8), (''owner_events'', BOOL)]"

definition GrabButton_Encoding :: layout where
  "GrabButton_Encoding =
     [(''grab_window'', WINDOW), (''event_mask'', SETofPOINTEREVENT),
      (''pointer_mode'', CARD8), (''keyboard_mode'', CARD8), (''confine_to'', WINDOW),
      (''cursor'', CURSOR), (''button'', BUTTON), (''unused'', CARD8),
      (''modifiers'', SETofKEYMASK)]"

definition GrabButton_pointer_mode_names :: "string list" where
  "GrabButton_pointer_mode_names = enum_names_input_mode"

definition GrabButton_keyboard_mode_names :: "string list" where
  "GrabButton_keyboard_mode_names = enum_names_input_mode"

definition GrabButton_confine_to_names :: "string list" where
  "GrabButton_confine_to_names = enum_names_zero_none"

definition GrabButton_cursor_names :: "string list" where
  "GrabButton_cursor_names = enum_names_zero_none"

definition GrabButton_button_names :: "string list" where
  "GrabButton_button_names = enum_names_button"

definition UngrabButton_Prefix :: layout where
  "UngrabButton_Prefix =
     [(''opcode'', CARD8), (''button'', BUTTON)]"

definition UngrabButton_Encoding :: layout where
  "UngrabButton_Encoding =
     [(''grab_window'', WINDOW), (''modifiers'', SETofKEYMASK), (''_unused'', Bytes 2)]"

definition UngrabButton_button_names :: "string list" where
  "UngrabButton_button_names = enum_names_button"

definition ChangeActivePointerGrab_Encoding :: layout where
  "ChangeActivePointerGrab_Encoding =
     [(''cursor'', CURSOR), (''time'', TIMESTAMP), (''event_mask'', SETofPOINTEREVENT),
      (''_unused'', Bytes 2)]"

definition ChangeActivePointerGrab_cursor_names :: "string list" where
  "ChangeActivePointerGrab_cursor_names = enum_names_zero_none"

definition ChangeActivePointerGrab_time_names :: "string list" where
  "ChangeActivePointerGrab_time_names = enum_names_time"

definition GrabKeyboard_Prefix :: layout where
  "GrabKeyboard_Prefix =
     [(''opcode'', CARD8), (''owner_events'', BOOL)]"

definition GrabKeyboard_Encoding :: layout where
  "GrabKeyboard_Encoding =
     [(''grab_window'', WINDOW), (''time'', TIMESTAMP), (''pointer_mode'', CARD8),
      (''keyboard_mode'', CARD8), (''_unused'', Bytes 2)]"

definition GrabKeyboard_time_names :: "string list" where
  "GrabKeyboard_time_names = enum_names_time"

definition GrabKeyboard_pointer_mode_names :: "string list" where
  "GrabKeyboard_pointer_mode_names = enum_names_input_mode"

definition GrabKeyboard_keyboard_mode_names :: "string list" where
  "GrabKeyboard_keyboard_mode_names = enum_names_input_mode"

definition UngrabKeyboard_Encoding :: layout where
  "UngrabKeyboard_Encoding =
     [(''time'', TIMESTAMP)]"

definition UngrabKeyboard_time_names :: "string list" where
  "UngrabKeyboard_time_names = enum_names_time"

definition GrabKey_Prefix :: layout where
  "GrabKey_Prefix =
     [(''opcode'', CARD8), (''owner_events'', BOOL)]"

definition GrabKey_Encoding :: layout where
  "GrabKey_Encoding =
     [(''grab_window'', WINDOW), (''modifiers'', SETofKEYMASK), (''key'', KEYCODE),
      (''pointer_mode'', CARD8), (''keyboard_mode'', CARD8), (''_unused'', Bytes 3)]"

definition GrabKey_key_names :: "string list" where
  "GrabKey_key_names = enum_names_key"

definition GrabKey_pointer_mode_names :: "string list" where
  "GrabKey_pointer_mode_names = enum_names_input_mode"

definition GrabKey_keyboard_mode_names :: "string list" where
  "GrabKey_keyboard_mode_names = enum_names_input_mode"

definition UngrabKey_Prefix :: layout where
  "UngrabKey_Prefix =
     [(''opcode'', CARD8), (''key'', KEYCODE)]"

definition UngrabKey_Encoding :: layout where
  "UngrabKey_Encoding =
     [(''grab_window'', WINDOW), (''modifiers'', SETofKEYMASK), (''_unused'', Bytes 2)]"

definition UngrabKey_key_names :: "string list" where
  "UngrabKey_key_names = enum_names_key"

definition AllowEvents_Prefix :: layout where
  "AllowEvents_Prefix =
     [(''opcode'', CARD8), (''mode'', CARD8)]"

definition AllowEvents_Encoding :: layout where
  "AllowEvents_Encoding =
     [(''time'', TIMESTAMP)]"

definition AllowEvents_mode_names :: "string list" where
  "AllowEvents_mode_names =
     [''AsyncPointer'', ''SyncPointer'', ''ReplayPointer'', ''AsyncKeyboard'',
      ''SyncKeyboard'', ''ReplayKeyboard'', ''AsyncBoth'', ''SyncBoth'']"

definition AllowEvents_time_names :: "string list" where
  "AllowEvents_time_names = enum_names_time"

definition GetMotionEvents_Encoding :: layout where
  "GetMotionEvents_Encoding =
     [(''window'', WINDOW), (''start'', TIMESTAMP), (''stop'', TIMESTAMP)]"

definition GetMotionEvents_start_names :: "string list" where
  "GetMotionEvents_start_names = enum_names_time"

definition GetMotionEvents_stop_names :: "string list" where
  "GetMotionEvents_stop_names = enum_names_time"

definition TranslateCoordinates_Encoding :: layout where
  "TranslateCoordinates_Encoding =
     [(''src_window'', WINDOW), (''dst_window'', WINDOW), (''src_x'', INT16),
      (''src_y'', INT16)]"

definition WarpPointer_Encoding :: layout where
  "WarpPointer_Encoding =
     [(''src_window'', WINDOW), (''dst_window'', WINDOW), (''src_x'', INT16),
      (''src_y'', INT16), (''src_width'', CARD16), (''src_height'', CARD16),
      (''dst_x'', INT16), (''dst_y'', INT16)]"

definition WarpPointer_src_window_names :: "string list" where
  "WarpPointer_src_window_names = enum_names_zero_none"

definition WarpPointer_dst_window_names :: "string list" where
  "WarpPointer_dst_window_names = enum_names_zero_none"

definition SetInputFocus_Prefix :: layout where
  "SetInputFocus_Prefix =
     [(''opcode'', CARD8), (''revert_to'', CARD8)]"

definition SetInputFocus_Encoding :: layout where
  "SetInputFocus_Encoding =
     [(''focus'', WINDOW), (''time'', TIMESTAMP)]"

definition SetInputFocus_revert_to_names :: "string list" where
  "SetInputFocus_revert_to_names = enum_names_input_focus"

definition SetInputFocus_focus_names :: "string list" where
  "SetInputFocus_focus_names = enum_names_input_focus"

definition SetInputFocus_FOCUS_ENUM_MAX :: nat where
  "SetInputFocus_FOCUS_ENUM_MAX = 1"

definition SetInputFocus_time_names :: "string list" where
  "SetInputFocus_time_names = enum_names_time"

definition OpenFont_Encoding :: layout where
  "OpenFont_Encoding =
     [(''fid'', FONT), (''name_len'', CARD16), (''_unused'', Bytes 2)]"

definition CloseFont_Encoding :: layout where
  "CloseFont_Encoding =
     [(''font'', FONT)]"

definition QueryFont_Encoding :: layout where
  "QueryFont_Encoding =
     [(''font'', FONTABLE)]"

definition QueryTextExtents_Prefix :: layout where
  "QueryTextExtents_Prefix =
     [(''opcode'', CARD8), (''odd_length'', BOOL)]"

definition QueryTextExtents_Encoding :: layout where
  "QueryTextExtents_Encoding =
     [(''font'', FONTABLE)]"

definition SetFontPath_Encoding :: layout where
  "SetFontPath_Encoding =
     [(''path_ct'', CARD16), (''_unused'', Bytes 2)]"

definition CreatePixmap_Prefix :: layout where
  "CreatePixmap_Prefix =
     [(''opcode'', CARD8), (''depth'', CARD8)]"

definition CreatePixmap_Encoding :: layout where
  "CreatePixmap_Encoding =
     [(''pid'', PIXMAP), (''drawable'', DRAWABLE), (''width'', CARD16), (''height'', CARD16)]"

definition FreePixmap_Encoding :: layout where
  "FreePixmap_Encoding =
     [(''pixmap'', PIXMAP)]"

definition CreateGC_Encoding :: layout where
  "CreateGC_Encoding =
     [(''cid'', GCONTEXT), (''drawable'', DRAWABLE), (''value_mask'', CARD32)]"

definition GCRequest_function_names :: "string list" where
  "GCRequest_function_names = enum_names_gc_value_function"

definition GCRequest_line_style_names :: "string list" where
  "GCRequest_line_style_names = enum_names_gc_value_line_style"

definition GCRequest_cap_style_names :: "string list" where
  "GCRequest_cap_style_names = enum_names_gc_value_cap_style"

definition GCRequest_join_style_names :: "string list" where
  "GCRequest_join_style_names = enum_names_gc_value_join_style"

definition GCRequest_fill_style_names :: "string list" where
  "GCRequest_fill_style_names = enum_names_gc_value_fill_style"

definition GCRequest_fill_rule_names :: "string list" where
  "GCRequest_fill_rule_names = enum_names_gc_value_fill_rule"

definition GCRequest_subwindow_mode_names :: "string list" where
  "GCRequest_subwindow_mode_names = enum_names_gc_value_subwindow_mode"

definition GCRequest_clip_mask_names :: "string list" where
  "GCRequest_clip_mask_names = enum_names_zero_none"

definition GCRequest_arc_mode_names :: "string list" where
  "GCRequest_arc_mode_names = enum_names_gc_value_arc_mode"

definition GCRequest_value_types :: "ptype list" where
  "GCRequest_value_types =
     [CARD8, CARD32, CARD32, CARD32, CARD16, CARD8, CARD8, CARD8, CARD8, CARD8, PIXMAP,
      PIXMAP, INT16, INT16, FONT, CARD8, BOOL, INT16, INT16, PIXMAP, CARD16, CARD8, CARD8]"

definition GCRequest_value_names :: "string list" where
  "GCRequest_value_names = enum_names_gc_value_mask"

definition ChangeGC_Encoding :: layout where
  "ChangeGC_Encoding =
     [(''gc'', GCONTEXT), (''value_mask'', CARD32)]"

definition CopyGC_Encoding :: layout where
  "CopyGC_Encoding =
     [(''src_gc'', GCONTEXT), (''dst_gc'', GCONTEXT), (''value_mask'', CARD32)]"

definition SetDashes_Encoding :: layout where
  "SetDashes_Encoding =
     [(''gc'', GCONTEXT), (''dash_offset'', CARD16), (''dashes_len'', CARD16)]"

definition SetClipRectangles_Prefix :: layout where
  "SetClipRectangles_Prefix =
     [(''opcode'', CARD8), (''ordering'', CARD8)]"

definition SetClipRectangles_Encoding :: layout where
  "SetClipRectangles_Encoding =
     [(''gc'', GCONTEXT), (''clip_x_origin'', INT16), (''clip_y_origin'', INT16)]"

definition SetClipRectangles_ordering_names :: "string list" where
  "SetClipRectangles_ordering_names =
     [''UnSorted'', ''YSorted'', ''YXSorted'', ''YXBanded'']"

definition FreeGC_Encoding :: layout where
  "FreeGC_Encoding =
     [(''gc'', GCONTEXT)]"

definition ClearArea_Prefix :: layout where
  "ClearArea_Prefix =
     [(''opcode'', CARD8), (''exposures'', BOOL)]"

definition ClearArea_Encoding :: layout where
  "ClearArea_Encoding =
     [(''window'', WINDOW), (''x'', INT16), (''y'', INT16), (''width'', CARD16),
      (''height'', CARD16)]"

definition CopyArea_Encoding :: layout where
  "CopyArea_Encoding =
     [(''src_drawable'', DRAWABLE), (''dst_drawable'', DRAWABLE), (''gc'', GCONTEXT),
      (''src_x'', INT16), (''src_y'', INT16), (''dst_x'', INT16), (''dst_y'', INT16),
      (''width'', CARD16), (''height'', CARD16)]"

definition CopyPlane_Encoding :: layout where
  "CopyPlane_Encoding =
     [(''src_drawable'', DRAWABLE), (''dst_drawable'', DRAWABLE), (''gc'', GCONTEXT),
      (''src_x'', INT16), (''src_y'', INT16), (''dst_x'', INT16), (''dst_y'', INT16),
      (''width'', CARD16), (''height'', CARD16), (''bit_plane'', CARD32)]"

definition PolySegment_Encoding :: layout where
  "PolySegment_Encoding =
     [(''drawable'', DRAWABLE), (''gc'', GCONTEXT)]"

definition PolyRectangle_Encoding :: layout where
  "PolyRectangle_Encoding =
     [(''drawable'', DRAWABLE), (''gc'', GCONTEXT)]"

definition PolyArc_Encoding :: layout where
  "PolyArc_Encoding =
     [(''drawable'', DRAWABLE), (''gc'', GCONTEXT)]"

definition FillPoly_Encoding :: layout where
  "FillPoly_Encoding =
     [(''drawable'', DRAWABLE), (''gc'', GCONTEXT), (''shape'', CARD8),
      (''coordinate_mode'', CARD8), (''_unused'', Bytes 2)]"

definition FillPoly_shape_names :: "string list" where
  "FillPoly_shape_names =
     [''Complex'', ''Nonconvex'', ''Convex'']"

definition FillPoly_coordinate_mode_names :: "string list" where
  "FillPoly_coordinate_mode_names = enum_names_poly_coordinate_mode"

definition PolyFillRectangle_Encoding :: layout where
  "PolyFillRectangle_Encoding =
     [(''drawable'', DRAWABLE), (''gc'', GCONTEXT)]"

definition PolyFillArc_Encoding :: layout where
  "PolyFillArc_Encoding =
     [(''drawable'', DRAWABLE), (''gc'', GCONTEXT)]"

definition PutImage_Prefix :: layout where
  "PutImage_Prefix =
     [(''opcode'', CARD8), (''format'', CARD8)]"

definition PutImage_Encoding :: layout where
  "PutImage_Encoding =
     [(''drawable'', DRAWABLE), (''gc'', GCONTEXT), (''width'', CARD16), (''height'', CARD16),
      (''dst_x'', INT16), (''dst_y'', INT16), (''left_pad'', CARD8), (''depth'', CARD8),
      (''_unused'', Bytes 2)]"

definition PutImage_format_names :: "string list" where
  "PutImage_format_names = enum_names_image_format"

definition GetImage_Prefix :: layout where
  "GetImage_Prefix =
     [(''opcode'', CARD8), (''format'', CARD8)]"

definition GetImage_Encoding :: layout where
  "GetImage_Encoding =
     [(''drawable'', DRAWABLE), (''x'', INT16), (''y'', INT16), (''width'', CARD16),
      (''height'', CARD16), (''plane_mask'', CARD32)]"

definition GetImage_format_names :: "string list" where
  "GetImage_format_names = enum_names_image_format"

definition GetImage_FORMAT_ENUM_MIN :: nat where
  "GetImage_FORMAT_ENUM_MIN = 1"

definition PolyTextRequest_Encoding :: layout where
  "PolyTextRequest_Encoding =
     [(''drawable'', DRAWABLE), (''gc'', GCONTEXT), (''x'', INT16), (''y'', INT16)]"

definition ImageText8_Prefix :: layout where
  "ImageText8_Prefix =
     [(''opcode'', CARD8), (''string_len'', CARD8)]"

definition ImageText8_Encoding :: layout where
  "ImageText8_Encoding =
     [(''drawable'', DRAWABLE), (''gc'', GCONTEXT), (''x'', INT16), (''y'', INT16)]"

definition ImageText16_Prefix :: layout where
  "ImageText16_Prefix =
     [(''opcode'', CARD8), (''string_2B_len'', CARD8)]"

definition ImageText16_Encoding :: layout where
  "ImageText16_Encoding =
     [(''drawable'', DRAWABLE), (''gc'', GCONTEXT), (''x'', INT16), (''y'', INT16)]"

definition CreateColormap_Prefix :: layout where
  "CreateColormap_Prefix =
     [(''opcode'', CARD8), (''alloc'', CARD8)]"

definition CreateColormap_Encoding :: layout where
  "CreateColormap_Encoding =
     [(''mid'', COLORMAP), (''window'', WINDOW), (''visual'', VISUALID)]"

definition CreateColormap_alloc_names :: "string list" where
  "CreateColormap_alloc_names =
     [''None'', ''All'']"

definition CopyColormapAndFree_Encoding :: layout where
  "CopyColormapAndFree_Encoding =
     [(''mid'', COLORMAP), (''src_cmap'', COLORMAP)]"

definition AllocColor_Encoding :: layout where
  "AllocColor_Encoding =
     [(''cmap'', COLORMAP), (''red'', CARD16), (''green'', CARD16), (''blue'', CARD16),
      (''_unused'', Bytes 2)]"

definition AllocNamedColor_Encoding :: layout where
  "AllocNamedColor_Encoding =
     [(''cmap'', COLORMAP), (''name_len'', CARD16), (''_unused'', Bytes 2)]"

definition AllocColorCells_Prefix :: layout where
  "AllocColorCells_Prefix =
     [(''opcode'', CARD8), (''contiguous'', BOOL)]"

definition AllocColorCells_Encoding :: layout where
  "AllocColorCells_Encoding =
     [(''cmap'', COLORMAP), (''colors'', CARD16), (''planes'', CARD16)]"

definition AllocColorPlanes_Prefix :: layout where
  "AllocColorPlanes_Prefix =
     [(''opcode'', CARD8), (''contiguous'', BOOL)]"

definition AllocColorPlanes_Encoding :: layout where
  "AllocColorPlanes_Encoding =
     [(''cmap'', COLORMAP), (''colors'', CARD16), (''reds'', CARD16), (''greens'', CARD16),
      (''blues'', CARD16)]"

definition FreeColors_Encoding :: layout where
  "FreeColors_Encoding =
     [(''cmap'', COLORMAP), (''plane_mask'', CARD32)]"

definition StoreColors_Encoding :: layout where
  "StoreColors_Encoding =
     [(''cmap'', COLORMAP)]"

definition StoreNamedColor_Prefix :: layout where
  "StoreNamedColor_Prefix =
     [(''opcode'', CARD8), (''do_rgb_mask'', CARD8)]"

definition StoreNamedColor_Encoding :: layout where
  "StoreNamedColor_Encoding =
     [(''cmap'', COLORMAP), (''pixel'', CARD32), (''name_len'', CARD16), (''_unused'', CARD16)]"

definition StoreNamedColor_do_rgb_names :: "string list" where
  "StoreNamedColor_do_rgb_names = enum_names_do_rgb_mask"

definition QueryColors_Encoding :: layout where
  "QueryColors_Encoding =
     [(''cmap'', COLORMAP)]"

definition LookupColor_Encoding :: layout where
  "LookupColor_Encoding =
     [(''cmap'', COLORMAP), (''name_len'', CARD16), (''_unused'', Bytes 2)]"

definition CreateCursor_Encoding :: layout where
  "CreateCursor_Encoding =
     [(''cid'', CURSOR), (''source'', PIXMAP), (''mask'', PIXMAP), (''fore_red'', CARD16),
      (''fore_green'', CARD16), (''fore_blue'', CARD16), (''back_red'', CARD16),
      (''back_green'', CARD16), (''back_blue'', CARD16), (''x'', CARD16), (''y'', CARD16)]"

definition CreateCursor_mask_names :: "string list" where
  "CreateCursor_mask_names = enum_names_zero_none"

definition CreateGlyphCursor_Encoding :: layout where
  "CreateGlyphCursor_Encoding =
     [(''cid'', CURSOR), (''source_font'', FONT), (''mask_font'', FONT),
      (''source_char'', CARD16), (''mask_char'', CARD16), (''fore_red'', CARD16),
      (''fore_green'', CARD16), (''fore_blue'', CARD16), (''back_red'', CARD16),
      (''back_green'', CARD16), (''back_blue'', CARD16)]"

definition CreateGlyphCursor_mask_font_names :: "string list" where
  "CreateGlyphCursor_mask_font_names = enum_names_zero_none"

definition FreeCursor_Encoding :: layout where
  "FreeCursor_Encoding =
     [(''cursor'', CURSOR)]"

definition RecolorCursor_Encoding :: layout where
  "RecolorCursor_Encoding =
     [(''cursor'', CURSOR), (''fore_red'', CARD16), (''fore_green'', CARD16),
      (''fore_blue'', CARD16), (''back_red'', CARD16), (''back_green'', CARD16),
      (''back_blue'', CARD16)]"

definition QueryBestSize_Prefix :: layout where
  "QueryBestSize_Prefix =
     [(''opcode'', CARD8), (''class_'', CARD8)]"

definition QueryBestSize_Encoding :: layout where
  "QueryBestSize_Encoding =
     [(''drawable'', DRAWABLE), (''width'', CARD16), (''height'', CARD16)]"

definition QueryBestSize_class_names :: "string list" where
  "QueryBestSize_class_names =
     [''Cursor'', ''Tile'', ''Stipple'']"

definition QueryExtension_Encoding :: layout where
  "QueryExtension_Encoding =
     [(''name_len'', CARD16), (''_unused'', Bytes 2)]"

definition ChangeKeyboardMapping_Prefix :: layout where
  "ChangeKeyboardMapping_Prefix =
     [(''opcode'', CARD8), (''keycode_count'', CARD8)]"

definition ChangeKeyboardMapping_Encoding :: layout where
  "ChangeKeyboardMapping_Encoding =
     [(''first_keycode'', KEYCODE), (''keysyms_per_keycode'', CARD8), (''_unused'', Bytes 2)]"

definition GetKeyboardMapping_Encoding :: layout where
  "GetKeyboardMapping_Encoding =
     [(''first_keycode'', KEYCODE), (''count'', CARD8), (''_unused'', Bytes 2)]"

definition ChangeKeyboardControl_Encoding :: layout where
  "ChangeKeyboardControl_Encoding =
     [(''value_mask'', CARD32)]"

definition ChangeKeyboardControl_led_mode_names :: "string list" where
  "ChangeKeyboardControl_led_mode_names = enum_names_off_on"

definition ChangeKeyboardControl_LED_MODE_ENUM_MAX :: nat where
  "ChangeKeyboardControl_LED_MODE_ENUM_MAX = 1"

definition ChangeKeyboardControl_auto_repeat_mode_names :: "string list" where
  "ChangeKeyboardControl_auto_repeat_mode_names = enum_names_off_on"

definition ChangeKeyboardControl_value_types :: "ptype list" where
  "ChangeKeyboardControl_value_types =
     [INT8, INT8, INT16, INT16, CARD8, CARD8, KEYCODE, CARD8]"

definition ChangeKeyboardControl_value_names :: "string list" where
  "ChangeKeyboardControl_value_names =
     [''key-click-percent'', ''bell-percent'', ''bell-pitch'', ''bell-duration'', ''led'',
      ''led-mode'', ''key'', ''auto-repeat-mode'']"

definition Bell_Prefix :: layout where
  "Bell_Prefix =
     [(''opcode'', CARD8), (''percent'', INT8)]"

definition ChangePointerControl_Encoding :: layout where
  "ChangePointerControl_Encoding =
     [(''acceleration_numerator'', INT16), (''acceleration_denominator'', INT16),
      (''threshold'', INT16), (''do_acceleration'', BOOL), (''do_threshold'', BOOL)]"

definition SetScreenSaver_Encoding :: layout where
  "SetScreenSaver_Encoding =
     [(''timeout'', INT16), (''interval'', INT16), (''prefer_blanking'', CARD8),
      (''allow_exposures'', CARD8), (''_unused'', Bytes 2)]"

definition SetScreenSaver_prefer_blanking_names :: "string list" where
  "SetScreenSaver_prefer_blanking_names = enum_names_no_yes"

definition SetScreenSaver_allow_exposures_names :: "string list" where
  "SetScreenSaver_allow_exposures_names = enum_names_no_yes"

definition ChangeHosts_Prefix :: layout where
  "ChangeHosts_Prefix =
     [(''opcode'', CARD8), (''mode'', CARD8)]"

definition ChangeHosts_Encoding :: layout where
  "ChangeHosts_Encoding =
     [(''family'', CARD8), (''_unused'', CARD8), (''address_len'', CARD16)]"

definition ChangeHosts_mode_names :: "string list" where
  "ChangeHosts_mode_names =
     [''Insert'', ''Delete'']"

definition ChangeHosts_family_names :: "string list" where
  "ChangeHosts_family_names = enum_names_host_family"

definition ChangeHosts_FAMILY_ENUM_MAX :: nat where
  "ChangeHosts_FAMILY_ENUM_MAX = 2"

definition SetAccessControl_Prefix :: layout where
  "SetAccessControl_Prefix =
     [(''opcode'', CARD8), (''mode'', CARD8)]"

definition SetAccessControl_mode_names :: "string list" where
  "SetAccessControl_mode_names =
     [''Disable'', ''Enable'']"

definition SetCloseDownMode_Prefix :: layout where
  "SetCloseDownMode_Prefix =
     [(''opcode'', CARD8), (''mode'', CARD8)]"

definition SetCloseDownMode_mode_names :: "string list" where
  "SetCloseDownMode_mode_names =
     [''Destroy'', ''RetainPermanent'', ''RetainTemporary'']"

definition KillClient_Encoding :: layout where
  "KillClient_Encoding =
     [(''resource'', CARD32)]"

definition KillClient_resource_names :: "string list" where
  "KillClient_resource_names =
     [''AllTemporary'']"

definition RotateProperties_Encoding :: layout where
  "RotateProperties_Encoding =
     [(''window'', WINDOW), (''properties_ct'', CARD16), (''delta'', INT16)]"

definition ForceScreenSaver_Prefix :: layout where
  "ForceScreenSaver_Prefix =
     [(''opcode'', CARD8), (''mode'', CARD8)]"

definition ForceScreenSaver_mode_names :: "string list" where
  "ForceScreenSaver_mode_names =
     [''Reset'', ''Activate'']"

definition SetPointerMapping_Prefix :: layout where
  "SetPointerMapping_Prefix =
     [(''opcode'', CARD8), (''map_len'', CARD8)]"

definition SetModifierMapping_Prefix :: layout where
  "SetModifierMapping_Prefix =
     [(''opcode'', CARD8), (''keycodes_per_modifier'', CARD8)]"

definition SetModifierMapping_MODIFIER_CT :: nat where
  "SetModifierMapping_MODIFIER_CT = 8"

definition PolySegment_SEGMENT :: layout where
  "PolySegment_SEGMENT =
     [(''x1'', INT16), (''y1'', INT16), (''x2'', INT16), (''y2'', INT16)]"

definition StoreColors_COLORITEM :: layout where
  "StoreColors_COLORITEM =
     [(''pixel'', CARD32), (''red'', CARD16), (''green'', CARD16), (''blue'', CARD16),
      (''do_rgb_mask'', CARD8), (''_unused'', CARD8)]"

definition PolyText8_TEXTITEM8_TEXTELT8 :: layout where
  "PolyText8_TEXTITEM8_TEXTELT8 =
     [(''string_len'', CARD8), (''delta'', INT8)]"

definition PolyText16_TEXTITEM16_TEXTELT16 :: layout where
  "PolyText16_TEXTITEM16_TEXTELT16 =
     [(''string_2B_len'', CARD8), (''delta'', INT8)]"

definition PolyTextRequest_FONT :: layout where
  "PolyTextRequest_FONT =
     [(''font_shift'', CARD8), (''font_bytes'', Bytes 4)]"

definition StoreColors_COLORITEM_do_rgb_names :: "string list" where
  "StoreColors_COLORITEM_do_rgb_names = enum_names_do_rgb_mask"

lemmas request_layouts =
  Request_Prefix_def Request_Length_def Request_BigLength_def SimpleWindowRequest_Encoding_def
  ListFontsRequest_Encoding_def PolyPointRequest_Prefix_def PolyPointRequest_Encoding_def
  SimpleCmapRequest_Encoding_def CreateWindow_Prefix_def CreateWindow_Encoding_def
  ChangeWindowAttributes_Encoding_def ChangeSaveSet_Prefix_def ChangeSaveSet_Encoding_def
  ReparentWindow_Encoding_def ConfigureWindow_Encoding_def CirculateWindow_Prefix_def
  CirculateWindow_Encoding_def GetGeometry_Encoding_def InternAtom_Prefix_def
  InternAtom_Encoding_def GetAtomName_Encoding_def ChangeProperty_Prefix_def
  ChangeProperty_Encoding_def DeleteProperty_Encoding_def GetProperty_Prefix_def
  GetProperty_Encoding_def SetSelectionOwner_Encoding_def GetSelectionOwner_Encoding_def
  ConvertSelection_Encoding_def SendEvent_Prefix_def SendEvent_Encoding_def
  GrabPointer_Prefix_def GrabPointer_Encoding_def UngrabPointer_Encoding_def
  GrabButton_Prefix_def GrabButton_Encoding_def UngrabButton_Prefix_def
  UngrabButton_Encoding_def ChangeActivePointerGrab_Encoding_def GrabKeyboard_Prefix_def
  GrabKeyboard_Encoding_def UngrabKeyboard_Encoding_def GrabKey_Prefix_def GrabKey_Encoding_def
  UngrabKey_Prefix_def UngrabKey_Encoding_def AllowEvents_Prefix_def AllowEvents_Encoding_def
  GetMotionEvents_Encoding_def TranslateCoordinates_Encoding_def WarpPointer_Encoding_def
  SetInputFocus_Prefix_def SetInputFocus_Encoding_def OpenFont_Encoding_def
  CloseFont_Encoding_def QueryFont_Encoding_def QueryTextExtents_Prefix_def
  QueryTextExtents_Encoding_def SetFontPath_Encoding_def CreatePixmap_Prefix_def
  CreatePixmap_Encoding_def FreePixmap_Encoding_def CreateGC_Encoding_def ChangeGC_Encoding_def
  CopyGC_Encoding_def SetDashes_Encoding_def SetClipRectangles_Prefix_def
  SetClipRectangles_Encoding_def FreeGC_Encoding_def ClearArea_Prefix_def
  ClearArea_Encoding_def CopyArea_Encoding_def CopyPlane_Encoding_def PolySegment_Encoding_def
  PolyRectangle_Encoding_def PolyArc_Encoding_def FillPoly_Encoding_def
  PolyFillRectangle_Encoding_def PolyFillArc_Encoding_def PutImage_Prefix_def
  PutImage_Encoding_def GetImage_Prefix_def GetImage_Encoding_def PolyTextRequest_Encoding_def
  ImageText8_Prefix_def ImageText8_Encoding_def ImageText16_Prefix_def ImageText16_Encoding_def
  CreateColormap_Prefix_def CreateColormap_Encoding_def CopyColormapAndFree_Encoding_def
  AllocColor_Encoding_def AllocNamedColor_Encoding_def AllocColorCells_Prefix_def
  AllocColorCells_Encoding_def AllocColorPlanes_Prefix_def AllocColorPlanes_Encoding_def
  FreeColors_Encoding_def StoreColors_Encoding_def StoreNamedColor_Prefix_def
  StoreNamedColor_Encoding_def QueryColors_Encoding_def LookupColor_Encoding_def
  CreateCursor_Encoding_def CreateGlyphCursor_Encoding_def FreeCursor_Encoding_def
  RecolorCursor_Encoding_def QueryBestSize_Prefix_def QueryBestSize_Encoding_def
  QueryExtension_Encoding_def ChangeKeyboardMapping_Prefix_def
  ChangeKeyboardMapping_Encoding_def GetKeyboardMapping_Encoding_def
  ChangeKeyboardControl_Encoding_def Bell_Prefix_def ChangePointerControl_Encoding_def
  SetScreenSaver_Encoding_def ChangeHosts_Prefix_def ChangeHosts_Encoding_def
  SetAccessControl_Prefix_def SetCloseDownMode_Prefix_def KillClient_Encoding_def
  RotateProperties_Encoding_def ForceScreenSaver_Prefix_def SetPointerMapping_Prefix_def
  SetModifierMapping_Prefix_def PolySegment_SEGMENT_def StoreColors_COLORITEM_def
  PolyText8_TEXTITEM8_TEXTELT8_def PolyText16_TEXTITEM16_TEXTELT16_def PolyTextRequest_FONT_def
  CHAR2B_def POINT_def RECTANGLE_def ARC_def HOST_Header_def STR_Header_def

lemmas request_tables =
  PolyPointRequest_coordinate_mode_names_def WindowValueListRequest_background_pixmap_names_def
  WindowValueListRequest_border_pixmap_names_def WindowValueListRequest_backing_store_names_def
  WindowValueListRequest_colormap_names_def WindowValueListRequest_cursor_names_def
  WindowValueListRequest_value_types_def WindowValueListRequest_value_names_def
  CreateWindow_class_names_def CreateWindow_visual_names_def ChangeSaveSet_mode_names_def
  ConfigureWindow_stack_mode_names_def ConfigureWindow_value_types_def
  ConfigureWindow_value_names_def CirculateWindow_direction_names_def
  ChangeProperty_mode_names_def SetSelectionOwner_owner_names_def
  SetSelectionOwner_time_names_def ConvertSelection_property_names_def
  ConvertSelection_time_names_def SendEvent_destination_names_def
  GrabPointer_pointer_mode_names_def GrabPointer_keyboard_mode_names_def
  GrabPointer_confine_to_names_def GrabPointer_cursor_names_def GrabPointer_time_names_def
  UngrabPointer_time_names_def GrabButton_pointer_mode_names_def
  GrabButton_keyboard_mode_names_def GrabButton_confine_to_names_def
  GrabButton_cursor_names_def GrabButton_button_names_def UngrabButton_button_names_def
  ChangeActivePointerGrab_cursor_names_def ChangeActivePointerGrab_time_names_def
  GrabKeyboard_time_names_def GrabKeyboard_pointer_mode_names_def
  GrabKeyboard_keyboard_mode_names_def UngrabKeyboard_time_names_def GrabKey_key_names_def
  GrabKey_pointer_mode_names_def GrabKey_keyboard_mode_names_def UngrabKey_key_names_def
  AllowEvents_mode_names_def AllowEvents_time_names_def GetMotionEvents_start_names_def
  GetMotionEvents_stop_names_def WarpPointer_src_window_names_def
  WarpPointer_dst_window_names_def SetInputFocus_revert_to_names_def
  SetInputFocus_focus_names_def SetInputFocus_FOCUS_ENUM_MAX_def SetInputFocus_time_names_def
  GCRequest_function_names_def GCRequest_line_style_names_def GCRequest_cap_style_names_def
  GCRequest_join_style_names_def GCRequest_fill_style_names_def GCRequest_fill_rule_names_def
  GCRequest_subwindow_mode_names_def GCRequest_clip_mask_names_def GCRequest_arc_mode_names_def
  GCRequest_value_types_def GCRequest_value_names_def SetClipRectangles_ordering_names_def
  FillPoly_shape_names_def FillPoly_coordinate_mode_names_def PutImage_format_names_def
  GetImage_format_names_def GetImage_FORMAT_ENUM_MIN_def CreateColormap_alloc_names_def
  StoreNamedColor_do_rgb_names_def CreateCursor_mask_names_def
  CreateGlyphCursor_mask_font_names_def QueryBestSize_class_names_def
  ChangeKeyboardControl_led_mode_names_def ChangeKeyboardControl_LED_MODE_ENUM_MAX_def
  ChangeKeyboardControl_auto_repeat_mode_names_def ChangeKeyboardControl_value_types_def
  ChangeKeyboardControl_value_names_def SetScreenSaver_prefer_blanking_names_def
  SetScreenSaver_allow_exposures_names_def ChangeHosts_mode_names_def
  ChangeHosts_family_names_def ChangeHosts_FAMILY_ENUM_MAX_def SetAccessControl_mode_names_def
  SetCloseDownMode_mode_names_def KillClient_resource_names_def ForceScreenSaver_mode_names_def
  SetModifierMapping_MODIFIER_CT_def StoreColors_COLORITEM_do_rgb_names_def

subsection \<open>Request types\<close>

definition SimpleRequest :: request_type where
  "SimpleRequest =
     \<lparr>prefix_layout = Request_Prefix, length_layout = Request_Length, big_length_layout = Request_BigLength,
      encoding_layout = None,
      BASE_ENCODING_SZ = size_of Request_Prefix + size_of Request_Length,
      BASE_BIG_ENCODING_SZ = size_of Request_Prefix + size_of Request_BigLength\<rparr>"

definition SimpleWindowRequest :: request_type where
  "SimpleWindowRequest =
     \<lparr>prefix_layout = Request_Prefix, length_layout = Request_Length, big_length_layout = Request_BigLength,
      encoding_layout = Some SimpleWindowRequest_Encoding,
      BASE_ENCODING_SZ = size_of Request_Prefix + size_of Request_Length + size_of SimpleWindowRequest_Encoding,
      BASE_BIG_ENCODING_SZ = size_of Request_Prefix + size_of Request_BigLength + size_of SimpleWindowRequest_Encoding\<rparr>"

definition ListFontsRequest :: request_type where
  "ListFontsRequest =
     \<lparr>prefix_layout = Request_Prefix, length_layout = Request_Length, big_length_layout = Request_BigLength,
      encoding_layout = Some ListFontsRequest_Encoding,
      BASE_ENCODING_SZ = size_of Request_Prefix + size_of Request_Length + size_of ListFontsRequest_Encoding,
      BASE_BIG_ENCODING_SZ = size_of Request_Prefix + size_of Request_BigLength + size_of ListFontsRequest_Encoding\<rparr>"

definition PolyPointRequest :: request_type where
  "PolyPointRequest =
     \<lparr>prefix_layout = PolyPointRequest_Prefix, length_layout = Request_Length, big_length_layout = Request_BigLength,
      encoding_layout = Some PolyPointRequest_Encoding,
      BASE_ENCODING_SZ = size_of PolyPointRequest_Prefix + size_of Request_Length + size_of PolyPointRequest_Encoding,
      BASE_BIG_ENCODING_SZ = size_of PolyPointRequest_Prefix + size_of Request_BigLength + size_of PolyPointRequest_Encoding\<rparr>"

definition SimpleCmapRequest :: request_type where
  "SimpleCmapRequest =
     \<lparr>prefix_layout = Request_Prefix, length_layout = Request_Length, big_length_layout = Request_BigLength,
      encoding_layout = Some SimpleCmapRequest_Encoding,
      BASE_ENCODING_SZ = size_of Request_Prefix + size_of Request_Length + size_of SimpleCmapRequest_Encoding,
      BASE_BIG_ENCODING_SZ = size_of Request_Prefix + size_of Request_BigLength + size_of SimpleCmapRequest_Encoding\<rparr>"

definition CreateWindow :: request_type where
  "CreateWindow =
     \<lparr>prefix_layout = CreateWindow_Prefix, length_layout = Request_Length, big_length_layout = Request_BigLength,
      encoding_layout = Some CreateWindow_Encoding,
      BASE_ENCODING_SZ = size_of CreateWindow_Prefix + size_of Request_Length + size_of CreateWindow_Encoding,
      BASE_BIG_ENCODING_SZ = size_of CreateWindow_Prefix + size_of Request_BigLength + size_of CreateWindow_Encoding\<rparr>"

definition ChangeWindowAttributes :: request_type where
  "ChangeWindowAttributes =
     \<lparr>prefix_layout = Request_Prefix, length_layout = Request_Length, big_length_layout = Request_BigLength,
      encoding_layout = Some ChangeWindowAttributes_Encoding,
      BASE_ENCODING_SZ = size_of Request_Prefix + size_of Request_Length + size_of ChangeWindowAttributes_Encoding,
      BASE_BIG_ENCODING_SZ = size_of Request_Prefix + size_of Request_BigLength + size_of ChangeWindowAttributes_Encoding\<rparr>"

definition ChangeSaveSet :: request_type where
  "ChangeSaveSet =
     \<lparr>prefix_layout = ChangeSaveSet_Prefix, length_layout = Request_Length, big_length_layout = Request_BigLength,
      encoding_layout = Some ChangeSaveSet_Encoding,
      BASE_ENCODING_SZ = size_of ChangeSaveSet_Prefix + size_of Request_Length + size_of ChangeSaveSet_Encoding,
      BASE_BIG_ENCODING_SZ = size_of ChangeSaveSet_Prefix + size_of Request_BigLength + size_of ChangeSaveSet_Encoding\<rparr>"

definition ReparentWindow :: request_type where
  "ReparentWindow =
     \<lparr>prefix_layout = Request_Prefix, length_layout = Request_Length, big_length_layout = Request_BigLength,
      encoding_layout = Some ReparentWindow_Encoding,
      BASE_ENCODING_SZ = size_of Request_Prefix + size_of Request_Length + size_of ReparentWindow_Encoding,
      BASE_BIG_ENCODING_SZ = size_of Request_Prefix + size_of Request_BigLength + size_of ReparentWindow_Encoding\<rparr>"

definition ConfigureWindow :: request_type where
  "ConfigureWindow =
     \<lparr>prefix_layout = Request_Prefix, length_layout = Request_Length, big_length_layout = Request_BigLength,
      encoding_layout = Some ConfigureWindow_Encoding,
      BASE_ENCODING_SZ = size_of Request_Prefix + size_of Request_Length + size_of ConfigureWindow_Encoding,
      BASE_BIG_ENCODING_SZ = size_of Request_Prefix + size_of Request_BigLength + size_of ConfigureWindow_Encoding\<rparr>"

definition CirculateWindow :: request_type where
  "CirculateWindow =
     \<lparr>prefix_layout = CirculateWindow_Prefix, length_layout = Request_Length, big_length_layout = Request_BigLength,
      encoding_layout = Some CirculateWindow_Encoding,
      BASE_ENCODING_SZ = size_of CirculateWindow_Prefix + size_of Request_Length + size_of CirculateWindow_Encoding,
      BASE_BIG_ENCODING_SZ = size_of CirculateWindow_Prefix + size_of Request_BigLength + size_of CirculateWindow_Encoding\<rparr>"

definition GetGeometry :: request_type where
  "GetGeometry =
     \<lparr>prefix_layout = Request_Prefix, length_layout = Request_Length, big_length_layout = Request_BigLength,
      encoding_layout = Some GetGeometry_Encoding,
      BASE_ENCODING_SZ = size_of Request_Prefix + size_of Request_Length + size_of GetGeometry_Encoding,
      BASE_BIG_ENCODING_SZ = size_of Request_Prefix + size_of Request_BigLength + size_of GetGeometry_Encoding\<rparr>"

definition InternAtom :: request_type where
  "InternAtom =
     \<lparr>prefix_layout = InternAtom_Prefix, length_layout = Request_Length, big_length_layout = Request_BigLength,
      encoding_layout = Some InternAtom_Encoding,
      BASE_ENCODING_SZ = size_of InternAtom_Prefix + size_of Request_Length + size_of InternAtom_Encoding,
      BASE_BIG_ENCODING_SZ = size_of InternAtom_Prefix + size_of Request_BigLength + size_of InternAtom_Encoding\<rparr>"

definition GetAtomName :: request_type where
  "GetAtomName =
     \<lparr>prefix_layout = Request_Prefix, length_layout = Request_Length, big_length_layout = Request_BigLength,
      encoding_layout = Some GetAtomName_Encoding,
      BASE_ENCODING_SZ = size_of Request_Prefix + size_of Request_Length + size_of GetAtomName_Encoding,
      BASE_BIG_ENCODING_SZ = size_of Request_Prefix + size_of Request_BigLength + size_of GetAtomName_Encoding\<rparr>"

definition ChangeProperty :: request_type where
  "ChangeProperty =
     \<lparr>prefix_layout = ChangeProperty_Prefix, length_layout = Request_Length, big_length_layout = Request_BigLength,
      encoding_layout = Some ChangeProperty_Encoding,
      BASE_ENCODING_SZ = size_of ChangeProperty_Prefix + size_of Request_Length + size_of ChangeProperty_Encoding,
      BASE_BIG_ENCODING_SZ = size_of ChangeProperty_Prefix + size_of Request_BigLength + size_of ChangeProperty_Encoding\<rparr>"

definition DeleteProperty :: request_type where
  "DeleteProperty =
     \<lparr>prefix_layout = Request_Prefix, length_layout = Request_Length, big_length_layout = Request_BigLength,
      encoding_layout = Some DeleteProperty_Encoding,
      BASE_ENCODING_SZ = size_of Request_Prefix + size_of Request_Length + size_of DeleteProperty_Encoding,
      BASE_BIG_ENCODING_SZ = size_of Request_Prefix + size_of Request_BigLength + size_of DeleteProperty_Encoding\<rparr>"

definition GetProperty :: request_type where
  "GetProperty =
     \<lparr>prefix_layout = GetProperty_Prefix, length_layout = Request_Length, big_length_layout = Request_BigLength,
      encoding_layout = Some GetProperty_Encoding,
      BASE_ENCODING_SZ = size_of GetProperty_Prefix + size_of Request_Length + size_of GetProperty_Encoding,
      BASE_BIG_ENCODING_SZ = size_of GetProperty_Prefix + size_of Request_BigLength + size_of GetProperty_Encoding\<rparr>"

definition SetSelectionOwner :: request_type where
  "SetSelectionOwner =
     \<lparr>prefix_layout = Request_Prefix, length_layout = Request_Length, big_length_layout = Request_BigLength,
      encoding_layout = Some SetSelectionOwner_Encoding,
      BASE_ENCODING_SZ = size_of Request_Prefix + size_of Request_Length + size_of SetSelectionOwner_Encoding,
      BASE_BIG_ENCODING_SZ = size_of Request_Prefix + size_of Request_BigLength + size_of SetSelectionOwner_Encoding\<rparr>"

definition GetSelectionOwner :: request_type where
  "GetSelectionOwner =
     \<lparr>prefix_layout = Request_Prefix, length_layout = Request_Length, big_length_layout = Request_BigLength,
      encoding_layout = Some GetSelectionOwner_Encoding,
      BASE_ENCODING_SZ = size_of Request_Prefix + size_of Request_Length + size_of GetSelectionOwner_Encoding,
      BASE_BIG_ENCODING_SZ = size_of Request_Prefix + size_of Request_BigLength + size_of GetSelectionOwner_Encoding\<rparr>"

definition ConvertSelection :: request_type where
  "ConvertSelection =
     \<lparr>prefix_layout = Request_Prefix, length_layout = Request_Length, big_length_layout = Request_BigLength,
      encoding_layout = Some ConvertSelection_Encoding,
      BASE_ENCODING_SZ = size_of Request_Prefix + size_of Request_Length + size_of ConvertSelection_Encoding,
      BASE_BIG_ENCODING_SZ = size_of Request_Prefix + size_of Request_BigLength + size_of ConvertSelection_Encoding\<rparr>"

definition SendEvent :: request_type where
  "SendEvent =
     \<lparr>prefix_layout = SendEvent_Prefix, length_layout = Request_Length, big_length_layout = Request_BigLength,
      encoding_layout = Some SendEvent_Encoding,
      BASE_ENCODING_SZ = size_of SendEvent_Prefix + size_of Request_Length + size_of SendEvent_Encoding,
      BASE_BIG_ENCODING_SZ = size_of SendEvent_Prefix + size_of Request_BigLength + size_of SendEvent_Encoding\<rparr>"

definition GrabPointer :: request_type where
  "GrabPointer =
     \<lparr>prefix_layout = GrabPointer_Prefix, length_layout = Request_Length, big_length_layout = Request_BigLength,
      encoding_layout = Some GrabPointer_Encoding,
      BASE_ENCODING_SZ = size_of GrabPointer_Prefix + size_of Request_Length + size_of GrabPointer_Encoding,
      BASE_BIG_ENCODING_SZ = size_of GrabPointer_Prefix + size_of Request_BigLength + size_of GrabPointer_Encoding\<rparr>"

definition UngrabPointer :: request_type where
  "UngrabPointer =
     \<lparr>prefix_layout = Request_Prefix, length_layout = Request_Length, big_length_layout = Request_BigLength,
      encoding_layout = Some UngrabPointer_Encoding,
      BASE_ENCODING_SZ = size_of Request_Prefix + size_of Request_Length + size_of UngrabPointer_Encoding,
      BASE_BIG_ENCODING_SZ = size_of Request_Prefix + size_of Request_BigLength + size_of UngrabPointer_Encoding\<rparr>"

definition GrabButton :: request_type where
  "GrabButton =
     \<lparr>prefix_layout = GrabButton_Prefix, length_layout = Request_Length, big_length_layout = Request_BigLength,
      encoding_layout = Some GrabButton_Encoding,
      BASE_ENCODING_SZ = size_of GrabButton_Prefix + size_of Request_Length + size_of GrabButton_Encoding,
      BASE_BIG_ENCODING_SZ = size_of GrabButton_Prefix + size_of Request_BigLength + size_of GrabButton_Encoding\<rparr>"

definition UngrabButton :: request_type where
  "UngrabButton =
     \<lparr>prefix_layout = UngrabButton_Prefix, length_layout = Request_Length, big_length_layout = Request_BigLength,
      encoding_layout = Some UngrabButton_Encoding,
      BASE_ENCODING_SZ = size_of UngrabButton_Prefix + size_of Request_Length + size_of UngrabButton_Encoding,
      BASE_BIG_ENCODING_SZ = size_of UngrabButton_Prefix + size_of Request_BigLength + size_of UngrabButton_Encoding\<rparr>"

definition ChangeActivePointerGrab :: request_type where
  "ChangeActivePointerGrab =
     \<lparr>prefix_layout = Request_Prefix, length_layout = Request_Length, big_length_layout = Request_BigLength,
      encoding_layout = Some ChangeActivePointerGrab_Encoding,
      BASE_ENCODING_SZ = size_of Request_Prefix + size_of Request_Length + size_of ChangeActivePointerGrab_Encoding,
      BASE_BIG_ENCODING_SZ = size_of Request_Prefix + size_of Request_BigLength + size_of ChangeActivePointerGrab_Encoding\<rparr>"

definition GrabKeyboard :: request_type where
  "GrabKeyboard =
     \<lparr>prefix_layout = GrabKeyboard_Prefix, length_layout = Request_Length, big_length_layout = Request_BigLength,
      encoding_layout = Some GrabKeyboard_Encoding,
      BASE_ENCODING_SZ = size_of GrabKeyboard_Prefix + size_of Request_Length + size_of GrabKeyboard_Encoding,
      BASE_BIG_ENCODING_SZ = size_of GrabKeyboard_Prefix + size_of Request_BigLength + size_of GrabKeyboard_Encoding\<rparr>"

definition UngrabKeyboard :: request_type where
  "UngrabKeyboard =
     \<lparr>prefix_layout = Request_Prefix, length_layout = Request_Length, big_length_layout = Request_BigLength,
      encoding_layout = Some UngrabKeyboard_Encoding,
      BASE_ENCODING_SZ = size_of Request_Prefix + size_of Request_Length + size_of UngrabKeyboard_Encoding,
      BASE_BIG_ENCODING_SZ = size_of Request_Prefix + size_of Request_BigLength + size_of UngrabKeyboard_Encoding\<rparr>"

definition GrabKey :: request_type where
  "GrabKey =
     \<lparr>prefix_layout = GrabKey_Prefix, length_layout = Request_Length, big_length_layout = Request_BigLength,
      encoding_layout = Some GrabKey_Encoding,
      BASE_ENCODING_SZ = size_of GrabKey_Prefix + size_of Request_Length + size_of GrabKey_Encoding,
      BASE_BIG_ENCODING_SZ = size_of GrabKey_Prefix + size_of Request_BigLength + size_of GrabKey_Encoding\<rparr>"

definition UngrabKey :: request_type where
  "UngrabKey =
     \<lparr>prefix_layout = UngrabKey_Prefix, length_layout = Request_Length, big_length_layout = Request_BigLength,
      encoding_layout = Some UngrabKey_Encoding,
      BASE_ENCODING_SZ = size_of UngrabKey_Prefix + size_of Request_Length + size_of UngrabKey_Encoding,
      BASE_BIG_ENCODING_SZ = size_of UngrabKey_Prefix + size_of Request_BigLength + size_of UngrabKey_Encoding\<rparr>"

definition AllowEvents :: request_type where
  "AllowEvents =
     \<lparr>prefix_layout = AllowEvents_Prefix, length_layout = Request_Length, big_length_layout = Request_BigLength,
      encoding_layout = Some AllowEvents_Encoding,
      BASE_ENCODING_SZ = size_of AllowEvents_Prefix + size_of Request_Length + size_of AllowEvents_Encoding,
      BASE_BIG_ENCODING_SZ = size_of AllowEvents_Prefix + size_of Request_BigLength + size_of AllowEvents_Encoding\<rparr>"

definition GetMotionEvents :: request_type where
  "GetMotionEvents =
     \<lparr>prefix_layout = Request_Prefix, length_layout = Request_Length, big_length_layout = Request_BigLength,
      encoding_layout = Some GetMotionEvents_Encoding,
      BASE_ENCODING_SZ = size_of Request_Prefix + size_of Request_Length + size_of GetMotionEvents_Encoding,
      BASE_BIG_ENCODING_SZ = size_of Request_Prefix + size_of Request_BigLength + size_of GetMotionEvents_Encoding\<rparr>"

definition TranslateCoordinates :: request_type where
  "TranslateCoordinates =
     \<lparr>prefix_layout = Request_Prefix, length_layout = Request_Length, big_length_layout = Request_BigLength,
      encoding_layout = Some TranslateCoordinates_Encoding,
      BASE_ENCODING_SZ = size_of Request_Prefix + size_of Request_Length + size_of TranslateCoordinates_Encoding,
      BASE_BIG_ENCODING_SZ = size_of Request_Prefix + size_of Request_BigLength + size_of TranslateCoordinates_Encoding\<rparr>"

definition WarpPointer :: request_type where
  "WarpPointer =
     \<lparr>prefix_layout = Request_Prefix, length_layout = Request_Length, big_length_layout = Request_BigLength,
      encoding_layout = Some WarpPointer_Encoding,
      BASE_ENCODING_SZ = size_of Request_Prefix + size_of Request_Length + size_of WarpPointer_Encoding,
      BASE_BIG_ENCODING_SZ = size_of Request_Prefix + size_of Request_BigLength + size_of WarpPointer_Encoding\<rparr>"

definition SetInputFocus :: request_type where
  "SetInputFocus =
     \<lparr>prefix_layout = SetInputFocus_Prefix, length_layout = Request_Length, big_length_layout = Request_BigLength,
      encoding_layout = Some SetInputFocus_Encoding,
      BASE_ENCODING_SZ = size_of SetInputFocus_Prefix + size_of Request_Length + size_of SetInputFocus_Encoding,
      BASE_BIG_ENCODING_SZ = size_of SetInputFocus_Prefix + size_of Request_BigLength + size_of SetInputFocus_Encoding\<rparr>"

definition OpenFont :: request_type where
  "OpenFont =
     \<lparr>prefix_layout = Request_Prefix, length_layout = Request_Length, big_length_layout = Request_BigLength,
      encoding_layout = Some OpenFont_Encoding,
      BASE_ENCODING_SZ = size_of Request_Prefix + size_of Request_Length + size_of OpenFont_Encoding,
      BASE_BIG_ENCODING_SZ = size_of Request_Prefix + size_of Request_BigLength + size_of OpenFont_Encoding\<rparr>"

definition CloseFont :: request_type where
  "CloseFont =
     \<lparr>prefix_layout = Request_Prefix, length_layout = Request_Length, big_length_layout = Request_BigLength,
      encoding_layout = Some CloseFont_Encoding,
      BASE_ENCODING_SZ = size_of Request_Prefix + size_of Request_Length + size_of CloseFont_Encoding,
      BASE_BIG_ENCODING_SZ = size_of Request_Prefix + size_of Request_BigLength + size_of CloseFont_Encoding\<rparr>"

definition QueryFont :: request_type where
  "QueryFont =
     \<lparr>prefix_layout = Request_Prefix, length_layout = Request_Length, big_length_layout = Request_BigLength,
      encoding_layout = Some QueryFont_Encoding,
      BASE_ENCODING_SZ = size_of Request_Prefix + size_of Request_Length + size_of QueryFont_Encoding,
      BASE_BIG_ENCODING_SZ = size_of Request_Prefix + size_of Request_BigLength + size_of QueryFont_Encoding\<rparr>"

definition QueryTextExtents :: request_type where
  "QueryTextExtents =
     \<lparr>prefix_layout = QueryTextExtents_Prefix, length_layout = Request_Length, big_length_layout = Request_BigLength,
      encoding_layout = Some QueryTextExtents_Encoding,
      BASE_ENCODING_SZ = size_of QueryTextExtents_Prefix + size_of Request_Length + size_of QueryTextExtents_Encoding,
      BASE_BIG_ENCODING_SZ = size_of QueryTextExtents_Prefix + size_of Request_BigLength + size_of QueryTextExtents_Encoding\<rparr>"

definition SetFontPath :: request_type where
  "SetFontPath =
     \<lparr>prefix_layout = Request_Prefix, length_layout = Request_Length, big_length_layout = Request_BigLength,
      encoding_layout = Some SetFontPath_Encoding,
      BASE_ENCODING_SZ = size_of Request_Prefix + size_of Request_Length + size_of SetFontPath_Encoding,
      BASE_BIG_ENCODING_SZ = size_of Request_Prefix + size_of Request_BigLength + size_of SetFontPath_Encoding\<rparr>"

definition CreatePixmap :: request_type where
  "CreatePixmap =
     \<lparr>prefix_layout = CreatePixmap_Prefix, length_layout = Request_Length, big_length_layout = Request_BigLength,
      encoding_layout = Some CreatePixmap_Encoding,
      BASE_ENCODING_SZ = size_of CreatePixmap_Prefix + size_of Request_Length + size_of CreatePixmap_Encoding,
      BASE_BIG_ENCODING_SZ = size_of CreatePixmap_Prefix + size_of Request_BigLength + size_of CreatePixmap_Encoding\<rparr>"

definition FreePixmap :: request_type where
  "FreePixmap =
     \<lparr>prefix_layout = Request_Prefix, length_layout = Request_Length, big_length_layout = Request_BigLength,
      encoding_layout = Some FreePixmap_Encoding,
      BASE_ENCODING_SZ = size_of Request_Prefix + size_of Request_Length + size_of FreePixmap_Encoding,
      BASE_BIG_ENCODING_SZ = size_of Request_Prefix + size_of Request_BigLength + size_of FreePixmap_Encoding\<rparr>"

definition CreateGC :: request_type where
  "CreateGC =
     \<lparr>prefix_layout = Request_Prefix, length_layout = Request_Length, big_length_layout = Request_BigLength,
      encoding_layout = Some CreateGC_Encoding,
      BASE_ENCODING_SZ = size_of Request_Prefix + size_of Request_Length + size_of CreateGC_Encoding,
      BASE_BIG_ENCODING_SZ = size_of Request_Prefix + size_of Request_BigLength + size_of CreateGC_Encoding\<rparr>"

definition ChangeGC :: request_type where
  "ChangeGC =
     \<lparr>prefix_layout = Request_Prefix, length_layout = Request_Length, big_length_layout = Request_BigLength,
      encoding_layout = Some ChangeGC_Encoding,
      BASE_ENCODING_SZ = size_of Request_Prefix + size_of Request_Length + size_of ChangeGC_Encoding,
      BASE_BIG_ENCODING_SZ = size_of Request_Prefix + size_of Request_BigLength + size_of ChangeGC_Encoding\<rparr>"

definition CopyGC :: request_type where
  "CopyGC =
     \<lparr>prefix_layout = Request_Prefix, length_layout = Request_Length, big_length_layout = Request_BigLength,
      encoding_layout = Some CopyGC_Encoding,
      BASE_ENCODING_SZ = size_of Request_Prefix + size_of Request_Length + size_of CopyGC_Encoding,
      BASE_BIG_ENCODING_SZ = size_of Request_Prefix + size_of Request_BigLength + size_of CopyGC_Encoding\<rparr>"

definition SetDashes :: request_type where
  "SetDashes =
     \<lparr>prefix_layout = Request_Prefix, length_layout = Request_Length, big_length_layout = Request_BigLength,
      encoding_layout = Some SetDashes_Encoding,
      BASE_ENCODING_SZ = size_of Request_Prefix + size_of Request_Length + size_of SetDashes_Encoding,
      BASE_BIG_ENCODING_SZ = size_of Request_Prefix + size_of Request_BigLength + size_of SetDashes_Encoding\<rparr>"

definition SetClipRectangles :: request_type where
  "SetClipRectangles =
     \<lparr>prefix_layout = SetClipRectangles_Prefix, length_layout = Request_Length, big_length_layout = Request_BigLength,
      encoding_layout = Some SetClipRectangles_Encoding,
      BASE_ENCODING_SZ = size_of SetClipRectangles_Prefix + size_of Request_Length + size_of SetClipRectangles_Encoding,
      BASE_BIG_ENCODING_SZ = size_of SetClipRectangles_Prefix + size_of Request_BigLength + size_of SetClipRectangles_Encoding\<rparr>"

definition FreeGC :: request_type where
  "FreeGC =
     \<lparr>prefix_layout = Request_Prefix, length_layout = Request_Length, big_length_layout = Request_BigLength,
      encoding_layout = Some FreeGC_Encoding,
      BASE_ENCODING_SZ = size_of Request_Prefix + size_of Request_Length + size_of FreeGC_Encoding,
      BASE_BIG_ENCODING_SZ = size_of Request_Prefix + size_of Request_BigLength + size_of FreeGC_Encoding\<rparr>"

definition ClearArea :: request_type where
  "ClearArea =
     \<lparr>prefix_layout = ClearArea_Prefix, length_layout = Request_Length, big_length_layout = Request_BigLength,
      encoding_layout = Some ClearArea_Encoding,
      BASE_ENCODING_SZ = size_of ClearArea_Prefix + size_of Request_Length + size_of ClearArea_Encoding,
      BASE_BIG_ENCODING_SZ = size_of ClearArea_Prefix + size_of Request_BigLength + size_of ClearArea_Encoding\<rparr>"

definition CopyArea :: request_type where
  "CopyArea =
     \<lparr>prefix_layout = Request_Prefix, length_layout = Request_Length, big_length_layout = Request_BigLength,
      encoding_layout = Some CopyArea_Encoding,
      BASE_ENCODING_SZ = size_of Request_Prefix + size_of Request_Length + size_of CopyArea_Encoding,
      BASE_BIG_ENCODING_SZ = size_of Request_Prefix + size_of Request_BigLength + size_of CopyArea_Encoding\<rparr>"

definition CopyPlane :: request_type where
  "CopyPlane =
     \<lparr>prefix_layout = Request_Prefix, length_layout = Request_Length, big_length_layout = Request_BigLength,
      encoding_layout = Some CopyPlane_Encoding,
      BASE_ENCODING_SZ = size_of Request_Prefix + size_of Request_Length + size_of CopyPlane_Encoding,
      BASE_BIG_ENCODING_SZ = size_of Request_Prefix + size_of Request_BigLength + size_of CopyPlane_Encoding\<rparr>"

definition PolySegment :: request_type where
  "PolySegment =
     \<lparr>prefix_layout = Request_Prefix, length_layout = Request_Length, big_length_layout = Request_BigLength,
      encoding_layout = Some PolySegment_Encoding,
      BASE_ENCODING_SZ = size_of Request_Prefix + size_of Request_Length + size_of PolySegment_Encoding,
      BASE_BIG_ENCODING_SZ = size_of Request_Prefix + size_of Request_BigLength + size_of PolySegment_Encoding\<rparr>"

definition PolyRectangle :: request_type where
  "PolyRectangle =
     \<lparr>prefix_layout = Request_Prefix, length_layout = Request_Length, big_length_layout = Request_BigLength,
      encoding_layout = Some PolyRectangle_Encoding,
      BASE_ENCODING_SZ = size_of Request_Prefix + size_of Request_Length + size_of PolyRectangle_Encoding,
      BASE_BIG_ENCODING_SZ = size_of Request_Prefix + size_of Request_BigLength + size_of PolyRectangle_Encoding\<rparr>"

definition PolyArc :: request_type where
  "PolyArc =
     \<lparr>prefix_layout = Request_Prefix, length_layout = Request_Length, big_length_layout = Request_BigLength,
      encoding_layout = Some PolyArc_Encoding,
      BASE_ENCODING_SZ = size_of Request_Prefix + size_of Request_Length + size_of PolyArc_Encoding,
      BASE_BIG_ENCODING_SZ = size_of Request_Prefix + size_of Request_BigLength + size_of PolyArc_Encoding\<rparr>"

definition FillPoly :: request_type where
  "FillPoly =
     \<lparr>prefix_layout = Request_Prefix, length_layout = Request_Length, big_length_layout = Request_BigLength,
      encoding_layout = Some FillPoly_Encoding,
      BASE_ENCODING_SZ = size_of Request_Prefix + size_of Request_Length + size_of FillPoly_Encoding,
      BASE_BIG_ENCODING_SZ = size_of Request_Prefix + size_of Request_BigLength + size_of FillPoly_Encoding\<rparr>"

definition PolyFillRectangle :: request_type where
  "PolyFillRectangle =
     \<lparr>prefix_layout = Request_Prefix, length_layout = Request_Length, big_length_layout = Request_BigLength,
      encoding_layout = Some PolyFillRectangle_Encoding,
      BASE_ENCODING_SZ = size_of Request_Prefix + size_of Request_Length + size_of PolyFillRectangle_Encoding,
      BASE_BIG_ENCODING_SZ = size_of Request_Prefix + size_of Request_BigLength + size_of PolyFillRectangle_Encoding\<rparr>"

definition PolyFillArc :: request_type where
  "PolyFillArc =
     \<lparr>prefix_layout = Request_Prefix, length_layout = Request_Length, big_length_layout = Request_BigLength,
      encoding_layout = Some PolyFillArc_Encoding,
      BASE_ENCODING_SZ = size_of Request_Prefix + size_of Request_Length + size_of PolyFillArc_Encoding,
      BASE_BIG_ENCODING_SZ = size_of Request_Prefix + size_of Request_BigLength + size_of PolyFillArc_Encoding\<rparr>"

definition PutImage :: request_type where
  "PutImage =
     \<lparr>prefix_layout = PutImage_Prefix, length_layout = Request_Length, big_length_layout = Request_BigLength,
      encoding_layout = Some PutImage_Encoding,
      BASE_ENCODING_SZ = size_of PutImage_Prefix + size_of Request_Length + size_of PutImage_Encoding,
      BASE_BIG_ENCODING_SZ = size_of PutImage_Prefix + size_of Request_BigLength + size_of PutImage_Encoding\<rparr>"

definition GetImage :: request_type where
  "GetImage =
     \<lparr>prefix_layout = GetImage_Prefix, length_layout = Request_Length, big_length_layout = Request_BigLength,
      encoding_layout = Some GetImage_Encoding,
      BASE_ENCODING_SZ = size_of GetImage_Prefix + size_of Request_Length + size_of GetImage_Encoding,
      BASE_BIG_ENCODING_SZ = size_of GetImage_Prefix + size_of Request_BigLength + size_of GetImage_Encoding\<rparr>"

definition PolyText8 :: request_type where
  "PolyText8 =
     \<lparr>prefix_layout = Request_Prefix, length_layout = Request_Length, big_length_layout = Request_BigLength,
      encoding_layout = Some PolyTextRequest_Encoding,
      BASE_ENCODING_SZ = size_of Request_Prefix + size_of Request_Length + size_of PolyTextRequest_Encoding,
      BASE_BIG_ENCODING_SZ = size_of Request_Prefix + size_of Request_BigLength + size_of PolyTextRequest_Encoding\<rparr>"

definition PolyText16 :: request_type where
  "PolyText16 =
     \<lparr>prefix_layout = Request_Prefix, length_layout = Request_Length, big_length_layout = Request_BigLength,
      encoding_layout = Some PolyTextRequest_Encoding,
      BASE_ENCODING_SZ = size_of Request_Prefix + size_of Request_Length + size_of PolyTextRequest_Encoding,
      BASE_BIG_ENCODING_SZ = size_of Request_Prefix + size_of Request_BigLength + size_of PolyTextRequest_Encoding\<rparr>"

definition ImageText8 :: request_type where
  "ImageText8 =
     \<lparr>prefix_layout = ImageText8_Prefix, length_layout = Request_Length, big_length_layout = Request_BigLength,
      encoding_layout = Some ImageText8_Encoding,
      BASE_ENCODING_SZ = size_of ImageText8_Prefix + size_of Request_Length + size_of ImageText8_Encoding,
      BASE_BIG_ENCODING_SZ = size_of ImageText8_Prefix + size_of Request_BigLength + size_of ImageText8_Encoding\<rparr>"

definition ImageText16 :: request_type where
  "ImageText16 =
     \<lparr>prefix_layout = ImageText16_Prefix, length_layout = Request_Length, big_length_layout = Request_BigLength,
      encoding_layout = Some ImageText16_Encoding,
      BASE_ENCODING_SZ = size_of ImageText16_Prefix + size_of Request_Length + size_of ImageText16_Encoding,
      BASE_BIG_ENCODING_SZ = size_of ImageText16_Prefix + size_of Request_BigLength + size_of ImageText16_Encoding\<rparr>"

definition CreateColormap :: request_type where
  "CreateColormap =
     \<lparr>prefix_layout = CreateColormap_Prefix, length_layout = Request_Length, big_length_layout = Request_BigLength,
      encoding_layout = Some CreateColormap_Encoding,
      BASE_ENCODING_SZ = size_of CreateColormap_Prefix + size_of Request_Length + size_of CreateColormap_Encoding,
      BASE_BIG_ENCODING_SZ = size_of CreateColormap_Prefix + size_of Request_BigLength + size_of CreateColormap_Encoding\<rparr>"

definition CopyColormapAndFree :: request_type where
  "CopyColormapAndFree =
     \<lparr>prefix_layout = Request_Prefix, length_layout = Request_Length, big_length_layout = Request_BigLength,
      encoding_layout = Some CopyColormapAndFree_Encoding,
      BASE_ENCODING_SZ = size_of Request_Prefix + size_of Request_Length + size_of CopyColormapAndFree_Encoding,
      BASE_BIG_ENCODING_SZ = size_of Request_Prefix + size_of Request_BigLength + size_of CopyColormapAndFree_Encoding\<rparr>"

definition AllocColor :: request_type where
  "AllocColor =
     \<lparr>prefix_layout = Request_Prefix, length_layout = Request_Length, big_length_layout = Request_BigLength,
      encoding_layout = Some AllocColor_Encoding,
      BASE_ENCODING_SZ = size_of Request_Prefix + size_of Request_Length + size_of AllocColor_Encoding,
      BASE_BIG_ENCODING_SZ = size_of Request_Prefix + size_of Request_BigLength + size_of AllocColor_Encoding\<rparr>"

definition AllocNamedColor :: request_type where
  "AllocNamedColor =
     \<lparr>prefix_layout = Request_Prefix, length_layout = Request_Length, big_length_layout = Request_BigLength,
      encoding_layout = Some AllocNamedColor_Encoding,
      BASE_ENCODING_SZ = size_of Request_Prefix + size_of Request_Length + size_of AllocNamedColor_Encoding,
      BASE_BIG_ENCODING_SZ = size_of Request_Prefix + size_of Request_BigLength + size_of AllocNamedColor_Encoding\<rparr>"

definition AllocColorCells :: request_type where
  "AllocColorCells =
     \<lparr>prefix_layout = AllocColorCells_Prefix, length_layout = Request_Length, big_length_layout = Request_BigLength,
      encoding_layout = Some AllocColorCells_Encoding,
      BASE_ENCODING_SZ = size_of AllocColorCells_Prefix + size_of Request_Length + size_of AllocColorCells_Encoding,
      BASE_BIG_ENCODING_SZ = size_of AllocColorCells_Prefix + size_of Request_BigLength + size_of AllocColorCells_Encoding\<rparr>"

definition AllocColorPlanes :: request_type where
  "AllocColorPlanes =
     \<lparr>prefix_layout = AllocColorPlanes_Prefix, length_layout = Request_Length, big_length_layout = Request_BigLength,
      encoding_layout = Some AllocColorPlanes_Encoding,
      BASE_ENCODING_SZ = size_of AllocColorPlanes_Prefix + size_of Request_Length + size_of AllocColorPlanes_Encoding,
      BASE_BIG_ENCODING_SZ = size_of AllocColorPlanes_Prefix + size_of Request_BigLength + size_of AllocColorPlanes_Encoding\<rparr>"

definition FreeColors :: request_type where
  "FreeColors =
     \<lparr>prefix_layout = Request_Prefix, length_layout = Request_Length, big_length_layout = Request_BigLength,
      encoding_layout = Some FreeColors_Encoding,
      BASE_ENCODING_SZ = size_of Request_Prefix + size_of Request_Length + size_of FreeColors_Encoding,
      BASE_BIG_ENCODING_SZ = size_of Request_Prefix + size_of Request_BigLength + size_of FreeColors_Encoding\<rparr>"

definition StoreColors :: request_type where
  "StoreColors =
     \<lparr>prefix_layout = Request_Prefix, length_layout = Request_Length, big_length_layout = Request_BigLength,
      encoding_layout = Some StoreColors_Encoding,
      BASE_ENCODING_SZ = size_of Request_Prefix + size_of Request_Length + size_of StoreColors_Encoding,
      BASE_BIG_ENCODING_SZ = size_of Request_Prefix + size_of Request_BigLength + size_of StoreColors_Encoding\<rparr>"

definition StoreNamedColor :: request_type where
  "StoreNamedColor =
     \<lparr>prefix_layout = StoreNamedColor_Prefix, length_layout = Request_Length, big_length_layout = Request_BigLength,
      encoding_layout = Some StoreNamedColor_Encoding,
      BASE_ENCODING_SZ = size_of StoreNamedColor_Prefix + size_of Request_Length + size_of StoreNamedColor_Encoding,
      BASE_BIG_ENCODING_SZ = size_of StoreNamedColor_Prefix + size_of Request_BigLength + size_of StoreNamedColor_Encoding\<rparr>"

definition QueryColors :: request_type where
  "QueryColors =
     \<lparr>prefix_layout = Request_Prefix, length_layout = Request_Length, big_length_layout = Request_BigLength,
      encoding_layout = Some QueryColors_Encoding,
      BASE_ENCODING_SZ = size_of Request_Prefix + size_of Request_Length + size_of QueryColors_Encoding,
      BASE_BIG_ENCODING_SZ = size_of Request_Prefix + size_of Request_BigLength + size_of QueryColors_Encoding\<rparr>"

definition LookupColor :: request_type where
  "LookupColor =
     \<lparr>prefix_layout = Request_Prefix, length_layout = Request_Length, big_length_layout = Request_BigLength,
      encoding_layout = Some LookupColor_Encoding,
      BASE_ENCODING_SZ = size_of Request_Prefix + size_of Request_Length + size_of LookupColor_Encoding,
      BASE_BIG_ENCODING_SZ = size_of Request_Prefix + size_of Request_BigLength + size_of LookupColor_Encoding\<rparr>"

definition CreateCursor :: request_type where
  "CreateCursor =
     \<lparr>prefix_layout = Request_Prefix, length_layout = Request_Length, big_length_layout = Request_BigLength,
      encoding_layout = Some CreateCursor_Encoding,
      BASE_ENCODING_SZ = size_of Request_Prefix + size_of Request_Length + size_of CreateCursor_Encoding,
      BASE_BIG_ENCODING_SZ = size_of Request_Prefix + size_of Request_BigLength + size_of CreateCursor_Encoding\<rparr>"

definition CreateGlyphCursor :: request_type where
  "CreateGlyphCursor =
     \<lparr>prefix_layout = Request_Prefix, length_layout = Request_Length, big_length_layout = Request_BigLength,
      encoding_layout = Some CreateGlyphCursor_Encoding,
      BASE_ENCODING_SZ = size_of Request_Prefix + size_of Request_Length + size_of CreateGlyphCursor_Encoding,
      BASE_BIG_ENCODING_SZ = size_of Request_Prefix + size_of Request_BigLength + size_of CreateGlyphCursor_Encoding\<rparr>"

definition FreeCursor :: request_type where
  "FreeCursor =
     \<lparr>prefix_layout = Request_Prefix, length_layout = Request_Length, big_length_layout = Request_BigLength,
      encoding_layout = Some FreeCursor_Encoding,
      BASE_ENCODING_SZ = size_of Request_Prefix + size_of Request_Length + size_of FreeCursor_Encoding,
      BASE_BIG_ENCODING_SZ = size_of Request_Prefix + size_of Request_BigLength + size_of FreeCursor_Encoding\<rparr>"

definition RecolorCursor :: request_type where
  "RecolorCursor =
     \<lparr>prefix_layout = Request_Prefix, length_layout = Request_Length, big_length_layout = Request_BigLength,
      encoding_layout = Some RecolorCursor_Encoding,
      BASE_ENCODING_SZ = size_of Request_Prefix + size_of Request_Length + size_of RecolorCursor_Encoding,
      BASE_BIG_ENCODING_SZ = size_of Request_Prefix + size_of Request_BigLength + size_of RecolorCursor_Encoding\<rparr>"

definition QueryBestSize :: request_type where
  "QueryBestSize =
     \<lparr>prefix_layout = QueryBestSize_Prefix, length_layout = Request_Length, big_length_layout = Request_BigLength,
      encoding_layout = Some QueryBestSize_Encoding,
      BASE_ENCODING_SZ = size_of QueryBestSize_Prefix + size_of Request_Length + size_of QueryBestSize_Encoding,
      BASE_BIG_ENCODING_SZ = size_of QueryBestSize_Prefix + size_of Request_BigLength + size_of QueryBestSize_Encoding\<rparr>"

definition QueryExtension :: request_type where
  "QueryExtension =
     \<lparr>prefix_layout = Request_Prefix, length_layout = Request_Length, big_length_layout = Request_BigLength,
      encoding_layout = Some QueryExtension_Encoding,
      BASE_ENCODING_SZ = size_of Request_Prefix + size_of Request_Length + size_of QueryExtension_Encoding,
      BASE_BIG_ENCODING_SZ = size_of Request_Prefix + size_of Request_BigLength + size_of QueryExtension_Encoding\<rparr>"

definition ChangeKeyboardMapping :: request_type where
  "ChangeKeyboardMapping =
     \<lparr>prefix_layout = ChangeKeyboardMapping_Prefix, length_layout = Request_Length, big_length_layout = Request_BigLength,
      encoding_layout = Some ChangeKeyboardMapping_Encoding,
      BASE_ENCODING_SZ = size_of ChangeKeyboardMapping_Prefix + size_of Request_Length + size_of ChangeKeyboardMapping_Encoding,
      BASE_BIG_ENCODING_SZ = size_of ChangeKeyboardMapping_Prefix + size_of Request_BigLength + size_of ChangeKeyboardMapping_Encoding\<rparr>"

definition GetKeyboardMapping :: request_type where
  "GetKeyboardMapping =
     \<lparr>prefix_layout = Request_Prefix, length_layout = Request_Length, big_length_layout = Request_BigLength,
      encoding_layout = Some GetKeyboardMapping_Encoding,
      BASE_ENCODING_SZ = size_of Request_Prefix + size_of Request_Length + size_of GetKeyboardMapping_Encoding,
      BASE_BIG_ENCODING_SZ = size_of Request_Prefix + size_of Request_BigLength + size_of GetKeyboardMapping_Encoding\<rparr>"

definition ChangeKeyboardControl :: request_type where
  "ChangeKeyboardControl =
     \<lparr>prefix_layout = Request_Prefix, length_layout = Request_Length, big_length_layout = Request_BigLength,
      encoding_layout = Some ChangeKeyboardControl_Encoding,
      BASE_ENCODING_SZ = size_of Request_Prefix + size_of Request_Length + size_of ChangeKeyboardControl_Encoding,
      BASE_BIG_ENCODING_SZ = size_of Request_Prefix + size_of Request_BigLength + size_of ChangeKeyboardControl_Encoding\<rparr>"

definition Bell :: request_type where
  "Bell =
     \<lparr>prefix_layout = Bell_Prefix, length_layout = Request_Length, big_length_layout = Request_BigLength,
      encoding_layout = None,
      BASE_ENCODING_SZ = size_of Bell_Prefix + size_of Request_Length,
      BASE_BIG_ENCODING_SZ = size_of Bell_Prefix + size_of Request_BigLength\<rparr>"

definition ChangePointerControl :: request_type where
  "ChangePointerControl =
     \<lparr>prefix_layout = Request_Prefix, length_layout = Request_Length, big_length_layout = Request_BigLength,
      encoding_layout = Some ChangePointerControl_Encoding,
      BASE_ENCODING_SZ = size_of Request_Prefix + size_of Request_Length + size_of ChangePointerControl_Encoding,
      BASE_BIG_ENCODING_SZ = size_of Request_Prefix + size_of Request_BigLength + size_of ChangePointerControl_Encoding\<rparr>"

definition SetScreenSaver :: request_type where
  "SetScreenSaver =
     \<lparr>prefix_layout = Request_Prefix, length_layout = Request_Length, big_length_layout = Request_BigLength,
      encoding_layout = Some SetScreenSaver_Encoding,
      BASE_ENCODING_SZ = size_of Request_Prefix + size_of Request_Length + size_of SetScreenSaver_Encoding,
      BASE_BIG_ENCODING_SZ = size_of Request_Prefix + size_of Request_BigLength + size_of SetScreenSaver_Encoding\<rparr>"

definition ChangeHosts :: request_type where
  "ChangeHosts =
     \<lparr>prefix_layout = ChangeHosts_Prefix, length_layout = Request_Length, big_length_layout = Request_BigLength,
      encoding_layout = Some ChangeHosts_Encoding,
      BASE_ENCODING_SZ = size_of ChangeHosts_Prefix + size_of Request_Length + size_of ChangeHosts_Encoding,
      BASE_BIG_ENCODING_SZ = size_of ChangeHosts_Prefix + size_of Request_BigLength + size_of ChangeHosts_Encoding\<rparr>"

definition SetAccessControl :: request_type where
  "SetAccessControl =
     \<lparr>prefix_layout = SetAccessControl_Prefix, length_layout = Request_Length, big_length_layout = Request_BigLength,
      encoding_layout = None,
      BASE_ENCODING_SZ = size_of SetAccessControl_Prefix + size_of Request_Length,
      BASE_BIG_ENCODING_SZ = size_of SetAccessControl_Prefix + size_of Request_BigLength\<rparr>"

definition SetCloseDownMode :: request_type where
  "SetCloseDownMode =
     \<lparr>prefix_layout = SetCloseDownMode_Prefix, length_layout = Request_Length, big_length_layout = Request_BigLength,
      encoding_layout = None,
      BASE_ENCODING_SZ = size_of SetCloseDownMode_Prefix + size_of Request_Length,
      BASE_BIG_ENCODING_SZ = size_of SetCloseDownMode_Prefix + size_of Request_BigLength\<rparr>"

definition KillClient :: request_type where
  "KillClient =
     \<lparr>prefix_layout = Request_Prefix, length_layout = Request_Length, big_length_layout = Request_BigLength,
      encoding_layout = Some KillClient_Encoding,
      BASE_ENCODING_SZ = size_of Request_Prefix + size_of Request_Length + size_of KillClient_Encoding,
      BASE_BIG_ENCODING_SZ = size_of Request_Prefix + size_of Request_BigLength + size_of KillClient_Encoding\<rparr>"

definition RotateProperties :: request_type where
  "RotateProperties =
     \<lparr>prefix_layout = Request_Prefix, length_layout = Request_Length, big_length_layout = Request_BigLength,
      encoding_layout = Some RotateProperties_Encoding,
      BASE_ENCODING_SZ = size_of Request_Prefix + size_of Request_Length,
      BASE_BIG_ENCODING_SZ = size_of Request_Prefix + size_of Request_BigLength\<rparr>"

definition ForceScreenSaver :: request_type where
  "ForceScreenSaver =
     \<lparr>prefix_layout = ForceScreenSaver_Prefix, length_layout = Request_Length, big_length_layout = Request_BigLength,
      encoding_layout = None,
      BASE_ENCODING_SZ = size_of ForceScreenSaver_Prefix + size_of Request_Length,
      BASE_BIG_ENCODING_SZ = size_of ForceScreenSaver_Prefix + size_of Request_BigLength\<rparr>"

definition SetPointerMapping :: request_type where
  "SetPointerMapping =
     \<lparr>prefix_layout = SetPointerMapping_Prefix, length_layout = Request_Length, big_length_layout = Request_BigLength,
      encoding_layout = None,
      BASE_ENCODING_SZ = size_of SetPointerMapping_Prefix + size_of Request_Length,
      BASE_BIG_ENCODING_SZ = size_of SetPointerMapping_Prefix + size_of Request_BigLength\<rparr>"

definition SetModifierMapping :: request_type where
  "SetModifierMapping =
     \<lparr>prefix_layout = SetModifierMapping_Prefix, length_layout = Request_Length, big_length_layout = Request_BigLength,
      encoding_layout = None,
      BASE_ENCODING_SZ = size_of SetModifierMapping_Prefix + size_of Request_Length,
      BASE_BIG_ENCODING_SZ = size_of SetModifierMapping_Prefix + size_of Request_BigLength\<rparr>"

definition NoOperation :: request_type where
  "NoOperation =
     \<lparr>prefix_layout = Request_Prefix, length_layout = Request_Length, big_length_layout = Request_BigLength,
      encoding_layout = None,
      BASE_ENCODING_SZ = size_of Request_Prefix + size_of Request_Length,
      BASE_BIG_ENCODING_SZ = size_of Request_Prefix + size_of Request_BigLength\<rparr>"

lemmas request_types =
  SimpleRequest_def SimpleWindowRequest_def ListFontsRequest_def PolyPointRequest_def
  SimpleCmapRequest_def CreateWindow_def ChangeWindowAttributes_def ChangeSaveSet_def
  ReparentWindow_def ConfigureWindow_def CirculateWindow_def GetGeometry_def InternAtom_def
  GetAtomName_def ChangeProperty_def DeleteProperty_def GetProperty_def SetSelectionOwner_def
  GetSelectionOwner_def ConvertSelection_def SendEvent_def GrabPointer_def UngrabPointer_def
  GrabButton_def UngrabButton_def ChangeActivePointerGrab_def GrabKeyboard_def
  UngrabKeyboard_def GrabKey_def UngrabKey_def AllowEvents_def GetMotionEvents_def
  TranslateCoordinates_def WarpPointer_def SetInputFocus_def OpenFont_def CloseFont_def
  QueryFont_def QueryTextExtents_def SetFontPath_def CreatePixmap_def FreePixmap_def
  CreateGC_def ChangeGC_def CopyGC_def SetDashes_def SetClipRectangles_def FreeGC_def
  ClearArea_def CopyArea_def CopyPlane_def PolySegment_def PolyRectangle_def PolyArc_def
  FillPoly_def PolyFillRectangle_def PolyFillArc_def PutImage_def GetImage_def PolyText8_def
  PolyText16_def ImageText8_def ImageText16_def CreateColormap_def CopyColormapAndFree_def
  AllocColor_def AllocNamedColor_def AllocColorCells_def AllocColorPlanes_def FreeColors_def
  StoreColors_def StoreNamedColor_def QueryColors_def LookupColor_def CreateCursor_def
  CreateGlyphCursor_def FreeCursor_def RecolorCursor_def QueryBestSize_def QueryExtension_def
  ChangeKeyboardMapping_def GetKeyboardMapping_def ChangeKeyboardControl_def Bell_def
  ChangePointerControl_def SetScreenSaver_def ChangeHosts_def SetAccessControl_def
  SetCloseDownMode_def KillClient_def RotateProperties_def ForceScreenSaver_def
  SetPointerMapping_def SetModifierMapping_def NoOperation_def

end
