(* ===== verification/StructFormat.thy ===== *)
theory StructFormat
  imports ListFormat RequestLayout
begin

text \<open>
  Lists of structs, of text items and of \<open>VALUE\<close>s (\<open>_parseListMember\<close>, \<open>_parseLISTof\<close>
  and \<open>_parseLISTofVALUE\<close> of \<open>X11ProtocolParser.hpp\<close>, with the instances in
  \<open>X11ProtocolParser__parseListMember.cpp\<close> and the struct overloads of
  \<open>X11ProtocolParser__formatVariable.cpp\<close>).
\<close>

subsection \<open>Members of lists\<close>

definition read_text :: "byte list \<Rightarrow> nat \<Rightarrow> nat \<Rightarrow> string res" where
  \<comment> \<open>the characters of a \<open>string_view\<close>\<close>
  "read_text m off n = map_res (map (\<lambda>b. char_of (unat b))) (read_bytes m off n)"

definition parseListMember_struct ::
  "layout \<Rightarrow> (byte list \<Rightarrow> whitespace \<Rightarrow> string res) \<Rightarrow> byte list \<Rightarrow> size_t \<Rightarrow> whitespace \<Rightarrow>
   parsing_outputs res"
where
  "parseListMember_struct L format data sz ws =
     require (unat sz \<ge> sizeof L) (
     and_then (read_bytes data 0 (sizeof L)) (\<lambda>memb. outputs_of L (format memb ws)))"

definition parseLISTof_struct ::
  "(byte list \<Rightarrow> size_t \<Rightarrow> whitespace \<Rightarrow> parsing_outputs res) \<Rightarrow> byte list \<Rightarrow> size_t \<Rightarrow> 16 word \<Rightarrow>
   whitespace \<Rightarrow> bool \<Rightarrow> parsing_outputs res"
where
  "parseLISTof_struct parse data sz memb_ct ws force_membs_singleline =
     parseLISTof (\<lambda>d n. and_then (nested force_membs_singleline ws) (parse d n)) data sz memb_ct ws"

definition formatCHAR2B :: "parser \<Rightarrow> bool \<Rightarrow> byte list \<Rightarrow> whitespace \<Rightarrow> string res" where
  \<comment> \<open>read as a \<open>uint16_t\<close> and printed in hexadecimal\<close>
  "formatCHAR2B P bsw data ws =
     and_then (load (little_endian P) data 0 2) (\<lambda>char16_eqv.
     formatInt P 2 False char16_eqv bsw range_none BITMASK)"

definition formatPOINT :: "parser \<Rightarrow> bool \<Rightarrow> byte list \<Rightarrow> whitespace \<Rightarrow> string res" where
  "formatPOINT P bsw data ws =
     (let enc = member P bsw POINT data in
      braces P ws (name_width ws ''x'')
        [always ''x'' (enc ''x'' no_names NOT_BITMASK),
         always ''y'' (enc ''y'' no_names NOT_BITMASK)])"

definition formatRECTANGLE :: "parser \<Rightarrow> bool \<Rightarrow> byte list \<Rightarrow> whitespace \<Rightarrow> string res" where
  "formatRECTANGLE P bsw data ws =
     (let enc = member P bsw RECTANGLE data in
      braces P ws (name_width ws ''height'')
        [always ''x'' (enc ''x'' no_names NOT_BITMASK),
         always ''y'' (enc ''y'' no_names NOT_BITMASK),
         always ''width'' (enc ''width'' no_names NOT_BITMASK),
         always ''height'' (enc ''height'' no_names NOT_BITMASK)])"

definition formatARC :: "parser \<Rightarrow> bool \<Rightarrow> byte list \<Rightarrow> whitespace \<Rightarrow> string res" where
  "formatARC P bsw data ws =
     (let enc = member P bsw ARC data in
      braces P ws (name_width ws ''height'')
        [always ''x'' (enc ''x'' no_names NOT_BITMASK),
         always ''y'' (enc ''y'' no_names NOT_BITMASK),
         always ''width'' (enc ''width'' no_names NOT_BITMASK),
         always ''height'' (enc ''height'' no_names NOT_BITMASK),
         always ''angle1'' (enc ''angle1'' no_names NOT_BITMASK),
         always ''angle2'' (enc ''angle2'' no_names NOT_BITMASK)])"

text \<open>
  The format string of \<open>SEGMENT\<close> has fields for two members of the four: after \<open>y1\<close> its
  last field takes the next argument, which is the indentation of \<open>x2\<close>, and the arguments
  left over are not used.
\<close>

definition formatSEGMENT :: "parser \<Rightarrow> bool \<Rightarrow> byte list \<Rightarrow> whitespace \<Rightarrow> string res" where
  "formatSEGMENT P bsw data ws =
     (let enc = member P bsw PolySegment_SEGMENT data; w = name_width ws ''x1'' in
      and_then (format_row P ws w (always ''x1'' (enc ''x1'' no_names NOT_BITMASK))) (\<lambda>x1.
      and_then (format_row P ws w (always ''y1'' (enc ''y1'' no_names NOT_BITMASK))) (\<lambda>y1.
      and_then (enc ''x2'' no_names NOT_BITMASK) (\<lambda>_.
      and_then (enc ''y2'' no_names NOT_BITMASK) (\<lambda>_.
      Inr (''{'' @ separator ws @ x1 @ y1 @ memb_indent ws @ ''}''))))))"

definition DO_RGB_ZERO_BITS :: nat where
  "DO_RGB_ZERO_BITS = 0xF8"

definition formatCOLORITEM :: "parser \<Rightarrow> bool \<Rightarrow> byte list \<Rightarrow> whitespace \<Rightarrow> string res" where
  "formatCOLORITEM P bsw data ws =
     (let enc = member P bsw StoreColors_COLORITEM data in
      and_then (load_member (little_endian P) StoreColors_COLORITEM data ''do_rgb_mask'') (\<lambda>(_, do_rgb_mask).
      require (do_rgb_mask AND DO_RGB_ZERO_BITS = 0) (
      braces P ws (name_width ws ''(do rgb mask)'')
        [always ''pixel'' (enc ''pixel'' no_names NOT_BITMASK),
         always ''red'' (enc ''red'' no_names NOT_BITMASK),
         always ''green'' (enc ''green'' no_names NOT_BITMASK),
         always ''blue'' (enc ''blue'' no_names NOT_BITMASK),
         always ''(do rgb mask)''
           (enc ''do_rgb_mask'' (range_all StoreColors_COLORITEM_do_rgb_names) BITMASK)])))"

subsection \<open>Structs with suffixes\<close>

definition parseListMember_STR ::
  "parser \<Rightarrow> bool \<Rightarrow> byte list \<Rightarrow> size_t \<Rightarrow> whitespace \<Rightarrow> parsing_outputs res"
where
  "parseListMember_STR P bsw data sz ws =
     (let enc = member P bsw STR_Header data in
      require (unat sz \<ge> sizeof STR_Header) (
      and_then (ordered_member P bsw STR_Header data ''name_len'') (\<lambda>name_len.
      let name = read_text data (sizeof STR_Header) name_len in
      map_res (\<lambda>s. \<lparr>str = s, bytes_parsed = of_nat (sizeof STR_Header + name_len)\<rparr>)
        (braces P ws
          (name_width ws (if verbose (settings P) then ''(name length)'' else ''name''))
          [verbose_only ''(name length)'' (enc ''name_len'' no_names NOT_BITMASK),
           always ''name'' (map_res (fmt_debug (fmtl P)) name)]))))"

definition parseListMember_HOST ::
  "parser \<Rightarrow> bool \<Rightarrow> byte list \<Rightarrow> size_t \<Rightarrow> whitespace \<Rightarrow> parsing_outputs res"
where
  "parseListMember_HOST P bsw data sz ws =
     (let enc = member P bsw HOST_Header data in
      require (unat sz \<ge> sizeof HOST_Header) (
      and_then (ordered_member P bsw HOST_Header data ''family'') (\<lambda>family.
      require (family < length HOST_family_names) (
      require (HOST_family_names ! family \<noteq> []) (
      and_then (ordered_member P bsw HOST_Header data ''address_len'') (\<lambda>address_len.
      and_then (nested FORCE_SINGLELINE ws) (\<lambda>address_ws.
      and_then (parseLISTof_int P CARD8 (drop (sizeof HOST_Header) data) (sz - of_nat (sizeof HOST_Header))
                  (of_nat address_len) bsw address_ws no_names NOT_BITMASK) (\<lambda>address.
      let n = of_nat (sizeof HOST_Header) + ucast (Alignment_pad (of_nat address_len)) in
      map_res (\<lambda>s. \<lparr>str = s, bytes_parsed = n\<rparr>)
        (braces P ws
          (name_width ws (if verbose (settings P) then ''(address length)'' else ''address''))
          [always ''family'' (enc ''family'' (range_all HOST_family_names) NOT_BITMASK),
           verbose_only ''(address length)'' (enc ''address_len'' no_names NOT_BITMASK),
           always ''address'' (Inr (str address))])))))))))"

definition FONT_SHIFT :: nat where
  "FONT_SHIFT = 255"

text \<open>
  A text item is a union: the whole union is copied from the memory, whichever alternative it
  is. The bytes of a font go from the most to the least significant one; \<open>ntohl\<close> makes
  the host's integer of them.
\<close>

definition text_item_font ::
  "parser \<Rightarrow> bool \<Rightarrow> byte list \<Rightarrow> whitespace \<Rightarrow> parsing_outputs res"
where
  "text_item_font P bsw item ws =
     (let font = host_val False (take 4 (drop 1 item)) in
      map_res (\<lambda>s. \<lparr>str = s, bytes_parsed = of_nat (sizeof PolyTextRequest_FONT)\<rparr>)
        (braces P ws
          (name_width ws (if verbose (settings P) then ''font-shift'' else ''font''))
          [verbose_only ''font-shift'' (member P bsw PolyTextRequest_FONT item ''font_shift'' no_names NOT_BITMASK),
           always ''font'' (formatVariable P FONT font bsw range_none NOT_BITMASK)]))"

definition parseListMember_TEXTITEM8 ::
  "parser \<Rightarrow> bool \<Rightarrow> byte list \<Rightarrow> size_t \<Rightarrow> whitespace \<Rightarrow> parsing_outputs res"
where
  "parseListMember_TEXTITEM8 P bsw data sz ws =
     require (unat sz \<ge> sizeof PolyText8_TEXTITEM8_TEXTELT8) (
     and_then (read_bytes data 0 (sizeof PolyTextRequest_FONT)) (\<lambda>item.
     and_then (ordered_member P bsw PolyTextRequest_FONT item ''font_shift'') (\<lambda>font_shift.
     if font_shift = FONT_SHIFT then text_item_font P bsw item ws
     else
       let enc = member P bsw PolyText8_TEXTITEM8_TEXTELT8 item; k = sizeof PolyText8_TEXTITEM8_TEXTELT8 in
       and_then (ordered_member P bsw PolyText8_TEXTITEM8_TEXTELT8 item ''string_len'') (\<lambda>string_len.
       let string = read_text data k string_len in
       map_res (\<lambda>s. \<lparr>str = s, bytes_parsed = of_nat (k + string_len)\<rparr>)
         (braces P ws
           (name_width ws (if verbose (settings P) then ''(string len)'' else ''string''))
           [verbose_only ''(string len)'' (enc ''string_len'' no_names NOT_BITMASK),
            always ''delta'' (enc ''delta'' no_names NOT_BITMASK),
            always ''string'' (map_res (fmt_debug (fmtl P)) string)])))))"

definition parseListMember_TEXTITEM16 ::
  "parser \<Rightarrow> bool \<Rightarrow> byte list \<Rightarrow> size_t \<Rightarrow> whitespace \<Rightarrow> parsing_outputs res"
where
  "parseListMember_TEXTITEM16 P bsw data sz ws =
     require (unat sz \<ge> sizeof PolyText16_TEXTITEM16_TEXTELT16) (
     and_then (read_bytes data 0 (sizeof PolyTextRequest_FONT)) (\<lambda>item.
     and_then (ordered_member P bsw PolyTextRequest_FONT item ''font_shift'') (\<lambda>font_shift.
     if font_shift = FONT_SHIFT then text_item_font P bsw item ws
     else
       let enc = member P bsw PolyText16_TEXTITEM16_TEXTELT16 item; k = sizeof PolyText16_TEXTITEM16_TEXTELT16 in
       and_then (ordered_member P bsw PolyText16_TEXTITEM16_TEXTELT16 item ''string_2B_len'') (\<lambda>string_2B_len.
       and_then (nested FORCE_SINGLELINE ws) (\<lambda>string_ws.
       and_then (parseLISTof_struct (parseListMember_struct CHAR2B (formatCHAR2B P bsw)) (drop k data)
                   (sz - of_nat k) (of_nat string_2B_len) string_ws DEFAULT) (\<lambda>string.
       map_res (\<lambda>s. \<lparr>str = s, bytes_parsed = of_nat k + bytes_parsed string\<rparr>)
         (braces P ws
           (name_width ws (if verbose (settings P) then ''(string length (CHAR2B))'' else ''string''))
           [verbose_only ''(string length (CHAR2B))'' (enc ''string_2B_len'' no_names NOT_BITMASK),
            always ''delta'' (enc ''delta'' no_names NOT_BITMASK),
            always ''string'' (Inr (str string))])))))))"

subsection \<open>Lists without a count\<close>

text \<open>
  \<open>_parseLISTof\<close> without a count parses members until the padded size is reached. A loop
  that has not ended after \<open>fuel\<close> members is \<open>None\<close>; the list gets as much fuel as it has
  bytes, and one that needs more is the fault \<open>No_return\<close>.
\<close>

fun parse_until ::
  "nat \<Rightarrow> (byte list \<Rightarrow> size_t \<Rightarrow> parsing_outputs res) \<Rightarrow> byte list \<Rightarrow> size_t \<Rightarrow> whitespace \<Rightarrow>
   parsing_outputs \<Rightarrow> parsing_outputs res option"
where
  "parse_until fuel parse data sz ws outputs =
     (if \<not> Alignment_pad (ucast (bytes_parsed outputs)) < sz then Some (Inr outputs)
      else case fuel of
        0 \<Rightarrow> None
      | Suc k \<Rightarrow>
          (case parse (drop (unat (bytes_parsed outputs)) data) (sz - ucast (bytes_parsed outputs)) of
             Inl e \<Rightarrow> Some (Inl e)
           | Inr m \<Rightarrow> parse_until k parse data sz ws (append_member ws outputs m)))"

declare parse_until.simps [simp del]

definition parseLISTof_uncounted ::
  "(byte list \<Rightarrow> size_t \<Rightarrow> whitespace \<Rightarrow> parsing_outputs res) \<Rightarrow> byte list \<Rightarrow> size_t \<Rightarrow>
   whitespace \<Rightarrow> bool \<Rightarrow> parsing_outputs res"
where
  "parseLISTof_uncounted parse data sz ws force_membs_singleline =
     (case parse_until (Suc (unat sz))
             (\<lambda>d n. and_then (nested force_membs_singleline ws) (parse d n)) data sz ws
             \<lparr>str = ''['' @ (if sz = 0 then [] else separator ws), bytes_parsed = 0\<rparr> of
        None \<Rightarrow> Inl No_return
      | Some r \<Rightarrow>
          map_res (\<lambda>out. out\<lparr>str := str out @ (if bytes_parsed out = 0 then [] else encl_indent ws) @ '']''\<rparr>) r)"

subsection \<open>Lists of optional values\<close>

text \<open>
  \<open>LISTofVALUE\<close>: bit \<open>i\<close> of the mask says whether the list has a value for entry \<open>i\<close> of
  the types, names and traits. Each value takes four bytes, whatever its type.
\<close>

record value_outputs = parsing_outputs +
  value_ct :: "32 word"

type_synonym value_traits = "enum_range \<times> bool"

definition value_trait :: "enum_range res \<Rightarrow> bool \<Rightarrow> value_traits res" where
  "value_trait names' bitmask = map_res (\<lambda>r. (r, bitmask)) names'"

definition value_name_width :: "whitespace \<Rightarrow> nat \<Rightarrow> string list \<Rightarrow> nat" where
  \<comment> \<open>the constructor of \<open>_LISTofVALUEParsingInputs\<close>\<close>
  "value_name_width ws value_mask names' =
     (if ws_multiline ws
      then foldl (\<lambda>w i. if bit value_mask i then max w (length (names' ! i)) else w) 0 [0 ..< length names']
      else 0)"

fun parse_values ::
  "parser \<Rightarrow> byte list \<Rightarrow> size_t \<Rightarrow> nat \<Rightarrow> bool \<Rightarrow> whitespace \<Rightarrow> nat \<Rightarrow> nat \<Rightarrow>
   (ptype \<times> string \<times> value_traits) list \<Rightarrow> value_outputs \<Rightarrow> value_outputs res"
where
  "parse_values P data sz value_mask bsw ws memb_name_w i [] outputs =
     require ((ucast (bytes_parsed outputs) :: size_t) = ucast (value_ct outputs) * 4) (
     Inr (outputs\<lparr>str := str outputs @ (if value_mask \<noteq> 0 then encl_indent ws else []) @ '']''\<rparr>))"
| "parse_values P data sz value_mask bsw ws memb_name_w i ((t, name, r, bm) # vs) outputs =
     (let out = (if i = 0
                 then outputs\<lparr>str := str outputs @ ''['' @ (if value_mask \<noteq> 0 then separator ws else [])\<rparr>
                 else outputs) in
      if \<not> bit value_mask i
      then parse_values P data sz value_mask bsw ws memb_name_w (Suc i) vs out
      else
        let left = sz - ucast (bytes_parsed out) in
        require (unat left \<ge> 4) (
        and_then (parseListMember_int P t (drop (unat (bytes_parsed out)) data) left bsw (Inr r) bm) (\<lambda>m.
        parse_values P data sz value_mask bsw ws memb_name_w (Suc i) vs
          (out\<lparr>bytes_parsed := bytes_parsed out + 4,
               value_ct := value_ct out + 1,
               str := str out @ memb_indent ws @ fmt_pad (fmtl P) memb_name_w name @ equals ws @
                      str m @ separator ws\<rparr>))))"

definition parseLISTofVALUE ::
  "parser \<Rightarrow> byte list \<Rightarrow> size_t \<Rightarrow> nat \<Rightarrow> ptype list \<Rightarrow> string list \<Rightarrow> value_traits list \<Rightarrow>
   bool \<Rightarrow> whitespace \<Rightarrow> value_outputs res"
where
  "parseLISTofVALUE P data sz value_mask types names' traits bsw ws =
     require (length types = length names' \<and> length names' = length traits) (
     parse_values P data sz value_mask bsw ws (value_name_width ws value_mask names') 0
       (zip types (zip names' traits)) \<lparr>str = [], bytes_parsed = 0, value_ct = 0\<rparr>)"

subsection \<open>Sizes\<close>

definition pad4 :: "nat \<Rightarrow> nat" where
  "pad4 n = (n + 3) div 4 * 4"

lemma pad4_bounds: "n \<le> pad4 n" "pad4 n < n + 4"
  using div_mult_mod_eq [of "n + 3" 4] mod_less_divisor [of 4 "n + 3"] by (simp_all add: pad4_def)

lemma pad4_mod [simp]: "pad4 n mod 4 = 0"
  by (simp add: pad4_def)

lemma builtin_bswap_bound: "builtin_bswap w n < 256 ^ w"
  using le_val_bound [of "rev (le_bytes w n)"] by (simp add: builtin_bswap_def)

lemma ordered_bound: "n < 256 ^ w \<Longrightarrow> ordered w bsw n < 256 ^ w"
  using builtin_bswap_bound [of 2 n] builtin_bswap_bound [of 4 n] builtin_bswap_bound [of 8 n]
  by (simp add: ordered_def)

lemma ordered_member_bound:
  assumes "ordered_member P bsw L data f = Inr n" and "field_at L f = Some (off, t)"
  shows "n < 256 ^ ptype_size t"
proof -
  from assms obtain m where "load (little_endian P) data off (ptype_size t) = Inr m"
    and n: "n = ordered (ptype_size t) bsw m"
    by (auto simp: ordered_member_def load_member_def map_res_eq_Inr)
  from this(1) have "m < 256 ^ ptype_size t"
    by (rule load_bound)
  then show ?thesis
    unfolding n by (rule ordered_bound)
qed

lemma ordered_member_at:
  assumes "field_at L f = Some (off, t)" and "off + ptype_size t \<le> length data"
  shows "ordered_member P bsw L data f =
    Inr (ordered (ptype_size t) bsw (host_val (little_endian P) (take (ptype_size t) (drop off data))))"
  using assms by (simp add: ordered_member_def load_member_def load_ok)

lemma read_text_ok [simp]: "is_ok (read_text m off n) \<longleftrightarrow> off + n \<le> length m"
  by (simp add: read_text_def read_bytes_def)

lemma unat_of_nat_32: "n < 2 ^ 32 \<Longrightarrow> unat (of_nat n :: 32 word) = n"
  by (simp add: unat_of_nat take_bit_nat_def)

lemma unat_of_nat_64: "n < 2 ^ 64 \<Longrightarrow> unat (of_nat n :: size_t) = n"
  by (simp add: unat_of_nat take_bit_nat_def)

lemma unat_of_nat_16: "n < 2 ^ 16 \<Longrightarrow> unat (of_nat n :: 16 word) = n"
  by (simp add: unat_of_nat take_bit_nat_def)

lemma ucast_of_nat_32:
  assumes "n < 2 ^ 32"
  shows "(ucast (of_nat n :: 32 word) :: size_t) = of_nat n"
proof -
  have "(of_nat (unat (of_nat n :: 32 word)) :: size_t) = of_nat n"
    using assms by (simp only: unat_of_nat_32)
  then show ?thesis
    by (simp only: of_nat_unat)
qed

lemma unat_ucast_32_64: "unat (ucast (n :: 32 word) :: size_t) = unat n"
proof -
  have "unat n < 2 ^ LENGTH(32)"
    by (rule unsigned_less)
  then have "unat n < 2 ^ LENGTH(64)"
    by simp
  then show ?thesis
    by (simp add: unsigned_ucast_eq take_bit_nat_eq_self)
qed

lemma unat_minus_of_nat:
  assumes "k \<le> unat (n :: size_t)"
  shows "unat (n - of_nat k) = unat n - k"
proof -
  have "unat n < 2 ^ 64"
    using unsigned_less [of n] by simp
  then have k: "unat (of_nat k :: size_t) = k"
    using assms by (intro unat_of_nat_64) simp
  then have "of_nat k \<le> n"
    using assms by (simp add: word_le_nat_alt)
  then show ?thesis
    by (simp add: unat_sub k)
qed

lemma Alignment_pad_pad4:
  assumes "n < 2 ^ 32"
  shows "Alignment_pad (of_nat n) = of_nat (pad4 n)"
proof -
  have "unat (of_nat n :: size_t) = n"
    using assms by (simp add: unat_of_nat take_bit_nat_def)
  then have "unat (Alignment_pad (of_nat n)) = pad4 n"
    using assms by (subst unat_Alignment_pad_small) (simp_all add: pad4_def)
  then have "of_nat (unat (Alignment_pad (of_nat n))) = (of_nat (pad4 n) :: size_t)"
    by simp
  then show ?thesis
    by simp
qed

subsection \<open>Nesting\<close>

lemma nested_forced_ok [simp]: "is_ok (nested FORCE_SINGLELINE ws)"
  by (simp add: nested_def FORCE_SINGLELINE_def Whitespace3_def)

lemma nested_ok:
  assumes "unat (base_tab_ct ws) \<le> 57"
  shows "\<exists>ws'. nested f ws = Inr ws' \<and> unat (base_tab_ct ws') = Suc (unat (base_tab_ct ws))"
proof -
  let ?t = "base_tab_ct ws"
  have t1: "unat (?t + 1) = Suc (unat ?t)"
    using assms by (simp add: unat_word_ariths)
  have t2: "unat (?t + 1 + 1) = Suc (Suc (unat ?t))"
    using assms by (simp add: unat_word_ariths)
  show ?thesis
    using assms t1 t2
    by (auto simp: nested_def Whitespace3_def tabIndent_def Let_def WHITESPACE_SIZE_def)
qed

subsection \<open>Lists of structs of different sizes\<close>

text \<open>
  \<open>laid_out ok sz d xs\<close>: from \<open>d\<close> on, the memory holds structs that are described by
  \<open>xs\<close>, one after the other; \<open>ok\<close> says that the struct at an address is as described,
  \<open>sz\<close> is its size.
\<close>

fun laid_out :: "(byte list \<Rightarrow> 'a \<Rightarrow> bool) \<Rightarrow> ('a \<Rightarrow> nat) \<Rightarrow> byte list \<Rightarrow> 'a list \<Rightarrow> bool" where
  "laid_out good sz d [] = True"
| "laid_out good sz d (x # xs) = (good d x \<and> laid_out good sz (drop (sz x) d) xs)"

definition sizes :: "('a \<Rightarrow> nat) \<Rightarrow> 'a list \<Rightarrow> nat" where
  "sizes sz xs = sum_list (map sz xs)"

lemma sizes_simps [simp]: "sizes sz [] = 0" "sizes sz (x # xs) = sz x + sizes sz xs"
  by (simp_all add: sizes_def)

lemma sizes_replicate [simp]: "sizes sz (replicate n u) = n * sz u"
  by (induction n) simp_all

lemma sizes_member: "x \<in> set xs \<Longrightarrow> sz x \<le> sizes sz xs"
  by (induction xs) auto

lemma parse_members_laid_out:
  assumes "\<And>d n x. x \<in> set xs \<Longrightarrow> good d x \<Longrightarrow> sz x \<le> unat n \<Longrightarrow>
      \<exists>s. parse d n = Inr \<lparr>str = s, bytes_parsed = of_nat (sz x)\<rparr>"
    and "laid_out good sz (drop k data) xs"
    and "k + sizes sz xs \<le> unat n" and "k + sizes sz xs < 2 ^ 32"
  shows "\<exists>s. parse_members parse data n ws (length xs) \<lparr>str = s0, bytes_parsed = of_nat k\<rparr> =
    Inr \<lparr>str = s, bytes_parsed = of_nat (k + sizes sz xs)\<rparr>"
  using assms
proof (induction xs arbitrary: k s0)
  case (Cons x xs)
  have k: "unat (of_nat k :: 32 word) = k"
    using Cons.prems(4) by (intro unat_of_nat_32) simp
  have uc: "(ucast (of_nat k :: 32 word) :: size_t) = of_nat k"
    using k by (metis of_nat_unat)
  have "unat (n - of_nat k) = unat n - k"
    using Cons.prems(3) by (intro unat_minus_of_nat) simp
  then have "sz x \<le> unat (n - of_nat k)"
    using Cons.prems(3) by simp
  then obtain s where s: "parse (drop k data) (n - of_nat k) =
      Inr \<lparr>str = s, bytes_parsed = of_nat (sz x)\<rparr>"
    using Cons.prems(1) [of x "drop k data" "n - of_nat k"] Cons.prems(2) by auto
  have "\<exists>s'. parse_members parse data n ws (length xs)
      \<lparr>str = s0 @ memb_indent ws @ s @ separator ws, bytes_parsed = of_nat (k + sz x)\<rparr> =
      Inr \<lparr>str = s', bytes_parsed = of_nat (k + sz x + sizes sz xs)\<rparr>"
    using Cons.prems by (intro Cons.IH) (auto simp: add.commute)
  then show ?case
    by (simp add: k uc s append_member_def add.assoc)
qed simp

lemma parseLISTof_laid_out:
  assumes "\<And>d n x. x \<in> set xs \<Longrightarrow> good d x \<Longrightarrow> sz x \<le> unat n \<Longrightarrow>
      \<exists>s. parse d n = Inr \<lparr>str = s, bytes_parsed = of_nat (sz x)\<rparr>"
    and "laid_out good sz data xs" and "sizes sz xs \<le> unat n" and "sizes sz xs < 2 ^ 32"
    and "unat memb_ct = length xs"
  shows "\<exists>s. parseLISTof parse data n memb_ct ws =
    Inr \<lparr>str = s, bytes_parsed = of_nat (sizes sz xs)\<rparr>"
proof -
  let ?s0 = "''['' @ (if memb_ct = 0 then [] else separator ws)"
  have "\<exists>s. parse_members parse data n ws (length xs) \<lparr>str = ?s0, bytes_parsed = of_nat 0\<rparr> =
      Inr \<lparr>str = s, bytes_parsed = of_nat (0 + sizes sz xs)\<rparr>"
    using assms(1-4) by (intro parse_members_laid_out [where good = good]) simp_all
  then show ?thesis
    by (auto simp: parseLISTof_def assms(5))
qed

lemma zero_bits_ok_take:
  "sizeof L \<le> length m \<Longrightarrow> zero_bits_ok le L (take (sizeof L) m) = zero_bits_ok le L m"
  by (simp add: zero_bits_ok_def load_member_take)

lemma parseListMember_struct_ok:
  assumes "sizeof L \<le> length data" and "sizeof L \<le> unat sz"
    and "is_ok (format (take (sizeof L) data) ws)"
  shows "\<exists>s. parseListMember_struct L format data sz ws =
    Inr \<lparr>str = s, bytes_parsed = of_nat (sizeof L)\<rparr>"
  using assms by (auto simp: parseListMember_struct_def outputs_of_def elim!: is_okE)

lemma parseLISTof_struct_ok:
  assumes member: "\<And>d n x ws'. x \<in> set xs \<Longrightarrow> good d x \<Longrightarrow> sz x \<le> unat n \<Longrightarrow>
      unat (base_tab_ct ws') = Suc (unat (base_tab_ct ws)) \<Longrightarrow>
      \<exists>s. parse d n ws' = Inr \<lparr>str = s, bytes_parsed = of_nat (sz x)\<rparr>"
    and "unat (base_tab_ct ws) \<le> 57"
    and "laid_out good sz data xs" and "sizes sz xs \<le> unat n" and "sizes sz xs < 2 ^ 32"
    and "unat memb_ct = length xs"
  shows "\<exists>s. parseLISTof_struct parse data n memb_ct ws force =
    Inr \<lparr>str = s, bytes_parsed = of_nat (sizes sz xs)\<rparr>"
proof -
  obtain ws' where ws': "nested force ws = Inr ws'" "unat (base_tab_ct ws') = Suc (unat (base_tab_ct ws))"
    using nested_ok [OF assms(2)] by blast
  show ?thesis
    unfolding parseLISTof_struct_def ws'(1) and_then_simps
    using member ws'(2) assms(3-6) by (intro parseLISTof_laid_out [where good = good]) blast+
qed

lemma text_with_size:
  "is_ok r \<Longrightarrow> \<exists>s. map_res (\<lambda>s. \<lparr>str = s, bytes_parsed = k\<rparr>) r = Inr \<lparr>str = s, bytes_parsed = k\<rparr>"
  by (auto elim!: is_okE)

end
