(* ===== verification/EventLayout.thy ===== *)
theory EventLayout
  imports Types Names
begin

text \<open>
  The events on the wire (\<open>protocol/events.hpp\<close>): codes, names, fixed encodings and the
  name tables of their members.
\<close>

definition Event_ENCODING_SZ :: size_t where
  "Event_ENCODING_SZ = 32"

subsection \<open>Codes\<close>

definition KEYPRESS :: nat where
  "KEYPRESS = 2"

definition KEYRELEASE :: nat where
  "KEYRELEASE = 3"

definition BUTTONPRESS :: nat where
  "BUTTONPRESS = 4"

definition BUTTONRELEASE :: nat where
  "BUTTONRELEASE = 5"

definition MOTIONNOTIFY :: nat where
  "MOTIONNOTIFY = 6"

definition ENTERNOTIFY :: nat where
  "ENTERNOTIFY = 7"

definition LEAVENOTIFY :: nat where
  "LEAVENOTIFY = 8"

definition FOCUSIN :: nat where
  "FOCUSIN = 9"

definition FOCUSOUT :: nat where
  "FOCUSOUT = 10"

definition KEYMAPNOTIFY :: nat where
  "KEYMAPNOTIFY = 11"

definition EXPOSE :: nat where
  "EXPOSE = 12"

definition GRAPHICSEXPOSURE :: nat where
  "GRAPHICSEXPOSURE = 13"

definition NOEXPOSURE :: nat where
  "NOEXPOSURE = 14"

definition VISIBILITYNOTIFY :: nat where
  "VISIBILITYNOTIFY = 15"

definition CREATENOTIFY :: nat where
  "CREATENOTIFY = 16"

definition DESTROYNOTIFY :: nat where
  "DESTROYNOTIFY = 17"

definition UNMAPNOTIFY :: nat where
  "UNMAPNOTIFY = 18"

definition MAPNOTIFY :: nat where
  "MAPNOTIFY = 19"

definition MAPREQUEST :: nat where
  "MAPREQUEST = 20"

definition REPARENTNOTIFY :: nat where
  "REPARENTNOTIFY = 21"

definition CONFIGURENOTIFY :: nat where
  "CONFIGURENOTIFY = 22"

definition CONFIGUREREQUEST :: nat where
  "CONFIGUREREQUEST = 23"

definition GRAVITYNOTIFY :: nat where
  "GRAVITYNOTIFY = 24"

definition RESIZEREQUEST :: nat where
  "RESIZEREQUEST = 25"

definition CIRCULATENOTIFY :: nat where
  "CIRCULATENOTIFY = 26"

definition CIRCULATEREQUEST :: nat where
  "CIRCULATEREQUEST = 27"

definition PROPERTYNOTIFY :: nat where
  "PROPERTYNOTIFY = 28"

definition SELECTIONCLEAR :: nat where
  "SELECTIONCLEAR = 29"

definition SELECTIONREQUEST :: nat where
  "SELECTIONREQUEST = 30"

definition SELECTIONNOTIFY :: nat where
  "SELECTIONNOTIFY = 31"

definition COLORMAPNOTIFY :: nat where
  "COLORMAPNOTIFY = 32"

definition CLIENTMESSAGE :: nat where
  "CLIENTMESSAGE = 33"

definition MAPPINGNOTIFY :: nat where
  "MAPPINGNOTIFY = 34"

lemmas event_codes =
  KEYPRESS_def KEYRELEASE_def BUTTONPRESS_def BUTTONRELEASE_def
  MOTIONNOTIFY_def ENTERNOTIFY_def LEAVENOTIFY_def FOCUSIN_def
  FOCUSOUT_def KEYMAPNOTIFY_def EXPOSE_def GRAPHICSEXPOSURE_def
  NOEXPOSURE_def VISIBILITYNOTIFY_def CREATENOTIFY_def DESTROYNOTIFY_def
  UNMAPNOTIFY_def MAPNOTIFY_def MAPREQUEST_def REPARENTNOTIFY_def
  CONFIGURENOTIFY_def CONFIGUREREQUEST_def GRAVITYNOTIFY_def RESIZEREQUEST_def
  CIRCULATENOTIFY_def CIRCULATEREQUEST_def PROPERTYNOTIFY_def SELECTIONCLEAR_def
  SELECTIONREQUEST_def SELECTIONNOTIFY_def COLORMAPNOTIFY_def CLIENTMESSAGE_def
  MAPPINGNOTIFY_def

subsection \<open>Encodings\<close>

definition InputEvent_Header :: layout where
  "InputEvent_Header =
     [(''code'', CARD8), (''detail'', KEYCODE), (''sequence_num'', CARD16)]"

definition InputEvent_Encoding :: layout where
  "InputEvent_Encoding =
     embed ''header'' InputEvent_Header @
     [(''time'', TIMESTAMP), (''root'', WINDOW), (''event'', WINDOW), (''child'', WINDOW),
      (''root_x'', INT16), (''root_y'', INT16), (''event_x'', INT16), (''event_y'', INT16),
      (''state'', SETofKEYBUTMASK), (''same_screen'', BOOL), (''_unused'', CARD8)]"

definition InputEvent_child_names :: "string list" where
  "InputEvent_child_names = enum_names_zero_none"

definition MotionNotify_Header :: layout where
  "MotionNotify_Header =
     [(''code'', CARD8), (''detail'', CARD8), (''sequence_num'', CARD16)]"

definition MotionNotify_Encoding :: layout where
  "MotionNotify_Encoding =
     embed ''header'' MotionNotify_Header @
     [(''time'', TIMESTAMP), (''root'', WINDOW), (''event'', WINDOW), (''child'', WINDOW),
      (''root_x'', INT16), (''root_y'', INT16), (''event_x'', INT16), (''event_y'', INT16),
      (''state'', SETofKEYBUTMASK), (''same_screen'', BOOL), (''_unused'', CARD8)]"

definition MotionNotify_detail_names :: "string list" where
  "MotionNotify_detail_names =
     [''Normal'', ''Hint'']"

definition MotionNotify_child_names :: "string list" where
  "MotionNotify_child_names = enum_names_zero_none"

definition BoundaryEvent_Header :: layout where
  "BoundaryEvent_Header =
     [(''code'', CARD8), (''detail'', CARD8), (''sequence_num'', CARD16)]"

definition BoundaryEvent_Encoding :: layout where
  "BoundaryEvent_Encoding =
     embed ''header'' BoundaryEvent_Header @
     [(''time'', TIMESTAMP), (''root'', WINDOW), (''event'', WINDOW), (''child'', WINDOW),
      (''root_x'', INT16), (''root_y'', INT16), (''event_x'', INT16), (''event_y'', INT16),
      (''state'', SETofKEYBUTMASK), (''mode'', CARD8), (''focus_same_screen_mask'', CARD8)]"

definition BoundaryEvent_detail_names :: "string list" where
  "BoundaryEvent_detail_names = enum_names_focus_detail"

definition BoundaryEvent_DETAIL_ENUM_MAX :: nat where
  "BoundaryEvent_DETAIL_ENUM_MAX = 4"

definition BoundaryEvent_child_names :: "string list" where
  "BoundaryEvent_child_names = enum_names_zero_none"

definition BoundaryEvent_mode_names :: "string list" where
  "BoundaryEvent_mode_names = enum_names_focus_mode"

definition BoundaryEvent_MODE_ENUM_MAX :: nat where
  "BoundaryEvent_MODE_ENUM_MAX = 2"

definition BoundaryEvent_focus_same_screen_names :: "string list" where
  "BoundaryEvent_focus_same_screen_names = enum_names_focus_same_screen_mask"

definition FocusEvent_Header :: layout where
  "FocusEvent_Header =
     [(''code'', CARD8), (''detail'', CARD8), (''sequence_num'', CARD16)]"

definition FocusEvent_Encoding :: layout where
  "FocusEvent_Encoding =
     embed ''header'' FocusEvent_Header @
     [(''event'', WINDOW), (''mode'', CARD8), (''_unused'', Bytes 23)]"

definition FocusEvent_detail_names :: "string list" where
  "FocusEvent_detail_names = enum_names_focus_detail"

definition FocusEvent_mode_names :: "string list" where
  "FocusEvent_mode_names = enum_names_focus_mode"

definition KeymapNotify_Header :: layout where
  "KeymapNotify_Header =
     [(''code'', CARD8)]"

definition KeymapNotify_Encoding :: layout where
  "KeymapNotify_Encoding =
     embed ''header'' KeymapNotify_Header @
     [(''keys'', Bytes 31)]"

definition Event_Header :: layout where
  "Event_Header =
     [(''code'', CARD8), (''_unused'', CARD8), (''sequence_num'', CARD16)]"

definition Expose_Encoding :: layout where
  "Expose_Encoding =
     embed ''header'' Event_Header @
     [(''window'', WINDOW), (''x'', CARD16), (''y'', CARD16), (''width'', CARD16),
      (''height'', CARD16), (''count'', CARD16), (''_unused'', Bytes 14)]"

definition GraphicsExposure_Encoding :: layout where
  "GraphicsExposure_Encoding =
     embed ''header'' Event_Header @
     [(''drawable'', DRAWABLE), (''x'', CARD16), (''y'', CARD16), (''width'', CARD16),
      (''height'', CARD16), (''minor_opcode'', CARD16), (''count'', CARD16),
      (''major_opcode'', CARD8), (''_unused'', Bytes 11)]"

definition NoExposure_Encoding :: layout where
  "NoExposure_Encoding =
     embed ''header'' Event_Header @
     [(''drawable'', DRAWABLE), (''minor_opcode'', CARD16), (''major_opcode'', CARD8),
      (''_unused'', Bytes 21)]"

definition VisibilityNotify_Encoding :: layout where
  "VisibilityNotify_Encoding =
     embed ''header'' Event_Header @
     [(''window'', WINDOW), (''state'', CARD8), (''_unused'', Bytes 23)]"

definition VisibilityNotify_state_names :: "string list" where
  "VisibilityNotify_state_names =
     [''Unobscured'', ''PartiallyObscured'', ''FullyObscured'']"

definition CreateNotify_Encoding :: layout where
  "CreateNotify_Encoding =
     embed ''header'' Event_Header @
     [(''parent'', WINDOW), (''window'', WINDOW), (''x'', INT16), (''y'', INT16),
      (''width'', CARD16), (''height'', CARD16), (''border_width'', CARD16),
      (''override_redirect'', BOOL), (''_unused'', Bytes 9)]"

definition DestroyNotify_Encoding :: layout where
  "DestroyNotify_Encoding =
     embed ''header'' Event_Header @
     [(''event'', WINDOW), (''window'', WINDOW), (''_unused'', Bytes 20)]"

definition UnmapNotify_Encoding :: layout where
  "UnmapNotify_Encoding =
     embed ''header'' Event_Header @
     [(''event'', WINDOW), (''window'', WINDOW), (''from_configure'', BOOL),
      (''_unused'', Bytes 19)]"

definition MapNotify_Encoding :: layout where
  "MapNotify_Encoding =
     embed ''header'' Event_Header @
     [(''event'', WINDOW), (''window'', WINDOW), (''override_redirect'', BOOL),
      (''_unused'', Bytes 19)]"

definition MapRequest_Encoding :: layout where
  "MapRequest_Encoding =
     embed ''header'' Event_Header @
     [(''parent'', WINDOW), (''window'', WINDOW), (''_unused'', Bytes 20)]"

definition ReparentNotify_Encoding :: layout where
  "ReparentNotify_Encoding =
     embed ''header'' Event_Header @
     [(''event'', WINDOW), (''window'', WINDOW), (''parent'', WINDOW), (''x'', INT16),
      (''y'', INT16), (''override_redirect'', BOOL), (''_unused'', Bytes 11)]"

definition ConfigureNotify_Encoding :: layout where
  "ConfigureNotify_Encoding =
     embed ''header'' Event_Header @
     [(''event'', WINDOW), (''window'', WINDOW), (''above_sibling'', WINDOW), (''x'', INT16),
      (''y'', INT16), (''width'', CARD16), (''height'', CARD16), (''border_width'', CARD16),
      (''override_redirect'', BOOL), (''_unused'', Bytes 5)]"

definition ConfigureNotify_above_sibling_names :: "string list" where
  "ConfigureNotify_above_sibling_names = enum_names_zero_none"

definition ConfigureRequest_Header :: layout where
  "ConfigureRequest_Header =
     [(''code'', CARD8), (''stack_mode'', CARD8), (''sequence_num'', CARD16)]"

definition ConfigureRequest_Encoding :: layout where
  "ConfigureRequest_Encoding =
     embed ''header'' ConfigureRequest_Header @
     [(''parent'', WINDOW), (''window'', WINDOW), (''sibling'', WINDOW), (''x'', INT16),
      (''y'', INT16), (''width'', CARD16), (''height'', CARD16), (''border_width'', CARD16),
      (''value_mask'', CARD16), (''_unused'', Bytes 4)]"

definition ConfigureRequest_stack_mode_names :: "string list" where
  "ConfigureRequest_stack_mode_names = enum_names_window_value_stack_mode"

definition ConfigureRequest_sibling_names :: "string list" where
  "ConfigureRequest_sibling_names = enum_names_zero_none"

definition ConfigureRequest_value_names :: "string list" where
  "ConfigureRequest_value_names = enum_names_window_value_mask"

definition GravityNotify_Encoding :: layout where
  "GravityNotify_Encoding =
     embed ''header'' Event_Header @
     [(''event'', WINDOW), (''window'', WINDOW), (''x'', INT16), (''y'', INT16),
      (''_unused'', Bytes 16)]"

definition ResizeRequest_Encoding :: layout where
  "ResizeRequest_Encoding =
     embed ''header'' Event_Header @
     [(''window'', WINDOW), (''width'', CARD16), (''height'', CARD16), (''_unused'', Bytes 20)]"

definition CirculateNotify_Encoding :: layout where
  "CirculateNotify_Encoding =
     embed ''header'' Event_Header @
     [(''event'', WINDOW), (''window'', WINDOW), (''_unused1'', WINDOW), (''place'', CARD8),
      (''_unused2'', Bytes 15)]"

definition CirculateNotify_place_names :: "string list" where
  "CirculateNotify_place_names = enum_names_circulate_place"

definition CirculateRequest_Encoding :: layout where
  "CirculateRequest_Encoding =
     embed ''header'' Event_Header @
     [(''parent'', WINDOW), (''window'', WINDOW), (''_unused1'', CARD32), (''place'', CARD8),
      (''_unused2'', Bytes 15)]"

definition CirculateRequest_place_names :: "string list" where
  "CirculateRequest_place_names = enum_names_circulate_place"

definition PropertyNotify_Encoding :: layout where
  "PropertyNotify_Encoding =
     embed ''header'' Event_Header @
     [(''window'', WINDOW), (''atom'', ATOM), (''time'', TIMESTAMP), (''state'', CARD8),
      (''_unused'', Bytes 15)]"

definition PropertyNotify_state_names :: "string list" where
  "PropertyNotify_state_names =
     [''NewValue'', ''Deleted'']"

definition SelectionClear_Encoding :: layout where
  "SelectionClear_Encoding =
     embed ''header'' Event_Header @
     [(''time'', TIMESTAMP), (''owner'', WINDOW), (''selection'', ATOM),
      (''_unused'', Bytes 16)]"

definition SelectionRequest_Encoding :: layout where
  "SelectionRequest_Encoding =
     embed ''header'' Event_Header @
     [(''time'', TIMESTAMP), (''owner'', WINDOW), (''requestor'', WINDOW),
      (''selection'', ATOM), (''target'', ATOM), (''property'', ATOM), (''_unused'', Bytes 4)]"

definition SelectionRequest_time_names :: "string list" where
  "SelectionRequest_time_names = enum_names_time"

definition SelectionRequest_property_names :: "string list" where
  "SelectionRequest_property_names = enum_names_zero_none"

definition SelectionNotify_Encoding :: layout where
  "SelectionNotify_Encoding =
     embed ''header'' Event_Header @
     [(''time'', TIMESTAMP), (''requestor'', WINDOW), (''selection'', ATOM),
      (''target'', ATOM), (''property'', ATOM), (''_unused'', Bytes 8)]"

definition SelectionNotify_time_names :: "string list" where
  "SelectionNotify_time_names = enum_names_time"

definition SelectionNotify_property_names :: "string list" where
  "SelectionNotify_property_names = enum_names_zero_none"

definition ColormapNotify_Encoding :: layout where
  "ColormapNotify_Encoding =
     embed ''header'' Event_Header @
     [(''window'', WINDOW), (''colormap'', COLORMAP), (''new_'', BOOL), (''state'', CARD8),
      (''_unused'', Bytes 18)]"

definition ColormapNotify_colormap_names :: "string list" where
  "ColormapNotify_colormap_names = enum_names_zero_none"

definition ColormapNotify_state_names :: "string list" where
  "ColormapNotify_state_names =
     [''Uninstalled'', ''Installed'']"

definition ClientMessage_Header :: layout where
  "ClientMessage_Header =
     [(''code'', CARD8), (''format'', CARD8), (''sequence_num'', CARD16)]"

definition ClientMessage_Encoding :: layout where
  "ClientMessage_Encoding =
     embed ''header'' ClientMessage_Header @
     [(''window'', WINDOW), (''type'', ATOM), (''data'', Bytes 20)]"

definition MappingNotify_Encoding :: layout where
  "MappingNotify_Encoding =
     embed ''header'' Event_Header @
     [(''request'', CARD8), (''first_keycode'', KEYCODE), (''count'', CARD8),
      (''_unused'', Bytes 25)]"

definition MappingNotify_request_names :: "string list" where
  "MappingNotify_request_names =
     [''Modifier'', ''Keyboard'', ''Pointer'']"

definition event_names :: "string list" where
  "event_names =
     ['''', '''', ''KeyPress'', ''KeyRelease'', ''ButtonPress'', ''ButtonRelease'',
      ''MotionNotify'', ''EnterNotify'', ''LeaveNotify'', ''FocusIn'', ''FocusOut'',
      ''KeymapNotify'', ''Expose'', ''GraphicsExposure'', ''NoExposure'', ''VisibilityNotify'',
      ''CreateNotify'', ''DestroyNotify'', ''UnmapNotify'', ''MapNotify'', ''MapRequest'',
      ''ReparentNotify'', ''ConfigureNotify'', ''ConfigureRequest'', ''GravityNotify'',
      ''ResizeRequest'', ''CirculateNotify'', ''CirculateRequest'', ''PropertyNotify'',
      ''SelectionClear'', ''SelectionRequest'', ''SelectionNotify'', ''ColormapNotify'',
      ''ClientMessage'', ''MappingNotify'']"

lemmas event_layouts =
  InputEvent_Header_def InputEvent_Encoding_def MotionNotify_Header_def
  MotionNotify_Encoding_def BoundaryEvent_Header_def BoundaryEvent_Encoding_def
  FocusEvent_Header_def FocusEvent_Encoding_def KeymapNotify_Header_def
  KeymapNotify_Encoding_def Event_Header_def Expose_Encoding_def GraphicsExposure_Encoding_def
  NoExposure_Encoding_def VisibilityNotify_Encoding_def CreateNotify_Encoding_def
  DestroyNotify_Encoding_def UnmapNotify_Encoding_def MapNotify_Encoding_def
  MapRequest_Encoding_def ReparentNotify_Encoding_def ConfigureNotify_Encoding_def
  ConfigureRequest_Header_def ConfigureRequest_Encoding_def GravityNotify_Encoding_def
  ResizeRequest_Encoding_def CirculateNotify_Encoding_def CirculateRequest_Encoding_def
  PropertyNotify_Encoding_def SelectionClear_Encoding_def SelectionRequest_Encoding_def
  SelectionNotify_Encoding_def ColormapNotify_Encoding_def ClientMessage_Header_def
  ClientMessage_Encoding_def MappingNotify_Encoding_def

lemmas event_tables =
  InputEvent_child_names_def MotionNotify_detail_names_def MotionNotify_child_names_def
  BoundaryEvent_detail_names_def BoundaryEvent_DETAIL_ENUM_MAX_def
  BoundaryEvent_child_names_def BoundaryEvent_mode_names_def BoundaryEvent_MODE_ENUM_MAX_def
  BoundaryEvent_focus_same_screen_names_def FocusEvent_detail_names_def
  FocusEvent_mode_names_def VisibilityNotify_state_names_def
  ConfigureNotify_above_sibling_names_def ConfigureRequest_stack_mode_names_def
  ConfigureRequest_sibling_names_def ConfigureRequest_value_names_def
  CirculateNotify_place_names_def CirculateRequest_place_names_def
  PropertyNotify_state_names_def SelectionRequest_time_names_def
  SelectionRequest_property_names_def SelectionNotify_time_names_def
  SelectionNotify_property_names_def ColormapNotify_colormap_names_def
  ColormapNotify_state_names_def MappingNotify_request_names_def

end
