(* ===== verification/EventCodec.thy ===== *)
theory EventCodec
  imports ListFormat EventLayout
begin

text \<open>
  The event parsers (\<open>X11ProtocolParser__parseEvent.cpp\<close>): one definition per function
  template instance, in the order of the file; the dispatch over the code is in
  \<open>Dispatch\<close>. An event parser reads the fixed encoding of 32 bytes at \<open>data\<close>, of which
  \<open>sz\<close> bytes are said to be readable, and prints the members.
\<close>

type_synonym event_parser =
  "parser \<Rightarrow> connection \<Rightarrow> byte list \<Rightarrow> size_t \<Rightarrow> whitespace \<Rightarrow> parsing_outputs res"

definition EVENT_CODE_MASK :: nat where
  "EVENT_CODE_MASK = 0x7F"

definition GENERATED_EVENT_FLAG :: nat where
  "GENERATED_EVENT_FLAG = 0x80"

definition parseEvent_InputEvent :: event_parser where
  "parseEvent_InputEvent P conn data sz ws =
     (let bsw = byteswap conn; enc = member P bsw InputEvent_Encoding data in
      require (sz \<ge> Event_ENCODING_SZ) (
      require (sizeof InputEvent_Encoding = unat Event_ENCODING_SZ) (
      outputs_of InputEvent_Encoding (braces P ws
        (name_width ws (if verbose (settings P) then ''(sequence number)'' else ''same-screen''))
          [verbose_only ''code'' (enc ''header.code'' no_names NOT_BITMASK),
           always ''detail'' (enc ''header.detail'' no_names NOT_BITMASK),
           verbose_only ''(sequence number)'' (enc ''header.sequence_num'' no_names NOT_BITMASK),
           always ''time'' (enc ''time'' no_names NOT_BITMASK),
           always ''root'' (enc ''root'' no_names NOT_BITMASK),
           always ''event'' (enc ''event'' no_names NOT_BITMASK),
           always ''child'' (enc ''child'' (range_all InputEvent_child_names) NOT_BITMASK),
           always ''root-x'' (enc ''root_x'' no_names NOT_BITMASK),
           always ''root-y'' (enc ''root_y'' no_names NOT_BITMASK),
           always ''event-x'' (enc ''event_x'' no_names NOT_BITMASK),
           always ''event-y'' (enc ''event_y'' no_names NOT_BITMASK),
           always ''state'' (enc ''state'' no_names NOT_BITMASK),
           always ''same-screen'' (enc ''same_screen'' no_names NOT_BITMASK)]))))"

definition parseEvent_KeyPress :: event_parser where
  "parseEvent_KeyPress P conn data sz ws =
     require (unat sz \<ge> sizeof InputEvent_Header) (
     and_then (ordered_member P (byteswap conn) InputEvent_Header data ''code'') (\<lambda>code.
     require (code AND EVENT_CODE_MASK = KEYPRESS) (
     parseEvent_InputEvent P conn data sz ws)))"

definition parseEvent_KeyRelease :: event_parser where
  "parseEvent_KeyRelease P conn data sz ws =
     require (unat sz \<ge> sizeof InputEvent_Header) (
     and_then (ordered_member P (byteswap conn) InputEvent_Header data ''code'') (\<lambda>code.
     require (code AND EVENT_CODE_MASK = KEYRELEASE) (
     parseEvent_InputEvent P conn data sz ws)))"

definition parseEvent_ButtonPress :: event_parser where
  "parseEvent_ButtonPress P conn data sz ws =
     require (unat sz \<ge> sizeof InputEvent_Header) (
     and_then (ordered_member P (byteswap conn) InputEvent_Header data ''code'') (\<lambda>code.
     require (code AND EVENT_CODE_MASK = BUTTONPRESS) (
     parseEvent_InputEvent P conn data sz ws)))"

definition parseEvent_ButtonRelease :: event_parser where
  "parseEvent_ButtonRelease P conn data sz ws =
     require (unat sz \<ge> sizeof InputEvent_Header) (
     and_then (ordered_member P (byteswap conn) InputEvent_Header data ''code'') (\<lambda>code.
     require (code AND EVENT_CODE_MASK = BUTTONRELEASE) (
     parseEvent_InputEvent P conn data sz ws)))"

definition parseEvent_MotionNotify :: event_parser where
  "parseEvent_MotionNotify P conn data sz ws =
     (let bsw = byteswap conn; enc = member P bsw MotionNotify_Encoding data in
      require (sz \<ge> Event_ENCODING_SZ) (
      and_then (ordered_member P bsw MotionNotify_Encoding data ''header.code'') (\<lambda>code.
      require (code AND EVENT_CODE_MASK = MOTIONNOTIFY) (
      require (sizeof MotionNotify_Encoding = unat Event_ENCODING_SZ) (
      outputs_of MotionNotify_Encoding (braces P ws
        (name_width ws (if verbose (settings P) then ''(sequence number)'' else ''same-screen''))
          [verbose_only ''code'' (enc ''header.code'' no_names NOT_BITMASK),
           always ''detail'' (enc ''header.detail'' (range_all MotionNotify_detail_names) NOT_BITMASK),
           verbose_only ''(sequence number)'' (enc ''header.sequence_num'' no_names NOT_BITMASK),
           always ''time'' (enc ''time'' no_names NOT_BITMASK),
           always ''root'' (enc ''root'' no_names NOT_BITMASK),
           always ''event'' (enc ''event'' no_names NOT_BITMASK),
           always ''child'' (enc ''child'' (range_all MotionNotify_child_names) NOT_BITMASK),
           always ''root-x'' (enc ''root_x'' no_names NOT_BITMASK),
           always ''root-y'' (enc ''root_y'' no_names NOT_BITMASK),
           always ''event-x'' (enc ''event_x'' no_names NOT_BITMASK),
           always ''event-y'' (enc ''event_y'' no_names NOT_BITMASK),
           always ''state'' (enc ''state'' no_names NOT_BITMASK),
           always ''same-screen'' (enc ''same_screen'' no_names NOT_BITMASK)]))))))"

definition parseEvent_BoundaryEvent :: event_parser where
  "parseEvent_BoundaryEvent P conn data sz ws =
     (let bsw = byteswap conn; enc = member P bsw BoundaryEvent_Encoding data in
      require (sz \<ge> Event_ENCODING_SZ) (
      require (sizeof BoundaryEvent_Encoding = unat Event_ENCODING_SZ) (
      outputs_of BoundaryEvent_Encoding (braces P ws
        (name_width ws ''(same-screen/focus mask)'')
          [verbose_only ''code'' (enc ''header.code'' no_names NOT_BITMASK),
           always ''detail'' (enc ''header.detail'' (range_bound BoundaryEvent_detail_names Bound_MAX BoundaryEvent_DETAIL_ENUM_MAX) NOT_BITMASK),
           verbose_only ''(sequence number)'' (enc ''header.sequence_num'' no_names NOT_BITMASK),
           always ''time'' (enc ''time'' no_names NOT_BITMASK),
           always ''root'' (enc ''root'' no_names NOT_BITMASK),
           always ''event'' (enc ''event'' no_names NOT_BITMASK),
           always ''child'' (enc ''child'' (range_all BoundaryEvent_child_names) NOT_BITMASK),
           always ''root-x'' (enc ''root_x'' no_names NOT_BITMASK),
           always ''root-y'' (enc ''root_y'' no_names NOT_BITMASK),
           always ''event-x'' (enc ''event_x'' no_names NOT_BITMASK),
           always ''event-y'' (enc ''event_y'' no_names NOT_BITMASK),
           always ''state'' (enc ''state'' no_names NOT_BITMASK),
           always ''mode'' (enc ''mode'' (range_bound BoundaryEvent_mode_names Bound_MAX BoundaryEvent_MODE_ENUM_MAX) NOT_BITMASK),
           always ''(same-screen/focus mask)'' (enc ''focus_same_screen_mask'' (range_all BoundaryEvent_focus_same_screen_names) BITMASK)]))))"

definition parseEvent_EnterNotify :: event_parser where
  "parseEvent_EnterNotify P conn data sz ws =
     require (unat sz \<ge> sizeof BoundaryEvent_Header) (
     and_then (ordered_member P (byteswap conn) BoundaryEvent_Header data ''code'') (\<lambda>code.
     require (code AND EVENT_CODE_MASK = ENTERNOTIFY) (
     parseEvent_BoundaryEvent P conn data sz ws)))"

definition parseEvent_LeaveNotify :: event_parser where
  "parseEvent_LeaveNotify P conn data sz ws =
     require (unat sz \<ge> sizeof BoundaryEvent_Header) (
     and_then (ordered_member P (byteswap conn) BoundaryEvent_Header data ''code'') (\<lambda>code.
     require (code AND EVENT_CODE_MASK = LEAVENOTIFY) (
     parseEvent_BoundaryEvent P conn data sz ws)))"

definition parseEvent_FocusEvent :: event_parser where
  "parseEvent_FocusEvent P conn data sz ws =
     (let bsw = byteswap conn; enc = member P bsw FocusEvent_Encoding data in
      require (sz \<ge> Event_ENCODING_SZ) (
      require (sizeof FocusEvent_Encoding = unat Event_ENCODING_SZ) (
      outputs_of FocusEvent_Encoding (braces P ws
        (name_width ws (if verbose (settings P) then ''(sequence number)'' else ''detail''))
          [verbose_only ''code'' (enc ''header.code'' no_names NOT_BITMASK),
           always ''detail'' (enc ''header.detail'' (range_all FocusEvent_detail_names) NOT_BITMASK),
           verbose_only ''(sequence number)'' (enc ''header.sequence_num'' no_names NOT_BITMASK),
           always ''event'' (enc ''event'' no_names NOT_BITMASK),
           always ''mode'' (enc ''mode'' (range_all FocusEvent_mode_names) NOT_BITMASK)]))))"

definition parseEvent_FocusIn :: event_parser where
  "parseEvent_FocusIn P conn data sz ws =
     require (unat sz \<ge> sizeof FocusEvent_Header) (
     and_then (ordered_member P (byteswap conn) FocusEvent_Header data ''code'') (\<lambda>code.
     require (code AND EVENT_CODE_MASK = FOCUSIN) (
     parseEvent_FocusEvent P conn data sz ws)))"

definition parseEvent_FocusOut :: event_parser where
  "parseEvent_FocusOut P conn data sz ws =
     require (unat sz \<ge> sizeof FocusEvent_Header) (
     and_then (ordered_member P (byteswap conn) FocusEvent_Header data ''code'') (\<lambda>code.
     require (code AND EVENT_CODE_MASK = FOCUSOUT) (
     parseEvent_FocusEvent P conn data sz ws)))"

definition parseEvent_KeymapNotify :: event_parser where
  "parseEvent_KeymapNotify P conn data sz ws =
     (let bsw = byteswap conn; enc = member P bsw KeymapNotify_Encoding data in
      require (sz \<ge> Event_ENCODING_SZ) (
      and_then (ordered_member P bsw KeymapNotify_Encoding data ''header.code'') (\<lambda>code.
      require (code AND EVENT_CODE_MASK = KEYMAPNOTIFY) (
      require (sizeof KeymapNotify_Encoding = unat Event_ENCODING_SZ) (
      and_then (nested FORCE_SINGLELINE ws) (\<lambda>keys_ws.
      and_then (read_bytes data 1 31) (\<lambda>encoding_keys.
      and_then (parseLISTof_int P CARD8 encoding_keys 31 31 bsw keys_ws no_names NOT_BITMASK) (\<lambda>keys.
      outputs_of KeymapNotify_Encoding (braces P ws
        (name_width ws ''keys (0-7 omitted)'')
          [verbose_only ''code'' (enc ''header.code'' no_names NOT_BITMASK),
           always ''keys (0-7 omitted)'' (Inr (str keys))])))))))))"

definition parseEvent_Expose :: event_parser where
  "parseEvent_Expose P conn data sz ws =
     (let bsw = byteswap conn; enc = member P bsw Expose_Encoding data in
      require (sz \<ge> Event_ENCODING_SZ) (
      and_then (ordered_member P bsw Expose_Encoding data ''header.code'') (\<lambda>code.
      require (code AND EVENT_CODE_MASK = EXPOSE) (
      require (sizeof Expose_Encoding = unat Event_ENCODING_SZ) (
      outputs_of Expose_Encoding (braces P ws
        (name_width ws (if verbose (settings P) then ''(sequence number)'' else ''window''))
          [verbose_only ''code'' (enc ''header.code'' no_names NOT_BITMASK),
           verbose_only ''(sequence number)'' (enc ''header.sequence_num'' no_names NOT_BITMASK),
           always ''window'' (enc ''window'' no_names NOT_BITMASK),
           always ''x'' (enc ''x'' no_names NOT_BITMASK),
           always ''y'' (enc ''y'' no_names NOT_BITMASK),
           always ''width'' (enc ''width'' no_names NOT_BITMASK),
           always ''height'' (enc ''height'' no_names NOT_BITMASK),
           always ''count'' (enc ''count'' no_names NOT_BITMASK)]))))))"

definition parseEvent_GraphicsExposure :: event_parser where
  "parseEvent_GraphicsExposure P conn data sz ws =
     (let bsw = byteswap conn; enc = member P bsw GraphicsExposure_Encoding data in
      require (sz \<ge> Event_ENCODING_SZ) (
      and_then (ordered_member P bsw GraphicsExposure_Encoding data ''header.code'') (\<lambda>code.
      require (code AND EVENT_CODE_MASK = GRAPHICSEXPOSURE) (
      require (sizeof GraphicsExposure_Encoding = unat Event_ENCODING_SZ) (
      outputs_of GraphicsExposure_Encoding (braces P ws
        (name_width ws (if verbose (settings P) then ''(sequence number)'' else ''minor-opcode''))
          [verbose_only ''code'' (enc ''header.code'' no_names NOT_BITMASK),
           verbose_only ''(sequence number)'' (enc ''header.sequence_num'' no_names NOT_BITMASK),
           always ''drawable'' (enc ''drawable'' no_names NOT_BITMASK),
           always ''x'' (enc ''x'' no_names NOT_BITMASK),
           always ''y'' (enc ''y'' no_names NOT_BITMASK),
           always ''width'' (enc ''width'' no_names NOT_BITMASK),
           always ''height'' (enc ''height'' no_names NOT_BITMASK),
           always ''minor-opcode'' (enc ''minor_opcode'' no_names NOT_BITMASK),
           always ''count'' (enc ''count'' no_names NOT_BITMASK),
           always ''major-opcode'' (enc ''major_opcode'' no_names NOT_BITMASK)]))))))"

definition parseEvent_NoExposure :: event_parser where
  "parseEvent_NoExposure P conn data sz ws =
     (let bsw = byteswap conn; enc = member P bsw NoExposure_Encoding data in
      require (sz \<ge> Event_ENCODING_SZ) (
      and_then (ordered_member P bsw NoExposure_Encoding data ''header.code'') (\<lambda>code.
      require (code AND EVENT_CODE_MASK = NOEXPOSURE) (
      require (sizeof NoExposure_Encoding = unat Event_ENCODING_SZ) (
      outputs_of NoExposure_Encoding (braces P ws
        (name_width ws (if verbose (settings P) then ''(sequence number)'' else ''minor-opcode''))
          [verbose_only ''code'' (enc ''header.code'' no_names NOT_BITMASK),
           verbose_only ''(sequence number)'' (enc ''header.sequence_num'' no_names NOT_BITMASK),
           always ''drawable'' (enc ''drawable'' no_names NOT_BITMASK),
           always ''minor-opcode'' (enc ''minor_opcode'' no_names NOT_BITMASK),
           always ''major-opcode'' (enc ''major_opcode'' no_names NOT_BITMASK)]))))))"

definition parseEvent_VisibilityNotify :: event_parser where
  "parseEvent_VisibilityNotify P conn data sz ws =
     (let bsw = byteswap conn; enc = member P bsw VisibilityNotify_Encoding data in
      require (sz \<ge> Event_ENCODING_SZ) (
      and_then (ordered_member P bsw VisibilityNotify_Encoding data ''header.code'') (\<lambda>code.
      require (code AND EVENT_CODE_MASK = VISIBILITYNOTIFY) (
      require (sizeof VisibilityNotify_Encoding = unat Event_ENCODING_SZ) (
      outputs_of VisibilityNotify_Encoding (braces P ws
        (name_width ws (if verbose (settings P) then ''(sequence number)'' else ''window''))
          [verbose_only ''code'' (enc ''header.code'' no_names NOT_BITMASK),
           verbose_only ''(sequence number)'' (enc ''header.sequence_num'' no_names NOT_BITMASK),
           always ''window'' (enc ''window'' no_names NOT_BITMASK),
           always ''state'' (enc ''state'' (range_all VisibilityNotify_state_names) NOT_BITMASK)]))))))"

definition parseEvent_CreateNotify :: event_parser where
  "parseEvent_CreateNotify P conn data sz ws =
     (let bsw = byteswap conn; enc = member P bsw CreateNotify_Encoding data in
      require (sz \<ge> Event_ENCODING_SZ) (
      and_then (ordered_member P bsw CreateNotify_Encoding data ''header.code'') (\<lambda>code.
      require (code AND EVENT_CODE_MASK = CREATENOTIFY) (
      require (sizeof CreateNotify_Encoding = unat Event_ENCODING_SZ) (
      outputs_of CreateNotify_Encoding (braces P ws
        (name_width ws (if verbose (settings P) then ''(sequence number)'' else ''override-redirect''))
          [verbose_only ''code'' (enc ''header.code'' no_names NOT_BITMASK),
           verbose_only ''(sequence number)'' (enc ''header.sequence_num'' no_names NOT_BITMASK),
           always ''parent'' (enc ''parent'' no_names NOT_BITMASK),
           always ''window'' (enc ''window'' no_names NOT_BITMASK),
           always ''x'' (enc ''x'' no_names NOT_BITMASK),
           always ''y'' (enc ''y'' no_names NOT_BITMASK),
           always ''width'' (enc ''width'' no_names NOT_BITMASK),
           always ''height'' (enc ''height'' no_names NOT_BITMASK),
           always ''border-width'' (enc ''border_width'' no_names NOT_BITMASK),
           always ''override-redirect'' (enc ''override_redirect'' no_names NOT_BITMASK)]))))))"

definition parseEvent_DestroyNotify :: event_parser where
  "parseEvent_DestroyNotify P conn data sz ws =
     (let bsw = byteswap conn; enc = member P bsw DestroyNotify_Encoding data in
      require (sz \<ge> Event_ENCODING_SZ) (
      and_then (ordered_member P bsw DestroyNotify_Encoding data ''header.code'') (\<lambda>code.
      require (code AND EVENT_CODE_MASK = DESTROYNOTIFY) (
      require (sizeof DestroyNotify_Encoding = unat Event_ENCODING_SZ) (
      outputs_of DestroyNotify_Encoding (braces P ws
        (name_width ws (if verbose (settings P) then ''(sequence number)'' else ''window''))
          [verbose_only ''code'' (enc ''header.code'' no_names NOT_BITMASK),
           verbose_only ''(sequence number)'' (enc ''header.sequence_num'' no_names NOT_BITMASK),
           always ''event'' (enc ''event'' no_names NOT_BITMASK),
           always ''window'' (enc ''window'' no_names NOT_BITMASK)]))))))"

definition parseEvent_UnmapNotify :: event_parser where
  "parseEvent_UnmapNotify P conn data sz ws =
     (let bsw = byteswap conn; enc = member P bsw UnmapNotify_Encoding data in
      require (sz \<ge> Event_ENCODING_SZ) (
      and_then (ordered_member P bsw UnmapNotify_Encoding data ''header.code'') (\<lambda>code.
      require (code AND EVENT_CODE_MASK = UNMAPNOTIFY) (
      require (sizeof UnmapNotify_Encoding = unat Event_ENCODING_SZ) (
      outputs_of UnmapNotify_Encoding (braces P ws
        (name_width ws (if verbose (settings P) then ''(sequence number)'' else ''from-configure''))
          [verbose_only ''code'' (enc ''header.code'' no_names NOT_BITMASK),
           verbose_only ''(sequence number)'' (enc ''header.sequence_num'' no_names NOT_BITMASK),
           always ''event'' (enc ''event'' no_names NOT_BITMASK),
           always ''window'' (enc ''window'' no_names NOT_BITMASK),
           always ''from-configure'' (enc ''from_configure'' no_names NOT_BITMASK)]))))))"

definition parseEvent_MapNotify :: event_parser where
  "parseEvent_MapNotify P conn data sz ws =
     (let bsw = byteswap conn; enc = member P bsw MapNotify_Encoding data in
      require (sz \<ge> Event_ENCODING_SZ) (
      and_then (ordered_member P bsw MapNotify_Encoding data ''header.code'') (\<lambda>code.
      require (code AND EVENT_CODE_MASK = MAPNOTIFY) (
      require (sizeof MapNotify_Encoding = unat Event_ENCODING_SZ) (
      outputs_of MapNotify_Encoding (braces P ws
        (name_width ws (if verbose (settings P) then ''(sequence number)'' else ''override-redirect''))
          [verbose_only ''code'' (enc ''header.code'' no_names NOT_BITMASK),
           verbose_only ''(sequence number)'' (enc ''header.sequence_num'' no_names NOT_BITMASK),
           always ''event'' (enc ''event'' no_names NOT_BITMASK),
           always ''window'' (enc ''window'' no_names NOT_BITMASK),
           always ''override-redirect'' (enc ''override_redirect'' no_names NOT_BITMASK)]))))))"

definition parseEvent_MapRequest :: event_parser where
  "parseEvent_MapRequest P conn data sz ws =
     (let bsw = byteswap conn; enc = member P bsw MapRequest_Encoding data in
      require (sz \<ge> Event_ENCODING_SZ) (
      and_then (ordered_member P bsw MapRequest_Encoding data ''header.code'') (\<lambda>code.
      require (code AND EVENT_CODE_MASK = MAPREQUEST) (
      require (sizeof MapRequest_Encoding = unat Event_ENCODING_SZ) (
      outputs_of MapRequest_Encoding (braces P ws
        (name_width ws (if verbose (settings P) then ''(sequence number)'' else ''parent''))
          [verbose_only ''code'' (enc ''header.code'' no_names NOT_BITMASK),
           verbose_only ''(sequence number)'' (enc ''header.sequence_num'' no_names NOT_BITMASK),
           always ''parent'' (enc ''parent'' no_names NOT_BITMASK),
           always ''window'' (enc ''window'' no_names NOT_BITMASK)]))))))"

definition parseEvent_ReparentNotify :: event_parser where
  "parseEvent_ReparentNotify P conn data sz ws =
     (let bsw = byteswap conn; enc = member P bsw ReparentNotify_Encoding data in
      require (sz \<ge> Event_ENCODING_SZ) (
      and_then (ordered_member P bsw ReparentNotify_Encoding data ''header.code'') (\<lambda>code.
      require (code AND EVENT_CODE_MASK = REPARENTNOTIFY) (
      require (sizeof ReparentNotify_Encoding = unat Event_ENCODING_SZ) (
      outputs_of ReparentNotify_Encoding (braces P ws
        (name_width ws (if verbose (settings P) then ''(sequence number)'' else ''override-redirect''))
          [verbose_only ''code'' (enc ''header.code'' no_names NOT_BITMASK),
           verbose_only ''(sequence number)'' (enc ''header.sequence_num'' no_names NOT_BITMASK),
           always ''event'' (enc ''event'' no_names NOT_BITMASK),
           always ''window'' (enc ''window'' no_names NOT_BITMASK),
           always ''parent'' (enc ''parent'' no_names NOT_BITMASK),
           always ''x'' (enc ''x'' no_names NOT_BITMASK),
           always ''y'' (enc ''y'' no_names NOT_BITMASK),
           always ''override-redirect'' (enc ''override_redirect'' no_names NOT_BITMASK)]))))))"

definition parseEvent_ConfigureNotify :: event_parser where
  "parseEvent_ConfigureNotify P conn data sz ws =
     (let bsw = byteswap conn; enc = member P bsw ConfigureNotify_Encoding data in
      require (sz \<ge> Event_ENCODING_SZ) (
      and_then (ordered_member P bsw ConfigureNotify_Encoding data ''header.code'') (\<lambda>code.
      require (code AND EVENT_CODE_MASK = CONFIGURENOTIFY) (
      require (sizeof ConfigureNotify_Encoding = unat Event_ENCODING_SZ) (
      outputs_of ConfigureNotify_Encoding (braces P ws
        (name_width ws (if verbose (settings P) then ''(sequence number)'' else ''override-redirect''))
          [verbose_only ''code'' (enc ''header.code'' no_names NOT_BITMASK),
           verbose_only ''(sequence number)'' (enc ''header.sequence_num'' no_names NOT_BITMASK),
           always ''event'' (enc ''event'' no_names NOT_BITMASK),
           always ''window'' (enc ''window'' no_names NOT_BITMASK),
           always ''above-sibling'' (enc ''above_sibling'' (range_all ConfigureNotify_above_sibling_names) NOT_BITMASK),
           always ''x'' (enc ''x'' no_names NOT_BITMASK),
           always ''y'' (enc ''y'' no_names NOT_BITMASK),
           always ''width'' (enc ''width'' no_names NOT_BITMASK),
           always ''height'' (enc ''height'' no_names NOT_BITMASK),
           always ''border-width'' (enc ''border_width'' no_names NOT_BITMASK),
           always ''override-redirect'' (enc ''override_redirect'' no_names NOT_BITMASK)]))))))"

definition parseEvent_ConfigureRequest :: event_parser where
  "parseEvent_ConfigureRequest P conn data sz ws =
     (let bsw = byteswap conn; enc = member P bsw ConfigureRequest_Encoding data in
      require (sz \<ge> Event_ENCODING_SZ) (
      and_then (ordered_member P bsw ConfigureRequest_Encoding data ''header.code'') (\<lambda>code.
      require (code AND EVENT_CODE_MASK = CONFIGUREREQUEST) (
      require (sizeof ConfigureRequest_Encoding = unat Event_ENCODING_SZ) (
      outputs_of ConfigureRequest_Encoding (braces P ws
        (name_width ws (if verbose (settings P) then ''(sequence number)'' else ''border-width''))
          [verbose_only ''code'' (enc ''header.code'' no_names NOT_BITMASK),
           always ''stack-mode'' (enc ''header.stack_mode'' (range_all ConfigureRequest_stack_mode_names) NOT_BITMASK),
           verbose_only ''(sequence number)'' (enc ''header.sequence_num'' no_names NOT_BITMASK),
           always ''parent'' (enc ''parent'' no_names NOT_BITMASK),
           always ''window'' (enc ''window'' no_names NOT_BITMASK),
           always ''sibling'' (enc ''sibling'' (range_all ConfigureRequest_sibling_names) NOT_BITMASK),
           always ''x'' (enc ''x'' no_names NOT_BITMASK),
           always ''y'' (enc ''y'' no_names NOT_BITMASK),
           always ''width'' (enc ''width'' no_names NOT_BITMASK),
           always ''height'' (enc ''height'' no_names NOT_BITMASK),
           always ''border-width'' (enc ''border_width'' no_names NOT_BITMASK),
           always ''value-mask'' (enc ''value_mask'' (range_all ConfigureRequest_value_names) BITMASK)]))))))"

definition parseEvent_GravityNotify :: event_parser where
  "parseEvent_GravityNotify P conn data sz ws =
     (let bsw = byteswap conn; enc = member P bsw GravityNotify_Encoding data in
      require (sz \<ge> Event_ENCODING_SZ) (
      and_then (ordered_member P bsw GravityNotify_Encoding data ''header.code'') (\<lambda>code.
      require (code AND EVENT_CODE_MASK = GRAVITYNOTIFY) (
      require (sizeof GravityNotify_Encoding = unat Event_ENCODING_SZ) (
      outputs_of GravityNotify_Encoding (braces P ws
        (name_width ws (if verbose (settings P) then ''(sequence number)'' else ''window''))
          [verbose_only ''code'' (enc ''header.code'' no_names NOT_BITMASK),
           verbose_only ''(sequence number)'' (enc ''header.sequence_num'' no_names NOT_BITMASK),
           always ''event'' (enc ''event'' no_names NOT_BITMASK),
           always ''window'' (enc ''window'' no_names NOT_BITMASK),
           always ''x'' (enc ''x'' no_names NOT_BITMASK),
           always ''y'' (enc ''y'' no_names NOT_BITMASK)]))))))"

definition parseEvent_ResizeRequest :: event_parser where
  "parseEvent_ResizeRequest P conn data sz ws =
     (let bsw = byteswap conn; enc = member P bsw ResizeRequest_Encoding data in
      require (sz \<ge> Event_ENCODING_SZ) (
      and_then (ordered_member P bsw ResizeRequest_Encoding data ''header.code'') (\<lambda>code.
      require (code AND EVENT_CODE_MASK = RESIZEREQUEST) (
      require (sizeof ResizeRequest_Encoding = unat Event_ENCODING_SZ) (
      outputs_of ResizeRequest_Encoding (braces P ws
        (name_width ws (if verbose (settings P) then ''(sequence number)'' else ''window''))
          [verbose_only ''code'' (enc ''header.code'' no_names NOT_BITMASK),
           verbose_only ''(sequence number)'' (enc ''header.sequence_num'' no_names NOT_BITMASK),
           always ''window'' (enc ''window'' no_names NOT_BITMASK),
           always ''width'' (enc ''width'' no_names NOT_BITMASK),
           always ''height'' (enc ''height'' no_names NOT_BITMASK)]))))))"

definition parseEvent_CirculateNotify :: event_parser where
  "parseEvent_CirculateNotify P conn data sz ws =
     (let bsw = byteswap conn; enc = member P bsw CirculateNotify_Encoding data in
      require (sz \<ge> Event_ENCODING_SZ) (
      and_then (ordered_member P bsw CirculateNotify_Encoding data ''header.code'') (\<lambda>code.
      require (code AND EVENT_CODE_MASK = CIRCULATENOTIFY) (
      require (sizeof CirculateNotify_Encoding = unat Event_ENCODING_SZ) (
      outputs_of CirculateNotify_Encoding (braces P ws
        (name_width ws (if verbose (settings P) then ''(sequence number)'' else ''window''))
          [verbose_only ''code'' (enc ''header.code'' no_names NOT_BITMASK),
           verbose_only ''(sequence number)'' (enc ''header.sequence_num'' no_names NOT_BITMASK),
           always ''event'' (enc ''event'' no_names NOT_BITMASK),
           always ''window'' (enc ''window'' no_names NOT_BITMASK),
           always ''place'' (enc ''place'' (range_all CirculateNotify_place_names) NOT_BITMASK)]))))))"

definition parseEvent_CirculateRequest :: event_parser where
  "parseEvent_CirculateRequest P conn data sz ws =
     (let bsw = byteswap conn; enc = member P bsw CirculateRequest_Encoding data in
      require (sz \<ge> Event_ENCODING_SZ) (
      and_then (ordered_member P bsw CirculateRequest_Encoding data ''header.code'') (\<lambda>code.
      require (code AND EVENT_CODE_MASK = CIRCULATEREQUEST) (
      require (sizeof CirculateRequest_Encoding = unat Event_ENCODING_SZ) (
      outputs_of CirculateRequest_Encoding (braces P ws
        (name_width ws (if verbose (settings P) then ''(sequence number)'' else ''parent''))
          [verbose_only ''code'' (enc ''header.code'' no_names NOT_BITMASK),
           verbose_only ''(sequence number)'' (enc ''header.sequence_num'' no_names NOT_BITMASK),
           always ''parent'' (enc ''parent'' no_names NOT_BITMASK),
           always ''window'' (enc ''window'' no_names NOT_BITMASK),
           always ''place'' (enc ''place'' (range_all CirculateRequest_place_names) NOT_BITMASK)]))))))"

definition parseEvent_PropertyNotify :: event_parser where
  "parseEvent_PropertyNotify P conn data sz ws =
     (let bsw = byteswap conn; enc = member P bsw PropertyNotify_Encoding data in
      require (sz \<ge> Event_ENCODING_SZ) (
      and_then (ordered_member P bsw PropertyNotify_Encoding data ''header.code'') (\<lambda>code.
      require (code AND EVENT_CODE_MASK = PROPERTYNOTIFY) (
      require (sizeof PropertyNotify_Encoding = unat Event_ENCODING_SZ) (
      outputs_of PropertyNotify_Encoding (braces P ws
        ((if multiline (settings P) then length ''(sequence number)'' else 0))
          [verbose_only ''code'' (enc ''header.code'' no_names NOT_BITMASK),
           verbose_only ''(sequence number)'' (enc ''header.sequence_num'' no_names NOT_BITMASK),
           always ''window'' (enc ''window'' no_names NOT_BITMASK),
           always ''atom'' (enc ''atom'' no_names NOT_BITMASK),
           always ''time'' (enc ''time'' no_names NOT_BITMASK),
           always ''state'' (enc ''state'' (range_all PropertyNotify_state_names) NOT_BITMASK)]))))))"

definition parseEvent_SelectionClear :: event_parser where
  "parseEvent_SelectionClear P conn data sz ws =
     (let bsw = byteswap conn; enc = member P bsw SelectionClear_Encoding data in
      require (sz \<ge> Event_ENCODING_SZ) (
      and_then (ordered_member P bsw SelectionClear_Encoding data ''header.code'') (\<lambda>code.
      require (code AND EVENT_CODE_MASK = SELECTIONCLEAR) (
      require (sizeof SelectionClear_Encoding = unat Event_ENCODING_SZ) (
      outputs_of SelectionClear_Encoding (braces P ws
        (name_width ws (if verbose (settings P) then ''(sequence number)'' else ''selection''))
          [verbose_only ''code'' (enc ''header.code'' no_names NOT_BITMASK),
           verbose_only ''(sequence number)'' (enc ''header.sequence_num'' no_names NOT_BITMASK),
           always ''time'' (enc ''time'' no_names NOT_BITMASK),
           always ''owner'' (enc ''owner'' no_names NOT_BITMASK),
           always ''selection'' (enc ''selection'' no_names NOT_BITMASK)]))))))"

definition parseEvent_SelectionRequest :: event_parser where
  "parseEvent_SelectionRequest P conn data sz ws =
     (let bsw = byteswap conn; enc = member P bsw SelectionRequest_Encoding data in
      require (sz \<ge> Event_ENCODING_SZ) (
      and_then (ordered_member P bsw SelectionRequest_Encoding data ''header.code'') (\<lambda>code.
      require (code AND EVENT_CODE_MASK = SELECTIONREQUEST) (
      require (sizeof SelectionRequest_Encoding = unat Event_ENCODING_SZ) (
      outputs_of SelectionRequest_Encoding (braces P ws
        (name_width ws (if verbose (settings P) then ''(sequence number)'' else ''requestor''))
          [verbose_only ''code'' (enc ''header.code'' no_names NOT_BITMASK),
           verbose_only ''(sequence number)'' (enc ''header.sequence_num'' no_names NOT_BITMASK),
           always ''time'' (enc ''time'' (range_all SelectionRequest_time_names) NOT_BITMASK),
           always ''owner'' (enc ''owner'' no_names NOT_BITMASK),
           always ''requestor'' (enc ''requestor'' no_names NOT_BITMASK),
           always ''selection'' (enc ''selection'' no_names NOT_BITMASK),
           always ''target'' (enc ''target'' no_names NOT_BITMASK),
           always ''property'' (enc ''property'' (range_all SelectionRequest_property_names) NOT_BITMASK)]))))))"

definition parseEvent_SelectionNotify :: event_parser where
  "parseEvent_SelectionNotify P conn data sz ws =
     (let bsw = byteswap conn; enc = member P bsw SelectionNotify_Encoding data in
      require (sz \<ge> Event_ENCODING_SZ) (
      and_then (ordered_member P bsw SelectionNotify_Encoding data ''header.code'') (\<lambda>code.
      require (code AND EVENT_CODE_MASK = SELECTIONNOTIFY) (
      require (sizeof SelectionNotify_Encoding = unat Event_ENCODING_SZ) (
      outputs_of SelectionNotify_Encoding (braces P ws
        (name_width ws (if verbose (settings P) then ''(sequence number)'' else ''requestor''))
          [verbose_only ''code'' (enc ''header.code'' no_names NOT_BITMASK),
           verbose_only ''(sequence number)'' (enc ''header.sequence_num'' no_names NOT_BITMASK),
           always ''time'' (enc ''time'' (range_all SelectionNotify_time_names) NOT_BITMASK),
           always ''requestor'' (enc ''requestor'' no_names NOT_BITMASK),
           always ''selection'' (enc ''selection'' no_names NOT_BITMASK),
           always ''target'' (enc ''target'' no_names NOT_BITMASK),
           always ''property'' (enc ''property'' (range_all SelectionNotify_property_names) NOT_BITMASK)]))))))"

definition parseEvent_ColormapNotify :: event_parser where
  "parseEvent_ColormapNotify P conn data sz ws =
     (let bsw = byteswap conn; enc = member P bsw ColormapNotify_Encoding data in
      require (sz \<ge> Event_ENCODING_SZ) (
      and_then (ordered_member P bsw ColormapNotify_Encoding data ''header.code'') (\<lambda>code.
      require (code AND EVENT_CODE_MASK = COLORMAPNOTIFY) (
      require (sizeof ColormapNotify_Encoding = unat Event_ENCODING_SZ) (
      outputs_of ColormapNotify_Encoding (braces P ws
        (name_width ws (if verbose (settings P) then ''(sequence number)'' else ''colormap''))
          [verbose_only ''code'' (enc ''header.code'' no_names NOT_BITMASK),
           verbose_only ''(sequence number)'' (enc ''header.sequence_num'' no_names NOT_BITMASK),
           always ''window'' (enc ''window'' no_names NOT_BITMASK),
           always ''colormap'' (enc ''colormap'' (range_all ColormapNotify_colormap_names) NOT_BITMASK),
           always ''new'' (enc ''new_'' no_names NOT_BITMASK),
           always ''state'' (enc ''state'' (range_all ColormapNotify_state_names) NOT_BITMASK)]))))))"

definition parseEvent_ClientMessage :: event_parser where
  "parseEvent_ClientMessage P conn data sz ws =
     (let bsw = byteswap conn; enc = member P bsw ClientMessage_Encoding data in
      require (sz \<ge> Event_ENCODING_SZ) (
      and_then (ordered_member P bsw ClientMessage_Encoding data ''header.code'') (\<lambda>code.
      require (code AND EVENT_CODE_MASK = CLIENTMESSAGE) (
      require (sizeof ClientMessage_Encoding = unat Event_ENCODING_SZ) (
      outputs_of ClientMessage_Encoding (braces P ws
        (name_width ws (if verbose (settings P) then ''(sequence number)'' else ''format''))
          [verbose_only ''code'' (enc ''header.code'' no_names NOT_BITMASK),
           always ''format'' (enc ''header.format'' no_names NOT_BITMASK),
           verbose_only ''(sequence number)'' (enc ''header.sequence_num'' no_names NOT_BITMASK),
           always ''window'' (enc ''window'' no_names NOT_BITMASK),
           always ''type'' (enc ''type'' no_names NOT_BITMASK)]))))))"

definition parseEvent_MappingNotify :: event_parser where
  "parseEvent_MappingNotify P conn data sz ws =
     (let bsw = byteswap conn; enc = member P bsw MappingNotify_Encoding data in
      require (sz \<ge> Event_ENCODING_SZ) (
      and_then (ordered_member P bsw MappingNotify_Encoding data ''header.code'') (\<lambda>code.
      require (code AND EVENT_CODE_MASK = MAPPINGNOTIFY) (
      require (sizeof MappingNotify_Encoding = unat Event_ENCODING_SZ) (
      outputs_of MappingNotify_Encoding (braces P ws
        (name_width ws (if verbose (settings P) then ''(sequence number)'' else ''first-keycode''))
          [verbose_only ''code'' (enc ''header.code'' no_names NOT_BITMASK),
           verbose_only ''(sequence number)'' (enc ''header.sequence_num'' no_names NOT_BITMASK),
           always ''request'' (enc ''request'' (range_all MappingNotify_request_names) NOT_BITMASK),
           always ''first-keycode'' (enc ''first_keycode'' no_names NOT_BITMASK),
           always ''count'' (enc ''count'' no_names NOT_BITMASK)]))))))"

subsection \<open>Every member access is well formed\<close>

text \<open>
  For each encoding: its size, and that the members which the parser prints exist, with names
  that the overload for their type accepts.
\<close>

lemmas event_fits_defs =
  member_fits_def embed_def names_ok_def no_names_def NOT_BITMASK_def BITMASK_def
  range_bound_def range_min_max_def event_layouts event_tables shared_tables

lemma sizeof_InputEvent_Encoding [simp]: "sizeof InputEvent_Encoding = 32"
  by (simp add: event_layouts)

lemma InputEvent_Encoding_fits:
  "member_fits InputEvent_Encoding ''header.code'' no_names NOT_BITMASK"
  "member_fits InputEvent_Encoding ''header.detail'' no_names NOT_BITMASK"
  "member_fits InputEvent_Encoding ''header.sequence_num'' no_names NOT_BITMASK"
  "member_fits InputEvent_Encoding ''time'' no_names NOT_BITMASK"
  "member_fits InputEvent_Encoding ''root'' no_names NOT_BITMASK"
  "member_fits InputEvent_Encoding ''event'' no_names NOT_BITMASK"
  "member_fits InputEvent_Encoding ''child'' (range_all InputEvent_child_names) NOT_BITMASK"
  "member_fits InputEvent_Encoding ''root_x'' no_names NOT_BITMASK"
  "member_fits InputEvent_Encoding ''root_y'' no_names NOT_BITMASK"
  "member_fits InputEvent_Encoding ''event_x'' no_names NOT_BITMASK"
  "member_fits InputEvent_Encoding ''event_y'' no_names NOT_BITMASK"
  "member_fits InputEvent_Encoding ''state'' no_names NOT_BITMASK"
  "member_fits InputEvent_Encoding ''same_screen'' no_names NOT_BITMASK"
  by (simp_all add: event_fits_defs)

lemma sizeof_MotionNotify_Encoding [simp]: "sizeof MotionNotify_Encoding = 32"
  by (simp add: event_layouts)

lemma MotionNotify_Encoding_fits:
  "member_fits MotionNotify_Encoding ''header.code'' no_names NOT_BITMASK"
  "member_fits MotionNotify_Encoding ''header.detail'' (range_all MotionNotify_detail_names) NOT_BITMASK"
  "member_fits MotionNotify_Encoding ''header.sequence_num'' no_names NOT_BITMASK"
  "member_fits MotionNotify_Encoding ''time'' no_names NOT_BITMASK"
  "member_fits MotionNotify_Encoding ''root'' no_names NOT_BITMASK"
  "member_fits MotionNotify_Encoding ''event'' no_names NOT_BITMASK"
  "member_fits MotionNotify_Encoding ''child'' (range_all MotionNotify_child_names) NOT_BITMASK"
  "member_fits MotionNotify_Encoding ''root_x'' no_names NOT_BITMASK"
  "member_fits MotionNotify_Encoding ''root_y'' no_names NOT_BITMASK"
  "member_fits MotionNotify_Encoding ''event_x'' no_names NOT_BITMASK"
  "member_fits MotionNotify_Encoding ''event_y'' no_names NOT_BITMASK"
  "member_fits MotionNotify_Encoding ''state'' no_names NOT_BITMASK"
  "member_fits MotionNotify_Encoding ''same_screen'' no_names NOT_BITMASK"
  by (simp_all add: event_fits_defs)

lemma sizeof_BoundaryEvent_Encoding [simp]: "sizeof BoundaryEvent_Encoding = 32"
  by (simp add: event_layouts)

lemma BoundaryEvent_Encoding_fits:
  "member_fits BoundaryEvent_Encoding ''header.code'' no_names NOT_BITMASK"
  "member_fits BoundaryEvent_Encoding ''header.detail'' (range_bound BoundaryEvent_detail_names Bound_MAX BoundaryEvent_DETAIL_ENUM_MAX) NOT_BITMASK"
  "member_fits BoundaryEvent_Encoding ''header.sequence_num'' no_names NOT_BITMASK"
  "member_fits BoundaryEvent_Encoding ''time'' no_names NOT_BITMASK"
  "member_fits BoundaryEvent_Encoding ''root'' no_names NOT_BITMASK"
  "member_fits BoundaryEvent_Encoding ''event'' no_names NOT_BITMASK"
  "member_fits BoundaryEvent_Encoding ''child'' (range_all BoundaryEvent_child_names) NOT_BITMASK"
  "member_fits BoundaryEvent_Encoding ''root_x'' no_names NOT_BITMASK"
  "member_fits BoundaryEvent_Encoding ''root_y'' no_names NOT_BITMASK"
  "member_fits BoundaryEvent_Encoding ''event_x'' no_names NOT_BITMASK"
  "member_fits BoundaryEvent_Encoding ''event_y'' no_names NOT_BITMASK"
  "member_fits BoundaryEvent_Encoding ''state'' no_names NOT_BITMASK"
  "member_fits BoundaryEvent_Encoding ''mode'' (range_bound BoundaryEvent_mode_names Bound_MAX BoundaryEvent_MODE_ENUM_MAX) NOT_BITMASK"
  "member_fits BoundaryEvent_Encoding ''focus_same_screen_mask'' (range_all BoundaryEvent_focus_same_screen_names) BITMASK"
  by (simp_all add: event_fits_defs)

lemma sizeof_FocusEvent_Encoding [simp]: "sizeof FocusEvent_Encoding = 32"
  by (simp add: event_layouts)

lemma FocusEvent_Encoding_fits:
  "member_fits FocusEvent_Encoding ''header.code'' no_names NOT_BITMASK"
  "member_fits FocusEvent_Encoding ''header.detail'' (range_all FocusEvent_detail_names) NOT_BITMASK"
  "member_fits FocusEvent_Encoding ''header.sequence_num'' no_names NOT_BITMASK"
  "member_fits FocusEvent_Encoding ''event'' no_names NOT_BITMASK"
  "member_fits FocusEvent_Encoding ''mode'' (range_all FocusEvent_mode_names) NOT_BITMASK"
  by (simp_all add: event_fits_defs)

lemma sizeof_KeymapNotify_Encoding [simp]: "sizeof KeymapNotify_Encoding = 32"
  by (simp add: event_layouts)

lemma KeymapNotify_Encoding_fits:
  "member_fits KeymapNotify_Encoding ''header.code'' no_names NOT_BITMASK"
  by (simp_all add: event_fits_defs)

lemma sizeof_Expose_Encoding [simp]: "sizeof Expose_Encoding = 32"
  by (simp add: event_layouts)

lemma Expose_Encoding_fits:
  "member_fits Expose_Encoding ''header.code'' no_names NOT_BITMASK"
  "member_fits Expose_Encoding ''header.sequence_num'' no_names NOT_BITMASK"
  "member_fits Expose_Encoding ''window'' no_names NOT_BITMASK"
  "member_fits Expose_Encoding ''x'' no_names NOT_BITMASK"
  "member_fits Expose_Encoding ''y'' no_names NOT_BITMASK"
  "member_fits Expose_Encoding ''width'' no_names NOT_BITMASK"
  "member_fits Expose_Encoding ''height'' no_names NOT_BITMASK"
  "member_fits Expose_Encoding ''count'' no_names NOT_BITMASK"
  by (simp_all add: event_fits_defs)

lemma sizeof_GraphicsExposure_Encoding [simp]: "sizeof GraphicsExposure_Encoding = 32"
  by (simp add: event_layouts)

lemma GraphicsExposure_Encoding_fits:
  "member_fits GraphicsExposure_Encoding ''header.code'' no_names NOT_BITMASK"
  "member_fits GraphicsExposure_Encoding ''header.sequence_num'' no_names NOT_BITMASK"
  "member_fits GraphicsExposure_Encoding ''drawable'' no_names NOT_BITMASK"
  "member_fits GraphicsExposure_Encoding ''x'' no_names NOT_BITMASK"
  "member_fits GraphicsExposure_Encoding ''y'' no_names NOT_BITMASK"
  "member_fits GraphicsExposure_Encoding ''width'' no_names NOT_BITMASK"
  "member_fits GraphicsExposure_Encoding ''height'' no_names NOT_BITMASK"
  "member_fits GraphicsExposure_Encoding ''minor_opcode'' no_names NOT_BITMASK"
  "member_fits GraphicsExposure_Encoding ''count'' no_names NOT_BITMASK"
  "member_fits GraphicsExposure_Encoding ''major_opcode'' no_names NOT_BITMASK"
  by (simp_all add: event_fits_defs)

lemma sizeof_NoExposure_Encoding [simp]: "sizeof NoExposure_Encoding = 32"
  by (simp add: event_layouts)

lemma NoExposure_Encoding_fits:
  "member_fits NoExposure_Encoding ''header.code'' no_names NOT_BITMASK"
  "member_fits NoExposure_Encoding ''header.sequence_num'' no_names NOT_BITMASK"
  "member_fits NoExposure_Encoding ''drawable'' no_names NOT_BITMASK"
  "member_fits NoExposure_Encoding ''minor_opcode'' no_names NOT_BITMASK"
  "member_fits NoExposure_Encoding ''major_opcode'' no_names NOT_BITMASK"
  by (simp_all add: event_fits_defs)

lemma sizeof_VisibilityNotify_Encoding [simp]: "sizeof VisibilityNotify_Encoding = 32"
  by (simp add: event_layouts)

lemma VisibilityNotify_Encoding_fits:
  "member_fits VisibilityNotify_Encoding ''header.code'' no_names NOT_BITMASK"
  "member_fits VisibilityNotify_Encoding ''header.sequence_num'' no_names NOT_BITMASK"
  "member_fits VisibilityNotify_Encoding ''window'' no_names NOT_BITMASK"
  "member_fits VisibilityNotify_Encoding ''state'' (range_all VisibilityNotify_state_names) NOT_BITMASK"
  by (simp_all add: event_fits_defs)

lemma sizeof_CreateNotify_Encoding [simp]: "sizeof CreateNotify_Encoding = 32"
  by (simp add: event_layouts)

lemma CreateNotify_Encoding_fits:
  "member_fits CreateNotify_Encoding ''header.code'' no_names NOT_BITMASK"
  "member_fits CreateNotify_Encoding ''header.sequence_num'' no_names NOT_BITMASK"
  "member_fits CreateNotify_Encoding ''parent'' no_names NOT_BITMASK"
  "member_fits CreateNotify_Encoding ''window'' no_names NOT_BITMASK"
  "member_fits CreateNotify_Encoding ''x'' no_names NOT_BITMASK"
  "member_fits CreateNotify_Encoding ''y'' no_names NOT_BITMASK"
  "member_fits CreateNotify_Encoding ''width'' no_names NOT_BITMASK"
  "member_fits CreateNotify_Encoding ''height'' no_names NOT_BITMASK"
  "member_fits CreateNotify_Encoding ''border_width'' no_names NOT_BITMASK"
  "member_fits CreateNotify_Encoding ''override_redirect'' no_names NOT_BITMASK"
  by (simp_all add: event_fits_defs)

lemma sizeof_DestroyNotify_Encoding [simp]: "sizeof DestroyNotify_Encoding = 32"
  by (simp add: event_layouts)

lemma DestroyNotify_Encoding_fits:
  "member_fits DestroyNotify_Encoding ''header.code'' no_names NOT_BITMASK"
  "member_fits DestroyNotify_Encoding ''header.sequence_num'' no_names NOT_BITMASK"
  "member_fits DestroyNotify_Encoding ''event'' no_names NOT_BITMASK"
  "member_fits DestroyNotify_Encoding ''window'' no_names NOT_BITMASK"
  by (simp_all add: event_fits_defs)

lemma sizeof_UnmapNotify_Encoding [simp]: "sizeof UnmapNotify_Encoding = 32"
  by (simp add: event_layouts)

lemma UnmapNotify_Encoding_fits:
  "member_fits UnmapNotify_Encoding ''header.code'' no_names NOT_BITMASK"
  "member_fits UnmapNotify_Encoding ''header.sequence_num'' no_names NOT_BITMASK"
  "member_fits UnmapNotify_Encoding ''event'' no_names NOT_BITMASK"
  "member_fits UnmapNotify_Encoding ''window'' no_names NOT_BITMASK"
  "member_fits UnmapNotify_Encoding ''from_configure'' no_names NOT_BITMASK"
  by (simp_all add: event_fits_defs)

lemma sizeof_MapNotify_Encoding [simp]: "sizeof MapNotify_Encoding = 32"
  by (simp add: event_layouts)

lemma MapNotify_Encoding_fits:
  "member_fits MapNotify_Encoding ''header.code'' no_names NOT_BITMASK"
  "member_fits MapNotify_Encoding ''header.sequence_num'' no_names NOT_BITMASK"
  "member_fits MapNotify_Encoding ''event'' no_names NOT_BITMASK"
  "member_fits MapNotify_Encoding ''window'' no_names NOT_BITMASK"
  "member_fits MapNotify_Encoding ''override_redirect'' no_names NOT_BITMASK"
  by (simp_all add: event_fits_defs)

lemma sizeof_MapRequest_Encoding [simp]: "sizeof MapRequest_Encoding = 32"
  by (simp add: event_layouts)

lemma MapRequest_Encoding_fits:
  "member_fits MapRequest_Encoding ''header.code'' no_names NOT_BITMASK"
  "member_fits MapRequest_Encoding ''header.sequence_num'' no_names NOT_BITMASK"
  "member_fits MapRequest_Encoding ''parent'' no_names NOT_BITMASK"
  "member_fits MapRequest_Encoding ''window'' no_names NOT_BITMASK"
  by (simp_all add: event_fits_defs)

lemma sizeof_ReparentNotify_Encoding [simp]: "sizeof ReparentNotify_Encoding = 32"
  by (simp add: event_layouts)

lemma ReparentNotify_Encoding_fits:
  "member_fits ReparentNotify_Encoding ''header.code'' no_names NOT_BITMASK"
  "member_fits ReparentNotify_Encoding ''header.sequence_num'' no_names NOT_BITMASK"
  "member_fits ReparentNotify_Encoding ''event'' no_names NOT_BITMASK"
  "member_fits ReparentNotify_Encoding ''window'' no_names NOT_BITMASK"
  "member_fits ReparentNotify_Encoding ''parent'' no_names NOT_BITMASK"
  "member_fits ReparentNotify_Encoding ''x'' no_names NOT_BITMASK"
  "member_fits ReparentNotify_Encoding ''y'' no_names NOT_BITMASK"
  "member_fits ReparentNotify_Encoding ''override_redirect'' no_names NOT_BITMASK"
  by (simp_all add: event_fits_defs)

lemma sizeof_ConfigureNotify_Encoding [simp]: "sizeof ConfigureNotify_Encoding = 32"
  by (simp add: event_layouts)

lemma ConfigureNotify_Encoding_fits:
  "member_fits ConfigureNotify_Encoding ''header.code'' no_names NOT_BITMASK"
  "member_fits ConfigureNotify_Encoding ''header.sequence_num'' no_names NOT_BITMASK"
  "member_fits ConfigureNotify_Encoding ''event'' no_names NOT_BITMASK"
  "member_fits ConfigureNotify_Encoding ''window'' no_names NOT_BITMASK"
  "member_fits ConfigureNotify_Encoding ''above_sibling'' (range_all ConfigureNotify_above_sibling_names) NOT_BITMASK"
  "member_fits ConfigureNotify_Encoding ''x'' no_names NOT_BITMASK"
  "member_fits ConfigureNotify_Encoding ''y'' no_names NOT_BITMASK"
  "member_fits ConfigureNotify_Encoding ''width'' no_names NOT_BITMASK"
  "member_fits ConfigureNotify_Encoding ''height'' no_names NOT_BITMASK"
  "member_fits ConfigureNotify_Encoding ''border_width'' no_names NOT_BITMASK"
  "member_fits ConfigureNotify_Encoding ''override_redirect'' no_names NOT_BITMASK"
  by (simp_all add: event_fits_defs)

lemma sizeof_ConfigureRequest_Encoding [simp]: "sizeof ConfigureRequest_Encoding = 32"
  by (simp add: event_layouts)

lemma ConfigureRequest_Encoding_fits:
  "member_fits ConfigureRequest_Encoding ''header.code'' no_names NOT_BITMASK"
  "member_fits ConfigureRequest_Encoding ''header.stack_mode'' (range_all ConfigureRequest_stack_mode_names) NOT_BITMASK"
  "member_fits ConfigureRequest_Encoding ''header.sequence_num'' no_names NOT_BITMASK"
  "member_fits ConfigureRequest_Encoding ''parent'' no_names NOT_BITMASK"
  "member_fits ConfigureRequest_Encoding ''window'' no_names NOT_BITMASK"
  "member_fits ConfigureRequest_Encoding ''sibling'' (range_all ConfigureRequest_sibling_names) NOT_BITMASK"
  "member_fits ConfigureRequest_Encoding ''x'' no_names NOT_BITMASK"
  "member_fits ConfigureRequest_Encoding ''y'' no_names NOT_BITMASK"
  "member_fits ConfigureRequest_Encoding ''width'' no_names NOT_BITMASK"
  "member_fits ConfigureRequest_Encoding ''height'' no_names NOT_BITMASK"
  "member_fits ConfigureRequest_Encoding ''border_width'' no_names NOT_BITMASK"
  "member_fits ConfigureRequest_Encoding ''value_mask'' (range_all ConfigureRequest_value_names) BITMASK"
  by (simp_all add: event_fits_defs)

lemma sizeof_GravityNotify_Encoding [simp]: "sizeof GravityNotify_Encoding = 32"
  by (simp add: event_layouts)

lemma GravityNotify_Encoding_fits:
  "member_fits GravityNotify_Encoding ''header.code'' no_names NOT_BITMASK"
  "member_fits GravityNotify_Encoding ''header.sequence_num'' no_names NOT_BITMASK"
  "member_fits GravityNotify_Encoding ''event'' no_names NOT_BITMASK"
  "member_fits GravityNotify_Encoding ''window'' no_names NOT_BITMASK"
  "member_fits GravityNotify_Encoding ''x'' no_names NOT_BITMASK"
  "member_fits GravityNotify_Encoding ''y'' no_names NOT_BITMASK"
  by (simp_all add: event_fits_defs)

lemma sizeof_ResizeRequest_Encoding [simp]: "sizeof ResizeRequest_Encoding = 32"
  by (simp add: event_layouts)

lemma ResizeRequest_Encoding_fits:
  "member_fits ResizeRequest_Encoding ''header.code'' no_names NOT_BITMASK"
  "member_fits ResizeRequest_Encoding ''header.sequence_num'' no_names NOT_BITMASK"
  "member_fits ResizeRequest_Encoding ''window'' no_names NOT_BITMASK"
  "member_fits ResizeRequest_Encoding ''width'' no_names NOT_BITMASK"
  "member_fits ResizeRequest_Encoding ''height'' no_names NOT_BITMASK"
  by (simp_all add: event_fits_defs)

lemma sizeof_CirculateNotify_Encoding [simp]: "sizeof CirculateNotify_Encoding = 32"
  by (simp add: event_layouts)

lemma CirculateNotify_Encoding_fits:
  "member_fits CirculateNotify_Encoding ''header.code'' no_names NOT_BITMASK"
  "member_fits CirculateNotify_Encoding ''header.sequence_num'' no_names NOT_BITMASK"
  "member_fits CirculateNotify_Encoding ''event'' no_names NOT_BITMASK"
  "member_fits CirculateNotify_Encoding ''window'' no_names NOT_BITMASK"
  "member_fits CirculateNotify_Encoding ''place'' (range_all CirculateNotify_place_names) NOT_BITMASK"
  by (simp_all add: event_fits_defs)

lemma sizeof_CirculateRequest_Encoding [simp]: "sizeof CirculateRequest_Encoding = 32"
  by (simp add: event_layouts)

lemma CirculateRequest_Encoding_fits:
  "member_fits CirculateRequest_Encoding ''header.code'' no_names NOT_BITMASK"
  "member_fits CirculateRequest_Encoding ''header.sequence_num'' no_names NOT_BITMASK"
  "member_fits CirculateRequest_Encoding ''parent'' no_names NOT_BITMASK"
  "member_fits CirculateRequest_Encoding ''window'' no_names NOT_BITMASK"
  "member_fits CirculateRequest_Encoding ''place'' (range_all CirculateRequest_place_names) NOT_BITMASK"
  by (simp_all add: event_fits_defs)

lemma sizeof_PropertyNotify_Encoding [simp]: "sizeof PropertyNotify_Encoding = 32"
  by (simp add: event_layouts)

lemma PropertyNotify_Encoding_fits:
  "member_fits PropertyNotify_Encoding ''header.code'' no_names NOT_BITMASK"
  "member_fits PropertyNotify_Encoding ''header.sequence_num'' no_names NOT_BITMASK"
  "member_fits PropertyNotify_Encoding ''window'' no_names NOT_BITMASK"
  "member_fits PropertyNotify_Encoding ''atom'' no_names NOT_BITMASK"
  "member_fits PropertyNotify_Encoding ''time'' no_names NOT_BITMASK"
  "member_fits PropertyNotify_Encoding ''state'' (range_all PropertyNotify_state_names) NOT_BITMASK"
  by (simp_all add: event_fits_defs)

lemma sizeof_SelectionClear_Encoding [simp]: "sizeof SelectionClear_Encoding = 32"
  by (simp add: event_layouts)

lemma SelectionClear_Encoding_fits:
  "member_fits SelectionClear_Encoding ''header.code'' no_names NOT_BITMASK"
  "member_fits SelectionClear_Encoding ''header.sequence_num'' no_names NOT_BITMASK"
  "member_fits SelectionClear_Encoding ''time'' no_names NOT_BITMASK"
  "member_fits SelectionClear_Encoding ''owner'' no_names NOT_BITMASK"
  "member_fits SelectionClear_Encoding ''selection'' no_names NOT_BITMASK"
  by (simp_all add: event_fits_defs)

lemma sizeof_SelectionRequest_Encoding [simp]: "sizeof SelectionRequest_Encoding = 32"
  by (simp add: event_layouts)

lemma SelectionRequest_Encoding_fits:
  "member_fits SelectionRequest_Encoding ''header.code'' no_names NOT_BITMASK"
  "member_fits SelectionRequest_Encoding ''header.sequence_num'' no_names NOT_BITMASK"
  "member_fits SelectionRequest_Encoding ''time'' (range_all SelectionRequest_time_names) NOT_BITMASK"
  "member_fits SelectionRequest_Encoding ''owner'' no_names NOT_BITMASK"
  "member_fits SelectionRequest_Encoding ''requestor'' no_names NOT_BITMASK"
  "member_fits SelectionRequest_Encoding ''selection'' no_names NOT_BITMASK"
  "member_fits SelectionRequest_Encoding ''target'' no_names NOT_BITMASK"
  "member_fits SelectionRequest_Encoding ''property'' (range_all SelectionRequest_property_names) NOT_BITMASK"
  by (simp_all add: event_fits_defs)

lemma sizeof_SelectionNotify_Encoding [simp]: "sizeof SelectionNotify_Encoding = 32"
  by (simp add: event_layouts)

lemma SelectionNotify_Encoding_fits:
  "member_fits SelectionNotify_Encoding ''header.code'' no_names NOT_BITMASK"
  "member_fits SelectionNotify_Encoding ''header.sequence_num'' no_names NOT_BITMASK"
  "member_fits SelectionNotify_Encoding ''time'' (range_all SelectionNotify_time_names) NOT_BITMASK"
  "member_fits SelectionNotify_Encoding ''requestor'' no_names NOT_BITMASK"
  "member_fits SelectionNotify_Encoding ''selection'' no_names NOT_BITMASK"
  "member_fits SelectionNotify_Encoding ''target'' no_names NOT_BITMASK"
  "member_fits SelectionNotify_Encoding ''property'' (range_all SelectionNotify_property_names) NOT_BITMASK"
  by (simp_all add: event_fits_defs)

lemma sizeof_ColormapNotify_Encoding [simp]: "sizeof ColormapNotify_Encoding = 32"
  by (simp add: event_layouts)

lemma ColormapNotify_Encoding_fits:
  "member_fits ColormapNotify_Encoding ''header.code'' no_names NOT_BITMASK"
  "member_fits ColormapNotify_Encoding ''header.sequence_num'' no_names NOT_BITMASK"
  "member_fits ColormapNotify_Encoding ''window'' no_names NOT_BITMASK"
  "member_fits ColormapNotify_Encoding ''colormap'' (range_all ColormapNotify_colormap_names) NOT_BITMASK"
  "member_fits ColormapNotify_Encoding ''new_'' no_names NOT_BITMASK"
  "member_fits ColormapNotify_Encoding ''state'' (range_all ColormapNotify_state_names) NOT_BITMASK"
  by (simp_all add: event_fits_defs)

lemma sizeof_ClientMessage_Encoding [simp]: "sizeof ClientMessage_Encoding = 32"
  by (simp add: event_layouts)

lemma ClientMessage_Encoding_fits:
  "member_fits ClientMessage_Encoding ''header.code'' no_names NOT_BITMASK"
  "member_fits ClientMessage_Encoding ''header.format'' no_names NOT_BITMASK"
  "member_fits ClientMessage_Encoding ''header.sequence_num'' no_names NOT_BITMASK"
  "member_fits ClientMessage_Encoding ''window'' no_names NOT_BITMASK"
  "member_fits ClientMessage_Encoding ''type'' no_names NOT_BITMASK"
  by (simp_all add: event_fits_defs)

lemma sizeof_MappingNotify_Encoding [simp]: "sizeof MappingNotify_Encoding = 32"
  by (simp add: event_layouts)

lemma MappingNotify_Encoding_fits:
  "member_fits MappingNotify_Encoding ''header.code'' no_names NOT_BITMASK"
  "member_fits MappingNotify_Encoding ''header.sequence_num'' no_names NOT_BITMASK"
  "member_fits MappingNotify_Encoding ''request'' (range_all MappingNotify_request_names) NOT_BITMASK"
  "member_fits MappingNotify_Encoding ''first_keycode'' no_names NOT_BITMASK"
  "member_fits MappingNotify_Encoding ''count'' no_names NOT_BITMASK"
  by (simp_all add: event_fits_defs)

lemmas event_fits =
  InputEvent_Encoding_fits
  MotionNotify_Encoding_fits
  BoundaryEvent_Encoding_fits
  FocusEvent_Encoding_fits
  KeymapNotify_Encoding_fits
  Expose_Encoding_fits
  GraphicsExposure_Encoding_fits
  NoExposure_Encoding_fits
  VisibilityNotify_Encoding_fits
  CreateNotify_Encoding_fits
  DestroyNotify_Encoding_fits
  UnmapNotify_Encoding_fits
  MapNotify_Encoding_fits
  MapRequest_Encoding_fits
  ReparentNotify_Encoding_fits
  ConfigureNotify_Encoding_fits
  ConfigureRequest_Encoding_fits
  GravityNotify_Encoding_fits
  ResizeRequest_Encoding_fits
  CirculateNotify_Encoding_fits
  CirculateRequest_Encoding_fits
  PropertyNotify_Encoding_fits
  SelectionClear_Encoding_fits
  SelectionRequest_Encoding_fits
  SelectionNotify_Encoding_fits
  ColormapNotify_Encoding_fits
  ClientMessage_Encoding_fits
  MappingNotify_Encoding_fits

lemma event_code_first:
  "field_at InputEvent_Encoding ''header.code'' = Some (0, CARD8)"
  "field_at InputEvent_Header ''code'' = Some (0, CARD8)"
  "field_at MotionNotify_Encoding ''header.code'' = Some (0, CARD8)"
  "field_at BoundaryEvent_Encoding ''header.code'' = Some (0, CARD8)"
  "field_at BoundaryEvent_Header ''code'' = Some (0, CARD8)"
  "field_at FocusEvent_Encoding ''header.code'' = Some (0, CARD8)"
  "field_at FocusEvent_Header ''code'' = Some (0, CARD8)"
  "field_at KeymapNotify_Encoding ''header.code'' = Some (0, CARD8)"
  "field_at Expose_Encoding ''header.code'' = Some (0, CARD8)"
  "field_at GraphicsExposure_Encoding ''header.code'' = Some (0, CARD8)"
  "field_at NoExposure_Encoding ''header.code'' = Some (0, CARD8)"
  "field_at VisibilityNotify_Encoding ''header.code'' = Some (0, CARD8)"
  "field_at CreateNotify_Encoding ''header.code'' = Some (0, CARD8)"
  "field_at DestroyNotify_Encoding ''header.code'' = Some (0, CARD8)"
  "field_at UnmapNotify_Encoding ''header.code'' = Some (0, CARD8)"
  "field_at MapNotify_Encoding ''header.code'' = Some (0, CARD8)"
  "field_at MapRequest_Encoding ''header.code'' = Some (0, CARD8)"
  "field_at ReparentNotify_Encoding ''header.code'' = Some (0, CARD8)"
  "field_at ConfigureNotify_Encoding ''header.code'' = Some (0, CARD8)"
  "field_at ConfigureRequest_Encoding ''header.code'' = Some (0, CARD8)"
  "field_at GravityNotify_Encoding ''header.code'' = Some (0, CARD8)"
  "field_at ResizeRequest_Encoding ''header.code'' = Some (0, CARD8)"
  "field_at CirculateNotify_Encoding ''header.code'' = Some (0, CARD8)"
  "field_at CirculateRequest_Encoding ''header.code'' = Some (0, CARD8)"
  "field_at PropertyNotify_Encoding ''header.code'' = Some (0, CARD8)"
  "field_at SelectionClear_Encoding ''header.code'' = Some (0, CARD8)"
  "field_at SelectionRequest_Encoding ''header.code'' = Some (0, CARD8)"
  "field_at SelectionNotify_Encoding ''header.code'' = Some (0, CARD8)"
  "field_at ColormapNotify_Encoding ''header.code'' = Some (0, CARD8)"
  "field_at ClientMessage_Encoding ''header.code'' = Some (0, CARD8)"
  "field_at MappingNotify_Encoding ''header.code'' = Some (0, CARD8)"
  by (simp_all add: event_fits_defs)

lemma sizeof_event_header [simp]:
  "sizeof InputEvent_Header = 4"
  "sizeof BoundaryEvent_Header = 4"
  "sizeof FocusEvent_Header = 4"
  by (simp_all add: event_layouts)

subsection \<open>Every event is parsed\<close>

lemma unat_Event_ENCODING_SZ [simp]: "unat Event_ENCODING_SZ = 32"
  by (simp add: Event_ENCODING_SZ_def)

lemma Event_ENCODING_SZ_le [simp]: "Event_ENCODING_SZ \<le> sz \<longleftrightarrow> 32 \<le> unat sz"
  by (simp add: word_le_nat_alt)

lemmas event_ok_simps =
  Let_def ordered_member_first event_code_first event_fits readable_member braces_ok

lemma parseEvent_InputEvent_ok:
  assumes "readable P InputEvent_Encoding data sz"
  shows "parses 32 (parseEvent_InputEvent P conn data sz ws)"
  unfolding parseEvent_InputEvent_def
  using assms readable_bounds [OF assms(1)]
  by (simp add: event_ok_simps)

lemma parseEvent_KeyPress_ok:
  assumes "readable P InputEvent_Encoding data sz" and "unat (hd data) AND EVENT_CODE_MASK = KEYPRESS"
  shows "parses 32 (parseEvent_KeyPress P conn data sz ws)"
  unfolding parseEvent_KeyPress_def
  using assms(2) readable_bounds [OF assms(1)] parseEvent_InputEvent_ok [OF assms(1)]
  by (simp add: event_ok_simps)

lemma parseEvent_KeyRelease_ok:
  assumes "readable P InputEvent_Encoding data sz" and "unat (hd data) AND EVENT_CODE_MASK = KEYRELEASE"
  shows "parses 32 (parseEvent_KeyRelease P conn data sz ws)"
  unfolding parseEvent_KeyRelease_def
  using assms(2) readable_bounds [OF assms(1)] parseEvent_InputEvent_ok [OF assms(1)]
  by (simp add: event_ok_simps)

lemma parseEvent_ButtonPress_ok:
  assumes "readable P InputEvent_Encoding data sz" and "unat (hd data) AND EVENT_CODE_MASK = BUTTONPRESS"
  shows "parses 32 (parseEvent_ButtonPress P conn data sz ws)"
  unfolding parseEvent_ButtonPress_def
  using assms(2) readable_bounds [OF assms(1)] parseEvent_InputEvent_ok [OF assms(1)]
  by (simp add: event_ok_simps)

lemma parseEvent_ButtonRelease_ok:
  assumes "readable P InputEvent_Encoding data sz" and "unat (hd data) AND EVENT_CODE_MASK = BUTTONRELEASE"
  shows "parses 32 (parseEvent_ButtonRelease P conn data sz ws)"
  unfolding parseEvent_ButtonRelease_def
  using assms(2) readable_bounds [OF assms(1)] parseEvent_InputEvent_ok [OF assms(1)]
  by (simp add: event_ok_simps)

lemma parseEvent_MotionNotify_ok:
  assumes "readable P MotionNotify_Encoding data sz" and "unat (hd data) AND EVENT_CODE_MASK = MOTIONNOTIFY"
  shows "parses 32 (parseEvent_MotionNotify P conn data sz ws)"
  unfolding parseEvent_MotionNotify_def
  using assms readable_bounds [OF assms(1)]
  by (simp add: event_ok_simps)

lemma parseEvent_BoundaryEvent_ok:
  assumes "readable P BoundaryEvent_Encoding data sz"
  shows "parses 32 (parseEvent_BoundaryEvent P conn data sz ws)"
  unfolding parseEvent_BoundaryEvent_def
  using assms readable_bounds [OF assms(1)]
  by (simp add: event_ok_simps)

lemma parseEvent_EnterNotify_ok:
  assumes "readable P BoundaryEvent_Encoding data sz" and "unat (hd data) AND EVENT_CODE_MASK = ENTERNOTIFY"
  shows "parses 32 (parseEvent_EnterNotify P conn data sz ws)"
  unfolding parseEvent_EnterNotify_def
  using assms(2) readable_bounds [OF assms(1)] parseEvent_BoundaryEvent_ok [OF assms(1)]
  by (simp add: event_ok_simps)

lemma parseEvent_LeaveNotify_ok:
  assumes "readable P BoundaryEvent_Encoding data sz" and "unat (hd data) AND EVENT_CODE_MASK = LEAVENOTIFY"
  shows "parses 32 (parseEvent_LeaveNotify P conn data sz ws)"
  unfolding parseEvent_LeaveNotify_def
  using assms(2) readable_bounds [OF assms(1)] parseEvent_BoundaryEvent_ok [OF assms(1)]
  by (simp add: event_ok_simps)

lemma parseEvent_FocusEvent_ok:
  assumes "readable P FocusEvent_Encoding data sz"
  shows "parses 32 (parseEvent_FocusEvent P conn data sz ws)"
  unfolding parseEvent_FocusEvent_def
  using assms readable_bounds [OF assms(1)]
  by (simp add: event_ok_simps)

lemma parseEvent_FocusIn_ok:
  assumes "readable P FocusEvent_Encoding data sz" and "unat (hd data) AND EVENT_CODE_MASK = FOCUSIN"
  shows "parses 32 (parseEvent_FocusIn P conn data sz ws)"
  unfolding parseEvent_FocusIn_def
  using assms(2) readable_bounds [OF assms(1)] parseEvent_FocusEvent_ok [OF assms(1)]
  by (simp add: event_ok_simps)

lemma parseEvent_FocusOut_ok:
  assumes "readable P FocusEvent_Encoding data sz" and "unat (hd data) AND EVENT_CODE_MASK = FOCUSOUT"
  shows "parses 32 (parseEvent_FocusOut P conn data sz ws)"
  unfolding parseEvent_FocusOut_def
  using assms(2) readable_bounds [OF assms(1)] parseEvent_FocusEvent_ok [OF assms(1)]
  by (simp add: event_ok_simps)

lemma parseEvent_Expose_ok:
  assumes "readable P Expose_Encoding data sz" and "unat (hd data) AND EVENT_CODE_MASK = EXPOSE"
  shows "parses 32 (parseEvent_Expose P conn data sz ws)"
  unfolding parseEvent_Expose_def
  using assms readable_bounds [OF assms(1)]
  by (simp add: event_ok_simps)

lemma parseEvent_GraphicsExposure_ok:
  assumes "readable P GraphicsExposure_Encoding data sz" and "unat (hd data) AND EVENT_CODE_MASK = GRAPHICSEXPOSURE"
  shows "parses 32 (parseEvent_GraphicsExposure P conn data sz ws)"
  unfolding parseEvent_GraphicsExposure_def
  using assms readable_bounds [OF assms(1)]
  by (simp add: event_ok_simps)

lemma parseEvent_NoExposure_ok:
  assumes "readable P NoExposure_Encoding data sz" and "unat (hd data) AND EVENT_CODE_MASK = NOEXPOSURE"
  shows "parses 32 (parseEvent_NoExposure P conn data sz ws)"
  unfolding parseEvent_NoExposure_def
  using assms readable_bounds [OF assms(1)]
  by (simp add: event_ok_simps)

lemma parseEvent_VisibilityNotify_ok:
  assumes "readable P VisibilityNotify_Encoding data sz" and "unat (hd data) AND EVENT_CODE_MASK = VISIBILITYNOTIFY"
  shows "parses 32 (parseEvent_VisibilityNotify P conn data sz ws)"
  unfolding parseEvent_VisibilityNotify_def
  using assms readable_bounds [OF assms(1)]
  by (simp add: event_ok_simps)

lemma parseEvent_CreateNotify_ok:
  assumes "readable P CreateNotify_Encoding data sz" and "unat (hd data) AND EVENT_CODE_MASK = CREATENOTIFY"
  shows "parses 32 (parseEvent_CreateNotify P conn data sz ws)"
  unfolding parseEvent_CreateNotify_def
  using assms readable_bounds [OF assms(1)]
  by (simp add: event_ok_simps)

lemma parseEvent_DestroyNotify_ok:
  assumes "readable P DestroyNotify_Encoding data sz" and "unat (hd data) AND EVENT_CODE_MASK = DESTROYNOTIFY"
  shows "parses 32 (parseEvent_DestroyNotify P conn data sz ws)"
  unfolding parseEvent_DestroyNotify_def
  using assms readable_bounds [OF assms(1)]
  by (simp add: event_ok_simps)

lemma parseEvent_UnmapNotify_ok:
  assumes "readable P UnmapNotify_Encoding data sz" and "unat (hd data) AND EVENT_CODE_MASK = UNMAPNOTIFY"
  shows "parses 32 (parseEvent_UnmapNotify P conn data sz ws)"
  unfolding parseEvent_UnmapNotify_def
  using assms readable_bounds [OF assms(1)]
  by (simp add: event_ok_simps)

lemma parseEvent_MapNotify_ok:
  assumes "readable P MapNotify_Encoding data sz" and "unat (hd data) AND EVENT_CODE_MASK = MAPNOTIFY"
  shows "parses 32 (parseEvent_MapNotify P conn data sz ws)"
  unfolding parseEvent_MapNotify_def
  using assms readable_bounds [OF assms(1)]
  by (simp add: event_ok_simps)

lemma parseEvent_MapRequest_ok:
  assumes "readable P MapRequest_Encoding data sz" and "unat (hd data) AND EVENT_CODE_MASK = MAPREQUEST"
  shows "parses 32 (parseEvent_MapRequest P conn data sz ws)"
  unfolding parseEvent_MapRequest_def
  using assms readable_bounds [OF assms(1)]
  by (simp add: event_ok_simps)

lemma parseEvent_ReparentNotify_ok:
  assumes "readable P ReparentNotify_Encoding data sz" and "unat (hd data) AND EVENT_CODE_MASK = REPARENTNOTIFY"
  shows "parses 32 (parseEvent_ReparentNotify P conn data sz ws)"
  unfolding parseEvent_ReparentNotify_def
  using assms readable_bounds [OF assms(1)]
  by (simp add: event_ok_simps)

lemma parseEvent_ConfigureNotify_ok:
  assumes "readable P ConfigureNotify_Encoding data sz" and "unat (hd data) AND EVENT_CODE_MASK = CONFIGURENOTIFY"
  shows "parses 32 (parseEvent_ConfigureNotify P conn data sz ws)"
  unfolding parseEvent_ConfigureNotify_def
  using assms readable_bounds [OF assms(1)]
  by (simp add: event_ok_simps)

lemma parseEvent_ConfigureRequest_ok:
  assumes "readable P ConfigureRequest_Encoding data sz" and "unat (hd data) AND EVENT_CODE_MASK = CONFIGUREREQUEST"
  shows "parses 32 (parseEvent_ConfigureRequest P conn data sz ws)"
  unfolding parseEvent_ConfigureRequest_def
  using assms readable_bounds [OF assms(1)]
  by (simp add: event_ok_simps)

lemma parseEvent_GravityNotify_ok:
  assumes "readable P GravityNotify_Encoding data sz" and "unat (hd data) AND EVENT_CODE_MASK = GRAVITYNOTIFY"
  shows "parses 32 (parseEvent_GravityNotify P conn data sz ws)"
  unfolding parseEvent_GravityNotify_def
  using assms readable_bounds [OF assms(1)]
  by (simp add: event_ok_simps)

lemma parseEvent_ResizeRequest_ok:
  assumes "readable P ResizeRequest_Encoding data sz" and "unat (hd data) AND EVENT_CODE_MASK = RESIZEREQUEST"
  shows "parses 32 (parseEvent_ResizeRequest P conn data sz ws)"
  unfolding parseEvent_ResizeRequest_def
  using assms readable_bounds [OF assms(1)]
  by (simp add: event_ok_simps)

lemma parseEvent_CirculateNotify_ok:
  assumes "readable P CirculateNotify_Encoding data sz" and "unat (hd data) AND EVENT_CODE_MASK = CIRCULATENOTIFY"
  shows "parses 32 (parseEvent_CirculateNotify P conn data sz ws)"
  unfolding parseEvent_CirculateNotify_def
  using assms readable_bounds [OF assms(1)]
  by (simp add: event_ok_simps)

lemma parseEvent_CirculateRequest_ok:
  assumes "readable P CirculateRequest_Encoding data sz" and "unat (hd data) AND EVENT_CODE_MASK = CIRCULATEREQUEST"
  shows "parses 32 (parseEvent_CirculateRequest P conn data sz ws)"
  unfolding parseEvent_CirculateRequest_def
  using assms readable_bounds [OF assms(1)]
  by (simp add: event_ok_simps)

lemma parseEvent_PropertyNotify_ok:
  assumes "readable P PropertyNotify_Encoding data sz" and "unat (hd data) AND EVENT_CODE_MASK = PROPERTYNOTIFY"
  shows "parses 32 (parseEvent_PropertyNotify P conn data sz ws)"
  unfolding parseEvent_PropertyNotify_def
  using assms readable_bounds [OF assms(1)]
  by (simp add: event_ok_simps)

lemma parseEvent_SelectionClear_ok:
  assumes "readable P SelectionClear_Encoding data sz" and "unat (hd data) AND EVENT_CODE_MASK = SELECTIONCLEAR"
  shows "parses 32 (parseEvent_SelectionClear P conn data sz ws)"
  unfolding parseEvent_SelectionClear_def
  using assms readable_bounds [OF assms(1)]
  by (simp add: event_ok_simps)

lemma parseEvent_SelectionRequest_ok:
  assumes "readable P SelectionRequest_Encoding data sz" and "unat (hd data) AND EVENT_CODE_MASK = SELECTIONREQUEST"
  shows "parses 32 (parseEvent_SelectionRequest P conn data sz ws)"
  unfolding parseEvent_SelectionRequest_def
  using assms readable_bounds [OF assms(1)]
  by (simp add: event_ok_simps)

lemma parseEvent_SelectionNotify_ok:
  assumes "readable P SelectionNotify_Encoding data sz" and "unat (hd data) AND EVENT_CODE_MASK = SELECTIONNOTIFY"
  shows "parses 32 (parseEvent_SelectionNotify P conn data sz ws)"
  unfolding parseEvent_SelectionNotify_def
  using assms readable_bounds [OF assms(1)]
  by (simp add: event_ok_simps)

lemma parseEvent_ColormapNotify_ok:
  assumes "readable P ColormapNotify_Encoding data sz" and "unat (hd data) AND EVENT_CODE_MASK = COLORMAPNOTIFY"
  shows "parses 32 (parseEvent_ColormapNotify P conn data sz ws)"
  unfolding parseEvent_ColormapNotify_def
  using assms readable_bounds [OF assms(1)]
  by (simp add: event_ok_simps)

lemma parseEvent_ClientMessage_ok:
  assumes "readable P ClientMessage_Encoding data sz" and "unat (hd data) AND EVENT_CODE_MASK = CLIENTMESSAGE"
  shows "parses 32 (parseEvent_ClientMessage P conn data sz ws)"
  unfolding parseEvent_ClientMessage_def
  using assms readable_bounds [OF assms(1)]
  by (simp add: event_ok_simps)

lemma parseEvent_MappingNotify_ok:
  assumes "readable P MappingNotify_Encoding data sz" and "unat (hd data) AND EVENT_CODE_MASK = MAPPINGNOTIFY"
  shows "parses 32 (parseEvent_MappingNotify P conn data sz ws)"
  unfolding parseEvent_MappingNotify_def
  using assms readable_bounds [OF assms(1)]
  by (simp add: event_ok_simps)

subsection \<open>The text does not depend on the whitespace\<close>

lemma parseEvent_InputEvent_text:
  assumes "only_blanks ws" "only_blanks ws'" "fmt_pads_blank (fmtl P)"
  shows "same_text (parseEvent_InputEvent P conn data sz ws) (parseEvent_InputEvent P conn data sz ws')"
  unfolding parseEvent_InputEvent_def Let_def
  by (intro same_text_and_then same_text_requireI same_text_braces assms)

lemma parseEvent_KeyPress_text:
  assumes "only_blanks ws" "only_blanks ws'" "fmt_pads_blank (fmtl P)"
  shows "same_text (parseEvent_KeyPress P conn data sz ws) (parseEvent_KeyPress P conn data sz ws')"
  unfolding parseEvent_KeyPress_def Let_def
  by (intro same_text_and_then same_text_requireI parseEvent_InputEvent_text assms)

lemma parseEvent_KeyRelease_text:
  assumes "only_blanks ws" "only_blanks ws'" "fmt_pads_blank (fmtl P)"
  shows "same_text (parseEvent_KeyRelease P conn data sz ws) (parseEvent_KeyRelease P conn data sz ws')"
  unfolding parseEvent_KeyRelease_def Let_def
  by (intro same_text_and_then same_text_requireI parseEvent_InputEvent_text assms)

lemma parseEvent_ButtonPress_text:
  assumes "only_blanks ws" "only_blanks ws'" "fmt_pads_blank (fmtl P)"
  shows "same_text (parseEvent_ButtonPress P conn data sz ws) (parseEvent_ButtonPress P conn data sz ws')"
  unfolding parseEvent_ButtonPress_def Let_def
  by (intro same_text_and_then same_text_requireI parseEvent_InputEvent_text assms)

lemma parseEvent_ButtonRelease_text:
  assumes "only_blanks ws" "only_blanks ws'" "fmt_pads_blank (fmtl P)"
  shows "same_text (parseEvent_ButtonRelease P conn data sz ws) (parseEvent_ButtonRelease P conn data sz ws')"
  unfolding parseEvent_ButtonRelease_def Let_def
  by (intro same_text_and_then same_text_requireI parseEvent_InputEvent_text assms)

lemma parseEvent_MotionNotify_text:
  assumes "only_blanks ws" "only_blanks ws'" "fmt_pads_blank (fmtl P)"
  shows "same_text (parseEvent_MotionNotify P conn data sz ws) (parseEvent_MotionNotify P conn data sz ws')"
  unfolding parseEvent_MotionNotify_def Let_def
  by (intro same_text_and_then same_text_requireI same_text_braces assms)

lemma parseEvent_BoundaryEvent_text:
  assumes "only_blanks ws" "only_blanks ws'" "fmt_pads_blank (fmtl P)"
  shows "same_text (parseEvent_BoundaryEvent P conn data sz ws) (parseEvent_BoundaryEvent P conn data sz ws')"
  unfolding parseEvent_BoundaryEvent_def Let_def
  by (intro same_text_and_then same_text_requireI same_text_braces assms)

lemma parseEvent_EnterNotify_text:
  assumes "only_blanks ws" "only_blanks ws'" "fmt_pads_blank (fmtl P)"
  shows "same_text (parseEvent_EnterNotify P conn data sz ws) (parseEvent_EnterNotify P conn data sz ws')"
  unfolding parseEvent_EnterNotify_def Let_def
  by (intro same_text_and_then same_text_requireI parseEvent_BoundaryEvent_text assms)

lemma parseEvent_LeaveNotify_text:
  assumes "only_blanks ws" "only_blanks ws'" "fmt_pads_blank (fmtl P)"
  shows "same_text (parseEvent_LeaveNotify P conn data sz ws) (parseEvent_LeaveNotify P conn data sz ws')"
  unfolding parseEvent_LeaveNotify_def Let_def
  by (intro same_text_and_then same_text_requireI parseEvent_BoundaryEvent_text assms)

lemma parseEvent_FocusEvent_text:
  assumes "only_blanks ws" "only_blanks ws'" "fmt_pads_blank (fmtl P)"
  shows "same_text (parseEvent_FocusEvent P conn data sz ws) (parseEvent_FocusEvent P conn data sz ws')"
  unfolding parseEvent_FocusEvent_def Let_def
  by (intro same_text_and_then same_text_requireI same_text_braces assms)

lemma parseEvent_FocusIn_text:
  assumes "only_blanks ws" "only_blanks ws'" "fmt_pads_blank (fmtl P)"
  shows "same_text (parseEvent_FocusIn P conn data sz ws) (parseEvent_FocusIn P conn data sz ws')"
  unfolding parseEvent_FocusIn_def Let_def
  by (intro same_text_and_then same_text_requireI parseEvent_FocusEvent_text assms)

lemma parseEvent_FocusOut_text:
  assumes "only_blanks ws" "only_blanks ws'" "fmt_pads_blank (fmtl P)"
  shows "same_text (parseEvent_FocusOut P conn data sz ws) (parseEvent_FocusOut P conn data sz ws')"
  unfolding parseEvent_FocusOut_def Let_def
  by (intro same_text_and_then same_text_requireI parseEvent_FocusEvent_text assms)

lemma parseEvent_Expose_text:
  assumes "only_blanks ws" "only_blanks ws'" "fmt_pads_blank (fmtl P)"
  shows "same_text (parseEvent_Expose P conn data sz ws) (parseEvent_Expose P conn data sz ws')"
  unfolding parseEvent_Expose_def Let_def
  by (intro same_text_and_then same_text_requireI same_text_braces assms)

lemma parseEvent_GraphicsExposure_text:
  assumes "only_blanks ws" "only_blanks ws'" "fmt_pads_blank (fmtl P)"
  shows "same_text (parseEvent_GraphicsExposure P conn data sz ws) (parseEvent_GraphicsExposure P conn data sz ws')"
  unfolding parseEvent_GraphicsExposure_def Let_def
  by (intro same_text_and_then same_text_requireI same_text_braces assms)

lemma parseEvent_NoExposure_text:
  assumes "only_blanks ws" "only_blanks ws'" "fmt_pads_blank (fmtl P)"
  shows "same_text (parseEvent_NoExposure P conn data sz ws) (parseEvent_NoExposure P conn data sz ws')"
  unfolding parseEvent_NoExposure_def Let_def
  by (intro same_text_and_then same_text_requireI same_text_braces assms)

lemma parseEvent_VisibilityNotify_text:
  assumes "only_blanks ws" "only_blanks ws'" "fmt_pads_blank (fmtl P)"
  shows "same_text (parseEvent_VisibilityNotify P conn data sz ws) (parseEvent_VisibilityNotify P conn data sz ws')"
  unfolding parseEvent_VisibilityNotify_def Let_def
  by (intro same_text_and_then same_text_requireI same_text_braces assms)

lemma parseEvent_CreateNotify_text:
  assumes "only_blanks ws" "only_blanks ws'" "fmt_pads_blank (fmtl P)"
  shows "same_text (parseEvent_CreateNotify P conn data sz ws) (parseEvent_CreateNotify P conn data sz ws')"
  unfolding parseEvent_CreateNotify_def Let_def
  by (intro same_text_and_then same_text_requireI same_text_braces assms)

lemma parseEvent_DestroyNotify_text:
  assumes "only_blanks ws" "only_blanks ws'" "fmt_pads_blank (fmtl P)"
  shows "same_text (parseEvent_DestroyNotify P conn data sz ws) (parseEvent_DestroyNotify P conn data sz ws')"
  unfolding parseEvent_DestroyNotify_def Let_def
  by (intro same_text_and_then same_text_requireI same_text_braces assms)

lemma parseEvent_UnmapNotify_text:
  assumes "only_blanks ws" "only_blanks ws'" "fmt_pads_blank (fmtl P)"
  shows "same_text (parseEvent_UnmapNotify P conn data sz ws) (parseEvent_UnmapNotify P conn data sz ws')"
  unfolding parseEvent_UnmapNotify_def Let_def
  by (intro same_text_and_then same_text_requireI same_text_braces assms)

lemma parseEvent_MapNotify_text:
  assumes "only_blanks ws" "only_blanks ws'" "fmt_pads_blank (fmtl P)"
  shows "same_text (parseEvent_MapNotify P conn data sz ws) (parseEvent_MapNotify P conn data sz ws')"
  unfolding parseEvent_MapNotify_def Let_def
  by (intro same_text_and_then same_text_requireI same_text_braces assms)

lemma parseEvent_MapRequest_text:
  assumes "only_blanks ws" "only_blanks ws'" "fmt_pads_blank (fmtl P)"
  shows "same_text (parseEvent_MapRequest P conn data sz ws) (parseEvent_MapRequest P conn data sz ws')"
  unfolding parseEvent_MapRequest_def Let_def
  by (intro same_text_and_then same_text_requireI same_text_braces assms)

lemma parseEvent_ReparentNotify_text:
  assumes "only_blanks ws" "only_blanks ws'" "fmt_pads_blank (fmtl P)"
  shows "same_text (parseEvent_ReparentNotify P conn data sz ws) (parseEvent_ReparentNotify P conn data sz ws')"
  unfolding parseEvent_ReparentNotify_def Let_def
  by (intro same_text_and_then same_text_requireI same_text_braces assms)

lemma parseEvent_ConfigureNotify_text:
  assumes "only_blanks ws" "only_blanks ws'" "fmt_pads_blank (fmtl P)"
  shows "same_text (parseEvent_ConfigureNotify P conn data sz ws) (parseEvent_ConfigureNotify P conn data sz ws')"
  unfolding parseEvent_ConfigureNotify_def Let_def
  by (intro same_text_and_then same_text_requireI same_text_braces assms)

lemma parseEvent_ConfigureRequest_text:
  assumes "only_blanks ws" "only_blanks ws'" "fmt_pads_blank (fmtl P)"
  shows "same_text (parseEvent_ConfigureRequest P conn data sz ws) (parseEvent_ConfigureRequest P conn data sz ws')"
  unfolding parseEvent_ConfigureRequest_def Let_def
  by (intro same_text_and_then same_text_requireI same_text_braces assms)

lemma parseEvent_GravityNotify_text:
  assumes "only_blanks ws" "only_blanks ws'" "fmt_pads_blank (fmtl P)"
  shows "same_text (parseEvent_GravityNotify P conn data sz ws) (parseEvent_GravityNotify P conn data sz ws')"
  unfolding parseEvent_GravityNotify_def Let_def
  by (intro same_text_and_then same_text_requireI same_text_braces assms)

lemma parseEvent_ResizeRequest_text:
  assumes "only_blanks ws" "only_blanks ws'" "fmt_pads_blank (fmtl P)"
  shows "same_text (parseEvent_ResizeRequest P conn data sz ws) (parseEvent_ResizeRequest P conn data sz ws')"
  unfolding parseEvent_ResizeRequest_def Let_def
  by (intro same_text_and_then same_text_requireI same_text_braces assms)

lemma parseEvent_CirculateNotify_text:
  assumes "only_blanks ws" "only_blanks ws'" "fmt_pads_blank (fmtl P)"
  shows "same_text (parseEvent_CirculateNotify P conn data sz ws) (parseEvent_CirculateNotify P conn data sz ws')"
  unfolding parseEvent_CirculateNotify_def Let_def
  by (intro same_text_and_then same_text_requireI same_text_braces assms)

lemma parseEvent_CirculateRequest_text:
  assumes "only_blanks ws" "only_blanks ws'" "fmt_pads_blank (fmtl P)"
  shows "same_text (parseEvent_CirculateRequest P conn data sz ws) (parseEvent_CirculateRequest P conn data sz ws')"
  unfolding parseEvent_CirculateRequest_def Let_def
  by (intro same_text_and_then same_text_requireI same_text_braces assms)

lemma parseEvent_PropertyNotify_text:
  assumes "only_blanks ws" "only_blanks ws'" "fmt_pads_blank (fmtl P)"
  shows "same_text (parseEvent_PropertyNotify P conn data sz ws) (parseEvent_PropertyNotify P conn data sz ws')"
  unfolding parseEvent_PropertyNotify_def Let_def
  by (intro same_text_and_then same_text_requireI same_text_braces assms)

lemma parseEvent_SelectionClear_text:
  assumes "only_blanks ws" "only_blanks ws'" "fmt_pads_blank (fmtl P)"
  shows "same_text (parseEvent_SelectionClear P conn data sz ws) (parseEvent_SelectionClear P conn data sz ws')"
  unfolding parseEvent_SelectionClear_def Let_def
  by (intro same_text_and_then same_text_requireI same_text_braces assms)

lemma parseEvent_SelectionRequest_text:
  assumes "only_blanks ws" "only_blanks ws'" "fmt_pads_blank (fmtl P)"
  shows "same_text (parseEvent_SelectionRequest P conn data sz ws) (parseEvent_SelectionRequest P conn data sz ws')"
  unfolding parseEvent_SelectionRequest_def Let_def
  by (intro same_text_and_then same_text_requireI same_text_braces assms)

lemma parseEvent_SelectionNotify_text:
  assumes "only_blanks ws" "only_blanks ws'" "fmt_pads_blank (fmtl P)"
  shows "same_text (parseEvent_SelectionNotify P conn data sz ws) (parseEvent_SelectionNotify P conn data sz ws')"
  unfolding parseEvent_SelectionNotify_def Let_def
  by (intro same_text_and_then same_text_requireI same_text_braces assms)

lemma parseEvent_ColormapNotify_text:
  assumes "only_blanks ws" "only_blanks ws'" "fmt_pads_blank (fmtl P)"
  shows "same_text (parseEvent_ColormapNotify P conn data sz ws) (parseEvent_ColormapNotify P conn data sz ws')"
  unfolding parseEvent_ColormapNotify_def Let_def
  by (intro same_text_and_then same_text_requireI same_text_braces assms)

lemma parseEvent_ClientMessage_text:
  assumes "only_blanks ws" "only_blanks ws'" "fmt_pads_blank (fmtl P)"
  shows "same_text (parseEvent_ClientMessage P conn data sz ws) (parseEvent_ClientMessage P conn data sz ws')"
  unfolding parseEvent_ClientMessage_def Let_def
  by (intro same_text_and_then same_text_requireI same_text_braces assms)

lemma parseEvent_MappingNotify_text:
  assumes "only_blanks ws" "only_blanks ws'" "fmt_pads_blank (fmtl P)"
  shows "same_text (parseEvent_MappingNotify P conn data sz ws) (parseEvent_MappingNotify P conn data sz ws')"
  unfolding parseEvent_MappingNotify_def Let_def
  by (intro same_text_and_then same_text_requireI same_text_braces assms)

subsection \<open>The connection matters only by its byte order\<close>

lemma parseEvent_InputEvent_conn:
  "byteswap c = byteswap c' \<Longrightarrow> parseEvent_InputEvent P c data sz ws = parseEvent_InputEvent P c' data sz ws"
  by (simp add: parseEvent_InputEvent_def)

lemma parseEvent_KeyPress_conn:
  "byteswap c = byteswap c' \<Longrightarrow> parseEvent_KeyPress P c data sz ws = parseEvent_KeyPress P c' data sz ws"
  by (simp add: parseEvent_KeyPress_def parseEvent_InputEvent_conn [of c c'])

lemma parseEvent_KeyRelease_conn:
  "byteswap c = byteswap c' \<Longrightarrow> parseEvent_KeyRelease P c data sz ws = parseEvent_KeyRelease P c' data sz ws"
  by (simp add: parseEvent_KeyRelease_def parseEvent_InputEvent_conn [of c c'])

lemma parseEvent_ButtonPress_conn:
  "byteswap c = byteswap c' \<Longrightarrow> parseEvent_ButtonPress P c data sz ws = parseEvent_ButtonPress P c' data sz ws"
  by (simp add: parseEvent_ButtonPress_def parseEvent_InputEvent_conn [of c c'])

lemma parseEvent_ButtonRelease_conn:
  "byteswap c = byteswap c' \<Longrightarrow> parseEvent_ButtonRelease P c data sz ws = parseEvent_ButtonRelease P c' data sz ws"
  by (simp add: parseEvent_ButtonRelease_def parseEvent_InputEvent_conn [of c c'])

lemma parseEvent_MotionNotify_conn:
  "byteswap c = byteswap c' \<Longrightarrow> parseEvent_MotionNotify P c data sz ws = parseEvent_MotionNotify P c' data sz ws"
  by (simp add: parseEvent_MotionNotify_def)

lemma parseEvent_BoundaryEvent_conn:
  "byteswap c = byteswap c' \<Longrightarrow> parseEvent_BoundaryEvent P c data sz ws = parseEvent_BoundaryEvent P c' data sz ws"
  by (simp add: parseEvent_BoundaryEvent_def)

lemma parseEvent_EnterNotify_conn:
  "byteswap c = byteswap c' \<Longrightarrow> parseEvent_EnterNotify P c data sz ws = parseEvent_EnterNotify P c' data sz ws"
  by (simp add: parseEvent_EnterNotify_def parseEvent_BoundaryEvent_conn [of c c'])

lemma parseEvent_LeaveNotify_conn:
  "byteswap c = byteswap c' \<Longrightarrow> parseEvent_LeaveNotify P c data sz ws = parseEvent_LeaveNotify P c' data sz ws"
  by (simp add: parseEvent_LeaveNotify_def parseEvent_BoundaryEvent_conn [of c c'])

lemma parseEvent_FocusEvent_conn:
  "byteswap c = byteswap c' \<Longrightarrow> parseEvent_FocusEvent P c data sz ws = parseEvent_FocusEvent P c' data sz ws"
  by (simp add: parseEvent_FocusEvent_def)

lemma parseEvent_FocusIn_conn:
  "byteswap c = byteswap c' \<Longrightarrow> parseEvent_FocusIn P c data sz ws = parseEvent_FocusIn P c' data sz ws"
  by (simp add: parseEvent_FocusIn_def parseEvent_FocusEvent_conn [of c c'])

lemma parseEvent_FocusOut_conn:
  "byteswap c = byteswap c' \<Longrightarrow> parseEvent_FocusOut P c data sz ws = parseEvent_FocusOut P c' data sz ws"
  by (simp add: parseEvent_FocusOut_def parseEvent_FocusEvent_conn [of c c'])

lemma parseEvent_KeymapNotify_conn:
  "byteswap c = byteswap c' \<Longrightarrow> parseEvent_KeymapNotify P c data sz ws = parseEvent_KeymapNotify P c' data sz ws"
  by (simp add: parseEvent_KeymapNotify_def)

lemma parseEvent_Expose_conn:
  "byteswap c = byteswap c' \<Longrightarrow> parseEvent_Expose P c data sz ws = parseEvent_Expose P c' data sz ws"
  by (simp add: parseEvent_Expose_def)

lemma parseEvent_GraphicsExposure_conn:
  "byteswap c = byteswap c' \<Longrightarrow> parseEvent_GraphicsExposure P c data sz ws = parseEvent_GraphicsExposure P c' data sz ws"
  by (simp add: parseEvent_GraphicsExposure_def)

lemma parseEvent_NoExposure_conn:
  "byteswap c = byteswap c' \<Longrightarrow> parseEvent_NoExposure P c data sz ws = parseEvent_NoExposure P c' data sz ws"
  by (simp add: parseEvent_NoExposure_def)

lemma parseEvent_VisibilityNotify_conn:
  "byteswap c = byteswap c' \<Longrightarrow> parseEvent_VisibilityNotify P c data sz ws = parseEvent_VisibilityNotify P c' data sz ws"
  by (simp add: parseEvent_VisibilityNotify_def)

lemma parseEvent_CreateNotify_conn:
  "byteswap c = byteswap c' \<Longrightarrow> parseEvent_CreateNotify P c data sz ws = parseEvent_CreateNotify P c' data sz ws"
  by (simp add: parseEvent_CreateNotify_def)

lemma parseEvent_DestroyNotify_conn:
  "byteswap c = byteswap c' \<Longrightarrow> parseEvent_DestroyNotify P c data sz ws = parseEvent_DestroyNotify P c' data sz ws"
  by (simp add: parseEvent_DestroyNotify_def)

lemma parseEvent_UnmapNotify_conn:
  "byteswap c = byteswap c' \<Longrightarrow> parseEvent_UnmapNotify P c data sz ws = parseEvent_UnmapNotify P c' data sz ws"
  by (simp add: parseEvent_UnmapNotify_def)

lemma parseEvent_MapNotify_conn:
  "byteswap c = byteswap c' \<Longrightarrow> parseEvent_MapNotify P c data sz ws = parseEvent_MapNotify P c' data sz ws"
  by (simp add: parseEvent_MapNotify_def)

lemma parseEvent_MapRequest_conn:
  "byteswap c = byteswap c' \<Longrightarrow> parseEvent_MapRequest P c data sz ws = parseEvent_MapRequest P c' data sz ws"
  by (simp add: parseEvent_MapRequest_def)

lemma parseEvent_ReparentNotify_conn:
  "byteswap c = byteswap c' \<Longrightarrow> parseEvent_ReparentNotify P c data sz ws = parseEvent_ReparentNotify P c' data sz ws"
  by (simp add: parseEvent_ReparentNotify_def)

lemma parseEvent_ConfigureNotify_conn:
  "byteswap c = byteswap c' \<Longrightarrow> parseEvent_ConfigureNotify P c data sz ws = parseEvent_ConfigureNotify P c' data sz ws"
  by (simp add: parseEvent_ConfigureNotify_def)

lemma parseEvent_ConfigureRequest_conn:
  "byteswap c = byteswap c' \<Longrightarrow> parseEvent_ConfigureRequest P c data sz ws = parseEvent_ConfigureRequest P c' data sz ws"
  by (simp add: parseEvent_ConfigureRequest_def)

lemma parseEvent_GravityNotify_conn:
  "byteswap c = byteswap c' \<Longrightarrow> parseEvent_GravityNotify P c data sz ws = parseEvent_GravityNotify P c' data sz ws"
  by (simp add: parseEvent_GravityNotify_def)

lemma parseEvent_ResizeRequest_conn:
  "byteswap c = byteswap c' \<Longrightarrow> parseEvent_ResizeRequest P c data sz ws = parseEvent_ResizeRequest P c' data sz ws"
  by (simp add: parseEvent_ResizeRequest_def)

lemma parseEvent_CirculateNotify_conn:
  "byteswap c = byteswap c' \<Longrightarrow> parseEvent_CirculateNotify P c data sz ws = parseEvent_CirculateNotify P c' data sz ws"
  by (simp add: parseEvent_CirculateNotify_def)

lemma parseEvent_CirculateRequest_conn:
  "byteswap c = byteswap c' \<Longrightarrow> parseEvent_CirculateRequest P c data sz ws = parseEvent_CirculateRequest P c' data sz ws"
  by (simp add: parseEvent_CirculateRequest_def)

lemma parseEvent_PropertyNotify_conn:
  "byteswap c = byteswap c' \<Longrightarrow> parseEvent_PropertyNotify P c data sz ws = parseEvent_PropertyNotify P c' data sz ws"
  by (simp add: parseEvent_PropertyNotify_def)

lemma parseEvent_SelectionClear_conn:
  "byteswap c = byteswap c' \<Longrightarrow> parseEvent_SelectionClear P c data sz ws = parseEvent_SelectionClear P c' data sz ws"
  by (simp add: parseEvent_SelectionClear_def)

lemma parseEvent_SelectionRequest_conn:
  "byteswap c = byteswap c' \<Longrightarrow> parseEvent_SelectionRequest P c data sz ws = parseEvent_SelectionRequest P c' data sz ws"
  by (simp add: parseEvent_SelectionRequest_def)

lemma parseEvent_SelectionNotify_conn:
  "byteswap c = byteswap c' \<Longrightarrow> parseEvent_SelectionNotify P c data sz ws = parseEvent_SelectionNotify P c' data sz ws"
  by (simp add: parseEvent_SelectionNotify_def)

lemma parseEvent_ColormapNotify_conn:
  "byteswap c = byteswap c' \<Longrightarrow> parseEvent_ColormapNotify P c data sz ws = parseEvent_ColormapNotify P c' data sz ws"
  by (simp add: parseEvent_ColormapNotify_def)

lemma parseEvent_ClientMessage_conn:
  "byteswap c = byteswap c' \<Longrightarrow> parseEvent_ClientMessage P c data sz ws = parseEvent_ClientMessage P c' data sz ws"
  by (simp add: parseEvent_ClientMessage_def)

lemma parseEvent_MappingNotify_conn:
  "byteswap c = byteswap c' \<Longrightarrow> parseEvent_MappingNotify P c data sz ws = parseEvent_MappingNotify P c' data sz ws"
  by (simp add: parseEvent_MappingNotify_def)

subsection \<open>\<open>KeymapNotify\<close>: a list inside an event\<close>

lemma nested_singleline:
  "\<exists>ws'. nested FORCE_SINGLELINE ws = Inr ws' \<and> memb_indent ws' = [] \<and> encl_indent ws' = [] \<and>
     equals ws' = ''='' \<and> separator ws' = '' ''"
  by (simp add: nested_def FORCE_SINGLELINE_def Whitespace3_def)

lemma list_text_cong:
  "memb_indent ws = memb_indent ws' \<Longrightarrow> encl_indent ws = encl_indent ws' \<Longrightarrow>
   separator ws = separator ws' \<Longrightarrow> list_text ws xs = list_text ws' xs"
  by (simp add: list_text_def)

lemma keys_ok:
  assumes "32 \<le> length data"
  shows "\<exists>keys. read_bytes data 1 31 = Inr (take 31 (drop 1 data)) \<and>
    (\<forall>ws. parseLISTof_int P CARD8 (take 31 (drop 1 data)) 31 31 bsw ws no_names NOT_BITMASK =
      Inr \<lparr>str = list_text ws keys, bytes_parsed = 31\<rparr>)"
proof -
  have "value_ok CARD8 n" for n
    by (simp add: value_ok_def)
  then have "parseLISTof_int P CARD8 (take 31 (drop 1 data)) 31 31 bsw ws no_names NOT_BITMASK =
      Inr \<lparr>str = list_text ws (map (\<lambda>i. the_text (formatVariable P CARD8
             (member_at P CARD8 (take 31 (drop 1 data)) i) bsw range_none NOT_BITMASK)) [0 ..< 31]),
           bytes_parsed = 31\<rparr>" for ws
    using parseLISTof_int_eq [where P = P and t = CARD8 and memb_ct = 31 and sz = 31
        and data = "take 31 (drop 1 data)" and r = range_none and names' = no_names
        and bm = NOT_BITMASK and bsw = bsw and ws = ws] assms
    by (simp add: no_names_def names_ok_def)
  with assms show ?thesis
    by auto
qed

lemma parseEvent_KeymapNotify_ok:
  assumes "readable P KeymapNotify_Encoding data sz"
    and "unat (hd data) AND EVENT_CODE_MASK = KEYMAPNOTIFY"
  shows "parses 32 (parseEvent_KeymapNotify P conn data sz ws)"
proof -
  obtain ws' where ws': "nested FORCE_SINGLELINE ws = Inr ws'"
    using nested_singleline by blast
  obtain keys where "read_bytes data 1 31 = Inr (take 31 (drop 1 data))"
    and "\<And>ws. parseLISTof_int P CARD8 (take 31 (drop 1 data)) 31 31 (byteswap conn) ws no_names
        NOT_BITMASK = Inr \<lparr>str = list_text ws keys, bytes_parsed = 31\<rparr>"
    using keys_ok readable_bounds(2) [OF assms(1)] by (metis sizeof_KeymapNotify_Encoding zero_less_numeral)
  with ws' show ?thesis
    unfolding parseEvent_KeymapNotify_def
    using assms readable_bounds [OF assms(1)]
    by (simp add: event_ok_simps)
qed

lemma parseEvent_KeymapNotify_text:
  assumes "only_blanks ws" "only_blanks ws'" "fmt_pads_blank (fmtl P)"
  shows "same_text (parseEvent_KeymapNotify P conn data sz ws) (parseEvent_KeymapNotify P conn data sz ws')"
proof -
  obtain k k' where k: "nested FORCE_SINGLELINE ws = Inr k" "nested FORCE_SINGLELINE ws' = Inr k'"
    and eq: "memb_indent k = memb_indent k'" "encl_indent k = encl_indent k'" "separator k = separator k'"
    using nested_singleline [of ws] nested_singleline [of ws'] by metis
  have am: "append_member k = append_member k'"
    using eq by (simp add: append_member_def fun_eq_iff)
  have "parse_members f d n k m out = parse_members f d n k' m out" for f d n m out
    by (induction m arbitrary: out) (simp_all add: am)
  then have "parseLISTof_int P CARD8 d 31 31 bsw k no_names NOT_BITMASK =
      parseLISTof_int P CARD8 d 31 31 bsw k' no_names NOT_BITMASK" for d bsw
    using eq by (simp add: parseLISTof_int_def parseLISTof_def)
  then show ?thesis
    unfolding parseEvent_KeymapNotify_def Let_def k and_then_simps
    by (simp only:) (intro same_text_and_then same_text_requireI same_text_braces assms)
qed

end
