(* ===== verification/ErrorCodec.thy ===== *)
theory ErrorCodec
  imports Format
begin

text \<open>
  The errors: codes, names and encodings (\<open>protocol/errors.hpp\<close>) and the error parsers
  (\<open>X11ProtocolParser__parseError.cpp\<close>), in the order of the files. The error codes have
  the names of resource types, so they carry the prefix \<open>error_\<close>.
\<close>

definition ERROR_PREFIX :: nat where
  \<comment> \<open>\<open>Response::ERROR_PREFIX\<close>, also \<open>Error::ERROR\<close>\<close>
  "ERROR_PREFIX = 0"

definition REPLY_PREFIX :: nat where
  "REPLY_PREFIX = 1"

definition Error_ENCODING_SZ :: size_t where
  "Error_ENCODING_SZ = 32"

subsection \<open>Codes\<close>

definition error_REQUEST :: nat where
  "error_REQUEST = 1"

definition error_VALUE :: nat where
  "error_VALUE = 2"

definition error_WINDOW :: nat where
  "error_WINDOW = 3"

definition error_PIXMAP :: nat where
  "error_PIXMAP = 4"

definition error_ATOM :: nat where
  "error_ATOM = 5"

definition error_CURSOR :: nat where
  "error_CURSOR = 6"

definition error_FONT :: nat where
  "error_FONT = 7"

definition error_MATCH :: nat where
  "error_MATCH = 8"

definition error_DRAWABLE :: nat where
  "error_DRAWABLE = 9"

definition error_ACCESS :: nat where
  "error_ACCESS = 10"

definition error_ALLOC :: nat where
  "error_ALLOC = 11"

definition error_COLORMAP :: nat where
  "error_COLORMAP = 12"

definition error_GCONTEXT :: nat where
  "error_GCONTEXT = 13"

definition error_IDCHOICE :: nat where
  "error_IDCHOICE = 14"

definition error_NAME :: nat where
  "error_NAME = 15"

definition error_LENGTH :: nat where
  "error_LENGTH = 16"

definition error_IMPLEMENTATION :: nat where
  "error_IMPLEMENTATION = 17"

lemmas error_codes_defs =
  error_REQUEST_def error_VALUE_def error_WINDOW_def error_PIXMAP_def
  error_ATOM_def error_CURSOR_def error_FONT_def error_MATCH_def
  error_DRAWABLE_def error_ACCESS_def error_ALLOC_def error_COLORMAP_def
  error_GCONTEXT_def error_IDCHOICE_def error_NAME_def error_LENGTH_def
  error_IMPLEMENTATION_def

subsection \<open>Encodings\<close>

definition Error_Header :: layout where
  "Error_Header =
     [(''error'', CARD8), (''code'', CARD8), (''sequence_num'', CARD16)]"

definition Error_Encoding :: layout where
  "Error_Encoding =
     embed ''header'' Error_Header @
     [(''_unused1'', CARD32), (''minor_opcode'', CARD16), (''major_opcode'', CARD8),
      (''_unused2'', Bytes 21)]"

definition error_ResourceIdError_Encoding :: layout where
  "error_ResourceIdError_Encoding =
     embed ''header'' Error_Header @
     [(''bad_resource_id'', CARD32), (''minor_opcode'', CARD16), (''major_opcode'', CARD8),
      (''_unused2'', Bytes 21)]"

definition error_Value_Encoding :: layout where
  "error_Value_Encoding =
     embed ''header'' Error_Header @
     [(''bad_value'', CARD32), (''minor_opcode'', CARD16), (''major_opcode'', CARD8),
      (''_unused'', Bytes 21)]"

definition error_Atom_Encoding :: layout where
  "error_Atom_Encoding =
     embed ''header'' Error_Header @
     [(''bad_atom_id'', CARD32), (''minor_opcode'', CARD16), (''major_opcode'', CARD8),
      (''_unused2'', Bytes 21)]"

definition error_names :: "string list" where
  "error_names =
     ['''', ''Request'', ''Value'', ''Window'', ''Pixmap'', ''Atom'', ''Cursor'', ''Font'',
      ''Match'', ''Drawable'', ''Access'', ''Alloc'', ''Colormap'', ''GContext'', ''IDChoice'',
      ''Name'', ''Length'', ''Implementation'']"

lemmas error_layouts =
  Error_Header_def
  Error_Encoding_def
  error_ResourceIdError_Encoding_def
  error_Value_Encoding_def
  error_Atom_Encoding_def

type_synonym error_parser =
  "parser \<Rightarrow> connection \<Rightarrow> byte list \<Rightarrow> size_t \<Rightarrow> parsing_outputs res"

subsection \<open>Parsers\<close>

definition parseError_SimpleError :: error_parser where
  "parseError_SimpleError P conn data sz =
     (let ws = ROOT_WS P; bsw = byteswap conn; enc = member P bsw Error_Encoding data in
      require (sz \<ge> Error_ENCODING_SZ) (
      and_then (ordered_member P bsw Error_Encoding data ''header.error'') (\<lambda>err.
      require (err = ERROR_PREFIX) (
      require (sizeof Error_Encoding = unat Error_ENCODING_SZ) (
      outputs_of Error_Encoding (braces P ws
        (name_width ws (if verbose (settings P) then ''(sequence number)'' else ''(minor opcode)''))
          [verbose_only ''error'' (enc ''header.error'' no_names NOT_BITMASK),
           verbose_only ''code'' (enc ''header.code'' no_names NOT_BITMASK),
           verbose_only ''(sequence number)'' (enc ''header.sequence_num'' no_names NOT_BITMASK),
           always ''(minor opcode)'' (enc ''minor_opcode'' no_names NOT_BITMASK),
           always ''(major opcode)'' (enc ''major_opcode'' no_names NOT_BITMASK)]))))))"

definition parseError_ResourceIdError :: error_parser where
  "parseError_ResourceIdError P conn data sz =
     (let ws = ROOT_WS P; bsw = byteswap conn; enc = member P bsw error_ResourceIdError_Encoding data in
      require (sz \<ge> Error_ENCODING_SZ) (
      and_then (ordered_member P bsw error_ResourceIdError_Encoding data ''header.error'') (\<lambda>err.
      require (err = ERROR_PREFIX) (
      require (sizeof error_ResourceIdError_Encoding = unat Error_ENCODING_SZ) (
      outputs_of error_ResourceIdError_Encoding (braces P ws
        (name_width ws (if verbose (settings P) then ''(sequence number)'' else ''(bad resource id)''))
          [verbose_only ''error'' (enc ''header.error'' no_names NOT_BITMASK),
           verbose_only ''code'' (enc ''header.code'' no_names NOT_BITMASK),
           verbose_only ''(sequence number)'' (enc ''header.sequence_num'' no_names NOT_BITMASK),
           always ''(bad resource id)'' (enc ''bad_resource_id'' no_names NOT_BITMASK),
           always ''(minor opcode)'' (enc ''minor_opcode'' no_names NOT_BITMASK),
           always ''(major opcode)'' (enc ''major_opcode'' no_names NOT_BITMASK)]))))))"

definition parseError_Request :: error_parser where
  "parseError_Request P conn data sz =
     require (unat sz \<ge> sizeof Error_Header) (
     and_then (ordered_member P (byteswap conn) Error_Header data ''code'') (\<lambda>code.
     require (code = error_REQUEST) (
     parseError_SimpleError P conn data sz)))"

definition parseError_Value :: error_parser where
  "parseError_Value P conn data sz =
     (let ws = ROOT_WS P; bsw = byteswap conn; enc = member P bsw error_Value_Encoding data in
      require (sz \<ge> Error_ENCODING_SZ) (
      and_then (ordered_member P bsw error_Value_Encoding data ''header.error'') (\<lambda>err.
      require (err = ERROR_PREFIX) (
      and_then (ordered_member P bsw error_Value_Encoding data ''header.code'') (\<lambda>code.
      require (code = error_VALUE) (
      require (sizeof error_Value_Encoding = unat Error_ENCODING_SZ) (
      outputs_of error_Value_Encoding (braces P ws
        (name_width ws (if verbose (settings P) then ''(sequence number)'' else ''(bad resource id)''))
          [verbose_only ''error'' (enc ''header.error'' no_names NOT_BITMASK),
           verbose_only ''code'' (enc ''header.code'' no_names NOT_BITMASK),
           verbose_only ''(sequence number)'' (enc ''header.sequence_num'' no_names NOT_BITMASK),
           always ''(bad value)'' (enc ''bad_value'' no_names NOT_BITMASK),
           always ''(minor opcode)'' (enc ''minor_opcode'' no_names NOT_BITMASK),
           always ''(major opcode)'' (enc ''major_opcode'' no_names NOT_BITMASK)]))))))))"

definition parseError_Window :: error_parser where
  "parseError_Window P conn data sz =
     require (unat sz \<ge> sizeof Error_Header) (
     and_then (ordered_member P (byteswap conn) Error_Header data ''code'') (\<lambda>code.
     require (code = error_WINDOW) (
     parseError_ResourceIdError P conn data sz)))"

definition parseError_Pixmap :: error_parser where
  "parseError_Pixmap P conn data sz =
     require (unat sz \<ge> sizeof Error_Header) (
     and_then (ordered_member P (byteswap conn) Error_Header data ''code'') (\<lambda>code.
     require (code = error_PIXMAP) (
     parseError_ResourceIdError P conn data sz)))"

definition parseError_Atom :: error_parser where
  "parseError_Atom P conn data sz =
     (let ws = ROOT_WS P; bsw = byteswap conn; enc = member P bsw error_Atom_Encoding data in
      require (sz \<ge> Error_ENCODING_SZ) (
      and_then (ordered_member P bsw error_Atom_Encoding data ''header.error'') (\<lambda>err.
      require (err = ERROR_PREFIX) (
      and_then (ordered_member P bsw error_Atom_Encoding data ''header.code'') (\<lambda>code.
      require (code = error_ATOM) (
      require (sizeof error_Atom_Encoding = unat Error_ENCODING_SZ) (
      outputs_of error_Atom_Encoding (braces P ws
        (name_width ws (if verbose (settings P) then ''(sequence number)'' else ''(bad resource id)''))
          [verbose_only ''error'' (enc ''header.error'' no_names NOT_BITMASK),
           verbose_only ''code'' (enc ''header.code'' no_names NOT_BITMASK),
           verbose_only ''(sequence number)'' (enc ''header.sequence_num'' no_names NOT_BITMASK),
           always ''(bad atom id)'' (enc ''bad_atom_id'' no_names NOT_BITMASK),
           always ''(minor opcode)'' (enc ''minor_opcode'' no_names NOT_BITMASK),
           always ''(major opcode)'' (enc ''major_opcode'' no_names NOT_BITMASK)]))))))))"

definition parseError_Cursor :: error_parser where
  "parseError_Cursor P conn data sz =
     require (unat sz \<ge> sizeof Error_Header) (
     and_then (ordered_member P (byteswap conn) Error_Header data ''code'') (\<lambda>code.
     require (code = error_CURSOR) (
     parseError_ResourceIdError P conn data sz)))"

definition parseError_Font :: error_parser where
  "parseError_Font P conn data sz =
     require (unat sz \<ge> sizeof Error_Header) (
     and_then (ordered_member P (byteswap conn) Error_Header data ''code'') (\<lambda>code.
     require (code = error_FONT) (
     parseError_ResourceIdError P conn data sz)))"

definition parseError_Match :: error_parser where
  "parseError_Match P conn data sz =
     require (unat sz \<ge> sizeof Error_Header) (
     and_then (ordered_member P (byteswap conn) Error_Header data ''code'') (\<lambda>code.
     require (code = error_MATCH) (
     parseError_SimpleError P conn data sz)))"

definition parseError_Drawable :: error_parser where
  "parseError_Drawable P conn data sz =
     require (unat sz \<ge> sizeof Error_Header) (
     and_then (ordered_member P (byteswap conn) Error_Header data ''code'') (\<lambda>code.
     require (code = error_DRAWABLE) (
     parseError_ResourceIdError P conn data sz)))"

definition parseError_Access :: error_parser where
  "parseError_Access P conn data sz =
     require (unat sz \<ge> sizeof Error_Header) (
     and_then (ordered_member P (byteswap conn) Error_Header data ''code'') (\<lambda>code.
     require (code = error_ACCESS) (
     parseError_SimpleError P conn data sz)))"

definition parseError_Alloc :: error_parser where
  "parseError_Alloc P conn data sz =
     require (unat sz \<ge> sizeof Error_Header) (
     and_then (ordered_member P (byteswap conn) Error_Header data ''code'') (\<lambda>code.
     require (code = error_ALLOC) (
     parseError_SimpleError P conn data sz)))"

definition parseError_Colormap :: error_parser where
  "parseError_Colormap P conn data sz =
     require (unat sz \<ge> sizeof Error_Header) (
     and_then (ordered_member P (byteswap conn) Error_Header data ''code'') (\<lambda>code.
     require (code = error_COLORMAP) (
     parseError_ResourceIdError P conn data sz)))"

definition parseError_GContext :: error_parser where
  "parseError_GContext P conn data sz =
     require (unat sz \<ge> sizeof Error_Header) (
     and_then (ordered_member P (byteswap conn) Error_Header data ''code'') (\<lambda>code.
     require (code = error_GCONTEXT) (
     parseError_ResourceIdError P conn data sz)))"

definition parseError_IDChoice :: error_parser where
  "parseError_IDChoice P conn data sz =
     require (unat sz \<ge> sizeof Error_Header) (
     and_then (ordered_member P (byteswap conn) Error_Header data ''code'') (\<lambda>code.
     require (code = error_IDCHOICE) (
     parseError_ResourceIdError P conn data sz)))"

definition parseError_Name :: error_parser where
  "parseError_Name P conn data sz =
     require (unat sz \<ge> sizeof Error_Header) (
     and_then (ordered_member P (byteswap conn) Error_Header data ''code'') (\<lambda>code.
     require (code = error_NAME) (
     parseError_SimpleError P conn data sz)))"

definition parseError_Length :: error_parser where
  "parseError_Length P conn data sz =
     require (unat sz \<ge> sizeof Error_Header) (
     and_then (ordered_member P (byteswap conn) Error_Header data ''code'') (\<lambda>code.
     require (code = error_LENGTH) (
     parseError_SimpleError P conn data sz)))"

definition parseError_Implementation :: error_parser where
  "parseError_Implementation P conn data sz =
     require (unat sz \<ge> sizeof Error_Header) (
     and_then (ordered_member P (byteswap conn) Error_Header data ''code'') (\<lambda>code.
     require (code = error_IMPLEMENTATION) (
     parseError_SimpleError P conn data sz)))"

subsection \<open>Every error is parsed\<close>

lemma unat_Error_ENCODING_SZ [simp]: "unat Error_ENCODING_SZ = 32"
  by (simp add: Error_ENCODING_SZ_def)

lemma Error_ENCODING_SZ_le [simp]: "Error_ENCODING_SZ \<le> sz \<longleftrightarrow> 32 \<le> unat sz"
  by (simp add: word_le_nat_alt)

lemma sizeof_error_layouts [simp]:
  "sizeof Error_Encoding = 32"
  "sizeof error_ResourceIdError_Encoding = 32"
  "sizeof error_Value_Encoding = 32"
  "sizeof error_Atom_Encoding = 32"
  "sizeof Error_Header = 4"
  by (simp_all add: error_layouts)

lemmas error_fits_defs =
  member_fits_def embed_def names_ok_def no_names_def NOT_BITMASK_def error_layouts

lemma Error_Encoding_fits:
  "member_fits Error_Encoding ''header.error'' no_names NOT_BITMASK"
  "member_fits Error_Encoding ''header.code'' no_names NOT_BITMASK"
  "member_fits Error_Encoding ''header.sequence_num'' no_names NOT_BITMASK"
  "member_fits Error_Encoding ''minor_opcode'' no_names NOT_BITMASK"
  "member_fits Error_Encoding ''major_opcode'' no_names NOT_BITMASK"
  by (simp_all add: error_fits_defs)

lemma error_ResourceIdError_Encoding_fits:
  "member_fits error_ResourceIdError_Encoding ''header.error'' no_names NOT_BITMASK"
  "member_fits error_ResourceIdError_Encoding ''header.code'' no_names NOT_BITMASK"
  "member_fits error_ResourceIdError_Encoding ''header.sequence_num'' no_names NOT_BITMASK"
  "member_fits error_ResourceIdError_Encoding ''bad_resource_id'' no_names NOT_BITMASK"
  "member_fits error_ResourceIdError_Encoding ''minor_opcode'' no_names NOT_BITMASK"
  "member_fits error_ResourceIdError_Encoding ''major_opcode'' no_names NOT_BITMASK"
  by (simp_all add: error_fits_defs)

lemma error_Value_Encoding_fits:
  "member_fits error_Value_Encoding ''header.error'' no_names NOT_BITMASK"
  "member_fits error_Value_Encoding ''header.code'' no_names NOT_BITMASK"
  "member_fits error_Value_Encoding ''header.sequence_num'' no_names NOT_BITMASK"
  "member_fits error_Value_Encoding ''bad_value'' no_names NOT_BITMASK"
  "member_fits error_Value_Encoding ''minor_opcode'' no_names NOT_BITMASK"
  "member_fits error_Value_Encoding ''major_opcode'' no_names NOT_BITMASK"
  by (simp_all add: error_fits_defs)

lemma error_Atom_Encoding_fits:
  "member_fits error_Atom_Encoding ''header.error'' no_names NOT_BITMASK"
  "member_fits error_Atom_Encoding ''header.code'' no_names NOT_BITMASK"
  "member_fits error_Atom_Encoding ''header.sequence_num'' no_names NOT_BITMASK"
  "member_fits error_Atom_Encoding ''bad_atom_id'' no_names NOT_BITMASK"
  "member_fits error_Atom_Encoding ''minor_opcode'' no_names NOT_BITMASK"
  "member_fits error_Atom_Encoding ''major_opcode'' no_names NOT_BITMASK"
  by (simp_all add: error_fits_defs)

lemmas error_fits = Error_Encoding_fits error_ResourceIdError_Encoding_fits error_Value_Encoding_fits error_Atom_Encoding_fits

lemma error_heads:
  "field_at Error_Encoding ''header.error'' = Some (0, CARD8)"
  "field_at Error_Encoding ''header.code'' = Some (1, CARD8)"
  "field_at error_ResourceIdError_Encoding ''header.error'' = Some (0, CARD8)"
  "field_at error_ResourceIdError_Encoding ''header.code'' = Some (1, CARD8)"
  "field_at error_Value_Encoding ''header.error'' = Some (0, CARD8)"
  "field_at error_Value_Encoding ''header.code'' = Some (1, CARD8)"
  "field_at error_Atom_Encoding ''header.error'' = Some (0, CARD8)"
  "field_at error_Atom_Encoding ''header.code'' = Some (1, CARD8)"
  "field_at Error_Header ''code'' = Some (1, CARD8)"
  by (simp_all add: error_fits_defs)

lemma ordered_member_second:
  assumes "field_at L f = Some (1, CARD8)" and "2 \<le> length data"
  shows "ordered_member P bsw L data f = Inr (unat (data ! 1))"
proof -
  obtain a b bs where "data = a # b # bs"
    using assms(2) by (metis Suc_le_length_iff numeral_2_eq_2)
  with assms(1) show ?thesis
    by (simp add: ordered_member_def load_member_def load_def read_bytes_def host_val_def)
qed

lemmas error_ok_simps =
  Let_def ordered_member_first ordered_member_second error_heads error_fits readable_member braces_ok

lemma parseError_SimpleError_ok:
  assumes "readable P Error_Encoding data sz" and "unat (hd data) = ERROR_PREFIX"
  shows "parses 32 (parseError_SimpleError P conn data sz)"
  unfolding parseError_SimpleError_def
  using assms readable_bounds [OF assms(1)]
  by (simp add: error_ok_simps)

lemma parseError_ResourceIdError_ok:
  assumes "readable P error_ResourceIdError_Encoding data sz" and "unat (hd data) = ERROR_PREFIX"
  shows "parses 32 (parseError_ResourceIdError P conn data sz)"
  unfolding parseError_ResourceIdError_def
  using assms readable_bounds [OF assms(1)]
  by (simp add: error_ok_simps)

lemma parseError_Request_ok:
  assumes "readable P Error_Encoding data sz" and "unat (hd data) = ERROR_PREFIX"
    and "unat (data ! 1) = error_REQUEST"
  shows "parses 32 (parseError_Request P conn data sz)"
  unfolding parseError_Request_def
  using assms(3) readable_bounds [OF assms(1)] parseError_SimpleError_ok [OF assms(1,2)]
  by (simp add: error_ok_simps)

lemma parseError_Value_ok:
  assumes "readable P error_Value_Encoding data sz" and "unat (hd data) = ERROR_PREFIX"
    and "unat (data ! 1) = error_VALUE"
  shows "parses 32 (parseError_Value P conn data sz)"
  unfolding parseError_Value_def
  using assms readable_bounds [OF assms(1)]
  by (simp add: error_ok_simps)

lemma parseError_Window_ok:
  assumes "readable P error_ResourceIdError_Encoding data sz" and "unat (hd data) = ERROR_PREFIX"
    and "unat (data ! 1) = error_WINDOW"
  shows "parses 32 (parseError_Window P conn data sz)"
  unfolding parseError_Window_def
  using assms(3) readable_bounds [OF assms(1)] parseError_ResourceIdError_ok [OF assms(1,2)]
  by (simp add: error_ok_simps)

lemma parseError_Pixmap_ok:
  assumes "readable P error_ResourceIdError_Encoding data sz" and "unat (hd data) = ERROR_PREFIX"
    and "unat (data ! 1) = error_PIXMAP"
  shows "parses 32 (parseError_Pixmap P conn data sz)"
  unfolding parseError_Pixmap_def
  using assms(3) readable_bounds [OF assms(1)] parseError_ResourceIdError_ok [OF assms(1,2)]
  by (simp add: error_ok_simps)

lemma parseError_Atom_ok:
  assumes "readable P error_Atom_Encoding data sz" and "unat (hd data) = ERROR_PREFIX"
    and "unat (data ! 1) = error_ATOM"
  shows "parses 32 (parseError_Atom P conn data sz)"
  unfolding parseError_Atom_def
  using assms readable_bounds [OF assms(1)]
  by (simp add: error_ok_simps)

lemma parseError_Cursor_ok:
  assumes "readable P error_ResourceIdError_Encoding data sz" and "unat (hd data) = ERROR_PREFIX"
    and "unat (data ! 1) = error_CURSOR"
  shows "parses 32 (parseError_Cursor P conn data sz)"
  unfolding parseError_Cursor_def
  using assms(3) readable_bounds [OF assms(1)] parseError_ResourceIdError_ok [OF assms(1,2)]
  by (simp add: error_ok_simps)

lemma parseError_Font_ok:
  assumes "readable P error_ResourceIdError_Encoding data sz" and "unat (hd data) = ERROR_PREFIX"
    and "unat (data ! 1) = error_FONT"
  shows "parses 32 (parseError_Font P conn data sz)"
  unfolding parseError_Font_def
  using assms(3) readable_bounds [OF assms(1)] parseError_ResourceIdError_ok [OF assms(1,2)]
  by (simp add: error_ok_simps)

lemma parseError_Match_ok:
  assumes "readable P Error_Encoding data sz" and "unat (hd data) = ERROR_PREFIX"
    and "unat (data ! 1) = error_MATCH"
  shows "parses 32 (parseError_Match P conn data sz)"
  unfolding parseError_Match_def
  using assms(3) readable_bounds [OF assms(1)] parseError_SimpleError_ok [OF assms(1,2)]
  by (simp add: error_ok_simps)

lemma parseError_Drawable_ok:
  assumes "readable P error_ResourceIdError_Encoding data sz" and "unat (hd data) = ERROR_PREFIX"
    and "unat (data ! 1) = error_DRAWABLE"
  shows "parses 32 (parseError_Drawable P conn data sz)"
  unfolding parseError_Drawable_def
  using assms(3) readable_bounds [OF assms(1)] parseError_ResourceIdError_ok [OF assms(1,2)]
  by (simp add: error_ok_simps)

lemma parseError_Access_ok:
  assumes "readable P Error_Encoding data sz" and "unat (hd data) = ERROR_PREFIX"
    and "unat (data ! 1) = error_ACCESS"
  shows "parses 32 (parseError_Access P conn data sz)"
  unfolding parseError_Access_def
  using assms(3) readable_bounds [OF assms(1)] parseError_SimpleError_ok [OF assms(1,2)]
  by (simp add: error_ok_simps)

lemma parseError_Alloc_ok:
  assumes "readable P Error_Encoding data sz" and "unat (hd data) = ERROR_PREFIX"
    and "unat (data ! 1) = error_ALLOC"
  shows "parses 32 (parseError_Alloc P conn data sz)"
  unfolding parseError_Alloc_def
  using assms(3) readable_bounds [OF assms(1)] parseError_SimpleError_ok [OF assms(1,2)]
  by (simp add: error_ok_simps)

lemma parseError_Colormap_ok:
  assumes "readable P error_ResourceIdError_Encoding data sz" and "unat (hd data) = ERROR_PREFIX"
    and "unat (data ! 1) = error_COLORMAP"
  shows "parses 32 (parseError_Colormap P conn data sz)"
  unfolding parseError_Colormap_def
  using assms(3) readable_bounds [OF assms(1)] parseError_ResourceIdError_ok [OF assms(1,2)]
  by (simp add: error_ok_simps)

lemma parseError_GContext_ok:
  assumes "readable P error_ResourceIdError_Encoding data sz" and "unat (hd data) = ERROR_PREFIX"
    and "unat (data ! 1) = error_GCONTEXT"
  shows "parses 32 (parseError_GContext P conn data sz)"
  unfolding parseError_GContext_def
  using assms(3) readable_bounds [OF assms(1)] parseError_ResourceIdError_ok [OF assms(1,2)]
  by (simp add: error_ok_simps)

lemma parseError_IDChoice_ok:
  assumes "readable P error_ResourceIdError_Encoding data sz" and "unat (hd data) = ERROR_PREFIX"
    and "unat (data ! 1) = error_IDCHOICE"
  shows "parses 32 (parseError_IDChoice P conn data sz)"
  unfolding parseError_IDChoice_def
  using assms(3) readable_bounds [OF assms(1)] parseError_ResourceIdError_ok [OF assms(1,2)]
  by (simp add: error_ok_simps)

lemma parseError_Name_ok:
  assumes "readable P Error_Encoding data sz" and "unat (hd data) = ERROR_PREFIX"
    and "unat (data ! 1) = error_NAME"
  shows "parses 32 (parseError_Name P conn data sz)"
  unfolding parseError_Name_def
  using assms(3) readable_bounds [OF assms(1)] parseError_SimpleError_ok [OF assms(1,2)]
  by (simp add: error_ok_simps)

lemma parseError_Length_ok:
  assumes "readable P Error_Encoding data sz" and "unat (hd data) = ERROR_PREFIX"
    and "unat (data ! 1) = error_LENGTH"
  shows "parses 32 (parseError_Length P conn data sz)"
  unfolding parseError_Length_def
  using assms(3) readable_bounds [OF assms(1)] parseError_SimpleError_ok [OF assms(1,2)]
  by (simp add: error_ok_simps)

lemma parseError_Implementation_ok:
  assumes "readable P Error_Encoding data sz" and "unat (hd data) = ERROR_PREFIX"
    and "unat (data ! 1) = error_IMPLEMENTATION"
  shows "parses 32 (parseError_Implementation P conn data sz)"
  unfolding parseError_Implementation_def
  using assms(3) readable_bounds [OF assms(1)] parseError_SimpleError_ok [OF assms(1,2)]
  by (simp add: error_ok_simps)

subsection \<open>The connection matters only by its byte order\<close>

lemma parseError_SimpleError_conn:
  "byteswap c = byteswap c' \<Longrightarrow> parseError_SimpleError P c data sz = parseError_SimpleError P c' data sz"
  by (simp add: parseError_SimpleError_def)

lemma parseError_ResourceIdError_conn:
  "byteswap c = byteswap c' \<Longrightarrow> parseError_ResourceIdError P c data sz = parseError_ResourceIdError P c' data sz"
  by (simp add: parseError_ResourceIdError_def)

lemma parseError_Request_conn:
  "byteswap c = byteswap c' \<Longrightarrow> parseError_Request P c data sz = parseError_Request P c' data sz"
  by (simp add: parseError_Request_def parseError_SimpleError_conn [of c c'])

lemma parseError_Value_conn:
  "byteswap c = byteswap c' \<Longrightarrow> parseError_Value P c data sz = parseError_Value P c' data sz"
  by (simp add: parseError_Value_def)

lemma parseError_Window_conn:
  "byteswap c = byteswap c' \<Longrightarrow> parseError_Window P c data sz = parseError_Window P c' data sz"
  by (simp add: parseError_Window_def parseError_ResourceIdError_conn [of c c'])

lemma parseError_Pixmap_conn:
  "byteswap c = byteswap c' \<Longrightarrow> parseError_Pixmap P c data sz = parseError_Pixmap P c' data sz"
  by (simp add: parseError_Pixmap_def parseError_ResourceIdError_conn [of c c'])

lemma parseError_Atom_conn:
  "byteswap c = byteswap c' \<Longrightarrow> parseError_Atom P c data sz = parseError_Atom P c' data sz"
  by (simp add: parseError_Atom_def)

lemma parseError_Cursor_conn:
  "byteswap c = byteswap c' \<Longrightarrow> parseError_Cursor P c data sz = parseError_Cursor P c' data sz"
  by (simp add: parseError_Cursor_def parseError_ResourceIdError_conn [of c c'])

lemma parseError_Font_conn:
  "byteswap c = byteswap c' \<Longrightarrow> parseError_Font P c data sz = parseError_Font P c' data sz"
  by (simp add: parseError_Font_def parseError_ResourceIdError_conn [of c c'])

lemma parseError_Match_conn:
  "byteswap c = byteswap c' \<Longrightarrow> parseError_Match P c data sz = parseError_Match P c' data sz"
  by (simp add: parseError_Match_def parseError_SimpleError_conn [of c c'])

lemma parseError_Drawable_conn:
  "byteswap c = byteswap c' \<Longrightarrow> parseError_Drawable P c data sz = parseError_Drawable P c' data sz"
  by (simp add: parseError_Drawable_def parseError_ResourceIdError_conn [of c c'])

lemma parseError_Access_conn:
  "byteswap c = byteswap c' \<Longrightarrow> parseError_Access P c data sz = parseError_Access P c' data sz"
  by (simp add: parseError_Access_def parseError_SimpleError_conn [of c c'])

lemma parseError_Alloc_conn:
  "byteswap c = byteswap c' \<Longrightarrow> parseError_Alloc P c data sz = parseError_Alloc P c' data sz"
  by (simp add: parseError_Alloc_def parseError_SimpleError_conn [of c c'])

lemma parseError_Colormap_conn:
  "byteswap c = byteswap c' \<Longrightarrow> parseError_Colormap P c data sz = parseError_Colormap P c' data sz"
  by (simp add: parseError_Colormap_def parseError_ResourceIdError_conn [of c c'])

lemma parseError_GContext_conn:
  "byteswap c = byteswap c' \<Longrightarrow> parseError_GContext P c data sz = parseError_GContext P c' data sz"
  by (simp add: parseError_GContext_def parseError_ResourceIdError_conn [of c c'])

lemma parseError_IDChoice_conn:
  "byteswap c = byteswap c' \<Longrightarrow> parseError_IDChoice P c data sz = parseError_IDChoice P c' data sz"
  by (simp add: parseError_IDChoice_def parseError_ResourceIdError_conn [of c c'])

lemma parseError_Name_conn:
  "byteswap c = byteswap c' \<Longrightarrow> parseError_Name P c data sz = parseError_Name P c' data sz"
  by (simp add: parseError_Name_def parseError_SimpleError_conn [of c c'])

lemma parseError_Length_conn:
  "byteswap c = byteswap c' \<Longrightarrow> parseError_Length P c data sz = parseError_Length P c' data sz"
  by (simp add: parseError_Length_def parseError_SimpleError_conn [of c c'])

lemma parseError_Implementation_conn:
  "byteswap c = byteswap c' \<Longrightarrow> parseError_Implementation P c data sz = parseError_Implementation P c' data sz"
  by (simp add: parseError_Implementation_def parseError_SimpleError_conn [of c c'])

end
