(* ===== verification/Dispatch.thy ===== *)
theory Dispatch
  imports EventCodec ErrorCodec
begin

text \<open>
  The tables from codes to parsers (\<open>X11ProtocolParser__core_events.cpp\<close>,
  \<open>X11ProtocolParser__core_errors.cpp\<close>), the dispatch over the code of an event, and the
  handlers that print an event or an error with its log line (\<open>_logEvent\<close>,
  \<open>_logError\<close> of \<open>X11ProtocolParser.cpp\<close>). A pointer to a member function is the function
  itself. The tables are a parameter, because extensions add to them.
\<close>

record event_traits =
  event_name :: string
  event_extension :: "string option"
  event_parse_func :: event_parser

record error_traits =
  error_name :: string
  error_extension :: "string option"
  error_parse_func :: error_parser

definition CLIENT_TO_SERVER :: string where
  "CLIENT_TO_SERVER = ''s<c''"

definition SERVER_TO_CLIENT :: string where
  "SERVER_TO_CLIENT = ''s>c''"

subsection \<open>The core tables\<close>

definition core_event :: "nat \<Rightarrow> event_parser \<Rightarrow> event_traits" where
  "core_event code f =
     \<lparr>event_name = event_names ! code, event_extension = None, event_parse_func = f\<rparr>"

definition core_events :: "nat \<rightharpoonup> event_traits" where
  "core_events = map_of
     [(KEYPRESS, core_event KEYPRESS parseEvent_KeyPress),
      (KEYRELEASE, core_event KEYRELEASE parseEvent_KeyRelease),
      (BUTTONPRESS, core_event BUTTONPRESS parseEvent_ButtonPress),
      (BUTTONRELEASE, core_event BUTTONRELEASE parseEvent_ButtonRelease),
      (MOTIONNOTIFY, core_event MOTIONNOTIFY parseEvent_MotionNotify),
      (ENTERNOTIFY, core_event ENTERNOTIFY parseEvent_EnterNotify),
      (LEAVENOTIFY, core_event LEAVENOTIFY parseEvent_LeaveNotify),
      (FOCUSIN, core_event FOCUSIN parseEvent_FocusIn),
      (FOCUSOUT, core_event FOCUSOUT parseEvent_FocusOut),
      (KEYMAPNOTIFY, core_event KEYMAPNOTIFY parseEvent_KeymapNotify),
      (EXPOSE, core_event EXPOSE parseEvent_Expose),
      (GRAPHICSEXPOSURE, core_event GRAPHICSEXPOSURE parseEvent_GraphicsExposure),
      (NOEXPOSURE, core_event NOEXPOSURE parseEvent_NoExposure),
      (VISIBILITYNOTIFY, core_event VISIBILITYNOTIFY parseEvent_VisibilityNotify),
      (CREATENOTIFY, core_event CREATENOTIFY parseEvent_CreateNotify),
      (DESTROYNOTIFY, core_event DESTROYNOTIFY parseEvent_DestroyNotify),
      (UNMAPNOTIFY, core_event UNMAPNOTIFY parseEvent_UnmapNotify),
      (MAPNOTIFY, core_event MAPNOTIFY parseEvent_MapNotify),
      (MAPREQUEST, core_event MAPREQUEST parseEvent_MapRequest),
      (REPARENTNOTIFY, core_event REPARENTNOTIFY parseEvent_ReparentNotify),
      (CONFIGURENOTIFY, core_event CONFIGURENOTIFY parseEvent_ConfigureNotify),
      (CONFIGUREREQUEST, core_event CONFIGUREREQUEST parseEvent_ConfigureRequest),
      (GRAVITYNOTIFY, core_event GRAVITYNOTIFY parseEvent_GravityNotify),
      (RESIZEREQUEST, core_event RESIZEREQUEST parseEvent_ResizeRequest),
      (CIRCULATENOTIFY, core_event CIRCULATENOTIFY parseEvent_CirculateNotify),
      (CIRCULATEREQUEST, core_event CIRCULATEREQUEST parseEvent_CirculateRequest),
      (PROPERTYNOTIFY, core_event PROPERTYNOTIFY parseEvent_PropertyNotify),
      (SELECTIONCLEAR, core_event SELECTIONCLEAR parseEvent_SelectionClear),
      (SELECTIONREQUEST, core_event SELECTIONREQUEST parseEvent_SelectionRequest),
      (SELECTIONNOTIFY, core_event SELECTIONNOTIFY parseEvent_SelectionNotify),
      (COLORMAPNOTIFY, core_event COLORMAPNOTIFY parseEvent_ColormapNotify),
      (CLIENTMESSAGE, core_event CLIENTMESSAGE parseEvent_ClientMessage),
      (MAPPINGNOTIFY, core_event MAPPINGNOTIFY parseEvent_MappingNotify)]"

definition core_error :: "nat \<Rightarrow> error_parser \<Rightarrow> error_traits" where
  "core_error code f =
     \<lparr>error_name = error_names ! code, error_extension = None, error_parse_func = f\<rparr>"

definition core_error_list :: "(nat \<times> error_traits) list" where
  "core_error_list =
     [(error_REQUEST, core_error error_REQUEST parseError_Request),
      (error_VALUE, core_error error_VALUE parseError_Value),
      (error_WINDOW, core_error error_WINDOW parseError_Window),
      (error_PIXMAP, core_error error_PIXMAP parseError_Pixmap),
      (error_ATOM, core_error error_ATOM parseError_Atom),
      (error_CURSOR, core_error error_CURSOR parseError_Cursor),
      (error_FONT, core_error error_FONT parseError_Font),
      (error_MATCH, core_error error_MATCH parseError_Match),
      (error_DRAWABLE, core_error error_DRAWABLE parseError_Drawable),
      (error_ACCESS, core_error error_ACCESS parseError_Access),
      (error_ALLOC, core_error error_ALLOC parseError_Alloc),
      (error_COLORMAP, core_error error_COLORMAP parseError_Colormap),
      (error_GCONTEXT, core_error error_GCONTEXT parseError_GContext),
      (error_IDCHOICE, core_error error_IDCHOICE parseError_IDChoice),
      (error_NAME, core_error error_NAME parseError_Name),
      (error_LENGTH, core_error error_LENGTH parseError_Length),
      (error_IMPLEMENTATION, core_error error_IMPLEMENTATION parseError_Implementation)]"

definition core_errors :: "nat \<rightharpoonup> error_traits" where
  "core_errors = map_of core_error_list"

lemmas core_errors_table = core_errors_def [unfolded core_error_list_def]

subsection \<open>Handlers\<close>

definition parseEvent ::
  "(nat \<rightharpoonup> event_traits) \<Rightarrow> parser \<Rightarrow> connection \<Rightarrow> byte list \<Rightarrow> size_t \<Rightarrow> whitespace \<Rightarrow>
   parsing_outputs res"
where
  "parseEvent event_codes P conn data sz ws =
     require (sz \<ge> Event_ENCODING_SZ) (
     and_then (ordered_member P (byteswap conn) Event_Header data ''code'') (\<lambda>c.
     and_then (lookup_at event_codes (c AND EVENT_CODE_MASK)) (\<lambda>code_traits.
     and_then (event_parse_func code_traits P conn data sz ws) (\<lambda>event.
     require (unat (bytes_parsed event) = unat Event_ENCODING_SZ) (
     Inr event)))))"

definition message_prefix :: "parser \<Rightarrow> connection \<Rightarrow> 32 word \<Rightarrow> string \<Rightarrow> string \<Rightarrow> string" where
  \<comment> \<open>\<open>C{:03d}:{:04d}B:{}:S{}: \<close>\<close>
  "message_prefix P conn bytes glyph sequence_str =
     ''C'' @ fmt_zpad (fmtl P) 3 (unat (conn_id conn)) @ '':'' @
     fmt_zpad (fmtl P) 4 (unat bytes) @ ''B:'' @ glyph @ '':S'' @ sequence_str @ '': ''"

definition coded_name :: "parser \<Rightarrow> string option \<Rightarrow> string \<Rightarrow> nat \<Rightarrow> string" where
  \<comment> \<open>\<open>{}-{}({})\<close> for an extension, else \<open>{}({})\<close>\<close>
  "coded_name P extension_name name code =
     (case extension_name of None \<Rightarrow> [] | Some e \<Rightarrow> e @ ''-'') @ name @ ''('' @
     fmt_dec (fmtl P) (int code) @ '')''"

definition newline :: string where
  "newline = [CHR 0x0A]"

definition logEvent ::
  "(nat \<rightharpoonup> event_traits) \<Rightarrow> parser \<Rightarrow> connection \<Rightarrow> byte list \<Rightarrow> size_t \<Rightarrow> (string \<times> size_t) res"
where
  \<comment> \<open>the line printed to the log, and the bytes parsed\<close>
  "logEvent event_codes P conn data sz =
     (let bsw = byteswap conn in
      require (sz \<ge> Event_ENCODING_SZ) (
      and_then (ordered_member P bsw Event_Header data ''code'') (\<lambda>c.
      let code = c AND EVENT_CODE_MASK;
          generated = (c AND GENERATED_EVENT_FLAG \<noteq> 0)
      in
      and_then (if code = KEYMAPNOTIFY then Inr ''?????''
                else map_res (fmt_zpad (fmtl P) 5)
                       (ordered_member P bsw Event_Header data ''sequence_num'')) (\<lambda>sequence_str.
      and_then (parseEvent event_codes P conn data sz (ROOT_WS P)) (\<lambda>event.
      require (unat (bytes_parsed event) = unat Event_ENCODING_SZ) (
      and_then (lookup_at event_codes code) (\<lambda>code_traits.
      Inr (message_prefix P conn (bytes_parsed event) SERVER_TO_CLIENT sequence_str @ ''Event '' @
           coded_name P (event_extension code_traits) (event_name code_traits) code @
           (if generated then '' (generated)'' else []) @ '': '' @ str event @ newline,
           ucast (bytes_parsed event)))))))))"

definition logError ::
  "(nat \<rightharpoonup> error_traits) \<Rightarrow> parser \<Rightarrow> connection \<Rightarrow> byte list \<Rightarrow> size_t \<Rightarrow>
   (string \<times> size_t \<times> connection) res"
where
  "logError error_codes P conn data sz =
     (let bsw = byteswap conn in
      require (unat sz \<ge> sizeof Error_Encoding) (
      and_then (ordered_member P bsw Error_Encoding data ''header.error'') (\<lambda>err.
      require (err = ERROR_PREFIX) (
      and_then (ordered_member P bsw Error_Encoding data ''header.code'') (\<lambda>code.
      and_then (ordered_member P bsw Error_Encoding data ''header.sequence_num'') (\<lambda>sequence.
      and_then (lookup_at error_codes code) (\<lambda>code_traits.
      and_then (error_parse_func code_traits P conn data sz) (\<lambda>error.
      Inr (message_prefix P conn (bytes_parsed error)
             (if error_extension code_traits \<noteq> None then CLIENT_TO_SERVER else SERVER_TO_CLIENT)
             (fmt_zpad (fmtl P) 5 sequence) @ ''Error '' @
           coded_name P (error_extension code_traits) (error_name code_traits) code @ '': '' @
           str error @ newline,
           ucast (bytes_parsed error),
           unregisterRequest (of_nat sequence) conn)))))))))"

subsection \<open>Facts about the tables\<close>

text \<open>The encoding that goes with a code.\<close>

definition event_layout :: "nat \<rightharpoonup> layout" where
  "event_layout = map_of
     [(KEYPRESS, InputEvent_Encoding),
      (KEYRELEASE, InputEvent_Encoding),
      (BUTTONPRESS, InputEvent_Encoding),
      (BUTTONRELEASE, InputEvent_Encoding),
      (MOTIONNOTIFY, MotionNotify_Encoding),
      (ENTERNOTIFY, BoundaryEvent_Encoding),
      (LEAVENOTIFY, BoundaryEvent_Encoding),
      (FOCUSIN, FocusEvent_Encoding),
      (FOCUSOUT, FocusEvent_Encoding),
      (KEYMAPNOTIFY, KeymapNotify_Encoding),
      (EXPOSE, Expose_Encoding),
      (GRAPHICSEXPOSURE, GraphicsExposure_Encoding),
      (NOEXPOSURE, NoExposure_Encoding),
      (VISIBILITYNOTIFY, VisibilityNotify_Encoding),
      (CREATENOTIFY, CreateNotify_Encoding),
      (DESTROYNOTIFY, DestroyNotify_Encoding),
      (UNMAPNOTIFY, UnmapNotify_Encoding),
      (MAPNOTIFY, MapNotify_Encoding),
      (MAPREQUEST, MapRequest_Encoding),
      (REPARENTNOTIFY, ReparentNotify_Encoding),
      (CONFIGURENOTIFY, ConfigureNotify_Encoding),
      (CONFIGUREREQUEST, ConfigureRequest_Encoding),
      (GRAVITYNOTIFY, GravityNotify_Encoding),
      (RESIZEREQUEST, ResizeRequest_Encoding),
      (CIRCULATENOTIFY, CirculateNotify_Encoding),
      (CIRCULATEREQUEST, CirculateRequest_Encoding),
      (PROPERTYNOTIFY, PropertyNotify_Encoding),
      (SELECTIONCLEAR, SelectionClear_Encoding),
      (SELECTIONREQUEST, SelectionRequest_Encoding),
      (SELECTIONNOTIFY, SelectionNotify_Encoding),
      (COLORMAPNOTIFY, ColormapNotify_Encoding),
      (CLIENTMESSAGE, ClientMessage_Encoding),
      (MAPPINGNOTIFY, MappingNotify_Encoding)]"

definition error_layout :: "nat \<rightharpoonup> layout" where
  "error_layout = map_of
     [(error_REQUEST, Error_Encoding),
      (error_VALUE, error_Value_Encoding),
      (error_WINDOW, error_ResourceIdError_Encoding),
      (error_PIXMAP, error_ResourceIdError_Encoding),
      (error_ATOM, error_Atom_Encoding),
      (error_CURSOR, error_ResourceIdError_Encoding),
      (error_FONT, error_ResourceIdError_Encoding),
      (error_MATCH, Error_Encoding),
      (error_DRAWABLE, error_ResourceIdError_Encoding),
      (error_ACCESS, Error_Encoding),
      (error_ALLOC, Error_Encoding),
      (error_COLORMAP, error_ResourceIdError_Encoding),
      (error_GCONTEXT, error_ResourceIdError_Encoding),
      (error_IDCHOICE, error_ResourceIdError_Encoding),
      (error_NAME, Error_Encoding),
      (error_LENGTH, Error_Encoding),
      (error_IMPLEMENTATION, Error_Encoding)]"

lemmas parseEvent_oks =
  parseEvent_KeyPress_ok
  parseEvent_KeyRelease_ok
  parseEvent_ButtonPress_ok
  parseEvent_ButtonRelease_ok
  parseEvent_MotionNotify_ok
  parseEvent_EnterNotify_ok
  parseEvent_LeaveNotify_ok
  parseEvent_FocusIn_ok
  parseEvent_FocusOut_ok
  parseEvent_KeymapNotify_ok
  parseEvent_Expose_ok
  parseEvent_GraphicsExposure_ok
  parseEvent_NoExposure_ok
  parseEvent_VisibilityNotify_ok
  parseEvent_CreateNotify_ok
  parseEvent_DestroyNotify_ok
  parseEvent_UnmapNotify_ok
  parseEvent_MapNotify_ok
  parseEvent_MapRequest_ok
  parseEvent_ReparentNotify_ok
  parseEvent_ConfigureNotify_ok
  parseEvent_ConfigureRequest_ok
  parseEvent_GravityNotify_ok
  parseEvent_ResizeRequest_ok
  parseEvent_CirculateNotify_ok
  parseEvent_CirculateRequest_ok
  parseEvent_PropertyNotify_ok
  parseEvent_SelectionClear_ok
  parseEvent_SelectionRequest_ok
  parseEvent_SelectionNotify_ok
  parseEvent_ColormapNotify_ok
  parseEvent_ClientMessage_ok
  parseEvent_MappingNotify_ok

lemmas parseEvent_texts =
  parseEvent_KeyPress_text
  parseEvent_KeyRelease_text
  parseEvent_ButtonPress_text
  parseEvent_ButtonRelease_text
  parseEvent_MotionNotify_text
  parseEvent_EnterNotify_text
  parseEvent_LeaveNotify_text
  parseEvent_FocusIn_text
  parseEvent_FocusOut_text
  parseEvent_KeymapNotify_text
  parseEvent_Expose_text
  parseEvent_GraphicsExposure_text
  parseEvent_NoExposure_text
  parseEvent_VisibilityNotify_text
  parseEvent_CreateNotify_text
  parseEvent_DestroyNotify_text
  parseEvent_UnmapNotify_text
  parseEvent_MapNotify_text
  parseEvent_MapRequest_text
  parseEvent_ReparentNotify_text
  parseEvent_ConfigureNotify_text
  parseEvent_ConfigureRequest_text
  parseEvent_GravityNotify_text
  parseEvent_ResizeRequest_text
  parseEvent_CirculateNotify_text
  parseEvent_CirculateRequest_text
  parseEvent_PropertyNotify_text
  parseEvent_SelectionClear_text
  parseEvent_SelectionRequest_text
  parseEvent_SelectionNotify_text
  parseEvent_ColormapNotify_text
  parseEvent_ClientMessage_text
  parseEvent_MappingNotify_text

lemmas parseEvent_conns =
  parseEvent_KeyPress_conn
  parseEvent_KeyRelease_conn
  parseEvent_ButtonPress_conn
  parseEvent_ButtonRelease_conn
  parseEvent_MotionNotify_conn
  parseEvent_EnterNotify_conn
  parseEvent_LeaveNotify_conn
  parseEvent_FocusIn_conn
  parseEvent_FocusOut_conn
  parseEvent_KeymapNotify_conn
  parseEvent_Expose_conn
  parseEvent_GraphicsExposure_conn
  parseEvent_NoExposure_conn
  parseEvent_VisibilityNotify_conn
  parseEvent_CreateNotify_conn
  parseEvent_DestroyNotify_conn
  parseEvent_UnmapNotify_conn
  parseEvent_MapNotify_conn
  parseEvent_MapRequest_conn
  parseEvent_ReparentNotify_conn
  parseEvent_ConfigureNotify_conn
  parseEvent_ConfigureRequest_conn
  parseEvent_GravityNotify_conn
  parseEvent_ResizeRequest_conn
  parseEvent_CirculateNotify_conn
  parseEvent_CirculateRequest_conn
  parseEvent_PropertyNotify_conn
  parseEvent_SelectionClear_conn
  parseEvent_SelectionRequest_conn
  parseEvent_SelectionNotify_conn
  parseEvent_ColormapNotify_conn
  parseEvent_ClientMessage_conn
  parseEvent_MappingNotify_conn

lemmas parseError_conns =
  parseError_Request_conn
  parseError_Value_conn
  parseError_Window_conn
  parseError_Pixmap_conn
  parseError_Atom_conn
  parseError_Cursor_conn
  parseError_Font_conn
  parseError_Match_conn
  parseError_Drawable_conn
  parseError_Access_conn
  parseError_Alloc_conn
  parseError_Colormap_conn
  parseError_GContext_conn
  parseError_IDChoice_conn
  parseError_Name_conn
  parseError_Length_conn
  parseError_Implementation_conn

lemmas parseError_oks =
  parseError_Request_ok
  parseError_Value_ok
  parseError_Window_ok
  parseError_Pixmap_ok
  parseError_Atom_ok
  parseError_Cursor_ok
  parseError_Font_ok
  parseError_Match_ok
  parseError_Drawable_ok
  parseError_Access_ok
  parseError_Alloc_ok
  parseError_Colormap_ok
  parseError_GContext_ok
  parseError_IDChoice_ok
  parseError_Name_ok
  parseError_Length_ok
  parseError_Implementation_ok

lemma core_event_sel [simp]: "event_parse_func (core_event c f) = f" "event_extension (core_event c f) = None"
    "event_name (core_event c f) = event_names ! c"
  by (simp_all add: core_event_def)

lemma core_error_sel [simp]: "error_parse_func (core_error c f) = f" "error_extension (core_error c f) = None"
    "error_name (core_error c f) = error_names ! c"
  by (simp_all add: core_error_def)

lemma core_event_parses:
  assumes "core_events (unat (hd data) AND EVENT_CODE_MASK) = Some tr"
    and "event_layout (unat (hd data) AND EVENT_CODE_MASK) = Some L" and "readable P L data sz"
  shows "parses 32 (event_parse_func tr P conn data sz ws)"
  using assms unfolding core_events_def event_layout_def
  by (auto simp: event_codes parseEvent_oks split: if_splits)

lemma core_event_text:
  assumes "core_events code = Some tr" and "only_blanks ws" "only_blanks ws'"
    and "fmt_pads_blank (fmtl P)"
  shows "same_text (event_parse_func tr P conn data sz ws) (event_parse_func tr P conn data sz ws')"
  using assms unfolding core_events_def
  by (auto simp: parseEvent_texts split: if_splits)

lemma core_error_parses:
  assumes "core_errors (unat (data ! 1)) = Some tr" and "error_layout (unat (data ! 1)) = Some L"
    and "readable P L data sz" and "unat (hd data) = ERROR_PREFIX"
  shows "parses 32 (error_parse_func tr P conn data sz)"
  using assms unfolding core_errors_table error_layout_def
  by (auto simp: error_codes_defs parseError_oks split: if_splits)

lemma core_event_conn:
  assumes "core_events code = Some tr" and "byteswap c = byteswap c'"
  shows "event_parse_func tr P c data sz ws = event_parse_func tr P c' data sz ws"
  using assms(1) parseEvent_conns [OF assms(2)] unfolding core_events_def
  by (auto split: if_splits)

lemma core_error_conn:
  assumes "core_errors code = Some tr" and "byteswap c = byteswap c'"
  shows "error_parse_func tr P c data sz = error_parse_func tr P c' data sz"
  using assms(1) parseError_conns [OF assms(2)] unfolding core_errors_table
  by (auto split: if_splits)

end
