(* ===== verification/RequestCodec.thy ===== *)
theory RequestCodec
  imports StructFormat Dispatch
begin

text \<open>
  The request parsers (\<open>X11ProtocolParser__parseRequest.cpp\<close>): one definition per function
  template instance, in the order of the file. A request parser reads the fixed encoding at
  \<open>data\<close> and the suffixes behind it, checks the total length that the request declares, and
  prints the members. \<open>n\<close>, \<open>n1\<close> are the successive values of \<open>request.bytes_parsed\<close>.
\<close>

type_synonym request_parser =
  "parser \<Rightarrow> connection \<Rightarrow> byte list \<Rightarrow> size_t \<Rightarrow> parsing_outputs res"

text \<open>\<open>InternAtom\<close> and \<open>QueryExtension\<close> also change the parser.\<close>

type_synonym stashing_request_parser =
  "parser \<Rightarrow> connection \<Rightarrow> byte list \<Rightarrow> size_t \<Rightarrow> (parser \<times> parsing_outputs) res"

text \<open>\<open>SendEvent\<close> holds an event, which is parsed with the table \<open>_event_codes\<close>.\<close>

type_synonym event_request_parser =
  "(nat \<rightharpoonup> event_traits) \<Rightarrow> parser \<Rightarrow> connection \<Rightarrow> byte list \<Rightarrow> size_t \<Rightarrow> parsing_outputs res"

subsection \<open>The fixed encoding\<close>

record fixed_encoding =
  prefix :: "byte list"
  length_at :: "byte list"  \<comment> \<open>\<open>length\<close> and \<open>big_length\<close>, which have the same address\<close>
  encoding :: "byte list"
  fe_bytes_parsed :: size_t
  big_request :: bool
  header_only :: bool

definition RequestFixedEncoding ::
  "parser \<Rightarrow> request_type \<Rightarrow> connection \<Rightarrow> byte list \<Rightarrow> size_t \<Rightarrow> fixed_encoding res"
where
  "RequestFixedEncoding P T conn data sz =
     require (sz \<ge> BASE_ENCODING_SZ T) (
     let len = drop (sizeof (prefix_layout T)) data in
     and_then (ordered_member P (byteswap conn) (big_length_layout T) len ''extended_length_flag'') (\<lambda>flag.
     let big = (flag = EXTENDED_LENGTH_FLAG) in
     require (big \<longrightarrow> extensionEnabled big_requests_name conn) (
     let header_sz = size_of (prefix_layout T) +
           (if big then size_of (big_length_layout T) else size_of (length_layout T));
         total_sz = (case encoding_layout T of None \<Rightarrow> header_sz | Some E \<Rightarrow> header_sz + size_of E) in
     require (total_sz = (if big then BASE_BIG_ENCODING_SZ T else BASE_ENCODING_SZ T)) (
     Inr \<lparr>prefix = data, length_at = len, encoding = drop (unat header_sz) data,
          fe_bytes_parsed = total_sz, big_request = big,
          header_only = (encoding_layout T = None)\<rparr>))))"

definition base_encoding_sz :: "request_type \<Rightarrow> fixed_encoding \<Rightarrow> size_t" where
  "base_encoding_sz T fe = (if big_request fe then BASE_BIG_ENCODING_SZ T else BASE_ENCODING_SZ T)"

definition tl_aligned_units :: "parser \<Rightarrow> bool \<Rightarrow> request_type \<Rightarrow> fixed_encoding \<Rightarrow> nat res" where
  "tl_aligned_units P bsw T fe =
     (if big_request fe then ordered_member P bsw (big_length_layout T) (length_at fe) ''tl_aligned_units''
      else ordered_member P bsw (length_layout T) (length_at fe) ''tl_aligned_units'')"

text \<open>
  The assertion \<open>big ? big_units : units == Alignment::units( bytes_parsed )\<close>: the comparison
  binds stronger than the condition, so a big request only has to declare a length other than 0.
\<close>

definition length_assertion ::
  "parser \<Rightarrow> bool \<Rightarrow> request_type \<Rightarrow> fixed_encoding \<Rightarrow> 32 word \<Rightarrow> bool res"
where
  "length_assertion P bsw T fe n =
     (if big_request fe
      then map_res (\<lambda>units. units \<noteq> 0)
             (ordered_member P bsw (big_length_layout T) (length_at fe) ''tl_aligned_units'')
      else map_res (\<lambda>units. of_nat units = Alignment_units (ucast n))
             (ordered_member P bsw (length_layout T) (length_at fe) ''tl_aligned_units''))"

definition length_rows :: "parser \<Rightarrow> bool \<Rightarrow> request_type \<Rightarrow> fixed_encoding \<Rightarrow> row list" where
  \<comment> \<open>the rows of the length, which all requests share\<close>
  "length_rows P bsw T fe =
     [verbose_only (if big_request fe then ''(extended length flag)'' else ''(total aligned units)'')
        (if big_request fe
         then member P bsw (big_length_layout T) (length_at fe) ''extended_length_flag'' no_names NOT_BITMASK
         else member P bsw (length_layout T) (length_at fe) ''tl_aligned_units'' no_names NOT_BITMASK)] @
     (if big_request fe
      then [verbose_only ''(total aligned units)''
              (member P bsw (big_length_layout T) (length_at fe) ''tl_aligned_units'' no_names NOT_BITMASK)]
      else [])"

definition request_width :: "parser \<Rightarrow> whitespace \<Rightarrow> fixed_encoding \<Rightarrow> string \<Rightarrow> nat" where
  \<comment> \<open>\<open>memb_name_w\<close> with the longest name that is printed without \<open>--verbose\<close>\<close>
  "request_width P ws fe longest =
     (if \<not> ws_multiline ws then 0
      else if \<not> verbose (settings P) then length longest
      else if big_request fe then length ''(extended length flag)''
      else length ''(total aligned units)'')"

subsection \<open>Stashed strings\<close>

definition string_view_at :: "connection \<Rightarrow> byte list \<Rightarrow> nat \<Rightarrow> string_view" where
  \<comment> \<open>a view of \<open>n\<close> characters at the address \<open>mem\<close> in the client's buffer\<close>
  "string_view_at conn mem n =
     \<lparr>view_alloc = length (buf (client_buffer conn)), view_to_end = length mem, view_len = n\<rparr>"

definition stashString :: "32 word \<Rightarrow> 16 word \<Rightarrow> string_view \<Rightarrow> parser \<Rightarrow> parser res" where
  "stashString conn_id' seq_num v P =
     require (stashed_strings P (conn_id', seq_num) = None) (
     Inr (P\<lparr>stashed_strings := (stashed_strings P)((conn_id', seq_num) \<mapsto> v)\<rparr>))"

definition event_text :: "parser \<Rightarrow> nat \<Rightarrow> parsing_outputs \<Rightarrow> string res" where
  \<comment> \<open>\<open>names[ evt_code ]\<close> of an array is not checked\<close>
  "event_text P evt_code event =
     (if evt_code < length event_names
      then Inr (event_names ! evt_code @ ''('' @ fmt_dec (fmtl P) (int evt_code) @ '') '' @ str event)
      else Inl Out_of_bounds)"

definition ATOM_STRING :: nat where
  \<comment> \<open>\<open>atoms::predefined::STRING\<close>\<close>
  "ATOM_STRING = 31"

subsection \<open>Parsers\<close>

definition extensions_Request_Prefix :: layout where
  "extensions_Request_Prefix = [(''major_opcode'', CARD8), (''minor_opcode'', CARD8)]"

definition UnknownRequest :: request_type where
  \<comment> \<open>derived from \<open>extensions::requests::impl::SimpleRequest\<close>\<close>
  "UnknownRequest =
     \<lparr>prefix_layout = extensions_Request_Prefix, length_layout = Request_Length,
      big_length_layout = Request_BigLength, encoding_layout = None,
      BASE_ENCODING_SZ = size_of extensions_Request_Prefix + size_of Request_Length,
      BASE_BIG_ENCODING_SZ = size_of extensions_Request_Prefix + size_of Request_BigLength\<rparr>"

definition parseRequest_UnknownRequest :: request_parser where
  "parseRequest_UnknownRequest P conn data sz =
     (let ws = ROOT_WS P; bsw = byteswap conn in
      require (sz \<ge> BASE_ENCODING_SZ UnknownRequest) (
      and_then (RequestFixedEncoding P UnknownRequest conn data sz) (\<lambda>fe.
      let pre = member P bsw extensions_Request_Prefix (prefix fe);
          n = ucast (fe_bytes_parsed fe) in
      require (header_only fe) (
      and_then (tl_aligned_units P bsw UnknownRequest fe) (\<lambda>tl.
      let data_len = Alignment_size (of_nat tl) - base_encoding_sz UnknownRequest fe in
      let n1 = n + ucast (Alignment_pad data_len) in
      require (of_nat tl = Alignment_units (ucast n1)) (
      map_res (\<lambda>s. \<lparr>str = s, bytes_parsed = n1\<rparr>)
        (braces P ws
          (if \<not> ws_multiline ws then 0
           else if \<not> verbose (settings P) then length ''(unparseable suffix)''
           else if big_request fe then length ''(extended length flag)''
           else length ''(total aligned units)'')
          ([always ''major-opcode'' (pre ''major_opcode'' no_names NOT_BITMASK),
            always ''minor-opcode'' (pre ''minor_opcode'' no_names NOT_BITMASK)] @
           length_rows P bsw UnknownRequest fe @
           [always ''(unparseable suffix)''
              (Inr (''('' @ fmt_dec (fmtl P) (int (unat data_len)) @ '' bytes)''))]))))))))"

definition parseRequest_SimpleRequest :: request_parser where
  "parseRequest_SimpleRequest P conn data sz =
     (let ws = ROOT_WS P; bsw = byteswap conn in
      require (sz \<ge> BASE_ENCODING_SZ SimpleRequest) (
      and_then (RequestFixedEncoding P SimpleRequest conn data sz) (\<lambda>fe.
      let pre = member P bsw Request_Prefix (prefix fe);
          n = ucast (fe_bytes_parsed fe) in
      require (header_only fe) (
      and_then (length_assertion P bsw SimpleRequest fe n) (\<lambda>lengths_agree.
      require lengths_agree (
      map_res (\<lambda>s. \<lparr>str = s, bytes_parsed = n\<rparr>)
        (braces P ws (if \<not> ws_multiline ws then 0 else (if big_request fe then length ''(extended length flag)'' else length ''(total aligned units)''))
          ([verbose_only ''opcode'' (pre ''opcode'' no_names NOT_BITMASK)] @
           length_rows P bsw SimpleRequest fe))))))))"

definition parseRequest_SimpleWindowRequest :: request_parser where
  "parseRequest_SimpleWindowRequest P conn data sz =
     (let ws = ROOT_WS P; bsw = byteswap conn in
      require (sz \<ge> BASE_ENCODING_SZ SimpleWindowRequest) (
      and_then (RequestFixedEncoding P SimpleWindowRequest conn data sz) (\<lambda>fe.
      let pre = member P bsw Request_Prefix (prefix fe); enc = member P bsw SimpleWindowRequest_Encoding (encoding fe);
          n = ucast (fe_bytes_parsed fe) in
      require (\<not> header_only fe) (
      and_then (length_assertion P bsw SimpleWindowRequest fe n) (\<lambda>lengths_agree.
      require lengths_agree (
      map_res (\<lambda>s. \<lparr>str = s, bytes_parsed = n\<rparr>)
        (braces P ws (request_width P ws fe ''window'')
          ([verbose_only ''opcode'' (pre ''opcode'' no_names NOT_BITMASK)] @
           length_rows P bsw SimpleWindowRequest fe @
           [always ''window'' (enc ''window'' no_names NOT_BITMASK)]))))))))"

definition parseRequest_ListFontsRequest :: request_parser where
  "parseRequest_ListFontsRequest P conn data sz =
     (let ws = ROOT_WS P; bsw = byteswap conn in
      require (sz \<ge> BASE_ENCODING_SZ ListFontsRequest) (
      and_then (RequestFixedEncoding P ListFontsRequest conn data sz) (\<lambda>fe.
      let pre = member P bsw Request_Prefix (prefix fe); enc = member P bsw ListFontsRequest_Encoding (encoding fe);
          n = ucast (fe_bytes_parsed fe) in
      require (\<not> header_only fe) (
      and_then (ordered_member P bsw ListFontsRequest_Encoding (encoding fe) ''pattern_len'') (\<lambda>pattern_len.
      let pattern = read_text data (unat n) pattern_len in
      let n1 = n + ucast (Alignment_pad (of_nat pattern_len)) in
      and_then (length_assertion P bsw ListFontsRequest fe n1) (\<lambda>lengths_agree.
      require lengths_agree (
      map_res (\<lambda>s. \<lparr>str = s, bytes_parsed = n1\<rparr>)
        (braces P ws (request_width P ws fe ''max-names'')
          ([verbose_only ''opcode'' (pre ''opcode'' no_names NOT_BITMASK)] @
           length_rows P bsw ListFontsRequest fe @
           [always ''max-names'' (enc ''max_names'' no_names NOT_BITMASK),
            verbose_only ''(pattern length)'' (enc ''pattern_len'' no_names NOT_BITMASK),
            always ''pattern'' (map_res (fmt_debug (fmtl P)) pattern)])))))))))"

definition parseRequest_PolyPointRequest :: request_parser where
  "parseRequest_PolyPointRequest P conn data sz =
     (let ws = ROOT_WS P; bsw = byteswap conn in
      require (sz \<ge> BASE_ENCODING_SZ PolyPointRequest) (
      and_then (RequestFixedEncoding P PolyPointRequest conn data sz) (\<lambda>fe.
      let pre = member P bsw PolyPointRequest_Prefix (prefix fe); enc = member P bsw PolyPointRequest_Encoding (encoding fe);
          n = ucast (fe_bytes_parsed fe) in
      require (\<not> header_only fe) (
      and_then (tl_aligned_units P bsw PolyPointRequest fe) (\<lambda>tl.
      let points_sz = Alignment_size (of_nat tl) - base_encoding_sz PolyPointRequest fe in
      let points_ct = points_sz div of_nat (sizeof POINT) in
      and_then (nested DEFAULT ws) (\<lambda>points_ws.
      and_then (parseLISTof_struct (parseListMember_struct POINT (formatPOINT P bsw)) (drop (unat n) data) points_sz (ucast points_ct) points_ws FORCE_SINGLELINE) (\<lambda>points.
      let n1 = n + ucast (Alignment_pad (ucast (bytes_parsed points))) in
      require (of_nat tl = Alignment_units (ucast n1)) (
      map_res (\<lambda>s. \<lparr>str = s, bytes_parsed = n1\<rparr>)
        (braces P ws (request_width P ws fe ''coordinate-mode'')
          ([verbose_only ''opcode'' (pre ''opcode'' no_names NOT_BITMASK),
            always ''coordinate-mode'' (pre ''coordinate_mode'' (range_all PolyPointRequest_coordinate_mode_names) NOT_BITMASK)] @
           length_rows P bsw PolyPointRequest fe @
           [always ''drawable'' (enc ''drawable'' no_names NOT_BITMASK),
            always ''gc'' (enc ''gc'' no_names NOT_BITMASK),
            always ''points'' (Inr (str points))]))))))))))"

definition parseRequest_SimpleCmapRequest :: request_parser where
  "parseRequest_SimpleCmapRequest P conn data sz =
     (let ws = ROOT_WS P; bsw = byteswap conn in
      require (sz \<ge> BASE_ENCODING_SZ SimpleCmapRequest) (
      and_then (RequestFixedEncoding P SimpleCmapRequest conn data sz) (\<lambda>fe.
      let pre = member P bsw Request_Prefix (prefix fe); enc = member P bsw SimpleCmapRequest_Encoding (encoding fe);
          n = ucast (fe_bytes_parsed fe) in
      require (\<not> header_only fe) (
      and_then (length_assertion P bsw SimpleCmapRequest fe n) (\<lambda>lengths_agree.
      require lengths_agree (
      map_res (\<lambda>s. \<lparr>str = s, bytes_parsed = n\<rparr>)
        (braces P ws (request_width P ws fe ''cmap'')
          ([verbose_only ''opcode'' (pre ''opcode'' no_names NOT_BITMASK)] @
           length_rows P bsw SimpleCmapRequest fe @
           [always ''cmap'' (enc ''cmap'' no_names NOT_BITMASK)]))))))))"

definition parseRequest_CreateWindow :: request_parser where
  "parseRequest_CreateWindow P conn data sz =
     (let ws = ROOT_WS P; bsw = byteswap conn in
      require (sz \<ge> BASE_ENCODING_SZ CreateWindow) (
      and_then (RequestFixedEncoding P CreateWindow conn data sz) (\<lambda>fe.
      let pre = member P bsw CreateWindow_Prefix (prefix fe); enc = member P bsw CreateWindow_Encoding (encoding fe);
          n = ucast (fe_bytes_parsed fe) in
      require (\<not> header_only fe) (
      and_then (ordered_member P bsw CreateWindow_Prefix (prefix fe) ''opcode'') (\<lambda>opcode.
      require (opcode = CREATEWINDOW) (
      and_then (collect
         [value_trait (range_all WindowValueListRequest_background_pixmap_names) NOT_BITMASK,
          value_trait no_names NOT_BITMASK,
          value_trait (range_all WindowValueListRequest_border_pixmap_names) NOT_BITMASK,
          value_trait no_names NOT_BITMASK,
          value_trait no_names NOT_BITMASK,
          value_trait no_names NOT_BITMASK,
          value_trait (range_all WindowValueListRequest_backing_store_names) NOT_BITMASK,
          value_trait no_names NOT_BITMASK,
          value_trait no_names NOT_BITMASK,
          value_trait no_names NOT_BITMASK,
          value_trait no_names NOT_BITMASK,
          value_trait no_names BITMASK,
          value_trait no_names BITMASK,
          value_trait (range_all WindowValueListRequest_colormap_names) NOT_BITMASK,
          value_trait (range_all WindowValueListRequest_cursor_names) NOT_BITMASK]) (\<lambda>value_traits.
      and_then (ordered_member P bsw CreateWindow_Encoding (encoding fe) ''value_mask'') (\<lambda>value_mask.
      and_then (nested DEFAULT ws) (\<lambda>value_list_ws.
      and_then (parseLISTofVALUE P (drop (unat n) data) (sz - ucast n) value_mask WindowValueListRequest_value_types WindowValueListRequest_value_names
                 value_traits bsw value_list_ws) (\<lambda>value_list.
      let n1 = n + bytes_parsed value_list in
      and_then (length_assertion P bsw CreateWindow fe n1) (\<lambda>lengths_agree.
      require lengths_agree (
      map_res (\<lambda>s. \<lparr>str = s, bytes_parsed = n1\<rparr>)
        (braces P ws (request_width P ws fe ''border-width'')
          ([verbose_only ''opcode'' (pre ''opcode'' no_names NOT_BITMASK),
            always ''depth'' (pre ''depth'' no_names NOT_BITMASK)] @
           length_rows P bsw CreateWindow fe @
           [always ''wid'' (enc ''wid'' no_names NOT_BITMASK),
            always ''parent'' (enc ''parent'' no_names NOT_BITMASK),
            always ''x'' (enc ''x'' no_names NOT_BITMASK),
            always ''y'' (enc ''y'' no_names NOT_BITMASK),
            always ''width'' (enc ''width'' no_names NOT_BITMASK),
            always ''height'' (enc ''height'' no_names NOT_BITMASK),
            always ''border-width'' (enc ''border_width'' no_names NOT_BITMASK),
            always ''class'' (enc ''class_'' (range_all CreateWindow_class_names) NOT_BITMASK),
            always ''visual'' (enc ''visual'' (range_all CreateWindow_visual_names) NOT_BITMASK),
            always ''value-mask'' (enc ''value_mask'' no_names BITMASK),
            always ''value-list'' (Inr (str value_list))]))))))))))))))"

definition parseRequest_ChangeWindowAttributes :: request_parser where
  "parseRequest_ChangeWindowAttributes P conn data sz =
     (let ws = ROOT_WS P; bsw = byteswap conn in
      require (sz \<ge> BASE_ENCODING_SZ ChangeWindowAttributes) (
      and_then (RequestFixedEncoding P ChangeWindowAttributes conn data sz) (\<lambda>fe.
      let pre = member P bsw Request_Prefix (prefix fe); enc = member P bsw ChangeWindowAttributes_Encoding (encoding fe);
          n = ucast (fe_bytes_parsed fe) in
      require (\<not> header_only fe) (
      and_then (ordered_member P bsw Request_Prefix (prefix fe) ''opcode'') (\<lambda>opcode.
      require (opcode = CHANGEWINDOWATTRIBUTES) (
      and_then (collect
         [value_trait (range_all WindowValueListRequest_background_pixmap_names) NOT_BITMASK,
          value_trait no_names NOT_BITMASK,
          value_trait (range_all WindowValueListRequest_border_pixmap_names) NOT_BITMASK,
          value_trait no_names NOT_BITMASK,
          value_trait no_names NOT_BITMASK,
          value_trait no_names NOT_BITMASK,
          value_trait (range_all WindowValueListRequest_backing_store_names) NOT_BITMASK,
          value_trait no_names NOT_BITMASK,
          value_trait no_names NOT_BITMASK,
          value_trait no_names NOT_BITMASK,
          value_trait no_names NOT_BITMASK,
          value_trait no_names BITMASK,
          value_trait no_names BITMASK,
          value_trait (range_all WindowValueListRequest_colormap_names) NOT_BITMASK,
          value_trait (range_all WindowValueListRequest_cursor_names) NOT_BITMASK]) (\<lambda>value_traits.
      and_then (ordered_member P bsw ChangeWindowAttributes_Encoding (encoding fe) ''value_mask'') (\<lambda>value_mask.
      and_then (nested DEFAULT ws) (\<lambda>value_list_ws.
      and_then (parseLISTofVALUE P (drop (unat n) data) (sz - ucast n) value_mask WindowValueListRequest_value_types WindowValueListRequest_value_names
                 value_traits bsw value_list_ws) (\<lambda>value_list.
      let n1 = n + bytes_parsed value_list in
      and_then (length_assertion P bsw ChangeWindowAttributes fe n1) (\<lambda>lengths_agree.
      require lengths_agree (
      map_res (\<lambda>s. \<lparr>str = s, bytes_parsed = n1\<rparr>)
        (braces P ws (request_width P ws fe ''value-mask'')
          ([verbose_only ''opcode'' (pre ''opcode'' no_names NOT_BITMASK)] @
           length_rows P bsw ChangeWindowAttributes fe @
           [always ''window'' (enc ''window'' no_names NOT_BITMASK),
            always ''value-mask'' (enc ''value_mask'' no_names BITMASK),
            always ''value-list'' (Inr (str value_list))]))))))))))))))"

definition parseRequest_GetWindowAttributes :: request_parser where
  "parseRequest_GetWindowAttributes P conn data sz =
     require (unat sz \<ge> sizeof Request_Prefix) (
     and_then (ordered_member P (byteswap conn) Request_Prefix data ''opcode'') (\<lambda>opcode.
     require (opcode = GETWINDOWATTRIBUTES) (
     parseRequest_SimpleWindowRequest P conn data sz)))"

definition parseRequest_DestroyWindow :: request_parser where
  "parseRequest_DestroyWindow P conn data sz =
     require (unat sz \<ge> sizeof Request_Prefix) (
     and_then (ordered_member P (byteswap conn) Request_Prefix data ''opcode'') (\<lambda>opcode.
     require (opcode = DESTROYWINDOW) (
     parseRequest_SimpleWindowRequest P conn data sz)))"

definition parseRequest_DestroySubwindows :: request_parser where
  "parseRequest_DestroySubwindows P conn data sz =
     require (unat sz \<ge> sizeof Request_Prefix) (
     and_then (ordered_member P (byteswap conn) Request_Prefix data ''opcode'') (\<lambda>opcode.
     require (opcode = DESTROYSUBWINDOWS) (
     parseRequest_SimpleWindowRequest P conn data sz)))"

definition parseRequest_ChangeSaveSet :: request_parser where
  "parseRequest_ChangeSaveSet P conn data sz =
     (let ws = ROOT_WS P; bsw = byteswap conn in
      require (sz \<ge> BASE_ENCODING_SZ ChangeSaveSet) (
      and_then (RequestFixedEncoding P ChangeSaveSet conn data sz) (\<lambda>fe.
      let pre = member P bsw ChangeSaveSet_Prefix (prefix fe); enc = member P bsw ChangeSaveSet_Encoding (encoding fe);
          n = ucast (fe_bytes_parsed fe) in
      require (\<not> header_only fe) (
      and_then (ordered_member P bsw ChangeSaveSet_Prefix (prefix fe) ''opcode'') (\<lambda>opcode.
      require (opcode = CHANGESAVESET) (
      and_then (length_assertion P bsw ChangeSaveSet fe n) (\<lambda>lengths_agree.
      require lengths_agree (
      map_res (\<lambda>s. \<lparr>str = s, bytes_parsed = n\<rparr>)
        (braces P ws (request_width P ws fe ''window'')
          ([verbose_only ''opcode'' (pre ''opcode'' no_names NOT_BITMASK),
            always ''mode'' (pre ''mode'' (range_all ChangeSaveSet_mode_names) NOT_BITMASK)] @
           length_rows P bsw ChangeSaveSet fe @
           [always ''window'' (enc ''window'' no_names NOT_BITMASK)]))))))))))"

definition parseRequest_ReparentWindow :: request_parser where
  "parseRequest_ReparentWindow P conn data sz =
     (let ws = ROOT_WS P; bsw = byteswap conn in
      require (sz \<ge> BASE_ENCODING_SZ ReparentWindow) (
      and_then (RequestFixedEncoding P ReparentWindow conn data sz) (\<lambda>fe.
      let pre = member P bsw Request_Prefix (prefix fe); enc = member P bsw ReparentWindow_Encoding (encoding fe);
          n = ucast (fe_bytes_parsed fe) in
      require (\<not> header_only fe) (
      and_then (ordered_member P bsw Request_Prefix (prefix fe) ''opcode'') (\<lambda>opcode.
      require (opcode = REPARENTWINDOW) (
      and_then (length_assertion P bsw ReparentWindow fe n) (\<lambda>lengths_agree.
      require lengths_agree (
      map_res (\<lambda>s. \<lparr>str = s, bytes_parsed = n\<rparr>)
        (braces P ws (request_width P ws fe ''window'')
          ([verbose_only ''opcode'' (pre ''opcode'' no_names NOT_BITMASK)] @
           length_rows P bsw ReparentWindow fe @
           [always ''window'' (enc ''window'' no_names NOT_BITMASK),
            always ''parent'' (enc ''window'' no_names NOT_BITMASK),
            always ''x'' (enc ''x'' no_names NOT_BITMASK),
            always ''y'' (enc ''y'' no_names NOT_BITMASK)]))))))))))"

definition parseRequest_MapWindow :: request_parser where
  "parseRequest_MapWindow P conn data sz =
     require (unat sz \<ge> sizeof Request_Prefix) (
     and_then (ordered_member P (byteswap conn) Request_Prefix data ''opcode'') (\<lambda>opcode.
     require (opcode = MAPWINDOW) (
     parseRequest_SimpleWindowRequest P conn data sz)))"

definition parseRequest_MapSubwindows :: request_parser where
  "parseRequest_MapSubwindows P conn data sz =
     require (unat sz \<ge> sizeof Request_Prefix) (
     and_then (ordered_member P (byteswap conn) Request_Prefix data ''opcode'') (\<lambda>opcode.
     require (opcode = MAPSUBWINDOWS) (
     parseRequest_SimpleWindowRequest P conn data sz)))"

definition parseRequest_UnmapWindow :: request_parser where
  "parseRequest_UnmapWindow P conn data sz =
     require (unat sz \<ge> sizeof Request_Prefix) (
     and_then (ordered_member P (byteswap conn) Request_Prefix data ''opcode'') (\<lambda>opcode.
     require (opcode = UNMAPWINDOW) (
     parseRequest_SimpleWindowRequest P conn data sz)))"

definition parseRequest_UnmapSubwindows :: request_parser where
  "parseRequest_UnmapSubwindows P conn data sz =
     require (unat sz \<ge> sizeof Request_Prefix) (
     and_then (ordered_member P (byteswap conn) Request_Prefix data ''opcode'') (\<lambda>opcode.
     require (opcode = UNMAPSUBWINDOWS) (
     parseRequest_SimpleWindowRequest P conn data sz)))"

definition parseRequest_ConfigureWindow :: request_parser where
  "parseRequest_ConfigureWindow P conn data sz =
     (let ws = ROOT_WS P; bsw = byteswap conn in
      require (sz \<ge> BASE_ENCODING_SZ ConfigureWindow) (
      and_then (RequestFixedEncoding P ConfigureWindow conn data sz) (\<lambda>fe.
      let pre = member P bsw Request_Prefix (prefix fe); enc = member P bsw ConfigureWindow_Encoding (encoding fe);
          n = ucast (fe_bytes_parsed fe) in
      require (\<not> header_only fe) (
      and_then (ordered_member P bsw Request_Prefix (prefix fe) ''opcode'') (\<lambda>opcode.
      require (opcode = CONFIGUREWINDOW) (
      and_then (collect
         [value_trait no_names NOT_BITMASK,
          value_trait no_names NOT_BITMASK,
          value_trait no_names NOT_BITMASK,
          value_trait no_names NOT_BITMASK,
          value_trait no_names NOT_BITMASK,
          value_trait no_names NOT_BITMASK,
          value_trait (range_all ConfigureWindow_stack_mode_names) NOT_BITMASK]) (\<lambda>value_traits.
      and_then (ordered_member P bsw ConfigureWindow_Encoding (encoding fe) ''value_mask'') (\<lambda>value_mask.
      and_then (nested DEFAULT ws) (\<lambda>value_list_ws.
      and_then (parseLISTofVALUE P (drop (unat n) data) (sz - ucast n) value_mask ConfigureWindow_value_types ConfigureWindow_value_names
                 value_traits bsw value_list_ws) (\<lambda>value_list.
      let n1 = n + bytes_parsed value_list in
      and_then (length_assertion P bsw ConfigureWindow fe n1) (\<lambda>lengths_agree.
      require lengths_agree (
      map_res (\<lambda>s. \<lparr>str = s, bytes_parsed = n1\<rparr>)
        (braces P ws (request_width P ws fe ''value-mask'')
          ([verbose_only ''opcode'' (pre ''opcode'' no_names NOT_BITMASK)] @
           length_rows P bsw ConfigureWindow fe @
           [always ''window'' (enc ''window'' no_names NOT_BITMASK),
            always ''value-mask'' (enc ''value_mask'' no_names BITMASK),
            always ''value-list'' (Inr (str value_list))]))))))))))))))"

definition parseRequest_CirculateWindow :: request_parser where
  "parseRequest_CirculateWindow P conn data sz =
     (let ws = ROOT_WS P; bsw = byteswap conn in
      require (sz \<ge> BASE_ENCODING_SZ CirculateWindow) (
      and_then (RequestFixedEncoding P CirculateWindow conn data sz) (\<lambda>fe.
      let pre = member P bsw CirculateWindow_Prefix (prefix fe); enc = member P bsw CirculateWindow_Encoding (encoding fe);
          n = ucast (fe_bytes_parsed fe) in
      require (\<not> header_only fe) (
      and_then (ordered_member P bsw CirculateWindow_Prefix (prefix fe) ''opcode'') (\<lambda>opcode.
      require (opcode = CIRCULATEWINDOW) (
      and_then (length_assertion P bsw CirculateWindow fe n) (\<lambda>lengths_agree.
      require lengths_agree (
      map_res (\<lambda>s. \<lparr>str = s, bytes_parsed = n\<rparr>)
        (braces P ws (request_width P ws fe ''direction'')
          ([verbose_only ''opcode'' (pre ''opcode'' no_names NOT_BITMASK),
            always ''direction'' (pre ''direction'' (range_all CirculateWindow_direction_names) NOT_BITMASK)] @
           length_rows P bsw CirculateWindow fe @
           [always ''window'' (enc ''window'' no_names NOT_BITMASK)]))))))))))"

definition parseRequest_GetGeometry :: request_parser where
  "parseRequest_GetGeometry P conn data sz =
     (let ws = ROOT_WS P; bsw = byteswap conn in
      require (sz \<ge> BASE_ENCODING_SZ GetGeometry) (
      and_then (RequestFixedEncoding P GetGeometry conn data sz) (\<lambda>fe.
      let pre = member P bsw Request_Prefix (prefix fe); enc = member P bsw GetGeometry_Encoding (encoding fe);
          n = ucast (fe_bytes_parsed fe) in
      require (\<not> header_only fe) (
      and_then (ordered_member P bsw Request_Prefix (prefix fe) ''opcode'') (\<lambda>opcode.
      require (opcode = GETGEOMETRY) (
      and_then (length_assertion P bsw GetGeometry fe n) (\<lambda>lengths_agree.
      require lengths_agree (
      map_res (\<lambda>s. \<lparr>str = s, bytes_parsed = n\<rparr>)
        (braces P ws (request_width P ws fe ''drawable'')
          ([verbose_only ''opcode'' (pre ''opcode'' no_names NOT_BITMASK)] @
           length_rows P bsw GetGeometry fe @
           [always ''drawable'' (enc ''drawable'' no_names NOT_BITMASK)]))))))))))"

definition parseRequest_QueryTree :: request_parser where
  "parseRequest_QueryTree P conn data sz =
     require (unat sz \<ge> sizeof Request_Prefix) (
     and_then (ordered_member P (byteswap conn) Request_Prefix data ''opcode'') (\<lambda>opcode.
     require (opcode = QUERYTREE) (
     parseRequest_SimpleWindowRequest P conn data sz)))"

definition parseRequest_InternAtom :: stashing_request_parser where
  "parseRequest_InternAtom P conn data sz =
     (let ws = ROOT_WS P; bsw = byteswap conn in
      require (sz \<ge> BASE_ENCODING_SZ InternAtom) (
      and_then (RequestFixedEncoding P InternAtom conn data sz) (\<lambda>fe.
      let pre = member P bsw InternAtom_Prefix (prefix fe); enc = member P bsw InternAtom_Encoding (encoding fe);
          n = ucast (fe_bytes_parsed fe) in
      require (\<not> header_only fe) (
      and_then (ordered_member P bsw InternAtom_Prefix (prefix fe) ''opcode'') (\<lambda>opcode.
      require (opcode = INTERNATOM) (
      and_then (ordered_member P bsw InternAtom_Encoding (encoding fe) ''name_len'') (\<lambda>name_len.
      let name = read_text data (unat n) name_len in
      let n1 = n + ucast (Alignment_pad (of_nat name_len)) in
      and_then (length_assertion P bsw InternAtom fe n1) (\<lambda>lengths_agree.
      require lengths_agree (
      and_then (stashString (conn_id conn) (sequence conn) (string_view_at conn (drop (unat n) data) name_len) P) (\<lambda>P'.
      map_res (\<lambda>s. (P', \<lparr>str = s, bytes_parsed = n1\<rparr>))
        (braces P ws (request_width P ws fe ''only-if-exists'')
          ([verbose_only ''opcode'' (pre ''opcode'' no_names NOT_BITMASK),
            always ''only-if-exists'' (pre ''only_if_exists'' no_names NOT_BITMASK)] @
           length_rows P bsw InternAtom fe @
           [verbose_only ''(name length)'' (enc ''name_len'' no_names NOT_BITMASK),
            always ''name'' (map_res (fmt_debug (fmtl P)) name)]))))))))))))"

definition parseRequest_GetAtomName :: request_parser where
  "parseRequest_GetAtomName P conn data sz =
     (let ws = ROOT_WS P; bsw = byteswap conn in
      require (sz \<ge> BASE_ENCODING_SZ GetAtomName) (
      and_then (RequestFixedEncoding P GetAtomName conn data sz) (\<lambda>fe.
      let pre = member P bsw Request_Prefix (prefix fe); enc = member P bsw GetAtomName_Encoding (encoding fe);
          n = ucast (fe_bytes_parsed fe) in
      require (\<not> header_only fe) (
      and_then (ordered_member P bsw Request_Prefix (prefix fe) ''opcode'') (\<lambda>opcode.
      require (opcode = GETATOMNAME) (
      and_then (length_assertion P bsw GetAtomName fe n) (\<lambda>lengths_agree.
      require lengths_agree (
      map_res (\<lambda>s. \<lparr>str = s, bytes_parsed = n\<rparr>)
        (braces P ws (request_width P ws fe ''atom'')
          ([verbose_only ''opcode'' (pre ''opcode'' no_names NOT_BITMASK)] @
           length_rows P bsw GetAtomName fe @
           [always ''atom'' (enc ''atom'' no_names NOT_BITMASK)]))))))))))"

definition parseRequest_ChangeProperty :: request_parser where
  "parseRequest_ChangeProperty P conn data sz =
     (let ws = ROOT_WS P; bsw = byteswap conn in
      require (sz \<ge> BASE_ENCODING_SZ ChangeProperty) (
      and_then (RequestFixedEncoding P ChangeProperty conn data sz) (\<lambda>fe.
      let pre = member P bsw ChangeProperty_Prefix (prefix fe); enc = member P bsw ChangeProperty_Encoding (encoding fe);
          n = ucast (fe_bytes_parsed fe) in
      require (\<not> header_only fe) (
      and_then (ordered_member P bsw ChangeProperty_Prefix (prefix fe) ''opcode'') (\<lambda>opcode.
      require (opcode = CHANGEPROPERTY) (
      and_then (ordered_member P bsw ChangeProperty_Encoding (encoding fe) ''format'') (\<lambda>format.
      require (format \<le> 32 \<and> format mod 8 = 0) (
      and_then (ordered_member P bsw ChangeProperty_Encoding (encoding fe) ''data_fmt_unit_len'') (\<lambda>data_fmt_unit_len.
      let data_len = (of_nat (data_fmt_unit_len * (format div 8)) :: 32 word) in
      and_then (ordered_member P bsw ChangeProperty_Encoding (encoding fe) ''type'') (\<lambda>type_data.
      and_then
        (if type_data = ATOM_STRING
         then map_res (\<lambda>s. \<lparr>str = fmt_debug (fmtl P) s, bytes_parsed = data_len\<rparr>)
                (read_text data (unat n) (unat data_len))
         else and_then (nested FORCE_SINGLELINE ws) (\<lambda>data_ws.
              parseLISTof_int P CARD8 (drop (unat n) data) (ucast data_len) (ucast data_len) bsw data_ws
                no_names NOT_BITMASK)) (\<lambda>data'.
      let n1 = n + ucast (Alignment_pad (ucast (bytes_parsed data'))) in
      and_then (length_assertion P bsw ChangeProperty fe n1) (\<lambda>lengths_agree.
      require lengths_agree (
      map_res (\<lambda>s. \<lparr>str = s, bytes_parsed = n1\<rparr>)
        (braces P ws (name_width ws (if \<not> verbose (settings P) then ''property'' else ''(data length (format units))''))
          ([verbose_only ''opcode'' (pre ''opcode'' no_names NOT_BITMASK),
            always ''mode'' (pre ''mode'' (range_all ChangeProperty_mode_names) NOT_BITMASK)] @
           length_rows P bsw ChangeProperty fe @
           [always ''window'' (enc ''window'' no_names NOT_BITMASK),
            always ''property'' (enc ''property'' no_names NOT_BITMASK),
            always ''type'' (enc ''type'' no_names NOT_BITMASK),
            always ''format'' (enc ''format'' no_names NOT_BITMASK),
            verbose_only ''(data length (format units))'' (enc ''data_fmt_unit_len'' no_names NOT_BITMASK),
            always ''data'' (Inr (str data'))])))))))))))))))"

definition parseRequest_DeleteProperty :: request_parser where
  "parseRequest_DeleteProperty P conn data sz =
     (let ws = ROOT_WS P; bsw = byteswap conn in
      require (sz \<ge> BASE_ENCODING_SZ DeleteProperty) (
      and_then (RequestFixedEncoding P DeleteProperty conn data sz) (\<lambda>fe.
      let pre = member P bsw Request_Prefix (prefix fe); enc = member P bsw DeleteProperty_Encoding (encoding fe);
          n = ucast (fe_bytes_parsed fe) in
      require (\<not> header_only fe) (
      and_then (ordered_member P bsw Request_Prefix (prefix fe) ''opcode'') (\<lambda>opcode.
      require (opcode = DELETEPROPERTY) (
      and_then (length_assertion P bsw DeleteProperty fe n) (\<lambda>lengths_agree.
      require lengths_agree (
      map_res (\<lambda>s. \<lparr>str = s, bytes_parsed = n\<rparr>)
        (braces P ws (request_width P ws fe ''property'')
          ([verbose_only ''opcode'' (pre ''opcode'' no_names NOT_BITMASK)] @
           length_rows P bsw DeleteProperty fe @
           [always ''window'' (enc ''window'' no_names NOT_BITMASK),
            always ''property'' (enc ''property'' no_names NOT_BITMASK)]))))))))))"

definition parseRequest_GetProperty :: request_parser where
  "parseRequest_GetProperty P conn data sz =
     (let ws = ROOT_WS P; bsw = byteswap conn in
      require (sz \<ge> BASE_ENCODING_SZ GetProperty) (
      and_then (RequestFixedEncoding P GetProperty conn data sz) (\<lambda>fe.
      let pre = member P bsw GetProperty_Prefix (prefix fe); enc = member P bsw GetProperty_Encoding (encoding fe);
          n = ucast (fe_bytes_parsed fe) in
      require (\<not> header_only fe) (
      and_then (ordered_member P bsw GetProperty_Prefix (prefix fe) ''opcode'') (\<lambda>opcode.
      require (opcode = GETPROPERTY) (
      and_then (length_assertion P bsw GetProperty fe n) (\<lambda>lengths_agree.
      require lengths_agree (
      map_res (\<lambda>s. \<lparr>str = s, bytes_parsed = n\<rparr>)
        (braces P ws (request_width P ws fe ''long-offset'')
          ([verbose_only ''opcode'' (pre ''opcode'' no_names NOT_BITMASK),
            always ''delete'' (pre ''delete_'' no_names NOT_BITMASK)] @
           length_rows P bsw GetProperty fe @
           [always ''window'' (enc ''window'' no_names NOT_BITMASK),
            always ''property'' (enc ''property'' no_names NOT_BITMASK),
            always ''type'' (enc ''type'' (range_all GetProperty_type_names) NOT_BITMASK),
            always ''long-offset'' (enc ''long_offset'' no_names NOT_BITMASK),
            always ''long-length'' (enc ''long_length'' no_names NOT_BITMASK)]))))))))))"

definition parseRequest_ListProperties :: request_parser where
  "parseRequest_ListProperties P conn data sz =
     require (unat sz \<ge> sizeof Request_Prefix) (
     and_then (ordered_member P (byteswap conn) Request_Prefix data ''opcode'') (\<lambda>opcode.
     require (opcode = LISTPROPERTIES) (
     parseRequest_SimpleWindowRequest P conn data sz)))"

definition parseRequest_SetSelectionOwner :: request_parser where
  "parseRequest_SetSelectionOwner P conn data sz =
     (let ws = ROOT_WS P; bsw = byteswap conn in
      require (sz \<ge> BASE_ENCODING_SZ SetSelectionOwner) (
      and_then (RequestFixedEncoding P SetSelectionOwner conn data sz) (\<lambda>fe.
      let pre = member P bsw Request_Prefix (prefix fe); enc = member P bsw SetSelectionOwner_Encoding (encoding fe);
          n = ucast (fe_bytes_parsed fe) in
      require (\<not> header_only fe) (
      and_then (ordered_member P bsw Request_Prefix (prefix fe) ''opcode'') (\<lambda>opcode.
      require (opcode = SETSELECTIONOWNER) (
      and_then (length_assertion P bsw SetSelectionOwner fe n) (\<lambda>lengths_agree.
      require lengths_agree (
      map_res (\<lambda>s. \<lparr>str = s, bytes_parsed = n\<rparr>)
        (braces P ws (request_width P ws fe ''selection'')
          ([verbose_only ''opcode'' (pre ''opcode'' no_names NOT_BITMASK)] @
           length_rows P bsw SetSelectionOwner fe @
           [always ''owner'' (enc ''owner'' (range_all SetSelectionOwner_owner_names) NOT_BITMASK),
            always ''selection'' (enc ''selection'' no_names NOT_BITMASK),
            always ''time'' (enc ''time'' (range_all SetSelectionOwner_time_names) NOT_BITMASK)]))))))))))"

definition parseRequest_GetSelectionOwner :: request_parser where
  "parseRequest_GetSelectionOwner P conn data sz =
     (let ws = ROOT_WS P; bsw = byteswap conn in
      require (sz \<ge> BASE_ENCODING_SZ GetSelectionOwner) (
      and_then (RequestFixedEncoding P GetSelectionOwner conn data sz) (\<lambda>fe.
      let pre = member P bsw Request_Prefix (prefix fe); enc = member P bsw GetSelectionOwner_Encoding (encoding fe);
          n = ucast (fe_bytes_parsed fe) in
      require (\<not> header_only fe) (
      and_then (ordered_member P bsw Request_Prefix (prefix fe) ''opcode'') (\<lambda>opcode.
      require (opcode = GETSELECTIONOWNER) (
      and_then (length_assertion P bsw GetSelectionOwner fe n) (\<lambda>lengths_agree.
      require lengths_agree (
      map_res (\<lambda>s. \<lparr>str = s, bytes_parsed = n\<rparr>)
        (braces P ws (request_width P ws fe ''selection'')
          ([verbose_only ''opcode'' (pre ''opcode'' no_names NOT_BITMASK)] @
           length_rows P bsw GetSelectionOwner fe @
           [always ''selection'' (enc ''selection'' no_names NOT_BITMASK)]))))))))))"

definition parseRequest_ConvertSelection :: request_parser where
  "parseRequest_ConvertSelection P conn data sz =
     (let ws = ROOT_WS P; bsw = byteswap conn in
      require (sz \<ge> BASE_ENCODING_SZ ConvertSelection) (
      and_then (RequestFixedEncoding P ConvertSelection conn data sz) (\<lambda>fe.
      let pre = member P bsw Request_Prefix (prefix fe); enc = member P bsw ConvertSelection_Encoding (encoding fe);
          n = ucast (fe_bytes_parsed fe) in
      require (\<not> header_only fe) (
      and_then (ordered_member P bsw Request_Prefix (prefix fe) ''opcode'') (\<lambda>opcode.
      require (opcode = CONVERTSELECTION) (
      and_then (length_assertion P bsw ConvertSelection fe n) (\<lambda>lengths_agree.
      require lengths_agree (
      map_res (\<lambda>s. \<lparr>str = s, bytes_parsed = n\<rparr>)
        (braces P ws (request_width P ws fe ''requestor'')
          ([verbose_only ''opcode'' (pre ''opcode'' no_names NOT_BITMASK)] @
           length_rows P bsw ConvertSelection fe @
           [always ''requestor'' (enc ''requestor'' no_names NOT_BITMASK),
            always ''selection'' (enc ''selection'' no_names NOT_BITMASK),
            always ''target'' (enc ''target'' no_names NOT_BITMASK),
            always ''property'' (enc ''property'' (range_all ConvertSelection_property_names) NOT_BITMASK),
            always ''time'' (enc ''time'' (range_all ConvertSelection_time_names) NOT_BITMASK)]))))))))))"

definition parseRequest_SendEvent :: event_request_parser where
  "parseRequest_SendEvent event_codes P conn data sz =
     (let ws = ROOT_WS P; bsw = byteswap conn in
      require (sz \<ge> BASE_ENCODING_SZ SendEvent) (
      and_then (RequestFixedEncoding P SendEvent conn data sz) (\<lambda>fe.
      let pre = member P bsw SendEvent_Prefix (prefix fe); enc = member P bsw SendEvent_Encoding (encoding fe);
          n = ucast (fe_bytes_parsed fe) in
      require (\<not> header_only fe) (
      and_then (ordered_member P bsw SendEvent_Prefix (prefix fe) ''opcode'') (\<lambda>opcode.
      require (opcode = SENDEVENT) (
      and_then (ordered_member P bsw Event_Header (drop (unat n) data) ''code'') (\<lambda>evt_code.
      and_then (nested DEFAULT ws) (\<lambda>event_ws.
      and_then (parseEvent event_codes P conn (drop (unat n) data) Event_ENCODING_SZ event_ws) (\<lambda>event.
      let n1 = n + bytes_parsed event in
      and_then (length_assertion P bsw SendEvent fe n1) (\<lambda>lengths_agree.
      require lengths_agree (
      map_res (\<lambda>s. \<lparr>str = s, bytes_parsed = n1\<rparr>)
        (braces P ws (request_width P ws fe ''destination'')
          ([verbose_only ''opcode'' (pre ''opcode'' no_names NOT_BITMASK),
            always ''propagate'' (pre ''propagate'' no_names NOT_BITMASK)] @
           length_rows P bsw SendEvent fe @
           [always ''destination'' (enc ''destination'' (range_all SendEvent_destination_names) NOT_BITMASK),
            always ''event-mask'' (enc ''event_mask'' no_names NOT_BITMASK),
            always ''event'' (event_text P evt_code event)])))))))))))))"

definition parseRequest_GrabPointer :: request_parser where
  "parseRequest_GrabPointer P conn data sz =
     (let ws = ROOT_WS P; bsw = byteswap conn in
      require (sz \<ge> BASE_ENCODING_SZ GrabPointer) (
      and_then (RequestFixedEncoding P GrabPointer conn data sz) (\<lambda>fe.
      let pre = member P bsw GrabPointer_Prefix (prefix fe); enc = member P bsw GrabPointer_Encoding (encoding fe);
          n = ucast (fe_bytes_parsed fe) in
      require (\<not> header_only fe) (
      and_then (ordered_member P bsw GrabPointer_Prefix (prefix fe) ''opcode'') (\<lambda>opcode.
      require (opcode = GRABPOINTER) (
      and_then (length_assertion P bsw GrabPointer fe n) (\<lambda>lengths_agree.
      require lengths_agree (
      map_res (\<lambda>s. \<lparr>str = s, bytes_parsed = n\<rparr>)
        (braces P ws (request_width P ws fe ''keyboard-mode'')
          ([verbose_only ''opcode'' (pre ''opcode'' no_names NOT_BITMASK),
            always ''owner-events'' (pre ''owner_events'' no_names NOT_BITMASK)] @
           length_rows P bsw GrabPointer fe @
           [always ''grab-window'' (enc ''grab_window'' no_names NOT_BITMASK),
            always ''event-mask'' (enc ''event_mask'' no_names NOT_BITMASK),
            always ''pointer-mode'' (enc ''pointer_mode'' (range_all GrabPointer_pointer_mode_names) NOT_BITMASK),
            always ''keyboard-mode'' (enc ''keyboard_mode'' (range_all GrabPointer_keyboard_mode_names) NOT_BITMASK),
            always ''confine-to'' (enc ''confine_to'' (range_all GrabPointer_confine_to_names) NOT_BITMASK),
            always ''cursor'' (enc ''cursor'' (range_all GrabPointer_cursor_names) NOT_BITMASK),
            always ''time'' (enc ''time'' (range_all GrabPointer_time_names) NOT_BITMASK)]))))))))))"

definition parseRequest_UngrabPointer :: request_parser where
  "parseRequest_UngrabPointer P conn data sz =
     (let ws = ROOT_WS P; bsw = byteswap conn in
      require (sz \<ge> BASE_ENCODING_SZ UngrabPointer) (
      and_then (RequestFixedEncoding P UngrabPointer conn data sz) (\<lambda>fe.
      let pre = member P bsw Request_Prefix (prefix fe); enc = member P bsw UngrabPointer_Encoding (encoding fe);
          n = ucast (fe_bytes_parsed fe) in
      require (\<not> header_only fe) (
      and_then (ordered_member P bsw Request_Prefix (prefix fe) ''opcode'') (\<lambda>opcode.
      require (opcode = UNGRABPOINTER) (
      and_then (length_assertion P bsw UngrabPointer fe n) (\<lambda>lengths_agree.
      require lengths_agree (
      map_res (\<lambda>s. \<lparr>str = s, bytes_parsed = n\<rparr>)
        (braces P ws (request_width P ws fe ''time'')
          ([verbose_only ''opcode'' (pre ''opcode'' no_names NOT_BITMASK)] @
           length_rows P bsw UngrabPointer fe @
           [always ''time'' (enc ''time'' (range_all UngrabPointer_time_names) NOT_BITMASK)]))))))))))"

definition parseRequest_GrabButton :: request_parser where
  "parseRequest_GrabButton P conn data sz =
     (let ws = ROOT_WS P; bsw = byteswap conn in
      require (sz \<ge> BASE_ENCODING_SZ GrabButton) (
      and_then (RequestFixedEncoding P GrabButton conn data sz) (\<lambda>fe.
      let pre = member P bsw GrabButton_Prefix (prefix fe); enc = member P bsw GrabButton_Encoding (encoding fe);
          n = ucast (fe_bytes_parsed fe) in
      require (\<not> header_only fe) (
      and_then (ordered_member P bsw GrabButton_Prefix (prefix fe) ''opcode'') (\<lambda>opcode.
      require (opcode = GRABBUTTON) (
      and_then (length_assertion P bsw GrabButton fe n) (\<lambda>lengths_agree.
      require lengths_agree (
      map_res (\<lambda>s. \<lparr>str = s, bytes_parsed = n\<rparr>)
        (braces P ws (request_width P ws fe ''keyboard-mode'')
          ([verbose_only ''opcode'' (pre ''opcode'' no_names NOT_BITMASK),
            always ''owner-events'' (pre ''owner_events'' no_names NOT_BITMASK)] @
           length_rows P bsw GrabButton fe @
           [always ''grab-window'' (enc ''grab_window'' no_names NOT_BITMASK),
            always ''event-mask'' (enc ''event_mask'' no_names NOT_BITMASK),
            always ''pointer-mode'' (enc ''pointer_mode'' (range_all GrabButton_pointer_mode_names) NOT_BITMASK),
            always ''keyboard-mode'' (enc ''keyboard_mode'' (range_all GrabButton_keyboard_mode_names) NOT_BITMASK),
            always ''confine-to'' (enc ''confine_to'' (range_all GrabButton_confine_to_names) NOT_BITMASK),
            always ''cursor'' (enc ''cursor'' (range_all GrabButton_cursor_names) NOT_BITMASK),
            always ''button'' (enc ''button'' (range_all GrabButton_button_names) NOT_BITMASK),
            always ''modifiers'' (enc ''modifiers'' no_names NOT_BITMASK)]))))))))))"

definition parseRequest_UngrabButton :: request_parser where
  "parseRequest_UngrabButton P conn data sz =
     (let ws = ROOT_WS P; bsw = byteswap conn in
      require (sz \<ge> BASE_ENCODING_SZ UngrabButton) (
      and_then (RequestFixedEncoding P UngrabButton conn data sz) (\<lambda>fe.
      let pre = member P bsw UngrabButton_Prefix (prefix fe); enc = member P bsw UngrabButton_Encoding (encoding fe);
          n = ucast (fe_bytes_parsed fe) in
      require (\<not> header_only fe) (
      and_then (ordered_member P bsw UngrabButton_Prefix (prefix fe) ''opcode'') (\<lambda>opcode.
      require (opcode = UNGRABBUTTON) (
      and_then (length_assertion P bsw UngrabButton fe n) (\<lambda>lengths_agree.
      require lengths_agree (
      map_res (\<lambda>s. \<lparr>str = s, bytes_parsed = n\<rparr>)
        (braces P ws (request_width P ws fe ''grab-window'')
          ([verbose_only ''opcode'' (pre ''opcode'' no_names NOT_BITMASK),
            always ''button'' (pre ''button'' (range_all UngrabButton_button_names) NOT_BITMASK)] @
           length_rows P bsw UngrabButton fe @
           [always ''grab-window'' (enc ''grab_window'' no_names NOT_BITMASK),
            always ''modifiers'' (enc ''modifiers'' no_names NOT_BITMASK)]))))))))))"

definition parseRequest_ChangeActivePointerGrab :: request_parser where
  "parseRequest_ChangeActivePointerGrab P conn data sz =
     (let ws = ROOT_WS P; bsw = byteswap conn in
      require (sz \<ge> BASE_ENCODING_SZ ChangeActivePointerGrab) (
      and_then (RequestFixedEncoding P ChangeActivePointerGrab conn data sz) (\<lambda>fe.
      let pre = member P bsw Request_Prefix (prefix fe); enc = member P bsw ChangeActivePointerGrab_Encoding (encoding fe);
          n = ucast (fe_bytes_parsed fe) in
      require (\<not> header_only fe) (
      and_then (ordered_member P bsw Request_Prefix (prefix fe) ''opcode'') (\<lambda>opcode.
      require (opcode = CHANGEACTIVEPOINTERGRAB) (
      and_then (length_assertion P bsw ChangeActivePointerGrab fe n) (\<lambda>lengths_agree.
      require lengths_agree (
      map_res (\<lambda>s. \<lparr>str = s, bytes_parsed = n\<rparr>)
        (braces P ws (request_width P ws fe ''event-mask'')
          ([verbose_only ''opcode'' (pre ''opcode'' no_names NOT_BITMASK)] @
           length_rows P bsw ChangeActivePointerGrab fe @
           [always ''cursor'' (enc ''cursor'' (range_all ChangeActivePointerGrab_cursor_names) NOT_BITMASK),
            always ''time'' (enc ''time'' (range_all ChangeActivePointerGrab_time_names) NOT_BITMASK),
            always ''event-mask'' (enc ''event_mask'' no_names NOT_BITMASK)]))))))))))"

definition parseRequest_GrabKeyboard :: request_parser where
  "parseRequest_GrabKeyboard P conn data sz =
     (let ws = ROOT_WS P; bsw = byteswap conn in
      require (sz \<ge> BASE_ENCODING_SZ GrabKeyboard) (
      and_then (RequestFixedEncoding P GrabKeyboard conn data sz) (\<lambda>fe.
      let pre = member P bsw GrabKeyboard_Prefix (prefix fe); enc = member P bsw GrabKeyboard_Encoding (encoding fe);
          n = ucast (fe_bytes_parsed fe) in
      require (\<not> header_only fe) (
      and_then (ordered_member P bsw GrabKeyboard_Prefix (prefix fe) ''opcode'') (\<lambda>opcode.
      require (opcode = GRABKEYBOARD) (
      and_then (length_assertion P bsw GrabKeyboard fe n) (\<lambda>lengths_agree.
      require lengths_agree (
      map_res (\<lambda>s. \<lparr>str = s, bytes_parsed = n\<rparr>)
        (braces P ws (request_width P ws fe ''keyboard-mode'')
          ([verbose_only ''opcode'' (pre ''opcode'' no_names NOT_BITMASK),
            always ''owner-events'' (pre ''owner_events'' no_names NOT_BITMASK)] @
           length_rows P bsw GrabKeyboard fe @
           [always ''grab-window'' (enc ''grab_window'' no_names NOT_BITMASK),
            always ''time'' (enc ''time'' (range_all GrabKeyboard_time_names) NOT_BITMASK),
            always ''pointer-mode'' (enc ''pointer_mode'' (range_all GrabKeyboard_pointer_mode_names) NOT_BITMASK),
            always ''keyboard-mode'' (enc ''keyboard_mode'' (range_all GrabKeyboard_keyboard_mode_names) NOT_BITMASK)]))))))))))"

definition parseRequest_UngrabKeyboard :: request_parser where
  "parseRequest_UngrabKeyboard P conn data sz =
     (let ws = ROOT_WS P; bsw = byteswap conn in
      require (sz \<ge> BASE_ENCODING_SZ UngrabKeyboard) (
      and_then (RequestFixedEncoding P UngrabKeyboard conn data sz) (\<lambda>fe.
      let pre = member P bsw Request_Prefix (prefix fe); enc = member P bsw UngrabKeyboard_Encoding (encoding fe);
          n = ucast (fe_bytes_parsed fe) in
      require (\<not> header_only fe) (
      and_then (ordered_member P bsw Request_Prefix (prefix fe) ''opcode'') (\<lambda>opcode.
      require (opcode = UNGRABKEYBOARD) (
      and_then (length_assertion P bsw UngrabKeyboard fe n) (\<lambda>lengths_agree.
      require lengths_agree (
      map_res (\<lambda>s. \<lparr>str = s, bytes_parsed = n\<rparr>)
        (braces P ws (request_width P ws fe ''time'')
          ([verbose_only ''opcode'' (pre ''opcode'' no_names NOT_BITMASK)] @
           length_rows P bsw UngrabKeyboard fe @
           [always ''time'' (enc ''time'' (range_all UngrabKeyboard_time_names) NOT_BITMASK)]))))))))))"

definition parseRequest_GrabKey :: request_parser where
  "parseRequest_GrabKey P conn data sz =
     (let ws = ROOT_WS P; bsw = byteswap conn in
      require (sz \<ge> BASE_ENCODING_SZ GrabKey) (
      and_then (RequestFixedEncoding P GrabKey conn data sz) (\<lambda>fe.
      let pre = member P bsw GrabKey_Prefix (prefix fe); enc = member P bsw GrabKey_Encoding (encoding fe);
          n = ucast (fe_bytes_parsed fe) in
      require (\<not> header_only fe) (
      and_then (ordered_member P bsw GrabKey_Prefix (prefix fe) ''opcode'') (\<lambda>opcode.
      require (opcode = GRABKEY) (
      and_then (length_assertion P bsw GrabKey fe n) (\<lambda>lengths_agree.
      require lengths_agree (
      map_res (\<lambda>s. \<lparr>str = s, bytes_parsed = n\<rparr>)
        (braces P ws (request_width P ws fe ''keyboard-mode'')
          ([verbose_only ''opcode'' (pre ''opcode'' no_names NOT_BITMASK),
            always ''owner-events'' (pre ''owner_events'' no_names NOT_BITMASK)] @
           length_rows P bsw GrabKey fe @
           [always ''modifiers'' (enc ''modifiers'' no_names NOT_BITMASK),
            always ''key'' (enc ''key'' (range_all GrabKey_key_names) NOT_BITMASK),
            always ''pointer-mode'' (enc ''pointer_mode'' (range_all GrabKey_pointer_mode_names) NOT_BITMASK),
            always ''keyboard-mode'' (enc ''keyboard_mode'' (range_all GrabKey_keyboard_mode_names) NOT_BITMASK)]))))))))))"

definition parseRequest_UngrabKey :: request_parser where
  "parseRequest_UngrabKey P conn data sz =
     (let ws = ROOT_WS P; bsw = byteswap conn in
      require (sz \<ge> BASE_ENCODING_SZ UngrabKey) (
      and_then (RequestFixedEncoding P UngrabKey conn data sz) (\<lambda>fe.
      let pre = member P bsw UngrabKey_Prefix (prefix fe); enc = member P bsw UngrabKey_Encoding (encoding fe);
          n = ucast (fe_bytes_parsed fe) in
      require (\<not> header_only fe) (
      and_then (ordered_member P bsw UngrabKey_Prefix (prefix fe) ''opcode'') (\<lambda>opcode.
      require (opcode = UNGRABKEY) (
      and_then (length_assertion P bsw UngrabKey fe n) (\<lambda>lengths_agree.
      require lengths_agree (
      map_res (\<lambda>s. \<lparr>str = s, bytes_parsed = n\<rparr>)
        (braces P ws (request_width P ws fe ''grab-window'')
          ([verbose_only ''opcode'' (pre ''opcode'' no_names NOT_BITMASK),
            always ''key'' (pre ''key'' (range_all UngrabKey_key_names) NOT_BITMASK)] @
           length_rows P bsw UngrabKey fe @
           [always ''grab-window'' (enc ''grab_window'' no_names NOT_BITMASK),
            always ''modifiers'' (enc ''modifiers'' no_names NOT_BITMASK)]))))))))))"

definition parseRequest_AllowEvents :: request_parser where
  "parseRequest_AllowEvents P conn data sz =
     (let ws = ROOT_WS P; bsw = byteswap conn in
      require (sz \<ge> BASE_ENCODING_SZ AllowEvents) (
      and_then (RequestFixedEncoding P AllowEvents conn data sz) (\<lambda>fe.
      let pre = member P bsw AllowEvents_Prefix (prefix fe); enc = member P bsw AllowEvents_Encoding (encoding fe);
          n = ucast (fe_bytes_parsed fe) in
      require (\<not> header_only fe) (
      and_then (ordered_member P bsw AllowEvents_Prefix (prefix fe) ''opcode'') (\<lambda>opcode.
      require (opcode = ALLOWEVENTS) (
      and_then (length_assertion P bsw AllowEvents fe n) (\<lambda>lengths_agree.
      require lengths_agree (
      map_res (\<lambda>s. \<lparr>str = s, bytes_parsed = n\<rparr>)
        (braces P ws (request_width P ws fe ''mode'')
          ([verbose_only ''opcode'' (pre ''opcode'' no_names NOT_BITMASK),
            always ''mode'' (pre ''mode'' (range_all AllowEvents_mode_names) NOT_BITMASK)] @
           length_rows P bsw AllowEvents fe @
           [always ''time'' (enc ''time'' (range_all AllowEvents_time_names) NOT_BITMASK)]))))))))))"

definition parseRequest_GrabServer :: request_parser where
  "parseRequest_GrabServer P conn data sz =
     require (unat sz \<ge> sizeof Request_Prefix) (
     and_then (ordered_member P (byteswap conn) Request_Prefix data ''opcode'') (\<lambda>opcode.
     require (opcode = GRABSERVER) (
     parseRequest_SimpleRequest P conn data sz)))"

definition parseRequest_UngrabServer :: request_parser where
  "parseRequest_UngrabServer P conn data sz =
     require (unat sz \<ge> sizeof Request_Prefix) (
     and_then (ordered_member P (byteswap conn) Request_Prefix data ''opcode'') (\<lambda>opcode.
     require (opcode = UNGRABSERVER) (
     parseRequest_SimpleRequest P conn data sz)))"

definition parseRequest_QueryPointer :: request_parser where
  "parseRequest_QueryPointer P conn data sz =
     require (unat sz \<ge> sizeof Request_Prefix) (
     and_then (ordered_member P (byteswap conn) Request_Prefix data ''opcode'') (\<lambda>opcode.
     require (opcode = QUERYPOINTER) (
     parseRequest_SimpleWindowRequest P conn data sz)))"

definition parseRequest_GetMotionEvents :: request_parser where
  "parseRequest_GetMotionEvents P conn data sz =
     (let ws = ROOT_WS P; bsw = byteswap conn in
      require (sz \<ge> BASE_ENCODING_SZ GetMotionEvents) (
      and_then (RequestFixedEncoding P GetMotionEvents conn data sz) (\<lambda>fe.
      let pre = member P bsw Request_Prefix (prefix fe); enc = member P bsw GetMotionEvents_Encoding (encoding fe);
          n = ucast (fe_bytes_parsed fe) in
      require (\<not> header_only fe) (
      and_then (ordered_member P bsw Request_Prefix (prefix fe) ''opcode'') (\<lambda>opcode.
      require (opcode = GETMOTIONEVENTS) (
      and_then (length_assertion P bsw GetMotionEvents fe n) (\<lambda>lengths_agree.
      require lengths_agree (
      map_res (\<lambda>s. \<lparr>str = s, bytes_parsed = n\<rparr>)
        (braces P ws (request_width P ws fe ''window'')
          ([verbose_only ''opcode'' (pre ''opcode'' no_names NOT_BITMASK)] @
           length_rows P bsw GetMotionEvents fe @
           [always ''window'' (enc ''window'' no_names NOT_BITMASK),
            always ''start'' (enc ''start'' (range_all GetMotionEvents_start_names) NOT_BITMASK),
            always ''stop'' (enc ''stop'' (range_all GetMotionEvents_stop_names) NOT_BITMASK)]))))))))))"

definition parseRequest_TranslateCoordinates :: request_parser where
  "parseRequest_TranslateCoordinates P conn data sz =
     (let ws = ROOT_WS P; bsw = byteswap conn in
      require (sz \<ge> BASE_ENCODING_SZ TranslateCoordinates) (
      and_then (RequestFixedEncoding P TranslateCoordinates conn data sz) (\<lambda>fe.
      let pre = member P bsw Request_Prefix (prefix fe); enc = member P bsw TranslateCoordinates_Encoding (encoding fe);
          n = ucast (fe_bytes_parsed fe) in
      require (\<not> header_only fe) (
      and_then (ordered_member P bsw Request_Prefix (prefix fe) ''opcode'') (\<lambda>opcode.
      require (opcode = TRANSLATECOORDINATES) (
      and_then (length_assertion P bsw TranslateCoordinates fe n) (\<lambda>lengths_agree.
      require lengths_agree (
      map_res (\<lambda>s. \<lparr>str = s, bytes_parsed = n\<rparr>)
        (braces P ws (request_width P ws fe ''src-window'')
          ([verbose_only ''opcode'' (pre ''opcode'' no_names NOT_BITMASK)] @
           length_rows P bsw TranslateCoordinates fe @
           [always ''src-window'' (enc ''src_window'' no_names NOT_BITMASK),
            always ''dst-window'' (enc ''dst_window'' no_names NOT_BITMASK),
            always ''src-x'' (enc ''src_x'' no_names NOT_BITMASK),
            always ''src-y'' (enc ''src_y'' no_names NOT_BITMASK)]))))))))))"

definition parseRequest_WarpPointer :: request_parser where
  "parseRequest_WarpPointer P conn data sz =
     (let ws = ROOT_WS P; bsw = byteswap conn in
      require (sz \<ge> BASE_ENCODING_SZ WarpPointer) (
      and_then (RequestFixedEncoding P WarpPointer conn data sz) (\<lambda>fe.
      let pre = member P bsw Request_Prefix (prefix fe); enc = member P bsw WarpPointer_Encoding (encoding fe);
          n = ucast (fe_bytes_parsed fe) in
      require (\<not> header_only fe) (
      and_then (ordered_member P bsw Request_Prefix (prefix fe) ''opcode'') (\<lambda>opcode.
      require (opcode = WARPPOINTER) (
      and_then (length_assertion P bsw WarpPointer fe n) (\<lambda>lengths_agree.
      require lengths_agree (
      map_res (\<lambda>s. \<lparr>str = s, bytes_parsed = n\<rparr>)
        (braces P ws (request_width P ws fe ''src-window'')
          ([verbose_only ''opcode'' (pre ''opcode'' no_names NOT_BITMASK)] @
           length_rows P bsw WarpPointer fe @
           [always ''src-window'' (enc ''src_window'' (range_all WarpPointer_src_window_names) NOT_BITMASK),
            always ''dst-window'' (enc ''dst_window'' (range_all WarpPointer_dst_window_names) NOT_BITMASK),
            always ''src-x'' (enc ''src_x'' no_names NOT_BITMASK),
            always ''src-y'' (enc ''src_y'' no_names NOT_BITMASK),
            always ''src-width'' (enc ''src_width'' no_names NOT_BITMASK),
            always ''src-height'' (enc ''src_height'' no_names NOT_BITMASK),
            always ''dst-x'' (enc ''dst_x'' no_names NOT_BITMASK),
            always ''dst-y'' (enc ''dst_y'' no_names NOT_BITMASK)]))))))))))"

definition parseRequest_SetInputFocus :: request_parser where
  "parseRequest_SetInputFocus P conn data sz =
     (let ws = ROOT_WS P; bsw = byteswap conn in
      require (sz \<ge> BASE_ENCODING_SZ SetInputFocus) (
      and_then (RequestFixedEncoding P SetInputFocus conn data sz) (\<lambda>fe.
      let pre = member P bsw SetInputFocus_Prefix (prefix fe); enc = member P bsw SetInputFocus_Encoding (encoding fe);
          n = ucast (fe_bytes_parsed fe) in
      require (\<not> header_only fe) (
      and_then (ordered_member P bsw SetInputFocus_Prefix (prefix fe) ''opcode'') (\<lambda>opcode.
      require (opcode = SETINPUTFOCUS) (
      and_then (length_assertion P bsw SetInputFocus fe n) (\<lambda>lengths_agree.
      require lengths_agree (
      map_res (\<lambda>s. \<lparr>str = s, bytes_parsed = n\<rparr>)
        (braces P ws (request_width P ws fe ''revert-to'')
          ([verbose_only ''opcode'' (pre ''opcode'' no_names NOT_BITMASK),
            always ''revert-to'' (pre ''revert_to'' (range_all SetInputFocus_revert_to_names) NOT_BITMASK)] @
           length_rows P bsw SetInputFocus fe @
           [always ''focus'' (enc ''focus'' (range_bound SetInputFocus_focus_names Bound_MAX SetInputFocus_FOCUS_ENUM_MAX) NOT_BITMASK),
            always ''time'' (enc ''time'' (range_all SetInputFocus_time_names) NOT_BITMASK)]))))))))))"

definition parseRequest_GetInputFocus :: request_parser where
  "parseRequest_GetInputFocus P conn data sz =
     require (unat sz \<ge> sizeof Request_Prefix) (
     and_then (ordered_member P (byteswap conn) Request_Prefix data ''opcode'') (\<lambda>opcode.
     require (opcode = GETINPUTFOCUS) (
     parseRequest_SimpleRequest P conn data sz)))"

definition parseRequest_QueryKeymap :: request_parser where
  "parseRequest_QueryKeymap P conn data sz =
     require (unat sz \<ge> sizeof Request_Prefix) (
     and_then (ordered_member P (byteswap conn) Request_Prefix data ''opcode'') (\<lambda>opcode.
     require (opcode = QUERYKEYMAP) (
     parseRequest_SimpleRequest P conn data sz)))"

definition parseRequest_OpenFont :: request_parser where
  "parseRequest_OpenFont P conn data sz =
     (let ws = ROOT_WS P; bsw = byteswap conn in
      require (sz \<ge> BASE_ENCODING_SZ OpenFont) (
      and_then (RequestFixedEncoding P OpenFont conn data sz) (\<lambda>fe.
      let pre = member P bsw Request_Prefix (prefix fe); enc = member P bsw OpenFont_Encoding (encoding fe);
          n = ucast (fe_bytes_parsed fe) in
      require (\<not> header_only fe) (
      and_then (ordered_member P bsw Request_Prefix (prefix fe) ''opcode'') (\<lambda>opcode.
      require (opcode = OPENFONT) (
      and_then (ordered_member P bsw OpenFont_Encoding (encoding fe) ''name_len'') (\<lambda>name_len.
      let name = read_text data (unat n) name_len in
      let n1 = n + ucast (Alignment_pad (of_nat name_len)) in
      and_then (length_assertion P bsw OpenFont fe n1) (\<lambda>lengths_agree.
      require lengths_agree (
      map_res (\<lambda>s. \<lparr>str = s, bytes_parsed = n1\<rparr>)
        (braces P ws (request_width P ws fe ''fid'')
          ([verbose_only ''opcode'' (pre ''opcode'' no_names NOT_BITMASK)] @
           length_rows P bsw OpenFont fe @
           [always ''fid'' (enc ''fid'' no_names NOT_BITMASK),
            verbose_only ''(name length)'' (enc ''name_len'' no_names NOT_BITMASK),
            always ''name'' (map_res (fmt_debug (fmtl P)) name)])))))))))))"

definition parseRequest_CloseFont :: request_parser where
  "parseRequest_CloseFont P conn data sz =
     (let ws = ROOT_WS P; bsw = byteswap conn in
      require (sz \<ge> BASE_ENCODING_SZ CloseFont) (
      and_then (RequestFixedEncoding P CloseFont conn data sz) (\<lambda>fe.
      let pre = member P bsw Request_Prefix (prefix fe); enc = member P bsw CloseFont_Encoding (encoding fe);
          n = ucast (fe_bytes_parsed fe) in
      require (\<not> header_only fe) (
      and_then (ordered_member P bsw Request_Prefix (prefix fe) ''opcode'') (\<lambda>opcode.
      require (opcode = CLOSEFONT) (
      and_then (length_assertion P bsw CloseFont fe n) (\<lambda>lengths_agree.
      require lengths_agree (
      map_res (\<lambda>s. \<lparr>str = s, bytes_parsed = n\<rparr>)
        (braces P ws (request_width P ws fe ''font'')
          ([verbose_only ''opcode'' (pre ''opcode'' no_names NOT_BITMASK)] @
           length_rows P bsw CloseFont fe @
           [always ''font'' (enc ''font'' no_names NOT_BITMASK)]))))))))))"

definition parseRequest_QueryFont :: request_parser where
  "parseRequest_QueryFont P conn data sz =
     (let ws = ROOT_WS P; bsw = byteswap conn in
      require (sz \<ge> BASE_ENCODING_SZ QueryFont) (
      and_then (RequestFixedEncoding P QueryFont conn data sz) (\<lambda>fe.
      let pre = member P bsw Request_Prefix (prefix fe); enc = member P bsw QueryFont_Encoding (encoding fe);
          n = ucast (fe_bytes_parsed fe) in
      require (\<not> header_only fe) (
      and_then (ordered_member P bsw Request_Prefix (prefix fe) ''opcode'') (\<lambda>opcode.
      require (opcode = QUERYFONT) (
      and_then (length_assertion P bsw QueryFont fe n) (\<lambda>lengths_agree.
      require lengths_agree (
      map_res (\<lambda>s. \<lparr>str = s, bytes_parsed = n\<rparr>)
        (braces P ws (request_width P ws fe ''font'')
          ([verbose_only ''opcode'' (pre ''opcode'' no_names NOT_BITMASK)] @
           length_rows P bsw QueryFont fe @
           [always ''font'' (enc ''font'' no_names NOT_BITMASK)]))))))))))"

definition parseRequest_QueryTextExtents :: request_parser where
  "parseRequest_QueryTextExtents P conn data sz =
     (let ws = ROOT_WS P; bsw = byteswap conn in
      require (sz \<ge> BASE_ENCODING_SZ QueryTextExtents) (
      and_then (RequestFixedEncoding P QueryTextExtents conn data sz) (\<lambda>fe.
      let pre = member P bsw QueryTextExtents_Prefix (prefix fe); enc = member P bsw QueryTextExtents_Encoding (encoding fe);
          n = ucast (fe_bytes_parsed fe) in
      require (\<not> header_only fe) (
      and_then (ordered_member P bsw QueryTextExtents_Prefix (prefix fe) ''opcode'') (\<lambda>opcode.
      require (opcode = QUERYTEXTEXTENTS) (
      and_then (tl_aligned_units P bsw QueryTextExtents fe) (\<lambda>tl.
      let string_sz = Alignment_size (of_nat tl) - base_encoding_sz QueryTextExtents fe in
      and_then (ordered_member P bsw QueryTextExtents_Prefix (prefix fe) ''odd_length'') (\<lambda>odd_length.
      let string_len = string_sz div of_nat (sizeof CHAR2B) - (if odd_length \<noteq> 0 then 1 else 0) in
      and_then (nested FORCE_SINGLELINE ws) (\<lambda>string_ws.
      and_then (parseLISTof_struct (parseListMember_struct CHAR2B (formatCHAR2B P bsw)) (drop (unat n) data) string_sz (ucast string_len) string_ws DEFAULT) (\<lambda>string.
      let n1 = n + ucast string_sz in
      require (of_nat tl = Alignment_units (ucast n1)) (
      map_res (\<lambda>s. \<lparr>str = s, bytes_parsed = n1\<rparr>)
        (braces P ws (request_width P ws fe ''string'')
          ([verbose_only ''opcode'' (pre ''opcode'' no_names NOT_BITMASK),
            verbose_only ''(odd length)'' (pre ''odd_length'' no_names NOT_BITMASK)] @
           length_rows P bsw QueryTextExtents fe @
           [always ''font'' (enc ''font'' no_names NOT_BITMASK),
            always ''string'' (Inr (str string))])))))))))))))"

definition parseRequest_ListFonts :: request_parser where
  "parseRequest_ListFonts P conn data sz =
     require (unat sz \<ge> sizeof Request_Prefix) (
     and_then (ordered_member P (byteswap conn) Request_Prefix data ''opcode'') (\<lambda>opcode.
     require (opcode = LISTFONTS) (
     parseRequest_ListFontsRequest P conn data sz)))"

definition parseRequest_ListFontsWithInfo :: request_parser where
  "parseRequest_ListFontsWithInfo P conn data sz =
     require (unat sz \<ge> sizeof Request_Prefix) (
     and_then (ordered_member P (byteswap conn) Request_Prefix data ''opcode'') (\<lambda>opcode.
     require (opcode = LISTFONTSWITHINFO) (
     parseRequest_ListFontsRequest P conn data sz)))"

definition parseRequest_SetFontPath :: request_parser where
  "parseRequest_SetFontPath P conn data sz =
     (let ws = ROOT_WS P; bsw = byteswap conn in
      require (sz \<ge> BASE_ENCODING_SZ SetFontPath) (
      and_then (RequestFixedEncoding P SetFontPath conn data sz) (\<lambda>fe.
      let pre = member P bsw Request_Prefix (prefix fe); enc = member P bsw SetFontPath_Encoding (encoding fe);
          n = ucast (fe_bytes_parsed fe) in
      require (\<not> header_only fe) (
      and_then (ordered_member P bsw Request_Prefix (prefix fe) ''opcode'') (\<lambda>opcode.
      require (opcode = SETFONTPATH) (
      and_then (ordered_member P bsw SetFontPath_Encoding (encoding fe) ''path_ct'') (\<lambda>path_ct.
      and_then (nested DEFAULT ws) (\<lambda>path_ws.
      and_then (parseLISTof_struct (parseListMember_STR P bsw) (drop (unat n) data) (sz - ucast n) (of_nat path_ct) path_ws FORCE_SINGLELINE) (\<lambda>path.
      let n1 = n + ucast (Alignment_pad (ucast (bytes_parsed path))) in
      and_then (length_assertion P bsw SetFontPath fe n1) (\<lambda>lengths_agree.
      require lengths_agree (
      map_res (\<lambda>s. \<lparr>str = s, bytes_parsed = n1\<rparr>)
        (braces P ws (request_width P ws fe ''path'')
          ([verbose_only ''opcode'' (pre ''opcode'' no_names NOT_BITMASK)] @
           length_rows P bsw SetFontPath fe @
           [verbose_only ''(STRs in path)'' (enc ''path_ct'' no_names NOT_BITMASK),
            always ''path'' (Inr (str path))])))))))))))))"

definition parseRequest_GetFontPath :: request_parser where
  "parseRequest_GetFontPath P conn data sz =
     require (unat sz \<ge> sizeof Request_Prefix) (
     and_then (ordered_member P (byteswap conn) Request_Prefix data ''opcode'') (\<lambda>opcode.
     require (opcode = GETFONTPATH) (
     parseRequest_SimpleRequest P conn data sz)))"

definition parseRequest_CreatePixmap :: request_parser where
  "parseRequest_CreatePixmap P conn data sz =
     (let ws = ROOT_WS P; bsw = byteswap conn in
      require (sz \<ge> BASE_ENCODING_SZ CreatePixmap) (
      and_then (RequestFixedEncoding P CreatePixmap conn data sz) (\<lambda>fe.
      let pre = member P bsw CreatePixmap_Prefix (prefix fe); enc = member P bsw CreatePixmap_Encoding (encoding fe);
          n = ucast (fe_bytes_parsed fe) in
      require (\<not> header_only fe) (
      and_then (ordered_member P bsw CreatePixmap_Prefix (prefix fe) ''opcode'') (\<lambda>opcode.
      require (opcode = CREATEPIXMAP) (
      and_then (length_assertion P bsw CreatePixmap fe n) (\<lambda>lengths_agree.
      require lengths_agree (
      map_res (\<lambda>s. \<lparr>str = s, bytes_parsed = n\<rparr>)
        (braces P ws (request_width P ws fe ''drawable'')
          ([verbose_only ''opcode'' (pre ''opcode'' no_names NOT_BITMASK),
            always ''depth'' (pre ''depth'' no_names NOT_BITMASK)] @
           length_rows P bsw CreatePixmap fe @
           [always ''pid'' (enc ''pid'' no_names NOT_BITMASK),
            always ''drawable'' (enc ''drawable'' no_names NOT_BITMASK),
            always ''width'' (enc ''width'' no_names NOT_BITMASK),
            always ''height'' (enc ''height'' no_names NOT_BITMASK)]))))))))))"

definition parseRequest_FreePixmap :: request_parser where
  "parseRequest_FreePixmap P conn data sz =
     (let ws = ROOT_WS P; bsw = byteswap conn in
      require (sz \<ge> BASE_ENCODING_SZ FreePixmap) (
      and_then (RequestFixedEncoding P FreePixmap conn data sz) (\<lambda>fe.
      let pre = member P bsw Request_Prefix (prefix fe); enc = member P bsw FreePixmap_Encoding (encoding fe);
          n = ucast (fe_bytes_parsed fe) in
      require (\<not> header_only fe) (
      and_then (ordered_member P bsw Request_Prefix (prefix fe) ''opcode'') (\<lambda>opcode.
      require (opcode = FREEPIXMAP) (
      and_then (length_assertion P bsw FreePixmap fe n) (\<lambda>lengths_agree.
      require lengths_agree (
      map_res (\<lambda>s. \<lparr>str = s, bytes_parsed = n\<rparr>)
        (braces P ws (request_width P ws fe ''pixmap'')
          ([verbose_only ''opcode'' (pre ''opcode'' no_names NOT_BITMASK)] @
           length_rows P bsw FreePixmap fe @
           [always ''pixmap'' (enc ''pixmap'' no_names NOT_BITMASK)]))))))))))"

definition parseRequest_CreateGC :: request_parser where
  "parseRequest_CreateGC P conn data sz =
     (let ws = ROOT_WS P; bsw = byteswap conn in
      require (sz \<ge> BASE_ENCODING_SZ CreateGC) (
      and_then (RequestFixedEncoding P CreateGC conn data sz) (\<lambda>fe.
      let pre = member P bsw Request_Prefix (prefix fe); enc = member P bsw CreateGC_Encoding (encoding fe);
          n = ucast (fe_bytes_parsed fe) in
      require (\<not> header_only fe) (
      and_then (ordered_member P bsw Request_Prefix (prefix fe) ''opcode'') (\<lambda>opcode.
      require (opcode = CREATEGC) (
      and_then (collect
         [value_trait (range_all GCRequest_function_names) NOT_BITMASK,
          value_trait no_names BITMASK,
          value_trait no_names NOT_BITMASK,
          value_trait no_names NOT_BITMASK,
          value_trait no_names NOT_BITMASK,
          value_trait (range_all GCRequest_line_style_names) NOT_BITMASK,
          value_trait (range_all GCRequest_cap_style_names) NOT_BITMASK,
          value_trait (range_all GCRequest_join_style_names) NOT_BITMASK,
          value_trait (range_all GCRequest_fill_style_names) NOT_BITMASK,
          value_trait (range_all GCRequest_fill_rule_names) NOT_BITMASK,
          value_trait no_names NOT_BITMASK,
          value_trait no_names NOT_BITMASK,
          value_trait no_names NOT_BITMASK,
          value_trait no_names NOT_BITMASK,
          value_trait no_names NOT_BITMASK,
          value_trait (range_all GCRequest_subwindow_mode_names) NOT_BITMASK,
          value_trait no_names NOT_BITMASK,
          value_trait no_names NOT_BITMASK,
          value_trait no_names NOT_BITMASK,
          value_trait (range_all GCRequest_clip_mask_names) BITMASK,
          value_trait no_names NOT_BITMASK,
          value_trait no_names NOT_BITMASK,
          value_trait (range_all GCRequest_arc_mode_names) NOT_BITMASK]) (\<lambda>value_traits.
      and_then (ordered_member P bsw CreateGC_Encoding (encoding fe) ''value_mask'') (\<lambda>value_mask.
      and_then (nested DEFAULT ws) (\<lambda>value_list_ws.
      and_then (parseLISTofVALUE P (drop (unat n) data) (sz - ucast n) value_mask GCRequest_value_types GCRequest_value_names
                 value_traits bsw value_list_ws) (\<lambda>value_list.
      let n1 = n + bytes_parsed value_list in
      and_then (length_assertion P bsw CreateGC fe n1) (\<lambda>lengths_agree.
      require lengths_agree (
      map_res (\<lambda>s. \<lparr>str = s, bytes_parsed = n1\<rparr>)
        (braces P ws (request_width P ws fe ''value-list'')
          ([verbose_only ''opcode'' (pre ''opcode'' no_names NOT_BITMASK)] @
           length_rows P bsw CreateGC fe @
           [always ''cid'' (enc ''cid'' no_names NOT_BITMASK),
            always ''drawable'' (enc ''drawable'' no_names NOT_BITMASK),
            verbose_only ''value-mask'' (enc ''value_mask'' (range_all GCRequest_value_names) BITMASK),
            always ''value-list'' (Inr (str value_list))]))))))))))))))"

definition parseRequest_ChangeGC :: request_parser where
  "parseRequest_ChangeGC P conn data sz =
     (let ws = ROOT_WS P; bsw = byteswap conn in
      require (sz \<ge> BASE_ENCODING_SZ ChangeGC) (
      and_then (RequestFixedEncoding P ChangeGC conn data sz) (\<lambda>fe.
      let pre = member P bsw Request_Prefix (prefix fe); enc = member P bsw ChangeGC_Encoding (encoding fe);
          n = ucast (fe_bytes_parsed fe) in
      require (\<not> header_only fe) (
      and_then (ordered_member P bsw Request_Prefix (prefix fe) ''opcode'') (\<lambda>opcode.
      require (opcode = CHANGEGC) (
      and_then (collect
         [value_trait (range_all GCRequest_function_names) NOT_BITMASK,
          value_trait no_names BITMASK,
          value_trait no_names NOT_BITMASK,
          value_trait no_names NOT_BITMASK,
          value_trait no_names NOT_BITMASK,
          value_trait (range_all GCRequest_line_style_names) NOT_BITMASK,
          value_trait (range_all GCRequest_cap_style_names) NOT_BITMASK,
          value_trait (range_all GCRequest_join_style_names) NOT_BITMASK,
          value_trait (range_all GCRequest_fill_style_names) NOT_BITMASK,
          value_trait (range_all GCRequest_fill_rule_names) NOT_BITMASK,
          value_trait no_names NOT_BITMASK,
          value_trait no_names NOT_BITMASK,
          value_trait no_names NOT_BITMASK,
          value_trait no_names NOT_BITMASK,
          value_trait no_names NOT_BITMASK,
          value_trait (range_all GCRequest_subwindow_mode_names) NOT_BITMASK,
          value_trait no_names NOT_BITMASK,
          value_trait no_names NOT_BITMASK,
          value_trait no_names NOT_BITMASK,
          value_trait (range_all GCRequest_clip_mask_names) BITMASK,
          value_trait no_names NOT_BITMASK,
          value_trait no_names NOT_BITMASK,
          value_trait (range_all GCRequest_arc_mode_names) NOT_BITMASK]) (\<lambda>value_traits.
      and_then (ordered_member P bsw ChangeGC_Encoding (encoding fe) ''value_mask'') (\<lambda>value_mask.
      and_then (nested DEFAULT ws) (\<lambda>value_list_ws.
      and_then (parseLISTofVALUE P (drop (unat n) data) (sz - ucast n) value_mask GCRequest_value_types GCRequest_value_names
                 value_traits bsw value_list_ws) (\<lambda>value_list.
      let n1 = n + bytes_parsed value_list in
      and_then (length_assertion P bsw ChangeGC fe n1) (\<lambda>lengths_agree.
      require lengths_agree (
      map_res (\<lambda>s. \<lparr>str = s, bytes_parsed = n1\<rparr>)
        (braces P ws (request_width P ws fe ''value-list'')
          ([verbose_only ''opcode'' (pre ''opcode'' no_names NOT_BITMASK)] @
           length_rows P bsw ChangeGC fe @
           [always ''gc'' (enc ''gc'' no_names NOT_BITMASK),
            verbose_only ''value-mask'' (enc ''value_mask'' (range_all GCRequest_value_names) BITMASK),
            always ''value-list'' (Inr (str value_list))]))))))))))))))"

definition parseRequest_CopyGC :: request_parser where
  "parseRequest_CopyGC P conn data sz =
     (let ws = ROOT_WS P; bsw = byteswap conn in
      require (sz \<ge> BASE_ENCODING_SZ CopyGC) (
      and_then (RequestFixedEncoding P CopyGC conn data sz) (\<lambda>fe.
      let pre = member P bsw Request_Prefix (prefix fe); enc = member P bsw CopyGC_Encoding (encoding fe);
          n = ucast (fe_bytes_parsed fe) in
      require (\<not> header_only fe) (
      and_then (ordered_member P bsw Request_Prefix (prefix fe) ''opcode'') (\<lambda>opcode.
      require (opcode = COPYGC) (
      and_then (length_assertion P bsw CopyGC fe n) (\<lambda>lengths_agree.
      require lengths_agree (
      map_res (\<lambda>s. \<lparr>str = s, bytes_parsed = n\<rparr>)
        (braces P ws (request_width P ws fe ''value-mask'')
          ([verbose_only ''opcode'' (pre ''opcode'' no_names NOT_BITMASK)] @
           length_rows P bsw CopyGC fe @
           [always ''src-gc'' (enc ''src_gc'' no_names NOT_BITMASK),
            always ''dst-gc'' (enc ''dst_gc'' no_names NOT_BITMASK),
            always ''value-mask'' (enc ''value_mask'' (range_all GCRequest_value_names) BITMASK)]))))))))))"

definition parseRequest_SetDashes :: request_parser where
  "parseRequest_SetDashes P conn data sz =
     (let ws = ROOT_WS P; bsw = byteswap conn in
      require (sz \<ge> BASE_ENCODING_SZ SetDashes) (
      and_then (RequestFixedEncoding P SetDashes conn data sz) (\<lambda>fe.
      let pre = member P bsw Request_Prefix (prefix fe); enc = member P bsw SetDashes_Encoding (encoding fe);
          n = ucast (fe_bytes_parsed fe) in
      require (\<not> header_only fe) (
      and_then (ordered_member P bsw Request_Prefix (prefix fe) ''opcode'') (\<lambda>opcode.
      require (opcode = SETDASHES) (
      and_then (ordered_member P bsw SetDashes_Encoding (encoding fe) ''dashes_len'') (\<lambda>dashes_len.
      and_then (nested DEFAULT ws) (\<lambda>dashes_ws.
      and_then (parseLISTof_int P CARD8 (drop (unat n) data) (sz - ucast n) (of_nat dashes_len) bsw dashes_ws no_names NOT_BITMASK) (\<lambda>dashes.
      let n1 = n + ucast (Alignment_pad (ucast (bytes_parsed dashes))) in
      and_then (length_assertion P bsw SetDashes fe n1) (\<lambda>lengths_agree.
      require lengths_agree (
      map_res (\<lambda>s. \<lparr>str = s, bytes_parsed = n1\<rparr>)
        (braces P ws (request_width P ws fe ''dash-offset'')
          ([verbose_only ''opcode'' (pre ''opcode'' no_names NOT_BITMASK)] @
           length_rows P bsw SetDashes fe @
           [always ''gc'' (enc ''gc'' no_names NOT_BITMASK),
            always ''dash-offset'' (enc ''dash_offset'' no_names NOT_BITMASK),
            verbose_only ''(dashes length)'' (enc ''dashes_len'' no_names NOT_BITMASK),
            always ''dashes'' (Inr (str dashes))])))))))))))))"

definition parseRequest_SetClipRectangles :: request_parser where
  "parseRequest_SetClipRectangles P conn data sz =
     (let ws = ROOT_WS P; bsw = byteswap conn in
      require (sz \<ge> BASE_ENCODING_SZ SetClipRectangles) (
      and_then (RequestFixedEncoding P SetClipRectangles conn data sz) (\<lambda>fe.
      let pre = member P bsw SetClipRectangles_Prefix (prefix fe); enc = member P bsw SetClipRectangles_Encoding (encoding fe);
          n = ucast (fe_bytes_parsed fe) in
      require (\<not> header_only fe) (
      and_then (ordered_member P bsw SetClipRectangles_Prefix (prefix fe) ''opcode'') (\<lambda>opcode.
      require (opcode = SETCLIPRECTANGLES) (
      and_then (tl_aligned_units P bsw SetClipRectangles fe) (\<lambda>tl.
      let rectangles_sz = Alignment_size (of_nat tl) - base_encoding_sz SetClipRectangles fe in
      let rectangles_ct = rectangles_sz div of_nat (sizeof RECTANGLE) in
      and_then (nested DEFAULT ws) (\<lambda>rectangles_ws.
      and_then (parseLISTof_struct (parseListMember_struct RECTANGLE (formatRECTANGLE P bsw)) (drop (unat n) data) rectangles_sz (ucast rectangles_ct) rectangles_ws FORCE_SINGLELINE) (\<lambda>rectangles.
      let n1 = n + ucast (Alignment_pad (ucast (bytes_parsed rectangles))) in
      and_then (length_assertion P bsw SetClipRectangles fe n1) (\<lambda>lengths_agree.
      require lengths_agree (
      map_res (\<lambda>s. \<lparr>str = s, bytes_parsed = n1\<rparr>)
        (braces P ws (request_width P ws fe ''clip-x-origin'')
          ([verbose_only ''opcode'' (pre ''opcode'' no_names NOT_BITMASK),
            always ''ordering'' (pre ''ordering'' (range_all SetClipRectangles_ordering_names) NOT_BITMASK)] @
           length_rows P bsw SetClipRectangles fe @
           [always ''gc'' (enc ''gc'' no_names NOT_BITMASK),
            always ''clip-x-origin'' (enc ''clip_x_origin'' no_names NOT_BITMASK),
            always ''clip-y-origin'' (enc ''clip_y_origin'' no_names NOT_BITMASK),
            always ''rectangles'' (Inr (str rectangles))])))))))))))))"

definition parseRequest_FreeGC :: request_parser where
  "parseRequest_FreeGC P conn data sz =
     (let ws = ROOT_WS P; bsw = byteswap conn in
      require (sz \<ge> BASE_ENCODING_SZ FreeGC) (
      and_then (RequestFixedEncoding P FreeGC conn data sz) (\<lambda>fe.
      let pre = member P bsw Request_Prefix (prefix fe); enc = member P bsw FreeGC_Encoding (encoding fe);
          n = ucast (fe_bytes_parsed fe) in
      require (\<not> header_only fe) (
      and_then (ordered_member P bsw Request_Prefix (prefix fe) ''opcode'') (\<lambda>opcode.
      require (opcode = FREEGC) (
      and_then (length_assertion P bsw FreeGC fe n) (\<lambda>lengths_agree.
      require lengths_agree (
      map_res (\<lambda>s. \<lparr>str = s, bytes_parsed = n\<rparr>)
        (braces P ws (request_width P ws fe ''gc'')
          ([verbose_only ''opcode'' (pre ''opcode'' no_names NOT_BITMASK)] @
           length_rows P bsw FreeGC fe @
           [always ''gc'' (enc ''gc'' no_names NOT_BITMASK)]))))))))))"

definition parseRequest_ClearArea :: request_parser where
  "parseRequest_ClearArea P conn data sz =
     (let ws = ROOT_WS P; bsw = byteswap conn in
      require (sz \<ge> BASE_ENCODING_SZ ClearArea) (
      and_then (RequestFixedEncoding P ClearArea conn data sz) (\<lambda>fe.
      let pre = member P bsw ClearArea_Prefix (prefix fe); enc = member P bsw ClearArea_Encoding (encoding fe);
          n = ucast (fe_bytes_parsed fe) in
      require (\<not> header_only fe) (
      and_then (ordered_member P bsw ClearArea_Prefix (prefix fe) ''opcode'') (\<lambda>opcode.
      require (opcode = CLEARAREA) (
      and_then (length_assertion P bsw ClearArea fe n) (\<lambda>lengths_agree.
      require lengths_agree (
      map_res (\<lambda>s. \<lparr>str = s, bytes_parsed = n\<rparr>)
        (braces P ws (request_width P ws fe ''exposures'')
          ([verbose_only ''opcode'' (pre ''opcode'' no_names NOT_BITMASK),
            always ''exposures'' (pre ''exposures'' no_names NOT_BITMASK)] @
           length_rows P bsw ClearArea fe @
           [always ''window'' (enc ''window'' no_names NOT_BITMASK),
            always ''x'' (enc ''x'' no_names NOT_BITMASK),
            always ''y'' (enc ''y'' no_names NOT_BITMASK),
            always ''width'' (enc ''width'' no_names NOT_BITMASK),
            always ''height'' (enc ''height'' no_names NOT_BITMASK)]))))))))))"

definition parseRequest_CopyArea :: request_parser where
  "parseRequest_CopyArea P conn data sz =
     (let ws = ROOT_WS P; bsw = byteswap conn in
      require (sz \<ge> BASE_ENCODING_SZ CopyArea) (
      and_then (RequestFixedEncoding P CopyArea conn data sz) (\<lambda>fe.
      let pre = member P bsw Request_Prefix (prefix fe); enc = member P bsw CopyArea_Encoding (encoding fe);
          n = ucast (fe_bytes_parsed fe) in
      require (\<not> header_only fe) (
      and_then (ordered_member P bsw Request_Prefix (prefix fe) ''opcode'') (\<lambda>opcode.
      require (opcode = COPYAREA) (
      and_then (length_assertion P bsw CopyArea fe n) (\<lambda>lengths_agree.
      require lengths_agree (
      map_res (\<lambda>s. \<lparr>str = s, bytes_parsed = n\<rparr>)
        (braces P ws (request_width P ws fe ''src-drawable'')
          ([verbose_only ''opcode'' (pre ''opcode'' no_names NOT_BITMASK)] @
           length_rows P bsw CopyArea fe @
           [always ''src-drawable'' (enc ''src_drawable'' no_names NOT_BITMASK),
            always ''dst-drawable'' (enc ''dst_drawable'' no_names NOT_BITMASK),
            always ''gc'' (enc ''gc'' no_names NOT_BITMASK),
            always ''src-x'' (enc ''src_x'' no_names NOT_BITMASK),
            always ''src-y'' (enc ''src_y'' no_names NOT_BITMASK),
            always ''dst-x'' (enc ''dst_x'' no_names NOT_BITMASK),
            always ''dst-y'' (enc ''dst_y'' no_names NOT_BITMASK),
            always ''width'' (enc ''width'' no_names NOT_BITMASK),
            always ''height'' (enc ''height'' no_names NOT_BITMASK)]))))))))))"

definition parseRequest_CopyPlane :: request_parser where
  "parseRequest_CopyPlane P conn data sz =
     (let ws = ROOT_WS P; bsw = byteswap conn in
      require (sz \<ge> BASE_ENCODING_SZ CopyPlane) (
      and_then (RequestFixedEncoding P CopyPlane conn data sz) (\<lambda>fe.
      let pre = member P bsw Request_Prefix (prefix fe); enc = member P bsw CopyPlane_Encoding (encoding fe);
          n = ucast (fe_bytes_parsed fe) in
      require (\<not> header_only fe) (
      and_then (ordered_member P bsw Request_Prefix (prefix fe) ''opcode'') (\<lambda>opcode.
      require (opcode = COPYPLANE) (
      and_then (length_assertion P bsw CopyPlane fe n) (\<lambda>lengths_agree.
      require lengths_agree (
      map_res (\<lambda>s. \<lparr>str = s, bytes_parsed = n\<rparr>)
        (braces P ws (request_width P ws fe ''src-drawable'')
          ([verbose_only ''opcode'' (pre ''opcode'' no_names NOT_BITMASK)] @
           length_rows P bsw CopyPlane fe @
           [always ''src-drawable'' (enc ''src_drawable'' no_names NOT_BITMASK),
            always ''dst-drawable'' (enc ''dst_drawable'' no_names NOT_BITMASK),
            always ''gc'' (enc ''gc'' no_names NOT_BITMASK),
            always ''src-x'' (enc ''src_x'' no_names NOT_BITMASK),
            always ''src-y'' (enc ''src_y'' no_names NOT_BITMASK),
            always ''dst-x'' (enc ''dst_x'' no_names NOT_BITMASK),
            always ''dst-y'' (enc ''dst_y'' no_names NOT_BITMASK),
            always ''width'' (enc ''width'' no_names NOT_BITMASK),
            always ''height'' (enc ''height'' no_names NOT_BITMASK),
            always ''bit-plane'' (enc ''bit_plane'' no_names NOT_BITMASK)]))))))))))"

definition parseRequest_PolyPoint :: request_parser where
  "parseRequest_PolyPoint P conn data sz =
     require (unat sz \<ge> sizeof PolyPointRequest_Prefix) (
     and_then (ordered_member P (byteswap conn) PolyPointRequest_Prefix data ''opcode'') (\<lambda>opcode.
     require (opcode = POLYPOINT) (
     parseRequest_PolyPointRequest P conn data sz)))"

definition parseRequest_PolyLine :: request_parser where
  "parseRequest_PolyLine P conn data sz =
     require (unat sz \<ge> sizeof PolyPointRequest_Prefix) (
     and_then (ordered_member P (byteswap conn) PolyPointRequest_Prefix data ''opcode'') (\<lambda>opcode.
     require (opcode = POLYLINE) (
     parseRequest_PolyPointRequest P conn data sz)))"

definition parseRequest_PolySegment :: request_parser where
  "parseRequest_PolySegment P conn data sz =
     (let ws = ROOT_WS P; bsw = byteswap conn in
      require (sz \<ge> BASE_ENCODING_SZ PolySegment) (
      and_then (RequestFixedEncoding P PolySegment conn data sz) (\<lambda>fe.
      let pre = member P bsw Request_Prefix (prefix fe); enc = member P bsw PolySegment_Encoding (encoding fe);
          n = ucast (fe_bytes_parsed fe) in
      require (\<not> header_only fe) (
      and_then (ordered_member P bsw Request_Prefix (prefix fe) ''opcode'') (\<lambda>opcode.
      require (opcode = POLYSEGMENT) (
      and_then (tl_aligned_units P bsw PolySegment fe) (\<lambda>tl.
      let segments_sz = Alignment_size (of_nat tl) - base_encoding_sz PolySegment fe in
      let segments_ct = segments_sz div of_nat (sizeof PolySegment_SEGMENT) in
      and_then (nested DEFAULT ws) (\<lambda>segments_ws.
      and_then (parseLISTof_struct (parseListMember_struct PolySegment_SEGMENT (formatSEGMENT P bsw)) (drop (unat n) data) segments_sz (ucast segments_ct) segments_ws FORCE_SINGLELINE) (\<lambda>segments.
      let n1 = n + ucast (Alignment_pad (ucast (bytes_parsed segments))) in
      require (of_nat tl = Alignment_units (ucast n1)) (
      map_res (\<lambda>s. \<lparr>str = s, bytes_parsed = n1\<rparr>)
        (braces P ws (request_width P ws fe ''drawable'')
          ([verbose_only ''opcode'' (pre ''opcode'' no_names NOT_BITMASK)] @
           length_rows P bsw PolySegment fe @
           [always ''drawable'' (enc ''drawable'' no_names NOT_BITMASK),
            always ''gc'' (enc ''gc'' no_names NOT_BITMASK),
            always ''segments'' (Inr (str segments))]))))))))))))"

definition parseRequest_PolyRectangle :: request_parser where
  "parseRequest_PolyRectangle P conn data sz =
     (let ws = ROOT_WS P; bsw = byteswap conn in
      require (sz \<ge> BASE_ENCODING_SZ PolyRectangle) (
      and_then (RequestFixedEncoding P PolyRectangle conn data sz) (\<lambda>fe.
      let pre = member P bsw Request_Prefix (prefix fe); enc = member P bsw PolyRectangle_Encoding (encoding fe);
          n = ucast (fe_bytes_parsed fe) in
      require (\<not> header_only fe) (
      and_then (ordered_member P bsw Request_Prefix (prefix fe) ''opcode'') (\<lambda>opcode.
      require (opcode = POLYRECTANGLE) (
      and_then (tl_aligned_units P bsw PolyRectangle fe) (\<lambda>tl.
      let rectangles_sz = Alignment_size (of_nat tl) - base_encoding_sz PolyRectangle fe in
      let rectangles_ct = rectangles_sz div of_nat (sizeof RECTANGLE) in
      and_then (nested DEFAULT ws) (\<lambda>rectangles_ws.
      and_then (parseLISTof_struct (parseListMember_struct RECTANGLE (formatRECTANGLE P bsw)) (drop (unat n) data) rectangles_sz (ucast rectangles_ct) rectangles_ws FORCE_SINGLELINE) (\<lambda>rectangles.
      let n1 = n + ucast (Alignment_pad (ucast (bytes_parsed rectangles))) in
      require (of_nat tl = Alignment_units (ucast n1)) (
      map_res (\<lambda>s. \<lparr>str = s, bytes_parsed = n1\<rparr>)
        (braces P ws (request_width P ws fe ''rectangles'')
          ([verbose_only ''opcode'' (pre ''opcode'' no_names NOT_BITMASK)] @
           length_rows P bsw PolyRectangle fe @
           [always ''drawable'' (enc ''drawable'' no_names NOT_BITMASK),
            always ''gc'' (enc ''gc'' no_names NOT_BITMASK),
            always ''rectangles'' (Inr (str rectangles))]))))))))))))"

definition parseRequest_PolyArc :: request_parser where
  "parseRequest_PolyArc P conn data sz =
     (let ws = ROOT_WS P; bsw = byteswap conn in
      require (sz \<ge> BASE_ENCODING_SZ PolyArc) (
      and_then (RequestFixedEncoding P PolyArc conn data sz) (\<lambda>fe.
      let pre = member P bsw Request_Prefix (prefix fe); enc = member P bsw PolyArc_Encoding (encoding fe);
          n = ucast (fe_bytes_parsed fe) in
      require (\<not> header_only fe) (
      and_then (ordered_member P bsw Request_Prefix (prefix fe) ''opcode'') (\<lambda>opcode.
      require (opcode = POLYARC) (
      and_then (tl_aligned_units P bsw PolyArc fe) (\<lambda>tl.
      let arcs_sz = of_nat tl - base_encoding_sz PolyArc fe in
      let arcs_ct = arcs_sz div of_nat (sizeof ARC) in
      and_then (nested DEFAULT ws) (\<lambda>arcs_ws.
      and_then (parseLISTof_struct (parseListMember_struct ARC (formatARC P bsw)) (drop (unat n) data) arcs_sz (ucast arcs_ct) arcs_ws FORCE_SINGLELINE) (\<lambda>arcs.
      let n1 = n + ucast (Alignment_pad (ucast (bytes_parsed arcs))) in
      require (of_nat tl = Alignment_units (ucast n1)) (
      map_res (\<lambda>s. \<lparr>str = s, bytes_parsed = n1\<rparr>)
        (braces P ws (request_width P ws fe ''drawable'')
          ([verbose_only ''opcode'' (pre ''opcode'' no_names NOT_BITMASK)] @
           length_rows P bsw PolyArc fe @
           [always ''drawable'' (enc ''drawable'' no_names NOT_BITMASK),
            always ''gc'' (enc ''gc'' no_names NOT_BITMASK),
            always ''arcs'' (Inr (str arcs))]))))))))))))"

definition parseRequest_FillPoly :: request_parser where
  "parseRequest_FillPoly P conn data sz =
     (let ws = ROOT_WS P; bsw = byteswap conn in
      require (sz \<ge> BASE_ENCODING_SZ FillPoly) (
      and_then (RequestFixedEncoding P FillPoly conn data sz) (\<lambda>fe.
      let pre = member P bsw Request_Prefix (prefix fe); enc = member P bsw FillPoly_Encoding (encoding fe);
          n = ucast (fe_bytes_parsed fe) in
      require (\<not> header_only fe) (
      and_then (ordered_member P bsw Request_Prefix (prefix fe) ''opcode'') (\<lambda>opcode.
      require (opcode = FILLPOLY) (
      and_then (tl_aligned_units P bsw FillPoly fe) (\<lambda>tl.
      let points_sz = Alignment_size (of_nat tl) - base_encoding_sz FillPoly fe in
      let points_ct = points_sz div of_nat (sizeof POINT) in
      and_then (nested DEFAULT ws) (\<lambda>points_ws.
      and_then (parseLISTof_struct (parseListMember_struct POINT (formatPOINT P bsw)) (drop (unat n) data) points_sz (ucast points_ct) points_ws FORCE_SINGLELINE) (\<lambda>points.
      let n1 = n + ucast (Alignment_pad (ucast (bytes_parsed points))) in
      require (of_nat tl = Alignment_units (ucast n1)) (
      map_res (\<lambda>s. \<lparr>str = s, bytes_parsed = n1\<rparr>)
        (braces P ws (request_width P ws fe ''coordinate-mode'')
          ([verbose_only ''opcode'' (pre ''opcode'' no_names NOT_BITMASK)] @
           length_rows P bsw FillPoly fe @
           [always ''drawable'' (enc ''drawable'' no_names NOT_BITMASK),
            always ''gc'' (enc ''gc'' no_names NOT_BITMASK),
            always ''shape'' (enc ''shape'' (range_all FillPoly_shape_names) NOT_BITMASK),
            always ''coordinate-mode'' (enc ''coordinate_mode'' (range_all FillPoly_coordinate_mode_names) NOT_BITMASK),
            always ''points'' (Inr (str points))]))))))))))))"

definition parseRequest_PolyFillRectangle :: request_parser where
  "parseRequest_PolyFillRectangle P conn data sz =
     (let ws = ROOT_WS P; bsw = byteswap conn in
      require (sz \<ge> BASE_ENCODING_SZ PolyFillRectangle) (
      and_then (RequestFixedEncoding P PolyFillRectangle conn data sz) (\<lambda>fe.
      let pre = member P bsw Request_Prefix (prefix fe); enc = member P bsw PolyFillRectangle_Encoding (encoding fe);
          n = ucast (fe_bytes_parsed fe) in
      require (\<not> header_only fe) (
      and_then (ordered_member P bsw Request_Prefix (prefix fe) ''opcode'') (\<lambda>opcode.
      require (opcode = POLYFILLRECTANGLE) (
      and_then (tl_aligned_units P bsw PolyFillRectangle fe) (\<lambda>tl.
      let rectangles_sz = Alignment_size (of_nat tl) - size_of PolyFillRectangle_Encoding in
      let rectangles_ct = (ucast (rectangles_sz div of_nat (sizeof RECTANGLE)) :: 16 word) in
      and_then (nested DEFAULT ws) (\<lambda>rectangles_ws.
      and_then (parseLISTof_struct (parseListMember_struct RECTANGLE (formatRECTANGLE P bsw)) (drop (unat n) data) rectangles_sz rectangles_ct rectangles_ws FORCE_SINGLELINE) (\<lambda>rectangles.
      let n1 = n + ucast (Alignment_pad (ucast (bytes_parsed rectangles))) in
      require (of_nat tl = Alignment_units (ucast n1)) (
      map_res (\<lambda>s. \<lparr>str = s, bytes_parsed = n1\<rparr>)
        (braces P ws (request_width P ws fe ''rectangles'')
          ([verbose_only ''opcode'' (pre ''opcode'' no_names NOT_BITMASK)] @
           length_rows P bsw PolyFillRectangle fe @
           [always ''drawable'' (enc ''drawable'' no_names NOT_BITMASK),
            always ''gc'' (enc ''gc'' no_names NOT_BITMASK),
            always ''rectangles'' (Inr (str rectangles))]))))))))))))"

definition parseRequest_PolyFillArc :: request_parser where
  "parseRequest_PolyFillArc P conn data sz =
     (let ws = ROOT_WS P; bsw = byteswap conn in
      require (sz \<ge> BASE_ENCODING_SZ PolyFillArc) (
      and_then (RequestFixedEncoding P PolyFillArc conn data sz) (\<lambda>fe.
      let pre = member P bsw Request_Prefix (prefix fe); enc = member P bsw PolyFillArc_Encoding (encoding fe);
          n = ucast (fe_bytes_parsed fe) in
      require (\<not> header_only fe) (
      and_then (ordered_member P bsw Request_Prefix (prefix fe) ''opcode'') (\<lambda>opcode.
      require (opcode = POLYFILLARC) (
      and_then (tl_aligned_units P bsw PolyFillArc fe) (\<lambda>tl.
      let arcs_sz = Alignment_size (of_nat tl) - size_of PolyFillArc_Encoding in
      let arcs_ct = (ucast (arcs_sz div of_nat (sizeof ARC)) :: 16 word) in
      and_then (nested DEFAULT ws) (\<lambda>arcs_ws.
      and_then (parseLISTof_struct (parseListMember_struct ARC (formatARC P bsw)) (drop (unat n) data) arcs_sz arcs_ct arcs_ws FORCE_SINGLELINE) (\<lambda>arcs.
      let n1 = n + ucast (Alignment_pad (ucast (bytes_parsed arcs))) in
      require (of_nat tl = Alignment_units (ucast n1)) (
      map_res (\<lambda>s. \<lparr>str = s, bytes_parsed = n1\<rparr>)
        (braces P ws (request_width P ws fe ''drawable'')
          ([verbose_only ''opcode'' (pre ''opcode'' no_names NOT_BITMASK)] @
           length_rows P bsw PolyFillArc fe @
           [always ''drawable'' (enc ''drawable'' no_names NOT_BITMASK),
            always ''gc'' (enc ''gc'' no_names NOT_BITMASK),
            always ''arcs'' (Inr (str arcs))]))))))))))))"

definition parseRequest_PutImage :: request_parser where
  "parseRequest_PutImage P conn data sz =
     (let ws = ROOT_WS P; bsw = byteswap conn in
      require (sz \<ge> BASE_ENCODING_SZ PutImage) (
      and_then (RequestFixedEncoding P PutImage conn data sz) (\<lambda>fe.
      let pre = member P bsw PutImage_Prefix (prefix fe); enc = member P bsw PutImage_Encoding (encoding fe);
          n = ucast (fe_bytes_parsed fe) in
      require (\<not> header_only fe) (
      and_then (ordered_member P bsw PutImage_Prefix (prefix fe) ''opcode'') (\<lambda>opcode.
      require (opcode = PUTIMAGE) (
      and_then (tl_aligned_units P bsw PutImage fe) (\<lambda>tl.
      let data_len = Alignment_size (of_nat tl) - base_encoding_sz PutImage fe in
      let n1 = n + ucast (Alignment_pad data_len) in
      require (of_nat tl = Alignment_units (ucast n1)) (
      map_res (\<lambda>s. \<lparr>str = s, bytes_parsed = n1\<rparr>)
        (braces P ws (request_width P ws fe ''drawable'')
          ([verbose_only ''opcode'' (pre ''opcode'' no_names NOT_BITMASK),
            always ''format'' (pre ''format'' (range_all PutImage_format_names) NOT_BITMASK)] @
           length_rows P bsw PutImage fe @
           [always ''drawable'' (enc ''drawable'' no_names NOT_BITMASK),
            always ''gc'' (enc ''gc'' no_names NOT_BITMASK),
            always ''width'' (enc ''width'' no_names NOT_BITMASK),
            always ''height'' (enc ''height'' no_names NOT_BITMASK),
            always ''dst-x'' (enc ''dst_x'' no_names NOT_BITMASK),
            always ''dst-y'' (enc ''dst_y'' no_names NOT_BITMASK),
            always ''left-pad'' (enc ''left_pad'' no_names NOT_BITMASK),
            always ''depth'' (enc ''depth'' no_names NOT_BITMASK),
            always ''data'' (Inr (''('' @ fmt_dec (fmtl P) (int (unat data_len)) @ '' bytes)''))]))))))))))"

definition parseRequest_GetImage :: request_parser where
  "parseRequest_GetImage P conn data sz =
     (let ws = ROOT_WS P; bsw = byteswap conn in
      require (sz \<ge> BASE_ENCODING_SZ GetImage) (
      and_then (RequestFixedEncoding P GetImage conn data sz) (\<lambda>fe.
      let pre = member P bsw GetImage_Prefix (prefix fe); enc = member P bsw GetImage_Encoding (encoding fe);
          n = ucast (fe_bytes_parsed fe) in
      require (\<not> header_only fe) (
      and_then (ordered_member P bsw GetImage_Prefix (prefix fe) ''opcode'') (\<lambda>opcode.
      require (opcode = GETIMAGE) (
      and_then (length_assertion P bsw GetImage fe n) (\<lambda>lengths_agree.
      require lengths_agree (
      map_res (\<lambda>s. \<lparr>str = s, bytes_parsed = n\<rparr>)
        (braces P ws (request_width P ws fe ''plane-mask'')
          ([verbose_only ''opcode'' (pre ''opcode'' no_names NOT_BITMASK),
            always ''format'' (pre ''format'' (range_bound GetImage_format_names Bound_MIN GetImage_FORMAT_ENUM_MIN) NOT_BITMASK)] @
           length_rows P bsw GetImage fe @
           [always ''drawable'' (enc ''drawable'' no_names NOT_BITMASK),
            always ''x'' (enc ''x'' no_names NOT_BITMASK),
            always ''y'' (enc ''y'' no_names NOT_BITMASK),
            always ''width'' (enc ''width'' no_names NOT_BITMASK),
            always ''height'' (enc ''height'' no_names NOT_BITMASK),
            always ''plane-mask'' (enc ''plane_mask'' no_names BITMASK)]))))))))))"

definition parseRequest_PolyText8 :: request_parser where
  "parseRequest_PolyText8 P conn data sz =
     (let ws = ROOT_WS P; bsw = byteswap conn in
      require (sz \<ge> BASE_ENCODING_SZ PolyText8) (
      and_then (RequestFixedEncoding P PolyText8 conn data sz) (\<lambda>fe.
      let pre = member P bsw Request_Prefix (prefix fe); enc = member P bsw PolyTextRequest_Encoding (encoding fe);
          n = ucast (fe_bytes_parsed fe) in
      require (\<not> header_only fe) (
      and_then (ordered_member P bsw Request_Prefix (prefix fe) ''opcode'') (\<lambda>opcode.
      require (opcode = POLYTEXT8) (
      and_then (tl_aligned_units P bsw PolyText8 fe) (\<lambda>tl.
      let items_sz = Alignment_size (of_nat tl) - base_encoding_sz PolyText8 fe in
      and_then (nested DEFAULT ws) (\<lambda>items_ws.
      and_then (parseLISTof_uncounted (parseListMember_TEXTITEM8 P bsw) (drop (unat n) data) items_sz items_ws DEFAULT) (\<lambda>items.
      let n1 = n + ucast (Alignment_pad (ucast (bytes_parsed items))) in
      require (of_nat tl = Alignment_units (ucast n1)) (
      map_res (\<lambda>s. \<lparr>str = s, bytes_parsed = n1\<rparr>)
        (braces P ws (request_width P ws fe ''drawable'')
          ([verbose_only ''opcode'' (pre ''opcode'' no_names NOT_BITMASK)] @
           length_rows P bsw PolyText8 fe @
           [always ''drawable'' (enc ''drawable'' no_names NOT_BITMASK),
            always ''gc'' (enc ''gc'' no_names NOT_BITMASK),
            always ''x'' (enc ''x'' no_names NOT_BITMASK),
            always ''y'' (enc ''y'' no_names NOT_BITMASK),
            always ''items'' (Inr (str items))]))))))))))))"

definition parseRequest_PolyText16 :: request_parser where
  "parseRequest_PolyText16 P conn data sz =
     (let ws = ROOT_WS P; bsw = byteswap conn in
      require (sz \<ge> BASE_ENCODING_SZ PolyText16) (
      and_then (RequestFixedEncoding P PolyText16 conn data sz) (\<lambda>fe.
      let pre = member P bsw Request_Prefix (prefix fe); enc = member P bsw PolyTextRequest_Encoding (encoding fe);
          n = ucast (fe_bytes_parsed fe) in
      require (\<not> header_only fe) (
      and_then (ordered_member P bsw Request_Prefix (prefix fe) ''opcode'') (\<lambda>opcode.
      require (opcode = POLYTEXT16) (
      and_then (tl_aligned_units P bsw PolyText16 fe) (\<lambda>tl.
      let items_sz = Alignment_size (of_nat tl) - base_encoding_sz PolyText16 fe in
      and_then (nested DEFAULT ws) (\<lambda>items_ws.
      and_then (parseLISTof_uncounted (parseListMember_TEXTITEM16 P bsw) (drop (unat n) data) items_sz items_ws DEFAULT) (\<lambda>items.
      let n1 = n + ucast (Alignment_pad (ucast (bytes_parsed items))) in
      require (of_nat tl = Alignment_units (ucast n1)) (
      map_res (\<lambda>s. \<lparr>str = s, bytes_parsed = n1\<rparr>)
        (braces P ws (request_width P ws fe ''drawable'')
          ([verbose_only ''opcode'' (pre ''opcode'' no_names NOT_BITMASK)] @
           length_rows P bsw PolyText16 fe @
           [always ''drawable'' (enc ''drawable'' no_names NOT_BITMASK),
            always ''gc'' (enc ''gc'' no_names NOT_BITMASK),
            always ''x'' (enc ''x'' no_names NOT_BITMASK),
            always ''y'' (enc ''y'' no_names NOT_BITMASK),
            always ''items'' (Inr (str items))]))))))))))))"

definition parseRequest_ImageText8 :: request_parser where
  "parseRequest_ImageText8 P conn data sz =
     (let ws = ROOT_WS P; bsw = byteswap conn in
      require (sz \<ge> BASE_ENCODING_SZ ImageText8) (
      and_then (RequestFixedEncoding P ImageText8 conn data sz) (\<lambda>fe.
      let pre = member P bsw ImageText8_Prefix (prefix fe); enc = member P bsw ImageText8_Encoding (encoding fe);
          n = ucast (fe_bytes_parsed fe) in
      require (\<not> header_only fe) (
      and_then (ordered_member P bsw ImageText8_Prefix (prefix fe) ''opcode'') (\<lambda>opcode.
      require (opcode = IMAGETEXT8) (
      and_then (ordered_member P bsw ImageText8_Prefix (prefix fe) ''string_len'') (\<lambda>string_len.
      let string = read_text data (unat n) string_len in
      let n1 = n + ucast (Alignment_pad (of_nat string_len)) in
      and_then (length_assertion P bsw ImageText8 fe n1) (\<lambda>lengths_agree.
      require lengths_agree (
      map_res (\<lambda>s. \<lparr>str = s, bytes_parsed = n1\<rparr>)
        (braces P ws (request_width P ws fe ''drawable'')
          ([verbose_only ''opcode'' (pre ''opcode'' no_names NOT_BITMASK),
            verbose_only ''(string length)'' (pre ''string_len'' no_names NOT_BITMASK)] @
           length_rows P bsw ImageText8 fe @
           [always ''drawable'' (enc ''drawable'' no_names NOT_BITMASK),
            always ''gc'' (enc ''gc'' no_names NOT_BITMASK),
            always ''x'' (enc ''x'' no_names NOT_BITMASK),
            always ''y'' (enc ''y'' no_names NOT_BITMASK),
            always ''string'' (map_res (fmt_debug (fmtl P)) string)])))))))))))"

definition parseRequest_ImageText16 :: request_parser where
  "parseRequest_ImageText16 P conn data sz =
     (let ws = ROOT_WS P; bsw = byteswap conn in
      require (sz \<ge> BASE_ENCODING_SZ ImageText16) (
      and_then (RequestFixedEncoding P ImageText16 conn data sz) (\<lambda>fe.
      let pre = member P bsw ImageText16_Prefix (prefix fe); enc = member P bsw ImageText16_Encoding (encoding fe);
          n = ucast (fe_bytes_parsed fe) in
      require (\<not> header_only fe) (
      and_then (ordered_member P bsw ImageText16_Prefix (prefix fe) ''opcode'') (\<lambda>opcode.
      require (opcode = IMAGETEXT16) (
      and_then (ordered_member P bsw ImageText16_Prefix (prefix fe) ''string_2B_len'') (\<lambda>string_2B_len.
      let string_sz = of_nat (string_2B_len * sizeof CHAR2B) in
      and_then (nested FORCE_SINGLELINE ws) (\<lambda>string_ws.
      and_then (parseLISTof_struct (parseListMember_struct CHAR2B (formatCHAR2B P bsw)) (drop (unat n) data) string_sz (of_nat string_2B_len) string_ws DEFAULT) (\<lambda>string.
      let n1 = n + ucast (Alignment_pad (ucast (bytes_parsed string))) in
      and_then (length_assertion P bsw ImageText16 fe n1) (\<lambda>lengths_agree.
      require lengths_agree (
      map_res (\<lambda>s. \<lparr>str = s, bytes_parsed = n1\<rparr>)
        (braces P ws (request_width P ws fe ''drawable'')
          ([verbose_only ''opcode'' (pre ''opcode'' no_names NOT_BITMASK),
            verbose_only ''(string len (CHAR2B))'' (pre ''string_2B_len'' no_names NOT_BITMASK)] @
           length_rows P bsw ImageText16 fe @
           [always ''drawable'' (enc ''drawable'' no_names NOT_BITMASK),
            always ''gc'' (enc ''gc'' no_names NOT_BITMASK),
            always ''x'' (enc ''x'' no_names NOT_BITMASK),
            always ''y'' (enc ''y'' no_names NOT_BITMASK),
            always ''string'' (Inr (''['' @ str string @ '']''))])))))))))))))"

definition parseRequest_CreateColormap :: request_parser where
  "parseRequest_CreateColormap P conn data sz =
     (let ws = ROOT_WS P; bsw = byteswap conn in
      require (sz \<ge> BASE_ENCODING_SZ CreateColormap) (
      and_then (RequestFixedEncoding P CreateColormap conn data sz) (\<lambda>fe.
      let pre = member P bsw CreateColormap_Prefix (prefix fe); enc = member P bsw CreateColormap_Encoding (encoding fe);
          n = ucast (fe_bytes_parsed fe) in
      require (\<not> header_only fe) (
      and_then (ordered_member P bsw CreateColormap_Prefix (prefix fe) ''opcode'') (\<lambda>opcode.
      require (opcode = CREATECOLORMAP) (
      and_then (length_assertion P bsw CreateColormap fe n) (\<lambda>lengths_agree.
      require lengths_agree (
      map_res (\<lambda>s. \<lparr>str = s, bytes_parsed = n\<rparr>)
        (braces P ws (request_width P ws fe ''window'')
          ([verbose_only ''opcode'' (pre ''opcode'' no_names NOT_BITMASK),
            always ''alloc'' (pre ''alloc'' (range_all CreateColormap_alloc_names) NOT_BITMASK)] @
           length_rows P bsw CreateColormap fe @
           [always ''mid'' (enc ''mid'' no_names NOT_BITMASK),
            always ''window'' (enc ''window'' no_names NOT_BITMASK),
            always ''visual'' (enc ''visual'' no_names NOT_BITMASK)]))))))))))"

definition parseRequest_FreeColormap :: request_parser where
  "parseRequest_FreeColormap P conn data sz =
     require (unat sz \<ge> sizeof Request_Prefix) (
     and_then (ordered_member P (byteswap conn) Request_Prefix data ''opcode'') (\<lambda>opcode.
     require (opcode = FREECOLORMAP) (
     parseRequest_SimpleCmapRequest P conn data sz)))"

definition parseRequest_CopyColormapAndFree :: request_parser where
  "parseRequest_CopyColormapAndFree P conn data sz =
     (let ws = ROOT_WS P; bsw = byteswap conn in
      require (sz \<ge> BASE_ENCODING_SZ CopyColormapAndFree) (
      and_then (RequestFixedEncoding P CopyColormapAndFree conn data sz) (\<lambda>fe.
      let pre = member P bsw Request_Prefix (prefix fe); enc = member P bsw CopyColormapAndFree_Encoding (encoding fe);
          n = ucast (fe_bytes_parsed fe) in
      require (\<not> header_only fe) (
      and_then (ordered_member P bsw Request_Prefix (prefix fe) ''opcode'') (\<lambda>opcode.
      require (opcode = COPYCOLORMAPANDFREE) (
      and_then (length_assertion P bsw CopyColormapAndFree fe n) (\<lambda>lengths_agree.
      require lengths_agree (
      map_res (\<lambda>s. \<lparr>str = s, bytes_parsed = n\<rparr>)
        (braces P ws (request_width P ws fe ''src-cmap'')
          ([verbose_only ''opcode'' (pre ''opcode'' no_names NOT_BITMASK)] @
           length_rows P bsw CopyColormapAndFree fe @
           [always ''mid'' (enc ''mid'' no_names NOT_BITMASK),
            always ''src-cmap'' (enc ''src_cmap'' no_names NOT_BITMASK)]))))))))))"

definition parseRequest_InstallColormap :: request_parser where
  "parseRequest_InstallColormap P conn data sz =
     require (unat sz \<ge> sizeof Request_Prefix) (
     and_then (ordered_member P (byteswap conn) Request_Prefix data ''opcode'') (\<lambda>opcode.
     require (opcode = INSTALLCOLORMAP) (
     parseRequest_SimpleCmapRequest P conn data sz)))"

definition parseRequest_UninstallColormap :: request_parser where
  "parseRequest_UninstallColormap P conn data sz =
     require (unat sz \<ge> sizeof Request_Prefix) (
     and_then (ordered_member P (byteswap conn) Request_Prefix data ''opcode'') (\<lambda>opcode.
     require (opcode = UNINSTALLCOLORMAP) (
     parseRequest_SimpleCmapRequest P conn data sz)))"

definition parseRequest_ListInstalledColormaps :: request_parser where
  "parseRequest_ListInstalledColormaps P conn data sz =
     require (unat sz \<ge> sizeof Request_Prefix) (
     and_then (ordered_member P (byteswap conn) Request_Prefix data ''opcode'') (\<lambda>opcode.
     require (opcode = LISTINSTALLEDCOLORMAPS) (
     parseRequest_SimpleWindowRequest P conn data sz)))"

definition parseRequest_AllocColor :: request_parser where
  "parseRequest_AllocColor P conn data sz =
     (let ws = ROOT_WS P; bsw = byteswap conn in
      require (sz \<ge> BASE_ENCODING_SZ AllocColor) (
      and_then (RequestFixedEncoding P AllocColor conn data sz) (\<lambda>fe.
      let pre = member P bsw Request_Prefix (prefix fe); enc = member P bsw AllocColor_Encoding (encoding fe);
          n = ucast (fe_bytes_parsed fe) in
      require (\<not> header_only fe) (
      and_then (ordered_member P bsw Request_Prefix (prefix fe) ''opcode'') (\<lambda>opcode.
      require (opcode = ALLOCCOLOR) (
      and_then (length_assertion P bsw AllocColor fe n) (\<lambda>lengths_agree.
      require lengths_agree (
      map_res (\<lambda>s. \<lparr>str = s, bytes_parsed = n\<rparr>)
        (braces P ws (request_width P ws fe ''green'')
          ([verbose_only ''opcode'' (pre ''opcode'' no_names NOT_BITMASK)] @
           length_rows P bsw AllocColor fe @
           [always ''cmap'' (enc ''cmap'' no_names NOT_BITMASK),
            always ''red'' (enc ''red'' no_names NOT_BITMASK),
            always ''green'' (enc ''green'' no_names NOT_BITMASK),
            always ''blue'' (enc ''blue'' no_names NOT_BITMASK)]))))))))))"

definition parseRequest_AllocNamedColor :: request_parser where
  "parseRequest_AllocNamedColor P conn data sz =
     (let ws = ROOT_WS P; bsw = byteswap conn in
      require (sz \<ge> BASE_ENCODING_SZ AllocNamedColor) (
      and_then (RequestFixedEncoding P AllocNamedColor conn data sz) (\<lambda>fe.
      let pre = member P bsw Request_Prefix (prefix fe); enc = member P bsw AllocNamedColor_Encoding (encoding fe);
          n = ucast (fe_bytes_parsed fe) in
      require (\<not> header_only fe) (
      and_then (ordered_member P bsw Request_Prefix (prefix fe) ''opcode'') (\<lambda>opcode.
      require (opcode = ALLOCNAMEDCOLOR) (
      and_then (ordered_member P bsw AllocNamedColor_Encoding (encoding fe) ''name_len'') (\<lambda>name_len.
      let name = read_text data (unat n) name_len in
      let n1 = n + ucast (Alignment_pad (of_nat name_len)) in
      and_then (length_assertion P bsw AllocNamedColor fe n1) (\<lambda>lengths_agree.
      require lengths_agree (
      map_res (\<lambda>s. \<lparr>str = s, bytes_parsed = n1\<rparr>)
        (braces P ws (request_width P ws fe ''cmap'')
          ([verbose_only ''opcode'' (pre ''opcode'' no_names NOT_BITMASK)] @
           length_rows P bsw AllocNamedColor fe @
           [always ''cmap'' (enc ''cmap'' no_names NOT_BITMASK),
            verbose_only ''(name length)'' (enc ''name_len'' no_names NOT_BITMASK),
            always ''name'' (map_res (fmt_debug (fmtl P)) name)])))))))))))"

definition parseRequest_AllocColorCells :: request_parser where
  "parseRequest_AllocColorCells P conn data sz =
     (let ws = ROOT_WS P; bsw = byteswap conn in
      require (sz \<ge> BASE_ENCODING_SZ AllocColorCells) (
      and_then (RequestFixedEncoding P AllocColorCells conn data sz) (\<lambda>fe.
      let pre = member P bsw AllocColorCells_Prefix (prefix fe); enc = member P bsw AllocColorCells_Encoding (encoding fe);
          n = ucast (fe_bytes_parsed fe) in
      require (\<not> header_only fe) (
      and_then (ordered_member P bsw AllocColorCells_Prefix (prefix fe) ''opcode'') (\<lambda>opcode.
      require (opcode = ALLOCCOLORCELLS) (
      and_then (length_assertion P bsw AllocColorCells fe n) (\<lambda>lengths_agree.
      require lengths_agree (
      map_res (\<lambda>s. \<lparr>str = s, bytes_parsed = n\<rparr>)
        (braces P ws (request_width P ws fe ''contiguous'')
          ([verbose_only ''opcode'' (pre ''opcode'' no_names NOT_BITMASK),
            always ''contiguous'' (pre ''contiguous'' no_names NOT_BITMASK)] @
           length_rows P bsw AllocColorCells fe @
           [always ''cmap'' (enc ''cmap'' no_names NOT_BITMASK),
            always ''colors'' (enc ''colors'' no_names NOT_BITMASK),
            always ''planes'' (enc ''planes'' no_names NOT_BITMASK)]))))))))))"

definition parseRequest_AllocColorPlanes :: request_parser where
  "parseRequest_AllocColorPlanes P conn data sz =
     (let ws = ROOT_WS P; bsw = byteswap conn in
      require (sz \<ge> BASE_ENCODING_SZ AllocColorPlanes) (
      and_then (RequestFixedEncoding P AllocColorPlanes conn data sz) (\<lambda>fe.
      let pre = member P bsw AllocColorPlanes_Prefix (prefix fe); enc = member P bsw AllocColorPlanes_Encoding (encoding fe);
          n = ucast (fe_bytes_parsed fe) in
      require (\<not> header_only fe) (
      and_then (ordered_member P bsw AllocColorPlanes_Prefix (prefix fe) ''opcode'') (\<lambda>opcode.
      require (opcode = ALLOCCOLORPLANES) (
      and_then (length_assertion P bsw AllocColorPlanes fe n) (\<lambda>lengths_agree.
      require lengths_agree (
      map_res (\<lambda>s. \<lparr>str = s, bytes_parsed = n\<rparr>)
        (braces P ws (request_width P ws fe ''contiguous'')
          ([verbose_only ''opcode'' (pre ''opcode'' no_names NOT_BITMASK),
            always ''contiguous'' (pre ''contiguous'' no_names NOT_BITMASK)] @
           length_rows P bsw AllocColorPlanes fe @
           [always ''cmap'' (enc ''cmap'' no_names NOT_BITMASK),
            always ''colors'' (enc ''colors'' no_names NOT_BITMASK),
            always ''reds'' (enc ''reds'' no_names NOT_BITMASK),
            always ''greens'' (enc ''greens'' no_names NOT_BITMASK),
            always ''blues'' (enc ''blues'' no_names NOT_BITMASK)]))))))))))"

definition parseRequest_FreeColors :: request_parser where
  "parseRequest_FreeColors P conn data sz =
     (let ws = ROOT_WS P; bsw = byteswap conn in
      require (sz \<ge> BASE_ENCODING_SZ FreeColors) (
      and_then (RequestFixedEncoding P FreeColors conn data sz) (\<lambda>fe.
      let pre = member P bsw Request_Prefix (prefix fe); enc = member P bsw FreeColors_Encoding (encoding fe);
          n = ucast (fe_bytes_parsed fe) in
      require (\<not> header_only fe) (
      and_then (ordered_member P bsw Request_Prefix (prefix fe) ''opcode'') (\<lambda>opcode.
      require (opcode = FREECOLORS) (
      and_then (tl_aligned_units P bsw FreeColors fe) (\<lambda>tl.
      let pixels_sz = Alignment_size (of_nat tl) - base_encoding_sz FreeColors fe in
      let pixels_ct = pixels_sz div of_nat (ptype_size CARD32) in
      and_then (nested DEFAULT ws) (\<lambda>pixels_ws.
      and_then (parseLISTof_int P CARD32 (drop (unat n) data) pixels_sz (ucast pixels_ct) bsw pixels_ws no_names NOT_BITMASK) (\<lambda>pixels.
      let n1 = n + ucast (Alignment_pad (ucast (bytes_parsed pixels))) in
      require (of_nat tl = Alignment_units (ucast n1)) (
      map_res (\<lambda>s. \<lparr>str = s, bytes_parsed = n1\<rparr>)
        (braces P ws (request_width P ws fe ''plane-mask'')
          ([verbose_only ''opcode'' (pre ''opcode'' no_names NOT_BITMASK)] @
           length_rows P bsw FreeColors fe @
           [always ''cmap'' (enc ''cmap'' no_names NOT_BITMASK),
            always ''plane-mask'' (enc ''plane_mask'' no_names BITMASK),
            always ''pixels'' (Inr (str pixels))]))))))))))))"

definition parseRequest_StoreColors :: request_parser where
  "parseRequest_StoreColors P conn data sz =
     (let ws = ROOT_WS P; bsw = byteswap conn in
      require (sz \<ge> BASE_ENCODING_SZ StoreColors) (
      and_then (RequestFixedEncoding P StoreColors conn data sz) (\<lambda>fe.
      let pre = member P bsw Request_Prefix (prefix fe); enc = member P bsw StoreColors_Encoding (encoding fe);
          n = ucast (fe_bytes_parsed fe) in
      require (\<not> header_only fe) (
      and_then (ordered_member P bsw Request_Prefix (prefix fe) ''opcode'') (\<lambda>opcode.
      require (opcode = STORECOLORS) (
      and_then (tl_aligned_units P bsw StoreColors fe) (\<lambda>tl.
      let items_sz = Alignment_size (of_nat tl) - base_encoding_sz StoreColors fe in
      let items_ct = items_sz div of_nat (sizeof StoreColors_COLORITEM) in
      and_then (nested DEFAULT ws) (\<lambda>items_ws.
      and_then (parseLISTof_struct (parseListMember_struct StoreColors_COLORITEM (formatCOLORITEM P bsw)) (drop (unat n) data) items_sz (ucast items_ct) items_ws FORCE_SINGLELINE) (\<lambda>items.
      let n1 = n + ucast (Alignment_pad (ucast (bytes_parsed items))) in
      require (of_nat tl = Alignment_units (ucast n1)) (
      map_res (\<lambda>s. \<lparr>str = s, bytes_parsed = n1\<rparr>)
        (braces P ws (request_width P ws fe ''items'')
          ([verbose_only ''opcode'' (pre ''opcode'' no_names NOT_BITMASK)] @
           length_rows P bsw StoreColors fe @
           [always ''cmap'' (enc ''cmap'' no_names NOT_BITMASK),
            always ''items'' (Inr (str items))]))))))))))))"

definition parseRequest_StoreNamedColor :: request_parser where
  "parseRequest_StoreNamedColor P conn data sz =
     (let ws = ROOT_WS P; bsw = byteswap conn in
      require (sz \<ge> BASE_ENCODING_SZ StoreNamedColor) (
      and_then (RequestFixedEncoding P StoreNamedColor conn data sz) (\<lambda>fe.
      let pre = member P bsw StoreNamedColor_Prefix (prefix fe); enc = member P bsw StoreNamedColor_Encoding (encoding fe);
          n = ucast (fe_bytes_parsed fe) in
      require (\<not> header_only fe) (
      and_then (ordered_member P bsw StoreNamedColor_Prefix (prefix fe) ''opcode'') (\<lambda>opcode.
      require (opcode = STORENAMEDCOLOR) (
      and_then (ordered_member P bsw StoreNamedColor_Encoding (encoding fe) ''name_len'') (\<lambda>name_len.
      let name = read_text data (unat n) name_len in
      let n1 = n + ucast (Alignment_pad (of_nat name_len)) in
      and_then (length_assertion P bsw StoreNamedColor fe n1) (\<lambda>lengths_agree.
      require lengths_agree (
      map_res (\<lambda>s. \<lparr>str = s, bytes_parsed = n1\<rparr>)
        (braces P ws (request_width P ws fe ''(do rgb mask)'')
          ([verbose_only ''opcode'' (pre ''opcode'' no_names NOT_BITMASK),
            always ''(do rgb mask)'' (pre ''do_rgb_mask'' (range_all StoreNamedColor_do_rgb_names) BITMASK)] @
           length_rows P bsw StoreNamedColor fe @
           [always ''cmap'' (enc ''cmap'' no_names NOT_BITMASK),
            always ''pixel'' (enc ''pixel'' no_names NOT_BITMASK),
            verbose_only ''(name length)'' (enc ''name_len'' no_names NOT_BITMASK),
            always ''name'' (map_res (fmt_debug (fmtl P)) name)])))))))))))"

definition parseRequest_QueryColors :: request_parser where
  "parseRequest_QueryColors P conn data sz =
     (let ws = ROOT_WS P; bsw = byteswap conn in
      require (sz \<ge> BASE_ENCODING_SZ QueryColors) (
      and_then (RequestFixedEncoding P QueryColors conn data sz) (\<lambda>fe.
      let pre = member P bsw Request_Prefix (prefix fe); enc = member P bsw QueryColors_Encoding (encoding fe);
          n = ucast (fe_bytes_parsed fe) in
      require (\<not> header_only fe) (
      and_then (ordered_member P bsw Request_Prefix (prefix fe) ''opcode'') (\<lambda>opcode.
      require (opcode = QUERYCOLORS) (
      and_then (tl_aligned_units P bsw QueryColors fe) (\<lambda>tl.
      let pixels_sz = Alignment_size (of_nat tl) - base_encoding_sz QueryColors fe in
      let pixels_ct = pixels_sz div of_nat (ptype_size CARD32) in
      and_then (nested DEFAULT ws) (\<lambda>pixels_ws.
      and_then (parseLISTof_int P CARD32 (drop (unat n) data) pixels_sz (ucast pixels_ct) bsw pixels_ws no_names NOT_BITMASK) (\<lambda>pixels.
      let n1 = n + ucast (Alignment_pad (ucast (bytes_parsed pixels))) in
      require (of_nat tl = Alignment_units (ucast n1)) (
      map_res (\<lambda>s. \<lparr>str = s, bytes_parsed = n1\<rparr>)
        (braces P ws (request_width P ws fe ''pixels'')
          ([verbose_only ''opcode'' (pre ''opcode'' no_names NOT_BITMASK)] @
           length_rows P bsw QueryColors fe @
           [always ''cmap'' (enc ''cmap'' no_names NOT_BITMASK),
            always ''pixels'' (Inr (str pixels))]))))))))))))"

definition parseRequest_LookupColor :: request_parser where
  "parseRequest_LookupColor P conn data sz =
     (let ws = ROOT_WS P; bsw = byteswap conn in
      require (sz \<ge> BASE_ENCODING_SZ LookupColor) (
      and_then (RequestFixedEncoding P LookupColor conn data sz) (\<lambda>fe.
      let pre = member P bsw Request_Prefix (prefix fe); enc = member P bsw LookupColor_Encoding (encoding fe);
          n = ucast (fe_bytes_parsed fe) in
      require (\<not> header_only fe) (
      and_then (ordered_member P bsw Request_Prefix (prefix fe) ''opcode'') (\<lambda>opcode.
      require (opcode = LOOKUPCOLOR) (
      and_then (ordered_member P bsw LookupColor_Encoding (encoding fe) ''name_len'') (\<lambda>name_len.
      let name = read_text data (unat n) name_len in
      let n1 = n + ucast (Alignment_pad (of_nat name_len)) in
      and_then (length_assertion P bsw LookupColor fe n1) (\<lambda>lengths_agree.
      require lengths_agree (
      map_res (\<lambda>s. \<lparr>str = s, bytes_parsed = n1\<rparr>)
        (braces P ws (request_width P ws fe ''cmap'')
          ([verbose_only ''opcode'' (pre ''opcode'' no_names NOT_BITMASK)] @
           length_rows P bsw LookupColor fe @
           [always ''cmap'' (enc ''cmap'' no_names NOT_BITMASK),
            verbose_only ''(name length)'' (enc ''name_len'' no_names NOT_BITMASK),
            always ''name'' (map_res (fmt_debug (fmtl P)) name)])))))))))))"

definition parseRequest_CreateCursor :: request_parser where
  "parseRequest_CreateCursor P conn data sz =
     (let ws = ROOT_WS P; bsw = byteswap conn in
      require (sz \<ge> BASE_ENCODING_SZ CreateCursor) (
      and_then (RequestFixedEncoding P CreateCursor conn data sz) (\<lambda>fe.
      let pre = member P bsw Request_Prefix (prefix fe); enc = member P bsw CreateCursor_Encoding (encoding fe);
          n = ucast (fe_bytes_parsed fe) in
      require (\<not> header_only fe) (
      and_then (ordered_member P bsw Request_Prefix (prefix fe) ''opcode'') (\<lambda>opcode.
      require (opcode = CREATECURSOR) (
      and_then (length_assertion P bsw CreateCursor fe n) (\<lambda>lengths_agree.
      require lengths_agree (
      map_res (\<lambda>s. \<lparr>str = s, bytes_parsed = n\<rparr>)
        (braces P ws (request_width P ws fe ''fore-green'')
          ([verbose_only ''opcode'' (pre ''opcode'' no_names NOT_BITMASK)] @
           length_rows P bsw CreateCursor fe @
           [always ''cid'' (enc ''cid'' no_names NOT_BITMASK),
            always ''source'' (enc ''source'' no_names NOT_BITMASK),
            always ''mask'' (enc ''mask'' (range_all CreateCursor_mask_names) NOT_BITMASK),
            always ''fore-red'' (enc ''fore_red'' no_names NOT_BITMASK),
            always ''fore-green'' (enc ''fore_green'' no_names NOT_BITMASK),
            always ''fore-blue'' (enc ''fore_blue'' no_names NOT_BITMASK),
            always ''back-red'' (enc ''back_red'' no_names NOT_BITMASK),
            always ''back-green'' (enc ''back_green'' no_names NOT_BITMASK),
            always ''back-blue'' (enc ''back_blue'' no_names NOT_BITMASK),
            always ''x'' (enc ''x'' no_names NOT_BITMASK),
            always ''y'' (enc ''y'' no_names NOT_BITMASK)]))))))))))"

definition parseRequest_CreateGlyphCursor :: request_parser where
  "parseRequest_CreateGlyphCursor P conn data sz =
     (let ws = ROOT_WS P; bsw = byteswap conn in
      require (sz \<ge> BASE_ENCODING_SZ CreateGlyphCursor) (
      and_then (RequestFixedEncoding P CreateGlyphCursor conn data sz) (\<lambda>fe.
      let pre = member P bsw Request_Prefix (prefix fe); enc = member P bsw CreateGlyphCursor_Encoding (encoding fe);
          n = ucast (fe_bytes_parsed fe) in
      require (\<not> header_only fe) (
      and_then (ordered_member P bsw Request_Prefix (prefix fe) ''opcode'') (\<lambda>opcode.
      require (opcode = CREATEGLYPHCURSOR) (
      and_then (length_assertion P bsw CreateGlyphCursor fe n) (\<lambda>lengths_agree.
      require lengths_agree (
      map_res (\<lambda>s. \<lparr>str = s, bytes_parsed = n\<rparr>)
        (braces P ws (request_width P ws fe ''source-font'')
          ([verbose_only ''opcode'' (pre ''opcode'' no_names NOT_BITMASK)] @
           length_rows P bsw CreateGlyphCursor fe @
           [always ''cid'' (enc ''cid'' no_names NOT_BITMASK),
            always ''source-font'' (enc ''source_font'' no_names NOT_BITMASK),
            always ''mask-font'' (enc ''mask_font'' (range_all CreateGlyphCursor_mask_font_names) NOT_BITMASK),
            always ''source-char'' (enc ''source_char'' no_names NOT_BITMASK),
            always ''mask-char'' (enc ''mask_char'' no_names NOT_BITMASK),
            always ''fore-red'' (enc ''fore_red'' no_names NOT_BITMASK),
            always ''fore-green'' (enc ''fore_green'' no_names NOT_BITMASK),
            always ''fore-blue'' (enc ''fore_blue'' no_names NOT_BITMASK),
            always ''back-red'' (enc ''back_red'' no_names NOT_BITMASK),
            always ''back-green'' (enc ''back_green'' no_names NOT_BITMASK),
            always ''back-blue'' (enc ''back_blue'' no_names NOT_BITMASK)]))))))))))"

definition parseRequest_FreeCursor :: request_parser where
  "parseRequest_FreeCursor P conn data sz =
     (let ws = ROOT_WS P; bsw = byteswap conn in
      require (sz \<ge> BASE_ENCODING_SZ FreeCursor) (
      and_then (RequestFixedEncoding P FreeCursor conn data sz) (\<lambda>fe.
      let pre = member P bsw Request_Prefix (prefix fe); enc = member P bsw FreeCursor_Encoding (encoding fe);
          n = ucast (fe_bytes_parsed fe) in
      require (\<not> header_only fe) (
      and_then (ordered_member P bsw Request_Prefix (prefix fe) ''opcode'') (\<lambda>opcode.
      require (opcode = FREECURSOR) (
      and_then (length_assertion P bsw FreeCursor fe n) (\<lambda>lengths_agree.
      require lengths_agree (
      map_res (\<lambda>s. \<lparr>str = s, bytes_parsed = n\<rparr>)
        (braces P ws (request_width P ws fe ''cursor'')
          ([verbose_only ''opcode'' (pre ''opcode'' no_names NOT_BITMASK)] @
           length_rows P bsw FreeCursor fe @
           [always ''cursor'' (enc ''cursor'' no_names NOT_BITMASK)]))))))))))"

definition parseRequest_RecolorCursor :: request_parser where
  "parseRequest_RecolorCursor P conn data sz =
     (let ws = ROOT_WS P; bsw = byteswap conn in
      require (sz \<ge> BASE_ENCODING_SZ RecolorCursor) (
      and_then (RequestFixedEncoding P RecolorCursor conn data sz) (\<lambda>fe.
      let pre = member P bsw Request_Prefix (prefix fe); enc = member P bsw RecolorCursor_Encoding (encoding fe);
          n = ucast (fe_bytes_parsed fe) in
      require (\<not> header_only fe) (
      and_then (ordered_member P bsw Request_Prefix (prefix fe) ''opcode'') (\<lambda>opcode.
      require (opcode = RECOLORCURSOR) (
      and_then (length_assertion P bsw RecolorCursor fe n) (\<lambda>lengths_agree.
      require lengths_agree (
      map_res (\<lambda>s. \<lparr>str = s, bytes_parsed = n\<rparr>)
        (braces P ws (request_width P ws fe ''fore-green'')
          ([verbose_only ''opcode'' (pre ''opcode'' no_names NOT_BITMASK)] @
           length_rows P bsw RecolorCursor fe @
           [always ''cursor'' (enc ''cursor'' no_names NOT_BITMASK),
            always ''fore-red'' (enc ''fore_red'' no_names NOT_BITMASK),
            always ''fore-green'' (enc ''fore_green'' no_names NOT_BITMASK),
            always ''fore-blue'' (enc ''fore_blue'' no_names NOT_BITMASK),
            always ''back-red'' (enc ''back_red'' no_names NOT_BITMASK),
            always ''back-green'' (enc ''back_green'' no_names NOT_BITMASK),
            always ''back-blue'' (enc ''back_blue'' no_names NOT_BITMASK)]))))))))))"

definition parseRequest_QueryBestSize :: request_parser where
  "parseRequest_QueryBestSize P conn data sz =
     (let ws = ROOT_WS P; bsw = byteswap conn in
      require (sz \<ge> BASE_ENCODING_SZ QueryBestSize) (
      and_then (RequestFixedEncoding P QueryBestSize conn data sz) (\<lambda>fe.
      let pre = member P bsw QueryBestSize_Prefix (prefix fe); enc = member P bsw QueryBestSize_Encoding (encoding fe);
          n = ucast (fe_bytes_parsed fe) in
      require (\<not> header_only fe) (
      and_then (ordered_member P bsw QueryBestSize_Prefix (prefix fe) ''opcode'') (\<lambda>opcode.
      require (opcode = QUERYBESTSIZE) (
      and_then (length_assertion P bsw QueryBestSize fe n) (\<lambda>lengths_agree.
      require lengths_agree (
      map_res (\<lambda>s. \<lparr>str = s, bytes_parsed = n\<rparr>)
        (braces P ws (request_width P ws fe ''drawable'')
          ([verbose_only ''opcode'' (pre ''opcode'' no_names NOT_BITMASK),
            always ''class'' (pre ''class_'' (range_all QueryBestSize_class_names) NOT_BITMASK)] @
           length_rows P bsw QueryBestSize fe @
           [always ''drawable'' (enc ''drawable'' no_names NOT_BITMASK),
            always ''width'' (enc ''width'' no_names NOT_BITMASK),
            always ''height'' (enc ''height'' no_names NOT_BITMASK)]))))))))))"

definition parseRequest_QueryExtension :: stashing_request_parser where
  "parseRequest_QueryExtension P conn data sz =
     (let ws = ROOT_WS P; bsw = byteswap conn in
      require (sz \<ge> BASE_ENCODING_SZ QueryExtension) (
      and_then (RequestFixedEncoding P QueryExtension conn data sz) (\<lambda>fe.
      let pre = member P bsw Request_Prefix (prefix fe); enc = member P bsw QueryExtension_Encoding (encoding fe);
          n = ucast (fe_bytes_parsed fe) in
      require (\<not> header_only fe) (
      and_then (ordered_member P bsw Request_Prefix (prefix fe) ''opcode'') (\<lambda>opcode.
      require (opcode = QUERYEXTENSION) (
      and_then (ordered_member P bsw QueryExtension_Encoding (encoding fe) ''name_len'') (\<lambda>name_len.
      let name = read_text data (unat n) name_len in
      let n1 = n + ucast (Alignment_pad (of_nat name_len)) in
      and_then (length_assertion P bsw QueryExtension fe n1) (\<lambda>lengths_agree.
      require lengths_agree (
      and_then (stashString (conn_id conn) (sequence conn) (string_view_at conn (drop (unat n) data) name_len) P) (\<lambda>P'.
      map_res (\<lambda>s. (P', \<lparr>str = s, bytes_parsed = n1\<rparr>))
        (braces P ws (request_width P ws fe ''name'')
          ([verbose_only ''opcode'' (pre ''opcode'' no_names NOT_BITMASK)] @
           length_rows P bsw QueryExtension fe @
           [verbose_only ''(name length)'' (enc ''name_len'' no_names NOT_BITMASK),
            always ''name'' (map_res (fmt_debug (fmtl P)) name)]))))))))))))"

definition parseRequest_ListExtensions :: request_parser where
  "parseRequest_ListExtensions P conn data sz =
     require (unat sz \<ge> sizeof Request_Prefix) (
     and_then (ordered_member P (byteswap conn) Request_Prefix data ''opcode'') (\<lambda>opcode.
     require (opcode = LISTEXTENSIONS) (
     parseRequest_SimpleRequest P conn data sz)))"

definition parseRequest_ChangeKeyboardMapping :: request_parser where
  "parseRequest_ChangeKeyboardMapping P conn data sz =
     (let ws = ROOT_WS P; bsw = byteswap conn in
      require (sz \<ge> BASE_ENCODING_SZ ChangeKeyboardMapping) (
      and_then (RequestFixedEncoding P ChangeKeyboardMapping conn data sz) (\<lambda>fe.
      let pre = member P bsw ChangeKeyboardMapping_Prefix (prefix fe); enc = member P bsw ChangeKeyboardMapping_Encoding (encoding fe);
          n = ucast (fe_bytes_parsed fe) in
      require (\<not> header_only fe) (
      and_then (ordered_member P bsw ChangeKeyboardMapping_Prefix (prefix fe) ''opcode'') (\<lambda>opcode.
      require (opcode = CHANGEKEYBOARDMAPPING) (
      and_then (tl_aligned_units P bsw ChangeKeyboardMapping fe) (\<lambda>tl.
      let keysyms_sz = Alignment_size (of_nat tl) - base_encoding_sz ChangeKeyboardMapping fe in
      and_then (ordered_member P bsw ChangeKeyboardMapping_Prefix (prefix fe) ''keycode_count'') (\<lambda>keycode_count.
      and_then (ordered_member P bsw ChangeKeyboardMapping_Encoding (encoding fe) ''keysyms_per_keycode'') (\<lambda>keysyms_per_keycode.
      let expected_keysyms_ct = (of_nat (keycode_count * keysyms_per_keycode) :: 16 word) in
      let keysyms_ct = (ucast (keysyms_sz div of_nat (ptype_size KEYSYM)) :: 16 word) in
      require (keysyms_ct = expected_keysyms_ct) (
      and_then (nested DEFAULT ws) (\<lambda>keysyms_ws.
      and_then (parseLISTof_int P KEYSYM (drop (unat n) data) keysyms_sz keysyms_ct bsw keysyms_ws no_names NOT_BITMASK) (\<lambda>keysyms.
      let n1 = n + ucast (Alignment_pad (ucast (bytes_parsed keysyms))) in
      require (of_nat tl = Alignment_units (ucast n1)) (
      map_res (\<lambda>s. \<lparr>str = s, bytes_parsed = n1\<rparr>)
        (braces P ws (request_width P ws fe ''keysyms-per-keycode'')
          ([verbose_only ''opcode'' (pre ''opcode'' no_names NOT_BITMASK),
            always ''keycode-count'' (pre ''keycode_count'' no_names NOT_BITMASK)] @
           length_rows P bsw ChangeKeyboardMapping fe @
           [always ''first-keycode'' (enc ''first_keycode'' no_names NOT_BITMASK),
            always ''keysyms-per-keycode'' (enc ''keysyms_per_keycode'' no_names NOT_BITMASK),
            always ''keysyms'' (Inr (str keysyms))])))))))))))))))"

definition parseRequest_GetKeyboardMapping :: request_parser where
  "parseRequest_GetKeyboardMapping P conn data sz =
     (let ws = ROOT_WS P; bsw = byteswap conn in
      require (sz \<ge> BASE_ENCODING_SZ GetKeyboardMapping) (
      and_then (RequestFixedEncoding P GetKeyboardMapping conn data sz) (\<lambda>fe.
      let pre = member P bsw Request_Prefix (prefix fe); enc = member P bsw GetKeyboardMapping_Encoding (encoding fe);
          n = ucast (fe_bytes_parsed fe) in
      require (\<not> header_only fe) (
      and_then (ordered_member P bsw Request_Prefix (prefix fe) ''opcode'') (\<lambda>opcode.
      require (opcode = GETKEYBOARDMAPPING) (
      and_then (length_assertion P bsw GetKeyboardMapping fe n) (\<lambda>lengths_agree.
      require lengths_agree (
      map_res (\<lambda>s. \<lparr>str = s, bytes_parsed = n\<rparr>)
        (braces P ws (request_width P ws fe ''first-keycode'')
          ([verbose_only ''opcode'' (pre ''opcode'' no_names NOT_BITMASK)] @
           length_rows P bsw GetKeyboardMapping fe @
           [always ''first-keycode'' (enc ''first_keycode'' no_names NOT_BITMASK),
            always ''count'' (enc ''count'' no_names NOT_BITMASK)]))))))))))"

definition parseRequest_ChangeKeyboardControl :: request_parser where
  "parseRequest_ChangeKeyboardControl P conn data sz =
     (let ws = ROOT_WS P; bsw = byteswap conn in
      require (sz \<ge> BASE_ENCODING_SZ ChangeKeyboardControl) (
      and_then (RequestFixedEncoding P ChangeKeyboardControl conn data sz) (\<lambda>fe.
      let pre = member P bsw Request_Prefix (prefix fe); enc = member P bsw ChangeKeyboardControl_Encoding (encoding fe);
          n = ucast (fe_bytes_parsed fe) in
      require (\<not> header_only fe) (
      and_then (ordered_member P bsw Request_Prefix (prefix fe) ''opcode'') (\<lambda>opcode.
      require (opcode = CHANGEKEYBOARDCONTROL) (
      and_then (collect
         [value_trait no_names NOT_BITMASK,
          value_trait no_names NOT_BITMASK,
          value_trait no_names NOT_BITMASK,
          value_trait no_names NOT_BITMASK,
          value_trait no_names NOT_BITMASK,
          value_trait (range_bound ChangeKeyboardControl_led_mode_names Bound_MAX ChangeKeyboardControl_LED_MODE_ENUM_MAX) NOT_BITMASK,
          value_trait no_names NOT_BITMASK,
          value_trait (range_all ChangeKeyboardControl_auto_repeat_mode_names) NOT_BITMASK]) (\<lambda>value_traits.
      and_then (ordered_member P bsw ChangeKeyboardControl_Encoding (encoding fe) ''value_mask'') (\<lambda>value_mask.
      and_then (nested DEFAULT ws) (\<lambda>value_list_ws.
      and_then (parseLISTofVALUE P (drop (unat n) data) (sz - ucast n) value_mask ChangeKeyboardControl_value_types ChangeKeyboardControl_value_names
                 value_traits bsw value_list_ws) (\<lambda>value_list.
      let n1 = n + bytes_parsed value_list in
      and_then (length_assertion P bsw ChangeKeyboardControl fe n1) (\<lambda>lengths_agree.
      require lengths_agree (
      and_then (braces P ws (request_width P ws fe ''value-list'')
          ([verbose_only ''opcode'' (pre ''opcode'' no_names NOT_BITMASK)] @
           length_rows P bsw ChangeKeyboardControl fe @
           [verbose_only ''value-mask'' (enc ''value_mask'' no_names BITMASK),
            always ''value-list'' (Inr (str value_list))]))
        (\<lambda>_. Inl Format_error)))))))))))))"

definition parseRequest_GetKeyboardControl :: request_parser where
  "parseRequest_GetKeyboardControl P conn data sz =
     require (unat sz \<ge> sizeof Request_Prefix) (
     and_then (ordered_member P (byteswap conn) Request_Prefix data ''opcode'') (\<lambda>opcode.
     require (opcode = GETKEYBOARDCONTROL) (
     parseRequest_SimpleRequest P conn data sz)))"

definition parseRequest_Bell :: request_parser where
  "parseRequest_Bell P conn data sz =
     (let ws = ROOT_WS P; bsw = byteswap conn in
      require (sz \<ge> BASE_ENCODING_SZ Bell) (
      and_then (RequestFixedEncoding P Bell conn data sz) (\<lambda>fe.
      let pre = member P bsw Bell_Prefix (prefix fe);
          n = ucast (fe_bytes_parsed fe) in
      require (header_only fe) (
      and_then (ordered_member P bsw Bell_Prefix (prefix fe) ''opcode'') (\<lambda>opcode.
      require (opcode = BELL) (
      and_then (length_assertion P bsw Bell fe n) (\<lambda>lengths_agree.
      require lengths_agree (
      map_res (\<lambda>s. \<lparr>str = s, bytes_parsed = n\<rparr>)
        (braces P ws (request_width P ws fe ''percent'')
          ([verbose_only ''opcode'' (pre ''opcode'' no_names NOT_BITMASK),
            always ''percent'' (pre ''percent'' no_names NOT_BITMASK)] @
           length_rows P bsw Bell fe))))))))))"

definition parseRequest_ChangePointerControl :: request_parser where
  "parseRequest_ChangePointerControl P conn data sz =
     (let ws = ROOT_WS P; bsw = byteswap conn in
      require (sz \<ge> BASE_ENCODING_SZ ChangePointerControl) (
      and_then (RequestFixedEncoding P ChangePointerControl conn data sz) (\<lambda>fe.
      let pre = member P bsw Request_Prefix (prefix fe); enc = member P bsw ChangePointerControl_Encoding (encoding fe);
          n = ucast (fe_bytes_parsed fe) in
      require (\<not> header_only fe) (
      and_then (ordered_member P bsw Request_Prefix (prefix fe) ''opcode'') (\<lambda>opcode.
      require (opcode = CHANGEPOINTERCONTROL) (
      and_then (length_assertion P bsw ChangePointerControl fe n) (\<lambda>lengths_agree.
      require lengths_agree (
      map_res (\<lambda>s. \<lparr>str = s, bytes_parsed = n\<rparr>)
        (braces P ws (name_width ws ''acceleration-denominator'')
          ([verbose_only ''opcode'' (pre ''opcode'' no_names NOT_BITMASK)] @
           length_rows P bsw ChangePointerControl fe @
           [always ''acceleration-numerator'' (enc ''acceleration_numerator'' no_names NOT_BITMASK),
            always ''acceleration-denominator'' (enc ''acceleration_denominator'' no_names NOT_BITMASK),
            always ''threshold'' (enc ''threshold'' no_names NOT_BITMASK),
            always ''do-acceleration'' (enc ''do_acceleration'' no_names NOT_BITMASK),
            always ''do-threshold'' (enc ''do_threshold'' no_names NOT_BITMASK)]))))))))))"

definition parseRequest_GetPointerControl :: request_parser where
  "parseRequest_GetPointerControl P conn data sz =
     require (unat sz \<ge> sizeof Request_Prefix) (
     and_then (ordered_member P (byteswap conn) Request_Prefix data ''opcode'') (\<lambda>opcode.
     require (opcode = GETPOINTERCONTROL) (
     parseRequest_SimpleRequest P conn data sz)))"

definition parseRequest_SetScreenSaver :: request_parser where
  "parseRequest_SetScreenSaver P conn data sz =
     (let ws = ROOT_WS P; bsw = byteswap conn in
      require (sz \<ge> BASE_ENCODING_SZ SetScreenSaver) (
      and_then (RequestFixedEncoding P SetScreenSaver conn data sz) (\<lambda>fe.
      let pre = member P bsw Request_Prefix (prefix fe); enc = member P bsw SetScreenSaver_Encoding (encoding fe);
          n = ucast (fe_bytes_parsed fe) in
      require (\<not> header_only fe) (
      and_then (ordered_member P bsw Request_Prefix (prefix fe) ''opcode'') (\<lambda>opcode.
      require (opcode = SETSCREENSAVER) (
      and_then (length_assertion P bsw SetScreenSaver fe n) (\<lambda>lengths_agree.
      require lengths_agree (
      map_res (\<lambda>s. \<lparr>str = s, bytes_parsed = n\<rparr>)
        (braces P ws (request_width P ws fe ''prefer-blanking'')
          ([verbose_only ''opcode'' (pre ''opcode'' no_names NOT_BITMASK)] @
           length_rows P bsw SetScreenSaver fe @
           [always ''timeout'' (enc ''timeout'' no_names NOT_BITMASK),
            always ''interval'' (enc ''interval'' no_names NOT_BITMASK),
            always ''prefer-blanking'' (enc ''prefer_blanking'' (range_all SetScreenSaver_prefer_blanking_names) NOT_BITMASK),
            always ''allow-exposures'' (enc ''allow_exposures'' (range_all SetScreenSaver_allow_exposures_names) NOT_BITMASK)]))))))))))"

definition parseRequest_GetScreenSaver :: request_parser where
  "parseRequest_GetScreenSaver P conn data sz =
     require (unat sz \<ge> sizeof Request_Prefix) (
     and_then (ordered_member P (byteswap conn) Request_Prefix data ''opcode'') (\<lambda>opcode.
     require (opcode = GETSCREENSAVER) (
     parseRequest_SimpleRequest P conn data sz)))"

definition parseRequest_ChangeHosts :: request_parser where
  "parseRequest_ChangeHosts P conn data sz =
     (let ws = ROOT_WS P; bsw = byteswap conn in
      require (sz \<ge> BASE_ENCODING_SZ ChangeHosts) (
      and_then (RequestFixedEncoding P ChangeHosts conn data sz) (\<lambda>fe.
      let pre = member P bsw ChangeHosts_Prefix (prefix fe); enc = member P bsw ChangeHosts_Encoding (encoding fe);
          n = ucast (fe_bytes_parsed fe) in
      require (\<not> header_only fe) (
      and_then (ordered_member P bsw ChangeHosts_Prefix (prefix fe) ''opcode'') (\<lambda>opcode.
      require (opcode = CHANGEHOSTS) (
      and_then (tl_aligned_units P bsw ChangeHosts fe) (\<lambda>tl.
      let address_sz = Alignment_size (of_nat tl) - base_encoding_sz ChangeHosts fe in
      and_then (ordered_member P bsw ChangeHosts_Encoding (encoding fe) ''address_len'') (\<lambda>address_len.
      and_then (nested FORCE_SINGLELINE ws) (\<lambda>address_ws.
      and_then (parseLISTof_int P CARD8 (drop (unat n) data) address_sz (of_nat address_len) bsw address_ws no_names NOT_BITMASK) (\<lambda>address.
      let n1 = n + ucast (Alignment_pad (ucast (bytes_parsed address))) in
      require (of_nat tl = Alignment_units (ucast n1)) (
      map_res (\<lambda>s. \<lparr>str = s, bytes_parsed = n1\<rparr>)
        (braces P ws (request_width P ws fe ''address'')
          ([verbose_only ''opcode'' (pre ''opcode'' no_names NOT_BITMASK),
            always ''mode'' (pre ''mode'' (range_all ChangeHosts_mode_names) NOT_BITMASK)] @
           length_rows P bsw ChangeHosts fe @
           [always ''family'' (enc ''family'' (range_bound ChangeHosts_family_names Bound_MAX ChangeHosts_FAMILY_ENUM_MAX) NOT_BITMASK),
            verbose_only ''(address length)'' (enc ''address_len'' no_names NOT_BITMASK),
            always ''address'' (Inr (str address))])))))))))))))"

definition parseRequest_ListHosts :: request_parser where
  "parseRequest_ListHosts P conn data sz =
     require (unat sz \<ge> sizeof Request_Prefix) (
     and_then (ordered_member P (byteswap conn) Request_Prefix data ''opcode'') (\<lambda>opcode.
     require (opcode = LISTHOSTS) (
     parseRequest_SimpleRequest P conn data sz)))"

definition parseRequest_SetAccessControl :: request_parser where
  "parseRequest_SetAccessControl P conn data sz =
     (let ws = ROOT_WS P; bsw = byteswap conn in
      require (sz \<ge> BASE_ENCODING_SZ SetAccessControl) (
      and_then (RequestFixedEncoding P SetAccessControl conn data sz) (\<lambda>fe.
      let pre = member P bsw SetAccessControl_Prefix (prefix fe);
          n = ucast (fe_bytes_parsed fe) in
      require (header_only fe) (
      and_then (ordered_member P bsw SetAccessControl_Prefix (prefix fe) ''opcode'') (\<lambda>opcode.
      require (opcode = SETACCESSCONTROL) (
      and_then (length_assertion P bsw SetAccessControl fe n) (\<lambda>lengths_agree.
      require lengths_agree (
      map_res (\<lambda>s. \<lparr>str = s, bytes_parsed = n\<rparr>)
        (braces P ws (request_width P ws fe ''mode'')
          ([verbose_only ''opcode'' (pre ''opcode'' no_names NOT_BITMASK),
            always ''mode'' (pre ''mode'' (range_all SetAccessControl_mode_names) NOT_BITMASK)] @
           length_rows P bsw SetAccessControl fe))))))))))"

definition parseRequest_SetCloseDownMode :: request_parser where
  "parseRequest_SetCloseDownMode P conn data sz =
     (let ws = ROOT_WS P; bsw = byteswap conn in
      require (sz \<ge> BASE_ENCODING_SZ SetCloseDownMode) (
      and_then (RequestFixedEncoding P SetCloseDownMode conn data sz) (\<lambda>fe.
      let pre = member P bsw SetCloseDownMode_Prefix (prefix fe);
          n = ucast (fe_bytes_parsed fe) in
      require (header_only fe) (
      and_then (ordered_member P bsw SetCloseDownMode_Prefix (prefix fe) ''opcode'') (\<lambda>opcode.
      require (opcode = SETCLOSEDOWNMODE) (
      and_then (length_assertion P bsw SetCloseDownMode fe n) (\<lambda>lengths_agree.
      require lengths_agree (
      map_res (\<lambda>s. \<lparr>str = s, bytes_parsed = n\<rparr>)
        (braces P ws (request_width P ws fe ''mode'')
          ([verbose_only ''opcode'' (pre ''opcode'' no_names NOT_BITMASK),
            always ''mode'' (pre ''mode'' (range_all SetCloseDownMode_mode_names) NOT_BITMASK)] @
           length_rows P bsw SetCloseDownMode fe))))))))))"

definition parseRequest_KillClient :: request_parser where
  "parseRequest_KillClient P conn data sz =
     (let ws = ROOT_WS P; bsw = byteswap conn in
      require (sz \<ge> BASE_ENCODING_SZ KillClient) (
      and_then (RequestFixedEncoding P KillClient conn data sz) (\<lambda>fe.
      let pre = member P bsw Request_Prefix (prefix fe); enc = member P bsw KillClient_Encoding (encoding fe);
          n = ucast (fe_bytes_parsed fe) in
      require (\<not> header_only fe) (
      and_then (ordered_member P bsw Request_Prefix (prefix fe) ''opcode'') (\<lambda>opcode.
      require (opcode = KILLCLIENT) (
      and_then (length_assertion P bsw KillClient fe n) (\<lambda>lengths_agree.
      require lengths_agree (
      map_res (\<lambda>s. \<lparr>str = s, bytes_parsed = n\<rparr>)
        (braces P ws (request_width P ws fe ''resource'')
          ([verbose_only ''opcode'' (pre ''opcode'' no_names NOT_BITMASK)] @
           length_rows P bsw KillClient fe @
           [always ''resource'' (enc ''resource'' (range_all KillClient_resource_names) NOT_BITMASK)]))))))))))"

definition parseRequest_RotateProperties :: request_parser where
  "parseRequest_RotateProperties P conn data sz =
     (let ws = ROOT_WS P; bsw = byteswap conn in
      require (sz \<ge> BASE_ENCODING_SZ RotateProperties) (
      and_then (RequestFixedEncoding P RotateProperties conn data sz) (\<lambda>fe.
      let pre = member P bsw Request_Prefix (prefix fe); enc = member P bsw RotateProperties_Encoding (encoding fe);
          n = ucast (fe_bytes_parsed fe) in
      require (\<not> header_only fe) (
      and_then (ordered_member P bsw Request_Prefix (prefix fe) ''opcode'') (\<lambda>opcode.
      require (opcode = ROTATEPROPERTIES) (
      and_then (tl_aligned_units P bsw RotateProperties fe) (\<lambda>tl.
      let properties_sz = Alignment_size (of_nat tl) - base_encoding_sz RotateProperties fe in
      and_then (ordered_member P bsw RotateProperties_Encoding (encoding fe) ''properties_ct'') (\<lambda>properties_ct.
      and_then (nested DEFAULT ws) (\<lambda>properties_ws.
      and_then (parseLISTof_int P ATOM (drop (unat n) data) properties_sz (of_nat properties_ct) bsw properties_ws no_names NOT_BITMASK) (\<lambda>properties.
      let n1 = n + ucast (Alignment_pad (ucast (bytes_parsed properties))) in
      require (of_nat tl = Alignment_units (ucast n1)) (
      map_res (\<lambda>s. \<lparr>str = s, bytes_parsed = n1\<rparr>)
        (braces P ws (request_width P ws fe ''properties'')
          ([verbose_only ''opcode'' (pre ''opcode'' no_names NOT_BITMASK)] @
           length_rows P bsw RotateProperties fe @
           [always ''window'' (enc ''window'' no_names NOT_BITMASK),
            verbose_only ''(ATOMs in properties)'' (enc ''properties_ct'' no_names NOT_BITMASK),
            always ''delta'' (enc ''delta'' no_names NOT_BITMASK),
            always ''properties'' (Inr (str properties))])))))))))))))"

definition parseRequest_ForceScreenSaver :: request_parser where
  "parseRequest_ForceScreenSaver P conn data sz =
     (let ws = ROOT_WS P; bsw = byteswap conn in
      require (sz \<ge> BASE_ENCODING_SZ ForceScreenSaver) (
      and_then (RequestFixedEncoding P ForceScreenSaver conn data sz) (\<lambda>fe.
      let pre = member P bsw ForceScreenSaver_Prefix (prefix fe);
          n = ucast (fe_bytes_parsed fe) in
      require (header_only fe) (
      and_then (ordered_member P bsw ForceScreenSaver_Prefix (prefix fe) ''opcode'') (\<lambda>opcode.
      require (opcode = FORCESCREENSAVER) (
      and_then (length_assertion P bsw ForceScreenSaver fe n) (\<lambda>lengths_agree.
      require lengths_agree (
      map_res (\<lambda>s. \<lparr>str = s, bytes_parsed = n\<rparr>)
        (braces P ws (request_width P ws fe ''mode'')
          ([verbose_only ''opcode'' (pre ''opcode'' no_names NOT_BITMASK),
            always ''mode'' (pre ''mode'' (range_all ForceScreenSaver_mode_names) NOT_BITMASK)] @
           length_rows P bsw ForceScreenSaver fe))))))))))"

definition parseRequest_SetPointerMapping :: request_parser where
  "parseRequest_SetPointerMapping P conn data sz =
     (let ws = ROOT_WS P; bsw = byteswap conn in
      require (sz \<ge> BASE_ENCODING_SZ SetPointerMapping) (
      and_then (RequestFixedEncoding P SetPointerMapping conn data sz) (\<lambda>fe.
      let pre = member P bsw SetPointerMapping_Prefix (prefix fe);
          n = ucast (fe_bytes_parsed fe) in
      require (header_only fe) (
      and_then (ordered_member P bsw SetPointerMapping_Prefix (prefix fe) ''opcode'') (\<lambda>opcode.
      require (opcode = SETPOINTERMAPPING) (
      and_then (tl_aligned_units P bsw SetPointerMapping fe) (\<lambda>tl.
      let map_sz = Alignment_size (of_nat tl) - base_encoding_sz SetPointerMapping fe in
      and_then (ordered_member P bsw SetPointerMapping_Prefix (prefix fe) ''map_len'') (\<lambda>map_len.
      and_then (nested FORCE_SINGLELINE ws) (\<lambda>map_ws.
      and_then (parseLISTof_int P CARD8 (drop (unat n) data) map_sz (of_nat map_len) bsw map_ws no_names NOT_BITMASK) (\<lambda>map.
      let n1 = n + ucast (Alignment_pad (ucast (bytes_parsed map))) in
      require (of_nat tl = Alignment_units (ucast n1)) (
      map_res (\<lambda>s. \<lparr>str = s, bytes_parsed = n1\<rparr>)
        (braces P ws (request_width P ws fe ''map'')
          ([verbose_only ''opcode'' (pre ''opcode'' no_names NOT_BITMASK),
            verbose_only ''(map length)'' (pre ''map_len'' no_names NOT_BITMASK)] @
           length_rows P bsw SetPointerMapping fe @
           [always ''map'' (Inr (str map))])))))))))))))"

definition parseRequest_GetPointerMapping :: request_parser where
  "parseRequest_GetPointerMapping P conn data sz =
     require (unat sz \<ge> sizeof Request_Prefix) (
     and_then (ordered_member P (byteswap conn) Request_Prefix data ''opcode'') (\<lambda>opcode.
     require (opcode = GETPOINTERMAPPING) (
     parseRequest_SimpleRequest P conn data sz)))"

definition parseRequest_SetModifierMapping :: request_parser where
  "parseRequest_SetModifierMapping P conn data sz =
     (let ws = ROOT_WS P; bsw = byteswap conn in
      require (sz \<ge> BASE_ENCODING_SZ SetModifierMapping) (
      and_then (RequestFixedEncoding P SetModifierMapping conn data sz) (\<lambda>fe.
      let pre = member P bsw SetModifierMapping_Prefix (prefix fe);
          n = ucast (fe_bytes_parsed fe) in
      require (header_only fe) (
      and_then (ordered_member P bsw SetModifierMapping_Prefix (prefix fe) ''opcode'') (\<lambda>opcode.
      require (opcode = SETMODIFIERMAPPING) (
      and_then (tl_aligned_units P bsw SetModifierMapping fe) (\<lambda>tl.
      let keycodes_sz = Alignment_size (of_nat tl) - base_encoding_sz SetModifierMapping fe in
      and_then (ordered_member P bsw SetModifierMapping_Prefix (prefix fe) ''keycodes_per_modifier'') (\<lambda>keycodes_per_modifier.
      let expected_keycodes_ct = (of_nat (SetModifierMapping_MODIFIER_CT * keycodes_per_modifier) :: 16 word) in
      let keycodes_ct = (ucast (keycodes_sz div of_nat (ptype_size KEYCODE)) :: 16 word) in
      require (keycodes_ct = expected_keycodes_ct) (
      and_then (nested FORCE_SINGLELINE ws) (\<lambda>keycodes_ws.
      and_then (parseLISTof_int P KEYCODE (drop (unat n) data) keycodes_sz keycodes_ct bsw keycodes_ws no_names NOT_BITMASK) (\<lambda>keycodes.
      let n1 = n + ucast (Alignment_pad (ucast (bytes_parsed keycodes))) in
      require (of_nat tl = Alignment_units (ucast n1)) (
      map_res (\<lambda>s. \<lparr>str = s, bytes_parsed = n1\<rparr>)
        (braces P ws (if \<not> ws_multiline ws then 0 else (if big_request fe then length ''(extended length flag)'' else length ''keycodes-per-modifier''))
          ([verbose_only ''opcode'' (pre ''opcode'' no_names NOT_BITMASK),
            always ''keycodes-per-modifier'' (pre ''keycodes_per_modifier'' no_names NOT_BITMASK)] @
           length_rows P bsw SetModifierMapping fe @
           [always ''keycodes'' (Inr (str keycodes))]))))))))))))))"

definition parseRequest_GetModifierMapping :: request_parser where
  "parseRequest_GetModifierMapping P conn data sz =
     require (unat sz \<ge> sizeof Request_Prefix) (
     and_then (ordered_member P (byteswap conn) Request_Prefix data ''opcode'') (\<lambda>opcode.
     require (opcode = GETMODIFIERMAPPING) (
     parseRequest_SimpleRequest P conn data sz)))"

definition parseRequest_NoOperation :: request_parser where
  "parseRequest_NoOperation P conn data sz =
     (let ws = ROOT_WS P; bsw = byteswap conn in
      require (sz \<ge> BASE_ENCODING_SZ NoOperation) (
      and_then (RequestFixedEncoding P NoOperation conn data sz) (\<lambda>fe.
      let pre = member P bsw Request_Prefix (prefix fe);
          n = ucast (fe_bytes_parsed fe) in
      require (header_only fe) (
      and_then (ordered_member P bsw Request_Prefix (prefix fe) ''opcode'') (\<lambda>opcode.
      require (opcode = NOOPERATION) (
      and_then (tl_aligned_units P bsw NoOperation fe) (\<lambda>tl.
      let dummy_sz = Alignment_size (of_nat tl) - base_encoding_sz NoOperation fe in
      let n1 = n + ucast dummy_sz in
      require (of_nat tl = Alignment_units (ucast n1)) (
      map_res (\<lambda>s. \<lparr>str = s, bytes_parsed = n1\<rparr>)
        (braces P ws (if \<not> ws_multiline ws \<or> \<not> verbose (settings P) then 0 else (if big_request fe then length ''(extended length flag)'' else length ''(total aligned units)''))
          ([verbose_only ''opcode'' (pre ''opcode'' no_names NOT_BITMASK)] @
           length_rows P bsw NoOperation fe))))))))))"

lemmas parseRequest_defs =
  parseRequest_UnknownRequest_def parseRequest_SimpleRequest_def
  parseRequest_SimpleWindowRequest_def parseRequest_ListFontsRequest_def
  parseRequest_PolyPointRequest_def parseRequest_SimpleCmapRequest_def
  parseRequest_CreateWindow_def parseRequest_ChangeWindowAttributes_def
  parseRequest_GetWindowAttributes_def parseRequest_DestroyWindow_def
  parseRequest_DestroySubwindows_def parseRequest_ChangeSaveSet_def
  parseRequest_ReparentWindow_def parseRequest_MapWindow_def parseRequest_MapSubwindows_def
  parseRequest_UnmapWindow_def parseRequest_UnmapSubwindows_def parseRequest_ConfigureWindow_def
  parseRequest_CirculateWindow_def parseRequest_GetGeometry_def parseRequest_QueryTree_def
  parseRequest_InternAtom_def parseRequest_GetAtomName_def parseRequest_ChangeProperty_def
  parseRequest_DeleteProperty_def parseRequest_GetProperty_def parseRequest_ListProperties_def
  parseRequest_SetSelectionOwner_def parseRequest_GetSelectionOwner_def
  parseRequest_ConvertSelection_def parseRequest_SendEvent_def parseRequest_GrabPointer_def
  parseRequest_UngrabPointer_def parseRequest_GrabButton_def parseRequest_UngrabButton_def
  parseRequest_ChangeActivePointerGrab_def parseRequest_GrabKeyboard_def
  parseRequest_UngrabKeyboard_def parseRequest_GrabKey_def parseRequest_UngrabKey_def
  parseRequest_AllowEvents_def parseRequest_GrabServer_def parseRequest_UngrabServer_def
  parseRequest_QueryPointer_def parseRequest_GetMotionEvents_def
  parseRequest_TranslateCoordinates_def parseRequest_WarpPointer_def
  parseRequest_SetInputFocus_def parseRequest_GetInputFocus_def parseRequest_QueryKeymap_def
  parseRequest_OpenFont_def parseRequest_CloseFont_def parseRequest_QueryFont_def
  parseRequest_QueryTextExtents_def parseRequest_ListFonts_def parseRequest_ListFontsWithInfo_def
  parseRequest_SetFontPath_def parseRequest_GetFontPath_def parseRequest_CreatePixmap_def
  parseRequest_FreePixmap_def parseRequest_CreateGC_def parseRequest_ChangeGC_def
  parseRequest_CopyGC_def parseRequest_SetDashes_def parseRequest_SetClipRectangles_def
  parseRequest_FreeGC_def parseRequest_ClearArea_def parseRequest_CopyArea_def
  parseRequest_CopyPlane_def parseRequest_PolyPoint_def parseRequest_PolyLine_def
  parseRequest_PolySegment_def parseRequest_PolyRectangle_def parseRequest_PolyArc_def
  parseRequest_FillPoly_def parseRequest_PolyFillRectangle_def parseRequest_PolyFillArc_def
  parseRequest_PutImage_def parseRequest_GetImage_def parseRequest_PolyText8_def
  parseRequest_PolyText16_def parseRequest_ImageText8_def parseRequest_ImageText16_def
  parseRequest_CreateColormap_def parseRequest_FreeColormap_def
  parseRequest_CopyColormapAndFree_def parseRequest_InstallColormap_def
  parseRequest_UninstallColormap_def parseRequest_ListInstalledColormaps_def
  parseRequest_AllocColor_def parseRequest_AllocNamedColor_def parseRequest_AllocColorCells_def
  parseRequest_AllocColorPlanes_def parseRequest_FreeColors_def parseRequest_StoreColors_def
  parseRequest_StoreNamedColor_def parseRequest_QueryColors_def parseRequest_LookupColor_def
  parseRequest_CreateCursor_def parseRequest_CreateGlyphCursor_def parseRequest_FreeCursor_def
  parseRequest_RecolorCursor_def parseRequest_QueryBestSize_def parseRequest_QueryExtension_def
  parseRequest_ListExtensions_def parseRequest_ChangeKeyboardMapping_def
  parseRequest_GetKeyboardMapping_def parseRequest_ChangeKeyboardControl_def
  parseRequest_GetKeyboardControl_def parseRequest_Bell_def parseRequest_ChangePointerControl_def
  parseRequest_GetPointerControl_def parseRequest_SetScreenSaver_def
  parseRequest_GetScreenSaver_def parseRequest_ChangeHosts_def parseRequest_ListHosts_def
  parseRequest_SetAccessControl_def parseRequest_SetCloseDownMode_def parseRequest_KillClient_def
  parseRequest_RotateProperties_def parseRequest_ForceScreenSaver_def
  parseRequest_SetPointerMapping_def parseRequest_GetPointerMapping_def
  parseRequest_SetModifierMapping_def parseRequest_GetModifierMapping_def
  parseRequest_NoOperation_def

end
