(* ===== verification/ReplyLayout.thy ===== *)
theory ReplyLayout
  imports RequestLayout
begin

text \<open>
  The replies on the wire: the \<open>Reply\<close> structs nested in the request structs of
  \<open>protocol/requests.hpp\<close>, with the structs of their lists and the name tables of their
  members. In the header of a \<open>ListFontsWithInfo\<close> reply \<open>name_len\<close> and \<open>last_reply\<close>
  are an anonymous union; the layout has the byte once, as \<open>name_len\<close>.
\<close>

definition Reply_DEFAULT_ENCODING_SZ :: size_t where
  "Reply_DEFAULT_ENCODING_SZ = 32"

definition Reply_Header :: layout where
  "Reply_Header =
     [(''reply'', CARD8), (''_unused'', CARD8), (''sequence_num'', CARD16),
      (''extra_aligned_units'', CARD32)]"

definition Reply_Encoding :: layout where
  "Reply_Encoding =
     embed ''header'' Reply_Header @
     [(''_unused'', Bytes 24)]"

definition FONTPROP :: layout where
  "FONTPROP =
     [(''name'', ATOM), (''value'', CARD32)]"

definition CHARINFO :: layout where
  "CHARINFO =
     [(''left_side_bearing'', INT16), (''right_side_bearing'', INT16),
      (''character_width'', INT16), (''ascent'', INT16), (''descent'', INT16),
      (''attributes'', CARD16)]"

definition GetMotionEvents_Reply_TIMECOORD :: layout where
  "GetMotionEvents_Reply_TIMECOORD =
     [(''time'', TIMESTAMP), (''x'', INT16), (''y'', INT16)]"

definition QueryColors_Reply_RGB :: layout where
  "QueryColors_Reply_RGB =
     [(''red'', CARD16), (''green'', CARD16), (''blue'', CARD16), (''_unused'', Bytes 2)]"

definition GetWindowAttributes_Reply_Header :: layout where
  "GetWindowAttributes_Reply_Header =
     [(''reply'', CARD8), (''backing_store'', CARD8), (''sequence_num'', CARD16),
      (''extra_aligned_units'', CARD32)]"

definition GetWindowAttributes_Reply_Encoding :: layout where
  "GetWindowAttributes_Reply_Encoding =
     embed ''header'' GetWindowAttributes_Reply_Header @
     [(''visual'', VISUALID), (''class_'', CARD16), (''bit_gravity'', BITGRAVITY),
      (''win_gravity'', WINGRAVITY), (''backing_planes'', CARD32), (''backing_pixel'', CARD32),
      (''save_under'', BOOL), (''map_is_installed'', BOOL), (''map_state'', CARD8),
      (''override_redirect'', BOOL), (''colormap'', COLORMAP),
      (''all_event_masks'', SETofEVENT), (''your_event_mask'', SETofEVENT),
      (''do_not_propagate_mask'', SETofDEVICEEVENT), (''_unused'', Bytes 2)]"

definition GetWindowAttributes_Reply_backing_store_names :: "string list" where
  "GetWindowAttributes_Reply_backing_store_names = enum_names_window_attribute_backing_store"

definition GetWindowAttributes_Reply_class_names :: "string list" where
  "GetWindowAttributes_Reply_class_names = enum_names_window_class"

definition GetWindowAttributes_Reply_CLASS_ENUM_MIN :: nat where
  "GetWindowAttributes_Reply_CLASS_ENUM_MIN = 1"

definition GetWindowAttributes_Reply_map_state_names :: "string list" where
  "GetWindowAttributes_Reply_map_state_names =
     [''Unmapped'', ''Unviewable'', ''Viewable'']"

definition GetGeometry_Reply_Header :: layout where
  "GetGeometry_Reply_Header =
     [(''reply'', CARD8), (''depth'', CARD8), (''sequence_num'', CARD16),
      (''extra_aligned_units'', CARD32)]"

definition GetGeometry_Reply_Encoding :: layout where
  "GetGeometry_Reply_Encoding =
     embed ''header'' GetGeometry_Reply_Header @
     [(''root'', WINDOW), (''x'', INT16), (''y'', INT16), (''width'', CARD16),
      (''height'', CARD16), (''border_width'', CARD16), (''_unused'', Bytes 10)]"

definition QueryTree_Reply_Encoding :: layout where
  "QueryTree_Reply_Encoding =
     embed ''header'' Reply_Header @
     [(''root'', WINDOW), (''parent'', WINDOW), (''children_ct'', CARD16),
      (''_unused'', Bytes 14)]"

definition QueryTree_Reply_parent_names :: "string list" where
  "QueryTree_Reply_parent_names = enum_names_zero_none"

definition InternAtom_Reply_Encoding :: layout where
  "InternAtom_Reply_Encoding =
     embed ''header'' Reply_Header @
     [(''atom'', ATOM), (''_unused2'', Bytes 20)]"

definition InternAtom_Reply_atom_names :: "string list" where
  "InternAtom_Reply_atom_names = enum_names_zero_none"

definition GetAtomName_Reply_Encoding :: layout where
  "GetAtomName_Reply_Encoding =
     embed ''header'' Reply_Header @
     [(''name_len'', CARD16), (''_unused'', Bytes 22)]"

definition GetProperty_Reply_Header :: layout where
  "GetProperty_Reply_Header =
     [(''reply'', CARD8), (''format'', CARD8), (''sequence_num'', CARD16),
      (''extra_aligned_units'', CARD32)]"

definition GetProperty_Reply_Encoding :: layout where
  "GetProperty_Reply_Encoding =
     embed ''header'' GetProperty_Reply_Header @
     [(''type'', ATOM), (''bytes_after'', CARD32), (''value_fmt_unit_len'', CARD32),
      (''_unused'', Bytes 12)]"

definition GetProperty_Reply_MAX_FORMAT :: nat where
  "GetProperty_Reply_MAX_FORMAT = 32"

definition GetProperty_Reply_FORMAT_FACTOR :: nat where
  "GetProperty_Reply_FORMAT_FACTOR = 8"

definition GetProperty_Reply_type_names :: "string list" where
  "GetProperty_Reply_type_names = enum_names_zero_none"

definition ListProperties_Reply_Encoding :: layout where
  "ListProperties_Reply_Encoding =
     embed ''header'' Reply_Header @
     [(''atoms_ct'', CARD16), (''_unused'', Bytes 22)]"

definition GetSelectionOwner_Reply_Encoding :: layout where
  "GetSelectionOwner_Reply_Encoding =
     embed ''header'' Reply_Header @
     [(''owner'', WINDOW), (''_unused'', Bytes 20)]"

definition GetSelectionOwner_Reply_owner_names :: "string list" where
  "GetSelectionOwner_Reply_owner_names = enum_names_zero_none"

definition GrabPointer_Reply_Header :: layout where
  "GrabPointer_Reply_Header =
     [(''reply'', CARD8), (''status'', CARD8), (''sequence_num'', CARD16),
      (''extra_aligned_units'', CARD32)]"

definition GrabPointer_Reply_Encoding :: layout where
  "GrabPointer_Reply_Encoding =
     embed ''header'' GrabPointer_Reply_Header @
     [(''_unused'', Bytes 24)]"

definition GrabPointer_Reply_status_names :: "string list" where
  "GrabPointer_Reply_status_names = enum_names_grab_status"

definition GrabKeyboard_Reply_Header :: layout where
  "GrabKeyboard_Reply_Header =
     [(''reply'', CARD8), (''status'', CARD8), (''sequence_num'', CARD16),
      (''extra_aligned_units'', CARD32)]"

definition GrabKeyboard_Reply_Encoding :: layout where
  "GrabKeyboard_Reply_Encoding =
     embed ''header'' GrabKeyboard_Reply_Header @
     [(''_unused'', Bytes 24)]"

definition GrabKeyboard_Reply_status_names :: "string list" where
  "GrabKeyboard_Reply_status_names = enum_names_grab_status"

definition QueryPointer_Reply_Header :: layout where
  "QueryPointer_Reply_Header =
     [(''reply'', CARD8), (''same_screen'', BOOL), (''sequence_num'', CARD16),
      (''extra_aligned_units'', CARD32)]"

definition QueryPointer_Reply_Encoding :: layout where
  "QueryPointer_Reply_Encoding =
     embed ''header'' QueryPointer_Reply_Header @
     [(''root'', WINDOW), (''child'', WINDOW), (''root_x'', INT16), (''root_y'', INT16),
      (''win_x'', INT16), (''win_y'', INT16), (''mask'', SETofKEYBUTMASK),
      (''_unused'', Bytes 6)]"

definition QueryPointer_Reply_child_names :: "string list" where
  "QueryPointer_Reply_child_names = enum_names_zero_none"

definition GetMotionEvents_Reply_Encoding :: layout where
  "GetMotionEvents_Reply_Encoding =
     embed ''header'' Reply_Header @
     [(''events_ct'', CARD32), (''_unused'', Bytes 20)]"

definition TranslateCoordinates_Reply_Header :: layout where
  "TranslateCoordinates_Reply_Header =
     [(''reply'', CARD8), (''same_screen'', BOOL), (''sequence_num'', CARD16),
      (''extra_aligned_units'', CARD32)]"

definition TranslateCoordinates_Reply_Encoding :: layout where
  "TranslateCoordinates_Reply_Encoding =
     embed ''header'' TranslateCoordinates_Reply_Header @
     [(''child'', WINDOW), (''dst_x'', INT16), (''dst_y'', INT16), (''_unused'', Bytes 16)]"

definition TranslateCoordinates_Reply_child_names :: "string list" where
  "TranslateCoordinates_Reply_child_names = enum_names_zero_none"

definition GetInputFocus_Reply_Header :: layout where
  "GetInputFocus_Reply_Header =
     [(''reply'', CARD8), (''revert_to'', CARD8), (''sequence_num'', CARD16),
      (''extra_aligned_units'', CARD32)]"

definition GetInputFocus_Reply_Encoding :: layout where
  "GetInputFocus_Reply_Encoding =
     embed ''header'' GetInputFocus_Reply_Header @
     [(''focus'', WINDOW), (''_unused'', Bytes 20)]"

definition GetInputFocus_Reply_revert_to_names :: "string list" where
  "GetInputFocus_Reply_revert_to_names = enum_names_input_focus"

definition GetInputFocus_Reply_focus_names :: "string list" where
  "GetInputFocus_Reply_focus_names = enum_names_input_focus"

definition GetInputFocus_Reply_FOCUS_ENUM_MAX :: nat where
  "GetInputFocus_Reply_FOCUS_ENUM_MAX = 1"

definition QueryKeymap_Reply_Encoding :: layout where
  "QueryKeymap_Reply_Encoding =
     embed ''header'' Reply_Header @
     [(''keys'', Bytes 32)]"

definition QueryFont_Reply_Encoding :: layout where
  "QueryFont_Reply_Encoding =
     embed ''header'' Reply_Header @
     embed ''min_bounds'' CHARINFO @
     [(''_unused1'', Bytes 4)] @
     embed ''max_bounds'' CHARINFO @
     [(''_unused2'', Bytes 4), (''min_char_or_byte2'', CARD16),
      (''max_char_or_byte2'', CARD16), (''default_char'', CARD16), (''properties_ct'', CARD16),
      (''draw_direction'', CARD8), (''min_byte1'', CARD8), (''max_byte1'', CARD8),
      (''all_chars_exist'', BOOL), (''font_ascent'', INT16), (''font_descent'', INT16),
      (''char_infos_ct'', CARD32)]"

definition QueryFont_Reply_draw_direction_names :: "string list" where
  "QueryFont_Reply_draw_direction_names = enum_names_draw_direction"

definition QueryTextExtents_Reply_Header :: layout where
  "QueryTextExtents_Reply_Header =
     [(''reply'', CARD8), (''draw_direction'', CARD8), (''sequence_num'', CARD16),
      (''extra_aligned_units'', CARD32)]"

definition QueryTextExtents_Reply_Encoding :: layout where
  "QueryTextExtents_Reply_Encoding =
     embed ''header'' QueryTextExtents_Reply_Header @
     [(''font_ascent'', INT16), (''font_descent'', INT16), (''overall_ascent'', INT16),
      (''overall_descent'', INT16), (''overall_width'', INT32), (''overall_left'', INT32),
      (''overall_right'', INT32), (''_unused'', Bytes 4)]"

definition QueryTextExtents_Reply_draw_direction_names :: "string list" where
  "QueryTextExtents_Reply_draw_direction_names = enum_names_draw_direction"

definition ListFonts_Reply_Encoding :: layout where
  "ListFonts_Reply_Encoding =
     embed ''header'' Reply_Header @
     [(''names_ct'', CARD16), (''_unused'', Bytes 22)]"

definition ListFontsWithInfo_Reply_Header :: layout where
  "ListFontsWithInfo_Reply_Header =
     [(''reply'', CARD8), (''name_len'', CARD8), (''sequence_num'', CARD16),
      (''extra_aligned_units'', CARD32)]"

definition ListFontsWithInfo_Reply_Encoding :: layout where
  "ListFontsWithInfo_Reply_Encoding =
     embed ''header'' ListFontsWithInfo_Reply_Header @
     embed ''min_bounds'' CHARINFO @
     [(''_unused1'', Bytes 4)] @
     embed ''max_bounds'' CHARINFO @
     [(''_unused2'', Bytes 4), (''min_char_or_byte2'', CARD16),
      (''max_char_or_byte2'', CARD16), (''default_char'', CARD16), (''properties_ct'', CARD16),
      (''draw_direction'', CARD8), (''min_byte1'', CARD8), (''max_byte1'', CARD8),
      (''all_chars_exist'', BOOL), (''font_ascent'', INT16), (''font_descent'', INT16),
      (''replies_hint'', CARD32)]"

definition ListFontsWithInfo_Reply_LAST_REPLY :: nat where
  "ListFontsWithInfo_Reply_LAST_REPLY = 0"

definition ListFontsWithInfo_Reply_draw_direction_names :: "string list" where
  "ListFontsWithInfo_Reply_draw_direction_names = enum_names_draw_direction"

definition GetFontPath_Reply_Encoding :: layout where
  "GetFontPath_Reply_Encoding =
     embed ''header'' Reply_Header @
     [(''path_ct'', CARD16), (''_unused'', Bytes 22)]"

definition GetImage_Reply_Header :: layout where
  "GetImage_Reply_Header =
     [(''reply'', CARD8), (''depth'', CARD8), (''sequence_num'', CARD16),
      (''extra_aligned_units'', CARD32)]"

definition GetImage_Reply_Encoding :: layout where
  "GetImage_Reply_Encoding =
     embed ''header'' GetImage_Reply_Header @
     [(''visual'', VISUALID), (''_unused'', Bytes 20)]"

definition GetImage_Reply_visual_names :: "string list" where
  "GetImage_Reply_visual_names = enum_names_zero_none"

definition ListInstalledColormaps_Reply_Header :: layout where
  "ListInstalledColormaps_Reply_Header =
     [(''reply'', CARD8), (''depth'', CARD8), (''sequence_num'', CARD16),
      (''extra_aligned_units'', CARD32)]"

definition ListInstalledColormaps_Reply_Encoding :: layout where
  "ListInstalledColormaps_Reply_Encoding =
     embed ''header'' ListInstalledColormaps_Reply_Header @
     [(''cmaps_ct'', CARD16), (''_unused'', Bytes 22)]"

definition AllocColor_Reply_Encoding :: layout where
  "AllocColor_Reply_Encoding =
     embed ''header'' Reply_Header @
     [(''red'', CARD16), (''green'', CARD16), (''blue'', CARD16), (''_unused1'', Bytes 2),
      (''pixel'', CARD32), (''_unused2'', Bytes 12)]"

definition AllocNamedColor_Reply_Encoding :: layout where
  "AllocNamedColor_Reply_Encoding =
     embed ''header'' Reply_Header @
     [(''pixel'', CARD32), (''exact_red'', CARD16), (''exact_green'', CARD16),
      (''exact_blue'', CARD16), (''visual_red'', CARD16), (''visual_green'', CARD16),
      (''visual_blue'', CARD16), (''_unused'', Bytes 8)]"

definition AllocColorCells_Reply_Encoding :: layout where
  "AllocColorCells_Reply_Encoding =
     embed ''header'' Reply_Header @
     [(''pixels_ct'', CARD16), (''masks_ct'', CARD16), (''_unused'', Bytes 20)]"

definition AllocColorPlanes_Reply_Encoding :: layout where
  "AllocColorPlanes_Reply_Encoding =
     embed ''header'' Reply_Header @
     [(''pixels_ct'', CARD16), (''_unused1'', Bytes 2), (''red_mask'', CARD32),
      (''green_mask'', CARD32), (''blue_mask'', CARD32), (''_unused2'', Bytes 8)]"

definition QueryColors_Reply_Encoding :: layout where
  "QueryColors_Reply_Encoding =
     embed ''header'' Reply_Header @
     [(''colors_ct'', CARD16), (''_unused'', Bytes 22)]"

definition LookupColor_Reply_Encoding :: layout where
  "LookupColor_Reply_Encoding =
     embed ''header'' Reply_Header @
     [(''exact_red'', CARD16), (''exact_green'', CARD16), (''exact_blue'', CARD16),
      (''visual_red'', CARD16), (''visual_green'', CARD16), (''visual_blue'', CARD16),
      (''_unused'', Bytes 12)]"

definition QueryBestSize_Reply_Encoding :: layout where
  "QueryBestSize_Reply_Encoding =
     embed ''header'' Reply_Header @
     [(''width'', CARD16), (''height'', CARD16), (''_unused'', Bytes 20)]"

definition QueryExtension_Reply_Encoding :: layout where
  "QueryExtension_Reply_Encoding =
     embed ''header'' Reply_Header @
     [(''present'', BOOL), (''major_opcode'', CARD8), (''first_event'', CARD8),
      (''first_error'', CARD8), (''_unused'', Bytes 20)]"

definition ListExtensions_Reply_Header :: layout where
  "ListExtensions_Reply_Header =
     [(''reply'', CARD8), (''names_ct'', CARD8), (''sequence_num'', CARD16),
      (''extra_aligned_units'', CARD32)]"

definition ListExtensions_Reply_Encoding :: layout where
  "ListExtensions_Reply_Encoding =
     embed ''header'' ListExtensions_Reply_Header @
     [(''_unused'', Bytes 24)]"

definition GetKeyboardMapping_Reply_Header :: layout where
  "GetKeyboardMapping_Reply_Header =
     [(''reply'', CARD8), (''keysyms_per_keycode'', CARD8), (''sequence_num'', CARD16),
      (''extra_aligned_units'', CARD32)]"

definition GetKeyboardMapping_Reply_Encoding :: layout where
  "GetKeyboardMapping_Reply_Encoding =
     embed ''header'' GetKeyboardMapping_Reply_Header @
     [(''_unused'', Bytes 24)]"

definition GetKeyboardControl_Reply_Header :: layout where
  "GetKeyboardControl_Reply_Header =
     [(''reply'', CARD8), (''global_auto_repeat'', CARD8), (''sequence_num'', CARD16),
      (''extra_aligned_units'', CARD32)]"

definition GetKeyboardControl_Reply_Encoding :: layout where
  "GetKeyboardControl_Reply_Encoding =
     embed ''header'' GetKeyboardControl_Reply_Header @
     [(''led_mask'', CARD32), (''key_click_percent'', CARD8), (''bell_percent'', CARD8),
      (''bell_pitch'', CARD16), (''bell_duration'', CARD16), (''_unused'', Bytes 2),
      (''auto_repeats'', Bytes 32)]"

definition GetKeyboardControl_Reply_global_auto_repeat_names :: "string list" where
  "GetKeyboardControl_Reply_global_auto_repeat_names = enum_names_off_on"

definition GetKeyboardControl_Reply_GLOBAL_AUTO_REPEAT_ENUM_MAX :: nat where
  "GetKeyboardControl_Reply_GLOBAL_AUTO_REPEAT_ENUM_MAX = 1"

definition GetPointerControl_Reply_Encoding :: layout where
  "GetPointerControl_Reply_Encoding =
     embed ''header'' Reply_Header @
     [(''acceleration_numerator'', CARD16), (''acceleration_denominator'', CARD16),
      (''threshold'', CARD16), (''_unused'', Bytes 18)]"

definition GetScreenSaver_Reply_Encoding :: layout where
  "GetScreenSaver_Reply_Encoding =
     embed ''header'' Reply_Header @
     [(''timeout'', CARD16), (''interval'', CARD16), (''prefer_blanking'', CARD8),
      (''allow_exposures'', CARD8), (''_unused'', Bytes 18)]"

definition GetScreenSaver_Reply_prefer_blanking_names :: "string list" where
  "GetScreenSaver_Reply_prefer_blanking_names = enum_names_no_yes"

definition GetScreenSaver_Reply_PREFER_BLANKING_ENUM_MAX :: nat where
  "GetScreenSaver_Reply_PREFER_BLANKING_ENUM_MAX = 1"

definition GetScreenSaver_Reply_allow_exposures_names :: "string list" where
  "GetScreenSaver_Reply_allow_exposures_names = enum_names_no_yes"

definition GetScreenSaver_Reply_ALLOW_EXPOSURES_ENUM_MAX :: nat where
  "GetScreenSaver_Reply_ALLOW_EXPOSURES_ENUM_MAX = 1"

definition ListHosts_Reply_Header :: layout where
  "ListHosts_Reply_Header =
     [(''reply'', CARD8), (''mode'', CARD8), (''sequence_num'', CARD16),
      (''extra_aligned_units'', CARD32)]"

definition ListHosts_Reply_Encoding :: layout where
  "ListHosts_Reply_Encoding =
     embed ''header'' ListHosts_Reply_Header @
     [(''hosts_ct'', CARD16), (''_unused'', Bytes 22)]"

definition ListHosts_Reply_mode_names :: "string list" where
  "ListHosts_Reply_mode_names =
     [''Disabled'', ''Enabled'']"

definition SetPointerMapping_Reply_Header :: layout where
  "SetPointerMapping_Reply_Header =
     [(''reply'', CARD8), (''status'', CARD8), (''sequence_num'', CARD16),
      (''extra_aligned_units'', CARD32)]"

definition SetPointerMapping_Reply_Encoding :: layout where
  "SetPointerMapping_Reply_Encoding =
     embed ''header'' SetPointerMapping_Reply_Header @
     [(''_unused'', Bytes 24)]"

definition SetPointerMapping_Reply_status_names :: "string list" where
  "SetPointerMapping_Reply_status_names = enum_names_mapping_status"

definition SetPointerMapping_Reply_STATUS_ENUM_MAX :: nat where
  "SetPointerMapping_Reply_STATUS_ENUM_MAX = 1"

definition GetPointerMapping_Reply_Header :: layout where
  "GetPointerMapping_Reply_Header =
     [(''reply'', CARD8), (''map_len'', CARD8), (''sequence_num'', CARD16),
      (''extra_aligned_units'', CARD32)]"

definition GetPointerMapping_Reply_Encoding :: layout where
  "GetPointerMapping_Reply_Encoding =
     embed ''header'' GetPointerMapping_Reply_Header @
     [(''_unused'', Bytes 24)]"

definition SetModifierMapping_Reply_Header :: layout where
  "SetModifierMapping_Reply_Header =
     [(''reply'', CARD8), (''status'', CARD8), (''sequence_num'', CARD16),
      (''extra_aligned_units'', CARD32)]"

definition SetModifierMapping_Reply_Encoding :: layout where
  "SetModifierMapping_Reply_Encoding =
     embed ''header'' SetModifierMapping_Reply_Header @
     [(''_unused'', Bytes 24)]"

definition SetModifierMapping_Reply_status_names :: "string list" where
  "SetModifierMapping_Reply_status_names = enum_names_mapping_status"

definition GetModifierMapping_Reply_Header :: layout where
  "GetModifierMapping_Reply_Header =
     [(''reply'', CARD8), (''keycodes_per_modifier'', CARD8), (''sequence_num'', CARD16),
      (''extra_aligned_units'', CARD32)]"

definition GetModifierMapping_Reply_Encoding :: layout where
  "GetModifierMapping_Reply_Encoding =
     embed ''header'' GetModifierMapping_Reply_Header @
     [(''_unused'', Bytes 24)]"

definition GetModifierMapping_Reply_MODIFIER_CT :: nat where
  "GetModifierMapping_Reply_MODIFIER_CT = 8"

lemmas reply_layouts =
  Reply_Header_def Reply_Encoding_def FONTPROP_def CHARINFO_def
  GetMotionEvents_Reply_TIMECOORD_def QueryColors_Reply_RGB_def
  GetWindowAttributes_Reply_Header_def GetWindowAttributes_Reply_Encoding_def
  GetGeometry_Reply_Header_def GetGeometry_Reply_Encoding_def QueryTree_Reply_Encoding_def
  InternAtom_Reply_Encoding_def GetAtomName_Reply_Encoding_def GetProperty_Reply_Header_def
  GetProperty_Reply_Encoding_def ListProperties_Reply_Encoding_def
  GetSelectionOwner_Reply_Encoding_def GrabPointer_Reply_Header_def
  GrabPointer_Reply_Encoding_def GrabKeyboard_Reply_Header_def GrabKeyboard_Reply_Encoding_def
  QueryPointer_Reply_Header_def QueryPointer_Reply_Encoding_def
  GetMotionEvents_Reply_Encoding_def TranslateCoordinates_Reply_Header_def
  TranslateCoordinates_Reply_Encoding_def GetInputFocus_Reply_Header_def
  GetInputFocus_Reply_Encoding_def QueryKeymap_Reply_Encoding_def QueryFont_Reply_Encoding_def
  QueryTextExtents_Reply_Header_def QueryTextExtents_Reply_Encoding_def
  ListFonts_Reply_Encoding_def ListFontsWithInfo_Reply_Header_def
  ListFontsWithInfo_Reply_Encoding_def GetFontPath_Reply_Encoding_def GetImage_Reply_Header_def
  GetImage_Reply_Encoding_def ListInstalledColormaps_Reply_Header_def
  ListInstalledColormaps_Reply_Encoding_def AllocColor_Reply_Encoding_def
  AllocNamedColor_Reply_Encoding_def AllocColorCells_Reply_Encoding_def
  AllocColorPlanes_Reply_Encoding_def QueryColors_Reply_Encoding_def
  LookupColor_Reply_Encoding_def QueryBestSize_Reply_Encoding_def
  QueryExtension_Reply_Encoding_def ListExtensions_Reply_Header_def
  ListExtensions_Reply_Encoding_def GetKeyboardMapping_Reply_Header_def
  GetKeyboardMapping_Reply_Encoding_def GetKeyboardControl_Reply_Header_def
  GetKeyboardControl_Reply_Encoding_def GetPointerControl_Reply_Encoding_def
  GetScreenSaver_Reply_Encoding_def ListHosts_Reply_Header_def ListHosts_Reply_Encoding_def
  SetPointerMapping_Reply_Header_def SetPointerMapping_Reply_Encoding_def
  GetPointerMapping_Reply_Header_def GetPointerMapping_Reply_Encoding_def
  SetModifierMapping_Reply_Header_def SetModifierMapping_Reply_Encoding_def
  GetModifierMapping_Reply_Header_def GetModifierMapping_Reply_Encoding_def

lemmas reply_tables =
  GetWindowAttributes_Reply_backing_store_names_def GetWindowAttributes_Reply_class_names_def
  GetWindowAttributes_Reply_CLASS_ENUM_MIN_def GetWindowAttributes_Reply_map_state_names_def
  QueryTree_Reply_parent_names_def InternAtom_Reply_atom_names_def
  GetProperty_Reply_MAX_FORMAT_def GetProperty_Reply_FORMAT_FACTOR_def
  GetProperty_Reply_type_names_def GetSelectionOwner_Reply_owner_names_def
  GrabPointer_Reply_status_names_def GrabKeyboard_Reply_status_names_def
  QueryPointer_Reply_child_names_def TranslateCoordinates_Reply_child_names_def
  GetInputFocus_Reply_revert_to_names_def GetInputFocus_Reply_focus_names_def
  GetInputFocus_Reply_FOCUS_ENUM_MAX_def QueryFont_Reply_draw_direction_names_def
  QueryTextExtents_Reply_draw_direction_names_def ListFontsWithInfo_Reply_LAST_REPLY_def
  ListFontsWithInfo_Reply_draw_direction_names_def GetImage_Reply_visual_names_def
  GetKeyboardControl_Reply_global_auto_repeat_names_def
  GetKeyboardControl_Reply_GLOBAL_AUTO_REPEAT_ENUM_MAX_def
  GetScreenSaver_Reply_prefer_blanking_names_def
  GetScreenSaver_Reply_PREFER_BLANKING_ENUM_MAX_def
  GetScreenSaver_Reply_allow_exposures_names_def
  GetScreenSaver_Reply_ALLOW_EXPOSURES_ENUM_MAX_def ListHosts_Reply_mode_names_def
  SetPointerMapping_Reply_status_names_def SetPointerMapping_Reply_STATUS_ENUM_MAX_def
  SetModifierMapping_Reply_status_names_def GetModifierMapping_Reply_MODIFIER_CT_def

end
