(* ===== verification/ReplyCodec.thy ===== *)
theory ReplyCodec
  imports RequestCodec ReplyLayout
begin

text \<open>
  The reply parsers (\<open>X11ProtocolParser__parseReply.cpp\<close>), in the order of the file, with the
  struct overloads of \<open>X11ProtocolParser__formatVariable.cpp\<close> that only replies use. The
  replies to \<open>InternAtom\<close> and \<open>QueryExtension\<close> change the parser; the latter also
  changes the connection, and the very bytes of the message when the extension is denied.
\<close>

type_synonym reply_parser =
  "parser \<Rightarrow> connection \<Rightarrow> byte list \<Rightarrow> size_t \<Rightarrow> parsing_outputs res"

type_synonym interning_reply_parser =
  "parser \<Rightarrow> connection \<Rightarrow> byte list \<Rightarrow> size_t \<Rightarrow> (parser \<times> parsing_outputs) res"

type_synonym enabling_reply_parser =
  "parser \<Rightarrow> connection \<Rightarrow> byte list \<Rightarrow> size_t \<Rightarrow> (parser \<times> connection \<times> parsing_outputs) res"

subsection \<open>Structs of replies\<close>

definition formatCHARINFO :: "parser \<Rightarrow> bool \<Rightarrow> byte list \<Rightarrow> whitespace \<Rightarrow> string res" where
  "formatCHARINFO P bsw data ws =
     (let enc = member P bsw CHARINFO data in
      braces P ws (name_width ws ''right-side-bearing'')
        [always ''left-side-bearing'' (enc ''left_side_bearing'' no_names NOT_BITMASK),
         always ''right-side-bearing'' (enc ''right_side_bearing'' no_names NOT_BITMASK),
         always ''character-width'' (enc ''character_width'' no_names NOT_BITMASK),
         always ''ascent'' (enc ''ascent'' no_names NOT_BITMASK),
         always ''descent'' (enc ''descent'' no_names NOT_BITMASK),
         always ''attributes'' (enc ''attributes'' no_names NOT_BITMASK)])"

definition formatFONTPROP :: "parser \<Rightarrow> bool \<Rightarrow> byte list \<Rightarrow> whitespace \<Rightarrow> string res" where
  "formatFONTPROP P bsw data ws =
     (let enc = member P bsw FONTPROP data in
      braces P ws (name_width ws ''value'')
        [always ''name'' (enc ''name'' no_names NOT_BITMASK),
         always ''value'' (enc ''value'' no_names NOT_BITMASK)])"

definition formatTIMECOORD :: "parser \<Rightarrow> bool \<Rightarrow> byte list \<Rightarrow> whitespace \<Rightarrow> string res" where
  "formatTIMECOORD P bsw data ws =
     (let enc = member P bsw GetMotionEvents_Reply_TIMECOORD data in
      braces P ws (name_width ws ''time'')
        [always ''time'' (enc ''time'' no_names NOT_BITMASK),
         always ''x'' (enc ''x'' no_names NOT_BITMASK),
         always ''y'' (enc ''y'' no_names NOT_BITMASK)])"

definition formatRGB :: "parser \<Rightarrow> bool \<Rightarrow> byte list \<Rightarrow> whitespace \<Rightarrow> string res" where
  "formatRGB P bsw data ws =
     (let enc = member P bsw QueryColors_Reply_RGB data in
      braces P ws (name_width ws ''green'')
        [always ''red'' (enc ''red'' no_names NOT_BITMASK),
         always ''green'' (enc ''green'' no_names NOT_BITMASK),
         always ''blue'' (enc ''blue'' no_names NOT_BITMASK)])"

subsection \<open>Access to members\<close>

definition raw_member :: "parser \<Rightarrow> layout \<Rightarrow> byte list \<Rightarrow> string \<Rightarrow> nat res" where
  \<comment> \<open>\<open>encoding->f\<close> without \<open>_ordered\<close>\<close>
  "raw_member P L data f = map_res snd (load_member (little_endian P) L data f)"

definition member_offset :: "layout \<Rightarrow> string \<Rightarrow> nat res" where
  "member_offset L f = (case field_at L f of None \<Rightarrow> Inl No_such_field | Some (off, t) \<Rightarrow> Inr off)"

definition member_address :: "layout \<Rightarrow> string \<Rightarrow> byte list \<Rightarrow> byte list res" where
  "member_address L f data = map_res (\<lambda>off. drop off data) (member_offset L f)"

definition embedded_struct ::
  "(byte list \<Rightarrow> whitespace \<Rightarrow> string res) \<Rightarrow> layout \<Rightarrow> string \<Rightarrow> byte list \<Rightarrow> whitespace \<Rightarrow> string res"
where
  \<comment> \<open>\<open>_formatVariable( encoding->s, byteswap, ws.nested() )\<close>, given the first member of \<open>s\<close>\<close>
  "embedded_struct format L first data ws =
     and_then (nested DEFAULT ws) (\<lambda>ws'.
     and_then (member_address L first data) (\<lambda>mem. format mem ws'))"

definition extra_units_agree :: "parser \<Rightarrow> bool \<Rightarrow> layout \<Rightarrow> byte list \<Rightarrow> 32 word \<Rightarrow> bool res" where
  \<comment> \<open>the assertion on \<open>header->extra_aligned_units\<close>\<close>
  "extra_units_agree P bsw L data n =
     map_res (\<lambda>units. of_nat units = Alignment_units (ucast (n - 32)))
       (ordered_member P bsw L data ''header.extra_aligned_units'')"

subsection \<open>Stashed strings and extensions\<close>

definition ATOM_NONE :: nat where
  \<comment> \<open>\<open>atoms::NONE\<close>\<close>
  "ATOM_NONE = 0"

definition unstashString :: "32 word \<Rightarrow> 16 word \<Rightarrow> parser \<Rightarrow> (string_view \<times> parser) res" where
  "unstashString conn_id' seq_num P =
     (case stashed_strings P (conn_id', seq_num) of
        None \<Rightarrow> Inl Assertion_failure
      | Some v \<Rightarrow> Inr (v, P\<lparr>stashed_strings := (stashed_strings P)((conn_id', seq_num) := None)\<rparr>))"

text \<open>
  The characters of a view are those that are in the client's buffer when they are read. After
  the buffer has grown (its \<open>std::vector\<close> has allocated anew) they are outside of any
  allocation.
\<close>

definition read_view :: "connection \<Rightarrow> string_view \<Rightarrow> string res" where
  "read_view conn v =
     (let mem = buf (client_buffer conn) in
      if length mem = view_alloc v
      then read_text mem (length mem - view_to_end v) (view_len v)
      else Inl Out_of_bounds)"

definition poke_server_buffer :: "connection \<Rightarrow> byte list \<Rightarrow> nat \<Rightarrow> byte \<Rightarrow> connection" where
  \<comment> \<open>a byte stored at \<open>data + off\<close>, where \<open>data\<close> points into the server's buffer\<close>
  "poke_server_buffer conn data off v =
     (let b = server_buffer conn in
      conn\<lparr>server_buffer := b\<lparr>buf := (buf b)[length (buf b) - length data + off := v]\<rparr>\<rparr>)"

definition implemented_extensions :: "string list" where
  \<comment> \<open>the keys of the table \<open>_extensions\<close>\<close>
  "implemented_extensions = [big_requests_name]"

definition enableExtensionParsing :: "string \<Rightarrow> nat \<Rightarrow> parser \<Rightarrow> parser res" where
  \<comment> \<open>the one extension of the table has no events and no errors\<close>
  "enableExtensionParsing name major_opcode P =
     require (\<not> extensionDenied (settings P) name) (
     require (name \<in> set implemented_extensions) (
     Inr (P\<lparr>major_opcodes := emplace major_opcode (Some name) (major_opcodes P)\<rparr>)))"

subsection \<open>Parsers\<close>

definition parseReply_UnknownRequest :: reply_parser where
  "parseReply_UnknownRequest P conn data sz =
     (let ws = ROOT_WS P; bsw = byteswap conn; enc = member P bsw Reply_Encoding data;
          n = of_nat (sizeof Reply_Encoding) in
      require (sz \<ge> Reply_DEFAULT_ENCODING_SZ) (
      and_then (ordered_member P bsw Reply_Encoding data ''header.reply'') (\<lambda>reply.
      require (reply = REPLY_PREFIX) (
      and_then (ordered_member P bsw Reply_Encoding data ''header.extra_aligned_units'') (\<lambda>extra_aligned_units.
      let n1 = n + ucast (Alignment_size (of_nat extra_aligned_units)) in
      require (of_nat extra_aligned_units = Alignment_units (ucast (n1 - 32))) (
      map_res (\<lambda>s. \<lparr>str = s, bytes_parsed = n1\<rparr>)
        (braces P ws (name_width ws (if \<not> verbose (settings P) then ''(unparseable suffix)'' else ''(extra aligned units)''))
          ([verbose_only ''reply'' (enc ''header.reply'' no_names NOT_BITMASK),
            verbose_only ''(sequence number)'' (enc ''header.sequence_num'' no_names NOT_BITMASK),
            verbose_only ''(extra aligned units)'' (enc ''header.extra_aligned_units'' no_names NOT_BITMASK),
            always ''(unparseable suffix)'' (Inr (''('' @ fmt_dec (fmtl P) (int (unat (Alignment_size (of_nat extra_aligned_units)))) @ '' bytes)''))]))))))))"

definition parseReply_GetWindowAttributes :: reply_parser where
  "parseReply_GetWindowAttributes P conn data sz =
     (let ws = ROOT_WS P; bsw = byteswap conn; enc = member P bsw GetWindowAttributes_Reply_Encoding data;
          n = of_nat (sizeof GetWindowAttributes_Reply_Encoding) in
      require (sz \<ge> Reply_DEFAULT_ENCODING_SZ) (
      and_then (ordered_member P bsw GetWindowAttributes_Reply_Encoding data ''header.reply'') (\<lambda>reply.
      require (reply = REPLY_PREFIX) (
      and_then (extra_units_agree P bsw GetWindowAttributes_Reply_Encoding data n) (\<lambda>units_agree.
      require units_agree (
      map_res (\<lambda>s. \<lparr>str = s, bytes_parsed = n\<rparr>)
        (braces P ws (name_width ws (if verbose (settings P) then ''(extra aligned units)'' else ''do-not-propagate-mask''))
          ([verbose_only ''reply'' (enc ''header.reply'' no_names NOT_BITMASK),
            always ''backing-store'' (enc ''header.backing_store'' (range_all GetWindowAttributes_Reply_backing_store_names) NOT_BITMASK),
            verbose_only ''(sequence number)'' (enc ''header.sequence_num'' no_names NOT_BITMASK),
            verbose_only ''(extra aligned units)'' (enc ''header.extra_aligned_units'' no_names NOT_BITMASK),
            always ''visual'' (enc ''visual'' no_names NOT_BITMASK),
            always ''class'' (enc ''class_'' (range_bound GetWindowAttributes_Reply_class_names Bound_MIN GetWindowAttributes_Reply_CLASS_ENUM_MIN) NOT_BITMASK),
            always ''bit-gravity'' (enc ''bit_gravity'' no_names NOT_BITMASK),
            always ''win-gravity'' (enc ''win_gravity'' no_names NOT_BITMASK),
            always ''backing-planes'' (enc ''backing_planes'' no_names NOT_BITMASK),
            always ''backing-pixel'' (enc ''backing_pixel'' no_names NOT_BITMASK),
            always ''save-under'' (enc ''save_under'' no_names NOT_BITMASK),
            always ''map-is-installed'' (enc ''map_is_installed'' no_names NOT_BITMASK),
            always ''map-state'' (enc ''map_state'' (range_all GetWindowAttributes_Reply_map_state_names) NOT_BITMASK),
            always ''override-redirect'' (enc ''override_redirect'' no_names NOT_BITMASK),
            always ''all-event-masks'' (enc ''all_event_masks'' no_names NOT_BITMASK),
            always ''your-event-mask'' (enc ''your_event_mask'' no_names NOT_BITMASK),
            always ''do-not-propagate-mask'' (enc ''do_not_propagate_mask'' no_names NOT_BITMASK)]))))))))"

definition parseReply_GetGeometry :: reply_parser where
  "parseReply_GetGeometry P conn data sz =
     (let ws = ROOT_WS P; bsw = byteswap conn; enc = member P bsw GetGeometry_Reply_Encoding data;
          n = of_nat (sizeof GetGeometry_Reply_Encoding) in
      require (sz \<ge> Reply_DEFAULT_ENCODING_SZ) (
      and_then (ordered_member P bsw GetGeometry_Reply_Encoding data ''header.reply'') (\<lambda>reply.
      require (reply = REPLY_PREFIX) (
      and_then (extra_units_agree P bsw GetGeometry_Reply_Encoding data n) (\<lambda>units_agree.
      require units_agree (
      map_res (\<lambda>s. \<lparr>str = s, bytes_parsed = n\<rparr>)
        (braces P ws (name_width ws (if verbose (settings P) then ''(extra aligned units)'' else ''border-width''))
          ([verbose_only ''reply'' (enc ''header.reply'' no_names NOT_BITMASK),
            always ''depth'' (enc ''header.depth'' no_names NOT_BITMASK),
            verbose_only ''(sequence number)'' (enc ''header.sequence_num'' no_names NOT_BITMASK),
            verbose_only ''(extra aligned units)'' (enc ''header.extra_aligned_units'' no_names NOT_BITMASK),
            always ''root'' (enc ''root'' no_names NOT_BITMASK),
            always ''x'' (enc ''x'' no_names NOT_BITMASK),
            always ''y'' (enc ''y'' no_names NOT_BITMASK),
            always ''width'' (enc ''width'' no_names NOT_BITMASK),
            always ''height'' (enc ''height'' no_names NOT_BITMASK),
            always ''border-width'' (enc ''border_width'' no_names NOT_BITMASK)]))))))))"

definition parseReply_QueryTree :: reply_parser where
  "parseReply_QueryTree P conn data sz =
     (let ws = ROOT_WS P; bsw = byteswap conn; enc = member P bsw QueryTree_Reply_Encoding data;
          n = of_nat (sizeof QueryTree_Reply_Encoding) in
      require (sz \<ge> Reply_DEFAULT_ENCODING_SZ) (
      and_then (ordered_member P bsw QueryTree_Reply_Encoding data ''header.reply'') (\<lambda>reply.
      require (reply = REPLY_PREFIX) (
      and_then (ordered_member P bsw QueryTree_Reply_Encoding data ''children_ct'') (\<lambda>children_ct.
      and_then (nested DEFAULT ws) (\<lambda>children_ws.
      and_then (parseLISTof_int P WINDOW (drop (unat n) data) (sz - ucast n) (of_nat children_ct) bsw children_ws no_names NOT_BITMASK) (\<lambda>children.
      let n1 = n + bytes_parsed children in
      and_then (extra_units_agree P bsw QueryTree_Reply_Encoding data n1) (\<lambda>units_agree.
      require units_agree (
      map_res (\<lambda>s. \<lparr>str = s, bytes_parsed = n1\<rparr>)
        (braces P ws (name_width ws (if verbose (settings P) then ''(extra aligned units)'' else ''children''))
          ([verbose_only ''reply'' (enc ''header.reply'' no_names NOT_BITMASK),
            verbose_only ''(sequence number)'' (enc ''header.sequence_num'' no_names NOT_BITMASK),
            verbose_only ''(extra aligned units)'' (enc ''header.extra_aligned_units'' no_names NOT_BITMASK),
            always ''root'' (enc ''root'' no_names NOT_BITMASK),
            always ''parent'' (enc ''parent'' (range_all QueryTree_Reply_parent_names) NOT_BITMASK),
            verbose_only ''(WINDOWs in children)'' (enc ''children_ct'' no_names NOT_BITMASK),
            always ''children'' (Inr (str children))])))))))))))"

definition parseReply_InternAtom :: interning_reply_parser where
  "parseReply_InternAtom P conn data sz =
     (let ws = ROOT_WS P; bsw = byteswap conn; enc = member P bsw InternAtom_Reply_Encoding data;
          n = of_nat (sizeof InternAtom_Reply_Encoding) in
      require (sz \<ge> Reply_DEFAULT_ENCODING_SZ) (
      and_then (ordered_member P bsw InternAtom_Reply_Encoding data ''header.reply'') (\<lambda>reply.
      require (reply = REPLY_PREFIX) (
      and_then (extra_units_agree P bsw InternAtom_Reply_Encoding data n) (\<lambda>units_agree.
      require units_agree (
      and_then (ordered_member P bsw InternAtom_Reply_Encoding data ''atom'') (\<lambda>atom.
      and_then
        (if atom = ATOM_NONE then Inr P
         else and_then (ordered_member P bsw InternAtom_Reply_Encoding data ''header.sequence_num'') (\<lambda>sequence_num.
              and_then (unstashString (conn_id conn) (of_nat sequence_num) P) (\<lambda>(atom_str, P1).
              map_res (\<lambda>s. P1\<lparr>interned_atoms := (interned_atoms P1)(atom \<mapsto> s)\<rparr>)
                (read_view conn atom_str)))) (\<lambda>P'.
      map_res (\<lambda>s. (P', \<lparr>str = s, bytes_parsed = n\<rparr>))
        (braces P ws (name_width ws (if verbose (settings P) then ''(extra aligned units)'' else ''atom''))
          ([verbose_only ''reply'' (enc ''header.reply'' no_names NOT_BITMASK),
            verbose_only ''(sequence number)'' (enc ''header.sequence_num'' no_names NOT_BITMASK),
            verbose_only ''(extra aligned units)'' (enc ''header.extra_aligned_units'' no_names NOT_BITMASK),
            always ''atom'' (enc ''atom'' (range_all InternAtom_Reply_atom_names) NOT_BITMASK)]))))))))))"

definition parseReply_GetAtomName :: reply_parser where
  "parseReply_GetAtomName P conn data sz =
     (let ws = ROOT_WS P; bsw = byteswap conn; enc = member P bsw GetAtomName_Reply_Encoding data;
          n = of_nat (sizeof GetAtomName_Reply_Encoding) in
      require (sz \<ge> Reply_DEFAULT_ENCODING_SZ) (
      and_then (ordered_member P bsw GetAtomName_Reply_Encoding data ''header.reply'') (\<lambda>reply.
      require (reply = REPLY_PREFIX) (
      and_then (ordered_member P bsw GetAtomName_Reply_Encoding data ''name_len'') (\<lambda>name_len.
      let name = read_text data (unat n) name_len in
      let n1 = n + ucast (Alignment_pad (of_nat name_len)) in
      and_then (extra_units_agree P bsw GetAtomName_Reply_Encoding data n1) (\<lambda>units_agree.
      require units_agree (
      map_res (\<lambda>s. \<lparr>str = s, bytes_parsed = n1\<rparr>)
        (braces P ws (name_width ws (if verbose (settings P) then ''(extra aligned units)'' else ''name''))
          ([verbose_only ''reply'' (enc ''header.reply'' no_names NOT_BITMASK),
            verbose_only ''(sequence number)'' (enc ''header.sequence_num'' no_names NOT_BITMASK),
            verbose_only ''(extra aligned units)'' (enc ''header.extra_aligned_units'' no_names NOT_BITMASK),
            verbose_only ''(name length)'' (enc ''name_len'' no_names NOT_BITMASK),
            always ''name'' (map_res (fmt_debug (fmtl P)) name)])))))))))"

definition parseReply_GetProperty :: reply_parser where
  "parseReply_GetProperty P conn data sz =
     (let ws = ROOT_WS P; bsw = byteswap conn; enc = member P bsw GetProperty_Reply_Encoding data;
          n = of_nat (sizeof GetProperty_Reply_Encoding) in
      require (sz \<ge> Reply_DEFAULT_ENCODING_SZ) (
      and_then (ordered_member P bsw GetProperty_Reply_Encoding data ''header.reply'') (\<lambda>reply.
      require (reply = REPLY_PREFIX) (
      and_then (ordered_member P bsw GetProperty_Reply_Encoding data ''header.format'') (\<lambda>format.
      require (format \<le> GetProperty_Reply_MAX_FORMAT \<and> format mod GetProperty_Reply_FORMAT_FACTOR = 0) (
      and_then (ordered_member P bsw GetProperty_Reply_Encoding data ''value_fmt_unit_len'') (\<lambda>value_fmt_unit_len.
      let value_sz = (of_nat (value_fmt_unit_len * (format div GetProperty_Reply_FORMAT_FACTOR)) :: 32 word) in
      and_then (ordered_member P bsw GetProperty_Reply_Encoding data ''type'') (\<lambda>type_data.
      and_then
        (if type_data = ATOM_STRING
         then map_res (\<lambda>s. \<lparr>str = fmt_debug (fmtl P) s, bytes_parsed = value_sz\<rparr>)
                (read_text data (unat n) (unat value_sz))
         else and_then (nested FORCE_SINGLELINE ws) (\<lambda>value_ws.
              parseLISTof_int P CARD8 (drop (unat n) data) (sz - ucast n) (ucast value_sz) bsw value_ws
                no_names NOT_BITMASK)) (\<lambda>value'.
      let n1 = n + ucast (Alignment_pad (ucast (bytes_parsed value'))) in
      and_then (extra_units_agree P bsw GetProperty_Reply_Encoding data n1) (\<lambda>units_agree.
      require units_agree (
      map_res (\<lambda>s. \<lparr>str = s, bytes_parsed = n1\<rparr>)
        (braces P ws (name_width ws (if verbose (settings P) then ''(value length (format units))'' else ''bytes-after''))
          ([verbose_only ''reply'' (enc ''header.reply'' no_names NOT_BITMASK),
            always ''format'' (enc ''header.format'' no_names NOT_BITMASK),
            verbose_only ''(sequence number)'' (enc ''header.sequence_num'' no_names NOT_BITMASK),
            verbose_only ''(extra aligned units)'' (enc ''header.extra_aligned_units'' no_names NOT_BITMASK),
            always ''type'' (enc ''type'' (range_all GetProperty_Reply_type_names) NOT_BITMASK),
            always ''bytes-after'' (enc ''bytes_after'' no_names NOT_BITMASK),
            verbose_only ''(value length (format units))'' (enc ''value_fmt_unit_len'' no_names NOT_BITMASK),
            always ''value'' (Inr (str value'))])))))))))))))"

definition parseReply_ListProperties :: reply_parser where
  "parseReply_ListProperties P conn data sz =
     (let ws = ROOT_WS P; bsw = byteswap conn; enc = member P bsw ListProperties_Reply_Encoding data;
          n = of_nat (sizeof ListProperties_Reply_Encoding) in
      require (sz \<ge> Reply_DEFAULT_ENCODING_SZ) (
      and_then (ordered_member P bsw ListProperties_Reply_Encoding data ''header.reply'') (\<lambda>reply.
      require (reply = REPLY_PREFIX) (
      and_then (raw_member P ListProperties_Reply_Encoding data ''atoms_ct'') (\<lambda>atoms_ct.
      and_then (nested DEFAULT ws) (\<lambda>atoms_ws.
      and_then (parseLISTof_int P ATOM (drop (unat n) data) (sz - ucast n) (of_nat atoms_ct) bsw atoms_ws no_names NOT_BITMASK) (\<lambda>atoms.
      let n1 = n + ucast (Alignment_pad (ucast (bytes_parsed atoms))) in
      and_then (extra_units_agree P bsw ListProperties_Reply_Encoding data n1) (\<lambda>units_agree.
      require units_agree (
      map_res (\<lambda>s. \<lparr>str = s, bytes_parsed = n1\<rparr>)
        (braces P ws (name_width ws (if verbose (settings P) then ''(extra aligned units)'' else ''atoms''))
          ([verbose_only ''reply'' (enc ''header.reply'' no_names NOT_BITMASK),
            verbose_only ''(sequence number)'' (enc ''header.sequence_num'' no_names NOT_BITMASK),
            verbose_only ''(extra aligned units)'' (enc ''header.extra_aligned_units'' no_names NOT_BITMASK),
            verbose_only ''(ATOMs in atoms)'' (enc ''atoms_ct'' no_names NOT_BITMASK),
            always ''atoms'' (Inr (str atoms))])))))))))))"

definition parseReply_GetSelectionOwner :: reply_parser where
  "parseReply_GetSelectionOwner P conn data sz =
     (let ws = ROOT_WS P; bsw = byteswap conn; enc = member P bsw GetSelectionOwner_Reply_Encoding data;
          n = of_nat (sizeof GetSelectionOwner_Reply_Encoding) in
      require (sz \<ge> Reply_DEFAULT_ENCODING_SZ) (
      and_then (ordered_member P bsw GetSelectionOwner_Reply_Encoding data ''header.reply'') (\<lambda>reply.
      require (reply = REPLY_PREFIX) (
      and_then (extra_units_agree P bsw GetSelectionOwner_Reply_Encoding data n) (\<lambda>units_agree.
      require units_agree (
      map_res (\<lambda>s. \<lparr>str = s, bytes_parsed = n\<rparr>)
        (braces P ws (name_width ws (if verbose (settings P) then ''(extra aligned units)'' else ''owner''))
          ([verbose_only ''reply'' (enc ''header.reply'' no_names NOT_BITMASK),
            verbose_only ''(sequence number)'' (enc ''header.sequence_num'' no_names NOT_BITMASK),
            verbose_only ''(extra aligned units)'' (enc ''header.extra_aligned_units'' no_names NOT_BITMASK),
            always ''owner'' (enc ''owner'' (range_all GetSelectionOwner_Reply_owner_names) NOT_BITMASK)]))))))))"

definition parseReply_GrabPointer :: reply_parser where
  "parseReply_GrabPointer P conn data sz =
     (let ws = ROOT_WS P; bsw = byteswap conn; enc = member P bsw GrabPointer_Reply_Encoding data;
          n = of_nat (sizeof GrabPointer_Reply_Encoding) in
      require (sz \<ge> Reply_DEFAULT_ENCODING_SZ) (
      and_then (ordered_member P bsw GrabPointer_Reply_Encoding data ''header.reply'') (\<lambda>reply.
      require (reply = REPLY_PREFIX) (
      and_then (extra_units_agree P bsw GrabPointer_Reply_Encoding data n) (\<lambda>units_agree.
      require units_agree (
      map_res (\<lambda>s. \<lparr>str = s, bytes_parsed = n\<rparr>)
        (braces P ws (name_width ws (if verbose (settings P) then ''(extra aligned units)'' else ''status''))
          ([verbose_only ''reply'' (enc ''header.reply'' no_names NOT_BITMASK),
            always ''status'' (enc ''header.status'' (range_all GrabPointer_Reply_status_names) NOT_BITMASK),
            verbose_only ''(sequence number)'' (enc ''header.sequence_num'' no_names NOT_BITMASK),
            verbose_only ''(extra aligned units)'' (enc ''header.extra_aligned_units'' no_names NOT_BITMASK)]))))))))"

definition parseReply_GrabKeyboard :: reply_parser where
  "parseReply_GrabKeyboard P conn data sz =
     (let ws = ROOT_WS P; bsw = byteswap conn; enc = member P bsw GrabKeyboard_Reply_Encoding data;
          n = of_nat (sizeof GrabKeyboard_Reply_Encoding) in
      require (sz \<ge> Reply_DEFAULT_ENCODING_SZ) (
      and_then (ordered_member P bsw GrabKeyboard_Reply_Encoding data ''header.reply'') (\<lambda>reply.
      require (reply = REPLY_PREFIX) (
      and_then (extra_units_agree P bsw GrabKeyboard_Reply_Encoding data n) (\<lambda>units_agree.
      require units_agree (
      map_res (\<lambda>s. \<lparr>str = s, bytes_parsed = n\<rparr>)
        (braces P ws (name_width ws (if verbose (settings P) then ''(extra aligned units)'' else ''status''))
          ([verbose_only ''reply'' (enc ''header.reply'' no_names NOT_BITMASK),
            always ''status'' (enc ''header.status'' (range_all GrabKeyboard_Reply_status_names) NOT_BITMASK),
            verbose_only ''(sequence number)'' (enc ''header.sequence_num'' no_names NOT_BITMASK),
            verbose_only ''(extra aligned units)'' (enc ''header.extra_aligned_units'' no_names NOT_BITMASK)]))))))))"

definition parseReply_QueryPointer :: reply_parser where
  "parseReply_QueryPointer P conn data sz =
     (let ws = ROOT_WS P; bsw = byteswap conn; enc = member P bsw QueryPointer_Reply_Encoding data;
          n = of_nat (sizeof QueryPointer_Reply_Encoding) in
      require (sz \<ge> Reply_DEFAULT_ENCODING_SZ) (
      and_then (ordered_member P bsw QueryPointer_Reply_Encoding data ''header.reply'') (\<lambda>reply.
      require (reply = REPLY_PREFIX) (
      and_then (extra_units_agree P bsw QueryPointer_Reply_Encoding data n) (\<lambda>units_agree.
      require units_agree (
      map_res (\<lambda>s. \<lparr>str = s, bytes_parsed = n\<rparr>)
        (braces P ws (name_width ws (if verbose (settings P) then ''(extra aligned units)'' else ''same-screen''))
          ([verbose_only ''reply'' (enc ''header.reply'' no_names NOT_BITMASK),
            always ''same-screen'' (enc ''header.same_screen'' no_names NOT_BITMASK),
            verbose_only ''(sequence number)'' (enc ''header.sequence_num'' no_names NOT_BITMASK),
            verbose_only ''(extra aligned units)'' (enc ''header.extra_aligned_units'' no_names NOT_BITMASK),
            always ''root'' (enc ''root'' no_names NOT_BITMASK),
            always ''child'' (enc ''child'' (range_all QueryPointer_Reply_child_names) NOT_BITMASK),
            always ''root-x'' (enc ''root_x'' no_names NOT_BITMASK),
            always ''root-y'' (enc ''root_y'' no_names NOT_BITMASK),
            always ''win-x'' (enc ''win_x'' no_names NOT_BITMASK),
            always ''win-y'' (enc ''win_y'' no_names NOT_BITMASK),
            always ''mask'' (enc ''mask'' no_names NOT_BITMASK)]))))))))"

definition parseReply_GetMotionEvents :: reply_parser where
  "parseReply_GetMotionEvents P conn data sz =
     (let ws = ROOT_WS P; bsw = byteswap conn; enc = member P bsw GetMotionEvents_Reply_Encoding data;
          n = of_nat (sizeof GetMotionEvents_Reply_Encoding) in
      require (sz \<ge> Reply_DEFAULT_ENCODING_SZ) (
      and_then (ordered_member P bsw GetMotionEvents_Reply_Encoding data ''header.reply'') (\<lambda>reply.
      require (reply = REPLY_PREFIX) (
      and_then (raw_member P GetMotionEvents_Reply_Encoding data ''events_ct'') (\<lambda>events_ct.
      and_then (nested DEFAULT ws) (\<lambda>events_ws.
      and_then (parseLISTof_struct (parseListMember_struct GetMotionEvents_Reply_TIMECOORD (formatTIMECOORD P bsw)) (drop (unat n) data) (sz - ucast n) (of_nat events_ct) events_ws FORCE_SINGLELINE) (\<lambda>events.
      let n1 = n + bytes_parsed events in
      and_then (extra_units_agree P bsw GetMotionEvents_Reply_Encoding data n1) (\<lambda>units_agree.
      require units_agree (
      map_res (\<lambda>s. \<lparr>str = s, bytes_parsed = n1\<rparr>)
        (braces P ws (name_width ws (if verbose (settings P) then ''(TIMECOORDs in events)'' else ''events''))
          ([verbose_only ''reply'' (enc ''header.reply'' no_names NOT_BITMASK),
            verbose_only ''(sequence number)'' (enc ''header.sequence_num'' no_names NOT_BITMASK),
            verbose_only ''(extra aligned units)'' (enc ''header.extra_aligned_units'' no_names NOT_BITMASK),
            verbose_only ''(TIMECOORDs in events)'' (enc ''events_ct'' no_names NOT_BITMASK),
            always ''events'' (Inr (str events))])))))))))))"

definition parseReply_TranslateCoordinates :: reply_parser where
  "parseReply_TranslateCoordinates P conn data sz =
     (let ws = ROOT_WS P; bsw = byteswap conn; enc = member P bsw TranslateCoordinates_Reply_Encoding data;
          n = of_nat (sizeof TranslateCoordinates_Reply_Encoding) in
      require (sz \<ge> Reply_DEFAULT_ENCODING_SZ) (
      and_then (ordered_member P bsw TranslateCoordinates_Reply_Encoding data ''header.reply'') (\<lambda>reply.
      require (reply = REPLY_PREFIX) (
      and_then (extra_units_agree P bsw TranslateCoordinates_Reply_Encoding data n) (\<lambda>units_agree.
      require units_agree (
      map_res (\<lambda>s. \<lparr>str = s, bytes_parsed = n\<rparr>)
        (braces P ws (name_width ws (if verbose (settings P) then ''(extra aligned units)'' else ''same-screen''))
          ([verbose_only ''reply'' (enc ''header.reply'' no_names NOT_BITMASK),
            always ''same-screen'' (enc ''header.same_screen'' no_names NOT_BITMASK),
            verbose_only ''(sequence number)'' (enc ''header.sequence_num'' no_names NOT_BITMASK),
            verbose_only ''(extra aligned units)'' (enc ''header.extra_aligned_units'' no_names NOT_BITMASK),
            always ''child'' (enc ''child'' (range_all TranslateCoordinates_Reply_child_names) NOT_BITMASK),
            always ''dst-x'' (enc ''dst_x'' no_names NOT_BITMASK),
            always ''dst-y'' (enc ''dst_y'' no_names NOT_BITMASK)]))))))))"

definition parseReply_GetInputFocus :: reply_parser where
  "parseReply_GetInputFocus P conn data sz =
     (let ws = ROOT_WS P; bsw = byteswap conn; enc = member P bsw GetInputFocus_Reply_Encoding data;
          n = of_nat (sizeof GetInputFocus_Reply_Encoding) in
      require (sz \<ge> Reply_DEFAULT_ENCODING_SZ) (
      and_then (ordered_member P bsw GetInputFocus_Reply_Encoding data ''header.reply'') (\<lambda>reply.
      require (reply = REPLY_PREFIX) (
      and_then (extra_units_agree P bsw GetInputFocus_Reply_Encoding data n) (\<lambda>units_agree.
      require units_agree (
      map_res (\<lambda>s. \<lparr>str = s, bytes_parsed = n\<rparr>)
        (braces P ws (name_width ws (if verbose (settings P) then ''(extra aligned units)'' else ''revert-to''))
          ([verbose_only ''reply'' (enc ''header.reply'' no_names NOT_BITMASK),
            always ''revert-to'' (enc ''header.revert_to'' (range_all GetInputFocus_Reply_revert_to_names) NOT_BITMASK),
            verbose_only ''(sequence number)'' (enc ''header.sequence_num'' no_names NOT_BITMASK),
            verbose_only ''(extra aligned units)'' (enc ''header.extra_aligned_units'' no_names NOT_BITMASK),
            always ''focus'' (enc ''focus'' (range_bound GetInputFocus_Reply_focus_names Bound_MAX GetInputFocus_Reply_FOCUS_ENUM_MAX) NOT_BITMASK)]))))))))"

definition parseReply_QueryKeymap :: reply_parser where
  "parseReply_QueryKeymap P conn data sz =
     (let ws = ROOT_WS P; bsw = byteswap conn; enc = member P bsw QueryKeymap_Reply_Encoding data;
          n = of_nat (sizeof QueryKeymap_Reply_Encoding) in
      require (sz \<ge> Reply_DEFAULT_ENCODING_SZ) (
      and_then (ordered_member P bsw QueryKeymap_Reply_Encoding data ''header.reply'') (\<lambda>reply.
      require (reply = REPLY_PREFIX) (
      and_then (extra_units_agree P bsw QueryKeymap_Reply_Encoding data n) (\<lambda>units_agree.
      require units_agree (
      and_then (member_address QueryKeymap_Reply_Encoding ''keys'' data) (\<lambda>keys_at.
      and_then (nested FORCE_SINGLELINE ws) (\<lambda>keys_ws.
      and_then (parseLISTof_int P CARD8 keys_at 32 32 bsw keys_ws no_names NOT_BITMASK) (\<lambda>keys.
      map_res (\<lambda>s. \<lparr>str = s, bytes_parsed = n\<rparr>)
        (braces P ws (name_width ws (if verbose (settings P) then ''(extra aligned units)'' else ''keys''))
          ([verbose_only ''reply'' (enc ''header.reply'' no_names NOT_BITMASK),
            verbose_only ''(sequence number)'' (enc ''header.sequence_num'' no_names NOT_BITMASK),
            verbose_only ''(extra aligned units)'' (enc ''header.extra_aligned_units'' no_names NOT_BITMASK),
            always ''keys'' (Inr (str keys))])))))))))))"

definition parseReply_QueryFont :: reply_parser where
  "parseReply_QueryFont P conn data sz =
     (let ws = ROOT_WS P; bsw = byteswap conn; enc = member P bsw QueryFont_Reply_Encoding data;
          n = of_nat (sizeof QueryFont_Reply_Encoding) in
      require (sz \<ge> Reply_DEFAULT_ENCODING_SZ) (
      and_then (ordered_member P bsw QueryFont_Reply_Encoding data ''header.reply'') (\<lambda>reply.
      require (reply = REPLY_PREFIX) (
      and_then (ordered_member P bsw QueryFont_Reply_Encoding data ''properties_ct'') (\<lambda>properties_ct.
      and_then (nested DEFAULT ws) (\<lambda>properties_ws.
      and_then (parseLISTof_struct (parseListMember_struct FONTPROP (formatFONTPROP P bsw)) (drop (unat n) data) (sz - ucast n) (of_nat properties_ct) properties_ws FORCE_SINGLELINE) (\<lambda>properties.
      let n1 = n + bytes_parsed properties in
      and_then (ordered_member P bsw QueryFont_Reply_Encoding data ''char_infos_ct'') (\<lambda>char_infos_ct.
      and_then (nested DEFAULT ws) (\<lambda>char_infos_ws.
      and_then (parseLISTof_struct (parseListMember_struct CHARINFO (formatCHARINFO P bsw)) (drop (unat n1) data) (sz - ucast n1) (of_nat char_infos_ct) char_infos_ws FORCE_SINGLELINE) (\<lambda>char_infos.
      let n2 = n1 + bytes_parsed char_infos in
      and_then (extra_units_agree P bsw QueryFont_Reply_Encoding data n2) (\<lambda>units_agree.
      require units_agree (
      map_res (\<lambda>s. \<lparr>str = s, bytes_parsed = n2\<rparr>)
        (braces P ws (name_width ws (if verbose (settings P) then ''(FONTPROPs in properties)'' else ''min-char-or-byte2''))
          ([verbose_only ''reply'' (enc ''header.reply'' no_names NOT_BITMASK),
            verbose_only ''(sequence number)'' (enc ''header.sequence_num'' no_names NOT_BITMASK),
            verbose_only ''(extra aligned units)'' (enc ''header.extra_aligned_units'' no_names NOT_BITMASK),
            always ''min-bounds'' (embedded_struct (formatCHARINFO P bsw) QueryFont_Reply_Encoding ''min_bounds.left_side_bearing'' data ws),
            always ''max-bounds'' (embedded_struct (formatCHARINFO P bsw) QueryFont_Reply_Encoding ''max_bounds.left_side_bearing'' data ws),
            always ''min-char-or-byte2'' (enc ''min_char_or_byte2'' no_names NOT_BITMASK),
            always ''max-char-or-byte2'' (enc ''max_char_or_byte2'' no_names NOT_BITMASK),
            always ''default-char'' (enc ''default_char'' no_names NOT_BITMASK),
            verbose_only ''(FONTPROPs in properties)'' (enc ''properties_ct'' no_names NOT_BITMASK),
            always ''draw-direction'' (enc ''draw_direction'' (range_all QueryFont_Reply_draw_direction_names) NOT_BITMASK),
            always ''min-byte1'' (enc ''min_byte1'' no_names NOT_BITMASK),
            always ''max-byte1'' (enc ''max_byte1'' no_names NOT_BITMASK),
            always ''all-chars-exist'' (enc ''all_chars_exist'' no_names NOT_BITMASK),
            always ''font-ascent'' (enc ''font_ascent'' no_names NOT_BITMASK),
            always ''font-descent'' (enc ''font_descent'' no_names NOT_BITMASK),
            verbose_only ''(CHARINFOs in char-infos)'' (enc ''char_infos_ct'' no_names NOT_BITMASK),
            always ''properties'' (Inr (str properties)),
            always ''char-infos'' (Inr (str char_infos))]))))))))))))))"

definition parseReply_QueryTextExtents :: reply_parser where
  "parseReply_QueryTextExtents P conn data sz =
     (let ws = ROOT_WS P; bsw = byteswap conn; enc = member P bsw QueryTextExtents_Reply_Encoding data;
          n = of_nat (sizeof QueryTextExtents_Reply_Encoding) in
      require (sz \<ge> Reply_DEFAULT_ENCODING_SZ) (
      and_then (ordered_member P bsw QueryTextExtents_Reply_Encoding data ''header.reply'') (\<lambda>reply.
      require (reply = REPLY_PREFIX) (
      and_then (extra_units_agree P bsw QueryTextExtents_Reply_Encoding data n) (\<lambda>units_agree.
      require units_agree (
      map_res (\<lambda>s. \<lparr>str = s, bytes_parsed = n\<rparr>)
        (braces P ws (name_width ws (if verbose (settings P) then ''(extra aligned units)'' else ''overall-descent''))
          ([verbose_only ''reply'' (enc ''header.reply'' no_names NOT_BITMASK),
            always ''draw-direction'' (enc ''header.draw_direction'' (range_all QueryTextExtents_Reply_draw_direction_names) NOT_BITMASK),
            verbose_only ''(sequence number)'' (enc ''header.sequence_num'' no_names NOT_BITMASK),
            verbose_only ''(extra aligned units)'' (enc ''header.extra_aligned_units'' no_names NOT_BITMASK),
            always ''font-ascent'' (enc ''font_ascent'' no_names NOT_BITMASK),
            always ''font-descent'' (enc ''font_descent'' no_names NOT_BITMASK),
            always ''overall-ascent'' (enc ''overall_ascent'' no_names NOT_BITMASK),
            always ''overall-descent'' (enc ''overall_descent'' no_names NOT_BITMASK),
            always ''overall-width'' (enc ''overall_width'' no_names NOT_BITMASK),
            always ''overall-left'' (enc ''overall_left'' no_names NOT_BITMASK),
            always ''overall-right'' (enc ''overall_right'' no_names NOT_BITMASK)]))))))))"

definition parseReply_ListFonts :: reply_parser where
  "parseReply_ListFonts P conn data sz =
     (let ws = ROOT_WS P; bsw = byteswap conn; enc = member P bsw ListFonts_Reply_Encoding data;
          n = of_nat (sizeof ListFonts_Reply_Encoding) in
      require (sz \<ge> Reply_DEFAULT_ENCODING_SZ) (
      and_then (ordered_member P bsw ListFonts_Reply_Encoding data ''header.reply'') (\<lambda>reply.
      require (reply = REPLY_PREFIX) (
      and_then (ordered_member P bsw ListFonts_Reply_Encoding data ''names_ct'') (\<lambda>names_ct.
      and_then (nested DEFAULT ws) (\<lambda>names_ws.
      and_then (parseLISTof_struct (parseListMember_STR P bsw) (drop (unat n) data) (sz - ucast n) (of_nat names_ct) names_ws FORCE_SINGLELINE) (\<lambda>names'.
      let n1 = n + ucast (Alignment_pad (ucast (bytes_parsed names'))) in
      and_then (extra_units_agree P bsw ListFonts_Reply_Encoding data n1) (\<lambda>units_agree.
      require units_agree (
      map_res (\<lambda>s. \<lparr>str = s, bytes_parsed = n1\<rparr>)
        (braces P ws (name_width ws (if verbose (settings P) then ''(extra aligned units)'' else ''names''))
          ([verbose_only ''reply'' (enc ''header.reply'' no_names NOT_BITMASK),
            verbose_only ''(sequence number)'' (enc ''header.sequence_num'' no_names NOT_BITMASK),
            verbose_only ''(extra aligned units)'' (enc ''header.extra_aligned_units'' no_names NOT_BITMASK),
            verbose_only ''(STRs in names)'' (enc ''names_ct'' no_names NOT_BITMASK),
            always ''names'' (Inr (str names'))])))))))))))"

definition parseReply_ListFontsWithInfo :: reply_parser where
  "parseReply_ListFontsWithInfo P conn data sz =
     (let ws = ROOT_WS P; bsw = byteswap conn; enc = member P bsw ListFontsWithInfo_Reply_Encoding data;
          n = of_nat (sizeof ListFontsWithInfo_Reply_Encoding) in
      require (sz \<ge> Reply_DEFAULT_ENCODING_SZ) (
      and_then (ordered_member P bsw ListFontsWithInfo_Reply_Encoding data ''header.reply'') (\<lambda>reply.
      require (reply = REPLY_PREFIX) (
      and_then (ordered_member P bsw ListFontsWithInfo_Reply_Encoding data ''header.name_len'') (\<lambda>last_reply.
      if last_reply = ListFontsWithInfo_Reply_LAST_REPLY then
      and_then (extra_units_agree P bsw ListFontsWithInfo_Reply_Encoding data n) (\<lambda>units_agree.
      require units_agree (
      map_res (\<lambda>s. \<lparr>str = s, bytes_parsed = n\<rparr>)
        (braces P ws (name_width ws (if verbose (settings P) then ''(extra aligned units)'' else ''last-reply''))
          ([verbose_only ''reply'' (enc ''header.reply'' no_names NOT_BITMASK),
            always ''last-reply'' (enc ''header.name_len'' no_names NOT_BITMASK),
            verbose_only ''(sequence number)'' (enc ''header.sequence_num'' no_names NOT_BITMASK),
            verbose_only ''(extra aligned units)'' (enc ''header.extra_aligned_units'' no_names NOT_BITMASK)]))))
      else
      and_then (ordered_member P bsw ListFontsWithInfo_Reply_Encoding data ''properties_ct'') (\<lambda>properties_ct.
      and_then (nested DEFAULT ws) (\<lambda>properties_ws.
      and_then (parseLISTof_struct (parseListMember_struct FONTPROP (formatFONTPROP P bsw)) (drop (unat n) data) (sz - ucast n) (of_nat properties_ct) properties_ws FORCE_SINGLELINE) (\<lambda>properties.
      let n1 = n + bytes_parsed properties in
      and_then (raw_member P ListFontsWithInfo_Reply_Encoding data ''header.name_len'') (\<lambda>name_len.
      let name = read_text data (unat n1) name_len in
      let n2 = n1 + ucast (Alignment_pad (of_nat name_len)) in
      and_then (extra_units_agree P bsw ListFontsWithInfo_Reply_Encoding data n2) (\<lambda>units_agree.
      require units_agree (
      map_res (\<lambda>s. \<lparr>str = s, bytes_parsed = n2\<rparr>)
        (braces P ws (name_width ws (if verbose (settings P) then ''(FONTPROPs in properties)'' else ''min-char-or-byte2''))
          ([verbose_only ''reply'' (enc ''header.reply'' no_names NOT_BITMASK),
            verbose_only ''(name length)'' (enc ''header.name_len'' no_names NOT_BITMASK),
            verbose_only ''(sequence number)'' (enc ''header.sequence_num'' no_names NOT_BITMASK),
            verbose_only ''(extra aligned units)'' (enc ''header.extra_aligned_units'' no_names NOT_BITMASK),
            always ''min-bounds'' (embedded_struct (formatCHARINFO P bsw) ListFontsWithInfo_Reply_Encoding ''min_bounds.left_side_bearing'' data ws),
            always ''max-bounds'' (embedded_struct (formatCHARINFO P bsw) ListFontsWithInfo_Reply_Encoding ''max_bounds.left_side_bearing'' data ws),
            always ''min-char-or-byte2'' (enc ''min_char_or_byte2'' no_names NOT_BITMASK),
            always ''max-char-or-byte2'' (enc ''max_char_or_byte2'' no_names NOT_BITMASK),
            always ''default-char'' (enc ''default_char'' no_names NOT_BITMASK),
            verbose_only ''(FONTPROPs in properties)'' (enc ''properties_ct'' no_names NOT_BITMASK),
            always ''draw-direction'' (enc ''draw_direction'' (range_all ListFontsWithInfo_Reply_draw_direction_names) NOT_BITMASK),
            always ''min-byte1'' (enc ''min_byte1'' no_names NOT_BITMASK),
            always ''max-byte1'' (enc ''max_byte1'' no_names NOT_BITMASK),
            always ''all-chars-exist'' (enc ''all_chars_exist'' no_names NOT_BITMASK),
            always ''font-ascent'' (enc ''font_ascent'' no_names NOT_BITMASK),
            always ''font-descent'' (enc ''font_descent'' no_names NOT_BITMASK),
            always ''replies-hint'' (enc ''replies_hint'' no_names NOT_BITMASK),
            always ''properties'' (Inr (str properties)),
            always ''name'' (map_res (fmt_debug (fmtl P)) name)])))))))))))))"

definition parseReply_GetFontPath :: reply_parser where
  "parseReply_GetFontPath P conn data sz =
     (let ws = ROOT_WS P; bsw = byteswap conn; enc = member P bsw GetFontPath_Reply_Encoding data;
          n = of_nat (sizeof GetFontPath_Reply_Encoding) in
      require (sz \<ge> Reply_DEFAULT_ENCODING_SZ) (
      and_then (ordered_member P bsw GetFontPath_Reply_Encoding data ''header.reply'') (\<lambda>reply.
      require (reply = REPLY_PREFIX) (
      and_then (ordered_member P bsw GetFontPath_Reply_Encoding data ''path_ct'') (\<lambda>path_ct.
      and_then (nested DEFAULT ws) (\<lambda>path_ws.
      and_then (parseLISTof_struct (parseListMember_STR P bsw) (drop (unat n) data) (sz - ucast n) (of_nat path_ct) path_ws FORCE_SINGLELINE) (\<lambda>path.
      let n1 = n + ucast (Alignment_pad (ucast (bytes_parsed path))) in
      and_then (extra_units_agree P bsw GetFontPath_Reply_Encoding data n1) (\<lambda>units_agree.
      require units_agree (
      map_res (\<lambda>s. \<lparr>str = s, bytes_parsed = n1\<rparr>)
        (braces P ws (name_width ws (if verbose (settings P) then ''(extra aligned units)'' else ''path''))
          ([verbose_only ''reply'' (enc ''header.reply'' no_names NOT_BITMASK),
            verbose_only ''(sequence number)'' (enc ''header.sequence_num'' no_names NOT_BITMASK),
            verbose_only ''(extra aligned units)'' (enc ''header.extra_aligned_units'' no_names NOT_BITMASK),
            verbose_only ''(STRs in path)'' (enc ''path_ct'' no_names NOT_BITMASK),
            always ''path'' (Inr (str path))])))))))))))"

definition parseReply_GetImage :: reply_parser where
  "parseReply_GetImage P conn data sz =
     (let ws = ROOT_WS P; bsw = byteswap conn; enc = member P bsw GetImage_Reply_Encoding data;
          n = of_nat (sizeof GetImage_Reply_Encoding) in
      require (sz \<ge> Reply_DEFAULT_ENCODING_SZ) (
      and_then (ordered_member P bsw GetImage_Reply_Encoding data ''header.reply'') (\<lambda>reply.
      require (reply = REPLY_PREFIX) (
      and_then (ordered_member P bsw GetImage_Reply_Encoding data ''header.extra_aligned_units'') (\<lambda>extra_aligned_units.
      and_then (nested FORCE_SINGLELINE ws) (\<lambda>data_ws.
      and_then (parseLISTof_int P CARD8 (drop (unat n) data) (sz - ucast n) (ucast (Alignment_size (of_nat extra_aligned_units))) bsw data_ws no_names NOT_BITMASK) (\<lambda>data'.
      let n1 = n + ucast (Alignment_pad (ucast (bytes_parsed data'))) in
      and_then (extra_units_agree P bsw GetImage_Reply_Encoding data n1) (\<lambda>units_agree.
      require units_agree (
      map_res (\<lambda>s. \<lparr>str = s, bytes_parsed = n1\<rparr>)
        (braces P ws (name_width ws (if verbose (settings P) then ''(extra aligned units)'' else ''visual''))
          ([verbose_only ''reply'' (enc ''header.reply'' no_names NOT_BITMASK),
            always ''depth'' (enc ''header.depth'' no_names NOT_BITMASK),
            verbose_only ''(sequence number)'' (enc ''header.sequence_num'' no_names NOT_BITMASK),
            verbose_only ''(extra aligned units)'' (enc ''header.extra_aligned_units'' no_names NOT_BITMASK),
            always ''visual'' (enc ''visual'' (range_all GetImage_Reply_visual_names) NOT_BITMASK),
            always ''data'' (Inr (str data'))])))))))))))"

definition parseReply_ListInstalledColormaps :: reply_parser where
  "parseReply_ListInstalledColormaps P conn data sz =
     (let ws = ROOT_WS P; bsw = byteswap conn; enc = member P bsw ListInstalledColormaps_Reply_Encoding data;
          n = of_nat (sizeof ListInstalledColormaps_Reply_Encoding) in
      require (sz \<ge> Reply_DEFAULT_ENCODING_SZ) (
      and_then (ordered_member P bsw ListInstalledColormaps_Reply_Encoding data ''header.reply'') (\<lambda>reply.
      require (reply = REPLY_PREFIX) (
      and_then (ordered_member P bsw ListInstalledColormaps_Reply_Encoding data ''cmaps_ct'') (\<lambda>cmaps_ct.
      and_then (nested DEFAULT ws) (\<lambda>cmaps_ws.
      and_then (parseLISTof_int P COLORMAP (drop (unat n) data) (sz - ucast n) (of_nat cmaps_ct) bsw cmaps_ws no_names NOT_BITMASK) (\<lambda>cmaps.
      let n1 = n + bytes_parsed cmaps in
      and_then (extra_units_agree P bsw ListInstalledColormaps_Reply_Encoding data n1) (\<lambda>units_agree.
      require units_agree (
      map_res (\<lambda>s. \<lparr>str = s, bytes_parsed = n1\<rparr>)
        (braces P ws (name_width ws (if verbose (settings P) then ''(extra aligned units)'' else ''cmaps''))
          ([verbose_only ''reply'' (enc ''header.reply'' no_names NOT_BITMASK),
            verbose_only ''(sequence number)'' (enc ''header.sequence_num'' no_names NOT_BITMASK),
            verbose_only ''(extra aligned units)'' (enc ''header.extra_aligned_units'' no_names NOT_BITMASK),
            verbose_only ''(COLORMAPs in cmaps)'' (enc ''cmaps_ct'' no_names NOT_BITMASK),
            always ''cmaps'' (Inr (str cmaps))])))))))))))"

definition parseReply_AllocColor :: reply_parser where
  "parseReply_AllocColor P conn data sz =
     (let ws = ROOT_WS P; bsw = byteswap conn; enc = member P bsw AllocColor_Reply_Encoding data;
          n = of_nat (sizeof AllocColor_Reply_Encoding) in
      require (sz \<ge> Reply_DEFAULT_ENCODING_SZ) (
      and_then (ordered_member P bsw AllocColor_Reply_Encoding data ''header.reply'') (\<lambda>reply.
      require (reply = REPLY_PREFIX) (
      and_then (extra_units_agree P bsw AllocColor_Reply_Encoding data n) (\<lambda>units_agree.
      require units_agree (
      map_res (\<lambda>s. \<lparr>str = s, bytes_parsed = n\<rparr>)
        (braces P ws (name_width ws (if verbose (settings P) then ''(extra aligned units)'' else ''green''))
          ([verbose_only ''reply'' (enc ''header.reply'' no_names NOT_BITMASK),
            verbose_only ''(sequence number)'' (enc ''header.sequence_num'' no_names NOT_BITMASK),
            verbose_only ''(extra aligned units)'' (enc ''header.extra_aligned_units'' no_names NOT_BITMASK),
            always ''red'' (enc ''red'' no_names NOT_BITMASK),
            always ''green'' (enc ''green'' no_names NOT_BITMASK),
            always ''blue'' (enc ''blue'' no_names NOT_BITMASK),
            always ''pixel'' (enc ''pixel'' no_names NOT_BITMASK)]))))))))"

definition parseReply_AllocNamedColor :: reply_parser where
  "parseReply_AllocNamedColor P conn data sz =
     (let ws = ROOT_WS P; bsw = byteswap conn; enc = member P bsw AllocNamedColor_Reply_Encoding data;
          n = of_nat (sizeof AllocNamedColor_Reply_Encoding) in
      require (sz \<ge> Reply_DEFAULT_ENCODING_SZ) (
      and_then (ordered_member P bsw AllocNamedColor_Reply_Encoding data ''header.reply'') (\<lambda>reply.
      require (reply = REPLY_PREFIX) (
      and_then (extra_units_agree P bsw AllocNamedColor_Reply_Encoding data n) (\<lambda>units_agree.
      require units_agree (
      map_res (\<lambda>s. \<lparr>str = s, bytes_parsed = n\<rparr>)
        (braces P ws (name_width ws (if verbose (settings P) then ''(extra aligned units)'' else ''visual-green''))
          ([verbose_only ''reply'' (enc ''header.reply'' no_names NOT_BITMASK),
            verbose_only ''(sequence number)'' (enc ''header.sequence_num'' no_names NOT_BITMASK),
            verbose_only ''(extra aligned units)'' (enc ''header.extra_aligned_units'' no_names NOT_BITMASK),
            always ''pixel'' (enc ''pixel'' no_names NOT_BITMASK),
            always ''exact-red'' (enc ''exact_red'' no_names NOT_BITMASK),
            always ''exact-green'' (enc ''exact_green'' no_names NOT_BITMASK),
            always ''exact-blue'' (enc ''exact_blue'' no_names NOT_BITMASK),
            always ''visual-red'' (enc ''visual_red'' no_names NOT_BITMASK),
            always ''visual-green'' (enc ''visual_green'' no_names NOT_BITMASK),
            always ''visual-blue'' (enc ''visual_blue'' no_names NOT_BITMASK)]))))))))"

definition parseReply_AllocColorCells :: reply_parser where
  "parseReply_AllocColorCells P conn data sz =
     (let ws = ROOT_WS P; bsw = byteswap conn; enc = member P bsw AllocColorCells_Reply_Encoding data;
          n = of_nat (sizeof AllocColorCells_Reply_Encoding) in
      require (sz \<ge> Reply_DEFAULT_ENCODING_SZ) (
      and_then (ordered_member P bsw AllocColorCells_Reply_Encoding data ''header.reply'') (\<lambda>reply.
      require (reply = REPLY_PREFIX) (
      and_then (ordered_member P bsw AllocColorCells_Reply_Encoding data ''pixels_ct'') (\<lambda>pixels_ct.
      and_then (nested DEFAULT ws) (\<lambda>pixels_ws.
      and_then (parseLISTof_int P CARD32 (drop (unat n) data) (sz - ucast n) (of_nat pixels_ct) bsw pixels_ws no_names NOT_BITMASK) (\<lambda>pixels.
      let n1 = n + bytes_parsed pixels in
      and_then (ordered_member P bsw AllocColorCells_Reply_Encoding data ''masks_ct'') (\<lambda>masks_ct.
      and_then (nested DEFAULT ws) (\<lambda>masks_ws.
      and_then (parseLISTof_int P CARD32 (drop (unat n1) data) (sz - ucast n1) (of_nat masks_ct) bsw masks_ws no_names BITMASK) (\<lambda>masks.
      let n2 = n1 + bytes_parsed masks in
      and_then (extra_units_agree P bsw AllocColorCells_Reply_Encoding data n2) (\<lambda>units_agree.
      require units_agree (
      map_res (\<lambda>s. \<lparr>str = s, bytes_parsed = n2\<rparr>)
        (braces P ws (name_width ws (if verbose (settings P) then ''(extra aligned units)'' else ''pixels''))
          ([verbose_only ''reply'' (enc ''header.reply'' no_names NOT_BITMASK),
            verbose_only ''(sequence number)'' (enc ''header.sequence_num'' no_names NOT_BITMASK),
            verbose_only ''(extra aligned units)'' (enc ''header.extra_aligned_units'' no_names NOT_BITMASK),
            verbose_only ''(CARD32 in pixels)'' (enc ''pixels_ct'' no_names NOT_BITMASK),
            verbose_only ''(CARD32 in masks)'' (enc ''masks_ct'' no_names NOT_BITMASK),
            always ''pixels'' (Inr (str pixels)),
            always ''masks'' (Inr (str masks))]))))))))))))))"

definition parseReply_AllocColorPlanes :: reply_parser where
  "parseReply_AllocColorPlanes P conn data sz =
     (let ws = ROOT_WS P; bsw = byteswap conn; enc = member P bsw AllocColorPlanes_Reply_Encoding data;
          n = of_nat (sizeof AllocColorPlanes_Reply_Encoding) in
      require (sz \<ge> Reply_DEFAULT_ENCODING_SZ) (
      and_then (ordered_member P bsw AllocColorPlanes_Reply_Encoding data ''header.reply'') (\<lambda>reply.
      require (reply = REPLY_PREFIX) (
      and_then (ordered_member P bsw AllocColorPlanes_Reply_Encoding data ''pixels_ct'') (\<lambda>pixels_ct.
      and_then (nested DEFAULT ws) (\<lambda>pixels_ws.
      and_then (parseLISTof_int P CARD32 (drop (unat n) data) (sz - ucast n) (of_nat pixels_ct) bsw pixels_ws no_names NOT_BITMASK) (\<lambda>pixels.
      let n1 = n + bytes_parsed pixels in
      and_then (extra_units_agree P bsw AllocColorPlanes_Reply_Encoding data n1) (\<lambda>units_agree.
      require units_agree (
      map_res (\<lambda>s. \<lparr>str = s, bytes_parsed = n1\<rparr>)
        (braces P ws (name_width ws (if verbose (settings P) then ''(extra aligned units)'' else ''green-mask''))
          ([verbose_only ''reply'' (enc ''header.reply'' no_names NOT_BITMASK),
            verbose_only ''(sequence number)'' (enc ''header.sequence_num'' no_names NOT_BITMASK),
            verbose_only ''(extra aligned units)'' (enc ''header.extra_aligned_units'' no_names NOT_BITMASK),
            verbose_only ''(CARD32 in pixels)'' (enc ''pixels_ct'' no_names NOT_BITMASK),
            always ''red-mask'' (enc ''red_mask'' no_names BITMASK),
            always ''green-mask'' (enc ''green_mask'' no_names BITMASK),
            always ''blue-mask'' (enc ''blue_mask'' no_names BITMASK),
            always ''pixels'' (Inr (str pixels))])))))))))))"

definition parseReply_QueryColors :: reply_parser where
  "parseReply_QueryColors P conn data sz =
     (let ws = ROOT_WS P; bsw = byteswap conn; enc = member P bsw QueryColors_Reply_Encoding data;
          n = of_nat (sizeof QueryColors_Reply_Encoding) in
      require (sz \<ge> Reply_DEFAULT_ENCODING_SZ) (
      and_then (ordered_member P bsw QueryColors_Reply_Encoding data ''header.reply'') (\<lambda>reply.
      require (reply = REPLY_PREFIX) (
      and_then (ordered_member P bsw QueryColors_Reply_Encoding data ''colors_ct'') (\<lambda>colors_ct.
      and_then (nested DEFAULT ws) (\<lambda>colors_ws.
      and_then (parseLISTof_struct (parseListMember_struct QueryColors_Reply_RGB (formatRGB P bsw)) (drop (unat n) data) (sz - ucast n) (of_nat colors_ct) colors_ws FORCE_SINGLELINE) (\<lambda>colors.
      let n1 = n + bytes_parsed colors in
      and_then (extra_units_agree P bsw QueryColors_Reply_Encoding data n1) (\<lambda>units_agree.
      require units_agree (
      map_res (\<lambda>s. \<lparr>str = s, bytes_parsed = n1\<rparr>)
        (braces P ws (name_width ws (if verbose (settings P) then ''(extra aligned units)'' else ''colors''))
          ([verbose_only ''reply'' (enc ''header.reply'' no_names NOT_BITMASK),
            verbose_only ''(sequence number)'' (enc ''header.sequence_num'' no_names NOT_BITMASK),
            verbose_only ''(extra aligned units)'' (enc ''header.extra_aligned_units'' no_names NOT_BITMASK),
            verbose_only ''(RGBs in colors)'' (enc ''colors_ct'' no_names NOT_BITMASK),
            always ''colors'' (Inr (str colors))])))))))))))"

definition parseReply_LookupColor :: reply_parser where
  "parseReply_LookupColor P conn data sz =
     (let ws = ROOT_WS P; bsw = byteswap conn; enc = member P bsw LookupColor_Reply_Encoding data;
          n = of_nat (sizeof LookupColor_Reply_Encoding) in
      require (sz \<ge> Reply_DEFAULT_ENCODING_SZ) (
      and_then (ordered_member P bsw LookupColor_Reply_Encoding data ''header.reply'') (\<lambda>reply.
      require (reply = REPLY_PREFIX) (
      and_then (extra_units_agree P bsw LookupColor_Reply_Encoding data n) (\<lambda>units_agree.
      require units_agree (
      map_res (\<lambda>s. \<lparr>str = s, bytes_parsed = n\<rparr>)
        (braces P ws (name_width ws (if verbose (settings P) then ''(extra aligned units)'' else ''visual-green''))
          ([verbose_only ''reply'' (enc ''header.reply'' no_names NOT_BITMASK),
            verbose_only ''(sequence number)'' (enc ''header.sequence_num'' no_names NOT_BITMASK),
            verbose_only ''(extra aligned units)'' (enc ''header.extra_aligned_units'' no_names NOT_BITMASK),
            always ''exact-red'' (enc ''exact_red'' no_names NOT_BITMASK),
            always ''exact-green'' (enc ''exact_green'' no_names NOT_BITMASK),
            always ''exact-blue'' (enc ''exact_blue'' no_names NOT_BITMASK),
            always ''visual-red'' (enc ''visual_red'' no_names NOT_BITMASK),
            always ''visual-green'' (enc ''visual_green'' no_names NOT_BITMASK),
            always ''visual-blue'' (enc ''visual_blue'' no_names NOT_BITMASK)]))))))))"

definition parseReply_QueryBestSize :: reply_parser where
  "parseReply_QueryBestSize P conn data sz =
     (let ws = ROOT_WS P; bsw = byteswap conn; enc = member P bsw QueryBestSize_Reply_Encoding data;
          n = of_nat (sizeof QueryBestSize_Reply_Encoding) in
      require (sz \<ge> Reply_DEFAULT_ENCODING_SZ) (
      and_then (ordered_member P bsw QueryBestSize_Reply_Encoding data ''header.reply'') (\<lambda>reply.
      require (reply = REPLY_PREFIX) (
      and_then (extra_units_agree P bsw QueryBestSize_Reply_Encoding data n) (\<lambda>units_agree.
      require units_agree (
      map_res (\<lambda>s. \<lparr>str = s, bytes_parsed = n\<rparr>)
        (braces P ws (name_width ws (if verbose (settings P) then ''(extra aligned units)'' else ''height''))
          ([verbose_only ''reply'' (enc ''header.reply'' no_names NOT_BITMASK),
            verbose_only ''(sequence number)'' (enc ''header.sequence_num'' no_names NOT_BITMASK),
            verbose_only ''(extra aligned units)'' (enc ''header.extra_aligned_units'' no_names NOT_BITMASK),
            always ''width'' (enc ''width'' no_names NOT_BITMASK),
            always ''height'' (enc ''height'' no_names NOT_BITMASK)]))))))))"

definition parseReply_QueryExtension :: enabling_reply_parser where
  "parseReply_QueryExtension P conn data sz =
     (let ws = ROOT_WS P; bsw = byteswap conn; enc = member P bsw QueryExtension_Reply_Encoding data;
          n = of_nat (sizeof QueryExtension_Reply_Encoding) in
      require (sz \<ge> Reply_DEFAULT_ENCODING_SZ) (
      and_then (ordered_member P bsw QueryExtension_Reply_Encoding data ''header.reply'') (\<lambda>reply.
      require (reply = REPLY_PREFIX) (
      and_then (extra_units_agree P bsw QueryExtension_Reply_Encoding data n) (\<lambda>units_agree.
      require units_agree (
      and_then (ordered_member P bsw QueryExtension_Reply_Encoding data ''header.sequence_num'') (\<lambda>sequence_num.
      and_then (unstashString (conn_id conn) (of_nat sequence_num) P) (\<lambda>(ext_view, P1).
      and_then (read_view conn ext_view) (\<lambda>ext_name.
      and_then
        (if extensionDenied (settings P) ext_name
         then map_res (\<lambda>off. (data[off := 0], poke_server_buffer conn data off 0))
                (member_offset QueryExtension_Reply_Encoding ''present'')
         else Inr (data, conn)) (\<lambda>(data, conn1).
      let enc = member P bsw QueryExtension_Reply_Encoding data in
      and_then (raw_member P QueryExtension_Reply_Encoding data ''present'') (\<lambda>present.
      and_then
        (if present = 0 then Inr (P1, conn1)
         else and_then (ordered_member P bsw QueryExtension_Reply_Encoding data ''major_opcode'') (\<lambda>major_opcode.
              and_then (enableExtensionParsing ext_name major_opcode P1) (\<lambda>P2.
              if ext_name = big_requests_name then Inr (P2, conn1)
              else require (\<not> extensionEnabled ext_name conn1) (
                   Inr (P2, enableExtension ext_name conn1))))) (\<lambda>(P', conn').
      map_res (\<lambda>s. (P', conn', \<lparr>str = s, bytes_parsed = n\<rparr>))
        (braces P ws (name_width ws (if verbose (settings P) then ''(extra aligned units)'' else ''major-opcode''))
          ([verbose_only ''reply'' (enc ''header.reply'' no_names NOT_BITMASK),
            verbose_only ''(sequence number)'' (enc ''header.sequence_num'' no_names NOT_BITMASK),
            verbose_only ''(extra aligned units)'' (enc ''header.extra_aligned_units'' no_names NOT_BITMASK),
            always ''present'' (enc ''present'' no_names NOT_BITMASK),
            always ''major-opcode'' (enc ''major_opcode'' no_names NOT_BITMASK),
            always ''first-event'' (enc ''first_event'' no_names NOT_BITMASK),
            always ''first-error'' (enc ''first_error'' no_names NOT_BITMASK)]))))))))))))))"

definition parseReply_ListExtensions :: reply_parser where
  "parseReply_ListExtensions P conn data sz =
     (let ws = ROOT_WS P; bsw = byteswap conn; enc = member P bsw ListExtensions_Reply_Encoding data;
          n = of_nat (sizeof ListExtensions_Reply_Encoding) in
      require (sz \<ge> Reply_DEFAULT_ENCODING_SZ) (
      and_then (ordered_member P bsw ListExtensions_Reply_Encoding data ''header.reply'') (\<lambda>reply.
      require (reply = REPLY_PREFIX) (
      and_then (ordered_member P bsw ListExtensions_Reply_Encoding data ''header.names_ct'') (\<lambda>names_ct.
      and_then (nested DEFAULT ws) (\<lambda>names_ws.
      and_then (parseLISTof_struct (parseListMember_STR P bsw) (drop (unat n) data) (sz - ucast n) (of_nat names_ct) names_ws FORCE_SINGLELINE) (\<lambda>names'.
      let n1 = n + ucast (Alignment_pad (ucast (bytes_parsed names'))) in
      and_then (extra_units_agree P bsw ListExtensions_Reply_Encoding data n1) (\<lambda>units_agree.
      require units_agree (
      map_res (\<lambda>s. \<lparr>str = s, bytes_parsed = n1\<rparr>)
        (braces P ws (name_width ws (if verbose (settings P) then ''(extra aligned units)'' else ''names''))
          ([verbose_only ''reply'' (enc ''header.reply'' no_names NOT_BITMASK),
            verbose_only ''(STRs in names)'' (enc ''header.names_ct'' no_names NOT_BITMASK),
            verbose_only ''(sequence number)'' (enc ''header.sequence_num'' no_names NOT_BITMASK),
            verbose_only ''(extra aligned units)'' (enc ''header.extra_aligned_units'' no_names NOT_BITMASK),
            always ''names'' (Inr (str names'))])))))))))))"

definition parseReply_GetKeyboardMapping :: reply_parser where
  "parseReply_GetKeyboardMapping P conn data sz =
     (let ws = ROOT_WS P; bsw = byteswap conn; enc = member P bsw GetKeyboardMapping_Reply_Encoding data;
          n = of_nat (sizeof GetKeyboardMapping_Reply_Encoding) in
      require (sz \<ge> Reply_DEFAULT_ENCODING_SZ) (
      and_then (ordered_member P bsw GetKeyboardMapping_Reply_Encoding data ''header.reply'') (\<lambda>reply.
      require (reply = REPLY_PREFIX) (
      and_then (ordered_member P bsw GetKeyboardMapping_Reply_Encoding data ''header.extra_aligned_units'') (\<lambda>extra_aligned_units.
      let keysym_ct = (ucast (Alignment_size (of_nat extra_aligned_units) div 4) :: 32 word) in
      and_then (nested DEFAULT ws) (\<lambda>keysyms_ws.
      and_then (parseLISTof_int P KEYSYM (drop (unat n) data) (sz - ucast n) (ucast keysym_ct) bsw keysyms_ws no_names NOT_BITMASK) (\<lambda>keysyms.
      let n1 = n + bytes_parsed keysyms in
      and_then (extra_units_agree P bsw GetKeyboardMapping_Reply_Encoding data n1) (\<lambda>units_agree.
      require units_agree (
      map_res (\<lambda>s. \<lparr>str = s, bytes_parsed = n1\<rparr>)
        (braces P ws (name_width ws (if verbose (settings P) then ''(extra aligned units)'' else ''keysyms''))
          ([verbose_only ''reply'' (enc ''header.reply'' no_names NOT_BITMASK),
            verbose_only ''keysyms-per-keycode'' (enc ''header.keysyms_per_keycode'' no_names NOT_BITMASK),
            verbose_only ''(sequence number)'' (enc ''header.sequence_num'' no_names NOT_BITMASK),
            verbose_only ''(extra aligned units)'' (enc ''header.extra_aligned_units'' no_names NOT_BITMASK),
            always ''keysyms'' (Inr (str keysyms))])))))))))))"

definition parseReply_GetKeyboardControl :: reply_parser where
  "parseReply_GetKeyboardControl P conn data sz =
     (let ws = ROOT_WS P; bsw = byteswap conn; enc = member P bsw GetKeyboardControl_Reply_Encoding data;
          n = of_nat (sizeof GetKeyboardControl_Reply_Encoding) in
      require (sz \<ge> Reply_DEFAULT_ENCODING_SZ) (
      and_then (ordered_member P bsw GetKeyboardControl_Reply_Encoding data ''header.reply'') (\<lambda>reply.
      require (reply = REPLY_PREFIX) (
      and_then (extra_units_agree P bsw GetKeyboardControl_Reply_Encoding data n) (\<lambda>units_agree.
      require units_agree (
      and_then (member_address GetKeyboardControl_Reply_Encoding ''auto_repeats'' data) (\<lambda>auto_repeats_at.
      and_then (nested FORCE_SINGLELINE ws) (\<lambda>auto_repeats_ws.
      and_then (parseLISTof_int P CARD8 auto_repeats_at 32 32 bsw auto_repeats_ws no_names NOT_BITMASK) (\<lambda>auto_repeats.
      map_res (\<lambda>s. \<lparr>str = s, bytes_parsed = n\<rparr>)
        (braces P ws (name_width ws (if verbose (settings P) then ''(extra aligned units)'' else ''global-auto-repeat''))
          ([verbose_only ''reply'' (enc ''header.reply'' no_names NOT_BITMASK),
            always ''global-auto-repeat'' (enc ''header.global_auto_repeat'' (range_bound GetKeyboardControl_Reply_global_auto_repeat_names Bound_MAX GetKeyboardControl_Reply_GLOBAL_AUTO_REPEAT_ENUM_MAX) NOT_BITMASK),
            verbose_only ''(sequence number)'' (enc ''header.sequence_num'' no_names NOT_BITMASK),
            verbose_only ''(extra aligned units)'' (enc ''header.extra_aligned_units'' no_names NOT_BITMASK),
            always ''led-mask'' (enc ''led_mask'' no_names BITMASK),
            always ''key-click-percent'' (enc ''key_click_percent'' no_names NOT_BITMASK),
            always ''bell-percent'' (enc ''bell_percent'' no_names NOT_BITMASK),
            always ''bell-pitch'' (enc ''bell_pitch'' no_names NOT_BITMASK),
            always ''bell-duration'' (enc ''bell_duration'' no_names NOT_BITMASK),
            always ''auto-repeats'' (Inr (str auto_repeats))])))))))))))"

definition parseReply_GetPointerControl :: reply_parser where
  "parseReply_GetPointerControl P conn data sz =
     (let ws = ROOT_WS P; bsw = byteswap conn; enc = member P bsw GetPointerControl_Reply_Encoding data;
          n = of_nat (sizeof GetPointerControl_Reply_Encoding) in
      require (sz \<ge> Reply_DEFAULT_ENCODING_SZ) (
      and_then (ordered_member P bsw GetPointerControl_Reply_Encoding data ''header.reply'') (\<lambda>reply.
      require (reply = REPLY_PREFIX) (
      and_then (extra_units_agree P bsw GetPointerControl_Reply_Encoding data n) (\<lambda>units_agree.
      require units_agree (
      map_res (\<lambda>s. \<lparr>str = s, bytes_parsed = n\<rparr>)
        (braces P ws (name_width ws ''acceleration-denominator'')
          ([verbose_only ''reply'' (enc ''header.reply'' no_names NOT_BITMASK),
            verbose_only ''(sequence number)'' (enc ''header.sequence_num'' no_names NOT_BITMASK),
            verbose_only ''(extra aligned units)'' (enc ''header.extra_aligned_units'' no_names NOT_BITMASK),
            always ''acceleration-numerator'' (enc ''acceleration_numerator'' no_names NOT_BITMASK),
            always ''acceleration-denominator'' (enc ''acceleration_denominator'' no_names NOT_BITMASK),
            always ''threshold'' (enc ''threshold'' no_names NOT_BITMASK)]))))))))"

definition parseReply_GetScreenSaver :: reply_parser where
  "parseReply_GetScreenSaver P conn data sz =
     (let ws = ROOT_WS P; bsw = byteswap conn; enc = member P bsw GetScreenSaver_Reply_Encoding data;
          n = of_nat (sizeof GetScreenSaver_Reply_Encoding) in
      require (sz \<ge> Reply_DEFAULT_ENCODING_SZ) (
      and_then (ordered_member P bsw GetScreenSaver_Reply_Encoding data ''header.reply'') (\<lambda>reply.
      require (reply = REPLY_PREFIX) (
      and_then (extra_units_agree P bsw GetScreenSaver_Reply_Encoding data n) (\<lambda>units_agree.
      require units_agree (
      map_res (\<lambda>s. \<lparr>str = s, bytes_parsed = n\<rparr>)
        (braces P ws (name_width ws (if verbose (settings P) then ''(extra aligned units)'' else ''prefer-blanking''))
          ([verbose_only ''reply'' (enc ''header.reply'' no_names NOT_BITMASK),
            verbose_only ''(sequence number)'' (enc ''header.sequence_num'' no_names NOT_BITMASK),
            verbose_only ''(extra aligned units)'' (enc ''header.extra_aligned_units'' no_names NOT_BITMASK),
            always ''timeout'' (enc ''timeout'' no_names NOT_BITMASK),
            always ''interval'' (enc ''interval'' no_names NOT_BITMASK),
            always ''prefer-blanking'' (enc ''prefer_blanking'' (range_bound GetScreenSaver_Reply_prefer_blanking_names Bound_MAX GetScreenSaver_Reply_PREFER_BLANKING_ENUM_MAX) NOT_BITMASK),
            always ''allow-exposures'' (enc ''allow_exposures'' (range_bound GetScreenSaver_Reply_allow_exposures_names Bound_MAX GetScreenSaver_Reply_ALLOW_EXPOSURES_ENUM_MAX) NOT_BITMASK)]))))))))"

definition parseReply_ListHosts :: reply_parser where
  "parseReply_ListHosts P conn data sz =
     (let ws = ROOT_WS P; bsw = byteswap conn; enc = member P bsw ListHosts_Reply_Encoding data;
          n = of_nat (sizeof ListHosts_Reply_Encoding) in
      require (sz \<ge> Reply_DEFAULT_ENCODING_SZ) (
      and_then (ordered_member P bsw ListHosts_Reply_Encoding data ''header.reply'') (\<lambda>reply.
      require (reply = REPLY_PREFIX) (
      and_then (ordered_member P bsw ListHosts_Reply_Encoding data ''hosts_ct'') (\<lambda>hosts_ct.
      and_then (nested DEFAULT ws) (\<lambda>hosts_ws.
      and_then (parseLISTof_struct (parseListMember_HOST P bsw) (drop (unat n) data) (sz - ucast n) (of_nat hosts_ct) hosts_ws DEFAULT) (\<lambda>hosts.
      let n1 = n + bytes_parsed hosts in
      and_then (extra_units_agree P bsw ListHosts_Reply_Encoding data n1) (\<lambda>units_agree.
      require units_agree (
      map_res (\<lambda>s. \<lparr>str = s, bytes_parsed = n1\<rparr>)
        (braces P ws (name_width ws (if verbose (settings P) then ''(extra aligned units)'' else ''hosts''))
          ([verbose_only ''reply'' (enc ''header.reply'' no_names NOT_BITMASK),
            always ''mode'' (enc ''header.mode'' (range_all ListHosts_Reply_mode_names) NOT_BITMASK),
            verbose_only ''(sequence number)'' (enc ''header.sequence_num'' no_names NOT_BITMASK),
            verbose_only ''(extra aligned units)'' (enc ''header.extra_aligned_units'' no_names NOT_BITMASK),
            verbose_only ''(HOSTs in hosts)'' (enc ''hosts_ct'' no_names NOT_BITMASK),
            always ''hosts'' (Inr (str hosts))])))))))))))"

definition parseReply_SetPointerMapping :: reply_parser where
  "parseReply_SetPointerMapping P conn data sz =
     (let ws = ROOT_WS P; bsw = byteswap conn; enc = member P bsw SetPointerMapping_Reply_Encoding data;
          n = of_nat (sizeof SetPointerMapping_Reply_Encoding) in
      require (sz \<ge> Reply_DEFAULT_ENCODING_SZ) (
      and_then (ordered_member P bsw SetPointerMapping_Reply_Encoding data ''header.reply'') (\<lambda>reply.
      require (reply = REPLY_PREFIX) (
      and_then (extra_units_agree P bsw SetPointerMapping_Reply_Encoding data n) (\<lambda>units_agree.
      require units_agree (
      map_res (\<lambda>s. \<lparr>str = s, bytes_parsed = n\<rparr>)
        (braces P ws (name_width ws (if verbose (settings P) then ''(extra aligned units)'' else ''status''))
          ([verbose_only ''reply'' (enc ''header.reply'' no_names NOT_BITMASK),
            always ''status'' (enc ''header.status'' (range_bound SetPointerMapping_Reply_status_names Bound_MAX SetPointerMapping_Reply_STATUS_ENUM_MAX) NOT_BITMASK),
            verbose_only ''(sequence number)'' (enc ''header.sequence_num'' no_names NOT_BITMASK),
            verbose_only ''(extra aligned units)'' (enc ''header.extra_aligned_units'' no_names NOT_BITMASK)]))))))))"

definition parseReply_GetPointerMapping :: reply_parser where
  "parseReply_GetPointerMapping P conn data sz =
     (let ws = ROOT_WS P; bsw = byteswap conn; enc = member P bsw GetPointerMapping_Reply_Encoding data;
          n = of_nat (sizeof GetPointerMapping_Reply_Encoding) in
      require (sz \<ge> Reply_DEFAULT_ENCODING_SZ) (
      and_then (ordered_member P bsw GetPointerMapping_Reply_Encoding data ''header.reply'') (\<lambda>reply.
      require (reply = REPLY_PREFIX) (
      and_then (ordered_member P bsw GetPointerMapping_Reply_Encoding data ''header.map_len'') (\<lambda>map_len.
      and_then (nested FORCE_SINGLELINE ws) (\<lambda>map_ws.
      and_then (parseLISTof_int P CARD8 (drop (unat n) data) (sz - ucast n) (of_nat map_len) bsw map_ws no_names NOT_BITMASK) (\<lambda>map'.
      let n1 = n + ucast (Alignment_pad (ucast (bytes_parsed map'))) in
      and_then (raw_member P GetPointerMapping_Reply_Encoding data ''header.extra_aligned_units'') (\<lambda>units.
      require (of_nat units = Alignment_units (ucast (n1 - 32))) (
      map_res (\<lambda>s. \<lparr>str = s, bytes_parsed = n1\<rparr>)
        (braces P ws (name_width ws (if verbose (settings P) then ''(extra aligned units)'' else ''map''))
          ([verbose_only ''reply'' (enc ''header.reply'' no_names NOT_BITMASK),
            verbose_only ''(map length)'' (enc ''header.map_len'' no_names NOT_BITMASK),
            verbose_only ''(sequence number)'' (enc ''header.sequence_num'' no_names NOT_BITMASK),
            verbose_only ''(extra aligned units)'' (enc ''header.extra_aligned_units'' no_names NOT_BITMASK),
            always ''map'' (Inr (str map'))])))))))))))"

definition parseReply_SetModifierMapping :: reply_parser where
  "parseReply_SetModifierMapping P conn data sz =
     (let ws = ROOT_WS P; bsw = byteswap conn; enc = member P bsw SetModifierMapping_Reply_Encoding data;
          n = of_nat (sizeof SetModifierMapping_Reply_Encoding) in
      require (sz \<ge> Reply_DEFAULT_ENCODING_SZ) (
      and_then (ordered_member P bsw SetModifierMapping_Reply_Encoding data ''header.reply'') (\<lambda>reply.
      require (reply = REPLY_PREFIX) (
      and_then (extra_units_agree P bsw SetModifierMapping_Reply_Encoding data n) (\<lambda>units_agree.
      require units_agree (
      map_res (\<lambda>s. \<lparr>str = s, bytes_parsed = n\<rparr>)
        (braces P ws (name_width ws (if verbose (settings P) then ''(extra aligned units)'' else ''status''))
          ([verbose_only ''reply'' (enc ''header.reply'' no_names NOT_BITMASK),
            always ''status'' (enc ''header.status'' (range_all SetModifierMapping_Reply_status_names) NOT_BITMASK),
            verbose_only ''(sequence number)'' (enc ''header.sequence_num'' no_names NOT_BITMASK),
            verbose_only ''(extra aligned units)'' (enc ''header.extra_aligned_units'' no_names NOT_BITMASK)]))))))))"

definition parseReply_GetModifierMapping :: reply_parser where
  "parseReply_GetModifierMapping P conn data sz =
     (let ws = ROOT_WS P; bsw = byteswap conn; enc = member P bsw GetModifierMapping_Reply_Encoding data;
          n = of_nat (sizeof GetModifierMapping_Reply_Encoding) in
      require (sz \<ge> Reply_DEFAULT_ENCODING_SZ) (
      and_then (ordered_member P bsw GetModifierMapping_Reply_Encoding data ''header.reply'') (\<lambda>reply.
      require (reply = REPLY_PREFIX) (
      and_then (ordered_member P bsw GetModifierMapping_Reply_Encoding data ''header.keycodes_per_modifier'') (\<lambda>keycodes_per_modifier.
      let keycode_ct = (of_nat (GetModifierMapping_Reply_MODIFIER_CT * keycodes_per_modifier) :: 32 word) in
      and_then (nested FORCE_SINGLELINE ws) (\<lambda>keycodes_ws.
      and_then (parseLISTof_int P KEYCODE (drop (unat n) data) (sz - ucast n) (ucast keycode_ct) bsw keycodes_ws no_names NOT_BITMASK) (\<lambda>keycodes.
      let n1 = n + bytes_parsed keycodes in
      and_then (extra_units_agree P bsw GetModifierMapping_Reply_Encoding data n1) (\<lambda>units_agree.
      require units_agree (
      map_res (\<lambda>s. \<lparr>str = s, bytes_parsed = n1\<rparr>)
        (braces P ws (name_width ws (if verbose (settings P) then ''(extra aligned units)'' else ''keycodes-per-modifier''))
          ([verbose_only ''reply'' (enc ''header.reply'' no_names NOT_BITMASK),
            always ''keycodes-per-modifier'' (enc ''header.keycodes_per_modifier'' no_names NOT_BITMASK),
            verbose_only ''(sequence number)'' (enc ''header.sequence_num'' no_names NOT_BITMASK),
            verbose_only ''(extra aligned units)'' (enc ''header.extra_aligned_units'' no_names NOT_BITMASK),
            always ''keycodes'' (Inr (str keycodes))])))))))))))"

subsection \<open>\<open>BIG-REQUESTS\<close>\<close>

text \<open>
  The extension \<open>BIG-REQUESTS\<close> (\<open>extensions/\<close>): its one request and the reply, which
  enables requests with a 32-bit length on the connection.
\<close>

definition BIGREQENABLE :: nat where
  "BIGREQENABLE = 0"

definition big_requests_names :: "string list" where
  "big_requests_names = [''BigReqEnable'']"

definition extensions_SimpleRequest :: request_type where
  "extensions_SimpleRequest =
     \<lparr>prefix_layout = extensions_Request_Prefix, length_layout = Request_Length,
      big_length_layout = Request_BigLength, encoding_layout = None,
      BASE_ENCODING_SZ = size_of extensions_Request_Prefix + size_of Request_Length,
      BASE_BIG_ENCODING_SZ = size_of extensions_Request_Prefix + size_of Request_BigLength\<rparr>"

definition BigReqEnable_Reply_Encoding :: layout where
  "BigReqEnable_Reply_Encoding =
     embed ''header'' Reply_Header @
     [(''maximum_request_length'', CARD32), (''_unused'', Bytes 20)]"

definition parseRequest_extensions_SimpleRequest :: request_parser where
  "parseRequest_extensions_SimpleRequest P conn data sz =
     (let ws = ROOT_WS P; bsw = byteswap conn in
      require (sz \<ge> BASE_ENCODING_SZ extensions_SimpleRequest) (
      and_then (RequestFixedEncoding P extensions_SimpleRequest conn data sz) (\<lambda>fe.
      let pre = member P bsw extensions_Request_Prefix (prefix fe);
          n = ucast (fe_bytes_parsed fe) in
      require (header_only fe) (
      and_then (length_assertion P bsw extensions_SimpleRequest fe n) (\<lambda>lengths_agree.
      require lengths_agree (
      map_res (\<lambda>s. \<lparr>str = s, bytes_parsed = n\<rparr>)
        (braces P ws
          (if \<not> ws_multiline ws then 0
           else if big_request fe then length ''(extended length flag)''
           else length ''(total aligned units)'')
          ([verbose_only ''major-opcode'' (pre ''major_opcode'' no_names NOT_BITMASK),
            verbose_only ''minor-opcode'' (pre ''minor_opcode'' no_names NOT_BITMASK)] @
           length_rows P bsw extensions_SimpleRequest fe))))))))"

definition parseRequest_BigReqEnable :: request_parser where
  "parseRequest_BigReqEnable P conn data sz =
     require (unat sz \<ge> sizeof extensions_Request_Prefix) (
     and_then (ordered_member P (byteswap conn) extensions_Request_Prefix data ''minor_opcode'') (\<lambda>minor_opcode.
     require (minor_opcode = BIGREQENABLE) (
     parseRequest_extensions_SimpleRequest P conn data sz)))"

definition parseReply_BigReqEnable :: enabling_reply_parser where
  "parseReply_BigReqEnable P conn data sz =
     (let ws = ROOT_WS P; bsw = byteswap conn; L = BigReqEnable_Reply_Encoding;
          enc = member P bsw L data; n = of_nat (sizeof L) in
      require (sz \<ge> Reply_DEFAULT_ENCODING_SZ) (
      and_then (ordered_member P bsw L data ''header.reply'') (\<lambda>reply.
      require (reply = REPLY_PREFIX) (
      and_then (extra_units_agree P bsw L data n) (\<lambda>units_agree.
      require units_agree (
      require (\<not> extensionEnabled big_requests_name conn) (
      map_res (\<lambda>s. (P, enableExtension big_requests_name conn, \<lparr>str = s, bytes_parsed = n\<rparr>))
        (braces P ws (name_width ws ''maximum-request-length'')
          [verbose_only ''reply'' (enc ''header.reply'' no_names NOT_BITMASK),
           verbose_only ''(sequence number)'' (enc ''header.sequence_num'' no_names NOT_BITMASK),
           verbose_only ''(extra aligned units)'' (enc ''header.extra_aligned_units'' no_names NOT_BITMASK),
           always ''maximum-request-length''
             (enc ''maximum_request_length'' no_names NOT_BITMASK)]))))))))"

lemmas parseReply_defs =
  parseReply_UnknownRequest_def parseReply_GetWindowAttributes_def parseReply_GetGeometry_def
  parseReply_QueryTree_def parseReply_InternAtom_def parseReply_GetAtomName_def
  parseReply_GetProperty_def parseReply_ListProperties_def parseReply_GetSelectionOwner_def
  parseReply_GrabPointer_def parseReply_GrabKeyboard_def parseReply_QueryPointer_def
  parseReply_GetMotionEvents_def parseReply_TranslateCoordinates_def parseReply_GetInputFocus_def
  parseReply_QueryKeymap_def parseReply_QueryFont_def parseReply_QueryTextExtents_def
  parseReply_ListFonts_def parseReply_ListFontsWithInfo_def parseReply_GetFontPath_def
  parseReply_GetImage_def parseReply_ListInstalledColormaps_def parseReply_AllocColor_def
  parseReply_AllocNamedColor_def parseReply_AllocColorCells_def parseReply_AllocColorPlanes_def
  parseReply_QueryColors_def parseReply_LookupColor_def parseReply_QueryBestSize_def
  parseReply_QueryExtension_def parseReply_ListExtensions_def parseReply_GetKeyboardMapping_def
  parseReply_GetKeyboardControl_def parseReply_GetPointerControl_def
  parseReply_GetScreenSaver_def parseReply_ListHosts_def parseReply_SetPointerMapping_def
  parseReply_GetPointerMapping_def parseReply_SetModifierMapping_def
  parseReply_GetModifierMapping_def parseReply_BigReqEnable_def

end
