(* ===== verification/Streams.thy ===== *)
theory Streams
  imports Dispatch StructFormat ReplyLayout
begin

text \<open>
  Cutting the byte streams into messages: \<open>logClientMessages\<close> and \<open>logServerMessages\<close>
  of \<open>X11ProtocolParser.cpp\<close>. The loops run over the bytes that are in the buffer; each
  turn determines the size of the next message, waits if it is incomplete, and otherwise hands
  it to the handler for the state of the connection.

  A handler takes the parser, the connection, the memory at \<open>data\<close> and the size of the
  message; it returns them with the text it logged and the bytes it parsed. The handlers of
  connection setup, requests and replies are fields of a record here (in the code they are
  template instances and pointers in tables); events and errors are handled as in
  \<open>Dispatch\<close>. A loop that has not ended when \<open>fuel\<close> turns are over is \<open>None\<close>.
\<close>

type_synonym handler =
  "parser \<Rightarrow> connection \<Rightarrow> byte list \<Rightarrow> size_t \<Rightarrow> (parser \<times> connection \<times> string \<times> size_t) res"

record client_handlers =
  log_initiation :: handler
  log_request :: handler

record server_handlers =
  log_init_response :: handler
  log_reply :: handler
  event_codes :: "nat \<rightharpoonup> event_traits"
  error_codes :: "nat \<rightharpoonup> error_traits"

subsection \<open>Headers\<close>

definition Response_Header :: layout where
  "Response_Header = [(''prefix'', CARD8), (''_unused'', CARD8), (''sequence_num'', CARD16)]"

definition Initiation_Header :: layout where
  "Initiation_Header =
     [(''byte_order'', CARD8), (''_unused1'', CARD8), (''protocol_major_version'', CARD16),
      (''protocol_minor_version'', CARD16), (''name_len'', CARD16), (''data_len'', CARD16),
      (''_unused2'', CARD16)]"

definition InitResponse_Header :: layout where
  "InitResponse_Header =
     [(''success'', CARD8), (''_unused1'', CARD8), (''_unused2'', Bytes 4),
      (''following_aligned_units'', CARD16)]"

definition MSBFIRST :: nat where
  "MSBFIRST = 0x42"

definition LSBFIRST :: nat where
  "LSBFIRST = 0x6C"

subsection \<open>The size of the next message\<close>

definition client_frame :: "parser \<Rightarrow> connection \<Rightarrow> byte list \<Rightarrow> connection res" where
  "client_frame P conn data =
     (let b = client_buffer conn;
          set_size = (\<lambda>c n. map_res (\<lambda>b'. c\<lparr>client_buffer := b'\<rparr>) (setMessageSize n b)) in
      if messageSizeSet b then Inr conn
      else case conn_status conn of
        UNESTABLISHED \<Rightarrow>
          if buffer_size b < size_of Initiation_Header then Inr conn
          else and_then (ordered_member P False Initiation_Header data ''byte_order'') (\<lambda>byte_order.
               require (byte_order = MSBFIRST \<or> byte_order = LSBFIRST) (
               let bsw = (little_endian P \<noteq> (byte_order = LSBFIRST)) in
               and_then (ordered_member P bsw Initiation_Header data ''name_len'') (\<lambda>name_len.
               and_then (ordered_member P bsw Initiation_Header data ''data_len'') (\<lambda>data_len.
               set_size (conn\<lparr>byteswap := bsw\<rparr>)
                 (size_of Initiation_Header + Alignment_pad (of_nat name_len) +
                  Alignment_pad (of_nat data_len))))))
      | OPEN \<Rightarrow>
          if buffer_size b < size_of Request_Prefix + size_of Request_Length then Inr conn
          else let data' = drop (sizeof Request_Prefix) data in
               and_then (ordered_member P False Request_BigLength data' ''extended_length_flag'') (\<lambda>flag.
               if flag = EXTENDED_LENGTH_FLAG
               then if buffer_size b < size_of Request_Prefix + size_of Request_BigLength then Inr conn
                    else and_then (ordered_member P (byteswap conn) Request_BigLength data'
                                     ''tl_aligned_units'') (\<lambda>units.
                         set_size conn (Alignment_size (of_nat units)))
               else and_then (ordered_member P (byteswap conn) Request_Length data'
                                ''tl_aligned_units'') (\<lambda>units.
                    set_size conn (Alignment_size (of_nat units))))
      | _ \<Rightarrow> Inr conn)"

definition server_frame :: "parser \<Rightarrow> connection \<Rightarrow> byte list \<Rightarrow> connection res" where
  "server_frame P conn data =
     (let b = server_buffer conn; bsw = byteswap conn;
          set_size = (\<lambda>n. map_res (\<lambda>b'. conn\<lparr>server_buffer := b'\<rparr>) (setMessageSize n b)) in
      if messageSizeSet b then Inr conn
      else case conn_status conn of
        UNESTABLISHED \<Rightarrow>
          if buffer_size b < size_of InitResponse_Header then Inr conn
          else and_then (ordered_member P bsw InitResponse_Header data ''following_aligned_units'')
                 (\<lambda>units. set_size (size_of InitResponse_Header + Alignment_size (of_nat units)))
      | OPEN \<Rightarrow>
          if buffer_size b < size_of Response_Header then Inr conn
          else and_then (ordered_member P bsw Response_Header data ''prefix'') (\<lambda>prefix.
               if prefix = ERROR_PREFIX then set_size Error_ENCODING_SZ
               else if prefix = REPLY_PREFIX
               then and_then (ordered_member P bsw Reply_Header data ''extra_aligned_units'')
                      (\<lambda>units. set_size (Reply_DEFAULT_ENCODING_SZ + Alignment_size (of_nat units)))
               else set_size Event_ENCODING_SZ)
      | _ \<Rightarrow> Inr conn)"

subsection \<open>One message\<close>

definition event_handler :: "(nat \<rightharpoonup> event_traits) \<Rightarrow> handler" where
  "event_handler codes P conn data sz =
     map_res (\<lambda>(lg, n). (P, conn, lg, n)) (logEvent codes P conn data sz)"

definition error_handler :: "(nat \<rightharpoonup> error_traits) \<Rightarrow> handler" where
  "error_handler codes P conn data sz =
     map_res (\<lambda>(lg, n, conn'). (P, conn', lg, n)) (logError codes P conn data sz)"

definition client_message :: "client_handlers \<Rightarrow> handler" where
  "client_message H P conn data sz =
     (case conn_status conn of
        UNESTABLISHED \<Rightarrow> log_initiation H P conn data sz
      | OPEN \<Rightarrow> log_request H P conn data sz
      | _ \<Rightarrow> Inr (P, conn, [], 0))"

definition server_message :: "server_handlers \<Rightarrow> handler" where
  "server_message H P conn data sz =
     (case conn_status conn of
        UNESTABLISHED \<Rightarrow>
          and_then (log_init_response H P conn data sz) (\<lambda>(P', conn', lg, n).
          require (conn_status conn' = OPEN) (Inr (P', conn', lg, n)))
      | OPEN \<Rightarrow>
          and_then (ordered_member P (byteswap conn) Response_Header data ''prefix'') (\<lambda>prefix.
          if prefix = ERROR_PREFIX then error_handler (error_codes H) P conn data sz
          else if prefix = REPLY_PREFIX then log_reply H P conn data sz
          else event_handler (event_codes H) P conn data sz)
      | _ \<Rightarrow> Inr (P, conn, [], 0))"

subsection \<open>The loops\<close>

text \<open>The lines that \<open>--readwritedebug\<close> adds.\<close>

definition debug_line :: "parser \<Rightarrow> string \<Rightarrow> string" where
  "debug_line P s = (if readwritedebug (settings P) then s @ newline else [])"

definition waiting_no_size :: "parser \<Rightarrow> connection \<Rightarrow> string \<Rightarrow> socket_buffer \<Rightarrow> string" where
  "waiting_no_size P conn glyph b =
     debug_line P (''C'' @ fmt_zpad (fmtl P) 3 (unat (conn_id conn)) @ '':'' @ glyph @
       '': waiting on incomplete message, '' @ fmt_zpad (fmtl P) 4 (unat (unparsed b)) @
       ''B insufficent to determine length'')"

definition waiting_incomplete :: "parser \<Rightarrow> connection \<Rightarrow> string \<Rightarrow> socket_buffer \<Rightarrow> string" where
  "waiting_incomplete P conn glyph b =
     debug_line P (''C'' @ fmt_zpad (fmtl P) 3 (unat (conn_id conn)) @ '':'' @ glyph @
       '': waiting on incomplete message, received '' @ fmt_zpad (fmtl P) 4 (unat (unparsed b)) @
       '' of expected '' @ fmt_zpad (fmtl P) 4 (unat (messageSize b)) @ ''B'')"

definition parsed_line :: "parser \<Rightarrow> connection \<Rightarrow> string \<Rightarrow> size_t \<Rightarrow> string" where
  "parsed_line P conn glyph n =
     debug_line P (''C'' @ fmt_zpad (fmtl P) 3 (unat (conn_id conn)) @ '':'' @
       fmt_zpad (fmtl P) 4 (unat n) @ ''B:'' @ glyph @ '': parsed message in buffer'')"

definition must_close :: string where
  "must_close =
     ''must close connection - cannot parse messages as X11 protocol does not specify an encoding for authentication negotiation''"

datatype turn =
    Return string                                 \<comment> \<open>out of the function, with an error\<close>
  | Break connection string                       \<comment> \<open>out of the loop\<close>
  | Continue parser connection string size_t      \<comment> \<open>bytes parsed\<close>

text \<open>
  The two loops have the same shape; \<open>buf_of\<close> and \<open>set_buf\<close> select the buffer, \<open>frame\<close>
  and \<open>message\<close> are the two parts that differ.
\<close>

definition stream_turn ::
  "(connection \<Rightarrow> socket_buffer) \<Rightarrow> (socket_buffer \<Rightarrow> connection \<Rightarrow> connection) \<Rightarrow> string \<Rightarrow>
   (parser \<Rightarrow> connection \<Rightarrow> byte list \<Rightarrow> connection res) \<Rightarrow> handler \<Rightarrow>
   parser \<Rightarrow> connection \<Rightarrow> byte list \<Rightarrow> turn res"
where
  "stream_turn buf_of set_buf glyph frame message P conn data =
     (if \<not> messageSizeSet (buf_of conn) \<and> conn_status conn = AUTHENTICATION
      then Inr (Return must_close)
      else and_then (frame P conn data) (\<lambda>conn1.
        let b1 = buf_of conn1 in
        if \<not> messageSizeSet b1 then Inr (Break conn1 (waiting_no_size P conn1 glyph b1))
        else if incompleteMessage b1
        then Inr (Break conn1 (waiting_incomplete P conn1 glyph b1))
        else require (conn_status conn1 \<noteq> AUTHENTICATION) (
          and_then (message P conn1 data (messageSize b1)) (\<lambda>(P', conn2, lg, bytes).
          require (bytes = messageSize (buf_of conn2)) (
          and_then (markMessageParsed (buf_of conn2)) (\<lambda>b2.
          Inr (Continue P' (set_buf b2 conn2) (lg @ parsed_line P' conn2 glyph bytes) bytes)))))))"

fun stream_loop ::
  "nat \<Rightarrow> (connection \<Rightarrow> socket_buffer) \<Rightarrow> (parser \<Rightarrow> connection \<Rightarrow> byte list \<Rightarrow> turn res) \<Rightarrow>
   parser \<Rightarrow> connection \<Rightarrow> byte list \<Rightarrow> size_t \<Rightarrow> string \<Rightarrow>
   (parser \<times> connection \<times> size_t \<times> string \<times> string option) res option"
where
  "stream_loop 0 buf_of body P conn data tl_bytes_parsed out = None"
| "stream_loop (Suc fuel) buf_of body P conn data tl_bytes_parsed out =
     (if \<not> (parsed (buf_of conn) < buffer_size (buf_of conn))
      then Some (Inr (P, conn, tl_bytes_parsed, out, None))
      else case body P conn data of
        Inl e \<Rightarrow> Some (Inl e)
      | Inr (Return err) \<Rightarrow> Some (Inr (P, conn, tl_bytes_parsed, out, Some err))
      | Inr (Break conn' lg) \<Rightarrow> Some (Inr (P, conn', tl_bytes_parsed, out @ lg, None))
      | Inr (Continue P' conn' lg bytes) \<Rightarrow>
          stream_loop fuel buf_of body P' conn' (drop (unat bytes) data)
            (tl_bytes_parsed + bytes) (out @ lg))"

definition client_turn :: "client_handlers \<Rightarrow> parser \<Rightarrow> connection \<Rightarrow> byte list \<Rightarrow> turn res" where
  "client_turn H =
     stream_turn client_buffer (\<lambda>b c. c\<lparr>client_buffer := b\<rparr>) CLIENT_TO_SERVER client_frame
       (client_message H)"

definition server_turn :: "server_handlers \<Rightarrow> parser \<Rightarrow> connection \<Rightarrow> byte list \<Rightarrow> turn res" where
  "server_turn H =
     stream_turn server_buffer (\<lambda>b c. c\<lparr>server_buffer := b\<rparr>) SERVER_TO_CLIENT server_frame
       (server_message H)"

definition logClientMessages ::
  "nat \<Rightarrow> client_handlers \<Rightarrow> parser \<Rightarrow> connection \<Rightarrow>
   (parser \<times> connection \<times> size_t \<times> string \<times> string option) res option"
where
  "logClientMessages fuel H P conn =
     stream_loop fuel client_buffer (client_turn H) P conn (buffer_data (client_buffer conn)) 0 []"

definition logServerMessages ::
  "nat \<Rightarrow> server_handlers \<Rightarrow> parser \<Rightarrow> connection \<Rightarrow>
   (parser \<times> connection \<times> size_t \<times> string \<times> string option) res option"
where
  "logServerMessages fuel H P conn =
     stream_loop fuel server_buffer (server_turn H) P conn (buffer_data (server_buffer conn)) 0 []"

subsection \<open>Streams that are sequences of messages\<close>

text \<open>
  \<open>framed decl hdr d ns\<close>: from \<open>d\<close> on, the memory holds messages of the sizes \<open>ns\<close>, each
  of the size that its header declares and at least as long as its header (\<open>hdr\<close>).
  \<open>handle_all\<close> is what should happen to them: each is handled once, in order, from its own
  first byte.
\<close>

fun framed :: "(byte list \<Rightarrow> size_t) \<Rightarrow> (byte list \<Rightarrow> nat) \<Rightarrow> byte list \<Rightarrow> size_t list \<Rightarrow> bool" where
  "framed decl hdr d [] = True"
| "framed decl hdr d (n # ns) =
     (decl d = n \<and> hdr d \<le> unat n \<and> n \<noteq> UNKNOWN_SZ \<and> framed decl hdr (drop (unat n) d) ns)"

fun handle_all ::
  "handler \<Rightarrow> string \<Rightarrow> parser \<Rightarrow> connection \<Rightarrow> byte list \<Rightarrow> size_t list \<Rightarrow>
   (parser \<times> connection \<times> string) res"
where
  "handle_all message glyph P c d [] = Inr (P, c, [])"
| "handle_all message glyph P c d (n # ns) =
     and_then (message P c d n) (\<lambda>(P1, c1, lg, k).
     require (k = n) (
     map_res (\<lambda>(P2, c2, lg'). (P2, c2, lg @ parsed_line P1 c1 glyph n @ lg'))
       (handle_all message glyph P1 c1 (drop (unat n) d) ns)))"

definition total_size :: "size_t list \<Rightarrow> nat" where
  "total_size ns = sum_list (map unat ns)"

lemma total_size_simps [simp]:
  "total_size [] = 0"
  "total_size (n # ns) = unat n + total_size ns"
  by (simp_all add: total_size_def)

text \<open>
  The loops count in the buffer while the handlers work on the connection. A handler obeys the
  loop if, on an open connection, it does not depend on the counters of what is parsed and of
  the next size, and leaves the counters and the stream as they are. It may change bytes of the
  buffer.
\<close>

definition counters :: "size_t \<Rightarrow> size_t \<Rightarrow> socket_buffer \<Rightarrow> socket_buffer" where
  "counters p n b = b\<lparr>bp := p, nms := n\<rparr>"

lemma counters_simps [simp]:
  "buf (counters p n b) = buf b" "br (counters p n b) = br b" "bw (counters p n b) = bw b"
  "bp (counters p n b) = p" "nms (counters p n b) = n"
  "counters p n (counters p' n' b) = counters p n b"
  "counters (bp b) (nms b) b = b"
  "buffer_size (counters p n b) = buffer_size b"
  by (simp_all add: counters_def buffer_size_def)

definition same_place :: "socket_buffer \<Rightarrow> socket_buffer \<Rightarrow> bool" where
  "same_place b b' \<longleftrightarrow> br b' = br b \<and> bw b' = bw b \<and> bp b' = bp b \<and> nms b' = nms b \<and>
     length (buf b') = length (buf b)"

lemma same_place_simps [simp]:
  "same_place b b"
  "same_place (counters p n b) (counters p' n' b') \<longleftrightarrow>
     p' = p \<and> n' = n \<and> same_place (counters p n b) (counters p n b')"
  by (auto simp: same_place_def)

lemma same_place_trans: "same_place b b' \<Longrightarrow> same_place b' b'' \<Longrightarrow> same_place b b''"
  by (simp add: same_place_def)

lemma same_place_counters:
  "same_place b b' \<Longrightarrow> same_place (counters p n b) (counters p n b')"
  by (simp add: same_place_def)

lemma same_place_wf: "same_place b b' \<Longrightarrow> wf_buffer b' = wf_buffer b"
  by (simp add: same_place_def wf_buffer_def)

lemma same_place_sizes:
  assumes "same_place b b'"
  shows "buffer_size b' = buffer_size b" "unparsed b' = unparsed b" "parsed b' = parsed b"
    "messageSizeSet b' = messageSizeSet b" "bp b' = bp b" "nms b' = nms b"
  using assms
  by (simp_all add: same_place_def buffer_size_def unparsed_def parsed_def messageSizeSet_def)

definition obeys ::
  "(connection \<Rightarrow> socket_buffer) \<Rightarrow> (socket_buffer \<Rightarrow> connection \<Rightarrow> connection) \<Rightarrow> handler \<Rightarrow> bool"
where
  "obeys buf_of set_buf h \<longleftrightarrow>
     (\<forall>P c d n p m. conn_status c = OPEN \<longrightarrow> h P (set_buf (counters p m (buf_of c)) c) d n =
        map_res (\<lambda>(P', c', t, k). (P', set_buf (counters p m (buf_of c')) c', t, k)) (h P c d n)) \<and>
     (\<forall>P c d n P' c' t k. conn_status c = OPEN \<longrightarrow> h P c d n = Inr (P', c', t, k) \<longrightarrow>
        conn_status c' = conn_status c \<and> byteswap c' = byteswap c \<and>
        little_endian P' = little_endian P \<and> same_place (buf_of c) (buf_of c'))"

lemma obeysD:
  assumes "obeys buf_of set_buf h" and "conn_status c = OPEN"
  shows "h P (set_buf (counters p m (buf_of c)) c) d n =
      map_res (\<lambda>(P', c', t, k). (P', set_buf (counters p m (buf_of c')) c', t, k)) (h P c d n)"
    and "h P c d n = Inr (P', c', t, k) \<Longrightarrow> conn_status c' = conn_status c"
    and "h P c d n = Inr (P', c', t, k) \<Longrightarrow> byteswap c' = byteswap c"
    and "h P c d n = Inr (P', c', t, k) \<Longrightarrow> little_endian P' = little_endian P"
    and "h P c d n = Inr (P', c', t, k) \<Longrightarrow> same_place (buf_of c) (buf_of c')"
  using assms unfolding obeys_def by blast+

lemma unparsed_content: "wf_buffer b \<Longrightarrow> bp b = 0 \<Longrightarrow> unat (unparsed b) = length (content b)"
  by (simp add: unat_unparsed length_content)

lemma content_le_data: "wf_buffer b \<Longrightarrow> length (content b) \<le> length (buffer_data b)"
  by (simp add: length_content buffer_data_def) (simp add: wf_buffer_def diff_le_mono)

locale message_stream =
  fixes buf_of :: "connection \<Rightarrow> socket_buffer"
    and set_buf :: "socket_buffer \<Rightarrow> connection \<Rightarrow> connection"
    and glyph :: string
    and frame :: "parser \<Rightarrow> connection \<Rightarrow> byte list \<Rightarrow> connection res"
    and message :: handler
    and declared :: "bool \<Rightarrow> bool \<Rightarrow> byte list \<Rightarrow> size_t"
    and hdr :: "byte list \<Rightarrow> nat"
  assumes buf_of_set [simp]: "buf_of (set_buf b c) = b"
    and set_set [simp]: "set_buf b (set_buf b' c) = set_buf b c"
    and set_self [simp]: "set_buf (buf_of c) c = c"
    and set_other [simp]: "conn_status (set_buf b c) = conn_status c"
      "byteswap (set_buf b c) = byteswap c" "conn_id (set_buf b c) = conn_id c"
    and hdr_pos: "0 < hdr d"
    and frame_law: "conn_status c = OPEN \<Longrightarrow> \<not> messageSizeSet (buf_of c) \<Longrightarrow>
      hdr d \<le> unat (buffer_size (buf_of c)) \<Longrightarrow> hdr d \<le> length d \<Longrightarrow>
      declared (little_endian P) (byteswap c) d \<noteq> UNKNOWN_SZ \<Longrightarrow>
      frame P c d = Inr (set_buf ((buf_of c)\<lparr>nms := declared (little_endian P) (byteswap c) d\<rparr>) c)"
    and frame_known: "messageSizeSet (buf_of c) \<Longrightarrow> frame P c d = Inr c"
    and message_obeys: "obeys buf_of set_buf message"
begin

definition turn :: "parser \<Rightarrow> connection \<Rightarrow> byte list \<Rightarrow> turn res" where
  "turn = stream_turn buf_of set_buf glyph frame message"

lemma parsed_line_set [simp]: "parsed_line P (set_buf b c) glyph n = parsed_line P c glyph n"
  by (simp add: parsed_line_def)

lemma handle_all_counters:
  "conn_status c = OPEN \<Longrightarrow> handle_all message glyph P (set_buf (counters p m (buf_of c)) c) d ns =
   map_res (\<lambda>(P', c', t). (P', set_buf (counters p m (buf_of c')) c', t))
     (handle_all message glyph P c d ns)"
proof (induction ns arbitrary: P c d)
  case (Cons n ns)
  show ?case
  proof (cases "message P c d n")
    case (Inr r)
    obtain P1 c1 t k where r: "r = (P1, c1, t, k)"
      by (cases r)
    have "message P (set_buf (counters p m (buf_of c)) c) d n =
        Inr (P1, set_buf (counters p m (buf_of c1)) c1, t, k)"
      using Inr r obeysD(1) [OF message_obeys Cons.prems] by simp
    moreover have "conn_status c1 = OPEN"
      using Inr r obeysD(2) [OF message_obeys Cons.prems] Cons.prems by simp
    ultimately show ?thesis
      using Inr r Cons.IH [where P = P1 and c = c1 and d = "drop (unat n) d"]
      by (cases "handle_all message glyph P1 c1 (drop (unat n) d) ns"; cases "k = n") auto
  qed (use obeysD(1) [OF message_obeys Cons.prems] in simp)
qed simp

lemma handle_all_place:
  "conn_status c = OPEN \<Longrightarrow> handle_all message glyph P c d ns = Inr (P', c', t) \<Longrightarrow>
   same_place (buf_of c) (buf_of c')"
proof (induction ns arbitrary: P c d t)
  case (Cons n ns)
  from Cons.prems(2) obtain P1 c1 t1 t2 where
    msg: "message P c d n = Inr (P1, c1, t1, n)"
    and rest: "handle_all message glyph P1 c1 (drop (unat n) d) ns = Inr (P', c', t2)"
    by (auto simp: and_then_eq_Inr map_res_eq_Inr)
  note same = obeysD(2,5) [OF message_obeys Cons.prems(1) msg]
  show ?case
    using same_place_trans [OF same(2)] Cons.IH [OF _ rest] same(1) Cons.prems(1) by simp
qed simp

text \<open>One turn over a complete message whose size is not known yet.\<close>

lemma turn_message:
  assumes opened: "conn_status c = OPEN" and wf: "wf_buffer (buf_of c)"
    and unset: "\<not> messageSizeSet (buf_of c)"
    and decl: "declared (little_endian P) (byteswap c) d = n" "hdr d \<le> unat n" "n \<noteq> UNKNOWN_SZ"
    and avail: "unat n \<le> unat (unparsed (buf_of c))" "unat n \<le> length d"
    and msg: "message P c d n = Inr (P1, c1, lg, n)"
  shows "turn P c d = Inr (Continue P1
      (set_buf (counters (bp (buf_of c) + n) UNKNOWN_SZ (buf_of c1)) c1)
      (lg @ parsed_line P1 c1 glyph n) n)"
proof -
  let ?b = "buf_of c" and ?b1 = "counters (bp (buf_of c)) n (buf_of c1)"
  let ?c = "set_buf (counters (bp ?b) n ?b) c"
  have sz: "unat (buffer_size ?b) = unat (br ?b) - unat (bw ?b)"
    and up: "unat (unparsed ?b) = unat (br ?b) - unat (bw ?b) - unat (bp ?b)"
    using wf by (simp_all add: unat_buffer_size unat_unparsed)
  have "frame P c d = Inr ?c"
    using frame_law [OF opened unset] decl avail sz up by (simp add: counters_def)
  moreover have "messageSizeSet (counters (bp ?b) n ?b)"
    using decl(3) by (simp add: messageSizeSet_def)
  moreover have "\<not> incompleteMessage (counters (bp ?b) n ?b)"
    using avail decl(3)
    by (simp add: incompleteMessage_def messageSizeSet_def messageSize_def unparsed_def
      buffer_size_def word_less_nat_alt)
  moreover have "message P ?c d n = Inr (P1, set_buf ?b1 c1, lg, n)"
    using msg obeysD(1) [OF message_obeys opened] by simp
  moreover have "markMessageParsed ?b1 = Inr (counters (bp ?b + n) UNKNOWN_SZ (buf_of c1))"
  proof -
    have "unat (bp ?b) + unat n \<le> unat (buffer_size ?b)"
      using avail(1) up sz wf by (auto simp: wf_buffer_def)
    then have "bp ?b + n \<le> buffer_size ?b"
      using unsigned_less [of "buffer_size ?b"] by (simp add: word_le_nat_alt unat_word_ariths)
    moreover have "buffer_size (buf_of c1) = buffer_size ?b"
      using same_place_sizes(1) [OF obeysD(5) [OF message_obeys opened msg]] .
    ultimately show ?thesis
      using decl(3) by (simp add: markMessageParsed_def messageSizeSet_def counters_def buffer_size_def)
  qed
  ultimately show ?thesis
    using opened by (simp add: turn_def stream_turn_def messageSize_def Let_def)
qed

lemma loop_messages:
  assumes "conn_status c = OPEN" and "wf_buffer (buf_of c)" and "\<not> messageSizeSet (buf_of c)"
    and "framed (declared (little_endian P) (byteswap c)) hdr d ns"
    and "total_size ns \<le> unat (unparsed (buf_of c))" and "total_size ns \<le> length d"
    and "handle_all message glyph P c d ns = Inr (P', c', lg)"
  shows "stream_loop (length ns + fuel) buf_of turn P c d tot out =
    stream_loop fuel buf_of turn P'
      (set_buf (counters (bp (buf_of c) + of_nat (total_size ns)) UNKNOWN_SZ (buf_of c')) c')
      (drop (total_size ns) d) (tot + of_nat (total_size ns)) (out @ lg)"
  using assms
proof (induction ns arbitrary: P c d tot out lg c')
  case Nil
  then have "nms (buf_of c) = UNKNOWN_SZ"
    by (simp add: messageSizeSet_def)
  then have "counters (bp (buf_of c)) UNKNOWN_SZ (buf_of c) = buf_of c"
    by (metis counters_simps(7))
  then show ?case
    using Nil by simp
next
  case (Cons n ns)
  let ?b = "buf_of c"
  from Cons.prems(7) obtain P1 c1 t lg' where
    msg: "message P c d n = Inr (P1, c1, t, n)"
    and rest: "handle_all message glyph P1 c1 (drop (unat n) d) ns = Inr (P', c', lg')"
    and lg: "lg = t @ parsed_line P1 c1 glyph n @ lg'"
    by (auto simp: and_then_eq_Inr map_res_eq_Inr)
  have n: "declared (little_endian P) (byteswap c) d = n" "hdr d \<le> unat n" "n \<noteq> UNKNOWN_SZ"
    using Cons.prems(4) by simp_all
  let ?b1 = "counters (bp ?b + n) UNKNOWN_SZ (buf_of c1)"
  have same: "conn_status c1 = OPEN" "byteswap c1 = byteswap c" "little_endian P1 = little_endian P"
    and place: "same_place ?b (buf_of c1)"
    using obeysD(2-5) [OF message_obeys Cons.prems(1) msg] Cons.prems(1) by simp_all
  have up: "unat (unparsed ?b) = unat (br ?b) - unat (bw ?b) - unat (bp ?b)"
    using Cons.prems(2) by (rule unat_unparsed)
  then have sum: "unat (bp ?b) + unat n \<le> unat (br ?b) - unat (bw ?b)"
    using Cons.prems(2,5) by (auto simp: wf_buffer_def)
  then have bp1: "unat (bp ?b + n) = unat (bp ?b) + unat n"
    using wf_bounds [OF Cons.prems(2)] by (simp add: unat_word_ariths)
  have wf1: "wf_buffer ?b1"
    using Cons.prems(2) sum bp1 place by (auto simp: wf_buffer_def same_place_def)
  have up1: "unat (unparsed ?b1) = unat (unparsed ?b) - unat n"
    using unat_unparsed [OF wf1] up place by (simp add: bp1 same_place_def)
  have "0 < unat n"
    using n(2) hdr_pos [of d] by linarith
  then have more: "parsed ?b < buffer_size ?b"
    using sum Cons.prems(2) by (simp add: parsed_def word_less_nat_alt unat_buffer_size)
  have step: "turn P c d = Inr (Continue P1 (set_buf ?b1 c1) (t @ parsed_line P1 c1 glyph n) n)"
    using Cons.prems(1-3,5,6) n msg by (intro turn_message) simp_all
  have "stream_loop (length ns + fuel) buf_of turn P1 (set_buf ?b1 c1) (drop (unat n) d) (tot + n)
        (out @ t @ parsed_line P1 c1 glyph n) =
      stream_loop fuel buf_of turn P'
        (set_buf (counters (bp ?b1 + of_nat (total_size ns)) UNKNOWN_SZ
            (buf_of (set_buf (counters (bp ?b1) UNKNOWN_SZ (buf_of c')) c')))
          (set_buf (counters (bp ?b1) UNKNOWN_SZ (buf_of c')) c'))
        (drop (total_size ns) (drop (unat n) d)) (tot + n + of_nat (total_size ns))
        ((out @ t @ parsed_line P1 c1 glyph n) @ lg')"
    using Cons.IH [where c = "set_buf ?b1 c1" and P = P1 and d = "drop (unat n) d" and lg = lg'
        and c' = "set_buf (counters (bp ?b1) UNKNOWN_SZ (buf_of c')) c'" and tot = "tot + n"
        and out = "out @ t @ parsed_line P1 c1 glyph n"]
      same wf1 up1 Cons.prems(4-6) rest
    by (simp add: messageSizeSet_def handle_all_counters)
  then show ?case
    using step more by (simp add: lg add.assoc add.commute [of "total_size ns"])
qed

text \<open>The loop on a buffer in which nothing is parsed yet and that holds whole messages only.\<close>

lemma loop_whole:
  assumes opened: "conn_status c = OPEN"
    and buffer: "wf_buffer (buf_of c)" "bp (buf_of c) = 0" "nms (buf_of c) = UNKNOWN_SZ"
    and framed: "framed (declared (little_endian P) (byteswap c)) hdr (buffer_data (buf_of c)) ns"
    and all: "total_size ns = length (content (buf_of c))"
    and handled: "handle_all message glyph P c (buffer_data (buf_of c)) ns = Inr (P', c', lg)"
  shows "stream_loop (length ns + Suc fuel) buf_of turn P c (buffer_data (buf_of c)) 0 [] =
    Some (Inr (P', set_buf (counters (buffer_size (buf_of c)) UNKNOWN_SZ (buf_of c')) c',
      buffer_size (buf_of c), lg, None))"
proof -
  let ?b = "buf_of c"
  have "total_size ns = unat (buffer_size ?b)"
    using all length_content [OF buffer(1)] unat_buffer_size [OF buffer(1)] by simp
  then have size: "of_nat (total_size ns) = buffer_size ?b"
    by simp
  have up: "unat (unparsed ?b) = total_size ns"
    using all unparsed_content [OF buffer(1,2)] by simp
  have "stream_loop (length ns + Suc fuel) buf_of turn P c (buffer_data ?b) 0 [] =
      stream_loop (Suc fuel) buf_of turn P'
        (set_buf (counters (bp ?b + of_nat (total_size ns)) UNKNOWN_SZ (buf_of c')) c')
        (drop (total_size ns) (buffer_data ?b)) (0 + of_nat (total_size ns)) ([] @ lg)"
    using loop_messages [OF opened buffer(1) _ framed _ _ handled, of "Suc fuel" 0 "[]"]
      buffer up content_le_data [OF buffer(1)] all
    by (simp add: messageSizeSet_def)
  moreover have "buffer_size (buf_of c') = buffer_size ?b"
    using handle_all_place [OF opened handled] by (rule same_place_sizes)
  ultimately show ?thesis
    using buffer(2) by (simp add: size parsed_def)
qed

end

subsection \<open>The stream of a server\<close>

definition server_declared :: "bool \<Rightarrow> bool \<Rightarrow> byte list \<Rightarrow> size_t" where
  \<comment> \<open>what the first bytes of a message say of its size\<close>
  "server_declared le bsw d =
     (if hd d = 1
      then 32 + 4 * of_nat (ordered 4 bsw (host_val le (take 4 (drop 4 d))))
      else 32)"

definition server_hdr :: "byte list \<Rightarrow> nat" where
  "server_hdr d = (if hd d = 1 then 8 else 4)"

lemma Response_prefix:
  "d \<noteq> [] \<Longrightarrow> ordered_member P bsw Response_Header d ''prefix'' = Inr (unat (hd d))"
  by (rule ordered_member_first) (simp_all add: Response_Header_def)

lemma Reply_units:
  "8 \<le> length d \<Longrightarrow> ordered_member P bsw Reply_Header d ''extra_aligned_units'' =
     Inr (ordered 4 bsw (host_val (little_endian P) (take 4 (drop 4 d))))"
proof -
  have "field_at Reply_Header ''extra_aligned_units'' = Some (4, CARD32)"
    by (simp add: Reply_Header_def)
  then show ?thesis if "8 \<le> length d"
    using that by (simp add: ordered_member_def load_member_def load_ok)
qed

lemma size_of_headers [simp]:
  "size_of Response_Header = 4"
  "size_of Request_Prefix + size_of Request_Length = 4"
  "size_of Request_Prefix + size_of Request_BigLength = 8"
  by (simp_all add: size_of_def Response_Header_def Request_Prefix_def Request_Length_def
    Request_BigLength_def)

lemma unat_byte_eq: "unat (x :: byte) = n \<longleftrightarrow> x = of_nat n \<and> n < 256"
  using unsigned_less [of x] by (auto simp: unat_of_nat take_bit_nat_def)

lemma server_frame_law:
  assumes "conn_status c = OPEN" "\<not> messageSizeSet (server_buffer c)"
    and "server_hdr d \<le> unat (buffer_size (server_buffer c))" "server_hdr d \<le> length d"
    and "server_declared (little_endian P) (byteswap c) d \<noteq> UNKNOWN_SZ"
  shows "server_frame P c d = Inr (c\<lparr>server_buffer :=
    (server_buffer c)\<lparr>nms := server_declared (little_endian P) (byteswap c) d\<rparr>\<rparr>)"
proof -
  let ?n = "server_declared (little_endian P) (byteswap c) d"
  have "4 \<le> server_hdr d"
    by (simp add: server_hdr_def)
  then have enough: "\<not> buffer_size (server_buffer c) < 4" and d: "d \<noteq> []"
    using assms(3,4) by (auto simp: word_less_nat_alt)
  have set: "setMessageSize ?n (server_buffer c) = Inr ((server_buffer c)\<lparr>nms := ?n\<rparr>)"
    using assms(2,5) by (simp add: setMessageSize_def)
  note frame = server_frame_def Let_def assms(1,2) enough Response_prefix [OF d]
  consider "hd d = 0" | "hd d = 1" | "hd d \<noteq> 0" "hd d \<noteq> 1"
    by blast
  then show ?thesis
  proof cases
    case 1
    then have "?n = Error_ENCODING_SZ"
      by (simp add: server_declared_def Error_ENCODING_SZ_def)
    with 1 set show ?thesis
      by (simp add: frame ERROR_PREFIX_def)
  next
    case 2
    then have "8 \<le> length d"
      using assms(4) by (simp add: server_hdr_def)
    moreover have "?n = Reply_DEFAULT_ENCODING_SZ +
        Alignment_size (of_nat (ordered 4 (byteswap c) (host_val (little_endian P) (take 4 (drop 4 d)))))"
      using 2 by (simp add: server_declared_def Reply_DEFAULT_ENCODING_SZ_def Alignment_size_def
        ALIGN_def mult.commute)
    ultimately show ?thesis
      using 2 set by (simp add: frame ERROR_PREFIX_def REPLY_PREFIX_def Reply_units)
  next
    case 3
    then have "unat (hd d) \<noteq> ERROR_PREFIX" "unat (hd d) \<noteq> REPLY_PREFIX"
      by (simp_all add: ERROR_PREFIX_def REPLY_PREFIX_def unat_byte_eq)
    moreover have "?n = Event_ENCODING_SZ"
      using 3 by (simp add: server_declared_def Event_ENCODING_SZ_def)
    ultimately show ?thesis
      using set by (simp add: frame)
  qed
qed

lemma server_frame_known: "messageSizeSet (server_buffer c) \<Longrightarrow> server_frame P c d = Inr c"
  by (simp add: server_frame_def Let_def)

lemma logEvent_conn:
  assumes "byteswap c = byteswap c'" and "conn_id c = conn_id c'"
  shows "logEvent core_events P c d n = logEvent core_events P c' d n"
proof -
  have "parseEvent core_events P c d n ws = parseEvent core_events P c' d n ws" for ws
    using core_event_conn [OF _ assms(1)] assms(1)
    by (auto simp: parseEvent_def lookup_at_def require_def intro!: and_then_cong split: option.splits)
  then show ?thesis
    using assms by (simp add: logEvent_def message_prefix_def Let_def)
qed

lemma obeys_event_handler:
  "obeys server_buffer (\<lambda>b c. c\<lparr>server_buffer := b\<rparr>) (event_handler core_events)"
proof -
  have "logEvent core_events P (c\<lparr>server_buffer := b\<rparr>) d n = logEvent core_events P c d n" for P b c d n
    by (intro logEvent_conn) simp_all
  then show ?thesis
    by (simp add: obeys_def event_handler_def map_res_eq_Inr)
      (auto simp: map_res_def and_then_def split: sum.splits)
qed

lemma obeys_error_handler:
  "obeys server_buffer (\<lambda>b c. c\<lparr>server_buffer := b\<rparr>) (error_handler core_errors)"
proof -
  have parse: "error_parse_func tr P (c\<lparr>server_buffer := b\<rparr>) d n = error_parse_func tr P c d n"
    if "core_errors code = Some tr" for code tr P c b d n
    using that by (rule core_error_conn) simp
  have "logError core_errors P (c\<lparr>server_buffer := counters p m (server_buffer c)\<rparr>) d n =
      map_res (\<lambda>(t, k, c'). (t, k, c'\<lparr>server_buffer := counters p m (server_buffer c')\<rparr>))
        (logError core_errors P c d n)" for P p m c d n
    using parse
    by (auto simp: logError_def Let_def require_def lookup_at_def message_prefix_def
        and_then_def map_res_def unregisterRequest_def split: sum.splits option.splits)
  then show ?thesis
    by (auto simp: obeys_def error_handler_def map_res_eq_Inr map_res_def and_then_def
        logError_def Let_def require_def unregisterRequest_def split: sum.splits if_splits)
qed

interpretation events: message_stream
  server_buffer "\<lambda>b c. c\<lparr>server_buffer := b\<rparr>" SERVER_TO_CLIENT server_frame
  "event_handler core_events" server_declared server_hdr
  by unfold_locales
    (simp_all add: server_hdr_def server_frame_law server_frame_known obeys_event_handler)

interpretation errors: message_stream
  server_buffer "\<lambda>b c. c\<lparr>server_buffer := b\<rparr>" SERVER_TO_CLIENT server_frame
  "error_handler core_errors" server_declared server_hdr
  by unfold_locales
    (simp_all add: server_hdr_def server_frame_law server_frame_known obeys_error_handler)


text \<open>All the messages of an open connection, if the reply parsers are as good.\<close>

lemma obeys_server_message:
  assumes "obeys server_buffer (\<lambda>b c. c\<lparr>server_buffer := b\<rparr>) (log_reply H)"
    and "event_codes H = core_events" and "error_codes H = core_errors"
  shows "obeys server_buffer (\<lambda>b c. c\<lparr>server_buffer := b\<rparr>) (server_message H)"
proof -
  note laws = assms(1) obeys_event_handler obeys_error_handler
  show ?thesis
    unfolding obeys_def
  proof (intro conjI allI impI)
    fix P d n p m and c :: connection
    assume o: "conn_status c = OPEN"
    show "server_message H P (c\<lparr>server_buffer := counters p m (server_buffer c)\<rparr>) d n =
        map_res (\<lambda>(P', c', t, k). (P', c'\<lparr>server_buffer := counters p m (server_buffer c')\<rparr>, t, k))
          (server_message H P c d n)"
      using laws [THEN obeysD(1), OF o] o assms(2,3)
      by (cases "ordered_member P (byteswap c) Response_Header d ''prefix''")
        (simp_all add: server_message_def)
  next
    fix P d n P' t k and c c' :: connection
    assume o: "conn_status c = OPEN" and m: "server_message H P c d n = Inr (P', c', t, k)"
    then obtain h where "h \<in> {log_reply H, event_handler core_events, error_handler core_errors}"
      and h: "h P c d n = Inr (P', c', t, k)"
      using assms(2,3) by (auto simp: server_message_def and_then_eq_Inr split: if_splits)
    then have "obeys server_buffer (\<lambda>b c. c\<lparr>server_buffer := b\<rparr>) h"
      using laws by auto
    from obeysD(2-5) [OF this o h]
    show "conn_status c' = conn_status c" "byteswap c' = byteswap c"
      "little_endian P' = little_endian P" "same_place (server_buffer c) (server_buffer c')" .
  qed
qed

lemma server_messages:
  assumes "obeys server_buffer (\<lambda>b c. c\<lparr>server_buffer := b\<rparr>) (log_reply H)"
    and "event_codes H = core_events" and "error_codes H = core_errors"
  shows "message_stream server_buffer (\<lambda>b c. c\<lparr>server_buffer := b\<rparr>) server_frame
    (server_message H) server_declared server_hdr"
  using obeys_server_message [OF assms]
  by unfold_locales (simp_all add: server_hdr_def server_frame_law server_frame_known)

lemma logServerMessages_whole:
  assumes obeys: "obeys server_buffer (\<lambda>b c. c\<lparr>server_buffer := b\<rparr>) (log_reply H)"
    and tables: "event_codes H = core_events" "error_codes H = core_errors"
    and conn: "conn_status c = OPEN" "server_buffer c = b"
    and buffer: "wf_buffer b" "bp b = 0" "nms b = UNKNOWN_SZ"
    and framed: "framed (server_declared (little_endian P) (byteswap c)) server_hdr (buffer_data b) ns"
    and all: "total_size ns = length (content b)"
    and handled: "handle_all (server_message H) SERVER_TO_CLIENT P c (buffer_data b) ns = Inr (P', c', lg)"
  shows "logServerMessages (length ns + Suc fuel) H P c =
    Some (Inr (P', c'\<lparr>server_buffer := counters (buffer_size b) UNKNOWN_SZ (server_buffer c')\<rparr>,
      buffer_size b, lg, None))"
proof -
  note stream = server_messages [OF obeys tables]
  have "message_stream.turn server_buffer (\<lambda>b c. c\<lparr>server_buffer := b\<rparr>) SERVER_TO_CLIENT
      server_frame (server_message H) = server_turn H"
    by (simp add: message_stream.turn_def [OF stream] server_turn_def)
  then show ?thesis
    using message_stream.loop_whole [OF stream conn(1), of P ns SERVER_TO_CLIENT P' c' lg fuel]
      conn(2) buffer framed all handled
    by (simp add: logServerMessages_def)
qed

subsection \<open>The stream of a client\<close>

definition big_length :: "byte list \<Rightarrow> bool" where
  \<comment> \<open>whether the 16-bit length of a request is 0 and a 32-bit length follows\<close>
  "big_length d = (d ! 2 = 0 \<and> d ! 3 = 0)"

definition client_declared :: "bool \<Rightarrow> bool \<Rightarrow> byte list \<Rightarrow> size_t" where
  "client_declared le bsw d =
     (if big_length d then 4 * of_nat (ordered 4 bsw (host_val le (take 4 (drop 4 d))))
      else 4 * of_nat (ordered 2 bsw (host_val le (take 2 (drop 2 d)))))"

definition client_hdr :: "byte list \<Rightarrow> nat" where
  "client_hdr d = (if big_length d then 8 else 4)"

lemma Request_units:
  assumes "4 \<le> length d"
  shows "ordered_member P bsw Request_Length (drop (sizeof Request_Prefix) d) ''tl_aligned_units'' =
      Inr (ordered 2 bsw (host_val (little_endian P) (take 2 (drop 2 d))))"
    and "8 \<le> length d \<Longrightarrow>
      ordered_member P bsw Request_BigLength (drop (sizeof Request_Prefix) d) ''tl_aligned_units'' =
      Inr (ordered 4 bsw (host_val (little_endian P) (take 4 (drop 4 d))))"
    and "ordered_member P bsw Request_BigLength (drop (sizeof Request_Prefix) d) ''extended_length_flag'' =
      Inr (ordered 2 bsw (host_val (little_endian P) (take 2 (drop 2 d))))"
proof -
  have at: "field_at Request_Length ''tl_aligned_units'' = Some (0, CARD16)"
    "field_at Request_BigLength ''tl_aligned_units'' = Some (2, CARD32)"
    "field_at Request_BigLength ''extended_length_flag'' = Some (0, CARD16)"
    by (simp_all add: Request_Length_def Request_BigLength_def)
  have "sizeof Request_Prefix = 2"
    by (simp add: Request_Prefix_def)
  then show "ordered_member P bsw Request_Length (drop (sizeof Request_Prefix) d) ''tl_aligned_units'' =
      Inr (ordered 2 bsw (host_val (little_endian P) (take 2 (drop 2 d))))"
    "8 \<le> length d \<Longrightarrow>
      ordered_member P bsw Request_BigLength (drop (sizeof Request_Prefix) d) ''tl_aligned_units'' =
      Inr (ordered 4 bsw (host_val (little_endian P) (take 4 (drop 4 d))))"
    "ordered_member P bsw Request_BigLength (drop (sizeof Request_Prefix) d) ''extended_length_flag'' =
      Inr (ordered 2 bsw (host_val (little_endian P) (take 2 (drop 2 d))))"
    using assms at by (simp_all add: ordered_member_def load_member_def load_ok)
qed

lemma extended_flag:
  assumes "4 \<le> length d"
  shows "host_val le (take 2 (drop 2 d)) = EXTENDED_LENGTH_FLAG \<longleftrightarrow> big_length d"
proof -
  obtain a b c e r where "d = a # b # c # e # r"
    using assms by (cases d rule: list.exhaust; auto simp: Suc_le_length_iff numeral_eq_Suc)
  then show ?thesis
    by (cases le) (auto simp: big_length_def EXTENDED_LENGTH_FLAG_def host_val_def unat_eq_0 ordered_def)
qed

lemma client_frame_law:
  assumes "conn_status c = OPEN" "\<not> messageSizeSet (client_buffer c)"
    and "client_hdr d \<le> unat (buffer_size (client_buffer c))" "client_hdr d \<le> length d"
    and "client_declared (little_endian P) (byteswap c) d \<noteq> UNKNOWN_SZ"
  shows "client_frame P c d = Inr (c\<lparr>client_buffer :=
    (client_buffer c)\<lparr>nms := client_declared (little_endian P) (byteswap c) d\<rparr>\<rparr>)"
proof -
  let ?n = "client_declared (little_endian P) (byteswap c) d"
  have "4 \<le> client_hdr d"
    by (simp add: client_hdr_def)
  then have enough: "\<not> buffer_size (client_buffer c) < 4" and len: "4 \<le> length d"
    using assms(3,4) by (auto simp: word_less_nat_alt)
  have set: "setMessageSize ?n (client_buffer c) = Inr ((client_buffer c)\<lparr>nms := ?n\<rparr>)"
    using assms(2,5) by (simp add: setMessageSize_def)
  note frame = client_frame_def Let_def assms(1,2) enough Request_units [OF len]
    extended_flag [OF len] Alignment_size_def ALIGN_def mult.commute [of "_ :: 64 word" 4]
  show ?thesis
  proof (cases "big_length d")
    case True
    then have "8 \<le> length d" "\<not> buffer_size (client_buffer c) < 8"
      using assms(3,4) by (auto simp: client_hdr_def word_less_nat_alt)
    with True set show ?thesis
      by (simp add: frame client_declared_def)
  next
    case False
    with set show ?thesis
      by (simp add: frame client_declared_def)
  qed
qed

lemma client_frame_known: "messageSizeSet (client_buffer c) \<Longrightarrow> client_frame P c d = Inr c"
  by (simp add: client_frame_def Let_def)

lemma client_messages:
  assumes "obeys client_buffer (\<lambda>b c. c\<lparr>client_buffer := b\<rparr>) (log_request H)"
  shows "message_stream client_buffer (\<lambda>b c. c\<lparr>client_buffer := b\<rparr>) client_frame
    (client_message H) client_declared client_hdr"
proof -
  have "obeys client_buffer (\<lambda>b c. c\<lparr>client_buffer := b\<rparr>) (client_message H)"
    using assms by (simp add: obeys_def client_message_def)
  then show ?thesis
    by unfold_locales (simp_all add: client_hdr_def client_frame_law client_frame_known)
qed

lemma logClientMessages_whole:
  assumes obeys: "obeys client_buffer (\<lambda>b c. c\<lparr>client_buffer := b\<rparr>) (log_request H)"
    and conn: "conn_status c = OPEN" "client_buffer c = b"
    and buffer: "wf_buffer b" "bp b = 0" "nms b = UNKNOWN_SZ"
    and framed: "framed (client_declared (little_endian P) (byteswap c)) client_hdr (buffer_data b) ns"
    and all: "total_size ns = length (content b)"
    and handled: "handle_all (client_message H) CLIENT_TO_SERVER P c (buffer_data b) ns = Inr (P', c', lg)"
  shows "logClientMessages (length ns + Suc fuel) H P c =
    Some (Inr (P', c'\<lparr>client_buffer := counters (buffer_size b) UNKNOWN_SZ (client_buffer c')\<rparr>,
      buffer_size b, lg, None))"
proof -
  note stream = client_messages [OF obeys]
  have "message_stream.turn client_buffer (\<lambda>b c. c\<lparr>client_buffer := b\<rparr>) CLIENT_TO_SERVER
      client_frame (client_message H) = client_turn H"
    by (simp add: message_stream.turn_def [OF stream] client_turn_def)
  then show ?thesis
    using message_stream.loop_whole [OF stream conn(1), of P ns CLIENT_TO_SERVER P' c' lg fuel]
      conn(2) buffer framed all handled
    by (simp add: logClientMessages_def)
qed

end
