(* ===== verification/Requests.thy ===== *)
theory Requests
  imports ReplyCodec Streams
begin

text \<open>
  The table of core requests (\<open>X11ProtocolParser__core_requests.cpp\<close>), the table of
  extensions (\<open>X11ProtocolParser__extensions.cpp\<close>), and the handlers that print a request or
  a reply with its log line (\<open>_logRequest\<close>, \<open>_logReply\<close> of \<open>X11ProtocolParser.cpp\<close>);
  at the end the constructor of the parser and the atoms it knows.

  All parsers in the tables have one type in the code, a pointer to a member function; the ones
  that change nothing (\<open>reading\<close>) or only the parser (\<open>stashing\<close>) are lifted to it here.
\<close>

type_synonym message_parser =
  "parser \<Rightarrow> connection \<Rightarrow> byte list \<Rightarrow> size_t \<Rightarrow> (parser \<times> connection \<times> parsing_outputs) res"

definition reading ::
  "(parser \<Rightarrow> connection \<Rightarrow> byte list \<Rightarrow> size_t \<Rightarrow> parsing_outputs res) \<Rightarrow> message_parser"
where
  "reading f P conn data sz = map_res (\<lambda>out. (P, conn, out)) (f P conn data sz)"

definition stashing ::
  "(parser \<Rightarrow> connection \<Rightarrow> byte list \<Rightarrow> size_t \<Rightarrow> (parser \<times> parsing_outputs) res) \<Rightarrow>
   message_parser"
where
  "stashing f P conn data sz = map_res (\<lambda>(P', out). (P', conn, out)) (f P conn data sz)"

record request_traits =
  request_name :: string
  request_parse_func :: message_parser
  reply_parse_func :: "message_parser option"

subsection \<open>The tables\<close>

definition core_request :: "nat \<Rightarrow> message_parser \<Rightarrow> message_parser option \<Rightarrow> request_traits" where
  "core_request code f g =
     \<lparr>request_name = request_names ! code, request_parse_func = f, reply_parse_func = g\<rparr>"

text \<open>\<open>SendEvent\<close> uses the table of events, which extensions may add to: \<open>codes\<close>.\<close>

definition core_request_table :: "(nat \<rightharpoonup> event_traits) \<Rightarrow> (nat \<times> request_traits) list" where
  "core_request_table codes =
     [(CREATEWINDOW, core_request CREATEWINDOW (reading parseRequest_CreateWindow) None),
      (CHANGEWINDOWATTRIBUTES, core_request CHANGEWINDOWATTRIBUTES (reading parseRequest_ChangeWindowAttributes) None),
      (GETWINDOWATTRIBUTES, core_request GETWINDOWATTRIBUTES (reading parseRequest_GetWindowAttributes) (Some (reading parseReply_GetWindowAttributes))),
      (DESTROYWINDOW, core_request DESTROYWINDOW (reading parseRequest_DestroyWindow) None),
      (DESTROYSUBWINDOWS, core_request DESTROYSUBWINDOWS (reading parseRequest_DestroySubwindows) None),
      (CHANGESAVESET, core_request CHANGESAVESET (reading parseRequest_ChangeSaveSet) None),
      (REPARENTWINDOW, core_request REPARENTWINDOW (reading parseRequest_ReparentWindow) None),
      (MAPWINDOW, core_request MAPWINDOW (reading parseRequest_MapWindow) None),
      (MAPSUBWINDOWS, core_request MAPSUBWINDOWS (reading parseRequest_MapSubwindows) None),
      (UNMAPWINDOW, core_request UNMAPWINDOW (reading parseRequest_UnmapWindow) None),
      (UNMAPSUBWINDOWS, core_request UNMAPSUBWINDOWS (reading parseRequest_UnmapSubwindows) None),
      (CONFIGUREWINDOW, core_request CONFIGUREWINDOW (reading parseRequest_ConfigureWindow) None),
      (CIRCULATEWINDOW, core_request CIRCULATEWINDOW (reading parseRequest_CirculateWindow) None),
      (GETGEOMETRY, core_request GETGEOMETRY (reading parseRequest_GetGeometry) (Some (reading parseReply_GetGeometry))),
      (QUERYTREE, core_request QUERYTREE (reading parseRequest_QueryTree) (Some (reading parseReply_QueryTree))),
      (INTERNATOM, core_request INTERNATOM (stashing parseRequest_InternAtom) (Some (stashing parseReply_InternAtom))),
      (GETATOMNAME, core_request GETATOMNAME (reading parseRequest_GetAtomName) (Some (reading parseReply_GetAtomName))),
      (CHANGEPROPERTY, core_request CHANGEPROPERTY (reading parseRequest_ChangeProperty) None),
      (DELETEPROPERTY, core_request DELETEPROPERTY (reading parseRequest_DeleteProperty) None),
      (GETPROPERTY, core_request GETPROPERTY (reading parseRequest_GetProperty) (Some (reading parseReply_GetProperty))),
      (LISTPROPERTIES, core_request LISTPROPERTIES (reading parseRequest_ListProperties) (Some (reading parseReply_ListProperties))),
      (SETSELECTIONOWNER, core_request SETSELECTIONOWNER (reading parseRequest_SetSelectionOwner) None),
      (GETSELECTIONOWNER, core_request GETSELECTIONOWNER (reading parseRequest_GetSelectionOwner) (Some (reading parseReply_GetSelectionOwner))),
      (CONVERTSELECTION, core_request CONVERTSELECTION (reading parseRequest_ConvertSelection) None),
      (SENDEVENT, core_request SENDEVENT (reading (parseRequest_SendEvent codes)) None),
      (GRABPOINTER, core_request GRABPOINTER (reading parseRequest_GrabPointer) (Some (reading parseReply_GrabPointer))),
      (UNGRABPOINTER, core_request UNGRABPOINTER (reading parseRequest_UngrabPointer) None),
      (GRABBUTTON, core_request GRABBUTTON (reading parseRequest_GrabButton) None),
      (UNGRABBUTTON, core_request UNGRABBUTTON (reading parseRequest_UngrabButton) None),
      (CHANGEACTIVEPOINTERGRAB, core_request CHANGEACTIVEPOINTERGRAB (reading parseRequest_ChangeActivePointerGrab) None),
      (GRABKEYBOARD, core_request GRABKEYBOARD (reading parseRequest_GrabKeyboard) (Some (reading parseReply_GrabKeyboard))),
      (UNGRABKEYBOARD, core_request UNGRABKEYBOARD (reading parseRequest_UngrabKeyboard) None),
      (GRABKEY, core_request GRABKEY (reading parseRequest_GrabKey) None),
      (UNGRABKEY, core_request UNGRABKEY (reading parseRequest_UngrabKey) None),
      (ALLOWEVENTS, core_request ALLOWEVENTS (reading parseRequest_AllowEvents) None),
      (GRABSERVER, core_request GRABSERVER (reading parseRequest_GrabServer) None),
      (UNGRABSERVER, core_request UNGRABSERVER (reading parseRequest_UngrabServer) None),
      (QUERYPOINTER, core_request QUERYPOINTER (reading parseRequest_QueryPointer) (Some (reading parseReply_QueryPointer))),
      (GETMOTIONEVENTS, core_request GETMOTIONEVENTS (reading parseRequest_GetMotionEvents) (Some (reading parseReply_GetMotionEvents))),
      (TRANSLATECOORDINATES, core_request TRANSLATECOORDINATES (reading parseRequest_TranslateCoordinates) (Some (reading parseReply_TranslateCoordinates))),
      (WARPPOINTER, core_request WARPPOINTER (reading parseRequest_WarpPointer) None),
      (SETINPUTFOCUS, core_request SETINPUTFOCUS (reading parseRequest_SetInputFocus) None),
      (GETINPUTFOCUS, core_request GETINPUTFOCUS (reading parseRequest_GetInputFocus) (Some (reading parseReply_GetInputFocus))),
      (QUERYKEYMAP, core_request QUERYKEYMAP (reading parseRequest_QueryKeymap) (Some (reading parseReply_QueryKeymap))),
      (OPENFONT, core_request OPENFONT (reading parseRequest_OpenFont) None),
      (CLOSEFONT, core_request CLOSEFONT (reading parseRequest_CloseFont) None),
      (QUERYFONT, core_request QUERYFONT (reading parseRequest_QueryFont) (Some (reading parseReply_QueryFont))),
      (QUERYTEXTEXTENTS, core_request QUERYTEXTEXTENTS (reading parseRequest_QueryTextExtents) (Some (reading parseReply_QueryTextExtents))),
      (LISTFONTS, core_request LISTFONTS (reading parseRequest_ListFonts) (Some (reading parseReply_ListFonts))),
      (LISTFONTSWITHINFO, core_request LISTFONTSWITHINFO (reading parseRequest_ListFontsWithInfo) (Some (reading parseReply_ListFontsWithInfo))),
      (SETFONTPATH, core_request SETFONTPATH (reading parseRequest_SetFontPath) None),
      (GETFONTPATH, core_request GETFONTPATH (reading parseRequest_GetFontPath) (Some (reading parseReply_GetFontPath))),
      (CREATEPIXMAP, core_request CREATEPIXMAP (reading parseRequest_CreatePixmap) None),
      (FREEPIXMAP, core_request FREEPIXMAP (reading parseRequest_FreePixmap) None),
      (CREATEGC, core_request CREATEGC (reading parseRequest_CreateGC) None),
      (CHANGEGC, core_request CHANGEGC (reading parseRequest_ChangeGC) None),
      (COPYGC, core_request COPYGC (reading parseRequest_CopyGC) None),
      (SETDASHES, core_request SETDASHES (reading parseRequest_SetDashes) None),
      (SETCLIPRECTANGLES, core_request SETCLIPRECTANGLES (reading parseRequest_SetClipRectangles) None),
      (FREEGC, core_request FREEGC (reading parseRequest_FreeGC) None),
      (CLEARAREA, core_request CLEARAREA (reading parseRequest_ClearArea) None),
      (COPYAREA, core_request COPYAREA (reading parseRequest_CopyArea) None),
      (COPYPLANE, core_request COPYPLANE (reading parseRequest_CopyPlane) None),
      (POLYPOINT, core_request POLYPOINT (reading parseRequest_PolyPoint) None),
      (POLYLINE, core_request POLYLINE (reading parseRequest_PolyLine) None),
      (POLYSEGMENT, core_request POLYSEGMENT (reading parseRequest_PolySegment) None),
      (POLYRECTANGLE, core_request POLYRECTANGLE (reading parseRequest_PolyRectangle) None),
      (POLYARC, core_request POLYARC (reading parseRequest_PolyArc) None),
      (FILLPOLY, core_request FILLPOLY (reading parseRequest_FillPoly) None),
      (POLYFILLRECTANGLE, core_request POLYFILLRECTANGLE (reading parseRequest_PolyFillRectangle) None),
      (POLYFILLARC, core_request POLYFILLARC (reading parseRequest_PolyFillArc) None),
      (PUTIMAGE, core_request PUTIMAGE (reading parseRequest_PutImage) None),
      (GETIMAGE, core_request GETIMAGE (reading parseRequest_GetImage) (Some (reading parseReply_GetImage))),
      (POLYTEXT8, core_request POLYTEXT8 (reading parseRequest_PolyText8) None),
      (POLYTEXT16, core_request POLYTEXT16 (reading parseRequest_PolyText16) None),
      (IMAGETEXT8, core_request IMAGETEXT8 (reading parseRequest_ImageText8) None),
      (IMAGETEXT16, core_request IMAGETEXT16 (reading parseRequest_ImageText16) None),
      (CREATECOLORMAP, core_request CREATECOLORMAP (reading parseRequest_CreateColormap) None),
      (FREECOLORMAP, core_request FREECOLORMAP (reading parseRequest_FreeColormap) None),
      (COPYCOLORMAPANDFREE, core_request COPYCOLORMAPANDFREE (reading parseRequest_CopyColormapAndFree) None),
      (INSTALLCOLORMAP, core_request INSTALLCOLORMAP (reading parseRequest_InstallColormap) None),
      (UNINSTALLCOLORMAP, core_request UNINSTALLCOLORMAP (reading parseRequest_UninstallColormap) None),
      (LISTINSTALLEDCOLORMAPS, core_request LISTINSTALLEDCOLORMAPS (reading parseRequest_ListInstalledColormaps) (Some (reading parseReply_ListInstalledColormaps))),
      (ALLOCCOLOR, core_request ALLOCCOLOR (reading parseRequest_AllocColor) (Some (reading parseReply_AllocColor))),
      (ALLOCNAMEDCOLOR, core_request ALLOCNAMEDCOLOR (reading parseRequest_AllocNamedColor) (Some (reading parseReply_AllocNamedColor))),
      (ALLOCCOLORCELLS, core_request ALLOCCOLORCELLS (reading parseRequest_AllocColorCells) (Some (reading parseReply_AllocColorCells))),
      (ALLOCCOLORPLANES, core_request ALLOCCOLORPLANES (reading parseRequest_AllocColorPlanes) (Some (reading parseReply_AllocColorPlanes))),
      (FREECOLORS, core_request FREECOLORS (reading parseRequest_FreeColors) None),
      (STORECOLORS, core_request STORECOLORS (reading parseRequest_StoreColors) None),
      (STORENAMEDCOLOR, core_request STORENAMEDCOLOR (reading parseRequest_StoreNamedColor) None),
      (QUERYCOLORS, core_request QUERYCOLORS (reading parseRequest_QueryColors) (Some (reading parseReply_QueryColors))),
      (LOOKUPCOLOR, core_request LOOKUPCOLOR (reading parseRequest_LookupColor) (Some (reading parseReply_LookupColor))),
      (CREATECURSOR, core_request CREATECURSOR (reading parseRequest_CreateCursor) None),
      (CREATEGLYPHCURSOR, core_request CREATEGLYPHCURSOR (reading parseRequest_CreateGlyphCursor) None),
      (FREECURSOR, core_request FREECURSOR (reading parseRequest_FreeCursor) None),
      (RECOLORCURSOR, core_request RECOLORCURSOR (reading parseRequest_RecolorCursor) None),
      (QUERYBESTSIZE, core_request QUERYBESTSIZE (reading parseRequest_QueryBestSize) (Some (reading parseReply_QueryBestSize))),
      (QUERYEXTENSION, core_request QUERYEXTENSION (stashing parseRequest_QueryExtension) (Some (parseReply_QueryExtension))),
      (LISTEXTENSIONS, core_request LISTEXTENSIONS (reading parseRequest_ListExtensions) (Some (reading parseReply_ListExtensions))),
      (CHANGEKEYBOARDMAPPING, core_request CHANGEKEYBOARDMAPPING (reading parseRequest_ChangeKeyboardMapping) None),
      (GETKEYBOARDMAPPING, core_request GETKEYBOARDMAPPING (reading parseRequest_GetKeyboardMapping) (Some (reading parseReply_GetKeyboardMapping))),
      (CHANGEKEYBOARDCONTROL, core_request CHANGEKEYBOARDCONTROL (reading parseRequest_ChangeKeyboardControl) None),
      (GETKEYBOARDCONTROL, core_request GETKEYBOARDCONTROL (reading parseRequest_GetKeyboardControl) (Some (reading parseReply_GetKeyboardControl))),
      (BELL, core_request BELL (reading parseRequest_Bell) None),
      (CHANGEPOINTERCONTROL, core_request CHANGEPOINTERCONTROL (reading parseRequest_ChangePointerControl) None),
      (GETPOINTERCONTROL, core_request GETPOINTERCONTROL (reading parseRequest_GetPointerControl) (Some (reading parseReply_GetPointerControl))),
      (SETSCREENSAVER, core_request SETSCREENSAVER (reading parseRequest_SetScreenSaver) None),
      (GETSCREENSAVER, core_request GETSCREENSAVER (reading parseRequest_GetScreenSaver) (Some (reading parseReply_GetScreenSaver))),
      (CHANGEHOSTS, core_request CHANGEHOSTS (reading parseRequest_ChangeHosts) None),
      (LISTHOSTS, core_request LISTHOSTS (reading parseRequest_ListHosts) (Some (reading parseReply_ListHosts))),
      (SETACCESSCONTROL, core_request SETACCESSCONTROL (reading parseRequest_SetAccessControl) None),
      (SETCLOSEDOWNMODE, core_request SETCLOSEDOWNMODE (reading parseRequest_SetCloseDownMode) None),
      (KILLCLIENT, core_request KILLCLIENT (reading parseRequest_KillClient) None),
      (ROTATEPROPERTIES, core_request ROTATEPROPERTIES (reading parseRequest_RotateProperties) None),
      (FORCESCREENSAVER, core_request FORCESCREENSAVER (reading parseRequest_ForceScreenSaver) None),
      (SETPOINTERMAPPING, core_request SETPOINTERMAPPING (reading parseRequest_SetPointerMapping) (Some (reading parseReply_SetPointerMapping))),
      (GETPOINTERMAPPING, core_request GETPOINTERMAPPING (reading parseRequest_GetPointerMapping) (Some (reading parseReply_GetPointerMapping))),
      (SETMODIFIERMAPPING, core_request SETMODIFIERMAPPING (reading parseRequest_SetModifierMapping) (Some (reading parseReply_SetModifierMapping))),
      (GETMODIFIERMAPPING, core_request GETMODIFIERMAPPING (reading parseRequest_GetModifierMapping) (Some (reading parseReply_GetModifierMapping))),
      (NOOPERATION, core_request NOOPERATION (reading parseRequest_NoOperation) None)]"

definition core_requests :: "(nat \<rightharpoonup> event_traits) \<Rightarrow> nat \<rightharpoonup> request_traits" where
  "core_requests codes = map_of (core_request_table codes)"

definition big_requests_requests :: "nat \<rightharpoonup> request_traits" where
  \<comment> \<open>by minor opcode\<close>
  "big_requests_requests = map_of
     [(BIGREQENABLE,
       \<lparr>request_name = big_requests_names ! BIGREQENABLE,
        request_parse_func = reading parseRequest_BigReqEnable,
        reply_parse_func = Some parseReply_BigReqEnable\<rparr>)]"

definition extension_requests :: "string \<rightharpoonup> (nat \<rightharpoonup> request_traits)" where
  "extension_requests = map_of [(big_requests_name, big_requests_requests)]"

definition unknown_request :: request_traits where
  "unknown_request =
     \<lparr>request_name = ''(unknown opcode)'', request_parse_func = reading parseRequest_UnknownRequest,
      reply_parse_func = Some (reading parseReply_UnknownRequest)\<rparr>"

text \<open>
  What \<open>_major_opcodes\<close> has for an opcode: the name of the extension if it is one, and what
  is known of the request.
\<close>

definition find_request ::
  "(nat \<rightharpoonup> event_traits) \<Rightarrow> parser \<Rightarrow> nat \<Rightarrow> nat \<Rightarrow> string option \<times> request_traits"
where
  "find_request codes P major_opcode minor_opcode =
     (case major_opcodes P major_opcode of
        None \<Rightarrow> (None, unknown_request)
      | Some None \<Rightarrow>
          (None, case core_requests codes major_opcode of
             None \<Rightarrow> unknown_request | Some traits \<Rightarrow> traits)
      | Some (Some name) \<Rightarrow>
          (Some name,
           case extension_requests name of
             None \<Rightarrow> unknown_request
           | Some requests \<Rightarrow>
               (case requests minor_opcode of None \<Rightarrow> unknown_request | Some traits \<Rightarrow> traits)))"

subsection \<open>Handlers\<close>

definition opcode_name :: "parser \<Rightarrow> string option \<Rightarrow> nat \<Rightarrow> string \<Rightarrow> nat \<Rightarrow> string" where
  \<comment> \<open>\<open>{}({})-{}({})\<close> for an extension, else \<open>{}({})\<close>\<close>
  "opcode_name P extension_name major_opcode name minor_opcode =
     (case extension_name of
        None \<Rightarrow> name @ ''('' @ fmt_dec (fmtl P) (int major_opcode) @ '')''
      | Some e \<Rightarrow> e @ ''('' @ fmt_dec (fmtl P) (int major_opcode) @ '')-'' @
                 name @ ''('' @ fmt_dec (fmtl P) (int minor_opcode) @ '')'')"

definition request_line ::
  "parser \<Rightarrow> connection \<Rightarrow> string \<Rightarrow> 16 word \<Rightarrow> string option \<Rightarrow> nat \<Rightarrow> string \<Rightarrow> nat \<Rightarrow>
   parsing_outputs \<Rightarrow> string"
where
  \<comment> \<open>the line printed for a request or a reply\<close>
  "request_line P conn kind seq_num extension_name major_opcode name minor_opcode message =
     message_prefix P conn (bytes_parsed message) CLIENT_TO_SERVER
       (fmt_zpad (fmtl P) 5 (unat seq_num)) @ kind @
     opcode_name P extension_name major_opcode name minor_opcode @ '': '' @ str message @ newline"

definition logRequest :: "(nat \<rightharpoonup> event_traits) \<Rightarrow> handler" where
  "logRequest codes P conn data sz =
     require (sz \<ge> size_of extensions_Request_Prefix + size_of Request_Length) (
     and_then (ordered_member P (byteswap conn) extensions_Request_Prefix data ''major_opcode'') (\<lambda>major_opcode.
     and_then (ordered_member P (byteswap conn) extensions_Request_Prefix data ''minor_opcode'') (\<lambda>minor_opcode.
     let (conn1, sequence) = registerRequest (of_nat major_opcode) 0 conn;
         (extension_name, traits) = find_request codes P major_opcode minor_opcode in
     and_then (request_parse_func traits P conn1 data sz) (\<lambda>(P', conn', request).
     require (bytes_parsed request \<noteq> 0) (
     require (ucast (bytes_parsed request) \<le> sz) (
     Inr (P', conn',
          request_line P conn ''Request '' sequence extension_name major_opcode
            (request_name traits) minor_opcode request,
          ucast (bytes_parsed request))))))))"

definition ends_request :: "parser \<Rightarrow> connection \<Rightarrow> byte list \<Rightarrow> nat \<Rightarrow> bool res" where
  \<comment> \<open>\<open>ListFontsWithInfo\<close> is answered with a series of replies\<close>
  "ends_request P conn data major_opcode =
     (if major_opcode \<noteq> LISTFONTSWITHINFO then Inr True
      else map_res (\<lambda>n. n = ListFontsWithInfo_Reply_LAST_REPLY)
             (ordered_member P (byteswap conn) ListFontsWithInfo_Reply_Header data ''name_len''))"

definition logReply :: "(nat \<rightharpoonup> event_traits) \<Rightarrow> handler" where
  "logReply codes P conn data sz =
     require (sz \<ge> Reply_DEFAULT_ENCODING_SZ) (
     and_then (ordered_member P (byteswap conn) Reply_Header data ''reply'') (\<lambda>reply_code.
     require (reply_code = REPLY_PREFIX) (
     and_then (ordered_member P (byteswap conn) Reply_Header data ''sequence_num'') (\<lambda>seq.
     let sequence = of_nat seq in
     and_then (lookupRequest sequence conn) (\<lambda>opcodes.
     let major_opcode = unat (major opcodes); minor_opcode = unat (minor opcodes);
         (extension_name, traits) = find_request codes P major_opcode minor_opcode in
     case reply_parse_func traits of
       None \<Rightarrow> Inl Assertion_failure
     | Some parse_func \<Rightarrow>
         and_then (parse_func P conn data sz) (\<lambda>(P', conn1, reply).
         and_then (ends_request P conn1 data major_opcode) (\<lambda>last.
         require (bytes_parsed reply \<noteq> 0) (
         require (ucast (bytes_parsed reply) \<le> sz) (
         Inr (P', if last then unregisterRequest sequence conn1 else conn1,
              request_line P conn ''Reply to '' sequence extension_name major_opcode
                (request_name traits) minor_opcode reply,
              ucast (bytes_parsed reply)))))))))))"

subsection \<open>The parser\<close>

definition predefined_atoms :: "string list" where
  "predefined_atoms =
    ['''', ''PRIMARY'', ''SECONDARY'', ''ARC'', ''ATOM'', ''BITMAP'', ''CARDINAL'',
     ''COLORMAP'', ''CURSOR'', ''CUT_BUFFER0'', ''CUT_BUFFER1'', ''CUT_BUFFER2'',
     ''CUT_BUFFER3'', ''CUT_BUFFER4'', ''CUT_BUFFER5'', ''CUT_BUFFER6'', ''CUT_BUFFER7'',
     ''DRAWABLE'', ''FONT'', ''INTEGER'', ''PIXMAP'', ''POINT'', ''RECTANGLE'',
     ''RESOURCE_MANAGER'', ''RGB_COLOR_MAP'', ''RGB_BEST_MAP'', ''RGB_BLUE_MAP'',
     ''RGB_DEFAULT_MAP'', ''RGB_GRAY_MAP'', ''RGB_GREEN_MAP'', ''RGB_RED_MAP'', ''STRING'',
     ''VISUALID'', ''WINDOW'', ''WM_COMMAND'', ''WM_HINTS'', ''WM_CLIENT_MACHINE'',
     ''WM_ICON_NAME'', ''WM_ICON_SIZE'', ''WM_NAME'', ''WM_NORMAL_HINTS'', ''WM_SIZE_HINTS'',
     ''WM_ZOOM_HINTS'', ''MIN_SPACE'', ''NORM_SPACE'', ''MAX_SPACE'', ''END_SPACE'',
     ''SUPERSCRIPT_X'', ''SUPERSCRIPT_Y'', ''SUBSCRIPT_X'', ''SUBSCRIPT_Y'',
     ''UNDERLINE_POSITION'', ''UNDERLINE_THICKNESS'', ''STRIKEOUT_ASCENT'',
     ''STRIKEOUT_DESCENT'', ''ITALIC_ANGLE'', ''X_HEIGHT'', ''QUAD_WIDTH'', ''WEIGHT'',
     ''POINT_SIZE'', ''RESOLUTION'', ''COPYRIGHT'', ''NOTICE'', ''FONT_NAME'', ''FAMILY_NAME'',
     ''FULL_NAME'', ''CAP_HEIGHT'', ''WM_CLASS'', ''WM_TRANSIENT_FOR'']"

definition ATOMS_MAX :: nat where
  "ATOMS_MAX = 68"

text \<open>
  The constructor. \<open>instantiated\<close> is the static flag, \<open>log_ok\<close> says that the log stream is
  there and in order; \<open>fmt\<close> and \<open>le\<close> stand for the library and the host.
\<close>

definition X11ProtocolParser_new ::
  "fmt_lib \<Rightarrow> bool \<Rightarrow> bool \<Rightarrow> bool \<Rightarrow> settings \<Rightarrow> parser res"
where
  "X11ProtocolParser_new fmt le instantiated log_ok settings' =
     and_then (Whitespace2 0 (multiline settings')) (\<lambda>ws.
     if instantiated then Inl (Exit 1)
     else require log_ok (
     Inr \<lparr>fmtl = fmt, little_endian = le, settings = settings',
          interned_atoms =
            fold (\<lambda>i. emplace i (predefined_atoms ! i)) [1 ..< ATOMS_MAX + 1] Map.empty,
          stashed_strings = Map.empty,
          major_opcodes = (\<lambda>code. map_option (\<lambda>_. None) (core_requests core_events code)),
          ROOT_WS = ws\<rparr>))"

definition importFetchedAtoms :: "string list \<Rightarrow> parser \<Rightarrow> parser res" where
  "importFetchedAtoms fetched_atoms P =
     require (prefetchatoms (settings P)) (
     require (card (dom (interned_atoms P)) = ATOMS_MAX) (
     Inr (P\<lparr>interned_atoms :=
       fold (\<lambda>i. emplace i (fetched_atoms ! i)) [ATOMS_MAX + 1 ..< length fetched_atoms]
         (interned_atoms P)\<rparr>)))"


end
