(* ===== verification/RequestLaws.thy ===== *)
theory RequestLaws
  imports Requests
begin

text \<open>
  What all request parsers have in common. A parser that accepts a request has checked
  the length that the request declares, leaves the connection as it is and changes nothing but
  the stashed strings; and it does not look at the counters of the client's buffer.
\<close>

definition common_layout :: "request_type \<Rightarrow> bool" where
  \<comment> \<open>what the layouts of all requests share\<close>
  "common_layout T \<longleftrightarrow>
     sizeof (prefix_layout T) = 2 \<and> length_layout T = Request_Length \<and>
     big_length_layout T = Request_BigLength \<and> 4 \<le> unat (BASE_ENCODING_SZ T)"

definition declared_units :: "bool \<Rightarrow> bool \<Rightarrow> byte list \<Rightarrow> nat" where
  \<comment> \<open>the 16-bit length of a request, in units of four bytes\<close>
  "declared_units le bsw d = ordered 2 bsw (host_val le (take 2 (drop 2 d)))"

definition length_checked :: "parser \<Rightarrow> connection \<Rightarrow> byte list \<Rightarrow> 32 word \<Rightarrow> bool" where
  "length_checked P c d n \<longleftrightarrow> 4 \<le> length d \<and>
     (if big_length d then extensionEnabled big_requests_name c
      else of_nat (declared_units (little_endian P) (byteswap c) d) = Alignment_units (ucast n))"

lemma ordered_member_read:
  assumes "ordered_member P bsw L m f = Inr x" and "field_at L f = Some (off, t)"
  shows "off + ptype_size t \<le> length m"
    and "x = ordered (ptype_size t) bsw (host_val (little_endian P) (take (ptype_size t) (drop off m)))"
  using assms by (auto simp: ordered_member_def load_member_def load_def read_bytes_def split: if_splits)

lemma ordered_2_zero:
  assumes "4 \<le> length d"
  shows "ordered 2 bsw (host_val le (take 2 (drop 2 d))) = 0 \<longleftrightarrow> big_length d"
proof -
  obtain a b c e r where "d = a # b # c # e # r"
    using assms by (cases d rule: list.exhaust; auto simp: Suc_le_length_iff numeral_eq_Suc)
  then show ?thesis
    using ordered_host_val [of "[c, e]" bsw le]
    by (cases le; cases bsw) (auto simp: big_length_def host_val_def unat_eq_0 numeral_2_eq_2)
qed

lemma Request_fields:
  "field_at Request_Length ''tl_aligned_units'' = Some (0, CARD16)"
  "field_at Request_BigLength ''tl_aligned_units'' = Some (2, CARD32)"
  "field_at Request_BigLength ''extended_length_flag'' = Some (0, CARD16)"
  by (simp_all add: Request_Length_def Request_BigLength_def)

lemma RequestFixedEncoding_length:
  assumes "RequestFixedEncoding P T c d sz = Inr fe" and "common_layout T"
  shows "4 \<le> length d" and "big_request fe = big_length d" and "length_at fe = drop 2 d"
    and "big_length d \<Longrightarrow> extensionEnabled big_requests_name c"
proof -
  have T: "sizeof (prefix_layout T) = 2" "big_length_layout T = Request_BigLength"
    using assms(2) by (simp_all add: common_layout_def)
  let ?big = "\<lambda>flag. flag = EXTENDED_LENGTH_FLAG"
  from assms(1) T obtain flag where
    flag: "ordered_member P (byteswap c) Request_BigLength (drop 2 d) ''extended_length_flag'' = Inr flag"
    and ext: "?big flag \<longrightarrow> extensionEnabled big_requests_name c"
    and fe: "big_request fe = ?big flag" "length_at fe = drop 2 d"
    by (auto simp: RequestFixedEncoding_def Let_def elim!: parser_elims)
  note bound = ordered_member_read [OF flag Request_fields(3)]
  from bound(1) show len: "4 \<le> length d"
    by (simp add: le_diff_conv)
  have "?big flag = big_length d"
    using bound(2) ordered_2_zero [OF len, of "byteswap c" "little_endian P"] by (simp add: EXTENDED_LENGTH_FLAG_def)
  with fe ext show "big_request fe = big_length d" "length_at fe = drop 2 d"
    "big_length d \<Longrightarrow> extensionEnabled big_requests_name c"
    by simp_all
qed

lemma length_assertion_checks:
  assumes fe: "RequestFixedEncoding P T c d sz = Inr fe" and T: "common_layout T"
    and "length_assertion P (byteswap c) T fe n = Inr b" and "b"
  shows "length_checked P c d n"
proof -
  note len = RequestFixedEncoding_length [OF fe T]
  show ?thesis
  proof (cases "big_length d")
    case False
    then obtain units where
      "ordered_member P (byteswap c) Request_Length (drop 2 d) ''tl_aligned_units'' = Inr units"
      and "of_nat units = Alignment_units (ucast n)"
      using assms(3,4) T len by (auto simp: length_assertion_def common_layout_def elim!: parser_elims)
    with ordered_member_read(2) [OF this(1) Request_fields(1)] False len(1) show ?thesis
      by (simp add: length_checked_def declared_units_def)
  qed (use len in \<open>simp add: length_checked_def\<close>)
qed

lemma tl_aligned_units_checks:
  assumes fe: "RequestFixedEncoding P T c d sz = Inr fe" and T: "common_layout T"
    and "tl_aligned_units P (byteswap c) T fe = Inr units" and "of_nat units = Alignment_units (ucast n)"
  shows "length_checked P c d n"
proof -
  note len = RequestFixedEncoding_length [OF fe T]
  show ?thesis
  proof (cases "big_length d")
    case False
    then have "ordered_member P (byteswap c) Request_Length (drop 2 d) ''tl_aligned_units'' = Inr units"
      using assms(3) T len by (simp add: tl_aligned_units_def common_layout_def)
    from ordered_member_read(2) [OF this Request_fields(1)] False len(1) assms(4) show ?thesis
      by (simp add: length_checked_def declared_units_def)
  qed (use len in \<open>simp add: length_checked_def\<close>)
qed

lemma common_layouts:
  "common_layout SimpleRequest"
  "common_layout SimpleWindowRequest"
  "common_layout ListFontsRequest"
  "common_layout PolyPointRequest"
  "common_layout SimpleCmapRequest"
  "common_layout CreateWindow"
  "common_layout ChangeWindowAttributes"
  "common_layout ChangeSaveSet"
  "common_layout ReparentWindow"
  "common_layout ConfigureWindow"
  "common_layout CirculateWindow"
  "common_layout GetGeometry"
  "common_layout InternAtom"
  "common_layout GetAtomName"
  "common_layout ChangeProperty"
  "common_layout DeleteProperty"
  "common_layout GetProperty"
  "common_layout SetSelectionOwner"
  "common_layout GetSelectionOwner"
  "common_layout ConvertSelection"
  "common_layout SendEvent"
  "common_layout GrabPointer"
  "common_layout UngrabPointer"
  "common_layout GrabButton"
  "common_layout UngrabButton"
  "common_layout ChangeActivePointerGrab"
  "common_layout GrabKeyboard"
  "common_layout UngrabKeyboard"
  "common_layout GrabKey"
  "common_layout UngrabKey"
  "common_layout AllowEvents"
  "common_layout GetMotionEvents"
  "common_layout TranslateCoordinates"
  "common_layout WarpPointer"
  "common_layout SetInputFocus"
  "common_layout OpenFont"
  "common_layout CloseFont"
  "common_layout QueryFont"
  "common_layout QueryTextExtents"
  "common_layout SetFontPath"
  "common_layout CreatePixmap"
  "common_layout FreePixmap"
  "common_layout CreateGC"
  "common_layout ChangeGC"
  "common_layout CopyGC"
  "common_layout SetDashes"
  "common_layout SetClipRectangles"
  "common_layout FreeGC"
  "common_layout ClearArea"
  "common_layout CopyArea"
  "common_layout CopyPlane"
  "common_layout PolySegment"
  "common_layout PolyRectangle"
  "common_layout PolyArc"
  "common_layout FillPoly"
  "common_layout PolyFillRectangle"
  "common_layout PolyFillArc"
  "common_layout PutImage"
  "common_layout GetImage"
  "common_layout PolyText8"
  "common_layout PolyText16"
  "common_layout ImageText8"
  "common_layout ImageText16"
  "common_layout CreateColormap"
  "common_layout CopyColormapAndFree"
  "common_layout AllocColor"
  "common_layout AllocNamedColor"
  "common_layout AllocColorCells"
  "common_layout AllocColorPlanes"
  "common_layout FreeColors"
  "common_layout StoreColors"
  "common_layout StoreNamedColor"
  "common_layout QueryColors"
  "common_layout LookupColor"
  "common_layout CreateCursor"
  "common_layout CreateGlyphCursor"
  "common_layout FreeCursor"
  "common_layout RecolorCursor"
  "common_layout QueryBestSize"
  "common_layout QueryExtension"
  "common_layout ChangeKeyboardMapping"
  "common_layout GetKeyboardMapping"
  "common_layout ChangeKeyboardControl"
  "common_layout Bell"
  "common_layout ChangePointerControl"
  "common_layout SetScreenSaver"
  "common_layout ChangeHosts"
  "common_layout SetAccessControl"
  "common_layout SetCloseDownMode"
  "common_layout KillClient"
  "common_layout RotateProperties"
  "common_layout ForceScreenSaver"
  "common_layout SetPointerMapping"
  "common_layout SetModifierMapping"
  "common_layout NoOperation"
  "common_layout UnknownRequest"
  "common_layout extensions_SimpleRequest"
  by (simp_all add: common_layout_def request_types request_layouts UnknownRequest_def
    extensions_SimpleRequest_def extensions_Request_Prefix_def size_of_def)

text \<open>The length of a request that a parser has accepted, in the form the parsers have it.\<close>

lemma request_checks:
  "out = \<lparr>str = s, bytes_parsed = n\<rparr> \<Longrightarrow> length_assertion P (byteswap c) T fe n = Inr b \<Longrightarrow> b \<Longrightarrow>
   RequestFixedEncoding P T c d sz = Inr fe \<Longrightarrow> common_layout T \<Longrightarrow>
   length_checked P c d (bytes_parsed out)"
  "out = \<lparr>str = s, bytes_parsed = n\<rparr> \<Longrightarrow> tl_aligned_units P (byteswap c) T fe = Inr units \<Longrightarrow>
   of_nat units = Alignment_units (ucast n) \<Longrightarrow>
   RequestFixedEncoding P T c d sz = Inr fe \<Longrightarrow> common_layout T \<Longrightarrow>
   length_checked P c d (bytes_parsed out)"
  using length_assertion_checks tl_aligned_units_checks by simp_all

subsection \<open>The law of the table\<close>

definition request_law :: "message_parser \<Rightarrow> bool" where
  "request_law f \<longleftrightarrow> (\<forall>P c d n P' c' out. f P c d n = Inr (P', c', out) \<longrightarrow>
     length_checked P c d (bytes_parsed out) \<and> c' = c \<and> (\<exists>S. P' = P\<lparr>stashed_strings := S\<rparr>))"

lemma request_law_reading:
  assumes "\<And>P c d n out. f P c d n = Inr out \<Longrightarrow> length_checked P c d (bytes_parsed out)"
  shows "request_law (reading f)"
  unfolding request_law_def reading_def
  using assms by (auto elim!: map_resE) (metis parser.surjective parser.update_convs(5))

lemma request_law_stashing:
  assumes "\<And>P c d n x. f P c d n = Inr x \<Longrightarrow>
    \<exists>out S. length_checked P c d (bytes_parsed out) \<and> x = (P\<lparr>stashed_strings := S\<rparr>, out)"
  shows "request_law (stashing f)"
  unfolding request_law_def stashing_def
  using assms by (auto elim!: map_resE)

lemma stashed_checks:
  assumes "stashString i s v P = Inr P'" and "x = (P', out)" and "length_assertion P (byteswap c) T fe n = Inr b"
    and b and "RequestFixedEncoding P T c d sz = Inr fe" and "common_layout T" and "bytes_parsed out = n"
  shows "\<exists>out S. length_checked P c d (bytes_parsed out) \<and> x = (P\<lparr>stashed_strings := S\<rparr>, out)"
  using assms length_assertion_checks [OF assms(5,6,3,4)] by (auto simp: stashString_def)

lemma parseRequest_stashing_law:
  "request_law (stashing parseRequest_InternAtom)"
  "request_law (stashing parseRequest_QueryExtension)"
  by (rule request_law_stashing; simp only: parseRequest_defs Let_def; elim parser_elims;
    erule stashed_checks; assumption?; assumption?; (rule common_layouts)?; simp)+

lemma ChangeKeyboardControl_law: "request_law (reading parseRequest_ChangeKeyboardControl)"
  by (rule request_law_reading) (auto simp: parseRequest_ChangeKeyboardControl_def Let_def elim!: parser_elims)

lemma core_table_law:
  "list_all (\<lambda>(code, traits). request_law (request_parse_func traits)) (core_request_table codes)"
  unfolding core_request_table_def list.pred_inject(2) prod.case core_request_def request_traits.simps
  by (intro conjI list.pred_inject(1) parseRequest_stashing_law ChangeKeyboardControl_law)
    (rule request_law_reading; simp only: parseRequest_defs Let_def; elim parser_elims;
      erule request_checks; assumption?; assumption?; assumption?; rule common_layouts)+

lemma list_all_map_of: "list_all (\<lambda>(k, v). Q v) xs \<Longrightarrow> map_of xs k = Some v \<Longrightarrow> Q v"
  by (auto simp: list_all_iff dest: map_of_SomeD)

lemma core_requests_law: "core_requests codes code = Some traits \<Longrightarrow> request_law (request_parse_func traits)"
  unfolding core_requests_def by (rule list_all_map_of [OF core_table_law])

lemma unknown_request_law: "request_law (request_parse_func unknown_request)"
  unfolding unknown_request_def request_traits.simps
  by (rule request_law_reading; simp only: parseRequest_defs Let_def; elim parser_elims;
    erule request_checks; assumption?; assumption?; assumption?; rule common_layouts)

lemma BigReqEnable_law: "request_law (reading parseRequest_BigReqEnable)"
  by (rule request_law_reading; simp only: parseRequest_BigReqEnable_def
    parseRequest_extensions_SimpleRequest_def Let_def; elim parser_elims;
    erule request_checks; assumption?; assumption?; assumption?; rule common_layouts)

lemma find_request_law: "request_law (request_parse_func (snd (find_request codes P major_opcode minor_opcode)))"
  using core_requests_law unknown_request_law BigReqEnable_law
  by (auto simp: find_request_def extension_requests_def big_requests_requests_def
    split: option.split if_splits)

subsection \<open>Counters\<close>

text \<open>
  The parsers do not look at the counters of the client's buffer, which the loop over the
  stream changes between them.
\<close>

definition recount :: "size_t \<Rightarrow> size_t \<Rightarrow> connection \<Rightarrow> connection" where
  "recount p m c = c\<lparr>client_buffer := counters p m (client_buffer c)\<rparr>"

lemma recount_simps [simp]:
  "byteswap (recount p m c) = byteswap c" "conn_id (recount p m c) = conn_id c"
  "sequence (recount p m c) = sequence c" "conn_status (recount p m c) = conn_status c"
  "extensionEnabled name (recount p m c) = extensionEnabled name c"
  "string_view_at (recount p m c) mem k = string_view_at c mem k"
  "registerRequest mj mn (recount p m c) = map_prod (recount p m) id (registerRequest mj mn c)"
  by (simp_all add: recount_def extensionEnabled_def string_view_at_def registerRequest_def Let_def)

lemma RequestFixedEncoding_recount [simp]:
  "RequestFixedEncoding P T (recount p m c) d n = RequestFixedEncoding P T c d n"
  by (simp only: RequestFixedEncoding_def recount_simps)

lemma parseEvent_recount [simp]:
  "parseEvent core_events P (recount p m c) d n ws = parseEvent core_events P c d n ws"
  using core_event_conn [of _ _ "recount p m c" c]
  by (auto simp: parseEvent_def lookup_at_def require_def intro!: and_then_cong split: option.splits)

definition ignores_counters :: "message_parser \<Rightarrow> bool" where
  "ignores_counters f \<longleftrightarrow> (\<forall>P c d n p m.
     f P (recount p m c) d n = map_res (\<lambda>(P', c', out). (P', recount p m c', out)) (f P c d n))"

lemma ignores_counters_reading:
  "(\<And>P c d n p m. f P (recount p m c) d n = f P c d n) \<Longrightarrow> ignores_counters (reading f)"
  by (auto simp: ignores_counters_def reading_def map_res_def and_then_def split: sum.splits)

lemma ignores_counters_stashing:
  "(\<And>P c d n p m. f P (recount p m c) d n = f P c d n) \<Longrightarrow> ignores_counters (stashing f)"
  by (auto simp: ignores_counters_def stashing_def map_res_def and_then_def split: sum.splits)

lemmas recounts = recount_simps RequestFixedEncoding_recount parseEvent_recount

lemma core_table_counters:
  "list_all (\<lambda>(code, traits). ignores_counters (request_parse_func traits)) (core_request_table core_events)"
  unfolding core_request_table_def list.pred_inject(2) prod.case core_request_def request_traits.simps
  by (intro conjI list.pred_inject(1);
    (rule ignores_counters_reading | rule ignores_counters_stashing); simp only: parseRequest_defs recounts)

lemma core_requests_counters:
  "core_requests core_events code = Some traits \<Longrightarrow> ignores_counters (request_parse_func traits)"
  unfolding core_requests_def by (rule list_all_map_of [OF core_table_counters])

lemma other_requests_counters:
  "ignores_counters (request_parse_func unknown_request)"
  "ignores_counters (reading parseRequest_BigReqEnable)"
  unfolding unknown_request_def request_traits.simps
  by (rule ignores_counters_reading; simp only: parseRequest_defs
    parseRequest_BigReqEnable_def parseRequest_extensions_SimpleRequest_def recounts)+

lemma find_request_counters:
  "ignores_counters (request_parse_func (snd (find_request core_events P major_opcode minor_opcode)))"
  using core_requests_counters other_requests_counters
  by (auto simp: find_request_def extension_requests_def big_requests_requests_def
    split: option.split if_splits)

subsection \<open>The handler of requests\<close>

lemma Prefix_fields:
  "field_at extensions_Request_Prefix ''major_opcode'' = Some (0, CARD8)"
  "field_at extensions_Request_Prefix ''minor_opcode'' = Some (1, CARD8)"
  by (simp_all add: extensions_Request_Prefix_def)

lemma logRequest_accepts:
  assumes "logRequest codes P c d sz = Inr (P', c', line, k)"
  obtains n S where "length_checked P (fst (registerRequest (hd d) 0 c)) d n"
    and "k = ucast n" and "n \<noteq> 0" and "k \<le> sz" and "d \<noteq> []"
    and "c' = fst (registerRequest (hd d) 0 c)" and "P' = P\<lparr>stashed_strings := S\<rparr>"
proof -
  from assms obtain mj mn request where
    mj: "ordered_member P (byteswap c) extensions_Request_Prefix d ''major_opcode'' = Inr mj"
    and parsed: "request_parse_func (snd (find_request codes P mj mn)) P
        (fst (registerRequest (of_nat mj) 0 c)) d sz = Inr (P', c', request)"
    and k: "k = ucast (bytes_parsed request)" "bytes_parsed request \<noteq> 0" "k \<le> sz"
    by (auto simp: logRequest_def Let_def split_beta elim!: parser_elims)
  have "1 \<le> length d" "mj = ordered 1 (byteswap c) (host_val (little_endian P) (take 1 d))"
    using ordered_member_read [OF mj Prefix_fields(1)] by simp_all
  then have d: "d \<noteq> []" "of_nat mj = hd d"
    by (cases d; simp add: host_val_def)+
  with parsed find_request_law [of codes P mj mn] that k show ?thesis
    unfolding request_law_def by metis
qed

lemma obeys_logRequest:
  "obeys client_buffer (\<lambda>b c. c\<lparr>client_buffer := b\<rparr>) (logRequest core_events)"
proof -
  have "logRequest core_events P (recount p m c) d n =
      map_res (\<lambda>(P', c', t, k). (P', recount p m c', t, k)) (logRequest core_events P c d n)"
    for P c d n p m
    using find_request_counters [of P]
    by (auto simp: logRequest_def ignores_counters_def request_line_def message_prefix_def Let_def split_beta
      require_def map_res_def and_then_def split: sum.splits)
  moreover have "conn_status c' = conn_status c \<and> byteswap c' = byteswap c \<and>
      little_endian P' = little_endian P \<and> same_place (client_buffer c) (client_buffer c')"
    if "logRequest core_events P c d n = Inr (P', c', t, k)" for P c d n P' c' t k
    using that by (elim logRequest_accepts) (simp add: registerRequest_def Let_def)
  ultimately show ?thesis
    unfolding obeys_def recount_def by blast
qed

end
