(* ===== verification/ReplyLaws.thy ===== *)
theory ReplyLaws
  imports RequestLaws
begin

text \<open>
  What all reply parsers have in common. A parser that accepts a reply has checked the
  length that the reply declares; of the connection it changes at most the extensions and
  a byte of the server's buffer, of the parser at most the tables of atoms, stashed strings and
  opcodes; and it does not look at the counters of the server's buffer.
\<close>

subsection \<open>The length of a reply\<close>

definition extra_units :: "bool \<Rightarrow> bool \<Rightarrow> byte list \<Rightarrow> nat" where
  "extra_units le bsw d = ordered 4 bsw (host_val le (take 4 (drop 4 d)))"

definition reply_length_checked :: "parser \<Rightarrow> connection \<Rightarrow> byte list \<Rightarrow> 32 word \<Rightarrow> bool" where
  \<comment> \<open>one parser, of \<open>GetPointerMapping\<close>, does not order the length\<close>
  "reply_length_checked P c d n \<longleftrightarrow> 8 \<le> length d \<and>
     (\<exists>bsw \<in> {byteswap c, False}.
        of_nat (extra_units (little_endian P) bsw d) = Alignment_units (ucast (n - 32)))"

definition declares_units :: "layout \<Rightarrow> bool" where
  "declares_units L \<longleftrightarrow> field_at L ''header.extra_aligned_units'' = Some (4, CARD32)"

lemma declares_units:
  "declares_units GetWindowAttributes_Reply_Encoding"
  "declares_units GetGeometry_Reply_Encoding"
  "declares_units QueryTree_Reply_Encoding"
  "declares_units InternAtom_Reply_Encoding"
  "declares_units GetAtomName_Reply_Encoding"
  "declares_units GetProperty_Reply_Encoding"
  "declares_units ListProperties_Reply_Encoding"
  "declares_units GetSelectionOwner_Reply_Encoding"
  "declares_units GrabPointer_Reply_Encoding"
  "declares_units GrabKeyboard_Reply_Encoding"
  "declares_units QueryPointer_Reply_Encoding"
  "declares_units GetMotionEvents_Reply_Encoding"
  "declares_units TranslateCoordinates_Reply_Encoding"
  "declares_units GetInputFocus_Reply_Encoding"
  "declares_units QueryKeymap_Reply_Encoding"
  "declares_units QueryFont_Reply_Encoding"
  "declares_units QueryTextExtents_Reply_Encoding"
  "declares_units ListFonts_Reply_Encoding"
  "declares_units ListFontsWithInfo_Reply_Encoding"
  "declares_units GetFontPath_Reply_Encoding"
  "declares_units GetImage_Reply_Encoding"
  "declares_units ListInstalledColormaps_Reply_Encoding"
  "declares_units AllocColor_Reply_Encoding"
  "declares_units AllocNamedColor_Reply_Encoding"
  "declares_units AllocColorCells_Reply_Encoding"
  "declares_units AllocColorPlanes_Reply_Encoding"
  "declares_units QueryColors_Reply_Encoding"
  "declares_units LookupColor_Reply_Encoding"
  "declares_units QueryBestSize_Reply_Encoding"
  "declares_units QueryExtension_Reply_Encoding"
  "declares_units ListExtensions_Reply_Encoding"
  "declares_units GetKeyboardMapping_Reply_Encoding"
  "declares_units GetKeyboardControl_Reply_Encoding"
  "declares_units GetPointerControl_Reply_Encoding"
  "declares_units GetScreenSaver_Reply_Encoding"
  "declares_units ListHosts_Reply_Encoding"
  "declares_units SetPointerMapping_Reply_Encoding"
  "declares_units SetModifierMapping_Reply_Encoding"
  "declares_units GetModifierMapping_Reply_Encoding"
  "declares_units BigReqEnable_Reply_Encoding"
  "declares_units Reply_Encoding"
  "declares_units GetPointerMapping_Reply_Encoding"
  by (simp_all add: declares_units_def reply_layouts BigReqEnable_Reply_Encoding_def embed_def)

lemma extra_units_checks:
  assumes "extra_units_agree P (byteswap c) L d n = Inr b" and b and "declares_units L"
  shows "reply_length_checked P c d n"
proof -
  from assms(1,2) obtain units where
    "ordered_member P (byteswap c) L d ''header.extra_aligned_units'' = Inr units"
    and "of_nat units = Alignment_units (ucast (n - 32))"
    by (auto simp: extra_units_agree_def elim!: parser_elims)
  with ordered_member_read [OF this(1)] assms(3) show ?thesis
    by (simp add: reply_length_checked_def extra_units_def declares_units_def)
qed

lemma raw_units_checks:
  assumes "raw_member P L d ''header.extra_aligned_units'' = Inr units"
    and "of_nat units = Alignment_units (ucast (n - 32))" and "declares_units L"
  shows "reply_length_checked P c d n"
proof -
  have "ordered_member P False L d ''header.extra_aligned_units'' = Inr units"
    using assms(1) by (auto simp: raw_member_def ordered_member_def elim!: map_resE)
  with ordered_member_read [OF this] assms(2,3) show ?thesis
    by (auto simp: reply_length_checked_def extra_units_def declares_units_def)
qed

text \<open>The same, in the forms the parsers have it.\<close>

lemma reply_checks:
  "out = \<lparr>str = s, bytes_parsed = n\<rparr> \<Longrightarrow> extra_units_agree P (byteswap c) L d n = Inr b \<Longrightarrow> b \<Longrightarrow>
   declares_units L \<Longrightarrow> reply_length_checked P c d (bytes_parsed out)"
  "out = \<lparr>str = s, bytes_parsed = n\<rparr> \<Longrightarrow>
   ordered_member P (byteswap c) L d ''header.extra_aligned_units'' = Inr units \<Longrightarrow>
   of_nat units = Alignment_units (ucast (n - 32)) \<Longrightarrow>
   declares_units L \<Longrightarrow> reply_length_checked P c d (bytes_parsed out)"
  "out = \<lparr>str = s, bytes_parsed = n\<rparr> \<Longrightarrow>
   raw_member P L d ''header.extra_aligned_units'' = Inr units \<Longrightarrow>
   of_nat units = Alignment_units (ucast (n - 32)) \<Longrightarrow>
   declares_units L \<Longrightarrow> reply_length_checked P c d (bytes_parsed out)"
  using extra_units_checks [of P c L d n] raw_units_checks [of P L d units n c]
  by (auto simp: extra_units_agree_def)

subsection \<open>The law of the table\<close>

definition same_parser :: "parser \<Rightarrow> parser \<Rightarrow> bool" where
  \<comment> \<open>up to the tables of atoms, stashed strings and opcodes\<close>
  "same_parser P P' \<longleftrightarrow> fmtl P' = fmtl P \<and> little_endian P' = little_endian P \<and>
     settings P' = settings P \<and> ROOT_WS P' = ROOT_WS P"

definition more_opcodes :: "parser \<Rightarrow> parser \<Rightarrow> bool" where
  \<comment> \<open>at most one more entry, of an extension that is implemented and not denied\<close>
  "more_opcodes P P' \<longleftrightarrow> major_opcodes P' = major_opcodes P \<or>
     (\<exists>code name. name \<in> set implemented_extensions \<and> \<not> extensionDenied (settings P) name \<and>
        major_opcodes P' = emplace code (Some name) (major_opcodes P))"

definition same_connection :: "connection \<Rightarrow> connection \<Rightarrow> bool" where
  \<comment> \<open>up to the extensions and the bytes of the server's buffer\<close>
  "same_connection c c' \<longleftrightarrow> same_place (server_buffer c) (server_buffer c') \<and>
     c'\<lparr>extensions := extensions c, server_buffer := server_buffer c\<rparr> = c"

definition reply_law :: "message_parser \<Rightarrow> bool" where
  "reply_law f \<longleftrightarrow> (\<forall>P c d n P' c' out. f P c d n = Inr (P', c', out) \<longrightarrow>
     reply_length_checked P c d (bytes_parsed out) \<and> same_connection c c' \<and> same_parser P P' \<and> more_opcodes P P')"

lemma more_opcodes_same [simp]: "major_opcodes P' = major_opcodes P \<Longrightarrow> more_opcodes P P'"
  by (simp add: more_opcodes_def)

lemma same_parser_simps [simp]:
  "same_parser P P"
  "same_parser P (P'\<lparr>interned_atoms := A\<rparr>) = same_parser P P'"
  "same_parser P (P'\<lparr>stashed_strings := S\<rparr>) = same_parser P P'"
  "same_parser P (P'\<lparr>major_opcodes := M\<rparr>) = same_parser P P'"
  by (simp_all add: same_parser_def)

lemma same_connection_refl [simp]: "same_connection c c"
  by (simp add: same_connection_def)

lemma same_connectionD:
  assumes "same_connection c c'"
  shows "same_place (server_buffer c) (server_buffer c')" "conn_status c' = conn_status c"
    "byteswap c' = byteswap c" "conn_id c' = conn_id c" "client_buffer c' = client_buffer c"
    "sequence c' = sequence c" "open_requests c' = open_requests c"
proof -
  let ?c = "c'\<lparr>extensions := extensions c, server_buffer := server_buffer c\<rparr>"
  have c: "?c = c" and "same_place (server_buffer c) (server_buffer c')"
    using assms by (simp_all add: same_connection_def)
  then show "same_place (server_buffer c) (server_buffer c')"
    by simp
  have "conn_status ?c = conn_status c'" "byteswap ?c = byteswap c'" "conn_id ?c = conn_id c'"
    "client_buffer ?c = client_buffer c'" "sequence ?c = sequence c'"
    "open_requests ?c = open_requests c'"
    by simp_all
  then show "conn_status c' = conn_status c" "byteswap c' = byteswap c" "conn_id c' = conn_id c"
    "client_buffer c' = client_buffer c" "sequence c' = sequence c"
    "open_requests c' = open_requests c"
    unfolding c by simp_all
qed

lemma reply_law_reading:
  assumes "\<And>P c d n out. f P c d n = Inr out \<Longrightarrow> reply_length_checked P c d (bytes_parsed out)"
  shows "reply_law (reading f)"
  unfolding reply_law_def reading_def using assms by (auto elim!: map_resE)

lemma stashing_reply_law:
  assumes "\<And>P c d n x. f P c d n = Inr x \<Longrightarrow>
    reply_length_checked P c d (bytes_parsed (snd x)) \<and> same_parser P (fst x) \<and>
    major_opcodes (fst x) = major_opcodes P"
  shows "reply_law (stashing f)"
  unfolding reply_law_def stashing_def using assms by (fastforce elim!: map_resE)

lemma unstash_same:
  "unstashString i s P = Inr (v, P') \<Longrightarrow> same_parser P P' \<and> major_opcodes P' = major_opcodes P"
  by (auto simp: unstashString_def split: option.splits)

lemma InternAtom_reply_law: "reply_law (stashing parseReply_InternAtom)"
  by (rule stashing_reply_law; simp only: parseReply_InternAtom_def Let_def; elim parser_elims ifE)
    (auto simp: split_beta intro: extra_units_checks declares_units dest: unstash_same elim!: parser_elims)

lemma BigReqEnable_reply_law: "reply_law parseReply_BigReqEnable"
  by (auto simp: reply_law_def parseReply_BigReqEnable_def Let_def same_connection_def enableExtension_def
    set_extension_def intro: extra_units_checks declares_units split: option.split elim!: parser_elims)

lemma same_connection_simps [simp]:
  "same_connection c (poke_server_buffer c d off v)"
  "same_connection c c' \<Longrightarrow> same_connection c (enableExtension name c')"
  by (auto simp: same_connection_def poke_server_buffer_def same_place_def Let_def enableExtension_def
    set_extension_def split: option.split)

lemma enableExtensionParsing_same:
  "enableExtensionParsing name mj P = Inr P' \<Longrightarrow> same_parser P P' \<and> more_opcodes P P'"
  by (clarsimp simp: enableExtensionParsing_def more_opcodes_def) blast

lemma more_opcodes_after:
  "same_parser P P1 \<Longrightarrow> major_opcodes P1 = major_opcodes P \<Longrightarrow> more_opcodes P1 P' \<Longrightarrow> more_opcodes P P'"
  by (simp add: more_opcodes_def same_parser_def)

lemma same_parser_trans: "same_parser P P' \<Longrightarrow> same_parser P' P'' \<Longrightarrow> same_parser P P''"
  by (simp add: same_parser_def)

lemma QueryExtension_reply_law: "reply_law parseReply_QueryExtension"
  unfolding reply_law_def
proof (intro allI impI)
  fix P c d n P' c' out
  assume parsed: "parseReply_QueryExtension P c d n = Inr (P', c', out)"
  have "reply_length_checked P c d (bytes_parsed out)"
    using parsed unfolding parseReply_QueryExtension_def Let_def split_beta
    by (elim parser_elims) (auto intro: extra_units_checks declares_units)
  moreover have "same_parser P P'"
    using parsed unfolding parseReply_QueryExtension_def Let_def split_beta
    by (elim parser_elims ifE) (auto dest!: unstash_same enableExtensionParsing_same intro: same_parser_trans)
  moreover have "more_opcodes P P'"
    using parsed unfolding parseReply_QueryExtension_def Let_def split_beta
    by (elim parser_elims ifE)
      (auto dest!: unstash_same enableExtensionParsing_same intro: more_opcodes_after)
  moreover have "same_connection c c'"
    using parsed unfolding parseReply_QueryExtension_def Let_def split_beta
    by (elim parser_elims ifE) auto
  ultimately show "reply_length_checked P c d (bytes_parsed out) \<and> same_connection c c' \<and>
      same_parser P P' \<and> more_opcodes P P'"
    by simp
qed

lemma core_table_reply_law:
  "list_all (\<lambda>(code, traits). pred_option reply_law (reply_parse_func traits)) (core_request_table codes)"
  unfolding core_request_table_def core_request_def prod.case request_traits.simps list.pred_inject(2)
    option.pred_inject(2)
  by (intro conjI list.pred_inject(1) option.pred_inject(1) InternAtom_reply_law QueryExtension_reply_law)
    (rule reply_law_reading; simp only: parseReply_defs Let_def; elim parser_elims ifE;
      erule reply_checks; assumption?; assumption?; rule declares_units)+

lemma core_requests_reply_law:
  "core_requests codes code = Some traits \<Longrightarrow> pred_option reply_law (reply_parse_func traits)"
  unfolding core_requests_def by (rule list_all_map_of [OF core_table_reply_law])

lemma unknown_reply_law: "pred_option reply_law (reply_parse_func unknown_request)"
  unfolding unknown_request_def request_traits.simps option.pred_inject(2)
  by (rule reply_law_reading; simp only: parseReply_defs Let_def; elim parser_elims;
    erule reply_checks; assumption?; assumption?; rule declares_units)

lemma find_request_reply_law:
  "reply_parse_func (snd (find_request codes P major_opcode minor_opcode)) = Some f \<Longrightarrow> reply_law f"
  using core_requests_reply_law [of codes major_opcode] unknown_reply_law BigReqEnable_reply_law
  by (auto simp: find_request_def extension_requests_def big_requests_requests_def
    split: option.splits if_splits)

subsection \<open>Counters\<close>

definition recount_server :: "size_t \<Rightarrow> size_t \<Rightarrow> connection \<Rightarrow> connection" where
  "recount_server p m c = c\<lparr>server_buffer := counters p m (server_buffer c)\<rparr>"

lemma recount_server_simps [simp]:
  "byteswap (recount_server p m c) = byteswap c" "conn_id (recount_server p m c) = conn_id c"
  "conn_status (recount_server p m c) = conn_status c"
  "extensionEnabled name (recount_server p m c) = extensionEnabled name c"
  "read_view (recount_server p m c) v = read_view c v"
  "poke_server_buffer (recount_server p m c) d off w = recount_server p m (poke_server_buffer c d off w)"
  "enableExtension name (recount_server p m c) = recount_server p m (enableExtension name c)"
  "lookupRequest s (recount_server p m c) = lookupRequest s c"
  "unregisterRequest s (recount_server p m c) = recount_server p m (unregisterRequest s c)"
  by (simp_all add: recount_server_def extensionEnabled_def read_view_def poke_server_buffer_def
    enableExtension_def set_extension_def lookupRequest_def unregisterRequest_def Let_def counters_def
    split: option.split)

definition reply_ignores_counters :: "message_parser \<Rightarrow> bool" where
  "reply_ignores_counters f \<longleftrightarrow> (\<forall>P c d n p m.
     f P (recount_server p m c) d n =
       map_res (\<lambda>(P', c', out). (P', recount_server p m c', out)) (f P c d n))"

lemma reply_ignores_counters_lift:
  "(\<And>P c d n p m. f P (recount_server p m c) d n = f P c d n) \<Longrightarrow> reply_ignores_counters (reading f)"
  "(\<And>P c d n p m. g P (recount_server p m c) d n = g P c d n) \<Longrightarrow> reply_ignores_counters (stashing g)"
  by (auto simp: reply_ignores_counters_def reading_def stashing_def map_res_def and_then_def
    split: sum.splits)

lemma map_res_distrib:
  "map_res g (and_then r f) = and_then r (\<lambda>x. map_res g (f x))"
  "map_res g (require b r') = require b (map_res g r')"
  "map_res g (map_res h r0) = map_res (\<lambda>x. g (h x)) r0"
  "map_res g (if b then r' else r'') = (if b then map_res g r' else map_res g r'')"
  by (auto simp: map_res_def and_then_def require_def split: sum.splits)

lemma and_then_map: "(\<And>x. F (h x) = G x) \<Longrightarrow> and_then (map_res h r) F = and_then r G"
  by (cases r) simp_all

lemma require_cong: "r = r' \<Longrightarrow> require b r = require b r'"
  by simp

lemma enabling_replies_counters:
  "reply_ignores_counters parseReply_BigReqEnable"
  "reply_ignores_counters parseReply_QueryExtension"
proof -
  show "reply_ignores_counters parseReply_BigReqEnable"
    by (simp add: reply_ignores_counters_def parseReply_BigReqEnable_def Let_def map_res_distrib)
  have poked: "(if b then map_res (\<lambda>off. (d[off := 0], poke_server_buffer (recount_server p m c) d off 0)) r
       else Inr (d, recount_server p m c)) =
      map_res (map_prod id (recount_server p m))
        (if b then map_res (\<lambda>off. (d[off := 0], poke_server_buffer c d off 0)) r else Inr (d, c))"
    for b d p m c and r :: "nat res"
    by (simp add: map_res_distrib)
  have enabled: "(if b then Inr (P, recount_server p m c) else and_then r (\<lambda>mj. and_then (f mj) (\<lambda>P'.
        if b' then Inr (P', recount_server p m c)
        else require (\<not> extensionEnabled name (recount_server p m c))
               (Inr (P', enableExtension name (recount_server p m c)))))) =
      map_res (map_prod id (recount_server p m))
        (if b then Inr (P, c) else and_then r (\<lambda>mj. and_then (f mj) (\<lambda>P'.
           if b' then Inr (P', c)
           else require (\<not> extensionEnabled name c) (Inr (P', enableExtension name c)))))"
    for b b' P p m c name and r :: "nat res" and f :: "nat \<Rightarrow> parser res"
    by (simp add: map_res_distrib cong: if_cong)
  show "reply_ignores_counters parseReply_QueryExtension"
    unfolding reply_ignores_counters_def parseReply_QueryExtension_def Let_def split_beta map_res_distrib
    apply (intro allI)
    apply (simp only: recount_server_simps(1-2,5) poked)
    apply (rule require_cong)
    apply (rule and_then_cong, rule refl)
    apply (rule require_cong)
    apply (rule and_then_cong, rule refl)
    apply (rule require_cong)
    apply (rule and_then_cong, rule refl)
    apply (rule and_then_cong, rule refl)
    apply (rule and_then_cong, rule refl)
    apply (rule and_then_map)
    apply (simp only: map_prod_def fst_conv snd_conv id_def split_beta)
    apply (rule and_then_cong, rule refl)
    apply (unfold enabled)
    apply (rule and_then_map)
    apply (simp only: map_prod_def fst_conv snd_conv id_def split_beta map_res_distrib)
    done
qed

lemma core_table_reply_counters:
  "list_all (\<lambda>(code, traits). pred_option reply_ignores_counters (reply_parse_func traits))
     (core_request_table codes)"
  unfolding core_request_table_def core_request_def prod.case request_traits.simps list.pred_inject(2)
    option.pred_inject(2)
  by (intro conjI list.pred_inject(1) option.pred_inject(1) enabling_replies_counters)
    (rule reply_ignores_counters_lift; simp only: parseReply_defs recount_server_simps)+

lemma core_requests_reply_counters:
  "core_requests codes code = Some traits \<Longrightarrow> pred_option reply_ignores_counters (reply_parse_func traits)"
  unfolding core_requests_def by (rule list_all_map_of [OF core_table_reply_counters])

lemma unknown_reply_counters: "pred_option reply_ignores_counters (reply_parse_func unknown_request)"
  unfolding unknown_request_def request_traits.simps option.pred_inject(2)
  by (rule reply_ignores_counters_lift; simp only: parseReply_defs recount_server_simps)

lemma find_request_reply_counters:
  "reply_parse_func (snd (find_request codes P major_opcode minor_opcode)) = Some f \<Longrightarrow>
   reply_ignores_counters f"
  using core_requests_reply_counters [of codes major_opcode] unknown_reply_counters
    enabling_replies_counters
  by (auto simp: find_request_def extension_requests_def big_requests_requests_def
    split: option.splits if_splits)

subsection \<open>The handler of replies\<close>

lemma Inr_triple: "r = Inr x \<Longrightarrow> r = Inr (fst x, fst (snd x), snd (snd x))"
  by simp

lemma logReply_accepts:
  assumes "logReply codes P c d sz = Inr (P', c', line, k)"
  obtains n c1 s where "reply_length_checked P c d n"
    and "k = ucast n" and "n \<noteq> 0" and "k \<le> sz" and "same_parser P P'"
    and "more_opcodes P P'" and "same_connection c c1" and "c' = c1 \<or> c' = unregisterRequest s c1"
proof -
  from assms have "\<exists>(opcodes :: request_opcodes) f c1 reply s.
      reply_parse_func (snd (find_request codes P (unat (major opcodes)) (unat (minor opcodes)))) = Some f \<and>
      f P c d sz = Inr (P', c1, reply) \<and> (c' = c1 \<or> c' = unregisterRequest s c1) \<and>
      k = ucast (bytes_parsed reply) \<and> bytes_parsed reply \<noteq> 0 \<and> k \<le> sz"
    unfolding logReply_def Let_def split_beta
  proof (elim parser_elims, split option.split_asm, simp, elim exE conjE and_thenE)
    fix seq f x last and opcodes :: request_opcodes
    let ?traits = "snd (find_request codes P (unat (major opcodes)) (unat (minor opcodes)))"
    assume "reply_parse_func ?traits = Some f" and "f P c d sz = Inr x"
    moreover assume "require (bytes_parsed (snd (snd x)) \<noteq> 0)
      (require (ucast (bytes_parsed (snd (snd x))) \<le> sz)
        (Inr (fst x, if last then unregisterRequest (of_nat seq) (fst (snd x)) else fst (snd x),
          request_line P c ''Reply to '' (of_nat seq)
            (fst (find_request codes P (unat (major opcodes)) (unat (minor opcodes))))
            (unat (major opcodes)) (request_name ?traits) (unat (minor opcodes)) (snd (snd x)),
          ucast (bytes_parsed (snd (snd x)))))) = Inr (P', c', line, k)"
    ultimately show ?thesis
      by - (intro exI [of _ opcodes] exI [of _ f] exI [of _ "fst (snd x)"] exI [of _ "snd (snd x)"]
        exI [of _ "of_nat seq"], auto split: if_splits)
  qed
  then obtain f c1 reply s and opcodes :: request_opcodes where
    f: "reply_parse_func (snd (find_request codes P (unat (major opcodes)) (unat (minor opcodes)))) = Some f"
    and parsed: "f P c d sz = Inr (P', c1, reply)"
    and c': "c' = c1 \<or> c' = unregisterRequest s c1"
    and k: "k = ucast (bytes_parsed reply)" "bytes_parsed reply \<noteq> 0" "k \<le> sz"
    by blast
  from find_request_reply_law [OF f] parsed have
    "reply_length_checked P c d (bytes_parsed reply)" "same_connection c c1" "same_parser P P'"
    "more_opcodes P P'"
    by (auto simp: reply_law_def)
  with that c' k show ?thesis
    by blast
qed

lemma obeys_logReply:
  "obeys server_buffer (\<lambda>b c. c\<lparr>server_buffer := b\<rparr>) (logReply codes)"
proof -
  have frame: "logReply codes P (recount_server p m c) d n =
      map_res (\<lambda>(P', c', t, k). (P', recount_server p m c', t, k)) (logReply codes P c d n)"
    for P c d n p m
  proof -
    have parse: "f P (recount_server p m c) d n =
        map_res (\<lambda>(P', c', out). (P', recount_server p m c', out)) (f P c d n)"
      if "reply_parse_func (snd (find_request codes P i j)) = Some f" for f i j
      using find_request_reply_counters [OF that] by (simp add: reply_ignores_counters_def)
    have line: "request_line P (recount_server p m c) = request_line P c" for P
      by (simp add: fun_eq_iff request_line_def message_prefix_def)
    have ends: "ends_request P (recount_server p m c) = ends_request P c" for P c
      by (simp add: fun_eq_iff ends_request_def)
    show ?thesis
      unfolding logReply_def Let_def split_beta map_res_distrib recount_server_simps line
      by (intro require_cong and_then_cong refl)
        (auto simp: parse ends map_res_distrib intro!: and_then_map and_then_cong require_cong
          split: option.split)
  qed
  moreover have "conn_status c' = conn_status c \<and> byteswap c' = byteswap c \<and>
      little_endian P' = little_endian P \<and> same_place (server_buffer c) (server_buffer c')"
    if "logReply codes P c d n = Inr (P', c', t, k)" for P c d n P' c' t k
    using that
    by (elim logReply_accepts) (auto simp: unregisterRequest_def same_parser_def dest: same_connectionD)
  ultimately show ?thesis
    unfolding obeys_def recount_server_def by blast
qed

end
