(* ===== verification/Logs.thy ===== *)
theory Logs
  imports Streams
begin

text \<open>
  What ends up in the log for one message from the server: the dispatch over all core event
  and error codes, the text under another whitespace setting or on another host, and the log
  lines (\<open>_parseEvent\<close>, \<open>_logEvent\<close>, \<open>_logError\<close>).
\<close>

subsection \<open>Events\<close>

lemma core_event_code: "(core_events code = None) = (event_layout code = None)"
  by (simp add: core_events_def event_layout_def)

lemma core_event_codes: "core_events code \<noteq> None \<longleftrightarrow> 2 \<le> code \<and> code \<le> 34"
proof -
  have "[2 ..< 35] =
    [2, 3, 4, 5, 6, 7, 8, 9, 10, 11, 12, 13, 14, 15, 16, 17, 18, 19, 20, 21, 22, 23, 24, 25, 26,
    27, 28, 29, 30, 31, 32, 33, 34]"
    by (simp add: upt_rec_numeral)
  then have "dom core_events = set [2 ..< 35]"
    unfolding core_events_def dom_map_of_conv_image_fst
    by (simp only: list.set image_insert image_empty fst_conv event_codes)
  then have "code \<in> dom core_events \<longleftrightarrow> 2 \<le> code \<and> code < 35"
    by (simp only: set_upt atLeastLessThan_iff)
  then show ?thesis
    unfolding domIff by linarith
qed

lemma core_event_name:
  "core_events code = Some tr \<Longrightarrow> event_name tr = event_names ! code \<and> event_extension tr = None"
  unfolding core_events_def by (auto split: if_splits)

lemma Event_Header_code:
  "data \<noteq> [] \<Longrightarrow> ordered_member P bsw Event_Header data ''code'' = Inr (unat (hd data))"
  by (rule ordered_member_first) (simp_all add: Event_Header_def)

lemma Event_Header_sequence_num:
  "4 \<le> length data \<Longrightarrow> ordered_member P bsw Event_Header data ''sequence_num'' =
     Inr (ordered 2 bsw (host_val (little_endian P) (take 2 (drop 2 data))))"
proof -
  assume "4 \<le> length data"
  moreover have "field_at Event_Header ''sequence_num'' = Some (2, CARD16)"
    by (simp add: Event_Header_def)
  ultimately show ?thesis
    by (simp add: ordered_member_def load_member_def load_ok)
qed

lemma event_layout_size:
  assumes "event_layout code = Some L"
  shows "sizeof L = 32"
  using assms unfolding event_layout_def
  by (auto simp: event_layouts split: if_splits)

lemma parseEvent_ok:
  assumes "event_layout (unat (hd data) AND EVENT_CODE_MASK) = Some L" and "readable P L data sz"
  shows "parses 32 (parseEvent core_events P conn data sz ws)"
proof -
  let ?code = "unat (hd data) AND EVENT_CODE_MASK"
  obtain tr where tr: "core_events ?code = Some tr"
    using core_event_code [of ?code] assms(1) by (cases "core_events ?code") auto
  from core_event_parses [OF tr assms] obtain s where
    "event_parse_func tr P conn data sz ws = Inr \<lparr>str = s, bytes_parsed = of_nat 32\<rparr>"
    by (auto simp: parses_def)
  moreover have "data \<noteq> []" "32 \<le> unat sz"
    using readable_bounds [OF assms(2) event_layout_size [OF assms(1)]] by simp_all
  ultimately show ?thesis
    using tr by (simp add: parseEvent_def Event_Header_code parses_def Event_ENCODING_SZ_def
      word_le_nat_alt)
qed

text \<open>The log line of an event.\<close>

definition event_line :: "parser \<Rightarrow> connection \<Rightarrow> byte list \<Rightarrow> string \<Rightarrow> string" where
  "event_line P conn data body =
     (let c = unat (hd data); code = c AND EVENT_CODE_MASK in
      message_prefix P conn 32 SERVER_TO_CLIENT
        (if code = KEYMAPNOTIFY then ''?????''
         else fmt_zpad (fmtl P) 5
                (ordered 2 (byteswap conn) (host_val (little_endian P) (take 2 (drop 2 data))))) @
      ''Event '' @ event_names ! code @ ''('' @ fmt_dec (fmtl P) (int code) @ '')'' @
      (if 128 \<le> c then '' (generated)'' else []) @ '': '' @ body @ newline)"

lemma generated_flag: "c < 256 \<Longrightarrow> 0 < (c :: nat) AND GENERATED_EVENT_FLAG \<longleftrightarrow> 128 \<le> c"
proof -
  assume c: "c < 256"
  have "c div 128 < 2"
    using c by (simp add: div_less_iff_less_mult)
  have "push_bit 7 (mask 1) = GENERATED_EVENT_FLAG"
    by (simp add: GENERATED_EVENT_FLAG_def push_bit_eq_mult mask_eq_exp_minus_1)
  then have "c AND GENERATED_EVENT_FLAG = push_bit 7 (take_bit 1 (c div 2 ^ 7))"
    using and_shifted_mask [of c 7 1] by (simp only: drop_bit_eq_div)
  also have "\<dots> = (c div 128) mod 2 * 128"
    by (simp add: push_bit_eq_mult take_bit_eq_mod)
  also have "\<dots> = c div 128 * 128"
    using \<open>c div 128 < 2\<close> by simp
  finally show ?thesis
    by (simp add: div_greater_zero_iff)
qed

lemma logEvent_line:
  assumes "event_layout (unat (hd data) AND EVENT_CODE_MASK) = Some L" and "readable P L data sz"
    and "parseEvent core_events P conn data sz (ROOT_WS P) = Inr out"
  shows "logEvent core_events P conn data sz = Inr (event_line P conn data (str out), 32)"
proof -
  let ?code = "unat (hd data) AND EVENT_CODE_MASK"
  obtain tr where tr: "core_events ?code = Some tr"
    using core_event_code [of ?code] assms(1) by (cases "core_events ?code") auto
  have bounds: "data \<noteq> []" "32 \<le> length data" "32 \<le> unat sz"
    using readable_bounds [OF assms(2) event_layout_size [OF assms(1)]] by simp_all
  have out: "bytes_parsed out = 32"
    using parseEvent_ok [OF assms(1,2), of conn "ROOT_WS P"] assms(3) by (auto simp: parses_def)
  have "unat (hd data) < 256"
    using unsigned_less [of "hd data"] by simp
  with bounds out tr core_event_name [OF tr] assms(3) show ?thesis
    by (simp add: logEvent_def event_line_def Let_def Event_Header_code Event_Header_sequence_num
      Event_ENCODING_SZ_def word_le_nat_alt generated_flag coded_name_def)
qed

subsection \<open>Errors\<close>

lemma core_error_codes: "core_errors code \<noteq> None \<longleftrightarrow> 1 \<le> code \<and> code \<le> 17"
proof -
  have "[2 ..< 18] = [2, 3, 4, 5, 6, 7, 8, 9, 10, 11, 12, 13, 14, 15, 16, 17]"
    by (simp add: upt_rec_numeral)
  then have "dom core_errors = insert 1 (set [2 ..< 18])"
    unfolding core_errors_table dom_map_of_conv_image_fst
    by (simp only: list.set image_insert image_empty fst_conv error_codes_defs)
  then have "code \<in> dom core_errors \<longleftrightarrow> code = 1 \<or> 2 \<le> code \<and> code < 18"
    by (simp only: set_upt atLeastLessThan_iff insert_iff)
  then show ?thesis
    unfolding domIff by linarith
qed

lemma core_error_layout: "(core_errors code = None) = (error_layout code = None)"
  by (simp add: core_errors_table error_layout_def)

lemma core_error_name:
  "core_errors code = Some tr \<Longrightarrow> error_name tr = error_names ! code \<and> error_extension tr = None"
  unfolding core_errors_table by (auto split: if_splits)

text \<open>No member of an error has bits that must be zero, so 32 bytes are all it takes.\<close>

lemma zero_bits_ok_plain:
  assumes "list_all (\<lambda>(f, t). \<forall>g u off. field_at L g = Some (off, u) \<longrightarrow> ZERO_BITS u = 0) L"
    and "list_all (\<lambda>(f, t). field_at L f \<noteq> None) L" and "sizeof L \<le> length m"
  shows "zero_bits_ok le L m"
proof -
  have "case load_member le L m f of Inl _ \<Rightarrow> False | Inr (u, n) \<Rightarrow> value_ok u n"
    if "(f, t) \<in> set L" for f t
  proof -
    from that assms(2) obtain off u where at: "field_at L f = Some (off, u)"
      by (auto simp: list_all_iff)
    moreover have "ZERO_BITS u = 0"
      using that assms(1) at by (auto simp: list_all_iff)
    ultimately show ?thesis
      using load_member_ok [OF at assms(3)] by (simp add: value_ok_def)
  qed
  then show ?thesis
    by (auto simp: zero_bits_ok_def list_all_iff)
qed

lemma field_at_ZERO_BITS:
  "field_at L g = Some (off, u) \<Longrightarrow> list_all (\<lambda>(f, t). ZERO_BITS t = 0) L \<Longrightarrow> ZERO_BITS u = 0"
  by (induction L g arbitrary: off rule: field_at.induct) (auto split: if_splits)

lemma field_at_member: "(f, t) \<in> set L \<Longrightarrow> field_at L f \<noteq> None"
  by (induction L f rule: field_at.induct) auto

lemma no_zero_bits:
  assumes "list_all (\<lambda>(f, t). ZERO_BITS t = 0) L" and "sizeof L \<le> length m"
  shows "zero_bits_ok le L m"
proof -
  have "field_at L f \<noteq> None" if "(f, t) \<in> set L" for f t
    using that by (rule field_at_member)
  then show ?thesis
    using assms field_at_ZERO_BITS by (intro zero_bits_ok_plain) (fastforce simp: list_all_iff)+
qed

lemma error_layout_plain:
  assumes "error_layout code = Some L"
  shows "list_all (\<lambda>(f, t). ZERO_BITS t = 0) L \<and> sizeof L = 32"
  using assms unfolding error_layout_def
  by (auto simp: error_layouts embed_def split: if_splits)

lemma Error_Encoding_members:
  assumes "32 \<le> length data"
  shows "ordered_member P bsw Error_Encoding data ''header.error'' = Inr (unat (hd data))"
    and "ordered_member P bsw Error_Encoding data ''header.code'' = Inr (unat (data ! 1))"
    and "ordered_member P bsw Error_Encoding data ''header.sequence_num'' =
      Inr (ordered 2 bsw (host_val (little_endian P) (take 2 (drop 2 data))))"
proof -
  have "field_at Error_Encoding ''header.error'' = Some (0, CARD8)"
    by (simp add: Error_Encoding_def Error_Header_def embed_def)
  moreover have "data \<noteq> []"
    using assms by auto
  ultimately show "ordered_member P bsw Error_Encoding data ''header.error'' = Inr (unat (hd data))"
    by (rule ordered_member_first)
  have "field_at Error_Encoding ''header.code'' = Some (1, CARD8)"
    by (simp add: Error_Encoding_def Error_Header_def embed_def)
  moreover have "take 1 (drop 1 data) = [data ! 1]"
    using assms by (simp add: take_Suc_conv_app_nth hd_drop_conv_nth take_Suc drop_Suc nth_tl)
  ultimately show "ordered_member P bsw Error_Encoding data ''header.code'' = Inr (unat (data ! 1))"
    using assms by (simp add: ordered_member_def load_member_def load_ok host_val_def)
  have "field_at Error_Encoding ''header.sequence_num'' = Some (2, CARD16)"
    by (simp add: Error_Encoding_def Error_Header_def embed_def)
  then show "ordered_member P bsw Error_Encoding data ''header.sequence_num'' =
      Inr (ordered 2 bsw (host_val (little_endian P) (take 2 (drop 2 data))))"
    using assms by (simp add: ordered_member_def load_member_def load_ok)
qed

definition sequence_num :: "parser \<Rightarrow> connection \<Rightarrow> byte list \<Rightarrow> nat" where
  \<comment> \<open>the sequence number in a message from the server\<close>
  "sequence_num P conn data =
     ordered 2 (byteswap conn) (host_val (little_endian P) (take 2 (drop 2 data)))"

lemma logError_ok:
  assumes "32 \<le> length data" "32 \<le> unat sz" and "hd data = 0"
    and "1 \<le> unat (data ! 1)" "unat (data ! 1) \<le> 17"
  shows "\<exists>body. logError core_errors P conn data sz =
    Inr (message_prefix P conn 32 SERVER_TO_CLIENT (fmt_zpad (fmtl P) 5 (sequence_num P conn data)) @
         ''Error '' @ error_names ! unat (data ! 1) @ ''('' @
         fmt_dec (fmtl P) (int (unat (data ! 1))) @ ''): '' @ body @ newline,
         32, unregisterRequest (of_nat (sequence_num P conn data)) conn)"
proof -
  let ?code = "unat (data ! 1)"
  have "core_errors ?code \<noteq> None"
    using assms(4,5) core_error_codes [of ?code] by blast
  then obtain tr where tr: "core_errors ?code = Some tr"
    by blast
  then obtain L where L: "error_layout ?code = Some L"
    using core_error_layout [of ?code] by (cases "error_layout ?code") auto
  have "readable P L data sz"
    using error_layout_plain [OF L] assms(1,2) by (simp add: readable_def no_zero_bits)
  from core_error_parses [OF tr L this] assms(3) obtain body where
    "error_parse_func tr P conn data sz = Inr \<lparr>str = body, bytes_parsed = of_nat 32\<rparr>"
    by (auto simp: parses_def ERROR_PREFIX_def)
  with tr core_error_name [OF tr] assms(1-3) show ?thesis
    by (simp add: logError_def Let_def Error_Encoding_members ERROR_PREFIX_def coded_name_def
      sequence_num_def)
qed

subsection \<open>The host's byte order\<close>

definition other_host :: "parser \<Rightarrow> parser" where
  "other_host P = P\<lparr>little_endian := \<not> little_endian P\<rparr>"

definition other_order :: "connection \<Rightarrow> connection" where
  \<comment> \<open>the same client, seen from a host of the other byte order\<close>
  "other_order c = c\<lparr>byteswap := \<not> byteswap c\<rparr>"

lemma other_host_simps [simp]:
  "fmtl (other_host P) = fmtl P" "settings (other_host P) = settings P"
  "ROOT_WS (other_host P) = ROOT_WS P" "little_endian (other_host P) = (\<not> little_endian P)"
  "byteswap (other_order c) = (\<not> byteswap c)" "conn_id (other_order c) = conn_id c"
  by (simp_all add: other_host_def other_order_def)

lemma ordered_load_host:
  assumes "w \<in> {1, 2, 4}"
  shows "map_res (ordered w (\<not> bsw)) (load (\<not> le) m off w) = map_res (ordered w bsw) (load le m off w)"
proof (cases "off + w \<le> length m")
  case True
  then have "length (take w (drop off m)) = w"
    by simp
  with assms ordered_host_val [of "take w (drop off m)" "\<not> bsw" "\<not> le"]
    ordered_host_val [of "take w (drop off m)" bsw le] True
  show ?thesis
    by (auto simp: load_ok)
next
  case False
  then show ?thesis
    by (simp add: load_def read_bytes_def)
qed

definition plain_int :: "layout \<Rightarrow> string \<Rightarrow> bool" where
  "plain_int L f = (case field_at L f of
     None \<Rightarrow> True | Some (off, t) \<Rightarrow> t = CARD8 \<or> t = CARD16 \<or> t = CARD32)"

lemma member_other_host:
  assumes "plain_int L f" and "\<not> verbose (settings P)"
  shows "member (other_host P) (\<not> bsw) L data f names' False = member P bsw L data f names' False"
proof (cases "field_at L f")
  case (Some p)
  obtain off t where p: "p = (off, t)"
    by (cases p)
  have t: "t = CARD8 \<or> t = CARD16 \<or> t = CARD32"
    using assms(1) Some p by (simp add: plain_int_def)
  let ?w = "ptype_size t"
  have w: "?w \<in> {1, 2, 4}"
    using t by auto
  define show_int where "show_int r v = formatInt P ?w False v False r False" for r v
  have fmt: "formatVariable Q t n b r False = show_int r (ordered ?w b n)"
    if "Q = P \<or> Q = other_host P" for Q n b r
    using t that assms(2) by (auto simp: show_int_def formatInt_def with_hex_def Let_def)
  have "member Q b L data f names' False =
      and_then names' (\<lambda>r. and_then (map_res (ordered ?w b) (load (little_endian Q) data off ?w)) (show_int r))"
    if "Q = P \<or> Q = other_host P" for Q b
    using fmt [OF that] Some p
    by (cases "load (little_endian Q) data off ?w"; cases names')
      (simp_all add: member_def load_member_def)
  then show ?thesis
    using ordered_load_host [OF w, of bsw "little_endian P" data off] by simp
qed (simp add: member_def load_member_def)

lemma ordered_member_other_host:
  assumes "plain_int L f"
  shows "ordered_member (other_host P) (\<not> bsw) L data f = ordered_member P bsw L data f"
proof (cases "field_at L f")
  case (Some p)
  obtain off t where p: "p = (off, t)"
    by (cases p)
  let ?w = "ptype_size t"
  have w: "?w \<in> {1, 2, 4}"
    using assms Some p by (auto simp: plain_int_def)
  have "ordered_member Q b L data f = map_res (ordered ?w b) (load (little_endian Q) data off ?w)" for Q b
    using Some p by (cases "load (little_endian Q) data off ?w")
      (simp_all add: ordered_member_def load_member_def)
  then show ?thesis
    using ordered_load_host [OF w, of bsw "little_endian P" data off] by simp
qed (simp add: ordered_member_def load_member_def)

lemma rows_other_host [simp]:
  "shown (other_host P) = shown P" "format_row (other_host P) = format_row P"
  by (simp_all add: fun_eq_iff shown_def format_row_def)

lemma braces_other_host [simp]: "braces (other_host P) ws w xs = braces P ws w xs"
  by (simp add: braces_def)

lemma braces_verbose_only [simp]:
  "\<not> verbose (settings P) \<Longrightarrow> braces P ws w (verbose_only l v # xs) = braces P ws w xs"
  by (simp add: braces_def shown_def)

lemma error_members_plain:
  "plain_int Error_Header ''code''"
  "plain_int Error_Encoding ''header.error''" "plain_int Error_Encoding ''header.code''"
  "plain_int Error_Encoding ''header.sequence_num''"
  "plain_int Error_Encoding ''minor_opcode''" "plain_int Error_Encoding ''major_opcode''"
  "plain_int error_ResourceIdError_Encoding ''header.error''"
  "plain_int error_ResourceIdError_Encoding ''bad_resource_id''"
  "plain_int error_ResourceIdError_Encoding ''minor_opcode''"
  "plain_int error_ResourceIdError_Encoding ''major_opcode''"
  "plain_int error_Value_Encoding ''header.error''" "plain_int error_Value_Encoding ''header.code''"
  "plain_int error_Value_Encoding ''bad_value''"
  "plain_int error_Value_Encoding ''minor_opcode''" "plain_int error_Value_Encoding ''major_opcode''"
  "plain_int error_Atom_Encoding ''header.error''" "plain_int error_Atom_Encoding ''header.code''"
  "plain_int error_Atom_Encoding ''bad_atom_id''"
  "plain_int error_Atom_Encoding ''minor_opcode''" "plain_int error_Atom_Encoding ''major_opcode''"
  by (simp_all add: plain_int_def error_layouts embed_def)

lemmas other_host_members =
  error_members_plain [THEN ordered_member_other_host] error_members_plain [THEN member_other_host]

lemma error_bodies_other_host:
  assumes "\<not> verbose (settings P)"
  shows "parseError_SimpleError (other_host P) (other_order c) data sz = parseError_SimpleError P c data sz"
    and "parseError_ResourceIdError (other_host P) (other_order c) data sz =
      parseError_ResourceIdError P c data sz"
    and "parseError_Value (other_host P) (other_order c) data sz = parseError_Value P c data sz"
    and "parseError_Atom (other_host P) (other_order c) data sz = parseError_Atom P c data sz"
  using assms
  by (simp_all add: parseError_SimpleError_def parseError_ResourceIdError_def parseError_Value_def
    parseError_Atom_def Let_def NOT_BITMASK_def other_host_members)

lemma core_error_other_host:
  assumes "core_errors code = Some tr" and "\<not> verbose (settings P)"
  shows "error_parse_func tr (other_host P) (other_order c) data sz = error_parse_func tr P c data sz"
  using assms(1) error_bodies_other_host [OF assms(2)] unfolding core_errors_table
  by (auto simp: other_host_members parseError_Request_def parseError_Window_def
    parseError_Pixmap_def parseError_Cursor_def parseError_Font_def parseError_Match_def
    parseError_Drawable_def parseError_Access_def parseError_Alloc_def parseError_Colormap_def
    parseError_GContext_def parseError_IDChoice_def parseError_Name_def parseError_Length_def
    parseError_Implementation_def split: if_splits)

end
