(* ===== verification/Setup.thy ===== *)
theory Setup
  imports Logs StructFormat
begin

text \<open>
  Connection setup (\<open>protocol/connection_setup.hpp\<close>,
  \<open>X11ProtocolParser__logConnectionSetup.cpp\<close> and the list members of
  \<open>X11ProtocolParser__parseListMember.cpp\<close> and \<open>X11ProtocolParser__formatVariable.cpp\<close>
  that only occur in it): the first message of a client and the answer of the server. The
  definitions are the fields \<open>log_initiation\<close> and \<open>log_init_response\<close> of the handlers
  in \<open>Streams\<close>.
\<close>

subsection \<open>Encodings\<close>

definition Refusal_Header :: layout where
  "Refusal_Header =
     [(''success'', CARD8), (''reason_len'', CARD8), (''protocol_major_version'', CARD16),
      (''protocol_minor_version'', CARD16), (''following_aligned_units'', CARD16)]"

definition Acceptance_Header :: layout where
  "Acceptance_Header =
     [(''success'', CARD8), (''_unused'', CARD8), (''protocol_major_version'', CARD16),
      (''protocol_minor_version'', CARD16), (''following_aligned_units'', CARD16)]"

definition Acceptance_Encoding :: layout where
  "Acceptance_Encoding =
     [(''release_number'', CARD32), (''resource_id_base'', CARD32), (''resource_id_mask'', CARD32),
      (''motion_buffer_size'', CARD32), (''vendor_len'', CARD16),
      (''maximum_request_length'', CARD16), (''roots_ct'', CARD8), (''pixmap_formats_ct'', CARD8),
      (''image_byte_order'', CARD8), (''bitmap_format_bit_order'', CARD8),
      (''bitmap_format_scanline_unit'', CARD8), (''bitmap_format_scanline_pad'', CARD8),
      (''min_keycode'', KEYCODE), (''max_keycode'', KEYCODE), (''_unused2'', Bytes 4)]"

definition FORMAT :: layout where
  "FORMAT =
     [(''depth'', CARD8), (''bits_per_pixel'', CARD8), (''scanline_pad'', CARD8),
      (''_unused'', Bytes 5)]"

definition SCREEN_Header :: layout where
  "SCREEN_Header =
     [(''root'', WINDOW), (''default_colormap'', COLORMAP), (''white_pixel'', CARD32),
      (''black_pixel'', CARD32), (''current_input_masks'', SETofEVENT),
      (''width_in_pixels'', CARD16), (''height_in_pixels'', CARD16),
      (''width_in_millimeters'', CARD16), (''height_in_millimeters'', CARD16),
      (''min_installed_maps'', CARD16), (''max_installed_maps'', CARD16),
      (''root_visual'', VISUALID), (''backing_stores'', CARD8), (''save_unders'', BOOL),
      (''root_depth'', CARD8), (''allowed_depths_ct'', CARD8)]"

definition DEPTH_Header :: layout where
  "DEPTH_Header =
     [(''depth'', CARD8), (''_unused1'', CARD8), (''visuals_ct'', CARD16), (''_unused2'', Bytes 4)]"

definition VISUALTYPE :: layout where
  "VISUALTYPE =
     [(''visual_id'', VISUALID), (''class_'', CARD8), (''bits_per_rgb_value'', CARD8),
      (''colormap_entries'', CARD16), (''red_mask'', CARD32), (''green_mask'', CARD32),
      (''blue_mask'', CARD32), (''_unused'', Bytes 4)]"

definition InitResponse_success_names :: "string list" where
  "InitResponse_success_names = [''Failed'', ''Success'', ''Authenticate'']"

definition bitmap_format_bit_order_names :: "string list" where
  "bitmap_format_bit_order_names = [''LeastSignificant'', ''MostSignificant'']"

definition backing_stores_names :: "string list" where
  "backing_stores_names = [''Never'', ''WhenMapped'', ''Always'']"

definition VISUALTYPE_class_names :: "string list" where
  "VISUALTYPE_class_names =
     [''StaticGray'', ''GrayScale'', ''StaticColor'', ''PseudoColor'', ''TrueColor'',
      ''DirectColor'']"

definition InitResponse_FAILED :: nat where
  "InitResponse_FAILED = 0"

definition InitResponse_SUCCESS :: nat where
  "InitResponse_SUCCESS = 1"

definition InitResponse_AUTHENTICATE :: nat where
  "InitResponse_AUTHENTICATE = 2"

definition MAJOR_VERSION :: nat where
  "MAJOR_VERSION = 11"

definition MINOR_VERSION :: nat where
  "MINOR_VERSION = 0"

subsection \<open>Members of lists\<close>

definition formatFORMAT :: "parser \<Rightarrow> bool \<Rightarrow> byte list \<Rightarrow> whitespace \<Rightarrow> string res" where
  "formatFORMAT P bsw data ws =
     (let enc = member P bsw FORMAT data in
      braces P ws (name_width ws ''bits-per-pixel'')
        [always ''depth'' (enc ''depth'' no_names NOT_BITMASK),
         always ''bits-per-pixel'' (enc ''bits_per_pixel'' no_names NOT_BITMASK),
         always ''scanline-pad'' (enc ''scanline_pad'' no_names NOT_BITMASK)])"

definition formatVISUALTYPE :: "parser \<Rightarrow> bool \<Rightarrow> byte list \<Rightarrow> whitespace \<Rightarrow> string res" where
  "formatVISUALTYPE P bsw data ws =
     (let enc = member P bsw VISUALTYPE data in
      braces P ws (name_width ws ''bits-per-rgb-value'')
        [always ''visual-id'' (enc ''visual_id'' no_names NOT_BITMASK),
         always ''class'' (enc ''class_'' (range_all VISUALTYPE_class_names) NOT_BITMASK),
         always ''bits-per-rgb-value'' (enc ''bits_per_rgb_value'' no_names NOT_BITMASK),
         always ''colormap-entries'' (enc ''colormap_entries'' no_names NOT_BITMASK),
         always ''red-mask'' (enc ''red_mask'' no_names BITMASK),
         always ''green-mask'' (enc ''green_mask'' no_names BITMASK),
         always ''blue-mask'' (enc ''blue_mask'' no_names BITMASK)])"

definition parseListMember_DEPTH ::
  "parser \<Rightarrow> bool \<Rightarrow> byte list \<Rightarrow> size_t \<Rightarrow> whitespace \<Rightarrow> parsing_outputs res"
where
  "parseListMember_DEPTH P bsw data sz ws =
     (let enc = member P bsw DEPTH_Header data in
      require (unat sz \<ge> sizeof DEPTH_Header) (
      and_then (ordered_member P bsw DEPTH_Header data ''visuals_ct'') (\<lambda>visuals_ct.
      and_then (nested DEFAULT ws) (\<lambda>list_ws.
      and_then (parseLISTof_struct (parseListMember_struct VISUALTYPE (formatVISUALTYPE P bsw))
                  (drop (sizeof DEPTH_Header) data) (sz - of_nat (sizeof DEPTH_Header))
                  (of_nat visuals_ct) list_ws FORCE_SINGLELINE) (\<lambda>visuals.
      let n = of_nat (sizeof DEPTH_Header) + bytes_parsed visuals in
      require (unat n \<le> unat sz) (
      map_res (\<lambda>s. \<lparr>str = s, bytes_parsed = n\<rparr>)
        (braces P ws
          (name_width ws (if verbose (settings P) then ''(VISUALs in visuals)'' else ''visuals''))
          [always ''depth'' (enc ''depth'' no_names NOT_BITMASK),
           verbose_only ''(VISUALs in visuals)'' (enc ''visuals_ct'' no_names NOT_BITMASK),
           always ''visuals'' (Inr (str visuals))])))))))"

definition parseListMember_SCREEN ::
  "parser \<Rightarrow> bool \<Rightarrow> byte list \<Rightarrow> size_t \<Rightarrow> whitespace \<Rightarrow> parsing_outputs res"
where
  "parseListMember_SCREEN P bsw data sz ws =
     (let enc = member P bsw SCREEN_Header data in
      require (unat sz \<ge> sizeof SCREEN_Header) (
      and_then (ordered_member P bsw SCREEN_Header data ''allowed_depths_ct'') (\<lambda>allowed_depths_ct.
      and_then (nested DEFAULT ws) (\<lambda>list_ws.
      and_then (parseLISTof_struct (parseListMember_DEPTH P bsw)
                  (drop (sizeof SCREEN_Header) data) (sz - of_nat (sizeof SCREEN_Header))
                  (of_nat allowed_depths_ct) list_ws DEFAULT) (\<lambda>allowed_depths.
      let n = of_nat (sizeof SCREEN_Header) + bytes_parsed allowed_depths in
      require (unat n \<le> unat sz) (
      map_res (\<lambda>s. \<lparr>str = s, bytes_parsed = n\<rparr>)
        (braces P ws
          (name_width ws (if verbose (settings P) then ''(DEPTHs in allowed-depths)''
                          else ''height-in-millimeters''))
          [always ''root'' (enc ''root'' no_names NOT_BITMASK),
           always ''default-colormap'' (enc ''default_colormap'' no_names NOT_BITMASK),
           always ''white-pixel'' (enc ''white_pixel'' no_names NOT_BITMASK),
           always ''black-pixel'' (enc ''black_pixel'' no_names NOT_BITMASK),
           always ''current-input-masks'' (enc ''current_input_masks'' no_names NOT_BITMASK),
           always ''width-in-pixels'' (enc ''width_in_pixels'' no_names NOT_BITMASK),
           always ''height-in-pixels'' (enc ''height_in_pixels'' no_names NOT_BITMASK),
           always ''width-in-millimeters'' (enc ''width_in_millimeters'' no_names NOT_BITMASK),
           always ''height-in-millimeters'' (enc ''height_in_millimeters'' no_names NOT_BITMASK),
           always ''min-installed-maps'' (enc ''min_installed_maps'' no_names NOT_BITMASK),
           always ''max-installed-maps'' (enc ''max_installed_maps'' no_names NOT_BITMASK),
           always ''root-visual'' (enc ''root_visual'' no_names NOT_BITMASK),
           always ''backing-stores'' (enc ''backing_stores'' (range_all backing_stores_names) NOT_BITMASK),
           always ''save-unders'' (enc ''save_unders'' no_names NOT_BITMASK),
           always ''root-depth'' (enc ''root_depth'' no_names NOT_BITMASK),
           verbose_only ''(DEPTHs in allowed-depths)'' (enc ''allowed_depths_ct'' no_names NOT_BITMASK),
           always ''allowed-depths'' (Inr (str allowed_depths))])))))))"

subsection \<open>The messages\<close>

definition setup_prefix :: "parser \<Rightarrow> connection \<Rightarrow> size_t \<Rightarrow> string \<Rightarrow> string" where
  \<comment> \<open>\<open>C{:03d}:{:04d}B:{}: \<close>\<close>
  "setup_prefix P conn bytes glyph =
     ''C'' @ fmt_zpad (fmtl P) 3 (unat (conn_id conn)) @ '':'' @
     fmt_zpad (fmtl P) 4 (unat bytes) @ ''B:'' @ glyph @ '': ''"

definition logInitiation :: handler where
  "logInitiation P conn data sz =
     (let ws = ROOT_WS P; bsw = byteswap conn; enc = member P bsw Initiation_Header data in
      require (unat sz \<ge> sizeof Initiation_Header) (
      and_then (ordered_member P False Initiation_Header data ''byte_order'') (\<lambda>byte_order.
      require (byte_order = MSBFIRST \<or> byte_order = LSBFIRST) (
      require (bsw = (little_endian P \<noteq> (byte_order = LSBFIRST))) (
      and_then (ordered_member P bsw Initiation_Header data ''name_len'') (\<lambda>name_len.
      let name_at = size_of Initiation_Header;
          data_at = name_at + Alignment_pad (of_nat name_len) in
      and_then (ordered_member P bsw Initiation_Header data ''data_len'') (\<lambda>data_len.
      and_then (nested FORCE_SINGLELINE ws) (\<lambda>list_ws.
      and_then (parseLISTof_int P CARD8 (drop (unat data_at) data) (of_nat data_len) (of_nat data_len)
                  bsw list_ws no_names NOT_BITMASK) (\<lambda>_.
      let n = data_at + Alignment_pad (of_nat data_len) in
      require (n = sz) (
      and_then (ordered_member P False Initiation_Header data ''data_len'') (\<lambda>encoded_data_len.
      map_res (\<lambda>s. (P, conn,
          setup_prefix P conn n CLIENT_TO_SERVER @ ''client '' @ fmt_debug (fmtl P) (client_desc conn) @
          '' attempting connection: '' @ s @ newline, n))
        (braces P ws
          (name_width ws (if verbose (settings P) then ''(authorization-protocol-name length)''
                          else ''authorization-protocol-name''))
          [always ''byte-order'' (and_then (range_all enum_names_byte_order) (\<lambda>r.
             formatInt P 1 False (if byte_order = MSBFIRST then 1 else 0) bsw r NOT_BITMASK)),
           always ''protocol-major-version'' (enc ''protocol_major_version'' no_names NOT_BITMASK),
           always ''protocol-minor-version'' (enc ''protocol_minor_version'' no_names NOT_BITMASK),
           verbose_only ''(authorization-protocol-name length)'' (enc ''name_len'' no_names NOT_BITMASK),
           verbose_only ''(authorization-protocol-data length)'' (enc ''data_len'' no_names NOT_BITMASK),
           always ''authorization-protocol-name''
             (map_res (fmt_debug (fmtl P)) (read_text data (unat name_at) name_len)),
           always ''authorization-protocol-data''
             (Inr (''('' @ fmt_dec (fmtl P) (int encoded_data_len) @ '' bytes)''))]))))))))))))"

definition logRefusal :: handler where
  "logRefusal P conn data sz =
     (let ws = ROOT_WS P; bsw = byteswap conn; enc = member P bsw Refusal_Header data in
      require (unat sz \<ge> sizeof Refusal_Header) (
      and_then (ordered_member P bsw Refusal_Header data ''success'') (\<lambda>success.
      require (success = InitResponse_FAILED) (
      and_then (ordered_member P bsw Refusal_Header data ''reason_len'') (\<lambda>reason_len.
      let n = size_of Refusal_Header + Alignment_pad (of_nat reason_len) in
      and_then (ordered_member P bsw Refusal_Header data ''following_aligned_units'') (\<lambda>units.
      require (of_nat units = Alignment_units (n - size_of Refusal_Header)) (
      map_res (\<lambda>s. (P, conn,
          setup_prefix P conn n SERVER_TO_CLIENT @ ''server refused connection: '' @ s @ newline, n))
        (braces P ws
          (name_width ws (if verbose (settings P) then ''(post-header aligned units)''
                          else ''protocol-major-version''))
          [verbose_only ''success'' (enc ''success'' (range_all InitResponse_success_names) NOT_BITMASK),
           verbose_only ''(reason length)'' (enc ''reason_len'' no_names NOT_BITMASK),
           always ''protocol-major-version'' (enc ''protocol_major_version'' no_names NOT_BITMASK),
           always ''protocol-minor-version'' (enc ''protocol_minor_version'' no_names NOT_BITMASK),
           verbose_only ''(post-header aligned units)''
             (enc ''following_aligned_units'' no_names NOT_BITMASK),
           always ''reason''
             (map_res (fmt_debug (fmtl P)) (read_text data (sizeof Refusal_Header) reason_len))]))))))))"

definition logRequireFurtherAuthentication :: handler where
  "logRequireFurtherAuthentication P conn data sz =
     (let ws = ROOT_WS P; bsw = byteswap conn; enc = member P bsw InitResponse_Header data in
      require (unat sz \<ge> sizeof InitResponse_Header) (
      and_then (ordered_member P bsw InitResponse_Header data ''success'') (\<lambda>success.
      require (success = InitResponse_AUTHENTICATE) (
      and_then (ordered_member P bsw InitResponse_Header data ''following_aligned_units'') (\<lambda>units.
      let reason_padded_len = Alignment_size (of_nat units);
          n = size_of InitResponse_Header + reason_padded_len in
      require (of_nat units = Alignment_units (n - size_of InitResponse_Header)) (
      map_res (\<lambda>s. (P, conn,
          setup_prefix P conn n SERVER_TO_CLIENT @ ''server requested further authentication: '' @ s @
          newline, n))
        (braces P ws
          (name_width ws (if verbose (settings P) then ''(post-header aligned units)'' else ''success''))
          [verbose_only ''success'' (enc ''success'' (range_all InitResponse_success_names) NOT_BITMASK),
           verbose_only ''(post-header aligned units)''
             (enc ''following_aligned_units'' no_names NOT_BITMASK),
           always ''reason''
             (map_res (fmt_debug (fmtl P))
                (read_text data (sizeof InitResponse_Header) (unat reason_padded_len)))])))))))"

definition logAcceptance :: handler where
  "logAcceptance P conn data sz =
     (let ws = ROOT_WS P; bsw = byteswap conn; hdr = member P bsw Acceptance_Header data;
          data_enc = drop (sizeof Acceptance_Header) data; enc = member P bsw Acceptance_Encoding data_enc in
      require (unat sz \<ge> sizeof Acceptance_Encoding) (
      and_then (ordered_member P bsw Acceptance_Header data ''protocol_major_version'') (\<lambda>major_ver.
      and_then (ordered_member P bsw Acceptance_Header data ''protocol_minor_version'') (\<lambda>minor_ver.
      if major_ver \<noteq> MAJOR_VERSION \<or> minor_ver \<noteq> MINOR_VERSION then Inl (Exit 1)
      else
      and_then (ordered_member P bsw Acceptance_Header data ''success'') (\<lambda>success.
      require (success = InitResponse_SUCCESS) (
      and_then (ordered_member P bsw Acceptance_Encoding data_enc ''vendor_len'') (\<lambda>vendor_len.
      let vendor_at = size_of Acceptance_Header + size_of Acceptance_Encoding;
          formats_at = vendor_at + Alignment_pad (of_nat vendor_len) in
      and_then (ordered_member P bsw Acceptance_Encoding data_enc ''pixmap_formats_ct'') (\<lambda>formats_ct.
      and_then (nested DEFAULT ws) (\<lambda>list_ws.
      and_then (parseLISTof_struct (parseListMember_struct FORMAT (formatFORMAT P bsw))
                  (drop (unat formats_at) data) (sz - formats_at) (of_nat formats_ct) list_ws
                  FORCE_SINGLELINE) (\<lambda>pixmap_formats.
      let roots_at = formats_at + ucast (bytes_parsed pixmap_formats) in
      and_then (ordered_member P bsw Acceptance_Encoding data_enc ''roots_ct'') (\<lambda>roots_ct.
      and_then (parseLISTof_struct (parseListMember_SCREEN P bsw)
                  (drop (unat roots_at) data) (sz - roots_at) (of_nat roots_ct) list_ws DEFAULT) (\<lambda>roots.
      let n = roots_at + ucast (bytes_parsed roots) in
      and_then (ordered_member P bsw Acceptance_Header data ''following_aligned_units'') (\<lambda>units.
      require (of_nat units = Alignment_units (n - size_of Acceptance_Header)) (
      map_res (\<lambda>s. (P, conn,
          setup_prefix P conn n SERVER_TO_CLIENT @ ''server accepted connection: '' @ s @ newline, n))
        (braces P ws
          (name_width ws (if verbose (settings P) then ''(post-header aligned units)''
                          else ''bitmap-format-scanline-unit''))
          [verbose_only ''success'' (hdr ''success'' (range_all InitResponse_success_names) NOT_BITMASK),
           always ''protocol-major-version'' (hdr ''protocol_major_version'' no_names NOT_BITMASK),
           always ''protocol-minor-version'' (hdr ''protocol_minor_version'' no_names NOT_BITMASK),
           verbose_only ''(post-header aligned units)''
             (hdr ''following_aligned_units'' no_names NOT_BITMASK),
           always ''release-number'' (enc ''release_number'' no_names NOT_BITMASK),
           always ''resource-id-base'' (enc ''resource_id_base'' no_names NOT_BITMASK),
           always ''resource-id-mask'' (enc ''resource_id_mask'' no_names BITMASK),
           always ''motion-buffer-size'' (enc ''motion_buffer_size'' no_names NOT_BITMASK),
           verbose_only ''(vendor length)'' (enc ''vendor_len'' no_names NOT_BITMASK),
           always ''maximum-request-length'' (enc ''maximum_request_length'' no_names NOT_BITMASK),
           verbose_only ''(SCREENs in roots)'' (enc ''roots_ct'' no_names NOT_BITMASK),
           verbose_only ''(FORMATs in pixmap-formats)'' (enc ''pixmap_formats_ct'' no_names NOT_BITMASK),
           always ''image-byte-order''
             (enc ''image_byte_order'' (range_all enum_names_byte_order) NOT_BITMASK),
           always ''bitmap-format-bit-order''
             (enc ''bitmap_format_bit_order'' (range_all bitmap_format_bit_order_names) NOT_BITMASK),
           always ''bitmap-format-scanline-unit''
             (enc ''bitmap_format_scanline_unit'' no_names NOT_BITMASK),
           always ''bitmap-format-scanline-pad''
             (enc ''bitmap_format_scanline_pad'' no_names NOT_BITMASK),
           always ''min-keycode'' (enc ''min_keycode'' no_names NOT_BITMASK),
           always ''max-keycode'' (enc ''max_keycode'' no_names NOT_BITMASK),
           always ''vendor'' (map_res (fmt_debug (fmtl P)) (read_text data (unat vendor_at) vendor_len)),
           always ''pixmap-formats'' (Inr (str pixmap_formats)),
           always ''roots'' (Inr (str roots))])))))))))))))))"

definition with_status :: "status \<Rightarrow> parser \<times> connection \<times> string \<times> size_t \<Rightarrow> parser \<times> connection \<times> string \<times> size_t"
where
  "with_status st = (\<lambda>(P, conn, lg, n). (P, conn\<lparr>conn_status := st\<rparr>, lg, n))"

definition logInitResponse :: handler where
  "logInitResponse P conn data sz =
     require (unat sz \<ge> sizeof InitResponse_Header) (
     and_then (ordered_member P (byteswap conn) InitResponse_Header data ''success'') (\<lambda>success.
     and_then
       (if success = InitResponse_FAILED
        then map_res (with_status FAILED) (logRefusal P conn data sz)
        else if success = InitResponse_AUTHENTICATE
        then map_res (with_status AUTHENTICATION) (logRequireFurtherAuthentication P conn data sz)
        else if success = InitResponse_SUCCESS
        then map_res (with_status OPEN) (logAcceptance P conn data sz)
        else Inr (P, conn, [], 0)) (\<lambda>(P', conn', lg, bytes).
     require (bytes \<le> sz) (Inr (P', conn', lg, bytes)))))"

subsection \<open>Sizes\<close>

lemma sizeof_setup_layouts [simp]:
  "sizeof Initiation_Header = 12" "sizeof InitResponse_Header = 8" "sizeof Refusal_Header = 8"
  "sizeof Acceptance_Header = 8" "sizeof Acceptance_Encoding = 32" "sizeof FORMAT = 8"
  "sizeof SCREEN_Header = 40" "sizeof DEPTH_Header = 8" "sizeof VISUALTYPE = 24"
  by (simp_all add: Initiation_Header_def InitResponse_Header_def Refusal_Header_def
    Acceptance_Header_def Acceptance_Encoding_def FORMAT_def SCREEN_Header_def DEPTH_Header_def
    VISUALTYPE_def)

lemma size_of_setup [simp]:
  "size_of Initiation_Header = 12" "size_of InitResponse_Header = 8" "size_of Refusal_Header = 8"
  "size_of Acceptance_Header = 8" "size_of Acceptance_Encoding = 32"
  by (simp_all add: size_of_def)

subsection \<open>A well-formed acceptance is parsed\<close>

lemmas setup_fits_defs =
  member_fits_def names_ok_def no_names_def NOT_BITMASK_def BITMASK_def
  Acceptance_Header_def Acceptance_Encoding_def FORMAT_def SCREEN_Header_def DEPTH_Header_def
  VISUALTYPE_def Initiation_Header_def InitResponse_success_names_def backing_stores_names_def
  bitmap_format_bit_order_names_def VISUALTYPE_class_names_def enum_names_byte_order_def

lemma FORMAT_fits:
  "member_fits FORMAT ''depth'' no_names NOT_BITMASK"
  "member_fits FORMAT ''bits_per_pixel'' no_names NOT_BITMASK"
  "member_fits FORMAT ''scanline_pad'' no_names NOT_BITMASK"
  by (simp_all add: setup_fits_defs)

lemma VISUALTYPE_fits:
  "member_fits VISUALTYPE ''visual_id'' no_names NOT_BITMASK"
  "member_fits VISUALTYPE ''class_'' (range_all VISUALTYPE_class_names) NOT_BITMASK"
  "member_fits VISUALTYPE ''bits_per_rgb_value'' no_names NOT_BITMASK"
  "member_fits VISUALTYPE ''colormap_entries'' no_names NOT_BITMASK"
  "member_fits VISUALTYPE ''red_mask'' no_names BITMASK"
  "member_fits VISUALTYPE ''green_mask'' no_names BITMASK"
  "member_fits VISUALTYPE ''blue_mask'' no_names BITMASK"
  by (simp_all add: setup_fits_defs)

lemma DEPTH_fits:
  "member_fits DEPTH_Header ''depth'' no_names NOT_BITMASK"
  "member_fits DEPTH_Header ''visuals_ct'' no_names NOT_BITMASK"
  by (simp_all add: setup_fits_defs)

lemma SCREEN_fits:
  "member_fits SCREEN_Header ''root'' no_names NOT_BITMASK"
  "member_fits SCREEN_Header ''default_colormap'' no_names NOT_BITMASK"
  "member_fits SCREEN_Header ''white_pixel'' no_names NOT_BITMASK"
  "member_fits SCREEN_Header ''black_pixel'' no_names NOT_BITMASK"
  "member_fits SCREEN_Header ''current_input_masks'' no_names NOT_BITMASK"
  "member_fits SCREEN_Header ''width_in_pixels'' no_names NOT_BITMASK"
  "member_fits SCREEN_Header ''height_in_pixels'' no_names NOT_BITMASK"
  "member_fits SCREEN_Header ''width_in_millimeters'' no_names NOT_BITMASK"
  "member_fits SCREEN_Header ''height_in_millimeters'' no_names NOT_BITMASK"
  "member_fits SCREEN_Header ''min_installed_maps'' no_names NOT_BITMASK"
  "member_fits SCREEN_Header ''max_installed_maps'' no_names NOT_BITMASK"
  "member_fits SCREEN_Header ''root_visual'' no_names NOT_BITMASK"
  "member_fits SCREEN_Header ''backing_stores'' (range_all backing_stores_names) NOT_BITMASK"
  "member_fits SCREEN_Header ''save_unders'' no_names NOT_BITMASK"
  "member_fits SCREEN_Header ''root_depth'' no_names NOT_BITMASK"
  "member_fits SCREEN_Header ''allowed_depths_ct'' no_names NOT_BITMASK"
  by (simp_all add: setup_fits_defs)

lemma formatFORMAT_ok:
  assumes "sizeof FORMAT \<le> length data"
  shows "is_ok (formatFORMAT P bsw data ws)"
proof -
  have "zero_bits_ok (little_endian P) FORMAT data"
    using assms by (intro no_zero_bits) (simp_all add: FORMAT_def)
  with assms show ?thesis
    unfolding formatFORMAT_def Let_def
    by (intro braces_okI) (simp add: FORMAT_fits member_fits_ok)
qed

lemma formatVISUALTYPE_ok:
  assumes "sizeof VISUALTYPE \<le> length data" and "zero_bits_ok (little_endian P) VISUALTYPE data"
  shows "is_ok (formatVISUALTYPE P bsw data ws)"
  using assms unfolding formatVISUALTYPE_def Let_def
  by (intro braces_okI) (simp add: VISUALTYPE_fits member_fits_ok)

text \<open>
  The shape of what follows a setup acceptance: a screen is the list of its depths, a depth
  the number of its visuals. The predicates say that the memory has that shape, and zeroes in
  the bits of resource IDs and event sets that are asserted to be zero.
\<close>

definition visual_at :: "parser \<Rightarrow> byte list \<Rightarrow> unit \<Rightarrow> bool" where
  "visual_at P d u \<longleftrightarrow> 24 \<le> length d \<and> zero_bits_ok (little_endian P) VISUALTYPE d"

definition visual_size :: "unit \<Rightarrow> nat" where
  "visual_size u = 24"

definition depth_at :: "parser \<Rightarrow> bool \<Rightarrow> byte list \<Rightarrow> nat \<Rightarrow> bool" where
  "depth_at P bsw d visuals \<longleftrightarrow>
     8 \<le> length d \<and> ordered_member P bsw DEPTH_Header d ''visuals_ct'' = Inr visuals \<and>
     laid_out (visual_at P) visual_size (drop 8 d) (replicate visuals ())"

definition depth_size :: "nat \<Rightarrow> nat" where
  "depth_size visuals = 8 + 24 * visuals"

definition screen_at :: "parser \<Rightarrow> bool \<Rightarrow> byte list \<Rightarrow> nat list \<Rightarrow> bool" where
  "screen_at P bsw d depths \<longleftrightarrow>
     40 \<le> length d \<and> zero_bits_ok (little_endian P) SCREEN_Header d \<and>
     ordered_member P bsw SCREEN_Header d ''allowed_depths_ct'' = Inr (length depths) \<and>
     laid_out (depth_at P bsw) depth_size (drop 40 d) depths"

definition screen_size :: "nat list \<Rightarrow> nat" where
  "screen_size depths = 40 + sizes depth_size depths"

definition format_at :: "byte list \<Rightarrow> unit \<Rightarrow> bool" where
  "format_at d u \<longleftrightarrow> 8 \<le> length d"

definition format_size :: "unit \<Rightarrow> nat" where
  "format_size u = 8"

lemma visual_ok:
  assumes "visual_at P d u" and "visual_size u \<le> unat n"
  shows "\<exists>s. parseListMember_struct VISUALTYPE (formatVISUALTYPE P bsw) d n ws =
    Inr \<lparr>str = s, bytes_parsed = of_nat (visual_size u)\<rparr>"
proof -
  have "zero_bits_ok (little_endian P) VISUALTYPE (take (sizeof VISUALTYPE) d)"
    using assms(1) by (subst zero_bits_ok_take) (simp_all add: visual_at_def)
  then have "is_ok (formatVISUALTYPE P bsw (take (sizeof VISUALTYPE) d) ws)"
    using assms(1) by (intro formatVISUALTYPE_ok) (simp_all add: visual_at_def)
  then show ?thesis
    using assms parseListMember_struct_ok [of VISUALTYPE d n]
    by (simp add: visual_at_def visual_size_def)
qed

lemma format_ok:
  assumes "format_at d u" and "format_size u \<le> unat n"
  shows "\<exists>s. parseListMember_struct FORMAT (formatFORMAT P bsw) d n ws =
    Inr \<lparr>str = s, bytes_parsed = of_nat (format_size u)\<rparr>"
proof -
  have "is_ok (formatFORMAT P bsw (take (sizeof FORMAT) d) ws)"
    using assms(1) by (intro formatFORMAT_ok) (simp add: format_at_def)
  then show ?thesis
    using assms parseListMember_struct_ok [of FORMAT d n]
    by (simp add: format_at_def format_size_def)
qed

lemma depth_ok:
  assumes "depth_at P bsw d visuals" and "depth_size visuals \<le> unat n" and "depth_size visuals < 2 ^ 32"
    and "unat (base_tab_ct ws) \<le> 50"
  shows "\<exists>s. parseListMember_DEPTH P bsw d n ws =
    Inr \<lparr>str = s, bytes_parsed = of_nat (depth_size visuals)\<rparr>"
proof -
  have len: "8 \<le> length d" and ct: "ordered_member P bsw DEPTH_Header d ''visuals_ct'' = Inr visuals"
    and lay: "laid_out (visual_at P) visual_size (drop 8 d) (replicate visuals ())"
    using assms(1) by (simp_all add: depth_at_def)
  have "field_at DEPTH_Header ''visuals_ct'' = Some (2, CARD16)"
    by (simp add: DEPTH_Header_def)
  from ordered_member_bound [OF ct this] have small: "visuals < 2 ^ 16"
    by simp
  obtain ws' where ws': "nested DEFAULT ws = Inr ws'" "unat (base_tab_ct ws') = Suc (unat (base_tab_ct ws))"
    using nested_ok [of ws DEFAULT] assms(4) by auto
  have n: "unat (n - 8) = unat n - 8"
    using unat_minus_of_nat [of 8 n] assms(2) by (simp add: depth_size_def)
  have "\<exists>s. parseLISTof_struct (parseListMember_struct VISUALTYPE (formatVISUALTYPE P bsw)) (drop 8 d)
      (n - 8) (of_nat visuals) ws' FORCE_SINGLELINE =
      Inr \<lparr>str = s, bytes_parsed = of_nat (sizes visual_size (replicate visuals ()))\<rparr>"
    using visual_ok lay assms ws'(2) unat_of_nat_16 [OF small] n
    by (intro parseLISTof_struct_ok [where good = "visual_at P"])
      (simp_all add: visual_size_def depth_size_def)
  then obtain s where s: "parseLISTof_struct (parseListMember_struct VISUALTYPE (formatVISUALTYPE P bsw))
      (drop 8 d) (n - 8) (of_nat visuals) ws' FORCE_SINGLELINE =
      Inr \<lparr>str = s, bytes_parsed = of_nat (24 * visuals)\<rparr>"
    by (auto simp: visual_size_def mult.commute)
  have z: "zero_bits_ok (little_endian P) DEPTH_Header d"
    using len by (intro no_zero_bits) (simp_all add: DEPTH_Header_def)
  have m: "is_ok (member P bsw DEPTH_Header d f ns bm)" if "member_fits DEPTH_Header f ns bm" for f ns bm
    using that z len by (simp add: member_fits_ok)
  have sum: "(8 :: 32 word) + of_nat (24 * visuals) = of_nat (depth_size visuals)"
    by (simp add: depth_size_def)
  have le: "unat (of_nat (depth_size visuals) :: 32 word) \<le> unat n"
    using assms(2,3) by (simp add: unat_of_nat_32)
  let ?rows = "[always ''depth'' (member P bsw DEPTH_Header d ''depth'' no_names NOT_BITMASK),
     verbose_only ''(VISUALs in visuals)'' (member P bsw DEPTH_Header d ''visuals_ct'' no_names NOT_BITMASK),
     always ''visuals'' (Inr s)]"
  have "is_ok (braces P ws w ?rows)" for w
    by (rule braces_okI) (simp add: DEPTH_fits m)
  then show ?thesis
    using assms(2) le s sum
    by (simp add: parseListMember_DEPTH_def Let_def ct ws'(1) depth_size_def text_with_size
      del: of_nat_mult of_nat_add)
qed

lemma screen_ok:
  assumes "screen_at P bsw d depths" and "screen_size depths \<le> unat n" and "screen_size depths < 2 ^ 32"
    and "unat (base_tab_ct ws) \<le> 40"
  shows "\<exists>s. parseListMember_SCREEN P bsw d n ws =
    Inr \<lparr>str = s, bytes_parsed = of_nat (screen_size depths)\<rparr>"
proof -
  let ?k = "sizes depth_size depths"
  have len: "40 \<le> length d" and z: "zero_bits_ok (little_endian P) SCREEN_Header d"
    and ct: "ordered_member P bsw SCREEN_Header d ''allowed_depths_ct'' = Inr (length depths)"
    and lay: "laid_out (depth_at P bsw) depth_size (drop 40 d) depths"
    using assms(1) by (simp_all add: screen_at_def)
  have "field_at SCREEN_Header ''allowed_depths_ct'' = Some (39, CARD8)"
    by (simp add: SCREEN_Header_def)
  from ordered_member_bound [OF ct this] have small: "length depths < 2 ^ 16"
    by simp
  obtain ws' where ws': "nested DEFAULT ws = Inr ws'" "unat (base_tab_ct ws') = Suc (unat (base_tab_ct ws))"
    using nested_ok [of ws DEFAULT] assms(4) by auto
  have n: "unat (n - 40) = unat n - 40"
    using unat_minus_of_nat [of 40 n] assms(2) by (simp add: screen_size_def)
  have k: "?k \<le> unat (n - 40)" "?k < 2 ^ 32"
    using assms(2,3) n by (simp_all add: screen_size_def)
  have "\<exists>s. parseListMember_DEPTH P bsw d' n' ws'' = Inr \<lparr>str = s, bytes_parsed = of_nat (depth_size v)\<rparr>"
    if "v \<in> set depths" "depth_at P bsw d' v" "depth_size v \<le> unat n'"
      "unat (base_tab_ct ws'') = Suc (unat (base_tab_ct ws'))" for d' n' v ws''
    using that ws'(2) assms(4) k(2) sizes_member [of v depths depth_size] by (intro depth_ok) simp_all
  then have "\<exists>s. parseLISTof_struct (parseListMember_DEPTH P bsw) (drop 40 d) (n - 40)
      (of_nat (length depths)) ws' DEFAULT = Inr \<lparr>str = s, bytes_parsed = of_nat ?k\<rparr>"
    using lay k ws'(2) assms(4) unat_of_nat_16 [OF small]
    by (intro parseLISTof_struct_ok [where good = "depth_at P bsw"]) simp_all
  then obtain s where s: "parseLISTof_struct (parseListMember_DEPTH P bsw) (drop 40 d) (n - 40)
      (of_nat (length depths)) ws' DEFAULT = Inr \<lparr>str = s, bytes_parsed = of_nat ?k\<rparr>"
    by blast
  have m: "is_ok (member P bsw SCREEN_Header d f ns bm)" if "member_fits SCREEN_Header f ns bm" for f ns bm
    using that z len by (simp add: member_fits_ok)
  have sum: "(40 :: 32 word) + of_nat ?k = of_nat (screen_size depths)"
    by (simp add: screen_size_def)
  have le: "unat (of_nat (screen_size depths) :: 32 word) \<le> unat n"
    using assms(2,3) by (simp add: unat_of_nat_32)
  have "40 \<le> unat n"
    using assms(2) by (simp add: screen_size_def)
  then show ?thesis
    using le
    by (simp add: parseListMember_SCREEN_def Let_def ct ws'(1) s sum text_with_size braces_ok SCREEN_fits m)
qed

definition acceptance_size :: "nat \<Rightarrow> nat \<Rightarrow> nat list list \<Rightarrow> nat" where
  "acceptance_size vendor formats screens = 40 + pad4 vendor + 8 * formats + sizes screen_size screens"

definition acceptance_at :: "parser \<Rightarrow> bool \<Rightarrow> byte list \<Rightarrow> nat \<Rightarrow> nat \<Rightarrow> nat list list \<Rightarrow> bool" where
  "acceptance_at P bsw d vendor formats screens \<longleftrightarrow>
     (let e = drop 8 d; v = drop 40 d in
      acceptance_size vendor formats screens \<le> length d \<and>
      ordered_member P bsw Acceptance_Header d ''success'' = Inr InitResponse_SUCCESS \<and>
      ordered_member P bsw Acceptance_Header d ''protocol_major_version'' = Inr MAJOR_VERSION \<and>
      ordered_member P bsw Acceptance_Header d ''protocol_minor_version'' = Inr MINOR_VERSION \<and>
      ordered_member P bsw Acceptance_Header d ''following_aligned_units'' =
        Inr ((acceptance_size vendor formats screens - 8) div 4) \<and>
      ordered_member P bsw Acceptance_Encoding e ''vendor_len'' = Inr vendor \<and>
      ordered_member P bsw Acceptance_Encoding e ''pixmap_formats_ct'' = Inr formats \<and>
      ordered_member P bsw Acceptance_Encoding e ''roots_ct'' = Inr (length screens) \<and>
      laid_out format_at format_size (drop (pad4 vendor) v) (replicate formats ()) \<and>
      laid_out (screen_at P bsw) screen_size (drop (pad4 vendor + 8 * formats) v) screens)"

lemma screen_size_mod4: "sizes screen_size screens mod 4 = 0"
proof -
  have d: "sizes depth_size ds mod 4 = 0" for ds
  proof (induction ds)
    case (Cons k ds)
    then show ?case
      unfolding sizes_simps depth_size_def by presburger
  qed simp
  show ?thesis
  proof (induction screens)
    case (Cons ds screens)
    then show ?case
      using d [of ds] unfolding sizes_simps screen_size_def by presburger
  qed simp
qed

lemma acceptance_size_units:
  "acceptance_size vendor formats screens = 8 + 4 * ((acceptance_size vendor formats screens - 8) div 4)"
proof -
  have "acceptance_size vendor formats screens mod 4 = 0"
    unfolding acceptance_size_def using screen_size_mod4 [of screens] pad4_mod [of vendor] by presburger
  moreover have "8 \<le> acceptance_size vendor formats screens"
    by (simp add: acceptance_size_def)
  ultimately show ?thesis
    by presburger
qed

lemma Acceptance_fits:
  "member_fits Acceptance_Header ''success'' (range_all InitResponse_success_names) NOT_BITMASK"
  "member_fits Acceptance_Header ''protocol_major_version'' no_names NOT_BITMASK"
  "member_fits Acceptance_Header ''protocol_minor_version'' no_names NOT_BITMASK"
  "member_fits Acceptance_Header ''following_aligned_units'' no_names NOT_BITMASK"
  "member_fits Acceptance_Encoding ''release_number'' no_names NOT_BITMASK"
  "member_fits Acceptance_Encoding ''resource_id_base'' no_names NOT_BITMASK"
  "member_fits Acceptance_Encoding ''resource_id_mask'' no_names BITMASK"
  "member_fits Acceptance_Encoding ''motion_buffer_size'' no_names NOT_BITMASK"
  "member_fits Acceptance_Encoding ''vendor_len'' no_names NOT_BITMASK"
  "member_fits Acceptance_Encoding ''maximum_request_length'' no_names NOT_BITMASK"
  "member_fits Acceptance_Encoding ''roots_ct'' no_names NOT_BITMASK"
  "member_fits Acceptance_Encoding ''pixmap_formats_ct'' no_names NOT_BITMASK"
  "member_fits Acceptance_Encoding ''image_byte_order'' (range_all enum_names_byte_order) NOT_BITMASK"
  "member_fits Acceptance_Encoding ''bitmap_format_bit_order'' (range_all bitmap_format_bit_order_names) NOT_BITMASK"
  "member_fits Acceptance_Encoding ''bitmap_format_scanline_unit'' no_names NOT_BITMASK"
  "member_fits Acceptance_Encoding ''bitmap_format_scanline_pad'' no_names NOT_BITMASK"
  "member_fits Acceptance_Encoding ''min_keycode'' no_names NOT_BITMASK"
  "member_fits Acceptance_Encoding ''max_keycode'' no_names NOT_BITMASK"
  by (simp_all add: setup_fits_defs)

lemma logged_with_size:
  "is_ok r \<Longrightarrow> \<exists>lg. map_res (\<lambda>s. (P, conn, f s, n)) r = Inr (P, conn, lg, n)"
  by (auto elim!: is_okE)

lemma acceptance_small:
  assumes "acceptance_at P bsw data vendor formats screens"
  shows "acceptance_size vendor formats screens < 2 ^ 19" "vendor < 2 ^ 16" "formats < 2 ^ 16"
    "length screens < 2 ^ 16"
proof -
  note at = assms [unfolded acceptance_at_def Let_def]
  have "ordered_member P bsw Acceptance_Header data ''following_aligned_units'' =
      Inr ((acceptance_size vendor formats screens - 8) div 4)"
    using at by simp
  from ordered_member_bound [OF this, of 6 CARD16]
  show "acceptance_size vendor formats screens < 2 ^ 19"
    using acceptance_size_units [of vendor formats screens] by (simp add: Acceptance_Header_def)
  have "ordered_member P bsw Acceptance_Encoding (drop 8 data) ''vendor_len'' = Inr vendor"
    and "ordered_member P bsw Acceptance_Encoding (drop 8 data) ''pixmap_formats_ct'' = Inr formats"
    and "ordered_member P bsw Acceptance_Encoding (drop 8 data) ''roots_ct'' = Inr (length screens)"
    using at by simp_all
  from ordered_member_bound [OF this(1)] ordered_member_bound [OF this(2)] ordered_member_bound [OF this(3)]
  show "vendor < 2 ^ 16" "formats < 2 ^ 16" "length screens < 2 ^ 16"
    by (simp_all add: Acceptance_Encoding_def)
qed

lemma acceptance_parsed:
  assumes at: "acceptance_at P (byteswap conn) data vendor formats screens"
    and root: "base_tab_ct (ROOT_WS P) = 0"
    and n: "n = of_nat (acceptance_size vendor formats screens)"
  shows "\<exists>lg. logAcceptance P conn data n = Inr (P, conn, lg, n)"
proof -
  let ?bsw = "byteswap conn" and ?e = "drop 8 data"
  let ?s = "acceptance_size vendor formats screens"
  note at = at [unfolded acceptance_at_def Let_def]
  have len: "?s \<le> length data" "40 \<le> ?s"
    using at by (simp_all add: acceptance_size_def)
  have units: "ordered_member P ?bsw Acceptance_Header data ''following_aligned_units'' = Inr ((?s - 8) div 4)"
    and vendor: "ordered_member P ?bsw Acceptance_Encoding ?e ''vendor_len'' = Inr vendor"
    and formats: "ordered_member P ?bsw Acceptance_Encoding ?e ''pixmap_formats_ct'' = Inr formats"
    and roots: "ordered_member P ?bsw Acceptance_Encoding ?e ''roots_ct'' = Inr (length screens)"
    using at by simp_all
  note small = acceptance_small [OF assms(1)]
  have un: "unat n = ?s"
    using small(1) by (simp add: n unat_of_nat_64)
  obtain ws' where ws': "nested DEFAULT (ROOT_WS P) = Inr ws'" "unat (base_tab_ct ws') = 1"
    using nested_ok [of "ROOT_WS P" DEFAULT] root by auto
  define fa where "fa = 40 + pad4 vendor"
  define ra where "ra = fa + 8 * formats"
  have s: "?s = ra + sizes screen_size screens"
    by (simp add: acceptance_size_def ra_def fa_def)
  have fa: "(40 :: size_t) + Alignment_pad (of_nat vendor) = of_nat fa"
    using small(2) by (simp add: Alignment_pad_pad4 fa_def)
  have "fa < 2 ^ 64" "ra < 2 ^ 64"
    using small(1) s ra_def by simp_all
  then have ufa: "unat (of_nat fa :: size_t) = fa" and ura: "unat (of_nat ra :: size_t) = ra"
    using unat_of_nat_64 by blast+
  have "ra \<le> unat n" "fa \<le> ra"
    using un s by (simp_all add: ra_def)
  then have left: "unat (n - of_nat fa) = ?s - fa" "unat (n - of_nat ra) = ?s - ra"
    using un unat_minus_of_nat [of fa n] unat_minus_of_nat [of ra n] by simp_all
  have lay: "laid_out format_at format_size (drop fa data) (replicate formats ())"
    "laid_out (screen_at P ?bsw) screen_size (drop ra data) screens"
    using at by (simp_all add: fa_def ra_def ac_simps)
  have "\<exists>t. parseLISTof_struct (parseListMember_struct FORMAT (formatFORMAT P ?bsw)) (drop fa data)
      (n - of_nat fa) (of_nat formats) ws' FORCE_SINGLELINE =
      Inr \<lparr>str = t, bytes_parsed = of_nat (sizes format_size (replicate formats ()))\<rparr>"
    using lay(1) format_ok ws'(2) left(1) s small ra_def unat_of_nat_16 [OF small(3)]
    by (intro parseLISTof_struct_ok [where good = format_at]) (simp_all add: format_size_def)
  then obtain t where t: "parseLISTof_struct (parseListMember_struct FORMAT (formatFORMAT P ?bsw))
      (drop fa data) (n - of_nat fa) (of_nat formats) ws' FORCE_SINGLELINE =
      Inr \<lparr>str = t, bytes_parsed = of_nat (8 * formats)\<rparr>"
    by (auto simp: format_size_def mult.commute)
  have "(ucast (of_nat (8 * formats) :: 32 word) :: size_t) = of_nat (8 * formats)"
    using small(3) by (intro ucast_of_nat_32) simp
  then have ra': "of_nat fa + (ucast (of_nat (8 * formats) :: 32 word) :: size_t) = of_nat ra"
    by (simp add: ra_def)
  let ?r = "sizes screen_size screens"
  have rsmall: "?r < 2 ^ 32" "?r \<le> unat (n - of_nat ra)"
    using s small(1) left(2) by simp_all
  have "\<exists>r. parseListMember_SCREEN P ?bsw d' n' ws'' = Inr \<lparr>str = r, bytes_parsed = of_nat (screen_size ds)\<rparr>"
    if "ds \<in> set screens" "screen_at P ?bsw d' ds" "screen_size ds \<le> unat n'"
      "unat (base_tab_ct ws'') = Suc (unat (base_tab_ct ws'))" for d' n' ds ws''
    using that ws'(2) rsmall(1) sizes_member [of ds screens screen_size] by (intro screen_ok) simp_all
  then have "\<exists>r. parseLISTof_struct (parseListMember_SCREEN P ?bsw) (drop ra data) (n - of_nat ra)
      (of_nat (length screens)) ws' DEFAULT = Inr \<lparr>str = r, bytes_parsed = of_nat ?r\<rparr>"
    using lay(2) ws'(2) rsmall unat_of_nat_16 [OF small(4)]
    by (intro parseLISTof_struct_ok [where good = "screen_at P ?bsw"]) simp_all
  then obtain r where r: "parseLISTof_struct (parseListMember_SCREEN P ?bsw) (drop ra data) (n - of_nat ra)
      (of_nat (length screens)) ws' DEFAULT = Inr \<lparr>str = r, bytes_parsed = of_nat ?r\<rparr>"
    by blast
  have "(ucast (of_nat ?r :: 32 word) :: size_t) = of_nat ?r"
    using rsmall(1) by (rule ucast_of_nat_32)
  then have n': "of_nat ra + (ucast (of_nat ?r :: 32 word) :: size_t) = n"
    by (simp add: n s)
  have "unat (n - 8) = ?s - 8"
    using un len(2) unat_minus_of_nat [of 8 n] by simp
  then have "unat (Alignment_units (n - 8)) = (?s - 8 + 3) div 4"
    using small(1) by (simp add: unat_Alignment_units_small)
  also have "\<dots> = (?s - 8) div 4"
    using acceptance_size_units [of vendor formats screens] by presburger
  finally have "of_nat (unat (Alignment_units (n - 8))) = (of_nat ((?s - 8) div 4) :: size_t)"
    by (rule arg_cong)
  then have u: "of_nat ((?s - 8) div 4) = Alignment_units (n - 8)"
    by simp
  have hdr: "is_ok (member P ?bsw Acceptance_Header data f ns bm)" if "member_fits Acceptance_Header f ns bm" for f ns bm
    using that len by (intro member_fits_ok no_zero_bits) (simp_all add: Acceptance_Header_def)
  have enc: "is_ok (member P ?bsw Acceptance_Encoding ?e f ns bm)" if "member_fits Acceptance_Encoding f ns bm" for f ns bm
    using that len by (intro member_fits_ok no_zero_bits) (simp_all add: Acceptance_Encoding_def)
  have tot: "32 + (Alignment_pad (of_nat vendor) + (ucast (of_nat (8 * formats) :: 32 word) +
      ucast (of_nat ?r :: 32 word))) = n - 8"
    unfolding n' [symmetric] ra' [symmetric] fa [symmetric] by simp
  have "is_ok (read_text data 40 vendor)"
    using len(1) pad4_bounds(1) [of vendor] by (simp add: acceptance_size_def)
  then show ?thesis
    using at un len(2)
    by (simp add: logAcceptance_def Let_def ws'(1) fa ufa ura t ra' r n' u tot logged_with_size braces_ok
      Acceptance_fits hdr enc del: of_nat_mult of_nat_add)
qed

subsection \<open>A well-formed initiation is parsed\<close>

definition initiation_size :: "nat \<Rightarrow> nat \<Rightarrow> nat" where
  "initiation_size name_len data_len = 12 + pad4 name_len + pad4 data_len"

definition initiation_at :: "parser \<Rightarrow> bool \<Rightarrow> byte list \<Rightarrow> nat \<Rightarrow> nat \<Rightarrow> bool" where
  \<comment> \<open>an initiation of a client with byte order \<open>lsb\<close>\<close>
  "initiation_at P lsb d name_len data_len \<longleftrightarrow>
     (let bsw = (little_endian P \<noteq> lsb) in
      initiation_size name_len data_len \<le> length d \<and>
      unat (hd d) = (if lsb then LSBFIRST else MSBFIRST) \<and>
      ordered_member P bsw Initiation_Header d ''name_len'' = Inr name_len \<and>
      ordered_member P bsw Initiation_Header d ''data_len'' = Inr data_len)"

lemma Initiation_fits:
  "member_fits Initiation_Header ''protocol_major_version'' no_names NOT_BITMASK"
  "member_fits Initiation_Header ''protocol_minor_version'' no_names NOT_BITMASK"
  "member_fits Initiation_Header ''name_len'' no_names NOT_BITMASK"
  "member_fits Initiation_Header ''data_len'' no_names NOT_BITMASK"
  by (simp_all add: setup_fits_defs)

lemma Initiation_first:
  "d \<noteq> [] \<Longrightarrow> ordered_member P bsw Initiation_Header d ''byte_order'' = Inr (unat (hd d))"
  by (rule ordered_member_first) (simp_all add: Initiation_Header_def)

lemma byte_orders [simp]: "MSBFIRST \<noteq> LSBFIRST" "LSBFIRST \<noteq> MSBFIRST"
  by (simp_all add: MSBFIRST_def LSBFIRST_def)

lemma initiation_small:
  assumes "initiation_at P lsb d name_len data_len"
  shows "name_len < 2 ^ 16" "data_len < 2 ^ 16" "initiation_size name_len data_len < 2 ^ 18"
proof -
  show "name_len < 2 ^ 16" "data_len < 2 ^ 16"
    using assms ordered_member_bound [where L = Initiation_Header and f = "''name_len''"]
      ordered_member_bound [where L = Initiation_Header and f = "''data_len''"]
    by (auto simp: initiation_at_def Let_def Initiation_Header_def)
  then show "initiation_size name_len data_len < 2 ^ 18"
    using pad4_bounds(2) [of name_len] pad4_bounds(2) [of data_len] by (simp add: initiation_size_def)
qed

lemma initiation_parsed:
  assumes at: "initiation_at P lsb data name_len data_len"
    and bsw: "byteswap conn = (little_endian P \<noteq> lsb)"
    and n: "n = of_nat (initiation_size name_len data_len)"
  shows "\<exists>lg. logInitiation P conn data n = Inr (P, conn, lg, n)"
proof -
  let ?bsw = "byteswap conn"
  note small = initiation_small [OF at]
  note at = at [unfolded initiation_at_def Let_def, folded bsw]
  have len: "initiation_size name_len data_len \<le> length data"
    and first: "unat (hd data) = (if lsb then LSBFIRST else MSBFIRST)"
    and name_len: "ordered_member P ?bsw Initiation_Header data ''name_len'' = Inr name_len"
    and data_len: "ordered_member P ?bsw Initiation_Header data ''data_len'' = Inr data_len"
    using at by simp_all
  have len12: "12 \<le> length data" and ne: "data \<noteq> []"
    using len by (auto simp: initiation_size_def)
  have un: "unat n = initiation_size name_len data_len"
    using small(3) by (simp add: n unat_of_nat_64)
  define da where "da = 12 + pad4 name_len"
  have da: "(12 :: size_t) + Alignment_pad (of_nat name_len) = of_nat da"
    using small(1) by (simp add: Alignment_pad_pad4 da_def)
  have uda: "unat (of_nat da :: size_t) = da"
    using small(3) by (intro unat_of_nat_64) (simp add: da_def initiation_size_def)
  have tot: "of_nat da + Alignment_pad (of_nat data_len) = n"
    using small(2) by (simp add: Alignment_pad_pad4 n da_def initiation_size_def)
  obtain ws' where ws': "nested FORCE_SINGLELINE (ROOT_WS P) = Inr ws'"
    by (rule is_okE [OF nested_forced_ok])
  have u16: "unat (of_nat data_len :: 16 word) = data_len" "unat (of_nat data_len :: size_t) = data_len"
    using small(2) by (simp_all add: unat_of_nat_16 unat_of_nat_64)
  have "\<exists>out. parseLISTof_int P CARD8 (drop da data) (of_nat data_len) (of_nat data_len) ?bsw ws'
      no_names NOT_BITMASK = Inr out"
    using len pad4_bounds(1) [of data_len] u16
    by (subst parseLISTof_int_eq [where r = range_none])
      (simp_all add: no_names_def names_ok_def value_ok_def da_def initiation_size_def)
  then obtain out where out: "parseLISTof_int P CARD8 (drop da data) (of_nat data_len) (of_nat data_len)
      ?bsw ws' no_names NOT_BITMASK = Inr out"
    by blast
  have "is_ok (ordered_member P False Initiation_Header data ''data_len'')"
    using len12 by (subst ordered_member_at [where off = 8 and t = CARD16])
      (simp_all add: Initiation_Header_def)
  then obtain k where raw: "ordered_member P False Initiation_Header data ''data_len'' = Inr k"
    by (rule is_okE)
  have hdr: "is_ok (member P ?bsw Initiation_Header data f ns bm)" if "member_fits Initiation_Header f ns bm" for f ns bm
    using that len12 by (intro member_fits_ok no_zero_bits) (simp_all add: Initiation_Header_def)
  have "is_ok (read_text data 12 name_len)"
    using len pad4_bounds(1) [of name_len] by (simp add: initiation_size_def)
  moreover have "is_ok (and_then (range_all enum_names_byte_order) (\<lambda>r. formatInt P 1 False v ?bsw r NOT_BITMASK))" for v
    by (simp add: enum_names_byte_order_def)
  moreover have "12 \<le> initiation_size name_len data_len"
    by (simp add: initiation_size_def)
  moreover have "unat (hd data) = MSBFIRST \<or> unat (hd data) = LSBFIRST"
    using first by (cases lsb) simp_all
  moreover have "(little_endian P = (unat (hd data) \<noteq> LSBFIRST)) = ?bsw"
    using first bsw by (cases lsb) auto
  ultimately show ?thesis
    by (simp add: logInitiation_def Let_def Initiation_first [OF ne] name_len data_len ws' da uda out tot
      un raw logged_with_size braces_ok Initiation_fits hdr del: of_nat_add)
qed

lemma refusal_response:
  assumes "logInitResponse P conn data sz = Inr (P', conn', lg, n)"
    and "ordered_member P (byteswap conn) InitResponse_Header data ''success'' = Inr success"
    and "success \<noteq> InitResponse_SUCCESS" and "conn_status conn = UNESTABLISHED"
  shows "conn_status conn' \<noteq> OPEN"
  using assms by (auto simp: logInitResponse_def with_status_def map_res_eq_Inr and_then_eq_Inr
    InitResponse_FAILED_def InitResponse_AUTHENTICATE_def split: if_splits)

subsection \<open>One turn over a complete message\<close>

lemma stream_turn_complete:
  assumes "\<not> messageSizeSet (buf_of c)" and "conn_status c \<noteq> AUTHENTICATION"
    and frame: "frame P c d = Inr c1" and c1: "buf_of c1 = (buf_of c)\<lparr>nms := n\<rparr>" "conn_status c1 \<noteq> AUTHENTICATION"
    and n: "n \<noteq> UNKNOWN_SZ" and wf: "wf_buffer (buf_of c)" and avail: "unat n \<le> unat (unparsed (buf_of c))"
    and msg: "message P c1 d n = Inr (P', c2, lg, n)" and c2: "buf_of c2 = buf_of c1"
  shows "stream_turn buf_of set_buf glyph frame message P c d =
    Inr (Continue P' (set_buf ((buf_of c)\<lparr>bp := bp (buf_of c) + n, nms := UNKNOWN_SZ\<rparr>) c2)
      (lg @ parsed_line P' c2 glyph n) n)"
proof -
  let ?b = "buf_of c"
  have "messageSizeSet (?b\<lparr>nms := n\<rparr>)"
    using n by (simp add: messageSizeSet_def)
  moreover have "\<not> incompleteMessage (?b\<lparr>nms := n\<rparr>)"
    using avail n
    by (simp add: incompleteMessage_def messageSizeSet_def messageSize_def unparsed_def
      buffer_size_def word_less_nat_alt)
  moreover have "markMessageParsed (?b\<lparr>nms := n\<rparr>) = Inr (?b\<lparr>bp := bp ?b + n, nms := UNKNOWN_SZ\<rparr>)"
  proof -
    have "unat (bp ?b) + unat n \<le> unat (buffer_size ?b)"
      using avail wf unat_unparsed [OF wf] unat_buffer_size [OF wf] by (auto simp: wf_buffer_def)
    then have "bp ?b + n \<le> buffer_size ?b"
      using unsigned_less [of "buffer_size ?b"] by (simp add: word_le_nat_alt unat_word_ariths)
    then show ?thesis
      using n by (simp add: markMessageParsed_def messageSizeSet_def buffer_size_def)
  qed
  ultimately show ?thesis
    using assms(1-3) c1 msg c2 by (simp add: stream_turn_def messageSize_def Let_def)
qed

lemma ordered_member_same_place:
  "field_at L f = field_at L' f' \<Longrightarrow> ordered_member P bsw L d f = ordered_member P bsw L' d f'"
  by (simp add: ordered_member_def load_member_def)

lemma Response_fields:
  "ordered_member P bsw InitResponse_Header d ''success'' = ordered_member P bsw Acceptance_Header d ''success''"
  "ordered_member P bsw InitResponse_Header d ''following_aligned_units'' =
    ordered_member P bsw Acceptance_Header d ''following_aligned_units''"
  by (rule ordered_member_same_place, simp add: InitResponse_Header_def Acceptance_Header_def)+

lemma unparsed_le_size: "wf_buffer b \<Longrightarrow> unat (unparsed b) \<le> unat (buffer_size b)"
  by (simp add: unat_unparsed unat_buffer_size)

lemma setMessageSize_ok:
  "n \<noteq> UNKNOWN_SZ \<Longrightarrow> \<not> messageSizeSet b \<Longrightarrow> setMessageSize n b = Inr (b\<lparr>nms := n\<rparr>)"
  by (simp add: setMessageSize_def)

lemma small_not_UNKNOWN_SZ: "k < 2 ^ 63 \<Longrightarrow> of_nat k \<noteq> UNKNOWN_SZ"
proof -
  assume k: "k < 2 ^ 63"
  then have "unat (of_nat k :: size_t) = k"
    by (intro unat_of_nat_64) simp
  moreover have "unat UNKNOWN_SZ = 2 ^ 64 - 1"
    by (simp add: UNKNOWN_SZ_def unsigned_minus_1_eq_mask mask_eq_exp_minus_1)
  ultimately have "unat (of_nat k :: size_t) \<noteq> unat UNKNOWN_SZ"
    using k by simp
  then show ?thesis
    by metis
qed

subsection \<open>Properties\<close>

text \<open>
  C21: A complete setup request takes one turn of the client's loop: the turn finds its size and
  the byte order of the client, logs it, and marks exactly its bytes as parsed.
\<close>

theorem initiation_is_logged:
  assumes "conn_status c = UNESTABLISHED" and "wf_buffer (client_buffer c)"
    and "\<not> messageSizeSet (client_buffer c)" and "initiation_at P lsb data name_len data_len"
    and "n = of_nat (initiation_size name_len data_len)" and "unat n \<le> unat (unparsed (client_buffer c))"
    and "log_initiation H = logInitiation"
  shows "\<exists>lg. client_turn H P c data = Inr (Continue P
    (c\<lparr>byteswap := (little_endian P \<noteq> lsb),
       client_buffer := (client_buffer c)\<lparr>bp := bp (client_buffer c) + n\<rparr>\<rparr>) lg n)"
proof -
  let ?b = "client_buffer c" and ?bsw = "little_endian P \<noteq> lsb"
  let ?c1 = "c\<lparr>byteswap := ?bsw, client_buffer := ?b\<lparr>nms := n\<rparr>\<rparr>"
  note small = initiation_small [OF assms(4)]
  note at = assms(4) [unfolded initiation_at_def Let_def]
  have un: "unat n = initiation_size name_len data_len" and known: "n \<noteq> UNKNOWN_SZ"
    using small(3) by (simp_all add: assms(5) unat_of_nat_64 small_not_UNKNOWN_SZ)
  have ne: "data \<noteq> []"
    using at by (auto simp: initiation_size_def)
  have "12 \<le> unat (buffer_size ?b)"
    using un assms(6) unparsed_le_size [OF assms(2)] by (simp add: initiation_size_def)
  then have enough: "\<not> buffer_size ?b < 12"
    by (simp add: word_less_nat_alt)
  have sum: "12 + Alignment_pad (of_nat name_len) + Alignment_pad (of_nat data_len) = n"
    using small(1,2) by (simp add: Alignment_pad_pad4 assms(5) initiation_size_def)
  have order: "unat (hd data) = MSBFIRST \<or> unat (hd data) = LSBFIRST"
    "(unat (hd data) = LSBFIRST) = lsb"
    using at by (cases lsb; simp)+
  have frame: "client_frame P c data = Inr ?c1"
    using at order by (simp add: client_frame_def Let_def assms(1,3) enough Initiation_first [OF ne]
      sum setMessageSize_ok [OF known assms(3)])
  have "\<exists>lg. logInitiation P ?c1 data n = Inr (P, ?c1, lg, n)"
    using assms(4,5) by (intro initiation_parsed) simp_all
  then obtain lg where msg: "client_message H P ?c1 data n = Inr (P, ?c1, lg, n)"
    using assms(1,7) by (auto simp: client_message_def)
  have "client_turn H P c data = Inr (Continue P
      (?c1\<lparr>client_buffer := ?b\<lparr>bp := bp ?b + n, nms := UNKNOWN_SZ\<rparr>\<rparr>)
      (lg @ parsed_line P ?c1 CLIENT_TO_SERVER n) n)"
    unfolding client_turn_def
    by (rule stream_turn_complete [where ?c1.0 = ?c1 and ?c2.0 = ?c1 and lg = lg])
      (use assms(1-3,6) known frame msg in simp_all)
  moreover have "?b\<lparr>bp := bp ?b + n, nms := UNKNOWN_SZ\<rparr> = ?b\<lparr>bp := bp ?b + n\<rparr>"
    using assms(3) by (simp add: messageSizeSet_def)
  ultimately show ?thesis
    by simp
qed

text \<open>
  C6: A complete acceptance of the server, with any number of pixmap formats and any screens,
  depths and visuals, takes one turn of the server's loop: all its lists are parsed, exactly
  its bytes are marked as parsed, and the connection is open.
\<close>

theorem acceptance_opens_connection:
  assumes "conn_status c = UNESTABLISHED" and "wf_buffer (server_buffer c)"
    and "\<not> messageSizeSet (server_buffer c)"
    and "acceptance_at P (byteswap c) data vendor formats screens" and "base_tab_ct (ROOT_WS P) = 0"
    and "n = of_nat (acceptance_size vendor formats screens)"
    and "unat n \<le> unat (unparsed (server_buffer c))" and "log_init_response H = logInitResponse"
  shows "\<exists>lg. server_turn H P c data = Inr (Continue P
    (c\<lparr>conn_status := OPEN,
       server_buffer := (server_buffer c)\<lparr>bp := bp (server_buffer c) + n\<rparr>\<rparr>) lg n)"
proof -
  let ?b = "server_buffer c" and ?bsw = "byteswap c"
  let ?s = "acceptance_size vendor formats screens"
  let ?c1 = "c\<lparr>server_buffer := ?b\<lparr>nms := n\<rparr>\<rparr>"
  note small = acceptance_small [OF assms(4)]
  note at = assms(4) [unfolded acceptance_at_def Let_def]
  have un: "unat n = ?s" and known: "n \<noteq> UNKNOWN_SZ"
    using small(1) by (simp_all add: assms(6) unat_of_nat_64 small_not_UNKNOWN_SZ)
  have "8 \<le> unat (buffer_size ?b)"
    using un assms(7) unparsed_le_size [OF assms(2)] by (simp add: acceptance_size_def)
  then have enough: "\<not> buffer_size ?b < 8"
    by (simp add: word_less_nat_alt)
  have units: "ordered_member P ?bsw InitResponse_Header data ''following_aligned_units'' = Inr ((?s - 8) div 4)"
    and success: "ordered_member P ?bsw InitResponse_Header data ''success'' = Inr InitResponse_SUCCESS"
    using at by (simp_all add: Response_fields)
  have "8 + Alignment_size (of_nat ((?s - 8) div 4)) = of_nat (8 + 4 * ((?s - 8) div 4))"
    by (simp add: Alignment_size_def ALIGN_def mult.commute)
  then have sum: "8 + Alignment_size (of_nat ((?s - 8) div 4)) = n"
    by (simp only: acceptance_size_units [of vendor formats screens, symmetric] assms(6))
  have frame: "server_frame P c data = Inr ?c1"
    by (simp add: server_frame_def Let_def assms(1,3) enough units sum setMessageSize_ok [OF known assms(3)])
  have "\<exists>lg. logAcceptance P ?c1 data n = Inr (P, ?c1, lg, n)"
    using assms(4-6) by (intro acceptance_parsed) simp_all
  then obtain lg where lg: "logAcceptance P ?c1 data n = Inr (P, ?c1, lg, n)"
    by blast
  have "8 \<le> unat n"
    using un by (simp add: acceptance_size_def)
  with lg success have "logInitResponse P ?c1 data n = Inr (P, ?c1\<lparr>conn_status := OPEN\<rparr>, lg, n)"
    by (simp add: logInitResponse_def with_status_def InitResponse_FAILED_def InitResponse_SUCCESS_def
      InitResponse_AUTHENTICATE_def)
  then have msg: "server_message H P ?c1 data n = Inr (P, ?c1\<lparr>conn_status := OPEN\<rparr>, lg, n)"
    using assms(1,8) by (simp add: server_message_def)
  have "server_turn H P c data = Inr (Continue P
      (?c1\<lparr>conn_status := OPEN, server_buffer := ?b\<lparr>bp := bp ?b + n, nms := UNKNOWN_SZ\<rparr>\<rparr>)
      (lg @ parsed_line P (?c1\<lparr>conn_status := OPEN\<rparr>) SERVER_TO_CLIENT n) n)"
    unfolding server_turn_def
    by (rule stream_turn_complete [where ?c1.0 = ?c1 and ?c2.0 = "?c1\<lparr>conn_status := OPEN\<rparr>" and lg = lg])
      (use assms(1-3,7) known frame msg in simp_all)
  moreover have "?b\<lparr>bp := bp ?b + n, nms := UNKNOWN_SZ\<rparr> = ?b\<lparr>bp := bp ?b + n\<rparr>"
    using assms(3) by (simp add: messageSizeSet_def)
  ultimately show ?thesis
    by simp
qed

text \<open>
  A server that refuses the connection, or asks for further authentication, ends the whole
  proxy: the response can not be handled without failing an assertion (or faulting before it).
\<close>

theorem refusal_ends_program:
  assumes "conn_status c = UNESTABLISHED" and "log_init_response H = logInitResponse"
    and "data \<noteq> []" and "unat (hd data) \<noteq> InitResponse_SUCCESS"
  shows "\<not> is_ok (server_message H P c data sz)"
proof -
  have "ordered_member P (byteswap c) InitResponse_Header data ''success'' = Inr (unat (hd data))"
    using assms(3) by (intro ordered_member_first) (simp_all add: InitResponse_Header_def)
  from refusal_response [OF _ this assms(4,1)] assms(1,2) show ?thesis
    by (auto simp: server_message_def is_ok_and_then)
qed

subsection \<open>Witnesses\<close>

definition sample_buffer :: "byte list \<Rightarrow> socket_buffer" where
  \<comment> \<open>a buffer that has just received these bytes\<close>
  "sample_buffer bs = SocketBuffer_new\<lparr>buf := bs @ replicate (2048 - length bs) 0, br := of_nat (length bs)\<rparr>"

definition sample_connection :: connection where
  "sample_connection = fst (Connection_new 1 0)"

lemma sample_buffer_simps [simp]:
  "buf (sample_buffer bs) = bs @ replicate (2048 - length bs) 0" "bp (sample_buffer bs) = 0"
  "bw (sample_buffer bs) = 0" "br (sample_buffer bs) = of_nat (length bs)"
  "nms (sample_buffer bs) = UNKNOWN_SZ" "\<not> messageSizeSet (sample_buffer bs)"
  "unparsed (sample_buffer bs) = of_nat (length bs)" "buffer_size (sample_buffer bs) = of_nat (length bs)"
  by (simp_all add: sample_buffer_def SocketBuffer_new_def messageSizeSet_def unparsed_def buffer_size_def)

lemma sample_buffer_wf [simp]:
  assumes "bs \<noteq> []" and "length bs \<le> 2048"
  shows "wf_buffer (sample_buffer bs)"
proof -
  have u: "unat (of_nat (length bs) :: size_t) = length bs"
    using assms(2) by (simp add: unat_of_nat_64)
  then have "(of_nat (length bs) :: size_t) \<noteq> 0"
    using assms(1) by (metis length_0_conv unat_0)
  with u assms(2) show ?thesis
    by (simp add: wf_buffer_def VECTOR_MAX_def)
qed

lemma sample_connection_simps [simp]:
  "conn_status sample_connection = UNESTABLISHED" "byteswap sample_connection = False"
  by (simp_all add: sample_connection_def Connection_new_def)

lemmas load_sample =
  ordered_member_def load_member_def load_def read_bytes_def host_val_def ordered_def zero_bits_ok_def
  value_ok_def Initiation_Header_def Acceptance_Header_def Acceptance_Encoding_def SCREEN_Header_def
  DEPTH_Header_def VISUALTYPE_def

definition sample_initiation :: "byte list" where
  \<comment> \<open>little-endian, version 11.0, with a protocol name of 2 bytes and 1 byte of data\<close>
  "sample_initiation =
     [108, 0, 11, 0, 0, 0, 2, 0, 1, 0, 0, 0, 77, 73, 0, 0, 7, 0, 0, 0]"

definition sample_acceptance :: "byte list" where
  \<comment> \<open>one pixmap format, one screen with one depth with one visual\<close>
  "sample_acceptance =
     [1, 0, 11, 0, 0, 0, 28, 0, 0, 0, 0, 0, 0, 0, 0, 0, 0, 0, 0, 0, 0, 0, 0, 0, 0, 0, 0, 0,
      1, 1, 0, 0, 0, 0, 8, 255, 0, 0, 0, 0, 24, 32, 32, 0, 0, 0, 0, 0, 0, 0, 0, 0, 0, 0, 0,
      0, 0, 0, 0, 0, 0, 0, 0, 0, 0, 0, 0, 0, 0, 0, 0, 0, 0, 0, 0, 0, 0, 0, 0, 0, 0, 0, 0,
      0, 0, 0, 0, 1, 24, 0, 1, 0, 0, 0, 0, 0, 0, 0, 0, 0, 0, 0, 0, 0, 0, 0, 0, 0, 0, 0, 0,
      0, 0, 0, 0, 0, 0, 0, 0, 0]"

lemma sample_initiation_at: "initiation_at sample_parser True sample_initiation 2 1"
  by (simp add: initiation_at_def initiation_size_def pad4_def sample_initiation_def LSBFIRST_def load_sample)

lemma sample_acceptance_at: "acceptance_at sample_parser False sample_acceptance 0 1 [[1]]"
  unfolding acceptance_at_def Let_def
  by (intro conjI)
    (simp_all add: acceptance_size_def pad4_def screen_size_def depth_size_def sample_acceptance_def
      format_at_def screen_at_def depth_at_def visual_at_def InitResponse_SUCCESS_def MAJOR_VERSION_def
      MINOR_VERSION_def format_size_def load_sample)

definition sample_client_handlers :: client_handlers where
  "sample_client_handlers = \<lparr>log_initiation = logInitiation, log_request = (\<lambda>P c d n. Inr (P, c, [], n))\<rparr>"

definition sample_server_handlers :: server_handlers where
  "sample_server_handlers =
     \<lparr>log_init_response = logInitResponse, log_reply = (\<lambda>P c d n. Inr (P, c, [], n)),
      event_codes = core_events, error_codes = core_errors\<rparr>"

theorem initiation_is_logged_witness:
  "\<exists>lg. client_turn sample_client_handlers sample_parser
      (sample_connection\<lparr>client_buffer := sample_buffer sample_initiation\<rparr>) sample_initiation =
    Inr (Continue sample_parser
      ((sample_connection\<lparr>client_buffer := sample_buffer sample_initiation\<rparr>)
        \<lparr>byteswap := (little_endian sample_parser \<noteq> True),
         client_buffer := (sample_buffer sample_initiation)\<lparr>bp := bp (sample_buffer sample_initiation) + 20\<rparr>\<rparr>)
      lg 20)"
proof -
  have len: "length sample_initiation = 20" "sample_initiation \<noteq> []"
    by (simp_all add: sample_initiation_def)
  show ?thesis
    using initiation_is_logged [of "sample_connection\<lparr>client_buffer := sample_buffer sample_initiation\<rparr>"
        sample_parser True sample_initiation 2 1 20 sample_client_handlers] sample_initiation_at
    by (simp add: len sample_client_handlers_def initiation_size_def pad4_def)
qed

theorem acceptance_opens_connection_witness:
  "\<exists>lg. server_turn sample_server_handlers sample_parser
      (sample_connection\<lparr>server_buffer := sample_buffer sample_acceptance\<rparr>) sample_acceptance =
    Inr (Continue sample_parser
      ((sample_connection\<lparr>server_buffer := sample_buffer sample_acceptance\<rparr>)
        \<lparr>conn_status := OPEN,
         server_buffer := (sample_buffer sample_acceptance)\<lparr>bp := bp (sample_buffer sample_acceptance) + 120\<rparr>\<rparr>)
      lg 120)"
proof -
  have len: "length sample_acceptance = 120" "sample_acceptance \<noteq> []"
    by (simp_all add: sample_acceptance_def)
  show ?thesis
    using acceptance_opens_connection [of "sample_connection\<lparr>server_buffer := sample_buffer sample_acceptance\<rparr>"
        sample_parser sample_acceptance 0 1 "[[1]]" 120 sample_server_handlers] sample_acceptance_at
    by (simp add: len sample_server_handlers_def acceptance_size_def screen_size_def depth_size_def
      pad4_def sample_parser_def sample_ws_def)
qed

theorem refusal_ends_program_witness:
  "\<not> is_ok (server_message sample_server_handlers sample_parser sample_connection
      [0, 0, 11, 0, 0, 0, 0, 0] 8)"
  by (rule refusal_ends_program)
    (simp_all add: sample_server_handlers_def InitResponse_SUCCESS_def)

end
