(* ===== verification/Sessions.thy ===== *)
theory Sessions
  imports ReplyLaws Setup
begin

text \<open>
  The parser as a whole: the streams of \<open>Streams\<close> with the handlers of connection setup,
  requests, replies, events and errors that the program has. The loops over the streams end
  for any bytes, whatever they are; a request and its reply meet.
\<close>

definition X11_client_handlers :: client_handlers where
  "X11_client_handlers = \<lparr>log_initiation = logInitiation, log_request = logRequest core_events\<rparr>"

definition X11_server_handlers :: server_handlers where
  "X11_server_handlers =
     \<lparr>log_init_response = logInitResponse, log_reply = logReply core_events,
      event_codes = core_events, error_codes = core_errors\<rparr>"

lemma X11_handlers_simps [simp]:
  "log_initiation X11_client_handlers = logInitiation"
  "log_request X11_client_handlers = logRequest core_events"
  "log_init_response X11_server_handlers = logInitResponse"
  "log_reply X11_server_handlers = logReply core_events"
  "event_codes X11_server_handlers = core_events"
  "error_codes X11_server_handlers = core_errors"
  by (simp_all add: X11_client_handlers_def X11_server_handlers_def)

subsection \<open>The loops end\<close>

text \<open>
  Each turn either parses bytes, or leaves a state that it can not return to: the size of a
  message that a closed connection will not parse, or the connection setup.
\<close>

definition pending :: "(connection \<Rightarrow> socket_buffer) \<Rightarrow> connection \<Rightarrow> nat" where
  "pending buf_of c = 2 * unat (unparsed (buf_of c)) + of_bool (messageSizeSet (buf_of c)) +
     of_bool (conn_status c = UNESTABLISHED)"

lemma stream_loop_ends:
  assumes "\<And>P c d P' c' lg n. I c \<Longrightarrow> parsed (buf_of c) < buffer_size (buf_of c) \<Longrightarrow>
      body P c d = Inr (Continue P' c' lg n) \<Longrightarrow> I c' \<and> m c' < (m c :: nat)"
  shows "I c \<Longrightarrow> m c < fuel \<Longrightarrow> stream_loop fuel buf_of body P c d tot out \<noteq> None"
proof (induction fuel arbitrary: P c d tot out)
  case (Suc fuel)
  have "I c' \<and> m c' < fuel"
    if "parsed (buf_of c) < buffer_size (buf_of c)" "body P c d = Inr (Continue P' c' lg n)" for P' c' lg n
    using assms [OF Suc.prems(1) that] Suc.prems(2) by linarith
  then show ?case
    using Suc.IH by (auto split: sum.split turn.split)
qed simp

locale counting_stream =
  fixes buf_of :: "connection \<Rightarrow> socket_buffer"
    and set_buf :: "socket_buffer \<Rightarrow> connection \<Rightarrow> connection"
    and glyph :: string
    and frame :: "parser \<Rightarrow> connection \<Rightarrow> byte list \<Rightarrow> connection res"
    and message :: handler
  assumes buf_of_set [simp]: "buf_of (set_buf b c) = b" "conn_status (set_buf b c) = conn_status c"
    and frame_place: "frame P c d = Inr c1 \<Longrightarrow>
      conn_status c1 = conn_status c \<and> buf_of c1 = (buf_of c)\<lparr>nms := nms (buf_of c1)\<rparr>"
    and frame_idle: "frame P c d = Inr c1 \<Longrightarrow> conn_status c \<notin> {UNESTABLISHED, OPEN} \<Longrightarrow>
      buf_of c1 = buf_of c"
    and message_place: "message P c d n = Inr (P', c', t, k) \<Longrightarrow> same_place (buf_of c) (buf_of c')"
    and message_status: "message P c d n = Inr (P', c', t, k) \<Longrightarrow> conn_status c \<noteq> UNESTABLISHED \<Longrightarrow>
      conn_status c' \<noteq> UNESTABLISHED"
    and message_counts: "message P c d n = Inr (P', c', t, k) \<Longrightarrow> k = 0 \<Longrightarrow>
      conn_status c \<notin> {UNESTABLISHED, OPEN} \<or>
      conn_status c = UNESTABLISHED \<and> conn_status c' \<noteq> UNESTABLISHED"
begin

lemma turn_counts:
  assumes wf: "wf_buffer (buf_of c)" and more: "parsed (buf_of c) < buffer_size (buf_of c)"
    and turn: "stream_turn buf_of set_buf glyph frame message P c d = Inr (Continue P' c' lg k)"
  shows "wf_buffer (buf_of c') \<and> pending buf_of c' < pending buf_of c"
proof -
  let ?b = "buf_of c"
  from turn obtain c1 c2 t b2 where frame: "frame P c d = Inr c1"
    and set: "messageSizeSet (buf_of c1)" and whole: "\<not> incompleteMessage (buf_of c1)"
    and msg: "message P c1 d (messageSize (buf_of c1)) = Inr (P', c2, t, k)"
    and k: "k = messageSize (buf_of c2)" and mark: "markMessageParsed (buf_of c2) = Inr b2"
    and c': "c' = set_buf b2 c2"
    by (auto simp: stream_turn_def Let_def elim!: parser_elims split: if_splits)
  note place = message_place [OF msg, unfolded same_place_def]
  have c1: "conn_status c1 = conn_status c" "buf (buf_of c1) = buf ?b" "br (buf_of c1) = br ?b"
    "bw (buf_of c1) = bw ?b" "bp (buf_of c1) = bp ?b"
    by (metis frame_place [OF frame] socket_buffer.select_convs socket_buffer.surjective
        socket_buffer.update_convs(5))+
  have b2: "br b2 = br ?b" "bw b2 = bw ?b" "bp b2 = bp ?b + k" "nms b2 = UNKNOWN_SZ"
    "length (buf b2) = length (buf ?b)"
    using mark k place c1 by (auto simp: markMessageParsed_def messageSize_def)
  have up: "unat (unparsed ?b) = unat (br ?b) - unat (bw ?b) - unat (bp ?b)"
    by (rule unat_unparsed [OF wf])
  have "0 < unat (unparsed ?b)"
    using more wf by (simp add: up word_less_nat_alt parsed_def unat_buffer_size)
  then have "unat k \<le> unat (unparsed ?b)"
    using whole set k place c1
    by (auto simp: incompleteMessage_def messageSize_def unparsed_def buffer_size_def word_less_nat_alt)
  then have sum: "unat (bp ?b) + unat k \<le> unat (br ?b) - unat (bw ?b)"
    using up \<open>0 < unat (unparsed ?b)\<close> by linarith
  then have bp2: "unat (bp b2) = unat (bp ?b) + unat k"
    using wf_bounds [OF wf] by (simp add: b2 unat_word_ariths)
  have wf2: "wf_buffer b2"
    using wf sum bp2 by (auto simp: wf_buffer_def b2)
  have "unat (unparsed b2) = unat (unparsed ?b) - unat k"
    using unat_unparsed [OF wf2] up by (simp only: b2(1,2) bp2 diff_diff_left ac_simps)
  then have after: "pending buf_of c' = 2 * (unat (unparsed ?b) - unat k) + of_bool (conn_status c' = UNESTABLISHED)"
    by (simp add: c' pending_def messageSizeSet_def b2(4))
  have "pending buf_of c' < pending buf_of c"
  proof (cases "k = 0")
    case True
    then have "messageSizeSet ?b \<and> conn_status c \<noteq> UNESTABLISHED \<and> conn_status c' \<noteq> UNESTABLISHED \<or>
        conn_status c = UNESTABLISHED \<and> conn_status c' \<noteq> UNESTABLISHED"
      using message_counts [OF msg True] frame_idle [OF frame] message_status [OF msg] set c1 c' by auto
    then show ?thesis
      unfolding after unfolding pending_def True by auto
  next
    case False
    then have "0 < unat k"
      by (simp add: unat_gt_0)
    with \<open>unat k \<le> unat (unparsed ?b)\<close> show ?thesis
      unfolding after unfolding pending_def using message_status [OF msg] c1(1) c' by (auto simp: of_bool_def)
  qed
  then show ?thesis
    using wf2 c' by simp
qed

lemma loop_ends:
  assumes "wf_buffer (buf_of c)" and "2 * unat (unparsed (buf_of c)) + 2 < fuel"
  shows "stream_loop fuel buf_of (stream_turn buf_of set_buf glyph frame message) P c d tot out \<noteq> None"
proof (rule stream_loop_ends [where m = "pending buf_of" and I = "\<lambda>c. wf_buffer (buf_of c)"])
  show "pending buf_of c < fuel"
    using assms(2) by (simp add: pending_def of_bool_def split: if_splits)
qed (use turn_counts assms(1) in auto)

end

lemma handler_result:
  "(P', c', t, k) = (P, c, lg, m) \<Longrightarrow> c' = c"
  "(P', c', t, k) = (P, c, lg, m) \<Longrightarrow> m = n \<Longrightarrow> h \<le> unat n \<Longrightarrow> c' = c \<and> k = n \<and> h \<le> unat n"
  "Inl e = Inr x \<Longrightarrow> R"
  by simp_all

lemma logInitiation_result:
  "logInitiation P c d n = Inr (P', c', t, k) \<Longrightarrow> c' = c \<and> k = n \<and> sizeof Initiation_Header \<le> unat n"
  unfolding logInitiation_def Let_def by (elim parser_elims) (rule handler_result(2))

lemma refused_result:
  "logRefusal P c d n = Inr (P', c', t, k) \<Longrightarrow> c' = c"
  "logRequireFurtherAuthentication P c d n = Inr (P', c', t, k) \<Longrightarrow> c' = c"
  "logAcceptance P c d n = Inr (P', c', t, k) \<Longrightarrow> c' = c"
  unfolding logRefusal_def logRequireFurtherAuthentication_def logAcceptance_def Let_def
  by (elim parser_elims ifE; (erule handler_result(1) | erule handler_result(3)))+

lemma logInitResponse_opens:
  assumes "logInitResponse P c d n = Inr (P', c', t, k)" and "conn_status c' = OPEN"
    and "conn_status c = UNESTABLISHED"
  shows "c' = c\<lparr>conn_status := OPEN\<rparr>"
  using assms unfolding logInitResponse_def
  by (auto simp: with_status_def split: if_splits elim!: parser_elims dest: refused_result)

lemma ucast_nonzero: "(n :: 32 word) \<noteq> 0 \<Longrightarrow> (ucast n :: size_t) \<noteq> 0"
  using unat_ucast_32_64 [of n] by (metis unat_eq_0)

lemma ucast_zero: "(ucast (n :: 32 word) :: size_t) = 0 \<Longrightarrow> unat n = 0"
  using unat_ucast_32_64 [of n] by simp

lemma logRequest_counts: "logRequest codes P c d n = Inr (P', c', t, k) \<Longrightarrow> k \<noteq> 0"
  by (elim logRequest_accepts) (simp add: ucast_nonzero)

lemma client_message_result:
  assumes "client_message X11_client_handlers P c d n = Inr (P', c', t, k)"
  shows "same_place (client_buffer c) (client_buffer c')"
    and "conn_status c' = conn_status c"
    and "k = 0 \<Longrightarrow> conn_status c \<notin> {UNESTABLISHED, OPEN}"
proof -
  have "same_place (client_buffer c) (client_buffer c') \<and> conn_status c' = conn_status c \<and>
      (k = 0 \<longrightarrow> conn_status c \<notin> {UNESTABLISHED, OPEN})"
  proof (cases "conn_status c")
    case UNESTABLISHED
    then show ?thesis
      using assms by (auto simp: client_message_def dest!: logInitiation_result)
  next
    case OPEN
    then have log: "logRequest core_events P c d n = Inr (P', c', t, k)"
      using assms by (simp add: client_message_def)
    from obeysD(2,5) [OF obeys_logRequest OPEN log] logRequest_counts [OF log] show ?thesis
      by simp
  qed (use assms in \<open>simp_all add: client_message_def\<close>)
  then show "same_place (client_buffer c) (client_buffer c')" "conn_status c' = conn_status c"
    "k = 0 \<Longrightarrow> conn_status c \<notin> {UNESTABLISHED, OPEN}"
    by simp_all
qed

interpretation client: counting_stream
  client_buffer "\<lambda>b c. c\<lparr>client_buffer := b\<rparr>" CLIENT_TO_SERVER client_frame
  "client_message X11_client_handlers"
proof
  fix P d and c c1 :: connection
  assume f: "client_frame P c d = Inr c1"
  then show "conn_status c1 = conn_status c \<and> client_buffer c1 = (client_buffer c)\<lparr>nms := nms (client_buffer c1)\<rparr>"
    by (auto simp: client_frame_def Let_def setMessageSize_def elim!: parser_elims split: if_splits status.splits)
  assume "conn_status c \<notin> {UNESTABLISHED, OPEN}"
  with f show "client_buffer c1 = client_buffer c"
    by (auto simp: client_frame_def Let_def split: if_splits status.splits)
qed (use client_message_result in auto)

lemma logReply_counts: "logReply codes P c d n = Inr (P', c', t, k) \<Longrightarrow> k \<noteq> 0"
  by (elim logReply_accepts) (simp add: ucast_nonzero)

lemma logEvent_size: "logEvent codes P c d n = Inr (t, k) \<Longrightarrow> k \<noteq> 0"
  by (auto simp: logEvent_def Let_def Event_ENCODING_SZ_def elim!: parser_elims dest: ucast_zero)

lemmas parseError_defs =
  parseError_SimpleError_def parseError_ResourceIdError_def parseError_Request_def
  parseError_Value_def parseError_Window_def parseError_Pixmap_def parseError_Atom_def
  parseError_Cursor_def parseError_Font_def parseError_Match_def parseError_Drawable_def
  parseError_Access_def parseError_Alloc_def parseError_Colormap_def parseError_GContext_def
  parseError_IDChoice_def parseError_Name_def parseError_Length_def parseError_Implementation_def

lemma outputs_of_size:
  "sizeof L = unat Error_ENCODING_SZ \<Longrightarrow> outputs_of L r = Inr out \<Longrightarrow> bytes_parsed out = 32"
  by (auto simp: outputs_of_def Error_ENCODING_SZ_def elim!: map_resE)

lemma core_error_size:
  assumes "core_errors code = Some tr" and "error_parse_func tr P c d n = Inr out"
  shows "bytes_parsed out = 32"
proof -
  have "list_all (\<lambda>(code, tr). \<forall>out. error_parse_func tr P c d n = Inr out \<longrightarrow> bytes_parsed out = 32)
      core_error_list"
    unfolding core_error_list_def list.pred_inject(2) prod.case core_error_sel
    by (intro conjI list.pred_inject(1))
      (intro allI impI; simp only: parseError_defs Let_def; elim parser_elims;
        erule outputs_of_size; assumption)+
  with assms show ?thesis
    unfolding core_errors_def by (auto dest: list_all_map_of)
qed

lemma logError_size: "logError core_errors P c d n = Inr (t, k, c') \<Longrightarrow> k \<noteq> 0"
  by (auto simp: logError_def Let_def lookup_at_def dest!: core_error_size elim!: parser_elims
    split: option.splits)

lemma server_message_result:
  assumes "server_message X11_server_handlers P c d n = Inr (P', c', t, k)"
  shows "same_place (server_buffer c) (server_buffer c')"
    and "conn_status c = UNESTABLISHED \<Longrightarrow> conn_status c' = OPEN"
    and "conn_status c \<noteq> UNESTABLISHED \<Longrightarrow> conn_status c' = conn_status c"
    and "k = 0 \<Longrightarrow> conn_status c \<noteq> OPEN"
proof -
  have "same_place (server_buffer c) (server_buffer c') \<and>
      (conn_status c = UNESTABLISHED \<longrightarrow> conn_status c' = OPEN) \<and>
      (conn_status c \<noteq> UNESTABLISHED \<longrightarrow> conn_status c' = conn_status c) \<and>
      (k = 0 \<longrightarrow> conn_status c \<noteq> OPEN)"
  proof (cases "conn_status c")
    case UNESTABLISHED
    then show ?thesis
      using assms by (auto simp: server_message_def elim!: parser_elims dest!: logInitResponse_opens)
  next
    case OPEN
    have o: "obeys server_buffer (\<lambda>b c. c\<lparr>server_buffer := b\<rparr>) (server_message X11_server_handlers)"
      by (intro obeys_server_message) (simp_all add: obeys_logReply)
    have "k \<noteq> 0"
      using assms OPEN
      by (auto simp: server_message_def event_handler_def error_handler_def
        elim!: parser_elims ifE dest: logReply_counts logEvent_size logError_size)
    with obeysD(2,5) [OF o OPEN assms] OPEN show ?thesis
      by simp
  qed (use assms in \<open>simp_all add: server_message_def\<close>)
  then show "same_place (server_buffer c) (server_buffer c')"
    "conn_status c = UNESTABLISHED \<Longrightarrow> conn_status c' = OPEN"
    "conn_status c \<noteq> UNESTABLISHED \<Longrightarrow> conn_status c' = conn_status c"
    "k = 0 \<Longrightarrow> conn_status c \<noteq> OPEN"
    by simp_all
qed

interpretation server: counting_stream
  server_buffer "\<lambda>b c. c\<lparr>server_buffer := b\<rparr>" SERVER_TO_CLIENT server_frame
  "server_message X11_server_handlers"
proof
  fix P d and c c1 :: connection
  assume f: "server_frame P c d = Inr c1"
  then show "conn_status c1 = conn_status c \<and> server_buffer c1 = (server_buffer c)\<lparr>nms := nms (server_buffer c1)\<rparr>"
    by (auto simp: server_frame_def Let_def setMessageSize_def elim!: parser_elims split: if_splits status.splits)
  assume "conn_status c \<notin> {UNESTABLISHED, OPEN}"
  with f show "server_buffer c1 = server_buffer c"
    by (auto simp: server_frame_def Let_def split: if_splits status.splits)
qed (use server_message_result in auto)

text \<open>Enough turns for any buffer.\<close>

lemma client_loop_ends:
  assumes "wf_buffer (client_buffer c)" and "2 * unat (unparsed (client_buffer c)) + 2 < fuel"
  shows "logClientMessages fuel X11_client_handlers P c \<noteq> None"
  unfolding logClientMessages_def client_turn_def by (rule client.loop_ends [OF assms])

lemma server_loop_ends:
  assumes "wf_buffer (server_buffer c)" and "2 * unat (unparsed (server_buffer c)) + 2 < fuel"
  shows "logServerMessages fuel X11_server_handlers P c \<noteq> None"
  unfolding logServerMessages_def server_turn_def by (rule server.loop_ends [OF assms])

text \<open>More fuel does not change what a loop returns.\<close>

lemma stream_loop_more:
  "stream_loop fuel buf_of body P c d tot out = Some r \<Longrightarrow>
   stream_loop (fuel + k) buf_of body P c d tot out = Some r"
proof (induction fuel arbitrary: P c d tot out)
  case (Suc fuel)
  then show ?case
    by (auto split: sum.splits turn.splits if_splits)
qed simp

end
