(* ===== verification/RequestFacts.thy ===== *)
theory RequestFacts
  imports RequestLaws Logs
begin

text \<open>
  Results on single requests: lists without a count end; a request whose opcode is not in
  the tables is still measured and logged; two requests of the core protocol can not be logged at
  all.
\<close>

subsection \<open>Sizes of lists\<close>

lemma parse_members_size:
  assumes "\<And>d n m. parse d n = Inr m \<Longrightarrow> bytes_parsed m = of_nat w"
  shows "parse_members parse data sz ws n outputs = Inr out \<Longrightarrow>
    bytes_parsed out = bytes_parsed outputs + of_nat (n * w)"
proof (induction n arbitrary: outputs)
  case (Suc n)
  from Suc.prems obtain m where
    "parse (drop (unat (bytes_parsed outputs)) data) (sz - ucast (bytes_parsed outputs)) = Inr m"
    and "parse_members parse data sz ws n (append_member ws outputs m) = Inr out"
    by (auto elim!: and_thenE)
  with Suc.IH [OF this(2)] assms show ?case
    by (simp add: append_member_def)
qed simp

lemma parseLISTof_struct_size:
  assumes "parseLISTof_struct (parseListMember_struct L format) data sz k ws force = Inr out"
  shows "bytes_parsed out = of_nat (unat k * sizeof L)"
proof -
  have "bytes_parsed m = of_nat (sizeof L)"
    if "and_then (nested force ws) (parseListMember_struct L format d n) = Inr m" for d n m
    using that by (auto simp: parseListMember_struct_def outputs_of_def elim!: parser_elims)
  from parse_members_size [OF this] assms show ?thesis
    by (fastforce simp: parseLISTof_struct_def parseLISTof_def elim!: map_resE)
qed

subsection \<open>\<open>PolyArc\<close>\<close>

text \<open>
  The parser takes the length of the request, which is in units of four bytes, for its length
  in bytes. The arcs it finds never fill the request.
\<close>

lemma wrapped_count:
  assumes "1 \<le> j" and "j \<le> (16 :: nat)"
  shows "21844 \<le> (2 ^ 64 - j) div 12 mod 65536"
proof -
  let ?js = "[1, 2, 3, 4, 5, 6, 7, 8, 9, 10, 11, 12, 13, 14, 15, 16] :: nat list"
  have "list_all (\<lambda>j. 21844 \<le> (2 ^ 64 - j) div 12 mod (65536 :: nat)) ?js"
    by simp
  moreover have "set ?js = {1 ..< 17}"
    by (simp add: set_eq_iff) presburger
  ultimately show ?thesis
    using assms by (auto simp only: list_all_iff atLeastLessThan_iff Ball_def)
qed

lemma arcs_never_fit:
  fixes t b :: nat
  assumes "t < 2 ^ 32" and b: "b = 12 \<or> b = 16"
    and k: "k = unat (ucast ((of_nat t - of_nat b :: size_t) div 12) :: 16 word)"
  shows "4 * t \<noteq> b + 12 * k"
proof -
  have ub: "unat (of_nat t :: size_t) = t" "unat (of_nat b :: size_t) = b"
    using assms by (auto intro: unat_of_nat_64)
  let ?d = "of_nat t - of_nat b :: size_t"
  have k': "k = unat ?d div 12 mod 65536"
    unfolding k by (simp add: unsigned_ucast_eq take_bit_eq_mod unat_div_distrib)
  show ?thesis
  proof (cases "b \<le> t")
    case True
    then have "unat ?d = t - b"
      using ub by (simp add: unat_sub word_le_nat_alt)
    then have "k \<le> (t - b) div 12"
      by (simp add: k')
    then have "12 * k \<le> t - b"
      by (simp add: less_eq_div_iff_mult_less_eq mult.commute)
    then show ?thesis
      using True b by linarith
  next
    case False
    then have "unat ?d = 2 ^ 64 - (b - t)"
      using ub b by (auto simp: unat_sub_if_size word_size word_le_nat_alt)
    then have "21844 \<le> k"
      unfolding k' using wrapped_count [of "b - t"] False b by auto
    then show ?thesis
      using False b by auto
  qed
qed

lemma PolyArc_sizes:
  "BASE_ENCODING_SZ PolyArc = 12" "BASE_BIG_ENCODING_SZ PolyArc = 16" "sizeof ARC = 12"
  "prefix_layout PolyArc = Request_Prefix" "length_layout PolyArc = Request_Length"
  "big_length_layout PolyArc = Request_BigLength"
  by (simp_all add: PolyArc_def request_layouts size_of_def)

lemma tl_aligned_units_bound:
  assumes "tl_aligned_units P bsw T fe = Inr t" and "common_layout T"
  shows "t < 2 ^ 32"
  using assms StructFormat.ordered_member_bound [OF _ Request_fields(1)]
    StructFormat.ordered_member_bound [OF _ Request_fields(2)]
  by (fastforce simp: tl_aligned_units_def common_layout_def split: if_splits)

lemma RequestFixedEncoding_base:
  "RequestFixedEncoding P T c d sz = Inr fe \<Longrightarrow> fe_bytes_parsed fe = base_encoding_sz T fe"
  by (auto simp: RequestFixedEncoding_def Let_def base_encoding_sz_def elim!: parser_elims)

lemma ucast_of_nat_64: "(ucast (of_nat a :: size_t) :: 32 word) = of_nat a"
  by (rule word_unat_eq_iff [THEN iffD2]) (simp add: unsigned_ucast_eq unsigned_of_nat)

lemma pad4_of_4: "pad4 (k * 12) = k * 12"
  by (simp add: pad4_def)

lemma arcs_units: "b = 12 \<or> b = 16 \<Longrightarrow> 4 * ((b + k * 12 + 3) div 4) = b + 12 * (k :: nat)"
  by presburger

lemma PolyArc_fails: "\<not> is_ok (parseRequest_PolyArc P c d sz)"
proof
  assume "is_ok (parseRequest_PolyArc P c d sz)"
  then obtain out where "parseRequest_PolyArc P c d sz = Inr out"
    by (auto elim: is_okE)
  then show False
    unfolding parseRequest_PolyArc_def Let_def
  proof (elim parser_elims)
    fix fe t ws and arcs :: parsing_outputs
    assume fe: "RequestFixedEncoding P PolyArc c d sz = Inr fe"
      and t: "tl_aligned_units P (byteswap c) PolyArc fe = Inr t"
    let ?base = "base_encoding_sz PolyArc fe"
    let ?k = "ucast ((of_nat t - ?base) div of_nat (sizeof ARC)) :: 16 word"
    let ?n = "ucast (fe_bytes_parsed fe) :: 32 word"
    let ?n1 = "?n + ucast (Alignment_pad (ucast (bytes_parsed arcs)))"
    assume list: "parseLISTof_struct (parseListMember_struct ARC (formatARC P (byteswap c)))
        (drop (unat ?n) d) (of_nat t - ?base) ?k ws FORCE_SINGLELINE = Inr arcs"
      and units: "of_nat t = Alignment_units (ucast ?n1)"
    have arcs: "bytes_parsed arcs = of_nat (unat ?k * 12)"
      using parseLISTof_struct_size [OF list] by (simp only: PolyArc_sizes)
    have t32: "t < 2 ^ 32"
      using tl_aligned_units_bound [OF t] common_layouts by simp
    have "?base = of_nat 12 \<or> ?base = of_nat 16"
      by (simp add: base_encoding_sz_def PolyArc_sizes)
    then obtain b :: nat where b: "b = 12 \<or> b = 16" "?base = of_nat b"
      by blast
    have n: "?n = of_nat b"
      using RequestFixedEncoding_base [OF fe] b by auto
    let ?a = "unat ?k * 12"
    have "unat ?k < 65536"
      using unsigned_less [of ?k] by simp
    then have a: "?a < 2 ^ 20"
      by simp
    then have "Alignment_pad (ucast (bytes_parsed arcs)) = of_nat ?a"
      by (simp add: arcs ucast_of_nat_32 Alignment_pad_pad4 pad4_of_4 del: of_nat_mult)
    then have "?n1 = of_nat (b + ?a)"
      by (simp only: n ucast_of_nat_64 of_nat_add)
    moreover have ba: "b + ?a < 2 ^ 32"
      using a b(1) by auto
    ultimately have "ucast ?n1 = (of_nat (b + ?a) :: size_t)"
      by (simp only: ucast_of_nat_32 [OF ba])
    moreover have "unat (of_nat (b + ?a) :: size_t) = b + ?a"
      using ba by (intro unat_of_nat_64) simp
    ultimately have "unat (Alignment_units (ucast ?n1)) = (b + ?a + 3) div 4"
      using ba by (subst unat_Alignment_units_small) (simp_all only:, simp)
    then have "t = (b + ?a + 3) div 4"
      using arg_cong [OF units, of unat] t32 by (simp add: unat_of_nat_64)
    then have "4 * t = 4 * ((b + ?a + 3) div 4)"
      by (rule arg_cong)
    then have "4 * t = b + 12 * unat ?k"
      unfolding arcs_units [OF b(1)] .
    moreover have "unat ?k = unat (ucast ((of_nat t - of_nat b :: size_t) div 12) :: 16 word)"
      by (simp add: b PolyArc_sizes)
    ultimately show False
      using arcs_never_fit [OF t32 b(1)] by simp
  qed
qed

subsection \<open>\<open>ChangeKeyboardControl\<close>\<close>

text \<open>The arguments of its format string are one short, so a string comes where a width should.\<close>

lemma ChangeKeyboardControl_fails: "\<not> is_ok (parseRequest_ChangeKeyboardControl P c d sz)"
  by (auto simp: parseRequest_ChangeKeyboardControl_def Let_def is_ok_def elim!: parser_elims)

subsection \<open>Lists without a count\<close>

lemma pad_reaches:
  assumes "unat (bytes_parsed outputs) + 4 < 2 ^ 32"
  shows "unat (bytes_parsed outputs) \<le> unat (Alignment_pad (ucast (bytes_parsed outputs)))"
proof -
  show ?thesis
    using assms by (subst unat_Alignment_pad_small) (simp_all add: unat_ucast_32_64)
qed

lemma parse_until_returns:
  assumes counts: "\<And>d n m. parse d n = Inr m \<Longrightarrow>
      d \<noteq> [] \<and> 0 < unat (bytes_parsed m) \<and> unat (bytes_parsed m) \<le> w"
    and small: "length data + w + 4 < 2 ^ 32"
  shows "unat (bytes_parsed outputs) \<le> length data + w \<Longrightarrow>
    unat sz \<le> unat (bytes_parsed outputs) + fuel \<Longrightarrow>
    parse_until fuel parse data sz ws outputs \<noteq> None"
proof (induction fuel arbitrary: outputs)
  case (0 outputs)
  then have "\<not> Alignment_pad (ucast (bytes_parsed outputs)) < sz"
    using small pad_reaches [of outputs] by (simp add: word_less_nat_alt)
  then show ?case
    by (simp add: parse_until.simps)
next
  case (Suc fuel outputs)
  let ?n = "bytes_parsed outputs"
  show ?case
  proof (cases "Alignment_pad (ucast ?n) < sz")
    case True
    have "parse_until fuel parse data sz ws (append_member ws outputs m) \<noteq> None"
      if "parse (drop (unat ?n) data) (sz - ucast ?n) = Inr m" for m
    proof (rule Suc.IH)
      note m = counts [OF that]
      then have "unat (?n + bytes_parsed m) = unat ?n + unat (bytes_parsed m)"
        using small by (simp add: unat_word_ariths)
      then show "unat (bytes_parsed (append_member ws outputs m)) \<le> length data + w"
        "unat sz \<le> unat (bytes_parsed (append_member ws outputs m)) + fuel"
        using m Suc.prems by (simp_all add: append_member_def)
    qed
    then show ?thesis
      by (auto simp: parse_until.simps [of "Suc fuel"] split: sum.split)
  qed (simp add: parse_until.simps)
qed

subsection \<open>Text items\<close>

lemma text_item_sizes:
  "sizeof PolyText8_TEXTITEM8_TEXTELT8 = 2" "sizeof PolyText16_TEXTITEM16_TEXTELT16 = 2"
  "sizeof PolyTextRequest_FONT = 5" "sizeof CHAR2B = 2"
  by (simp_all add: request_layouts)

lemma text_item_bound:
  assumes "bytes_parsed m = of_nat k" and "0 < k" and "k \<le> 512"
  shows "0 < unat (bytes_parsed m) \<and> unat (bytes_parsed m) \<le> 512"
  using assms by (simp add: unat_of_nat_32)

lemma parseListMember_TEXTITEM8_size:
  assumes "parseListMember_TEXTITEM8 P bsw d n ws = Inr m"
  shows "d \<noteq> [] \<and> 0 < unat (bytes_parsed m) \<and> unat (bytes_parsed m) \<le> 512"
proof -
  have len: "k < 256" if "ordered_member P bsw PolyText8_TEXTITEM8_TEXTELT8 item ''string_len'' = Inr k" for item k
    using StructFormat.ordered_member_bound [OF that] by (simp add: request_layouts)
  have "bytes_parsed m = of_nat 5 \<or> (\<exists>k < 256. bytes_parsed m = of_nat (2 + k))"
    using assms unfolding parseListMember_TEXTITEM8_def text_item_font_def Let_def
    by (elim parser_elims ifE) (auto simp: text_item_sizes dest: len)
  then have "0 < unat (bytes_parsed m) \<and> unat (bytes_parsed m) \<le> 512"
    by (elim disjE exE conjE; elim text_item_bound; simp)
  moreover have "d \<noteq> []"
    using assms unfolding parseListMember_TEXTITEM8_def
    by (auto simp: text_item_sizes read_bytes_def split: if_splits elim!: parser_elims)
  ultimately show ?thesis
    by simp
qed

lemma parseListMember_TEXTITEM16_size:
  assumes "parseListMember_TEXTITEM16 P bsw d n ws = Inr m"
  shows "d \<noteq> [] \<and> 0 < unat (bytes_parsed m) \<and> unat (bytes_parsed m) \<le> 512"
proof -
  have len: "k < 256" if "ordered_member P bsw PolyText16_TEXTITEM16_TEXTELT16 item ''string_2B_len'' = Inr k" for item k
    using StructFormat.ordered_member_bound [OF that] by (simp add: request_layouts)
  have "bytes_parsed m = of_nat 5 \<or> (\<exists>k < 256. bytes_parsed m = of_nat (2 + k * 2))"
    using assms unfolding parseListMember_TEXTITEM16_def text_item_font_def Let_def
    by (elim parser_elims ifE)
      (auto simp: text_item_sizes unat_of_nat_16 dest!: len parseLISTof_struct_size)
  then have "0 < unat (bytes_parsed m) \<and> unat (bytes_parsed m) \<le> 512"
    by (elim disjE exE conjE; elim text_item_bound; simp)
  moreover have "d \<noteq> []"
    using assms unfolding parseListMember_TEXTITEM16_def
    by (auto simp: text_item_sizes read_bytes_def split: if_splits elim!: parser_elims)
  ultimately show ?thesis
    by simp
qed

lemma text_items_end:
  assumes "length data < 2 ^ 31"
    and "\<And>d n ws m. parse d n ws = Inr m \<Longrightarrow>
      d \<noteq> [] \<and> 0 < unat (bytes_parsed m) \<and> unat (bytes_parsed m) \<le> 512"
  shows "parse_until (Suc (unat sz)) (\<lambda>d n. and_then (nested force ws) (parse d n)) data sz ws
      \<lparr>str = s, bytes_parsed = 0\<rparr> \<noteq> None"
proof (rule parse_until_returns [where w = 512])
  fix d n m
  assume "and_then (nested force ws) (parse d n) = Inr m"
  then show "d \<noteq> [] \<and> 0 < unat (bytes_parsed m) \<and> unat (bytes_parsed m) \<le> 512"
    using assms(2) by (auto elim!: and_thenE)
qed (use assms(1) in simp_all)

subsection \<open>Unknown opcodes\<close>

lemma UnknownRequest_layouts:
  "prefix_layout UnknownRequest = extensions_Request_Prefix" "length_layout UnknownRequest = Request_Length"
  "big_length_layout UnknownRequest = Request_BigLength" "encoding_layout UnknownRequest = None"
  "BASE_ENCODING_SZ UnknownRequest = 4" "sizeof extensions_Request_Prefix = 2"
  "size_of extensions_Request_Prefix = 2" "size_of Request_Length = 2"
  by (simp_all add: UnknownRequest_def extensions_Request_Prefix_def request_layouts size_of_def)

lemma pad4_4: "1 \<le> u \<Longrightarrow> pad4 (4 * u - 4) = 4 * u - 4"
  unfolding pad4_def by presburger

lemma unknown_request_parsed:
  assumes "4 \<le> length d" and "4 \<le> unat sz" and "\<not> big_length d"
  shows "\<exists>s. parseRequest_UnknownRequest P c d sz =
    Inr \<lparr>str = s, bytes_parsed = of_nat (4 * declared_units (little_endian P) (byteswap c) d)\<rparr>"
proof -
  let ?bsw = "byteswap c"
  let ?u = "declared_units (little_endian P) ?bsw d"
  let ?fe = "\<lparr>prefix = d, length_at = drop 2 d, encoding = drop 4 d, fe_bytes_parsed = 4,
    big_request = False, header_only = True\<rparr>"
  have "sizeof Request_Prefix = 2"
    by (simp add: Request_Prefix_def)
  then have "ordered_member P ?bsw Request_BigLength (drop 2 d) ''extended_length_flag'' = Inr ?u"
    and units: "ordered_member P ?bsw Request_Length (drop 2 d) ''tl_aligned_units'' = Inr ?u"
    using Request_units(1,3) [OF assms(1), of P ?bsw] by (simp_all only: declared_units_def)
  moreover have u: "?u \<noteq> EXTENDED_LENGTH_FLAG" "1 \<le> ?u"
    using ordered_2_zero [OF assms(1), of ?bsw "little_endian P"] assms(3)
    by (simp_all add: declared_units_def EXTENDED_LENGTH_FLAG_def)
  ultimately have fe: "RequestFixedEncoding P UnknownRequest c d sz = Inr ?fe"
    using assms(2) by (simp add: RequestFixedEncoding_def UnknownRequest_layouts word_le_nat_alt Let_def)
  have u16: "?u < 2 ^ 16"
    using StructFormat.ordered_member_bound [OF units Request_fields(1)] by simp
  have len: "Alignment_size (of_nat ?u) - 4 = (of_nat (4 * ?u - 4) :: size_t)"
    using u by (simp add: Alignment_size_def ALIGN_def of_nat_diff mult.commute)
  have pad: "Alignment_pad (of_nat (4 * ?u - 4)) = of_nat (4 * ?u - 4)"
    using u u16 by (subst Alignment_pad_pad4) (simp_all add: pad4_4)
  have n1: "(4 :: 32 word) + ucast (of_nat (4 * ?u - 4) :: size_t) = of_nat (4 * ?u)"
    using u by (simp only: ucast_of_nat_64) (simp add: of_nat_diff)
  have "unat (Alignment_units (of_nat (4 * ?u))) = ?u"
    using u16 by (subst unat_Alignment_units_small) (simp_all add: unat_of_nat_64 del: of_nat_mult)
  moreover have "unat (of_nat ?u :: size_t) = ?u"
    using u16 by (intro unat_of_nat_64) simp
  ultimately have same: "of_nat ?u = Alignment_units (of_nat (4 * ?u))"
    by (simp only: word_unat_eq_iff)
  have small: "4 * ?u < 2 ^ 32"
    using u16 by simp
  have "is_ok (member P ?bsw extensions_Request_Prefix d f no_names NOT_BITMASK)"
    if "member_fits extensions_Request_Prefix f no_names NOT_BITMASK" for f
    using that assms(1) by (intro member_fits_ok no_zero_bits) (simp_all add: extensions_Request_Prefix_def)
  moreover have "is_ok (member P ?bsw Request_Length (drop 2 d) ''tl_aligned_units'' no_names NOT_BITMASK)"
    using assms(1) by (intro member_fits_ok no_zero_bits)
      (simp_all add: Request_Length_def member_fits_def no_names_def names_ok_def)
  ultimately show ?thesis
    using assms(2) same [symmetric]
    by (simp add: parseRequest_UnknownRequest_def Let_def fe UnknownRequest_layouts word_le_nat_alt
      tl_aligned_units_def units base_encoding_sz_def len pad n1 ucast_of_nat_32 [OF small] del: of_nat_mult)
     (intro conjI impI text_with_size;
       simp add: braces_ok length_rows_def UnknownRequest_layouts member_fits_def no_names_def names_ok_def
         extensions_Request_Prefix_def)
qed

text \<open>The same for the handler.\<close>

lemma declared_units_bounds:
  assumes "4 \<le> length d" and "\<not> big_length d"
  shows "1 \<le> declared_units le bsw d" and "declared_units le bsw d < 2 ^ 16"
proof -
  show "1 \<le> declared_units le bsw d"
    using ordered_2_zero [OF assms(1), of bsw le] assms(2) by (simp add: declared_units_def)
  have "host_val le (take 2 (drop 2 d)) < 256 ^ 2"
    using host_val_bound [of le "take 2 (drop 2 d)"] assms(1) by simp
  then show "declared_units le bsw d < 2 ^ 16"
    using ordered_bound [of _ 2] unfolding declared_units_def by fastforce
qed

lemma Prefix_opcodes:
  assumes "4 \<le> length d"
  shows "ordered_member P bsw extensions_Request_Prefix d ''major_opcode'' = Inr (unat (hd d))"
    and "\<exists>mn. ordered_member P bsw extensions_Request_Prefix d ''minor_opcode'' = Inr mn"
proof -
  show "ordered_member P bsw extensions_Request_Prefix d ''major_opcode'' = Inr (unat (hd d))"
    using assms by (intro ordered_member_first) (auto simp: extensions_Request_Prefix_def)
  show "\<exists>mn. ordered_member P bsw extensions_Request_Prefix d ''minor_opcode'' = Inr mn"
    using assms ordered_member_at [OF Prefix_fields(2)] by simp
qed

lemma unknown_request_handled:
  assumes "major_opcodes P (unat (hd d)) = None" and "4 \<le> length d" and "\<not> big_length d"
    and "4 * declared_units (little_endian P) (byteswap c) d \<le> unat sz"
  shows "\<exists>lg. logRequest codes P c d sz = Inr (P, fst (registerRequest (hd d) 0 c), lg,
    of_nat (4 * declared_units (little_endian P) (byteswap c) d))"
proof -
  let ?u = "declared_units (little_endian P) (byteswap c) d"
  let ?c = "fst (registerRequest (hd d) 0 c)"
  note u = declared_units_bounds [OF assms(2,3), of "little_endian P" "byteswap c"]
  have small: "4 * ?u < 2 ^ 32"
    using u by simp
  then have un: "unat (of_nat (4 * ?u) :: 32 word) = 4 * ?u" "unat (of_nat (4 * ?u) :: size_t) = 4 * ?u"
    by (rule unat_of_nat_32) (rule unat_of_nat_64, use small in simp)
  then have nz: "(of_nat (4 * ?u) :: 32 word) \<noteq> 0"
    using u by (metis mult_is_0 not_one_le_zero unat_0 zero_neq_numeral)
  have le: "of_nat (4 * ?u) \<le> sz"
    using assms(4) un(2) by (simp add: word_le_nat_alt)
  have "4 \<le> unat sz"
    using assms(4) u by linarith
  moreover have "byteswap ?c = byteswap c"
    by (simp add: registerRequest_def Let_def)
  ultimately obtain s where
    "parseRequest_UnknownRequest P ?c d sz = Inr \<lparr>str = s, bytes_parsed = of_nat (4 * ?u)\<rparr>"
    using unknown_request_parsed [OF assms(2) _ assms(3), of sz P ?c] by auto
  moreover obtain mn where "ordered_member P (byteswap c) extensions_Request_Prefix d ''minor_opcode'' = Inr mn"
    using Prefix_opcodes(2) [OF assms(2)] by blast
  ultimately show ?thesis
    using Prefix_opcodes(1) [OF assms(2)] assms(1) nz le \<open>4 \<le> unat sz\<close>
    by (simp add: logRequest_def find_request_def unknown_request_def reading_def split_beta
      UnknownRequest_layouts word_le_nat_alt ucast_of_nat_32 [OF small] del: of_nat_mult)
qed

end
