(* ===== verification/Returns.thy ===== *)
theory Returns
  imports Sessions RequestFacts
begin

text \<open>
  Every parser returns: none of them, on any bytes, gets to the fault \<open>No_return\<close> of a list
  without a count whose loop does not end. The lists of text items are the only such lists; each
  item takes at least two bytes, and one that would start behind the memory can not be read.
\<close>

definition returns :: "'a res \<Rightarrow> bool" where
  "returns r \<longleftrightarrow> r \<noteq> Inl No_return"

named_theorems returning "when a result is not the fault of a loop without end"

lemma returns_Inr [returning, simp]: "returns (Inr x)"
  by (simp add: returns_def)

lemma returns_Inl [simp]: "returns (Inl e) \<longleftrightarrow> e \<noteq> No_return"
  by (simp add: returns_def)

lemma returns_faults [returning]:
  "returns (Inl Assertion_failure)" "returns (Inl Out_of_range)" "returns (Inl Format_error)"
  "returns (Inl (Exit i))"
  by simp_all

lemma returns_require [returning]: "returns r \<Longrightarrow> returns (require b r)"
  by (cases b) simp_all

lemma returns_and_then [returning]: "returns r \<Longrightarrow> (\<And>x. returns (f x)) \<Longrightarrow> returns (and_then r f)"
  by (cases r) simp_all

lemma returns_map_res [returning]: "returns r \<Longrightarrow> returns (map_res f r)"
  by (cases r) simp_all

lemma returns_if [returning]: "returns r \<Longrightarrow> returns r' \<Longrightarrow> returns (if b then r else r')"
  by simp

lemma returns_prod [returning]: "(\<And>x y. returns (f x y)) \<Longrightarrow> returns (case p of (x, y) \<Rightarrow> f x y)"
  by (cases p) simp

lemma returns_load [returning]: "returns (read_bytes m i n)" "returns (load le m i n)" "returns (read_text m i n)"
  by (simp_all add: read_bytes_def load_def read_text_def returns_map_res)

lemma returns_member_access [returning]:
  "returns (load_member le L m f)" "returns (ordered_member P bsw L m f)" "returns (raw_member P L m f)"
  "returns (member_offset L f)" "returns (member_address L f m)"
  by (auto simp: load_member_def ordered_member_def raw_member_def member_offset_def member_address_def
    intro!: returning split: option.split)

lemma returns_range [returning]:
  "returns (range_min_max ns i j)" "returns (range_bound ns b i)" "returns (range_all ns)" "returns no_names"
  by (simp_all add: range_min_max_def range_bound_def range_all_def no_names_def returns_require)

lemma returns_Whitespace3 [returning]: "returns (Whitespace3 n d m)"
  unfolding Whitespace3_def tabIndent_def Let_def by (intro returning)

lemma returns_nested [returning]: "returns (nested force ws)"
  unfolding nested_def by (intro returning)

lemma returns_formatInt [returning]: "returns (formatInt P w s n bsw r bm)"
  by (simp add: formatInt_def Let_def returns_require)

lemma returns_formatVariable [returning]: "returns (formatVariable P t n bsw r bm)"
  by (cases t) (auto simp: formatATOM_def formatTIMESTAMP_def formatNamed_def formatSETof_def
    formatSETofKEYMASK_def formatChecked_def formatResourceId_def Let_def intro!: returning)

lemma returns_member [returning]: "returns names' \<Longrightarrow> returns (member P bsw L m f names' bm)"
  unfolding member_def by (intro returning)

lemma returns_collect [returning]:
  "returns (collect [])" "returns r \<Longrightarrow> returns (collect rs) \<Longrightarrow> returns (collect (r # rs))"
  by (auto intro!: returning)

lemma returns_collect_all: "list_all returns rs \<Longrightarrow> returns (collect rs)"
  by (induction rs) (auto intro!: returning)

definition rows_return :: "row list \<Rightarrow> bool" where
  "rows_return xs \<longleftrightarrow> list_all (\<lambda>x. returns (formatted x)) xs"

lemma rows_return_intros [returning]:
  "rows_return []" "returns v \<Longrightarrow> rows_return xs \<Longrightarrow> rows_return (always l v # xs)"
  "returns v \<Longrightarrow> rows_return xs \<Longrightarrow> rows_return (verbose_only l v # xs)"
  "rows_return xs \<Longrightarrow> rows_return ys \<Longrightarrow> rows_return (xs @ ys)"
  by (simp_all add: rows_return_def always_def verbose_only_def)

lemma rows_return_if [returning]: "rows_return xs \<Longrightarrow> rows_return ys \<Longrightarrow> rows_return (if b then xs else ys)"
  by simp

lemma returns_braces [returning]: "rows_return xs \<Longrightarrow> returns (braces P ws w xs)"
  by (auto simp: braces_def rows_return_def format_row_def list_all_iff intro!: returning returns_collect_all)

lemma returns_format_row [returning]: "returns v \<Longrightarrow> returns (format_row P ws w (always l v))"
  by (simp add: format_row_def always_def returns_map_res)

subsection \<open>Lists\<close>

lemma returns_parseListMember_int [returning]:
  "returns names' \<Longrightarrow> returns (parseListMember_int P t d n bsw names' bm)"
  unfolding parseListMember_int_def by (intro returning)

lemma returns_parse_members:
  "(\<And>d n. returns (parse d n)) \<Longrightarrow> returns (parse_members parse d n ws k outputs)"
  by (induction k arbitrary: outputs) (auto intro!: returning)

lemma returns_parseLISTof [returning]:
  "(\<And>d n. returns (parse d n)) \<Longrightarrow> returns (parseLISTof parse d n k ws)"
  unfolding parseLISTof_def by (intro returning returns_parse_members)

lemma returns_parseLISTof_int [returning]:
  "returns names' \<Longrightarrow> returns (parseLISTof_int P t d n k bsw ws names' bm)"
  unfolding parseLISTof_int_def by (intro returning)

lemma returns_outputs_of [returning]: "returns r \<Longrightarrow> returns (outputs_of L r)"
  unfolding outputs_of_def by (intro returning)

lemma returns_parseListMember_struct [returning]:
  "(\<And>d ws. returns (format d ws)) \<Longrightarrow> returns (parseListMember_struct L format d n ws)"
  unfolding parseListMember_struct_def by (intro returning)

lemma returns_parseLISTof_struct [returning]:
  "(\<And>d n ws. returns (parse d n ws)) \<Longrightarrow> returns (parseLISTof_struct parse d n k ws force)"
  unfolding parseLISTof_struct_def by (intro returning)

lemma returns_structs [returning]:
  "returns (formatCHAR2B P bsw d ws)" "returns (formatPOINT P bsw d ws)"
  "returns (formatRECTANGLE P bsw d ws)" "returns (formatARC P bsw d ws)"
  "returns (formatSEGMENT P bsw d ws)" "returns (formatCOLORITEM P bsw d ws)"
  "returns (formatCHARINFO P bsw d ws)" "returns (formatFONTPROP P bsw d ws)"
  "returns (formatTIMECOORD P bsw d ws)" "returns (formatRGB P bsw d ws)"
  unfolding formatCHAR2B_def formatPOINT_def formatRECTANGLE_def formatARC_def formatSEGMENT_def
    formatCOLORITEM_def formatCHARINFO_def formatFONTPROP_def formatTIMECOORD_def formatRGB_def Let_def
  by (intro returning)+

lemma returns_parseListMember_STR [returning]: "returns (parseListMember_STR P bsw d n ws)"
  unfolding parseListMember_STR_def Let_def by (intro returning)

lemma returns_parseListMember_HOST [returning]: "returns (parseListMember_HOST P bsw d n ws)"
  unfolding parseListMember_HOST_def Let_def by (intro returning)

lemma returns_text_item_font [returning]: "returns (text_item_font P bsw d ws)"
  unfolding text_item_font_def Let_def by (intro returning)

lemma returns_text_items [returning]:
  "returns (parseListMember_TEXTITEM8 P bsw d n ws)" "returns (parseListMember_TEXTITEM16 P bsw d n ws)"
  unfolding parseListMember_TEXTITEM8_def parseListMember_TEXTITEM16_def Let_def by (intro returning)+

lemma returns_value_trait [returning]: "returns names' \<Longrightarrow> returns (value_trait names' bm)"
  unfolding value_trait_def by (intro returning)

lemma returns_parse_values: "returns (parse_values P d n value_mask bsw ws w i vs outputs)"
  by (induction P d n value_mask bsw ws w i vs outputs rule: parse_values.induct)
    (auto simp: Let_def no_names_def [symmetric] intro!: returning)

lemma returns_parseLISTofVALUE [returning]: "returns (parseLISTofVALUE P d n value_mask ts ns traits bsw ws)"
  unfolding parseLISTofVALUE_def by (intro returning returns_parse_values)

subsection \<open>Lists without a count\<close>

lemma parse_until_fault:
  assumes "\<And>d n. returns (parse d n)"
  shows "parse_until fuel parse data sz ws outputs = Some r \<Longrightarrow> returns r"
proof (induction fuel arbitrary: outputs)
  case (Suc fuel)
  then show ?case
    using assms [of "drop (unat (bytes_parsed outputs)) data"]
    by (auto simp: parse_until.simps [of "Suc fuel"] returns_def split: if_splits sum.splits)
qed (auto simp: parse_until.simps [of 0] split: if_splits)

lemma returns_parseLISTof_uncounted:
  assumes "length data < 2 ^ 31" and "\<And>d n ws. returns (parse d n ws)"
    and "\<And>d n ws m. parse d n ws = Inr m \<Longrightarrow>
      d \<noteq> [] \<and> 0 < unat (bytes_parsed m) \<and> unat (bytes_parsed m) \<le> 512"
  shows "returns (parseLISTof_uncounted parse data sz ws force)"
proof -
  let ?parse = "\<lambda>d n. and_then (nested force ws) (parse d n)"
  have "returns (?parse d n)" for d n
    by (intro returning assms(2))
  note fault = parse_until_fault [OF this]
  let ?out = "\<lparr>str = ''['' @ (if sz = 0 then [] else separator ws), bytes_parsed = 0\<rparr>"
  obtain r where "parse_until (Suc (unat sz)) ?parse data sz ws ?out = Some r"
    using text_items_end [OF assms(1,3), of parse "\<lambda>d n ws m. n" "\<lambda>d n ws m. ws" sz force ws] by blast
  then show ?thesis
    using fault by (simp add: parseLISTof_uncounted_def returns_map_res)
qed

subsection \<open>Events and errors\<close>

lemma returns_lookup_at [returning]: "returns (lookup_at m k)"
  by (simp add: lookup_at_def split: option.split)

lemmas parseEvent_defs =
  parseEvent_InputEvent_def parseEvent_BoundaryEvent_def parseEvent_FocusEvent_def
  parseEvent_KeyPress_def parseEvent_KeyRelease_def parseEvent_ButtonPress_def
  parseEvent_ButtonRelease_def parseEvent_MotionNotify_def parseEvent_EnterNotify_def
  parseEvent_LeaveNotify_def parseEvent_FocusIn_def parseEvent_FocusOut_def
  parseEvent_KeymapNotify_def parseEvent_Expose_def parseEvent_GraphicsExposure_def
  parseEvent_NoExposure_def parseEvent_VisibilityNotify_def parseEvent_CreateNotify_def
  parseEvent_DestroyNotify_def parseEvent_UnmapNotify_def parseEvent_MapNotify_def
  parseEvent_MapRequest_def parseEvent_ReparentNotify_def parseEvent_ConfigureNotify_def
  parseEvent_ConfigureRequest_def parseEvent_GravityNotify_def parseEvent_ResizeRequest_def
  parseEvent_CirculateNotify_def parseEvent_CirculateRequest_def parseEvent_PropertyNotify_def
  parseEvent_SelectionClear_def parseEvent_SelectionRequest_def parseEvent_SelectionNotify_def
  parseEvent_ColormapNotify_def parseEvent_ClientMessage_def parseEvent_MappingNotify_def

lemma returns_core_event: "core_events code = Some tr \<Longrightarrow> returns (event_parse_func tr P c d n ws)"
  unfolding core_events_def
  by (erule list_all_map_of [where Q = "\<lambda>tr. returns (event_parse_func tr P c d n ws)", rotated])
    (simp only: list.pred_inject prod.case core_event_def event_traits.simps parseEvent_defs Let_def,
      intro conjI TrueI returning)

lemma returns_lookup_then: "(\<And>x. m k = Some x \<Longrightarrow> returns (f x)) \<Longrightarrow> returns (and_then (lookup_at m k) f)"
  by (simp add: lookup_at_def split: option.split)

lemma returns_parseEvent [returning]: "returns (parseEvent core_events P c d n ws)"
  unfolding parseEvent_def
  by (rule returns_require, rule returns_and_then, intro returning, rule returns_lookup_then)
    (intro returns_and_then returns_require returns_Inr returns_core_event)

lemma returns_core_error: "core_errors code = Some tr \<Longrightarrow> returns (error_parse_func tr P c d n)"
  unfolding core_errors_def
  by (erule list_all_map_of [where Q = "\<lambda>tr. returns (error_parse_func tr P c d n)", rotated])
    (simp only: core_error_list_def list.pred_inject prod.case core_error_sel parseError_defs Let_def,
      intro conjI TrueI returning)

subsection \<open>Requests\<close>

lemma returns_RequestFixedEncoding [returning]: "returns (RequestFixedEncoding P T c d n)"
  unfolding RequestFixedEncoding_def Let_def by (intro returning)

lemma returns_request_length [returning]:
  "returns (tl_aligned_units P bsw T fe)" "returns (length_assertion P bsw T fe n)"
  unfolding tl_aligned_units_def length_assertion_def by (intro returning)+

lemma rows_return_length [returning]: "rows_return (length_rows P bsw T fe)"
  unfolding length_rows_def by (intro returning)

lemma returns_stash [returning]:
  "returns (stashString i n v P)" "returns (unstashString i n P)" "returns (read_view c v)"
  "returns (event_text P code e)"
  by (auto simp: stashString_def unstashString_def read_view_def event_text_def Let_def
    intro!: returning split: option.split)

lemma returns_text_list [returning]:
  assumes "length d < 2 ^ 31"
  shows "returns (parseLISTof_uncounted (parseListMember_TEXTITEM8 P bsw) (drop k d) n ws force)"
    "returns (parseLISTof_uncounted (parseListMember_TEXTITEM16 P bsw) (drop k d) n ws force)"
  by (intro returns_parseLISTof_uncounted parseListMember_TEXTITEM8_size parseListMember_TEXTITEM16_size
    returning; use assms in simp)+

definition parser_returns :: "message_parser \<Rightarrow> bool" where
  "parser_returns f \<longleftrightarrow> (\<forall>P c d n. length d < 2 ^ 31 \<longrightarrow> returns (f P c d n))"

lemma parser_returns_lift:
  "(\<And>P c d n. length d < 2 ^ 31 \<Longrightarrow> returns (f P c d n)) \<Longrightarrow> parser_returns (reading f)"
  "(\<And>P c d n. length d < 2 ^ 31 \<Longrightarrow> returns (g P c d n)) \<Longrightarrow> parser_returns (stashing g)"
  by (auto simp: parser_returns_def reading_def stashing_def intro!: returning)

lemma core_table_returns:
  "list_all (\<lambda>(code, traits). parser_returns (request_parse_func traits)) (core_request_table core_events)"
  unfolding core_request_table_def list.pred_inject(2) prod.case core_request_def request_traits.simps
  by (intro conjI list.pred_inject(1);
    (rule parser_returns_lift; simp only: parseRequest_defs Let_def;
      (intro returning; (rule returns_text_list)?; assumption?))+)

lemma other_requests_return:
  "parser_returns (request_parse_func unknown_request)"
  "parser_returns (reading parseRequest_BigReqEnable)"
  unfolding unknown_request_def request_traits.simps
  by (rule parser_returns_lift; simp only: parseRequest_defs parseRequest_BigReqEnable_def
    parseRequest_extensions_SimpleRequest_def Let_def; intro returning)+

lemma find_request_returns:
  "parser_returns (request_parse_func (snd (find_request core_events P mj mn)))"
  using other_requests_return list_all_map_of [OF core_table_returns]
  by (auto simp: find_request_def core_requests_def extension_requests_def big_requests_requests_def
    split: option.split if_splits)

lemma returns_logRequest: "length d < 2 ^ 31 \<Longrightarrow> returns (logRequest core_events P c d n)"
  using find_request_returns unfolding logRequest_def Let_def split_beta parser_returns_def
  by (intro returns_require returns_and_then returns_Inr returns_member_access) blast

subsection \<open>Replies\<close>

lemma returns_reply_parts [returning]:
  "returns (extra_units_agree P bsw L d n)" "returns (enableExtensionParsing name code P)"
  unfolding extra_units_agree_def enableExtensionParsing_def by (intro returning)+

lemma returns_embedded_struct [returning]:
  "(\<And>d ws. returns (format d ws)) \<Longrightarrow> returns (embedded_struct format L f d ws)"
  unfolding embedded_struct_def by (intro returning)

lemma parser_returns_reply:
  "(\<And>P c d n. returns (f P c d n)) \<Longrightarrow> parser_returns f"
  by (simp add: parser_returns_def)

lemma core_table_reply_returns:
  "list_all (\<lambda>(code, traits). pred_option parser_returns (reply_parse_func traits)) (core_request_table codes)"
  unfolding core_request_table_def core_request_def prod.case request_traits.simps list.pred_inject(2)
    option.pred_inject(2)
  by (intro conjI list.pred_inject(1) option.pred_inject(1))
    ((rule parser_returns_lift | rule parser_returns_reply); simp only: parseReply_defs Let_def;
      intro returning)+

lemma other_replies_return:
  "pred_option parser_returns (reply_parse_func unknown_request)" "parser_returns parseReply_BigReqEnable"
  unfolding unknown_request_def request_traits.simps option.pred_inject(2)
  by ((rule parser_returns_lift | rule parser_returns_reply);
    simp only: parseReply_defs parseReply_BigReqEnable_def Let_def; intro returning)+

lemma core_requests_reply_returns:
  "core_requests codes code = Some traits \<Longrightarrow> pred_option parser_returns (reply_parse_func traits)"
  unfolding core_requests_def by (rule list_all_map_of [OF core_table_reply_returns])

lemma find_request_reply_returns:
  "reply_parse_func (snd (find_request codes P mj mn)) = Some f \<Longrightarrow> parser_returns f"
  using other_replies_return core_requests_reply_returns [of codes mj]
  by (auto simp: find_request_def extension_requests_def big_requests_requests_def
    split: option.split_asm if_splits)

lemma returns_logReply:
  assumes "length d < 2 ^ 31"
  shows "returns (logReply codes P c d n)"
proof -
  have "returns (lookupRequest i c)" "returns (ends_request P c d mj)" for i P c mj
    unfolding lookupRequest_def ends_request_def by (intro returning)+
  then show ?thesis
    using assms find_request_reply_returns unfolding logReply_def Let_def split_beta parser_returns_def
    by (intro returns_require returns_and_then returns_member_access)
      (auto split: option.split intro!: returns_require returns_and_then)
qed

subsection \<open>Handlers and loops\<close>

lemma returns_setup_structs [returning]:
  "returns (formatFORMAT P bsw d ws)" "returns (formatVISUALTYPE P bsw d ws)"
  unfolding formatFORMAT_def formatVISUALTYPE_def Let_def by (intro returning)+

lemma returns_setup_lists [returning]:
  "returns (parseListMember_DEPTH P bsw d n ws)" "returns (parseListMember_SCREEN P bsw d n ws)"
  unfolding parseListMember_DEPTH_def parseListMember_SCREEN_def Let_def by (intro returning)+

lemma returns_setup [returning]:
  "returns (logInitiation P c d n)" "returns (logRefusal P c d n)"
  "returns (logRequireFurtherAuthentication P c d n)" "returns (logAcceptance P c d n)"
  "returns (logInitResponse P c d n)"
  unfolding logInitResponse_def logInitiation_def logRefusal_def logRequireFurtherAuthentication_def
    logAcceptance_def Let_def
  by (intro returning)+

lemma returns_logEvent: "returns (logEvent core_events P c d n)"
  unfolding logEvent_def Let_def by (intro returning)

lemma returns_logError: "returns (logError core_errors P c d n)"
  unfolding logError_def Let_def
  by (rule returns_require, rule returns_and_then, intro returning, rule returns_require,
      rule returns_and_then, intro returning, rule returns_and_then, intro returning, rule returns_lookup_then)
    (intro returns_and_then returns_require returns_Inr returns_core_error)

lemma returns_client_message:
  "length d < 2 ^ 31 \<Longrightarrow> returns (client_message X11_client_handlers P c d n)"
  by (simp add: client_message_def returns_setup returns_logRequest split: status.split)

lemma returns_server_message:
  "length d < 2 ^ 31 \<Longrightarrow> returns (server_message X11_server_handlers P c d n)"
  by (auto simp: server_message_def event_handler_def error_handler_def returns_logReply returns_logEvent
    returns_logError intro!: returning split: status.split)

lemma returns_buffer_steps [returning]: "returns (setMessageSize n b)" "returns (markMessageParsed b)"
  unfolding setMessageSize_def markMessageParsed_def by (intro returning)+

lemma returns_frames: "returns (client_frame P c d)" "returns (server_frame P c d)"
  by (auto simp: client_frame_def server_frame_def Let_def intro!: returning split: status.split)

lemma returns_stream_turn:
  assumes "\<And>P c. returns (frame P c d)" and "\<And>P c n. returns (message P c d n)"
  shows "returns (stream_turn buf_of set_buf glyph frame message P c d)"
  unfolding stream_turn_def Let_def by (intro returning assms)

lemma stream_loop_returns:
  assumes "\<And>P c d. length d < 2 ^ 31 \<Longrightarrow> returns (body P c d)"
  shows "stream_loop fuel buf_of body P c d tot out = Some r \<Longrightarrow> length d < 2 ^ 31 \<Longrightarrow> returns r"
proof (induction fuel arbitrary: P c d tot out)
  case (Suc fuel)
  have "returns (body P c d)"
    using assms Suc.prems(2) by blast
  with Suc show ?case
    by (auto split: if_splits sum.splits turn.splits)
qed simp

lemma client_loop_returns:
  assumes "logClientMessages fuel X11_client_handlers P c = Some r" and "length (buf (client_buffer c)) < 2 ^ 31"
  shows "r \<noteq> Inl No_return"
proof -
  have "length (buffer_data (client_buffer c)) < 2 ^ 31"
    using assms(2) by (simp add: buffer_data_def)
  moreover have "returns (client_turn X11_client_handlers P c d)" if "length d < 2 ^ 31" for P c d
    unfolding client_turn_def
    by (intro returns_stream_turn returns_frames returns_client_message that)
  ultimately have "returns r"
    using assms(1) unfolding logClientMessages_def by (blast intro: stream_loop_returns)
  then show ?thesis
    by (simp add: returns_def)
qed

lemma server_loop_returns:
  assumes "logServerMessages fuel X11_server_handlers P c = Some r" and "length (buf (server_buffer c)) < 2 ^ 31"
  shows "r \<noteq> Inl No_return"
proof -
  have "length (buffer_data (server_buffer c)) < 2 ^ 31"
    using assms(2) by (simp add: buffer_data_def)
  moreover have "returns (server_turn X11_server_handlers P c d)" if "length d < 2 ^ 31" for P c d
    unfolding server_turn_def
    by (intro returns_stream_turn returns_frames returns_server_message that)
  ultimately have "returns r"
    using assms(1) unfolding logServerMessages_def by (blast intro: stream_loop_returns)
  then show ?thesis
    by (simp add: returns_def)
qed

end
