(* ===== verification/Transit.thy ===== *)
theory Transit
  imports Returns
begin

text \<open>
  What the proxy server may rely on when it hands a connection to the parser: the loops over the
  messages change the counters of one buffer and leave the sockets and the other buffer alone, and
  when they return without an error then all complete messages of the buffer are parsed: it
  waits for more bytes, or has bytes to be sent.
\<close>

definition same_sockets :: "connection \<Rightarrow> connection \<Rightarrow> bool" where
  "same_sockets c c' \<longleftrightarrow> conn_id c' = conn_id c \<and> client_fd c' = client_fd c \<and> server_fd c' = server_fd c"

definition served :: "socket_buffer \<Rightarrow> bool" where
  \<comment> \<open>all that is complete is parsed\<close>
  "served b \<longleftrightarrow> wf_buffer b \<and> (unparsed b = 0 \<or> incompleteMessage b)"

lemma same_sockets_refl [simp]: "same_sockets c c"
  by (simp add: same_sockets_def)

lemma same_sockets_trans: "same_sockets c c' \<Longrightarrow> same_sockets c' c'' \<Longrightarrow> same_sockets c c''"
  by (simp add: same_sockets_def)

lemma same_sockets_set [simp]:
  "same_sockets c (c'\<lparr>client_buffer := b\<rparr>) = same_sockets c c'"
  "same_sockets c (c'\<lparr>server_buffer := b\<rparr>) = same_sockets c c'"
  by (simp_all add: same_sockets_def)

lemma unparsed_zero: "wf_buffer b \<Longrightarrow> unparsed b = 0 \<longleftrightarrow> \<not> parsed b < buffer_size b"
  by (simp add: parsed_def word_less_nat_alt unat_buffer_size unat_unparsed flip: unat_eq_0)
    (auto simp: wf_buffer_def)

lemma served_ready:
  assumes "served b"
  shows "readReady b \<or> writeReady b"
proof (cases "br b = 0 \<or> incompleteMessage b")
  case False
  then have wf: "wf_buffer b" and "unparsed b = 0" and "bw b \<noteq> br b"
    using assms by (auto simp: served_def wf_buffer_def)
  then have "unat (bw b) \<noteq> unat (br b)" "unat (br b) - unat (bw b) - unat (bp b) = 0"
    using unat_unparsed [OF wf] by (simp_all add: word_unat_eq_iff)
  with wf have "0 < unat (bp b)"
    unfolding wf_buffer_def by linarith
  with False show ?thesis
    by (simp add: writeReady_def buffer_empty_def word_less_nat_alt)
qed (auto simp: readReady_def buffer_empty_def)

lemma served_new: "served SocketBuffer_new"
  by (simp add: served_def wf_SocketBuffer_new) (simp add: unparsed_def buffer_size_def SocketBuffer_new_def)

text \<open>After a write the buffer is served again: it is empty, or the same message is waited for.\<close>

lemma write_all_served:
  assumes "served b" and "write_all send b = Inr (b', k, None)"
  shows "served b'" and "\<exists>out. send out = Inr k \<and> k = of_nat (length out) \<and> content b = out @ content b'"
proof -
  from assms(1) have wf: "wf_buffer b"
    by (simp add: served_def)
  from write_n_law [OF wf assms(2) [unfolded write_all_def]] obtain out where
    out: "send out = Inr (bp b)" "out = take (unat (bp b)) (content b)" "k = bp b"
    and b': "wf_buffer b'" "content b' = drop (unat (bp b)) (content b)"
    by blast
  have "unat (bp b) \<le> length (content b)"
    using wf by (simp add: length_content) (auto simp: wf_buffer_def)
  then have "k = of_nat (length out)"
    using out by simp
  with out b' show "\<exists>out. send out = Inr k \<and> k = of_nat (length out) \<and> content b = out @ content b'"
    by (metis append_take_drop_id)
  let ?b = "b\<lparr>bw := bw b + bp b, bp := 0\<rparr>"
  from assms(2) out(1) have "clear_if_drained ?b = Inr b'"
    by (auto simp: write_all_def write_n_def and_then_eq_Inr map_res_eq_Inr split: sum.split_asm)
      (metis diff_self sum.exhaust)
  then have "b' = ?b \<or> unparsed b' = 0"
    by (auto simp: clear_if_drained_def clear_def unparsed_def buffer_size_def split: if_splits)
  moreover have "unparsed ?b = unparsed b"
    by (simp add: unparsed_def buffer_size_def)
  then have "unparsed ?b = 0 \<or> incompleteMessage ?b"
    using assms(1) by (auto simp: served_def incompleteMessage_def messageSizeSet_def messageSize_def)
  ultimately show "served b'"
    using b'(1) by (auto simp: served_def)
qed

lemma still_waiting:
  assumes "wf_buffer b" and "parsed b < buffer_size b"
    and "\<not> messageSizeSet b' \<or> incompleteMessage b'" and "b' = b\<lparr>nms := n\<rparr>"
  shows "incompleteMessage b'"
proof -
  have "unparsed b' > 0"
    using assms(1,2,4) unat_unparsed [OF assms(1)] unat_buffer_size [OF assms(1)]
    by (simp add: word_less_nat_alt parsed_def unparsed_def buffer_size_def)
  with assms(3) show ?thesis
    by (auto simp: incompleteMessage_def)
qed

locale transit_stream = counting_stream +
  fixes other :: "connection \<Rightarrow> socket_buffer"
  assumes set_other [simp]: "other (set_buf b c) = other c"
    and set_sockets [simp]: "same_sockets c (set_buf b c') = same_sockets c c'"
    and frame_other: "frame P c d = Inr c1 \<Longrightarrow> other c1 = other c \<and> same_sockets c c1"
    and message_other: "message P c d n = Inr (P', c', t, k) \<Longrightarrow> other c' = other c \<and> same_sockets c c'"
begin

definition in_transit :: "connection \<Rightarrow> connection \<Rightarrow> bool" where
  "in_transit c c' \<longleftrightarrow> same_sockets c c' \<and> other c' = other c \<and> wf_buffer (buf_of c') \<and>
     br (buf_of c') = br (buf_of c) \<and> bw (buf_of c') = bw (buf_of c) \<and>
     length (buf (buf_of c')) = length (buf (buf_of c))"

lemma in_transit_trans: "in_transit c c' \<Longrightarrow> in_transit c' c'' \<Longrightarrow> in_transit c c''"
  by (auto simp: in_transit_def intro: same_sockets_trans)

lemma turn_transit:
  assumes wf: "wf_buffer (buf_of c)" and more: "parsed (buf_of c) < buffer_size (buf_of c)"
    and turn: "stream_turn buf_of set_buf glyph frame message P c d = Inr (Continue P' c' lg k)"
  shows "in_transit c c'"
proof -
  from turn obtain c1 c2 t b2 where frame: "frame P c d = Inr c1"
    and msg: "message P c1 d (messageSize (buf_of c1)) = Inr (P', c2, t, k)"
    and mark: "markMessageParsed (buf_of c2) = Inr b2" and c': "c' = set_buf b2 c2"
    by (auto simp: stream_turn_def Let_def elim!: parser_elims split: if_splits)
  note place = message_place [OF msg, unfolded same_place_def]
  have c1: "buf (buf_of c1) = buf (buf_of c)" "br (buf_of c1) = br (buf_of c)" "bw (buf_of c1) = bw (buf_of c)"
    by (metis frame_place [OF frame] socket_buffer.select_convs socket_buffer.surjective
        socket_buffer.update_convs(5))+
  have "wf_buffer (buf_of c')"
    using turn_counts [OF wf more turn] by simp
  moreover have "br b2 = br (buf_of c2)" "bw b2 = bw (buf_of c2)" "buf b2 = buf (buf_of c2)"
    using mark by (auto simp: markMessageParsed_def)
  ultimately show ?thesis
    using place c1 frame_other [OF frame] message_other [OF msg]
    by (auto simp: in_transit_def c' intro: same_sockets_trans)
qed

lemma break_transit:
  assumes wf: "wf_buffer (buf_of c)" and more: "parsed (buf_of c) < buffer_size (buf_of c)"
    and turn: "stream_turn buf_of set_buf glyph frame message P c d = Inr (Break c' lg)"
  shows "in_transit c c' \<and> incompleteMessage (buf_of c')"
proof -
  from turn have frame: "frame P c d = Inr c'"
    and waits: "\<not> messageSizeSet (buf_of c') \<or> incompleteMessage (buf_of c')"
    by (auto simp: stream_turn_def Let_def elim!: parser_elims split: if_splits)
  have b: "buf_of c' = (buf_of c)\<lparr>nms := nms (buf_of c')\<rparr>"
    using frame_place [OF frame] by simp
  then have "br (buf_of c') = br (buf_of c)" "bw (buf_of c') = bw (buf_of c)" "bp (buf_of c') = bp (buf_of c)"
    "buf (buf_of c') = buf (buf_of c)"
    by (metis socket_buffer.select_convs socket_buffer.surjective socket_buffer.update_convs(5))+
  then have "in_transit c c'"
    using wf frame_other [OF frame] by (simp add: in_transit_def wf_buffer_def)
  with still_waiting [OF wf more waits b] show ?thesis
    by simp
qed

lemma loop_transit:
  assumes "stream_loop fuel buf_of (stream_turn buf_of set_buf glyph frame message) P c d tot out =
      Some (Inr (P', c', n, lg, err))" and "wf_buffer (buf_of c)"
  shows "in_transit c c' \<and> (err = None \<longrightarrow> served (buf_of c'))"
  using assms
proof (induction fuel arbitrary: P c d tot out)
  case (Suc fuel)
  let ?body = "stream_turn buf_of set_buf glyph frame message"
  have refl: "in_transit c c"
    using Suc.prems(2) by (simp add: in_transit_def)
  show ?case
  proof (cases "parsed (buf_of c) < buffer_size (buf_of c)")
    case False
    then show ?thesis
      using Suc.prems refl by (simp add: served_def unparsed_zero)
  next
    case more: True
    show ?thesis
    proof (cases "?body P c d")
      case (Inr t)
      show ?thesis
      proof (cases t)
        case (Return e)
        then show ?thesis
          using Suc.prems(1) Inr more refl by auto
      next
        case (Break c1 lg1)
        then show ?thesis
          using Suc.prems Inr more break_transit [OF Suc.prems(2) more, of P d c1 lg1]
          by (auto simp: served_def in_transit_def)
      next
        case (Continue P1 c1 lg1 k)
        then have step: "in_transit c c1"
          using turn_transit [OF Suc.prems(2) more] Inr by simp
        then have "in_transit c1 c' \<and> (err = None \<longrightarrow> served (buf_of c'))"
          using Suc.prems(1) Inr more Continue by (intro Suc.IH) (simp_all add: in_transit_def)
        with step show ?thesis
          using in_transit_trans by blast
      qed
    qed (use Suc.prems more in simp)
  qed
qed simp

end

subsection \<open>The two directions\<close>

lemma client_message_other:
  assumes "client_message X11_client_handlers P c d n = Inr (P', c', t, k)"
  shows "server_buffer c' = server_buffer c" "client_buffer c' = client_buffer c" "same_sockets c c'"
proof -
  have "server_buffer c' = server_buffer c \<and> client_buffer c' = client_buffer c \<and> same_sockets c c'"
  proof (cases "conn_status c")
    case UNESTABLISHED
    then show ?thesis
      using assms by (auto simp: client_message_def dest!: logInitiation_result)
  next
    case OPEN
    then show ?thesis
      using assms
      by (auto simp: client_message_def registerRequest_def Let_def same_sockets_def elim!: logRequest_accepts)
  qed (use assms in \<open>simp_all add: client_message_def\<close>)
  then show "server_buffer c' = server_buffer c" "client_buffer c' = client_buffer c" "same_sockets c c'"
    by simp_all
qed

lemma same_connection_sockets: "same_connection c c' \<Longrightarrow> same_sockets c c'"
  unfolding same_connection_def same_sockets_def
  by (metis connection.ext_inject connection.surjective connection.update_convs(2,9))

lemma unregisterRequest_other [simp]:
  "same_sockets c (unregisterRequest s c') = same_sockets c c'"
  "client_buffer (unregisterRequest s c') = client_buffer c'"
  by (simp_all add: same_sockets_def unregisterRequest_def)

lemma logError_other:
  "logError codes P c d n = Inr (t, k, c') \<Longrightarrow> client_buffer c' = client_buffer c \<and> same_sockets c c'"
  by (auto simp: logError_def Let_def elim!: parser_elims)

lemma logReply_other:
  assumes "logReply codes P c d n = Inr (P', c', t, k)"
  shows "client_buffer c' = client_buffer c \<and> same_sockets c c'"
proof -
  from assms obtain c1 s where "same_connection c c1" "c' = c1 \<or> c' = unregisterRequest s c1"
    by (rule logReply_accepts)
  with same_connectionD(5) same_connection_sockets show ?thesis
    by auto
qed

lemma server_message_other:
  assumes "server_message X11_server_handlers P c d n = Inr (P', c', t, k)"
  shows "client_buffer c' = client_buffer c" "same_sockets c c'"
proof -
  have "client_buffer c' = client_buffer c \<and> same_sockets c c'"
  proof (cases "conn_status c")
    case UNESTABLISHED
    then show ?thesis
      using assms
      by (auto simp: server_message_def same_sockets_def elim!: parser_elims dest!: logInitResponse_opens)
  next
    case OPEN
    with assms show ?thesis
      unfolding server_message_def event_handler_def error_handler_def
      by (auto elim!: parser_elims ifE dest!: logError_other logReply_other)
  qed (use assms in \<open>simp_all add: server_message_def\<close>)
  then show "client_buffer c' = client_buffer c" "same_sockets c c'"
    by simp_all
qed

interpretation client: transit_stream
  client_buffer "\<lambda>b c. c\<lparr>client_buffer := b\<rparr>" CLIENT_TO_SERVER client_frame
  "client_message X11_client_handlers" server_buffer
proof
  fix P d and c c1 :: connection
  assume "client_frame P c d = Inr c1"
  then show "server_buffer c1 = server_buffer c \<and> same_sockets c c1"
    by (auto simp: client_frame_def Let_def same_sockets_def elim!: parser_elims split: if_splits status.splits)
qed (use client_message_other in auto)

interpretation server: transit_stream
  server_buffer "\<lambda>b c. c\<lparr>server_buffer := b\<rparr>" SERVER_TO_CLIENT server_frame
  "server_message X11_server_handlers" client_buffer
proof
  fix P d and c c1 :: connection
  assume "server_frame P c d = Inr c1"
  then show "client_buffer c1 = client_buffer c \<and> same_sockets c c1"
    by (auto simp: server_frame_def Let_def same_sockets_def elim!: parser_elims split: if_splits status.splits)
qed (use server_message_other in auto)

text \<open>The loops as functions: more turns than bytes are never needed.\<close>

definition client_messages ::
  "parser \<Rightarrow> connection \<Rightarrow> (parser \<times> connection \<times> size_t \<times> string \<times> string option) res" where
  "client_messages P c =
     (case logClientMessages (2 * unat (unparsed (client_buffer c)) + 3) X11_client_handlers P c of
        None \<Rightarrow> Inl No_return | Some r \<Rightarrow> r)"

definition server_messages ::
  "parser \<Rightarrow> connection \<Rightarrow> (parser \<times> connection \<times> size_t \<times> string \<times> string option) res" where
  "server_messages P c =
     (case logServerMessages (2 * unat (unparsed (server_buffer c)) + 3) X11_server_handlers P c of
        None \<Rightarrow> Inl No_return | Some r \<Rightarrow> r)"

lemma client_messages_transit:
  assumes "client_messages P c = Inr (P', c', n, lg, err)" and "wf_buffer (client_buffer c)"
  shows "client.in_transit c c' \<and> (err = None \<longrightarrow> served (client_buffer c'))"
  using assms client.loop_transit
  by (simp add: client_messages_def logClientMessages_def client_turn_def split: option.splits)

lemma server_messages_transit:
  assumes "server_messages P c = Inr (P', c', n, lg, err)" and "wf_buffer (server_buffer c)"
  shows "server.in_transit c c' \<and> (err = None \<longrightarrow> served (server_buffer c'))"
  using assms server.loop_transit
  by (simp add: server_messages_def logServerMessages_def server_turn_def split: option.splits)

text \<open>The bytes of the client are passed on as they are.\<close>

lemma stream_loop_buf:
  assumes "\<And>P c d P' c' lg n. body P c d = Inr (Continue P' c' lg n) \<Longrightarrow> f c' = f c"
    and "\<And>P c d c' lg. body P c d = Inr (Break c' lg) \<Longrightarrow> f c' = f c"
  shows "stream_loop fuel buf_of body P c d tot out = Some (Inr (P', c', n, lg, err)) \<Longrightarrow> f c' = f c"
proof (induction fuel arbitrary: P c d tot out)
  case (Suc fuel)
  then show ?case
    using assms by (fastforce split: if_splits sum.splits turn.splits)
qed simp

lemma client_messages_buf:
  assumes "client_messages P c = Inr (P', c', n, lg, err)"
  shows "buf (client_buffer c') = buf (client_buffer c)"
proof -
  have frame: "buf (client_buffer c1) = buf (client_buffer c)" if "client_frame P c d = Inr c1" for P c c1 d
    using client.frame_place [OF that] by (metis socket_buffer.select_convs(1) socket_buffer.surjective socket_buffer.update_convs(5))
  have "buf (client_buffer c') = buf (client_buffer c)"
    if "client_turn X11_client_handlers P c d = Inr (Continue P' c' lg n)" for P c d P' c' lg n
  proof -
    from that obtain c1 c2 t b2 where "client_frame P c d = Inr c1"
      and "client_message X11_client_handlers P c1 d (messageSize (client_buffer c1)) = Inr (P', c2, t, n)"
      and "markMessageParsed (client_buffer c2) = Inr b2" "c' = c2\<lparr>client_buffer := b2\<rparr>"
      by (auto simp: client_turn_def stream_turn_def Let_def elim!: parser_elims split: if_splits)
    then show ?thesis
      using frame client_message_other(2) by (force simp: markMessageParsed_def)
  qed
  moreover have "buf (client_buffer c') = buf (client_buffer c)"
    if "client_turn X11_client_handlers P c d = Inr (Break c' lg)" for P c d c' lg
    using that frame
    by (auto simp: client_turn_def stream_turn_def Let_def elim!: parser_elims split: if_splits)
  moreover from assms have "stream_loop (2 * unat (unparsed (client_buffer c)) + 3) client_buffer
      (client_turn X11_client_handlers) P c (buffer_data (client_buffer c)) 0 [] =
      Some (Inr (P', c', n, lg, err))"
    by (simp add: client_messages_def logClientMessages_def split: option.splits)
  ultimately show ?thesis
    by (rule stream_loop_buf [where f = "\<lambda>c. buf (client_buffer c)" and body = "client_turn X11_client_handlers"])
qed

end
