(* ===== verification/Poll.thy ===== *)
theory Poll
  imports Prelude
begin

text \<open>
  The poll table of the proxy server (\<open>ProxyX11Server.hpp\<close>, \<open>ProxyX11Server.cpp\<close>): the array
  \<open>_pfds\<close> that is passed to \<open>poll(2)\<close>, and \<open>_pfds_i_by_fd\<close>, the \<open>std::map\<close> from a descriptor
  to its place in the array. The map is iterated over in the order of its keys, so it is a
  sorted association list here. The constants are those of Linux.
\<close>

unbundle bit_operations_syntax

subsection \<open>\<open>std::map\<close>\<close>

fun map_emplace :: "'k::linorder \<Rightarrow> 'v \<Rightarrow> ('k \<times> 'v) list \<Rightarrow> ('k \<times> 'v) list" where
  "map_emplace k v [] = [(k, v)]"
| "map_emplace k v ((k', v') # m) =
     (if k < k' then (k, v) # (k', v') # m
      else if k = k' then (k', v') # m
      else (k', v') # map_emplace k v m)"

definition map_erase :: "'k \<Rightarrow> ('k \<times> 'v) list \<Rightarrow> ('k \<times> 'v) list" where
  "map_erase k m = filter (\<lambda>(k', _). k' \<noteq> k) m"

lemma map_emplace_set:
  "k \<notin> fst ` set m \<Longrightarrow> set (map_emplace k v m) = insert (k, v) (set m)"
  by (induction k v m rule: map_emplace.induct) auto

lemma map_emplace_sorted:
  "sorted_wrt (<) (map fst m) \<Longrightarrow> k \<notin> fst ` set m \<Longrightarrow> sorted_wrt (<) (map fst (map_emplace k v m))"
  by (induction k v m rule: map_emplace.induct) (auto simp: map_emplace_set)

lemma map_erase_set: "set (map_erase k m) = {p \<in> set m. fst p \<noteq> k}"
  by (auto simp: map_erase_def)

lemma map_erase_sorted: "sorted_wrt (<) (map fst m) \<Longrightarrow> sorted_wrt (<) (map fst (map_erase k m))"
  by (induction m) (auto simp: map_erase_def)

lemma sorted_keys_distinct: "sorted_wrt (<) (map fst m) \<Longrightarrow> distinct (map fst (m :: ('k::linorder \<times> 'v) list))"
  by (induction m) auto

subsection \<open>\<open>pollfd\<close>\<close>

record pollfd =
  pfd_fd :: int
  pfd_events :: "16 word"
  pfd_revents :: "16 word"

definition POLLIN :: "16 word" where "POLLIN = 0x01"
definition POLLPRI :: "16 word" where "POLLPRI = 0x02"
definition POLLOUT :: "16 word" where "POLLOUT = 0x04"
definition POLLERR :: "16 word" where "POLLERR = 0x08"
definition POLLHUP :: "16 word" where "POLLHUP = 0x10"
definition POLLNVAL :: "16 word" where "POLLNVAL = 0x20"

definition POLLNONE :: "16 word" where
  "POLLNONE = 0"

definition pfd_at :: "pollfd list \<Rightarrow> nat \<Rightarrow> pollfd res" where
  \<comment> \<open>\<open>_pfds.at( i )\<close>\<close>
  "pfd_at pf i = (if i < length pf then Inr (pf ! i) else Inl Out_of_range)"

record poll_state =
  pfds :: "pollfd list"
  pfds_i_by_fd :: "(int \<times> nat) list"

definition pfd_of :: "poll_state \<Rightarrow> int \<Rightarrow> pollfd res" where
  \<comment> \<open>\<open>_pfds.at( _pfds_i_by_fd.at( fd ) )\<close>\<close>
  "pfd_of s fd = and_then (lookup_at (map_of (pfds_i_by_fd s)) fd) (pfd_at (pfds s))"

definition socketReadReady :: "poll_state \<Rightarrow> int \<Rightarrow> bool res" where
  "socketReadReady s fd = map_res (\<lambda>p. pfd_revents p AND POLLIN \<noteq> 0) (pfd_of s fd)"

definition socketWriteReady :: "poll_state \<Rightarrow> int \<Rightarrow> bool res" where
  "socketWriteReady s fd = map_res (\<lambda>p. pfd_revents p AND POLLOUT \<noteq> 0) (pfd_of s fd)"

definition socketPollError :: "poll_state \<Rightarrow> int \<Rightarrow> string option res" where
  "socketPollError s fd = map_res (\<lambda>p.
     let revents = pfd_revents p in
     if revents AND POLLERR \<noteq> 0 then Some ''error condition''
     else if revents AND POLLNVAL \<noteq> 0 then Some ''invalid fd (not open)''
     else if revents AND POLLPRI \<noteq> 0 then Some ''exceptional condition''
     else None) (pfd_of s fd)"

definition addSocketToPoll :: "int \<Rightarrow> 16 word \<Rightarrow> poll_state \<Rightarrow> poll_state res" where
  "addSocketToPoll fd events s =
     require (map_of (pfds_i_by_fd s) fd = None) (
     Inr (s\<lparr>pfds := pfds s @ [\<lparr>pfd_fd = fd, pfd_events = events, pfd_revents = 0\<rparr>],
            pfds_i_by_fd := map_emplace fd (length (pfds s)) (pfds_i_by_fd s)\<rparr>))"

text \<open>
  An assignment to \<open>.events\<close> through a reference into the array. The references are taken
  before any assignment, so a descriptor without an entry stops the function first.
\<close>

definition set_events :: "int \<Rightarrow> (16 word \<Rightarrow> 16 word) \<Rightarrow> poll_state \<Rightarrow> poll_state res" where
  "set_events fd f s =
     and_then (lookup_at (map_of (pfds_i_by_fd s)) fd) (\<lambda>i.
     map_res (\<lambda>p. s\<lparr>pfds := (pfds s)[i := p\<lparr>pfd_events := f (pfd_events p)\<rparr>]\<rparr>)
       (pfd_at (pfds s) i))"

text \<open>The loop that rebuilds the array after some descriptors were erased from the map.\<close>

fun zip_pfds :: "pollfd list \<Rightarrow> nat \<Rightarrow> (int \<times> nat) list \<Rightarrow> (pollfd list \<times> (int \<times> nat) list) res" where
  "zip_pfds pf i [] = Inr ([], [])"
| "zip_pfds pf i ((fd, pfds_i) # m) =
     and_then (pfd_at pf pfds_i) (\<lambda>pfd.
     require (pfd_fd pfd = fd) (
     map_res (\<lambda>(new_pfds, m'). (pfd # new_pfds, (fd, i) # m')) (zip_pfds pf (i + 1) m)))"

definition compact_pfds :: "poll_state \<Rightarrow> poll_state res" where
  "compact_pfds s =
     and_then (zip_pfds (pfds s) 0 (pfds_i_by_fd s)) (\<lambda>(new_pfds, m).
     require (m \<noteq> []) (
     Inr (s\<lparr>pfds := new_pfds, pfds_i_by_fd := m\<rparr>)))"

text \<open>What \<open>poll(2)\<close> does to the array: it overwrites \<open>revents\<close> of every entry.\<close>

definition polled :: "(int \<Rightarrow> 16 word) \<Rightarrow> poll_state \<Rightarrow> poll_state" where
  "polled revents_of s = s\<lparr>pfds := map (\<lambda>p. p\<lparr>pfd_revents := revents_of (pfd_fd p)\<rparr>) (pfds s)\<rparr>"

subsection \<open>The invariant of the table\<close>

text \<open>
  Every key of the map leads to the entry of its descriptor; and there is no entry that no key
  leads to, except between the erasing of keys and the rebuilding of the array.
\<close>

definition indexed :: "poll_state \<Rightarrow> bool" where
  "indexed s \<longleftrightarrow> sorted_wrt (<) (map fst (pfds_i_by_fd s)) \<and>
     (\<forall>(fd, i) \<in> set (pfds_i_by_fd s). i < length (pfds s) \<and> pfd_fd (pfds s ! i) = fd)"

definition descriptors :: "poll_state \<Rightarrow> int set" where
  "descriptors s = fst ` set (pfds_i_by_fd s)"

definition poll_table :: "poll_state \<Rightarrow> bool" where
  "poll_table s \<longleftrightarrow> indexed s \<and> distinct (map pfd_fd (pfds s)) \<and> pfd_fd ` set (pfds s) = descriptors s"

lemma indexed_lookup:
  assumes "indexed s" and "fd \<in> descriptors s"
  obtains i where "map_of (pfds_i_by_fd s) fd = Some i" "i < length (pfds s)" "pfd_fd (pfds s ! i) = fd"
proof -
  obtain i where i: "(fd, i) \<in> set (pfds_i_by_fd s)"
    using assms(2) by (auto simp: descriptors_def)
  then have "map_of (pfds_i_by_fd s) fd = Some i"
    using assms(1) by (auto simp: indexed_def intro!: map_of_is_SomeI sorted_keys_distinct)
  then show ?thesis
    using that assms(1) i by (auto simp: indexed_def)
qed

lemma not_polled: "map_of (pfds_i_by_fd s) fd = None \<longleftrightarrow> fd \<notin> descriptors s"
  by (simp add: descriptors_def map_of_eq_None_iff)

lemma pfd_of_found:
  assumes "indexed s" and "fd \<in> descriptors s"
  shows "\<exists>p. pfd_of s fd = Inr p \<and> p \<in> set (pfds s) \<and> pfd_fd p = fd"
  using indexed_lookup [OF assms] by (metis pfd_of_def pfd_at_def lookup_at_def and_then_simps(2) nth_mem option.simps(5))

lemma table_entry:
  assumes "poll_table s" and "p \<in> set (pfds s)"
  shows "pfd_of s (pfd_fd p) = Inr p"
proof -
  have "pfd_fd p \<in> descriptors s"
    using assms by (auto simp: poll_table_def)
  then obtain q where "pfd_of s (pfd_fd p) = Inr q" "q \<in> set (pfds s)" "pfd_fd q = pfd_fd p"
    using pfd_of_found assms(1) unfolding poll_table_def by blast
  then show ?thesis
    using assms by (metis poll_table_def distinct_map inj_onD)
qed

lemma addSocketToPoll_keeps:
  assumes "poll_table s" and "addSocketToPoll fd events s = Inr s'"
  shows "poll_table s'" and "descriptors s' = insert fd (descriptors s)" and "fd \<notin> descriptors s"
proof -
  let ?e = "\<lparr>pfd_fd = fd, pfd_events = events, pfd_revents = 0\<rparr>"
  from assms(2) show new: "fd \<notin> descriptors s"
    by (simp add: addSocketToPoll_def not_polled)
  have s': "s' = s\<lparr>pfds := pfds s @ [?e],
      pfds_i_by_fd := map_emplace fd (length (pfds s)) (pfds_i_by_fd s)\<rparr>"
    using assms(2) by (simp add: addSocketToPoll_def)
  note keys = new [unfolded descriptors_def]
  show ds: "descriptors s' = insert fd (descriptors s)"
    using keys by (simp add: s' descriptors_def map_emplace_set)
  have "sorted_wrt (<) (map fst (pfds_i_by_fd s'))"
    using assms(1) keys by (simp add: s' poll_table_def indexed_def map_emplace_sorted)
  then have "indexed s'"
    using assms(1) keys by (auto simp: s' poll_table_def indexed_def map_emplace_set nth_append)
  then show "poll_table s'"
    using assms(1) new ds by (auto simp: poll_table_def s')
qed

lemma set_events_keeps:
  assumes "poll_table s" and "fd \<in> descriptors s"
  shows "\<exists>s'. set_events fd f s = Inr s' \<and> poll_table s' \<and> descriptors s' = descriptors s \<and>
    (\<forall>fd'. pfd_of s' fd' = map_res (\<lambda>p. if fd' = fd then p\<lparr>pfd_events := f (pfd_events p)\<rparr> else p) (pfd_of s fd'))"
proof -
  obtain i where i: "map_of (pfds_i_by_fd s) fd = Some i" "i < length (pfds s)" "pfd_fd (pfds s ! i) = fd"
    using indexed_lookup [OF _ assms(2)] assms(1) unfolding poll_table_def by blast
  let ?p = "(pfds s ! i)\<lparr>pfd_events := f (pfd_events (pfds s ! i))\<rparr>"
  let ?s = "s\<lparr>pfds := (pfds s)[i := ?p]\<rparr>"
  have map: "map pfd_fd (pfds ?s) = map pfd_fd (pfds s)"
    using i(3) by (simp add: map_update) (metis list_update_id nth_map i(2))
  then have fds: "pfd_fd ` set (pfds ?s) = pfd_fd ` set (pfds s)"
    by (metis set_map)
  have "poll_table ?s"
    using assms(1) i map fds by (auto simp: poll_table_def indexed_def descriptors_def nth_list_update split: prod.splits)
  moreover have "pfd_of ?s fd' =
      map_res (\<lambda>p. if fd' = fd then p\<lparr>pfd_events := f (pfd_events p)\<rparr> else p) (pfd_of s fd')" for fd'
  proof (cases "map_of (pfds_i_by_fd s) fd'")
    case (Some j)
    then have "(fd', j) \<in> set (pfds_i_by_fd s)"
      by (rule map_of_SomeD)
    then have "j < length (pfds s)" "pfd_fd (pfds s ! j) = fd'"
      using assms(1) by (auto simp: poll_table_def indexed_def)
    with Some i show ?thesis
      by (auto simp: pfd_of_def pfd_at_def nth_list_update)
  qed (use i in \<open>auto simp: pfd_of_def lookup_at_def map_res_def and_then_def\<close>)
  ultimately show ?thesis
    using i by (auto simp: set_events_def pfd_at_def descriptors_def)
qed

lemma zip_pfds_ok:
  "\<forall>(fd, i) \<in> set m. i < length pf \<and> pfd_fd (pf ! i) = fd \<Longrightarrow>
   zip_pfds pf n m = Inr (map (\<lambda>(_, i). pf ! i) m, zip (map fst m) [n ..< n + length m])"
proof (induction pf n m rule: zip_pfds.induct)
  case (2 pf n fd i m)
  then show ?case
    by (simp add: pfd_at_def upt_rec [of n] del: upt_Suc)
qed simp

lemma compact_pfds_ok:
  assumes "indexed s" and "pfds_i_by_fd s \<noteq> []"
  shows "\<exists>s'. compact_pfds s = Inr s' \<and> poll_table s' \<and> descriptors s' = descriptors s"
proof -
  let ?m = "pfds_i_by_fd s"
  let ?pf = "map (\<lambda>(_, i). pfds s ! i) ?m" and ?ix = "zip (map fst ?m) [0 ..< length ?m]"
  let ?s = "s\<lparr>pfds := ?pf, pfds_i_by_fd := ?ix\<rparr>"
  have ok: "\<forall>(fd, i) \<in> set ?m. i < length (pfds s) \<and> pfd_fd (pfds s ! i) = fd"
    using assms(1) by (simp add: indexed_def)
  have c: "compact_pfds s = Inr ?s"
    using assms(2) zip_pfds_ok [OF ok, of 0] by (simp add: compact_pfds_def)
  have fds: "map pfd_fd ?pf = map fst ?m"
    using ok by (auto simp: split_beta)
  have keys: "map fst ?ix = map fst ?m"
    by (simp add: map_fst_zip)
  have "\<forall>(fd, i) \<in> set ?ix. i < length ?pf \<and> pfd_fd (?pf ! i) = fd"
  proof (clarsimp simp: set_zip)
    fix i assume "i < length ?m"
    then show "pfd_fd (case ?m ! i of (_, i) \<Rightarrow> pfds s ! i) = fst (?m ! i)"
      using arg_cong [OF fds, of "\<lambda>xs. xs ! i"] by simp
  qed
  then have "indexed ?s"
    using assms(1) keys by (simp add: indexed_def)
  moreover have "descriptors ?s = descriptors s"
    using arg_cong [OF keys, of set] by (simp add: descriptors_def del: set_zip flip: set_map)
  moreover have "pfd_fd ` set ?pf = descriptors s"
    using arg_cong [OF fds, of set] by (simp only: set_map descriptors_def)
  moreover have "distinct (map pfd_fd ?pf)"
    unfolding fds using assms(1) by (simp add: indexed_def sorted_keys_distinct)
  ultimately show ?thesis
    using c by (auto simp: poll_table_def)
qed

lemma erase_keeps:
  assumes "indexed s"
  shows "indexed (s\<lparr>pfds_i_by_fd := map_erase fd (pfds_i_by_fd s)\<rparr>)"
    and "descriptors (s\<lparr>pfds_i_by_fd := map_erase fd (pfds_i_by_fd s)\<rparr>) = descriptors s - {fd}"
  using assms by (auto simp: indexed_def descriptors_def map_erase_set intro: map_erase_sorted)

lemma polled_keeps:
  assumes "poll_table s"
  shows "poll_table (polled r s)" and "descriptors (polled r s) = descriptors s"
proof -
  show "descriptors (polled r s) = descriptors s"
    by (simp add: polled_def descriptors_def)
  then show "poll_table (polled r s)"
    using assms by (auto simp: poll_table_def indexed_def polled_def image_image o_def)
qed

lemma pfd_of_polled:
  assumes "poll_table s"
  shows "pfd_of (polled r s) fd = map_res (\<lambda>p. p\<lparr>pfd_revents := r fd\<rparr>) (pfd_of s fd)"
proof (cases "map_of (pfds_i_by_fd s) fd")
  case (Some j)
  then have "j < length (pfds s)" "pfd_fd (pfds s ! j) = fd"
    using assms map_of_SomeD [OF Some] by (auto simp: poll_table_def indexed_def)
  with Some show ?thesis
    by (simp add: pfd_of_def pfd_at_def polled_def)
qed (simp add: pfd_of_def lookup_at_def polled_def map_res_def and_then_def)

end
