(* ===== verification/Tables.thy ===== *)
theory Tables
  imports Sessions RequestFacts
begin

text \<open>
  What the handlers do to the tables of the parser: the opcodes by which a reply is matched
  with its request, the names that are stashed with a request and looked up with its reply, the
  entries of extensions among the major opcodes, and what is kept of them along any run of the
  program.
\<close>

subsection \<open>A request and its reply\<close>

lemma logRequest_line:
  assumes "logRequest codes P c d sz = Inr (P', c', line, k)"
  obtains mn request where
    "ordered_member P (byteswap c) extensions_Request_Prefix d ''minor_opcode'' = Inr mn"
    and "line = request_line P c ''Request '' (sequence c + 1)
      (fst (find_request codes P (unat (hd d)) mn)) (unat (hd d))
      (request_name (snd (find_request codes P (unat (hd d)) mn))) mn request"
    and "request_parse_func (snd (find_request codes P (unat (hd d)) mn)) P
      (fst (registerRequest (hd d) 0 c)) d sz = Inr (P', c', request)"
proof -
  from assms obtain mj mn request where
    mj: "ordered_member P (byteswap c) extensions_Request_Prefix d ''major_opcode'' = Inr mj"
    and mn: "ordered_member P (byteswap c) extensions_Request_Prefix d ''minor_opcode'' = Inr mn"
    and line: "line = request_line P c ''Request '' (snd (registerRequest (of_nat mj) 0 c))
      (fst (find_request codes P mj mn)) mj (request_name (snd (find_request codes P mj mn))) mn request"
    and parsed: "request_parse_func (snd (find_request codes P mj mn)) P
      (fst (registerRequest (of_nat mj) 0 c)) d sz = Inr (P', c', request)"
    by (auto simp: logRequest_def Let_def split_beta elim!: parser_elims)
  have "1 \<le> length d" "mj = ordered 1 (byteswap c) (host_val (little_endian P) (take 1 d))"
    using ordered_member_read [OF mj Prefix_fields(1)] by simp_all
  then have "mj = unat (hd d)" "of_nat mj = hd d"
    by (cases d; simp add: host_val_def)+
  moreover have "snd (registerRequest (of_nat mj) 0 c) = sequence c + 1"
    by (simp add: registerRequest_def Let_def)
  ultimately show ?thesis
    using that mn line parsed by metis
qed

lemma logReply_line:
  assumes "logReply codes P c d sz = Inr (P', c', line, k)"
    and "ordered_member P (byteswap c) Reply_Header d ''sequence_num'' = Inr seq"
    and "lookupRequest (of_nat seq) c = Inr opcodes"
  obtains reply where
    "line = request_line P c ''Reply to '' (of_nat seq)
      (fst (find_request codes P (unat (major opcodes)) (unat (minor opcodes)))) (unat (major opcodes))
      (request_name (snd (find_request codes P (unat (major opcodes)) (unat (minor opcodes)))))
      (unat (minor opcodes)) reply"
    and "k = ucast (bytes_parsed (reply :: parsing_outputs))"
proof -
  from assms(1) show ?thesis
    unfolding logReply_def Let_def split_beta assms(2)
    by (auto simp: assms(3) elim!: parser_elims split: option.split_asm dest: that)
qed

lemma find_request_stashed [simp]: "find_request codes (P\<lparr>stashed_strings := S\<rparr>) = find_request codes P"
  by (simp add: fun_eq_iff find_request_def)

lemma logRequest_opens:
  assumes "logRequest codes P c d sz = Inr (P', c', line, k)" and "open_requests c (sequence c + 1) = None"
  shows "lookupRequest (sequence c + 1) c' = Inr \<lparr>major = hd d, minor = 0\<rparr>"
    and "\<exists>S. P' = P\<lparr>stashed_strings := S\<rparr>" and "byteswap c' = byteswap c"
proof -
  from assms(1) obtain S where "c' = fst (registerRequest (hd d) 0 c)" "P' = P\<lparr>stashed_strings := S\<rparr>"
    by (elim logRequest_accepts)
  then show "lookupRequest (sequence c + 1) c' = Inr \<lparr>major = hd d, minor = 0\<rparr>"
    "\<exists>S. P' = P\<lparr>stashed_strings := S\<rparr>" "byteswap c' = byteswap c"
    using registerRequest_lookup [OF _ assms(2), of "hd d" 0]
    by (auto simp: registerRequest_def Let_def)
qed


text \<open>Two entries of the table whose parsers never return.\<close>

lemma never_parsed_traits:
  "core_requests codes POLYARC = Some (core_request POLYARC (reading parseRequest_PolyArc) None)"
  "core_requests codes CHANGEKEYBOARDCONTROL =
    Some (core_request CHANGEKEYBOARDCONTROL (reading parseRequest_ChangeKeyboardControl) None)"
  by (simp_all add: core_requests_def core_request_table_def request_opcodes_defs)

lemma never_parsed:
  assumes "unat (hd d) = POLYARC \<or> unat (hd d) = CHANGEKEYBOARDCONTROL"
    and "major_opcodes P (unat (hd d)) = Some None"
  shows "\<not> is_ok (logRequest codes P c d sz)"
proof
  assume "is_ok (logRequest codes P c d sz)"
  then obtain P' c' lg k where "logRequest codes P c d sz = Inr (P', c', lg, k)"
    by (metis is_okE prod.collapse)
  then obtain mn where
    "is_ok (request_parse_func (snd (find_request codes P (unat (hd d)) mn)) P
      (fst (registerRequest (hd d) 0 c)) d sz)"
    by (elim logRequest_line) (use is_okI in metis)
  with assms PolyArc_fails ChangeKeyboardControl_fails show False
    by (auto simp: find_request_def never_parsed_traits core_request_def reading_def)
qed

subsection \<open>Stashed names\<close>

lemma InternAtom_layouts:
  "BASE_ENCODING_SZ InternAtom = 8" "prefix_layout InternAtom = InternAtom_Prefix"
  "length_layout InternAtom = Request_Length" "encoding_layout InternAtom = Some InternAtom_Encoding"
  "big_length_layout InternAtom = Request_BigLength" "size_of InternAtom_Prefix = 2"
  "size_of Request_Length = 2" "size_of InternAtom_Encoding = 4"
  by (simp_all add: InternAtom_def request_layouts size_of_def)

lemma InternAtom_fixed_encoding:
  assumes "RequestFixedEncoding P InternAtom c d sz = Inr fe" and "\<not> big_length d"
  shows "encoding fe = drop 4 d" and "fe_bytes_parsed fe = 8"
proof -
  have "\<not> big_request fe"
    using RequestFixedEncoding_length(2) [OF assms(1)] common_layouts assms(2) by blast
  with assms(1) show "encoding fe = drop 4 d" "fe_bytes_parsed fe = 8"
    by (auto simp: RequestFixedEncoding_def Let_def InternAtom_layouts elim!: parser_elims)
qed

lemma InternAtom_stashes:
  assumes "parseRequest_InternAtom P c d sz = Inr (P1, out)" and "\<not> big_length d"
    and "ordered_member P (byteswap c) InternAtom_Encoding (drop 4 d) ''name_len'' = Inr name_len"
  shows "stashed_strings P1 (conn_id c, sequence c) = Some (string_view_at c (drop 8 d) name_len)"
proof -
  from assms(1) obtain fe where fe: "RequestFixedEncoding P InternAtom c d sz = Inr fe"
    unfolding parseRequest_InternAtom_def Let_def by (elim parser_elims)
  note at = InternAtom_fixed_encoding [OF this assms(2)]
  from assms(1) show ?thesis
    unfolding parseRequest_InternAtom_def Let_def fe
    by (elim parser_elims) (auto simp: at assms(3) stashString_def elim!: parser_elims)
qed

lemma InternAtom_interns:
  assumes "parseReply_InternAtom P c r sz = Inr (P', out)"
    and "ordered_member P (byteswap c) InternAtom_Reply_Encoding r ''header.sequence_num'' = Inr s"
    and "ordered_member P (byteswap c) InternAtom_Reply_Encoding r ''atom'' = Inr a" and "a \<noteq> ATOM_NONE"
    and "stashed_strings P (conn_id c, of_nat s) = Some v"
  obtains name where "read_view c v = Inr name" and "interned_atoms P' a = Some name"
    and "stashed_strings P' (conn_id c, of_nat s) = None"
  using assms unfolding parseReply_InternAtom_def Let_def
  by (elim parser_elims) (auto simp: unstashString_def elim!: parser_elims)


lemma view_of_request:
  assumes "d = drop k (buf (client_buffer c))" and "k + 8 \<le> length (buf (client_buffer c))"
    and "read_view c' (string_view_at c (drop 8 d) n) = Inr name"
  shows "length (buf (client_buffer c')) = length (buf (client_buffer c))"
    and "read_text (drop k (buf (client_buffer c'))) 8 n = Inr name"
  using assms by (auto simp: read_view_def string_view_at_def Let_def read_text_def read_bytes_def
      add.commute split: if_splits elim!: map_resE)

lemma atom_name_read:
  assumes request: "parseRequest_InternAtom P c d sz = Inr (P1, out)" "\<not> big_length d"
    and d: "d = drop k (buf (client_buffer c))" "k + 8 \<le> length (buf (client_buffer c))"
    and len: "ordered_member P (byteswap c) InternAtom_Encoding (drop 4 d) ''name_len'' = Inr name_len"
    and reply: "parseReply_InternAtom P2 c2 r rsz = Inr (P3, out')"
    and atom: "ordered_member P2 (byteswap c2) InternAtom_Reply_Encoding r ''atom'' = Inr a" "a \<noteq> ATOM_NONE"
    and seq: "ordered_member P2 (byteswap c2) InternAtom_Reply_Encoding r ''header.sequence_num'' = Inr s"
    and same: "conn_id c2 = conn_id c" "of_nat s = sequence c"
    and stash: "stashed_strings P2 (conn_id c, sequence c) = stashed_strings P1 (conn_id c, sequence c)"
  obtains name where "length (buf (client_buffer c2)) = length (buf (client_buffer c))"
    and "read_text (drop k (buf (client_buffer c2))) 8 name_len = Inr name"
    and "interned_atoms P3 a = Some name" and "stashed_strings P3 (conn_id c, sequence c) = None"
proof -
  have "stashed_strings P2 (conn_id c2, of_nat s) = Some (string_view_at c (drop 8 d) name_len)"
    unfolding same stash by (rule InternAtom_stashes [OF request len])
  from InternAtom_interns [OF reply seq atom this] obtain name where
    view: "read_view c2 (string_view_at c (drop 8 d) name_len) = Inr name"
    and "interned_atoms P3 a = Some name" "stashed_strings P3 (conn_id c, sequence c) = None"
    unfolding same by blast
  with that view_of_request [OF d view] show ?thesis
    by blast
qed

subsection \<open>Extensions that are denied\<close>

lemma QueryExtension_denied:
  assumes "parseReply_QueryExtension P c d sz = Inr (P', c', out)"
    and "ordered_member P (byteswap c) QueryExtension_Reply_Encoding d ''header.sequence_num'' = Inr s"
    and "stashed_strings P (conn_id c, of_nat s) = Some v" and "read_view c v = Inr name"
    and "extensionDenied (settings P) name"
  shows "c' = poke_server_buffer c d 8 0"
    and "P' = P\<lparr>stashed_strings := (stashed_strings P)((conn_id c, of_nat s) := None)\<rparr>"
proof -
  have off: "member_offset QueryExtension_Reply_Encoding ''present'' = Inr 8"
    by (simp add: member_offset_def reply_layouts embed_def)
  have present: "raw_member P'' QueryExtension_Reply_Encoding (d[8 := 0]) ''present'' = Inr x \<Longrightarrow> x = 0" for P'' x
    by (auto simp: raw_member_def load_member_def load_def read_bytes_def reply_layouts embed_def host_val_def
      take_Suc_conv_app_nth elim!: map_resE split: if_splits)
  from assms show "c' = poke_server_buffer c d 8 0"
    "P' = P\<lparr>stashed_strings := (stashed_strings P)((conn_id c, of_nat s) := None)\<rparr>"
    unfolding parseReply_QueryExtension_def Let_def
    by (auto simp: unstashString_def off dest: present elim!: parser_elims split: if_splits)
qed


subsection \<open>The table of opcodes along a run\<close>

definition known_opcodes :: "parser \<Rightarrow> bool" where
  \<comment> \<open>the core requests, and extensions that are implemented and not denied\<close>
  "known_opcodes P \<longleftrightarrow>
     (\<forall>code. core_requests core_events code \<noteq> None \<longrightarrow> major_opcodes P code = Some None) \<and>
     (\<forall>code. major_opcodes P code = Some None \<longrightarrow> core_requests core_events code \<noteq> None) \<and>
     (\<forall>code name. major_opcodes P code = Some (Some name) \<longrightarrow>
        name \<in> set implemented_extensions \<and> \<not> extensionDenied (settings P) name)"

lemma known_opcodes_new:
  "X11ProtocolParser_new fmt le inst log_ok st = Inr P \<Longrightarrow> known_opcodes P"
  by (auto simp: X11ProtocolParser_new_def known_opcodes_def elim!: parser_elims split: if_splits)

lemma known_opcodes_more:
  assumes "known_opcodes P" and "same_parser P P'" and "more_opcodes P P'"
  shows "known_opcodes P'"
proof -
  have settings: "settings P' = settings P"
    using assms(2) by (simp add: same_parser_def)
  from assms(3) consider "major_opcodes P' = major_opcodes P"
    | code name where "name \<in> set implemented_extensions" "\<not> extensionDenied (settings P) name"
      "major_opcodes P' = emplace code (Some name) (major_opcodes P)"
    unfolding more_opcodes_def by blast
  then show ?thesis
  proof cases
    case 1
    with assms(1) settings show ?thesis
      by (simp add: known_opcodes_def)
  next
    case 2
    with assms(1) settings show ?thesis
      by (auto simp: known_opcodes_def emplace_def split: option.splits if_splits)
  qed
qed

lemma same_first: "(P', c', t, k) = (P, c, lg, m) \<Longrightarrow> P' = P"
  by simp

lemma setup_keeps_parser:
  "logInitiation P c d n = Inr (P', c', t, k) \<Longrightarrow> P' = P"
  "logRefusal P c d n = Inr (P', c', t, k) \<Longrightarrow> P' = P"
  "logRequireFurtherAuthentication P c d n = Inr (P', c', t, k) \<Longrightarrow> P' = P"
  "logAcceptance P c d n = Inr (P', c', t, k) \<Longrightarrow> P' = P"
  unfolding logInitiation_def logRefusal_def logRequireFurtherAuthentication_def logAcceptance_def Let_def
  by (elim parser_elims ifE; (erule same_first | erule handler_result(3)))+

lemma logInitResponse_keeps_parser:
  "logInitResponse P c d n = Inr (P', c', t, k) \<Longrightarrow> P' = P"
  unfolding logInitResponse_def
  by (auto simp: with_status_def split: if_splits elim!: parser_elims dest: setup_keeps_parser)

lemma client_message_parser:
  assumes "client_message X11_client_handlers P c d n = Inr (P', c', t, k)"
  shows "same_parser P P'" and "major_opcodes P' = major_opcodes P"
proof -
  have "same_parser P P' \<and> major_opcodes P' = major_opcodes P"
    using assms unfolding client_message_def
    by (cases "conn_status c") (auto elim!: logRequest_accepts dest: setup_keeps_parser)
  then show "same_parser P P'" "major_opcodes P' = major_opcodes P"
    by simp_all
qed

lemma server_message_parser:
  assumes "server_message X11_server_handlers P c d n = Inr (P', c', t, k)"
  shows "same_parser P P'" and "more_opcodes P P'"
proof -
  have "same_parser P P' \<and> more_opcodes P P'"
    using assms unfolding server_message_def error_handler_def event_handler_def
    by (cases "conn_status c")
      (auto elim!: parser_elims ifE logReply_accepts dest: logInitResponse_keeps_parser)
  then show "same_parser P P'" "more_opcodes P P'"
    by simp_all
qed

text \<open>The parsers that a run of the program can reach, over any connections and any bytes.\<close>

inductive reached :: "settings \<Rightarrow> parser \<Rightarrow> bool" where
  start: "X11ProtocolParser_new fmt le False True st = Inr P \<Longrightarrow> reached st P"
| atoms: "reached st P \<Longrightarrow> importFetchedAtoms fetched P = Inr P' \<Longrightarrow> reached st P'"
| client: "reached st P \<Longrightarrow> client_message X11_client_handlers P c d n = Inr (P', c', t, k) \<Longrightarrow> reached st P'"
| server: "reached st P \<Longrightarrow> server_message X11_server_handlers P c d n = Inr (P', c', t, k) \<Longrightarrow> reached st P'"

lemma reached_known:
  "reached st P \<Longrightarrow> known_opcodes P \<and> settings P = st \<and> Whitespace2 0 (multiline st) = Inr (ROOT_WS P)"
proof (induction rule: reached.induct)
  case (start fmt le st P)
  then show ?case
    using known_opcodes_new [OF start] by (auto simp: X11ProtocolParser_new_def elim!: parser_elims)
next
  case (atoms st P fetched P')
  then show ?case
    by (auto simp: importFetchedAtoms_def known_opcodes_def elim!: parser_elims)
next
  case (client st P c d n P' c' t k)
  then show ?case
    using client_message_parser [OF client.hyps(2)] known_opcodes_more [of P P'] by (simp add: same_parser_def)
next
  case (server st P c d n P' c' t k)
  then show ?case
    using server_message_parser [OF server.hyps(2)] known_opcodes_more [of P P'] by (simp add: same_parser_def)
qed

end
