(* ===== verification/XAuth.thy ===== *)
theory XAuth
  imports Format
begin

text \<open>
  \<open>ProxyX11Server::_copyAuthentication\<close> (\<open>ProxyX11Server.cpp\<close>): the authorization file of
  \<open>xauth(1)\<close> is read into structs, the entry for the display of the X server is duplicated for the
  display of the proxy, and the entries are written back. The structs hold C arrays, so they are
  modelled with all their memory.

  The environment and the file system are arguments: the values of the two variables, the bytes of
  the file (\<open>None\<close> if it can not be opened), whether it can be copied and opened for writing; and
  \<open>vector_capacity n\<close>, the capacity of a \<open>std::vector\<close> after \<open>n\<close> insertions at its end.
\<close>

subsection \<open>Reading the file\<close>

definition NAME_MAX :: nat where "NAME_MAX = 255"
definition HOST_NAME_MAX :: nat where "HOST_NAME_MAX = 64"
definition AUTH_DATA_SZ :: nat where "AUTH_DATA_SZ = 16"
definition AUTH_NAME :: string where "AUTH_NAME = ''MIT-MAGIC-COOKIE-1''"

record xauth_info =
  family :: "16 word"
  family_nbo :: "byte list"
  addr_len :: "16 word"
  addr_len_nbo :: "byte list"
  display_len :: "16 word"
  display_len_nbo :: "byte list"
  name_len :: "16 word"
  name_len_nbo :: "byte list"
  data_len :: "16 word"
  data_len_nbo :: "byte list"
  xa_addr :: "byte list"
  xa_display :: "byte list"
  xa_name :: "byte list"
  xa_data :: "byte list"

definition xauth_zero :: xauth_info where
  "xauth_zero =
     \<lparr>family = 0, family_nbo = [0, 0], addr_len = 0, addr_len_nbo = [0, 0],
      display_len = 0, display_len_nbo = [0, 0], name_len = 0, name_len_nbo = [0, 0],
      data_len = 0, data_len_nbo = [0, 0],
      xa_addr = replicate HOST_NAME_MAX 0, xa_display = replicate HOST_NAME_MAX 0,
      xa_name = replicate NAME_MAX 0, xa_data = replicate AUTH_DATA_SZ 0\<rparr>"

text \<open>
  An input file stream: the bytes that are left, and whether the stream is good. A read that does
  not find enough bytes stores those that are there and sets the stream's error bits (end of file
  among them); a read from a stream that is not good stores nothing.
\<close>

type_synonym ifstream = "byte list \<times> bool"

fun ifs_read :: "nat \<Rightarrow> byte list \<Rightarrow> ifstream \<Rightarrow> byte list \<times> ifstream" where
  "ifs_read n mem (bs, False) = (mem, (bs, False))"
| "ifs_read n mem (bs, True) =
     (take n bs @ drop (length (take n bs)) mem, (drop n bs, n \<le> length bs))"

definition ntohs :: "byte list \<Rightarrow> 16 word" where
  "ntohs bs = of_nat (256 * unat (bs ! 0) + unat (bs ! 1))"

definition htons :: "16 word \<Rightarrow> byte list" where
  "htons n = [of_nat (unat n div 256), of_nat (unat n)]"

definition read_field ::
  "nat \<Rightarrow> byte list \<Rightarrow> ifstream \<Rightarrow> (byte list \<times> 16 word \<times> byte list \<times> ifstream) res" where
  \<comment> \<open>a length, and as many bytes into an array that has to be larger; a NUL behind them\<close>
  "read_field array_sz mem ifs =
     (let (nbo, ifs1) = ifs_read 2 [0, 0] ifs; len = ntohs nbo in
      require (unat len < array_sz) (
      let (mem1, ifs2) = ifs_read (unat len) mem ifs1
      in Inr (nbo, len, mem1[unat len := 0], ifs2)))"

definition read_xauth :: "ifstream \<Rightarrow> (xauth_info \<times> ifstream) res" where
  "read_xauth ifs =
     (let (fam, ifs1) = ifs_read 2 [0, 0] ifs in
      and_then (read_field HOST_NAME_MAX (xa_addr xauth_zero) ifs1) (\<lambda>(an, al, a, ifs2).
      and_then (read_field HOST_NAME_MAX (xa_display xauth_zero) ifs2) (\<lambda>(dn, dl, d, ifs3).
      and_then (read_field NAME_MAX (xa_name xauth_zero) ifs3) (\<lambda>(nn, nl, n, ifs4).
      let (tn, ifs5) = ifs_read 2 [0, 0] ifs4; tl = ntohs tn in
      require (unat tl = AUTH_DATA_SZ) (
      let (t, ifs6) = ifs_read (unat tl) (xa_data xauth_zero) ifs5
      in Inr (\<lparr>family = ntohs fam, family_nbo = fam, addr_len = al, addr_len_nbo = an,
               display_len = dl, display_len_nbo = dn, name_len = nl, name_len_nbo = nn,
               data_len = tl, data_len_nbo = tn,
               xa_addr = a, xa_display = d, xa_name = n, xa_data = t\<rparr>, ifs6))))))"

text \<open>
  The loop \<open>for ( ; !ifs.eof(); ifs.peek() )\<close>: at least one entry is read, and \<open>peek\<close> finds the
  end of the file if no byte is left. Each turn that goes on has read 10 bytes or more.
\<close>

lemma ifs_read_shrinks:
  "ifs_read n mem ifs = (mem', ifs') \<Longrightarrow> length (fst ifs') \<le> length (fst ifs)"
  "ifs_read n mem ifs = (mem', (bs', True)) \<Longrightarrow> length bs' + n = length (fst ifs) \<and> snd ifs"
  by (cases ifs; cases "snd ifs"; auto)+

lemma read_field_shrinks:
  assumes "read_field array_sz mem ifs = Inr (nbo, len, mem', (bs', True))"
  shows "length bs' \<le> length (fst ifs)" "snd ifs"
proof -
  obtain nbo1 ifs1 where one: "ifs_read 2 [0, 0] ifs = (nbo1, ifs1)"
    by (cases "ifs_read 2 [0, 0] ifs")
  obtain mem2 ifs2 where two: "ifs_read (unat (ntohs nbo1)) mem ifs1 = (mem2, ifs2)"
    by (cases "ifs_read (unat (ntohs nbo1)) mem ifs1")
  have "ifs2 = (bs', True)"
    using assms by (simp add: read_field_def one two Let_def)
  with ifs_read_shrinks(2) [of "unat (ntohs nbo1)" mem ifs1 mem2 bs'] two
  have "length bs' \<le> length (fst ifs1)" "snd ifs1"
    by auto
  with ifs_read_shrinks(2) [of 2 "[0, 0]" ifs nbo1 "fst ifs1"] one
  show "length bs' \<le> length (fst ifs)" "snd ifs"
    by (cases ifs1; auto)+
qed

lemma read_xauth_shrinks:
  assumes "read_xauth (bs, True) = Inr (a, (bs', True))"
  shows "length bs' < length bs"
proof -
  obtain fam ifs1 where one: "ifs_read 2 [0, 0] (bs, True) = (fam, ifs1)"
    by (cases "ifs_read 2 [0, 0] (bs, True)")
  from assms obtain an al a1 ifs2 dn dl d ifs3 nn nl n ifs4 tn ifs5 t
    where r: "read_field HOST_NAME_MAX (xa_addr xauth_zero) ifs1 = Inr (an, al, a1, ifs2)"
      "read_field HOST_NAME_MAX (xa_display xauth_zero) ifs2 = Inr (dn, dl, d, ifs3)"
      "read_field NAME_MAX (xa_name xauth_zero) ifs3 = Inr (nn, nl, n, ifs4)"
      "ifs_read 2 [0, 0] ifs4 = (tn, ifs5)" "ifs_read (unat (ntohs tn)) (xa_data xauth_zero) ifs5 = (t, (bs', True))"
    unfolding read_xauth_def one Let_def split_beta
    by (auto elim!: and_thenE simp: require_def prod_eq_iff split: if_splits)
  have "length bs' \<le> length (fst ifs5)" "snd ifs5"
    using ifs_read_shrinks(2) [OF r(5)] by auto
  then have "length bs' + 2 \<le> length (fst ifs4)" "snd ifs4"
    using ifs_read_shrinks(2) [of 2 "[0, 0]" ifs4 tn "fst ifs5"] r(4) by (cases ifs5; auto)+
  then have "length bs' + 2 \<le> length (fst ifs3)" "snd ifs3"
    using read_field_shrinks [of _ _ ifs3 nn nl n "fst ifs4"] r(3) by (cases ifs4; force)+
  then have "length bs' + 2 \<le> length (fst ifs2)" "snd ifs2"
    using read_field_shrinks [of _ _ ifs2 dn dl d "fst ifs3"] r(2) by (cases ifs3; force)+
  then have "length bs' + 2 \<le> length (fst ifs1)" "snd ifs1"
    using read_field_shrinks [of _ _ ifs1 an al a1 "fst ifs2"] r(1) by (cases ifs2; force)+
  with ifs_read_shrinks(1) [OF one] show ?thesis
    by simp
qed

function read_entries :: "byte list \<Rightarrow> xauth_info list res" where
  "read_entries bs =
     (case read_xauth (bs, True) of
        Inl e \<Rightarrow> Inl e
      | Inr (a, (bs', good)) \<Rightarrow>
          if \<not> good \<or> bs' = [] then Inr [a]
          else map_res ((#) a) (read_entries bs'))"
  by pat_completeness auto
termination
  by (relation "measure length") (auto dest: read_xauth_shrinks)

declare read_entries.simps [simp del]

subsection \<open>Editing the entries\<close>

definition c_string :: "byte list \<Rightarrow> string" where
  "c_string mem = map (\<lambda>b. char_of (unat b)) (takeWhile (\<lambda>b. b \<noteq> 0) mem)"

definition c_bytes :: "string \<Rightarrow> byte list" where
  "c_bytes s = map (\<lambda>c. of_nat (of_char c)) s"

text \<open>\<open>strtol( s, nullptr, 10 )\<close>, with a \<open>long\<close> of 64 bits.\<close>

definition is_space :: "char \<Rightarrow> bool" where
  "is_space c \<longleftrightarrow> (of_char c :: nat) = 32 \<or> 9 \<le> (of_char c :: nat) \<and> (of_char c :: nat) \<le> 13"

definition is_digit :: "char \<Rightarrow> bool" where
  "is_digit c \<longleftrightarrow> 48 \<le> (of_char c :: nat) \<and> (of_char c :: nat) \<le> 57"

fun digits_value :: "int \<Rightarrow> string \<Rightarrow> int" where
  "digits_value v [] = v"
| "digits_value v (c # s) = (if is_digit c then digits_value (10 * v + (int (of_char c) - 48)) s else v)"

definition strtol :: "string \<Rightarrow> int" where
  "strtol s =
     (let s1 = dropWhile is_space s;
          sign = (case s1 of [] \<Rightarrow> None | c # _ \<Rightarrow> if c \<in> {CHR ''-'', CHR ''+''} then Some c else None);
          v = (case sign of
                 None \<Rightarrow> digits_value 0 s1
               | Some c \<Rightarrow> (if c = CHR ''-'' then -1 else 1) * digits_value 0 (tl s1))
      in max (- (2 ^ 63)) (min (2 ^ 63 - 1) v))"

definition display_number :: "xauth_info \<Rightarrow> int" where
  "display_number a = strtol (c_string (xa_display a))"

fun find_auths ::
  "int \<Rightarrow> int \<Rightarrow> nat \<Rightarrow> xauth_info list \<Rightarrow> nat option \<Rightarrow> nat option \<Rightarrow> (nat option \<times> nat option) res"
where
  "find_auths in_display out_display i [] in_auth out_auth = Inr (in_auth, out_auth)"
| "find_auths in_display out_display i (a # as) in_auth out_auth =
     and_then (if display_number a = in_display
               then require (c_string (xa_name a) = AUTH_NAME) (
                    require (unat (data_len a) = AUTH_DATA_SZ) (Inr (Some i)))
               else Inr in_auth) (\<lambda>in_auth.
     and_then (if display_number a = out_display
               then if c_string (xa_name a) \<noteq> AUTH_NAME then Inl (Exit 1)
                    else require (unat (data_len a) = AUTH_DATA_SZ) (Inr (Some i))
               else Inr out_auth) (\<lambda>out_auth.
     if in_auth \<noteq> None \<and> out_auth \<noteq> None then Inr (in_auth, out_auth)
     else find_auths in_display out_display (i + 1) as in_auth out_auth))"

definition dup_auth :: "fmt_lib \<Rightarrow> int \<Rightarrow> xauth_info \<Rightarrow> xauth_info" where
  "dup_auth F in_display a =
     (let display_str = c_bytes (fmt_dec F in_display); n = length display_str in
      a\<lparr>display_len := of_nat n, display_len_nbo := htons (of_nat n),
        xa_display := (display_str @ drop n (xa_display a))[n := 0]\<rparr>)"

text \<open>
  When the new entry is appended and the vector has to grow, its elements are moved: the pointer
  \<open>out_display_auth\<close> then points to memory that is freed, and \<open>memcpy\<close> reads from there.
\<close>

definition edit_entries ::
  "fmt_lib \<Rightarrow> (nat \<Rightarrow> nat) \<Rightarrow> int \<Rightarrow> int \<Rightarrow> xauth_info list \<Rightarrow> (xauth_info list \<times> byte list) res"
where
  "edit_entries F vector_capacity in_display out_display entries =
     and_then (find_auths in_display out_display 0 entries None None) (\<lambda>(in_auth, out_auth).
     case out_auth of
       None \<Rightarrow> Inl (Exit 1)
     | Some j \<Rightarrow>
         let dup = dup_auth F in_display (entries ! j) in
         (case in_auth of
            Some i \<Rightarrow> let entries' = entries[i := dup] in Inr (entries', xa_data (entries' ! j))
          | None \<Rightarrow>
              if vector_capacity (length entries) = length entries then Inl Out_of_bounds
              else Inr (entries @ [dup], xa_data (entries ! j))))"

subsection \<open>Writing them back\<close>

definition write_xauth :: "xauth_info \<Rightarrow> byte list" where
  "write_xauth a =
     family_nbo a @
     addr_len_nbo a @ take (unat (addr_len a)) (xa_addr a) @
     display_len_nbo a @ take (unat (display_len a)) (xa_display a) @
     name_len_nbo a @ take (unat (name_len a)) (xa_name a) @
     data_len_nbo a @ take (unat (data_len a)) (xa_data a)"

record auth_environment =
  env_XAUTHORITY :: "string option"
  env_HOME :: "string option"
  auth_file :: "string \<Rightarrow> byte list option"
  copy_file :: "string \<Rightarrow> string \<Rightarrow> bool"
  can_write :: "string \<Rightarrow> bool"

record auth_result =
  xauth_path :: string
  xauth_bup_path :: string
  auth_written :: "byte list"
  auth_data :: "byte list"

definition auth_path :: "auth_environment \<Rightarrow> string res" where
  "auth_path E =
     (case env_XAUTHORITY E of
        Some v \<Rightarrow> Inr v
      | None \<Rightarrow>
          (case env_HOME E of None \<Rightarrow> Inl (Exit 1) | Some h \<Rightarrow> Inr (h @ ''/'' @ ''.Xauthority'')))"

definition edited_entries ::
  "fmt_lib \<Rightarrow> (nat \<Rightarrow> nat) \<Rightarrow> auth_environment \<Rightarrow> int \<Rightarrow> int \<Rightarrow>
   (string \<times> xauth_info list \<times> byte list) res"
where
  \<comment> \<open>the part that reads and edits: the path, what is to be written there, and the cookie\<close>
  "edited_entries F vector_capacity E in_display out_display =
     and_then (auth_path E) (\<lambda>path.
     case auth_file E path of
       None \<Rightarrow> Inl (Exit 1)
     | Some bs \<Rightarrow>
         and_then (read_entries bs) (\<lambda>entries.
         map_res (\<lambda>(entries', cookie). (path, entries', cookie))
           (edit_entries F vector_capacity in_display out_display entries)))"

definition backup_path :: "string \<Rightarrow> string" where
  "backup_path path = path @ ''.bup''"

definition copyAuthentication ::
  "fmt_lib \<Rightarrow> (nat \<Rightarrow> nat) \<Rightarrow> auth_environment \<Rightarrow> int \<Rightarrow> int \<Rightarrow> auth_result res"
where
  "copyAuthentication F vector_capacity E in_display out_display =
     and_then (edited_entries F vector_capacity E in_display out_display) (\<lambda>(path, entries', cookie).
     if \<not> copy_file E path (backup_path path) then Inl System_error
     else if \<not> can_write E path then Inl (Exit 1)
     else Inr \<lparr>xauth_path = path, xauth_bup_path = backup_path path,
               auth_written = concat (map write_xauth entries'), auth_data = cookie\<rparr>)"

subsection \<open>The file as a list of entries\<close>

text \<open>What the file contains, as \<open>xauth(1)\<close> documents it, and its encoding.\<close>

record auth_entry =
  entry_family :: "16 word"
  entry_addr :: "byte list"
  entry_display :: "byte list"
  entry_name :: "byte list"
  entry_data :: "byte list"

definition encode_bytes :: "byte list \<Rightarrow> byte list" where
  "encode_bytes bs = htons (of_nat (length bs)) @ bs"

definition encode_entry :: "auth_entry \<Rightarrow> byte list" where
  "encode_entry e = htons (entry_family e) @ encode_bytes (entry_addr e) @
     encode_bytes (entry_display e) @ encode_bytes (entry_name e) @ encode_bytes (entry_data e)"

definition entry_fits :: "auth_entry \<Rightarrow> bool" where
  \<comment> \<open>the lengths that the arrays of the program can take\<close>
  "entry_fits e \<longleftrightarrow> length (entry_addr e) < HOST_NAME_MAX \<and> length (entry_display e) < HOST_NAME_MAX \<and>
     length (entry_name e) < NAME_MAX \<and> length (entry_data e) = AUTH_DATA_SZ"

definition in_array :: "nat \<Rightarrow> byte list \<Rightarrow> byte list" where
  "in_array n bs = bs @ replicate (n - length bs) 0"

definition xauth_of :: "auth_entry \<Rightarrow> xauth_info" where
  "xauth_of e =
     \<lparr>family = entry_family e, family_nbo = htons (entry_family e),
      addr_len = of_nat (length (entry_addr e)), addr_len_nbo = htons (of_nat (length (entry_addr e))),
      display_len = of_nat (length (entry_display e)), display_len_nbo = htons (of_nat (length (entry_display e))),
      name_len = of_nat (length (entry_name e)), name_len_nbo = htons (of_nat (length (entry_name e))),
      data_len = of_nat (length (entry_data e)), data_len_nbo = htons (of_nat (length (entry_data e))),
      xa_addr = in_array HOST_NAME_MAX (entry_addr e), xa_display = in_array HOST_NAME_MAX (entry_display e),
      xa_name = in_array NAME_MAX (entry_name e), xa_data = entry_data e\<rparr>"

lemma length_htons [simp]: "length (htons n) = 2"
  by (simp add: htons_def)

lemma ntohs_htons [simp]: "ntohs (htons n) = n"
proof -
  have "unat n < 65536"
    using unsigned_less [where 'a = nat, of n] by simp
  then have "unat (of_nat (unat n div 256) :: byte) = unat n div 256"
    by (simp add: unat_of_nat take_bit_nat_def)
  moreover have "unat (of_nat (unat n) :: byte) = unat n mod 256"
    by (simp add: unsigned_ucast_eq take_bit_eq_mod)
  ultimately have "256 * unat (htons n ! 0) + unat (htons n ! 1) = unat n"
    by (simp only: htons_def nth_Cons_0 One_nat_def nth_Cons_Suc mult_div_mod_eq)
  then show ?thesis
    by (simp only: ntohs_def) simp
qed

lemma ifs_read_exact: "length bs = n \<Longrightarrow> ifs_read n mem (bs @ rest, True) = (bs @ drop n mem, (rest, True))"
  by simp

lemma ifs_read_short: "ifs_read 2 [0, 0] (htons n @ rest, True) = (htons n, (rest, True))"
  by (simp add: htons_def)

lemma read_field_encoded:
  assumes "length bs < n" and "n \<le> 255"
  shows "read_field n (replicate n 0) (encode_bytes bs @ rest, True) =
    Inr (htons (of_nat (length bs)), of_nat (length bs), in_array n bs, (rest, True))"
proof -
  have u: "unat (of_nat (length bs) :: 16 word) = length bs"
    using assms by (simp add: unat_of_nat take_bit_nat_def)
  have "ifs_read (length bs) (replicate n 0) (bs @ rest, True) = (in_array n bs, (rest, True))"
    by (simp add: in_array_def)
  moreover have "(in_array n bs)[length bs := 0] = in_array n bs"
    using assms by (cases "n - length bs") (simp_all add: in_array_def list_update_append)
  ultimately show ?thesis
    using assms u by (simp add: read_field_def encode_bytes_def ifs_read_short Let_def del: ifs_read.simps)
qed

lemma read_xauth_encoded:
  assumes "entry_fits e"
  shows "read_xauth (encode_entry e @ rest, True) = Inr (xauth_of e, (rest, True))"
proof -
  have data: "length (entry_data e) = AUTH_DATA_SZ"
    using assms by (simp add: entry_fits_def)
  then have u: "unat (of_nat (length (entry_data e)) :: 16 word) = AUTH_DATA_SZ"
    by (simp add: AUTH_DATA_SZ_def)
  have "ifs_read AUTH_DATA_SZ (replicate AUTH_DATA_SZ 0) (entry_data e @ rest, True) = (entry_data e, (rest, True))"
    using data by simp
  with assms data u show ?thesis
    unfolding read_xauth_def encode_entry_def append_assoc ifs_read_short
    by (simp add: xauth_zero_def entry_fits_def HOST_NAME_MAX_def NAME_MAX_def read_field_encoded
      encode_bytes_def [of "entry_data e"] ifs_read_short Let_def xauth_of_def del: ifs_read.simps)
qed

lemma encode_entry_Nil [simp]: "encode_entry e \<noteq> []"
  by (simp add: encode_entry_def htons_def)

lemma read_entries_encoded:
  assumes "list_all entry_fits es" and "es \<noteq> []"
  shows "read_entries (concat (map encode_entry es)) = Inr (map xauth_of es)"
  using assms
proof (induction es)
  case (Cons e es)
  then show ?case
    using read_xauth_encoded [of e "concat (map encode_entry es)"]
    by (cases es) (simp_all add: read_entries.simps [of "encode_entry e @ _"] read_entries.simps [of "encode_entry e"]
      read_xauth_encoded [of e "[]", simplified])
qed simp

lemma write_xauth_of:
  assumes "entry_fits e"
  shows "write_xauth (xauth_of e) = encode_entry e"
proof -
  have "unat (of_nat (length bs) :: 16 word) = length bs" if "length bs < 256" for bs :: "byte list"
    using that by (simp add: unat_of_nat take_bit_nat_def)
  then show ?thesis
    using assms by (simp add: entry_fits_def HOST_NAME_MAX_def NAME_MAX_def AUTH_DATA_SZ_def write_xauth_def
      xauth_of_def encode_entry_def encode_bytes_def in_array_def)
qed

subsection \<open>Numbers\<close>

text \<open>What is documented of \<open>{}\<close> for a number that is not negative: its decimal digits.\<close>

fun decimal :: "nat \<Rightarrow> string" where
  "decimal n = (if n < 10 then [char_of (48 + n)] else decimal (n div 10) @ [char_of (48 + n mod 10)])"

declare decimal.simps [simp del]

definition fmt_prints_decimal :: "fmt_lib \<Rightarrow> bool" where
  "fmt_prints_decimal F \<longleftrightarrow> (\<forall>n. fmt_dec F (int n) = decimal n)"

lemma digits_value_append:
  "list_all is_digit s \<Longrightarrow> digits_value v (s @ s') = digits_value (digits_value v s) s'"
  by (induction s arbitrary: v) simp_all

lemma of_char_digit: "d < 10 \<Longrightarrow> (of_char (char_of (48 + d :: nat)) :: nat) = 48 + d"
  by simp

lemma is_digit_char: "d < 10 \<Longrightarrow> is_digit (char_of (48 + d :: nat))"
  by (simp add: is_digit_def)

lemma decimal_digits: "list_all is_digit (decimal n) \<and> digits_value 0 (decimal n) = int n \<and> decimal n \<noteq> []"
proof (induction n rule: decimal.induct)
  case (1 n)
  have one: "digits_value v [char_of (48 + d :: nat)] = 10 * v + int d" if "d < 10" for d v
    using that is_digit_char [OF that] of_char_digit [OF that] by simp
  show ?case
  proof (cases "n < 10")
    case True
    then show ?thesis
      using one [OF True, of 0] is_digit_char [OF True] by (simp add: decimal.simps [of n])
  next
    case False
    have "10 * int (n div 10) + int (n mod 10) = int n"
      by (simp add: zdiv_int zmod_int)
    then show ?thesis
      using 1 [OF False] one [of "n mod 10"] is_digit_char [of "n mod 10"] False
      by (simp add: decimal.simps [of n] digits_value_append)
  qed
qed

lemma digit_plain: "is_digit c \<Longrightarrow> \<not> is_space c \<and> c \<noteq> CHR ''-'' \<and> c \<noteq> CHR ''+'' \<and> (of_char c :: nat) \<noteq> 0"
  by (auto simp: is_digit_def is_space_def)

lemma strtol_decimal: "n < 2 ^ 63 \<Longrightarrow> strtol (decimal n) = int n"
proof -
  assume n: "n < 2 ^ 63"
  obtain c s where c: "decimal n = c # s"
    using decimal_digits [of n] by (cases "decimal n") auto
  then have "is_digit c"
    using decimal_digits [of n] by auto
  from digit_plain [OF this] have "strtol (decimal n) = max (- (2 ^ 63)) (min (2 ^ 63 - 1) (digits_value 0 (decimal n)))"
    unfolding c strtol_def by simp
  then show ?thesis
    using decimal_digits [of n] n by simp
qed

lemma length_decimal: "n < 10 ^ k \<Longrightarrow> 0 < k \<Longrightarrow> length (decimal n) \<le> k"
proof (induction k arbitrary: n)
  case (Suc k)
  show ?case
  proof (cases "n < 10")
    case False
    then have "0 < k"
      using Suc.prems(1) by (cases k) simp_all
    moreover have "n div 10 < 10 ^ k"
      using Suc.prems(1) by (simp add: less_mult_imp_div_less mult.commute)
    ultimately show ?thesis
      using Suc.IH [of "n div 10"] False by (simp add: decimal.simps [of n])
  qed (simp add: decimal.simps [of n])
qed simp

subsection \<open>C strings\<close>

lemma c_string_in_array: "c_string (in_array n bs) = c_string bs"
proof -
  have "takeWhile (\<lambda>b. b \<noteq> 0) (bs @ replicate k 0) = takeWhile (\<lambda>b. b \<noteq> (0 :: byte)) bs" for k
    by (induction bs) (simp_all add: takeWhile_eq_Nil_iff)
  then show ?thesis
    by (simp add: c_string_def in_array_def)
qed

lemma c_string_bytes:
  assumes "\<forall>c \<in> set s. (of_char c :: nat) \<noteq> 0"
  shows "c_string (c_bytes s) = s" and "c_string (c_bytes s @ 0 # bs) = s"
proof -
  have byte: "unat (of_nat (of_char c) :: byte) = of_char c" for c
    using of_char_of [where 'a = nat] by (simp add: unat_of_nat take_bit_nat_def of_char_mod_256)
  have all: "\<forall>b \<in> set (c_bytes s). b \<noteq> 0"
  proof (clarsimp simp: c_bytes_def)
    fix c assume c: "c \<in> set s" "(of_nat (of_char c) :: byte) = 0"
    then have "(of_char c :: nat) = 0"
      using byte [of c] by (simp only: c(2) unat_0)
    with assms c(1) show False
      by auto
  qed
  have map: "map (\<lambda>b. char_of (unat b)) (c_bytes s) = s"
    by (simp add: c_bytes_def byte o_def)
  have "takeWhile (\<lambda>b. b \<noteq> 0) (c_bytes s) = c_bytes s" "takeWhile (\<lambda>b. b \<noteq> 0) (c_bytes s @ 0 # bs) = c_bytes s"
    using all by (simp_all add: takeWhile_eq_all_conv takeWhile_append2)
  with map show "c_string (c_bytes s) = s" "c_string (c_bytes s @ 0 # bs) = s"
    by (simp_all only: c_string_def)
qed

lemma decimal_string: "c_string (c_bytes (decimal n)) = decimal n" "c_string (c_bytes (decimal n) @ 0 # bs) = decimal n"
  using decimal_digits [of n] digit_plain by (intro c_string_bytes; auto simp: list_all_iff)+

subsection \<open>Which entries are found\<close>

fun out_index :: "int \<Rightarrow> nat \<Rightarrow> xauth_info list \<Rightarrow> nat option \<Rightarrow> nat option" where
  "out_index out k [] j = j"
| "out_index out k (a # as) j = out_index out (k + 1) as (if display_number a = out then Some k else j)"

definition usable :: "xauth_info \<Rightarrow> bool" where
  "usable a \<longleftrightarrow> c_string (xa_name a) = AUTH_NAME \<and> unat (data_len a) = AUTH_DATA_SZ"

lemma find_auths_prefix:
  assumes "\<forall>a \<in> set pre. display_number a \<noteq> in_d \<and> (display_number a = out_d \<longrightarrow> usable a)"
  shows "find_auths in_d out_d k (pre @ rest) None j =
    find_auths in_d out_d (k + length pre) rest None (out_index out_d k pre j)"
  using assms
  by (induction pre arbitrary: k j) (auto simp: usable_def)

lemma out_index_none: "\<forall>a \<in> set as. display_number a \<noteq> out_d \<Longrightarrow> out_index out_d k as j = j"
  by (induction as arbitrary: k) simp_all

lemma out_index_last:
  assumes "display_number a = out_d" and "\<forall>x \<in> set post. display_number x \<noteq> out_d"
  shows "out_index out_d k (pre @ a # post) j = Some (k + length pre)"
  using assms by (induction pre arbitrary: k j) (simp_all add: out_index_none)

lemma find_auths_last:
  assumes "\<forall>a \<in> set (pre @ e # post). display_number a \<noteq> in_d \<and> (display_number a = out_d \<longrightarrow> usable a)"
    and "display_number e = out_d" and "\<forall>x \<in> set post. display_number x \<noteq> out_d"
  shows "find_auths in_d out_d 0 (pre @ e # post) None None = Inr (None, Some (length pre))"
    and "display_number d = in_d \<Longrightarrow> usable d \<Longrightarrow> in_d \<noteq> out_d \<Longrightarrow>
      find_auths in_d out_d 0 ((pre @ e # post) @ [d]) None None =
      Inr (Some (length (pre @ e # post)), Some (length pre))"
  using find_auths_prefix [OF assms(1), of 0 "[]" None] find_auths_prefix [OF assms(1), of 0 "[d]" None]
    out_index_last [OF assms(2,3), of 0 pre None]
  by (simp_all add: usable_def)

subsection \<open>The entry of the proxy's display\<close>

definition entry_number :: "auth_entry \<Rightarrow> int" where
  \<comment> \<open>the number that the program reads from it\<close>
  "entry_number e = strtol (c_string (entry_display e))"

definition entry_for :: "nat \<Rightarrow> auth_entry \<Rightarrow> auth_entry" where
  "entry_for n e = e\<lparr>entry_display := c_bytes (decimal n)\<rparr>"

lemma display_number_of [simp]: "display_number (xauth_of e) = entry_number e"
  by (simp add: display_number_def entry_number_def xauth_of_def c_string_in_array)

lemma usable_of: "entry_fits e \<Longrightarrow> usable (xauth_of e) \<longleftrightarrow> c_string (entry_name e) = AUTH_NAME"
  by (simp add: usable_def xauth_of_def c_string_in_array entry_fits_def AUTH_DATA_SZ_def)

lemma entry_number_for: "n < 2 ^ 31 \<Longrightarrow> entry_number (entry_for n e) = int n"
  by (simp add: entry_number_def entry_for_def decimal_string strtol_decimal)

lemma display_str:
  assumes "n < 2 ^ 31"
  shows "length (c_bytes (decimal n)) \<le> 10"
proof -
  have "n < 10 ^ 10"
    using assms by simp
  then show ?thesis
    using length_decimal [of n 10] by (simp add: c_bytes_def)
qed

lemma entry_for_fits: "n < 2 ^ 31 \<Longrightarrow> entry_fits e \<Longrightarrow> entry_fits (entry_for n e)"
  using display_str [of n] by (simp add: entry_fits_def entry_for_def HOST_NAME_MAX_def)

lemma write_display:
  "take (unat l) d = take (unat l) d' \<Longrightarrow>
   write_xauth (a\<lparr>display_len := l, display_len_nbo := nbo, xa_display := d\<rparr>) =
   write_xauth (a\<lparr>display_len := l, display_len_nbo := nbo, xa_display := d'\<rparr>)"
  by (simp add: write_xauth_def)

lemma dup_auth_writes:
  assumes "fmt_prints_decimal F" and "n < 2 ^ 31" and "entry_fits e"
  shows "write_xauth (dup_auth F (int n) (xauth_of e)) = encode_entry (entry_for n e)"
    and "xa_data (dup_auth F (int n) (xauth_of e)) = entry_data e"
proof -
  let ?d = "c_bytes (decimal n)"
  have len: "length ?d \<le> 10"
    by (rule display_str [OF assms(2)])
  then have u: "unat (of_nat (length ?d) :: 16 word) = length ?d"
    by (simp add: unat_of_nat take_bit_nat_def)
  have dup: "dup_auth F (int n) (xauth_of e) = (xauth_of e)\<lparr>display_len := of_nat (length ?d),
      display_len_nbo := htons (of_nat (length ?d)),
      xa_display := (?d @ drop (length ?d) (xa_display (xauth_of e)))[length ?d := 0]\<rparr>"
    using assms(1) by (simp add: dup_auth_def Let_def fmt_prints_decimal_def)
  have new: "xauth_of (entry_for n e) = (xauth_of e)\<lparr>display_len := of_nat (length ?d),
      display_len_nbo := htons (of_nat (length ?d)), xa_display := in_array HOST_NAME_MAX ?d\<rparr>"
    by (simp add: xauth_of_def entry_for_def)
  have "write_xauth (dup_auth F (int n) (xauth_of e)) = write_xauth (xauth_of (entry_for n e))"
    unfolding dup new by (rule write_display) (simp add: u in_array_def)
  also have "\<dots> = encode_entry (entry_for n e)"
    by (rule write_xauth_of [OF entry_for_fits [OF assms(2,3)]])
  finally show "write_xauth (dup_auth F (int n) (xauth_of e)) = encode_entry (entry_for n e)" .
  show "xa_data (dup_auth F (int n) (xauth_of e)) = entry_data e"
    by (simp add: dup_auth_def Let_def xauth_of_def)
qed

subsection \<open>Properties\<close>

lemma copyAuthentication_reads:
  assumes "auth_path E = Inr path" and "auth_file E path = Some (concat (map encode_entry es))"
    and "copy_file E path (path @ ''.bup'')" and "can_write E path"
    and "list_all entry_fits es" and "es \<noteq> []"
  shows "copyAuthentication F cap E in_d out_d =
    map_res (\<lambda>(entries, cookie). \<lparr>xauth_path = path, xauth_bup_path = path @ ''.bup'',
      auth_written = concat (map write_xauth entries), auth_data = cookie\<rparr>)
      (edit_entries F cap in_d out_d (map xauth_of es))"
  using assms
  by (cases "edit_entries F cap in_d out_d (map xauth_of es)")
    (auto simp: copyAuthentication_def edited_entries_def backup_path_def read_entries_encoded)

definition displays :: "int \<Rightarrow> int \<Rightarrow> auth_entry list \<Rightarrow> auth_entry \<Rightarrow> auth_entry list \<Rightarrow> bool" where
  \<comment> \<open>no entry for the proxy's display; \<open>e\<close> is the last one for the server's display, and all that
     are for it have a cookie\<close>
  "displays in_d out_d pre e post \<longleftrightarrow>
     list_all entry_fits (pre @ e # post) \<and>
     (\<forall>x \<in> set (pre @ e # post). entry_number x \<noteq> in_d \<and>
        (entry_number x = out_d \<longrightarrow> c_string (entry_name x) = AUTH_NAME)) \<and>
     entry_number e = out_d \<and> (\<forall>x \<in> set post. entry_number x \<noteq> out_d)"

lemma displays_found:
  assumes "displays in_d out_d pre e post"
  shows "find_auths in_d out_d 0 (map xauth_of (pre @ e # post)) None None = Inr (None, Some (length pre))"
    and "entry_fits d \<Longrightarrow> c_string (entry_name d) = AUTH_NAME \<Longrightarrow> entry_number d = in_d \<Longrightarrow>
      find_auths in_d out_d 0 (map xauth_of ((pre @ e # post) @ [d])) None None =
      Inr (Some (length (pre @ e # post)), Some (length pre))"
proof -
  have fits: "\<forall>x \<in> set (pre @ e # post). entry_fits x"
    using assms by (auto simp: displays_def list_all_iff)
  have "\<forall>a \<in> set (map xauth_of pre @ xauth_of e # map xauth_of post).
      display_number a \<noteq> in_d \<and> (display_number a = out_d \<longrightarrow> usable a)"
    using assms fits by (auto simp: displays_def usable_of)
  moreover have "display_number (xauth_of e) = out_d" "\<forall>x \<in> set (map xauth_of post). display_number x \<noteq> out_d"
    using assms by (auto simp: displays_def)
  note found = find_auths_last [OF calculation this]
  show "find_auths in_d out_d 0 (map xauth_of (pre @ e # post)) None None = Inr (None, Some (length pre))"
    using found(1) by simp
  show "find_auths in_d out_d 0 (map xauth_of ((pre @ e # post) @ [d])) None None =
      Inr (Some (length (pre @ e # post)), Some (length pre))"
    if "entry_fits d" "c_string (entry_name d) = AUTH_NAME" "entry_number d = in_d"
    using found(2) [of "xauth_of d"] that assms by (simp add: usable_of) (auto simp: displays_def)
qed

lemma nth_middle: "(pre @ e # post) ! length pre = e" "((pre @ e # post) @ [d]) ! length pre = e"
  by (simp_all add: nth_append)

lemma added_entry:
  assumes "displays in_d out_d pre e post"
    and "length (pre @ e # post) < vector_capacity (length (pre @ e # post))"
  shows "edit_entries F vector_capacity in_d out_d (map xauth_of (pre @ e # post)) =
    Inr (map xauth_of (pre @ e # post) @ [dup_auth F in_d (xauth_of e)], entry_data e)"
  using displays_found(1) [OF assms(1)] assms(2) nth_middle(1) [of "map xauth_of pre" "xauth_of e" "map xauth_of post"]
  by (simp add: edit_entries_def Let_def) (simp add: xauth_of_def)


text \<open>
  C28: The proxy can be started again on the file that an earlier run left behind (one that was
  killed and did not restore it): it finds its own entry and writes the same file.
\<close>

theorem second_start_keeps_file:
  assumes "displays (int n) out_d pre e post" and "n < 2 ^ 31" and "fmt_prints_decimal F"
    and "file = concat (map encode_entry ((pre @ e # post) @ [e\<lparr>entry_display := c_bytes (decimal n)\<rparr>]))"
    and "auth_path E = Inr path" and "auth_file E path = Some file"
    and "copy_file E path (path @ ''.bup'')" and "can_write E path"
  shows "copyAuthentication F vector_capacity E (int n) out_d =
      Inr \<lparr>xauth_path = path, xauth_bup_path = path @ ''.bup'', auth_written = file, auth_data = entry_data e\<rparr>"
proof -
  let ?es = "pre @ e # post" and ?d = "entry_for n e"
  have fits: "list_all entry_fits ?es" and e: "entry_fits e" and name: "c_string (entry_name e) = AUTH_NAME"
    using assms(1) by (auto simp: displays_def)
  have d: "entry_fits ?d" "c_string (entry_name ?d) = AUTH_NAME" "entry_number ?d = int n"
    using entry_for_fits [OF assms(2) e] entry_number_for [OF assms(2)] name by (simp_all add: entry_for_def)
  have stored: "auth_file E path = Some (concat (map encode_entry (?es @ [?d])))"
    using assms(4,6) by (simp add: entry_for_def)
  have "edit_entries F vector_capacity (int n) out_d (map xauth_of (?es @ [?d])) =
      Inr (map xauth_of ?es @ [dup_auth F (int n) (xauth_of e)], entry_data e)"
    using displays_found(2) [OF assms(1) d] nth_middle(2) [of "map xauth_of pre" "xauth_of e" "map xauth_of post"]
    by (simp add: edit_entries_def Let_def list_update_append nth_append) (simp add: xauth_of_def)
  moreover have "map (write_xauth \<circ> xauth_of) pre = map encode_entry pre"
    "map (write_xauth \<circ> xauth_of) post = map encode_entry post" "write_xauth (xauth_of e) = encode_entry e"
    using fits write_xauth_of by (auto simp: list_all_iff)
  ultimately show ?thesis
    using copyAuthentication_reads [OF assms(5) stored assms(7,8)] fits d(1)
      dup_auth_writes(1) [OF assms(3,2) e] assms(4)
    by (simp add: entry_for_def cong: map_cong)
qed

text \<open>
  When the vector of entries has to grow for the new entry (with the usual growth by doubling:
  when their number is a power of two, for instance 1), the cookie for the setup clients is read
  through a pointer to an element that has been moved away.
\<close>

theorem cookie_read_after_free:
  assumes "displays in_d out_d pre e post"
    and "auth_path E = Inr path" and "auth_file E path = Some (concat (map encode_entry (pre @ e # post)))"
    and "copy_file E path (path @ ''.bup'')" and "can_write E path"
    and "vector_capacity (length (pre @ e # post)) = length (pre @ e # post)"
  shows "copyAuthentication F vector_capacity E in_d out_d = Inl Out_of_bounds"
proof -
  have "list_all entry_fits (pre @ e # post)"
    using assms(1) by (simp add: displays_def)
  moreover have "edit_entries F vector_capacity in_d out_d (map xauth_of (pre @ e # post)) = Inl Out_of_bounds"
    using displays_found(1) [OF assms(1)] assms(6) by (simp add: edit_entries_def Let_def)
  ultimately show ?thesis
    using copyAuthentication_reads [OF assms(2-5)] by simp
qed

text \<open>An empty file is not reported as one without an entry for the display, it fails an assertion.\<close>

lemma empty_auth_file:
  assumes "auth_path E = Inr path" and "auth_file E path = Some []"
  shows "copyAuthentication F vector_capacity E in_d out_d = Inl Assertion_failure"
proof -
  have "read_xauth ([], True) = Inl Assertion_failure"
    by (simp add: read_xauth_def read_field_def xauth_zero_def ntohs_def HOST_NAME_MAX_def NAME_MAX_def
      AUTH_DATA_SZ_def Let_def)
  with assms show ?thesis
    by (simp add: copyAuthentication_def edited_entries_def read_entries.simps [of "[]"])
qed

subsection \<open>Witnesses\<close>

definition sample_entry :: auth_entry where
  \<comment> \<open>family \<open>FamilyLocal\<close>, display 0\<close>
  "sample_entry =
     \<lparr>entry_family = 256, entry_addr = c_bytes ''host'', entry_display = c_bytes (decimal 0),
      entry_name = c_bytes AUTH_NAME, entry_data = replicate 16 7\<rparr>"

definition decimal_fmt :: fmt_lib where
  "decimal_fmt = sample_fmt\<lparr>fmt_dec := \<lambda>n. decimal (nat n)\<rparr>"

definition sample_environment :: "byte list \<Rightarrow> auth_environment" where
  "sample_environment file =
     \<lparr>env_XAUTHORITY = Some ''auth'', env_HOME = None, auth_file = (\<lambda>path. Some file),
      copy_file = (\<lambda>from to. True), can_write = (\<lambda>path. True)\<rparr>"

lemma sample_environment_simps [simp]:
  "auth_path (sample_environment file) = Inr ''auth''" "auth_file (sample_environment file) path = Some file"
  "copy_file (sample_environment file) path path'" "can_write (sample_environment file) path"
  by (simp_all add: sample_environment_def auth_path_def)

lemma decimal_fmt_prints: "fmt_prints_decimal decimal_fmt"
  by (simp add: fmt_prints_decimal_def decimal_fmt_def)

lemma sample_displays: "displays (int 9) 0 [] sample_entry []"
proof -
  have "entry_number sample_entry = int 0"
    by (simp add: entry_number_def sample_entry_def decimal_string strtol_decimal)
  moreover have "c_string (entry_name sample_entry) = AUTH_NAME"
    by (simp add: sample_entry_def) (rule c_string_bytes, simp add: AUTH_NAME_def)
  moreover have "entry_fits sample_entry"
    by (simp add: entry_fits_def sample_entry_def c_bytes_def AUTH_NAME_def HOST_NAME_MAX_def NAME_MAX_def
      AUTH_DATA_SZ_def decimal.simps)
  ultimately show ?thesis
    by (simp add: displays_def)
qed

definition sample_file :: "byte list" where
  "sample_file = concat (map encode_entry ([] @ sample_entry # []))"

definition sample_file_after :: "byte list" where
  "sample_file_after = concat (map encode_entry (([] @ sample_entry # []) @
     [sample_entry\<lparr>entry_display := c_bytes (decimal 9)\<rparr>]))"


theorem second_start_keeps_file_witness:
  "copyAuthentication decimal_fmt (\<lambda>n. n) (sample_environment sample_file_after) (int 9) 0 =
      Inr \<lparr>xauth_path = ''auth'', xauth_bup_path = ''auth'' @ ''.bup'', auth_written = sample_file_after,
        auth_data = entry_data sample_entry\<rparr>"
  by (rule second_start_keeps_file [OF sample_displays _ decimal_fmt_prints sample_file_after_def]) simp_all

theorem cookie_read_after_free_witness:
  "copyAuthentication decimal_fmt (\<lambda>n. n) (sample_environment sample_file) (int 9) 0 = Inl Out_of_bounds"
  by (rule cookie_read_after_free [OF sample_displays]) (simp_all add: sample_file_def)

end
