(* ===== verification/Display.thy ===== *)
theory Display
  imports XAuth
begin

text \<open>
  \<open>class DisplayInfo\<close> (\<open>DisplayInfo.hpp\<close>, \<open>DisplayInfo.cpp\<close>): X display names and the socket
  addresses that they stand for. The two regular expressions are written out as the matcher
  searches them: lazy repetitions from the shortest, optional groups first with, then without; both
  are anchored at the start of the name. A group that does not take part is the empty string.

  \<open>stat(2)\<close> and \<open>getaddrinfo(3)\<close> are arguments, and so is whether a socket can be bound or
  connected to an address that \<open>getaddrinfo\<close> found.
\<close>

subsection \<open>Regular expressions\<close>

fun lazy_match :: "(char \<Rightarrow> bool) \<Rightarrow> (string \<Rightarrow> 'a option) \<Rightarrow> string \<Rightarrow> string \<Rightarrow> (string \<times> 'a) option" where
  \<comment> \<open>\<open>(x+?)\<close> and what follows it; \<open>acc\<close> is what the group has so far\<close>
  "lazy_match x rest acc [] = None"
| "lazy_match x rest acc (c # s) =
     (if \<not> x c then None
      else case rest s of
        Some r \<Rightarrow> Some (acc @ [c], r)
      | None \<Rightarrow> lazy_match x rest (acc @ [c]) s)"

definition screen_match :: "string \<Rightarrow> string option" where
  \<comment> \<open>\<open>(?:\.([0-9]+))?$\<close>\<close>
  "screen_match s =
     (case s of
        [] \<Rightarrow> Some []
      | c # ds \<Rightarrow> if c = CHR ''.'' \<and> ds \<noteq> [] \<and> list_all is_digit ds then Some ds else None)"

definition not_line_end :: "char \<Rightarrow> bool" where
  \<comment> \<open>\<open>.\<close>\<close>
  "not_line_end c \<longleftrightarrow> (of_char c :: nat) \<noteq> 10 \<and> (of_char c :: nat) \<noteq> 13"

definition UNIX_REGEX :: "string \<Rightarrow> (string \<times> string \<times> string) option" where
  \<comment> \<open>\<open>^(?:(unix):)?(.+?)(?:\.([0-9]+))?$\<close>: the groups\<close>
  "UNIX_REGEX s =
     (let path = lazy_match not_line_end screen_match [] in
      case (if take 5 s = ''unix:'' then path (drop 5 s) else None) of
        Some (p, scr) \<Rightarrow> Some (''unix'', p, scr)
      | None \<Rightarrow> map_option (\<lambda>(p, scr). ([], p, scr)) (path s))"

definition display_match :: "string \<Rightarrow> (string \<times> string) option" where
  \<comment> \<open>\<open>:([0-9]+)(?:\.([0-9]+))?$\<close>\<close>
  "display_match s =
     (case s of
        [] \<Rightarrow> None
      | c # r \<Rightarrow>
          if c = CHR '':'' \<and> takeWhile is_digit r \<noteq> []
          then map_option (\<lambda>scr. (takeWhile is_digit r, scr)) (screen_match (dropWhile is_digit r))
          else None)"

definition is_protocol_char :: "char \<Rightarrow> bool" where
  \<comment> \<open>\<open>[a-zA-Z6]\<close>\<close>
  "is_protocol_char c \<longleftrightarrow>
     97 \<le> (of_char c :: nat) \<and> (of_char c :: nat) \<le> 122 \<or>
     65 \<le> (of_char c :: nat) \<and> (of_char c :: nat) \<le> 90 \<or> c = CHR ''6''"

definition DEFAULT_REGEX :: "string \<Rightarrow> (string \<times> string \<times> string \<times> string) option" where
  \<comment> \<open>\<open>^(?:(?:([a-zA-Z6]+)/)?([^\s]+?))?(?=:([0-9]+)(?:\.([0-9]+))?$)\<close>: the groups\<close>
  "DEFAULT_REGEX s =
     (let host = lazy_match (\<lambda>c. \<not> is_space c) display_match [];
          proto = takeWhile is_protocol_char s; r = dropWhile is_protocol_char s in
      case (if proto \<noteq> [] \<and> take 1 r = ''/'' then host (drop 1 r) else None) of
        Some (h, d, scr) \<Rightarrow> Some (proto, h, d, scr)
      | None \<Rightarrow>
          (case host s of
             Some (h, d, scr) \<Rightarrow> Some ([], h, d, scr)
           | None \<Rightarrow> map_option (\<lambda>(d, scr). ([], [], d, scr)) (display_match s)))"

subsection \<open>Addresses\<close>

datatype family = AF_UNIX | AF_INET | AF_INET6 | AF_other
datatype direction = IN | OUT

definition sizeof_sockaddr_in :: nat where "sizeof_sockaddr_in = 16"
definition sizeof_sockaddr_in6 :: nat where "sizeof_sockaddr_in6 = 28"
definition sizeof_sockaddr_un :: nat where "sizeof_sockaddr_un = 110"
definition UNIX_PATH_MAX :: nat where "UNIX_PATH_MAX = 108"
definition X_TCP_PORT :: int where "X_TCP_PORT = 6000"
definition S_IFSOCK :: nat where "S_IFSOCK = 0xC000"

definition UNSET :: int where
  "UNSET = - 1"

definition UNIX_SOCKET_PATH_PREFIX :: string where
  "UNIX_SOCKET_PATH_PREFIX = ''/tmp/.X11-unix/X''"

record addr_info =
  gai_family :: family
  gai_addrlen :: nat
  gai_addr :: "family \<Rightarrow> string"    \<comment> \<open>as \<open>inet_ntop\<close> prints it, read as an address of a family\<close>
  gai_port :: "16 word"
  gai_viable :: "16 word \<Rightarrow> bool"   \<comment> \<open>can be bound or connected to, with this port\<close>

record name_services =
  stat_mode :: "string \<Rightarrow> nat option"
  getaddrinfo :: "string option \<Rightarrow> direction \<Rightarrow> addr_info list option"

record display_info =
  unix_pattern :: bool
  di_name :: string
  di_protocol :: string
  di_hostname :: string
  di_socket_path :: string
  di_display :: int
  di_screen :: int
  di_family :: family
  di_addrlen :: nat
  di_port :: "16 word"
  di_sun_path :: string
  di_addrstr :: string

definition DisplayInfo_default :: display_info where
  "DisplayInfo_default =
     \<lparr>unix_pattern = False, di_name = [], di_protocol = [], di_hostname = [], di_socket_path = [],
      di_display = UNSET, di_screen = UNSET, di_family = AF_other, di_addrlen = 0, di_port = 0,
      di_sun_path = [], di_addrstr = []\<rparr>"

lemma DisplayInfo_default_simps [simp]:
  "unix_pattern DisplayInfo_default = False" "di_socket_path DisplayInfo_default = []"
  "di_display DisplayInfo_default = UNSET" "di_screen DisplayInfo_default = UNSET"
  by (simp_all add: DisplayInfo_default_def)

definition stoi :: "string \<Rightarrow> int res" where
  \<comment> \<open>\<open>std::stoi\<close> of a string of digits\<close>
  "stoi s = (let v = strtol s in if - (2 ^ 31) \<le> v \<and> v < 2 ^ 31 then Inr v else Inl Out_of_range)"

definition stoi_if :: "string \<Rightarrow> int \<Rightarrow> int res" where
  "stoi_if s unset = (if s = [] then Inr unset else stoi s)"

definition tolower :: "char \<Rightarrow> char" where
  "tolower c = (if 65 \<le> (of_char c :: nat) \<and> (of_char c :: nat) \<le> 90 then char_of (of_char c + 32 :: nat) else c)"

definition is_socket :: "name_services \<Rightarrow> string \<Rightarrow> bool" where
  \<comment> \<open>\<open>::stat( path, &st ) == 0 && st.st_mode & S_IFSOCK\<close>\<close>
  "is_socket W path = (case stat_mode W path of None \<Rightarrow> False | Some m \<Rightarrow> and m S_IFSOCK \<noteq> 0)"

text \<open>
  The name: either the path of a socket, or host, display and screen. With it the digits of the
  display number, which the path of a Unix socket ends with.
\<close>

definition parse_default :: "string \<Rightarrow> display_info \<Rightarrow> (display_info \<times> string) res" where
  "parse_default name D =
     (case DEFAULT_REGEX name of
        None \<Rightarrow> Inl (Exit 1)
      | Some (proto, host, digits, scr) \<Rightarrow>
          let protocol = (if proto \<noteq> [] then map tolower proto else if host = [] then ''local'' else ''tcp'') in
          require (digits \<noteq> []) (
          and_then (stoi digits) (\<lambda>d.
          map_res (\<lambda>n. (D\<lparr>di_protocol := protocol, di_hostname := host, di_display := d, di_screen := n\<rparr>, digits))
            (stoi_if scr UNSET))))"

definition parse_name :: "name_services \<Rightarrow> string \<Rightarrow> (display_info \<times> string) res" where
  "parse_name W name =
     (let D = DisplayInfo_default\<lparr>di_name := name\<rparr> in
      case UNIX_REGEX name of
        Some (_, path, scr) \<Rightarrow>
          if is_socket W path
          then map_res (\<lambda>n. (D\<lparr>unix_pattern := True, di_protocol := ''unix'', di_socket_path := path,
                               di_screen := n\<rparr>, scr))
                 (stoi_if scr UNSET)
          else parse_default name D
      | None \<Rightarrow> parse_default name D)"

definition protocol_family :: "string \<Rightarrow> family res" where
  "protocol_family protocol =
     (if protocol = ''inet6'' \<or> protocol = ''tcp'' then Inr AF_INET6
      else if protocol = ''inet'' then Inr AF_INET
      else if protocol = ''unix'' \<or> protocol = ''local'' then Inr AF_UNIX
      else Inl (Exit 1))"

definition unix_address :: "string \<Rightarrow> display_info \<Rightarrow> display_info res" where
  \<comment> \<open>the last step copies the path with its NUL into an array\<close>
  "unix_address digits D =
     and_then (if di_socket_path D = []
               then require (\<not> unix_pattern D) (
                    require (length (UNIX_SOCKET_PATH_PREFIX @ digits) < UNIX_PATH_MAX) (
                    Inr (UNIX_SOCKET_PATH_PREFIX @ digits)))
               else Inr (di_socket_path D)) (\<lambda>path.
     if length path + 1 > UNIX_PATH_MAX then Inl Out_of_bounds
     else Inr (D\<lparr>di_socket_path := path, di_addrlen := sizeof_sockaddr_un, di_sun_path := path\<rparr>))"

definition with_port :: "direction \<Rightarrow> int \<Rightarrow> addr_info \<Rightarrow> addr_info" where
  "with_port dir display r = (if dir = OUT then r\<lparr>gai_port := of_int (X_TCP_PORT + display)\<rparr> else r)"

text \<open>
  The loop stops at the first address that can be bound or connected to; family and length are
  then taken from the first address, port and address from the one that was found.
\<close>

definition inet_address :: "name_services \<Rightarrow> direction \<Rightarrow> display_info \<Rightarrow> display_info res" where
  "inet_address W dir D =
     (case getaddrinfo W (if dir = IN then None else Some (di_hostname D)) dir of
        None \<Rightarrow> Inl (Exit 1)
      | Some results \<Rightarrow>
          (case find (\<lambda>r. gai_viable r (gai_port r)) (map (with_port dir (di_display D)) results) of
             None \<Rightarrow> Inl (Exit 1)
           | Some r \<Rightarrow>
               let D' = D\<lparr>di_family := gai_family (hd results), di_addrlen := gai_addrlen (hd results)\<rparr> in
               if di_family D' = AF_INET
               then require (di_addrlen D' = sizeof_sockaddr_in) (
                    Inr (D'\<lparr>di_port := gai_port r, di_addrstr := gai_addr r AF_INET\<rparr>))
               else require (gai_addrlen r = sizeof_sockaddr_in6) (
                    Inr (D'\<lparr>di_port := gai_port r, di_addrstr := gai_addr r AF_INET6\<rparr>))))"

definition DisplayInfo_new :: "name_services \<Rightarrow> string \<Rightarrow> direction \<Rightarrow> display_info res" where
  "DisplayInfo_new W name dir =
     and_then (parse_name W name) (\<lambda>(D, digits).
     and_then (protocol_family (di_protocol D)) (\<lambda>f.
     require (di_display D \<noteq> UNSET) (
     let D' = D\<lparr>di_family := f, di_screen := (if di_screen D = UNSET then 0 else di_screen D)\<rparr> in
     if f = AF_UNIX then unix_address digits D' else inet_address W dir D')))"

subsection \<open>What the patterns match\<close>

lemma lazy_match_first:
  assumes "list_all x h" and "h \<noteq> []" and "rest s = Some r"
    and "\<And>p q. h = p @ q \<Longrightarrow> p \<noteq> [] \<Longrightarrow> q \<noteq> [] \<Longrightarrow> rest (q @ s) = None"
  shows "lazy_match x rest acc (h @ s) = Some (acc @ h, r)"
  using assms
proof (induction h arbitrary: acc)
  case (Cons c h)
  show ?case
  proof (cases "h = []")
    case False
    have "rest (h @ s) = None"
      using Cons.prems(4) [of "[c]" h] False by simp
    moreover have "lazy_match x rest (acc @ [c]) (h @ s) = Some ((acc @ [c]) @ h, r)"
    proof (rule Cons.IH)
      show "rest (q @ s) = None" if "h = p @ q" "p \<noteq> []" "q \<noteq> []" for p q
        using Cons.prems(4) [of "c # p" q] that by simp
    qed (use Cons.prems False in simp_all)
    ultimately show ?thesis
      using Cons.prems(1) by simp
  qed (use Cons.prems in simp)
qed simp

definition screen_part :: "nat option \<Rightarrow> string" where
  "screen_part scr = (case scr of None \<Rightarrow> [] | Some n \<Rightarrow> ''.'' @ decimal n)"

definition screen_digits :: "nat option \<Rightarrow> string" where
  "screen_digits scr = (case scr of None \<Rightarrow> [] | Some n \<Rightarrow> decimal n)"

lemma screen_part_match: "screen_match (screen_part scr) = Some (screen_digits scr)"
  using decimal_digits by (auto simp: screen_match_def screen_part_def screen_digits_def split: option.split)

lemma screen_part_start: "screen_part scr = [] \<or> \<not> is_digit (hd (screen_part scr))"
  by (simp add: screen_part_def is_digit_def split: option.split)

lemma display_part_match:
  "display_match ('':'' @ decimal d @ screen_part scr) = Some (decimal d, screen_digits scr)"
proof -
  have "takeWhile is_digit (decimal d @ screen_part scr) = decimal d \<and>
      dropWhile is_digit (decimal d @ screen_part scr) = screen_part scr"
    using decimal_digits [of d] screen_part_start [of scr]
    by (cases "screen_part scr") (auto simp: list_all_iff takeWhile_append2 dropWhile_append2)
  then show ?thesis
    using decimal_digits [of d] by (simp add: display_match_def screen_part_match)
qed

lemma stoi_decimal: "n < 2 ^ 31 \<Longrightarrow> stoi (decimal n) = Inr (int n)"
  by (simp add: stoi_def strtol_decimal Let_def)

lemma display_match_colon: "display_match s = Some r \<Longrightarrow> s \<noteq> [] \<and> hd s = CHR '':''"
  by (cases s) (auto simp: display_match_def split: if_splits)

lemma decimal_no: "c \<in> set (decimal n) \<Longrightarrow> is_digit c"
  using decimal_digits [of n] by (auto simp: list_all_iff)

definition host_name :: "string \<Rightarrow> bool" where
  \<comment> \<open>without blanks, colons and slashes\<close>
  "host_name h \<longleftrightarrow> list_all (\<lambda>c. \<not> is_space c \<and> c \<noteq> CHR '':'' \<and> c \<noteq> CHR ''/'') h"

definition display_name :: "string \<Rightarrow> nat \<Rightarrow> nat option \<Rightarrow> string" where
  \<comment> \<open>host, display number and screen number, as a display name is written\<close>
  "display_name host d scr = host @ '':'' @ decimal d @ screen_part scr"

lemma host_match:
  assumes "host_name h" and "h \<noteq> []"
  shows "lazy_match (\<lambda>c. \<not> is_space c) display_match [] (display_name h d scr) =
    Some (h, (decimal d, screen_digits scr))"
proof -
  have "lazy_match (\<lambda>c. \<not> is_space c) display_match [] (h @ '':'' @ decimal d @ screen_part scr) =
      Some ([] @ h, (decimal d, screen_digits scr))"
  proof (rule lazy_match_first)
    show "list_all (\<lambda>c. \<not> is_space c) h"
      using assms(1) by (auto simp: host_name_def list_all_iff)
    show "display_match (q @ '':'' @ decimal d @ screen_part scr) = None" if "h = p @ q" "q \<noteq> []" for p q
    proof (rule ccontr)
      assume "display_match (q @ '':'' @ decimal d @ screen_part scr) \<noteq> None"
      then have "hd q = CHR '':''"
        using display_match_colon [of "q @ '':'' @ decimal d @ screen_part scr"] that(2) by auto
      then show False
        using assms(1) that by (cases q) (auto simp: host_name_def)
    qed
  qed (use assms(2) display_part_match in auto)
  then show ?thesis
    by (simp add: display_name_def)
qed

lemma no_host_match: "lazy_match x display_match acc ('':'' @ decimal d @ screen_part scr) = None"
proof -
  have "lazy_match x display_match acc s = None" if "\<forall>c \<in> set (tl s). c \<noteq> CHR '':''" for s
    using that
  proof (induction x "display_match :: string \<Rightarrow> (string \<times> string) option" acc s rule: lazy_match.induct)
    case (2 x acc c s)
    have "display_match s = None"
    proof (rule ccontr)
      assume "display_match s \<noteq> None"
      then show False
        using display_match_colon [of s] 2(2) by (cases s) auto
    qed
    then show ?case
      using 2 by (cases s) auto
  qed simp
  moreover have "\<forall>c \<in> set (decimal d @ screen_part scr). c \<noteq> CHR '':''"
    using decimal_no by (fastforce simp: screen_part_def is_digit_def split: option.splits)
  then have "\<forall>c \<in> set (tl ('':'' @ decimal d @ screen_part scr)). c \<noteq> CHR '':''"
    by simp
  ultimately show ?thesis
    by blast
qed

lemma no_slash:
  assumes "host_name h"
  shows "take 1 (dropWhile p (display_name h d scr)) \<noteq> ''/''"
proof
  assume "take 1 (dropWhile p (display_name h d scr)) = ''/''"
  then have "CHR ''/'' \<in> set (dropWhile p (display_name h d scr))"
    by (cases "dropWhile p (display_name h d scr)") auto
  then have "CHR ''/'' \<in> set (display_name h d scr)"
    by (rule set_dropWhileD)
  then show False
    using assms decimal_no
    by (fastforce simp: display_name_def host_name_def list_all_iff screen_part_def is_digit_def split: option.splits)
qed

lemma DEFAULT_REGEX_host:
  assumes "host_name h"
  shows "DEFAULT_REGEX (display_name h d scr) = Some ([], h, decimal d, screen_digits scr)"
proof (cases "h = []")
  case True
  then show ?thesis
    using no_slash [of "[]" is_protocol_char d scr] no_host_match [of "\<lambda>c. \<not> is_space c" "[]" d scr]
      display_part_match [of d scr]
    by (simp add: DEFAULT_REGEX_def display_name_def host_name_def)
next
  case False
  then show ?thesis
    using no_slash [OF assms, of is_protocol_char d scr] host_match [OF assms False]
    by (simp add: DEFAULT_REGEX_def)
qed

lemma stoi_screen:
  "pred_option (\<lambda>n. n < 2 ^ 31) scr \<Longrightarrow>
   stoi_if (screen_digits scr) UNSET = Inr (case scr of None \<Rightarrow> UNSET | Some n \<Rightarrow> int n)"
  using decimal_digits by (auto simp: stoi_if_def screen_digits_def stoi_decimal split: option.splits)

lemma parse_name_host:
  assumes "host_name h" and "\<forall>path. \<not> is_socket W path" and "d < 2 ^ 31" and "pred_option (\<lambda>n. n < 2 ^ 31) scr"
  shows "parse_name W (display_name h d scr) = Inr (DisplayInfo_default\<lparr>di_name := display_name h d scr,
    di_protocol := if h = [] then ''local'' else ''tcp'', di_hostname := h, di_display := int d,
    di_screen := case scr of None \<Rightarrow> UNSET | Some n \<Rightarrow> int n\<rparr>, decimal d)"
proof -
  have "parse_name W (display_name h d scr) =
      parse_default (display_name h d scr) (DisplayInfo_default\<lparr>di_name := display_name h d scr\<rparr>)"
    using assms(2) by (auto simp: parse_name_def Let_def split: option.split)
  then show ?thesis
    using assms decimal_digits [of d] by (simp add: parse_default_def DEFAULT_REGEX_host stoi_decimal stoi_screen Let_def)
qed

lemma unix_address_default:
  assumes "di_socket_path D = []" and "\<not> unix_pattern D"
    and "length (UNIX_SOCKET_PATH_PREFIX @ digits) + 1 \<le> UNIX_PATH_MAX"
  shows "unix_address digits D = Inr (D\<lparr>di_socket_path := UNIX_SOCKET_PATH_PREFIX @ digits,
    di_addrlen := sizeof_sockaddr_un, di_sun_path := UNIX_SOCKET_PATH_PREFIX @ digits\<rparr>)"
  using assms by (simp add: unix_address_def)

lemma find_viable:
  "\<forall>x \<in> set pre. \<not> gai_viable x p \<Longrightarrow> gai_viable r p \<Longrightarrow>
   find (\<lambda>r. gai_viable r (gai_port r)) (map (\<lambda>x. x\<lparr>gai_port := p\<rparr>) (pre @ r # post)) = Some (r\<lparr>gai_port := p\<rparr>)"
  by (induction pre) simp_all

lemma inet_address_first:
  assumes "getaddrinfo W (Some (di_hostname D)) OUT = Some (pre @ r # post)"
    and "di_display D = int d"
    and "\<forall>x \<in> set pre. \<not> gai_viable x (of_nat (6000 + d))" and "gai_viable r (of_nat (6000 + d))"
    and "\<forall>x \<in> set (pre @ r # post). gai_family x = f \<and> gai_addrlen x = (if f = AF_INET then 16 else 28)"
  shows "inet_address W OUT D = Inr (D\<lparr>di_family := f, di_addrlen := if f = AF_INET then 16 else 28,
    di_port := of_nat (6000 + d), di_addrstr := gai_addr r (if f = AF_INET then AF_INET else AF_INET6)\<rparr>)"
proof -
  have port: "with_port OUT (di_display D) = (\<lambda>x. x\<lparr>gai_port := of_nat (6000 + d)\<rparr>)"
    by (rule ext) (simp add: with_port_def X_TCP_PORT_def assms(2))
  have found: "find (\<lambda>r. gai_viable r (gai_port r)) (map (with_port OUT (di_display D)) (pre @ r # post)) =
      Some (r\<lparr>gai_port := of_nat (6000 + d)\<rparr>)"
    unfolding port by (rule find_viable [OF assms(3,4)])
  have hd: "gai_family (hd (pre @ r # post)) = f"
    "gai_addrlen (hd (pre @ r # post)) = (if f = AF_INET then 16 else 28)"
    "gai_addrlen r = (if f = AF_INET then 16 else 28)"
    using bspec [OF assms(5), of "hd (pre @ r # post)"] bspec [OF assms(5), of r] hd_in_set [of "pre @ r # post"]
    by (simp_all del: hd_append2)
  have "OUT \<noteq> IN"
    by simp
  then show ?thesis
    unfolding inet_address_def if_not_P [OF \<open>OUT \<noteq> IN\<close>] assms(1) option.case found Let_def
    by (simp add: hd sizeof_sockaddr_in_def sizeof_sockaddr_in6_def del: hd_append2)
qed

lemma local_display:
  assumes "\<forall>path. \<not> is_socket W path" and "d < 2 ^ 31" and "pred_option (\<lambda>n. n < 2 ^ 31) scr"
  shows "\<exists>D. DisplayInfo_new W (display_name [] d scr) dir = Inr D \<and>
    di_name D = '':'' @ decimal d @ screen_part scr \<and> di_display D = int d \<and>
    di_screen D = (case scr of None \<Rightarrow> 0 | Some n \<Rightarrow> int n) \<and> di_family D = AF_UNIX \<and>
    di_sun_path D = ''/tmp/.X11-unix/X'' @ decimal d \<and> di_addrlen D = sizeof_sockaddr_un"
proof -
  have "d < 10 ^ 10"
    using assms(2) by simp
  then have "length (decimal d) \<le> 10"
    using length_decimal [of d 10] by simp
  then have path: "length (UNIX_SOCKET_PATH_PREFIX @ decimal d) + 1 \<le> UNIX_PATH_MAX"
    by (simp add: UNIX_SOCKET_PATH_PREFIX_def UNIX_PATH_MAX_def)
  have "host_name []"
    by (simp add: host_name_def)
  note parsed = parse_name_host [OF this assms, simplified]
  let ?E = "DisplayInfo_default\<lparr>di_name := display_name [] d scr, di_protocol := ''local'',
    di_hostname := [], di_display := int d, di_screen := case scr of None \<Rightarrow> UNSET | Some n \<Rightarrow> int n\<rparr>"
  let ?D = "?E\<lparr>di_family := AF_UNIX, di_screen := if di_screen ?E = UNSET then 0 else di_screen ?E\<rparr>"
  have "protocol_family (di_protocol ?E) = Inr AF_UNIX" "di_display ?E \<noteq> UNSET"
    by (simp_all add: protocol_family_def UNSET_def)
  then have "DisplayInfo_new W (display_name [] d scr) dir = unix_address (decimal d) ?D"
    by (simp only: DisplayInfo_new_def parsed Let_def and_then_simps prod.case require_simps if_True simp_thms)
  also have "\<dots> = Inr (?D\<lparr>di_socket_path := UNIX_SOCKET_PATH_PREFIX @ decimal d,
      di_addrlen := sizeof_sockaddr_un, di_sun_path := UNIX_SOCKET_PATH_PREFIX @ decimal d\<rparr>)"
    by (rule unix_address_default) (use path in simp_all)
  finally show ?thesis
    by (intro exI conjI, assumption)
      (simp_all add: display_name_def UNIX_SOCKET_PATH_PREFIX_def UNSET_def split: option.split)
qed

subsection \<open>Properties\<close>



text \<open>
  A display name that is the path of a Unix socket, one of the two documented forms, stops the
  program: no display number is set for it, and an assertion requires one.
\<close>

theorem socket_path_aborts:
  assumes "path \<noteq> []" and "list_all not_line_end path" and "take 5 path \<noteq> ''unix:''"
    and "\<forall>p q. path = p @ q \<longrightarrow> p \<noteq> [] \<longrightarrow> q \<noteq> [] \<longrightarrow> screen_match q = None"
    and "is_socket W path"
  shows "DisplayInfo_new W path dir = Inl Assertion_failure \<and>
    DisplayInfo_new W (''unix:'' @ path) dir = Inl Assertion_failure"
proof -
  have m: "lazy_match not_line_end screen_match [] path = Some (path, [])"
    using lazy_match_first [of not_line_end path screen_match "[]" "[]" "[]"] assms(1,2,4)
    by (simp add: screen_match_def)
  then have "UNIX_REGEX path = Some ([], path, [])" "UNIX_REGEX (''unix:'' @ path) = Some (''unix'', path, [])"
    using assms(3) by (simp_all add: UNIX_REGEX_def Let_def)
  with assms(5) show ?thesis
    by (simp_all add: DisplayInfo_new_def parse_name_def stoi_if_def protocol_family_def)
qed

subsection \<open>Witnesses\<close>

definition sample_services :: name_services where
  \<comment> \<open>one socket in the file system, one host with two addresses, of which the second answers\<close>
  "sample_services =
     \<lparr>stat_mode = (\<lambda>path. if path = ''/x/sock'' then Some 0xC1ED else None),
      getaddrinfo = (\<lambda>node dir. Some
        [\<lparr>gai_family = AF_INET, gai_addrlen = 16, gai_addr = (\<lambda>_. ''10.0.0.1''), gai_port = 0, gai_viable = (\<lambda>_. False)\<rparr>,
         \<lparr>gai_family = AF_INET, gai_addrlen = 16, gai_addr = (\<lambda>_. ''10.0.0.2''), gai_port = 0, gai_viable = (\<lambda>_. True)\<rparr>])\<rparr>"

definition no_files :: "name_services \<Rightarrow> name_services" where
  "no_files W = W\<lparr>stat_mode := \<lambda>_. None\<rparr>"

lemma no_files_simps [simp]: "\<not> is_socket (no_files W) path" "getaddrinfo (no_files W) = getaddrinfo W"
  by (simp_all add: no_files_def is_socket_def)


definition sample_address :: addr_info where
  "sample_address = \<lparr>gai_family = AF_INET, gai_addrlen = 16, gai_addr = (\<lambda>_. ''10.0.0.2''), gai_port = 0,
     gai_viable = (\<lambda>_. True)\<rparr>"


lemma screen_match_dot: "screen_match q = Some r \<Longrightarrow> q \<noteq> [] \<Longrightarrow> CHR ''.'' \<in> set q"
  by (cases q) (auto simp: screen_match_def split: if_splits)

theorem socket_path_aborts_witness:
  "DisplayInfo_new sample_services ''/x/sock'' OUT = Inl Assertion_failure \<and>
   DisplayInfo_new sample_services (''unix:'' @ ''/x/sock'') OUT = Inl Assertion_failure"
proof (rule socket_path_aborts)
  show "\<forall>p q. ''/x/sock'' = p @ q \<longrightarrow> p \<noteq> [] \<longrightarrow> q \<noteq> [] \<longrightarrow> screen_match q = None"
  proof (intro allI impI, rule ccontr)
    fix p q assume s: "''/x/sock'' = p @ q" and "q \<noteq> []" "screen_match q \<noteq> None"
    then have "CHR ''.'' \<in> set (p @ q)"
      using screen_match_dot by auto
    then show False
      unfolding s [symmetric] by simp
  qed
qed (simp_all add: not_line_end_def is_socket_def sample_services_def S_IFSOCK_def)

end
