(* ===== verification/Proxy.thy ===== *)
theory Proxy
  imports Transit Poll Tables Display "HOL-Library.Multiset"
begin

text \<open>
  The main queue of \<open>class ProxyX11Server\<close> (\<open>ProxyX11Server.cpp\<close>): the connections, the poll
  table and the parser, and the handlers that poll the sockets, read, parse and write, close
  connections and open new ones.

  System calls are arguments (\<open>io\<close>): what \<open>recv\<close>, \<open>send\<close>, \<open>close\<close>, \<open>accept\<close>, \<open>socket\<close>,
  \<open>setsockopt\<close> and \<open>connect\<close> answer during one round. \<open>_connections\<close> is a
  \<open>std::unordered_map\<close>, here the list of its entries in the order of iteration; where an
  insertion puts things is not specified, so that is an argument too (\<open>io_rehash\<close>, a permutation).
  What goes to the log stream is \<open>log_out\<close>; the messages on the standard error are left out.
\<close>

subsection \<open>State\<close>

text \<open>
  The peer that \<open>accept(2)\<close> filled in: \<open>addrlen\<close>, and per family what the code reads of the
  address (for IP addresses the answer of \<open>inet_ntop\<close> and the port, for a Unix socket the path).
\<close>

datatype peer =
    Peer_INET6 nat "string option" "16 word"
  | Peer_INET nat "string option" "16 word"
  | Peer_UNIX string
  | Peer_other

definition UNINIT_FD :: int where
  "UNINIT_FD = - 1"

record io =
  io_recv :: "int \<Rightarrow> recv_fn"
  io_send :: "int \<Rightarrow> send_fn"
  io_close :: "int \<Rightarrow> bool"
  io_accept :: "int \<times> peer"
  io_socket :: int
  io_setsockopt :: bool
  io_connect :: bool
  io_now :: "64 word"
  io_rehash :: "(int \<times> connection) list \<Rightarrow> (int \<times> connection) list"

record proxy_server =
  connections :: "(int \<times> connection) list"
  next_id :: "32 word"
  poll_info :: poll_state
  listener_fd :: int
  out_family :: family
  parser_of :: parser
  log_out :: string

subsection \<open>The lines of \<open>--readwritedebug\<close>\<close>

definition server_line :: "(parser \<Rightarrow> string) \<Rightarrow> proxy_server \<Rightarrow> proxy_server" where
  "server_line line s = s\<lparr>log_out := log_out s @ line (parser_of s)\<rparr>"

definition eof_line :: "connection \<Rightarrow> string \<Rightarrow> parser \<Rightarrow> string" where
  "eof_line conn glyph P =
     debug_line P (''C'' @ fmt_zpad (fmtl P) 3 (unat (conn_id conn)) @ '':'' @ glyph @
       '': got EOF, closing connection'')"

definition moved_line :: "connection \<Rightarrow> size_t \<Rightarrow> string \<Rightarrow> string \<Rightarrow> parser \<Rightarrow> string" where
  "moved_line conn n glyph what P =
     debug_line P (''C'' @ fmt_zpad (fmtl P) 3 (unat (conn_id conn)) @ '':'' @
       fmt_zpad (fmtl P) 4 (unat n) @ ''B:'' @ glyph @ '': '' @ what)"

definition discarded_line :: "connection \<Rightarrow> socket_buffer \<Rightarrow> string \<Rightarrow> parser \<Rightarrow> string" where
  "discarded_line conn b glyph P =
     (if buffer_empty b then []
      else ''C'' @ fmt_zpad (fmtl P) 3 (unat (conn_id conn)) @ '':'' @
        fmt_zpad (fmtl P) 4 (unat (buffer_size b)) @ ''B:'' @ glyph @ '': discarded unsent buffer'' @ newline)"

subsection \<open>Polling flags\<close>

text \<open>
  The two sockets of a connection are treated alike: bytes read from the socket go to one buffer
  and are parsed, the bytes of the other buffer are written to the socket.
\<close>

record side =
  side_name :: string
  side_fd :: "connection \<Rightarrow> int"
  in_buffer :: "connection \<Rightarrow> socket_buffer"
  set_in_buffer :: "socket_buffer \<Rightarrow> connection \<Rightarrow> connection"
  out_buffer :: "connection \<Rightarrow> socket_buffer"
  set_out_buffer :: "socket_buffer \<Rightarrow> connection \<Rightarrow> connection"
  in_glyph :: string
  out_glyph :: string
  log_messages :: "parser \<Rightarrow> connection \<Rightarrow> (parser \<times> connection \<times> size_t \<times> string \<times> string option) res"

definition client_side :: side where
  "client_side =
     \<lparr>side_name = ''client'', side_fd = client_fd,
      in_buffer = client_buffer, set_in_buffer = \<lambda>b c. c\<lparr>client_buffer := b\<rparr>,
      out_buffer = server_buffer, set_out_buffer = \<lambda>b c. c\<lparr>server_buffer := b\<rparr>,
      in_glyph = CLIENT_TO_SERVER, out_glyph = SERVER_TO_CLIENT, log_messages = client_messages\<rparr>"

definition server_side :: side where
  "server_side =
     \<lparr>side_name = ''server'', side_fd = server_fd,
      in_buffer = server_buffer, set_in_buffer = \<lambda>b c. c\<lparr>server_buffer := b\<rparr>,
      out_buffer = client_buffer, set_out_buffer = \<lambda>b c. c\<lparr>client_buffer := b\<rparr>,
      in_glyph = SERVER_TO_CLIENT, out_glyph = CLIENT_TO_SERVER, log_messages = server_messages\<rparr>"

definition poll_buffer :: "int \<Rightarrow> int \<Rightarrow> socket_buffer \<Rightarrow> poll_state \<Rightarrow> poll_state res" where
  \<comment> \<open>a buffer that is read from \<open>from_fd\<close> and written to \<open>to_fd\<close>\<close>
  "poll_buffer from_fd to_fd b t =
     (if readReady b then set_events from_fd (\<lambda>e. e OR POLLIN) t
      else require (writeReady b) (set_events to_fd (\<lambda>e. e OR POLLOUT) t))"

definition updatePollFlags_conn :: "connection \<Rightarrow> poll_state \<Rightarrow> poll_state res" where
  "updatePollFlags_conn conn t =
     and_then (pfd_of t (client_fd conn)) (\<lambda>_.
     and_then (pfd_of t (server_fd conn)) (\<lambda>_.
     and_then (set_events (client_fd conn) (\<lambda>_. POLLPRI) t) (\<lambda>t1.
     and_then (set_events (server_fd conn) (\<lambda>_. POLLPRI) t1) (\<lambda>t2.
     and_then (poll_buffer (client_fd conn) (server_fd conn) (client_buffer conn) t2)
       (poll_buffer (server_fd conn) (client_fd conn) (server_buffer conn))))))"

fun updatePollFlags :: "(int \<times> connection) list \<Rightarrow> poll_state \<Rightarrow> poll_state res" where
  "updatePollFlags [] t = Inr t"
| "updatePollFlags ((_, conn) # conns) t =
     and_then (updatePollFlags_conn conn t) (updatePollFlags conns)"

subsection \<open>One connection\<close>

text \<open>The result says whether the connection is to be closed.\<close>

definition serve_side ::
  "side \<Rightarrow> io \<Rightarrow> poll_state \<Rightarrow> parser \<Rightarrow> connection \<Rightarrow> (parser \<times> connection \<times> string \<times> bool) res"
where
  "serve_side D w t P conn =
     and_then (socketReadReady t (side_fd D conn)) (\<lambda>read_ready.
     if read_ready then
       and_then (read_all (io_recv w (side_fd D conn)) (in_buffer D conn)) (\<lambda>(b, bytes_read, read_error).
       let conn1 = set_in_buffer D b conn in
       if read_error \<noteq> None then Inr (P, conn1, [], True)
       else if bytes_read = 0 then Inr (P, conn1, eof_line conn1 (in_glyph D) P, True)
       else require (\<not> buffer_empty b) (
         map_res (\<lambda>(P', conn2, bytes_parsed, lg, parse_error).
             (P', conn2,
              moved_line conn1 bytes_read (in_glyph D) (''read from '' @ side_name D @ '' into buffer'') P @ lg,
              parse_error \<noteq> None))
           (log_messages D P conn1)))
     else
       and_then (socketWriteReady t (side_fd D conn)) (\<lambda>write_ready.
       if write_ready \<and> writeReady (out_buffer D conn) then
         and_then (write_all (io_send w (side_fd D conn)) (out_buffer D conn)) (\<lambda>(b, bytes_written, write_error).
         let conn1 = set_out_buffer D b conn in
         if write_error \<noteq> None then Inr (P, conn1, [], True)
         else require (bytes_written > 0) (
           Inr (P, conn1,
             moved_line conn1 bytes_written (out_glyph D) (''wrote from buffer to '' @ side_name D) P, False)))
       else map_res (\<lambda>poll_error. (P, conn, [], poll_error \<noteq> None)) (socketPollError t (side_fd D conn))))"

definition serve_connection ::
  "io \<Rightarrow> poll_state \<Rightarrow> parser \<Rightarrow> connection \<Rightarrow> (parser \<times> connection \<times> string \<times> bool) res"
where
  "serve_connection w t P conn =
     require (clientSideOpen conn) (
     require (serverSideOpen conn) (
     and_then (serve_side client_side w t P conn) (\<lambda>(P1, conn1, lg1, closing).
     if closing then Inr (P1, conn1, lg1, True)
     else map_res (\<lambda>(P2, conn2, lg2, closing). (P2, conn2, lg1 @ lg2, closing))
       (serve_side server_side w t P1 conn1))))"

fun serve_connections ::
  "io \<Rightarrow> poll_state \<Rightarrow> parser \<Rightarrow> (int \<times> connection) list \<Rightarrow>
   (parser \<times> (int \<times> connection) list \<times> string \<times> int list) res"
where
  "serve_connections w t P [] = Inr (P, [], [], [])"
| "serve_connections w t P ((i, conn) # conns) =
     and_then (serve_connection w t P conn) (\<lambda>(P1, conn1, lg1, closing).
     map_res (\<lambda>(P2, conns2, lg2, ids). (P2, (i, conn1) # conns2, lg1 @ lg2, (if closing then [i] else []) @ ids))
       (serve_connections w t P1 conns))"

subsection \<open>Closing connections\<close>

fun closeConnections_loop :: "(int \<Rightarrow> bool) \<Rightarrow> int list \<Rightarrow> proxy_server \<Rightarrow> proxy_server res" where
  "closeConnections_loop close [] s = Inr s"
| "closeConnections_loop close (i # ids) s =
     and_then (lookup_at (map_of (connections s)) i) (\<lambda>conn.
     let s1 = server_line (discarded_line conn (client_buffer conn) CLIENT_TO_SERVER) s;
         s2 = server_line (discarded_line conn (server_buffer conn) SERVER_TO_CLIENT) s1;
         erase = (\<lambda>fd t. t\<lparr>pfds_i_by_fd := map_erase fd (pfds_i_by_fd t)\<rparr>) in
     and_then (closeClientSide close conn) (\<lambda>conn1.
     and_then (closeServerSide close conn1) (\<lambda>conn2.
     closeConnections_loop close ids
       (s2\<lparr>poll_info := erase (server_fd conn) (erase (client_fd conn) (poll_info s2)),
          connections := map_erase i (connections s2)\<rparr>))))"

definition closeConnections :: "(int \<Rightarrow> bool) \<Rightarrow> int list \<Rightarrow> proxy_server \<Rightarrow> proxy_server res" where
  "closeConnections close ids s =
     and_then (closeConnections_loop close ids s) (\<lambda>s1.
     map_res (\<lambda>t. s1\<lparr>poll_info := t\<rparr>) (compact_pfds (poll_info s1)))"

subsection \<open>Opening a connection\<close>

definition acceptClient :: "io \<Rightarrow> fmt_lib \<Rightarrow> connection \<Rightarrow> (connection \<times> bool) res" where
  "acceptClient w F conn =
     (let fd = fst (io_accept w); found = (\<lambda>desc. Inr (conn\<lparr>client_fd := fd, client_desc := desc\<rparr>, True)) in
      if fd < 0 then Inr (conn, False)
      else case snd (io_accept w) of
        Peer_INET6 addrlen addrstr port \<Rightarrow>
          require (addrlen = sizeof_sockaddr_in6) (
          case addrstr of
            None \<Rightarrow> Inr (conn, False)
          | Some a \<Rightarrow> found (''['' @ a @ '']:'' @ fmt_dec F (uint port)))
      | Peer_INET addrlen addrstr port \<Rightarrow>
          require (addrlen = sizeof_sockaddr_in) (
          case addrstr of
            None \<Rightarrow> Inr (conn, False)
          | Some a \<Rightarrow> found (a @ '':'' @ fmt_dec F (uint port)))
      | Peer_UNIX sun_path \<Rightarrow> require (sun_path = []) (found ''unknown(local)'')
      | Peer_other \<Rightarrow> found [])"

definition connectToServer :: "io \<Rightarrow> family \<Rightarrow> int res" where
  \<comment> \<open>a failing \<open>connect\<close> is reported with the description of the socket\<close>
  "connectToServer w ai_family =
     (if io_socket w < 0 then Inr UNINIT_FD
      else if ai_family \<in> {AF_INET6, AF_INET} \<and> \<not> io_setsockopt w then Inr UNINIT_FD
      else if \<not> io_connect w then require (ai_family \<noteq> AF_other) (Inr UNINIT_FD)
      else Inr (io_socket w))"

definition addConnection :: "io \<Rightarrow> connection \<Rightarrow> proxy_server \<Rightarrow> proxy_server res" where
  \<comment> \<open>the last lines of \<open>_openConnection\<close>; \<open>emplace\<close> leaves an entry that is already there\<close>
  "addConnection w conn s =
     (let i = sint (conn_id conn);
          conns = (if i \<in> fst ` set (connections s) then connections s
                   else io_rehash w ((i, conn) # connections s)) in
      and_then (addSocketToPoll (client_fd conn) POLLNONE (poll_info s)) (\<lambda>t1.
      and_then (addSocketToPoll (server_fd conn) POLLNONE t1) (\<lambda>t2.
      Inr (s\<lparr>connections := conns, poll_info := t2\<rparr>))))"

definition openConnection :: "io \<Rightarrow> proxy_server \<Rightarrow> proxy_server res" where
  "openConnection w s =
     (let (conn, n) = Connection_new (next_id s) (io_now w); s1 = s\<lparr>next_id := n\<rparr> in
      and_then (acceptClient w (fmtl (parser_of s)) conn) (\<lambda>(conn1, accepted).
      if \<not> accepted then Inr s1
      else require (client_fd conn1 > listener_fd s) (
           require (client_desc conn1 \<noteq> []) (
           and_then (connectToServer w (out_family s)) (\<lambda>fd.
           if fd = - 1 then map_res (\<lambda>_. s1) (closeClientSide (io_close w) (conn1\<lparr>server_fd := fd\<rparr>))
           else require (fd > listener_fd s) (addConnection w (conn1\<lparr>server_fd := fd\<rparr>) s1))))))"

subsection \<open>The queue\<close>

definition processPolledSockets :: "io \<Rightarrow> proxy_server \<Rightarrow> proxy_server res" where
  "processPolledSockets w s =
     and_then (serve_connections w (poll_info s) (parser_of s) (connections s)) (\<lambda>(P, conns, lg, ids).
     and_then (closeConnections (io_close w) ids
       (s\<lparr>parser_of := P, connections := conns, log_out := log_out s @ lg\<rparr>)) (\<lambda>s1.
     and_then (socketReadReady (poll_info s1) (listener_fd s1)) (\<lambda>read_ready.
     if read_ready then openConnection w s1
     else map_res (\<lambda>_. s1) (socketPollError (poll_info s1) (listener_fd s1)))))"

text \<open>
  A turn of the queue. \<open>poll(2)\<close> answers with an \<open>errno\<close> or with the \<open>revents\<close> of each
  descriptor; the child process may end at any time.
\<close>

record round =
  child_running :: bool
  poll_result :: "nat + (int \<Rightarrow> 16 word)"
  round_io :: io

definition EINTR :: nat where "EINTR = 4"

datatype queue_state =
    Running proxy_server
  | Returned int proxy_server

definition queue_turn :: "(bool \<times> int) \<Rightarrow> round \<Rightarrow> proxy_server \<Rightarrow> queue_state res" where
  \<comment> \<open>the first argument: \<open>_child_used\<close>, and \<open>child_retval\<close> when the loop ends\<close>
  "queue_turn child r s =
     (let keep = keeprunning (settings (parser_of s)) in
      if \<not> (child_running r \<or> connections s \<noteq> [] \<or> keep)
      then Inr (Returned (if fst child \<and> \<not> keep then snd child else 0) s)
      else and_then (updatePollFlags (connections s) (poll_info s)) (\<lambda>t.
           case poll_result r of
             Inl err \<Rightarrow>
               if err \<noteq> 0 \<and> err \<noteq> EINTR then Inr (Returned 1 (s\<lparr>poll_info := t\<rparr>))
               else Inr (Running (s\<lparr>poll_info := t\<rparr>))
           | Inr revents \<Rightarrow>
               map_res Running (processPolledSockets (round_io r) (s\<lparr>poll_info := polled revents t\<rparr>))))"

fun queue_run :: "(bool \<times> int) \<Rightarrow> round list \<Rightarrow> proxy_server \<Rightarrow> queue_state res" where
  "queue_run child [] s = Inr (Running s)"
| "queue_run child (r # rs) s =
     and_then (queue_turn child r s) (\<lambda>q.
     case q of Running s' \<Rightarrow> queue_run child rs s' | Returned v s' \<Rightarrow> Inr (Returned v s'))"

definition processClientQueue :: "(bool \<times> int) \<Rightarrow> round list \<Rightarrow> proxy_server \<Rightarrow> queue_state res" where
  \<comment> \<open>after the given rounds\<close>
  "processClientQueue child rs s =
     and_then (addSocketToPoll (listener_fd s) (POLLPRI OR POLLIN) (poll_info s)) (\<lambda>t.
     queue_run child rs (s\<lparr>poll_info := t\<rparr>))"

definition ProxyX11Server_new :: "int \<Rightarrow> family \<Rightarrow> parser \<Rightarrow> proxy_server" where
  \<comment> \<open>once it listens\<close>
  "ProxyX11Server_new fd ai_family P =
     \<lparr>connections = [], next_id = 0, poll_info = \<lparr>pfds = [], pfds_i_by_fd = []\<rparr>,
      listener_fd = fd, out_family = ai_family, parser_of = P, log_out = []\<rparr>"

subsection \<open>Polling flags of every socket\<close>

definition conn_fds :: "(int \<times> connection) list \<Rightarrow> int list" where
  "conn_fds conns = concat (map (\<lambda>(_, c). [client_fd c, server_fd c]) conns)"

lemma conn_fds_simps [simp]:
  "conn_fds [] = []"
  "conn_fds ((i, c) # conns) = client_fd c # server_fd c # conn_fds conns"
  by (simp_all add: conn_fds_def)

lemma conn_fds_mem:
  "(i, c) \<in> set conns \<Longrightarrow> client_fd c \<in> set (conn_fds conns) \<and> server_fd c \<in> set (conn_fds conns)"
  by (force simp: conn_fds_def)

text \<open>What a socket of a connection is polled for.\<close>

definition wanted :: "socket_buffer \<Rightarrow> socket_buffer \<Rightarrow> 16 word" where
  \<comment> \<open>by the buffer that is read from the socket, and the one that is written to it\<close>
  "wanted b_in b_out =
     POLLPRI OR (if readReady b_in then POLLIN else 0) OR (if readReady b_out then 0 else POLLOUT)"

lemma poll_bits:
  "(POLLPRI OR POLLOUT) OR POLLIN = POLLPRI OR POLLIN OR POLLOUT"
  "(POLLPRI OR POLLIN) OR POLLOUT = POLLPRI OR POLLIN OR POLLOUT"
  "POLLIN OR 0 = POLLIN" "POLLPRI OR 0 = POLLPRI"
  by (simp_all add: POLLPRI_def POLLOUT_def POLLIN_def)

definition retag :: "16 word option \<Rightarrow> pollfd \<Rightarrow> pollfd" where
  "retag e p = (case e of None \<Rightarrow> p | Some e \<Rightarrow> p\<lparr>pfd_events := e\<rparr>)"

lemma retag_simps [simp]:
  "retag None p = p"
  "retag e (retag (Some e') p) = retag (case e of None \<Rightarrow> Some e' | Some _ \<Rightarrow> e) p"
  "pfd_revents (retag e p) = pfd_revents p" "pfd_fd (retag e p) = pfd_fd p"
  "pfd_events (retag (Some e') p) = e'"
  by (simp_all add: retag_def split: option.split)

lemma retag_id: "map_res (retag None) r = r"
  by (cases r) simp_all

definition events_set :: "(int \<Rightarrow> 16 word option) \<Rightarrow> poll_state \<Rightarrow> poll_state \<Rightarrow> bool" where
  \<comment> \<open>the events of some descriptors are assigned, nothing else is changed\<close>
  "events_set ev t t' \<longleftrightarrow> poll_table t' \<and> descriptors t' = descriptors t \<and>
     (\<forall>fd. pfd_of t' fd =
        map_res (retag (ev fd)) (pfd_of t fd))"

lemma set_events_conn:
  assumes t: "poll_table t" and fds: "client_fd c \<in> descriptors t" "server_fd c \<in> descriptors t"
    and distinct: "client_fd c \<noteq> server_fd c"
    and ready: "readReady (client_buffer c) \<or> writeReady (client_buffer c)"
      "readReady (server_buffer c) \<or> writeReady (server_buffer c)"
  shows "\<exists>t'. updatePollFlags_conn c t = Inr t' \<and> events_set
    [client_fd c \<mapsto> wanted (client_buffer c) (server_buffer c),
     server_fd c \<mapsto> wanted (server_buffer c) (client_buffer c)] t t'"
proof -
  let ?cf = "client_fd c" and ?sf = "server_fd c"
  let ?c = "\<lambda>P. if P then ?cf else ?sf"
  obtain t1 where t1: "set_events ?cf (\<lambda>_. POLLPRI) t = Inr t1" "poll_table t1" "descriptors t1 = descriptors t"
    "\<And>fd. pfd_of t1 fd = map_res (\<lambda>p. if fd = ?cf then p\<lparr>pfd_events := POLLPRI\<rparr> else p) (pfd_of t fd)"
    using set_events_keeps [OF t fds(1)] by blast
  have in1: "?cf \<in> descriptors t1" "?sf \<in> descriptors t1"
    using fds t1(3) by simp_all
  obtain t2 where t2: "set_events ?sf (\<lambda>_. POLLPRI) t1 = Inr t2" "poll_table t2" "descriptors t2 = descriptors t1"
    "\<And>fd. pfd_of t2 fd = map_res (\<lambda>p. if fd = ?sf then p\<lparr>pfd_events := POLLPRI\<rparr> else p) (pfd_of t1 fd)"
    using set_events_keeps [OF t1(2) in1(2)] by blast
  let ?x = "if readReady (client_buffer c) then ?cf else ?sf"
  let ?e = "if readReady (client_buffer c) then POLLIN else POLLOUT"
  have "?x \<in> descriptors t2"
    using in1 t2(3) by simp
  from set_events_keeps [OF t2(2) this] obtain t3 where
    t3: "set_events ?x (\<lambda>e. e OR ?e) t2 = Inr t3" "poll_table t3" "descriptors t3 = descriptors t2"
    "\<And>fd. pfd_of t3 fd = map_res (\<lambda>p. if fd = ?x then p\<lparr>pfd_events := pfd_events p OR ?e\<rparr> else p) (pfd_of t2 fd)"
    by blast
  let ?y = "if readReady (server_buffer c) then ?sf else ?cf"
  let ?f = "if readReady (server_buffer c) then POLLIN else POLLOUT"
  have "?y \<in> descriptors t3"
    using in1 t2(3) t3(3) by simp
  from set_events_keeps [OF t3(2) this] obtain t4 where
    t4: "set_events ?y (\<lambda>e. e OR ?f) t3 = Inr t4" "poll_table t4" "descriptors t4 = descriptors t3"
    "\<And>fd. pfd_of t4 fd = map_res (\<lambda>p. if fd = ?y then p\<lparr>pfd_events := pfd_events p OR ?f\<rparr> else p) (pfd_of t3 fd)"
    by blast
  have "poll_buffer ?cf ?sf (client_buffer c) t2 = Inr t3" "poll_buffer ?sf ?cf (server_buffer c) t3 = Inr t4"
    using t3(1) t4(1) ready by (auto simp: poll_buffer_def split: if_splits)
  moreover have "is_ok (pfd_of t ?cf)" "is_ok (pfd_of t ?sf)"
    using pfd_of_found [of t] t fds unfolding poll_table_def is_ok_def by blast+
  ultimately have "updatePollFlags_conn c t = Inr t4"
    using t1(1) t2(1) by (auto simp: updatePollFlags_conn_def is_ok_def)
  moreover have "pfd_of t4 fd = map_res (retag ([?cf \<mapsto> wanted (client_buffer c) (server_buffer c),
      ?sf \<mapsto> wanted (server_buffer c) (client_buffer c)] fd)) (pfd_of t fd)" for fd
    using distinct
    by (cases "pfd_of t fd"; cases "fd = ?cf"; cases "fd = ?sf")
      (auto simp: t1(4) t2(4) t3(4) t4(4) wanted_def poll_bits retag_def)
  ultimately show ?thesis
    using t1(3) t2(3) t3(3) t4(2,3) by (auto simp: events_set_def)
qed

definition all_wanted :: "(int \<times> connection) list \<Rightarrow> (int \<rightharpoonup> 16 word)" where
  "all_wanted conns = map_of (concat (map (\<lambda>(_, c).
     [(client_fd c, wanted (client_buffer c) (server_buffer c)),
      (server_fd c, wanted (server_buffer c) (client_buffer c))]) conns))"

lemma all_wanted_outside: "fd \<notin> set (conn_fds conns) \<Longrightarrow> all_wanted conns fd = None"
  by (auto simp: all_wanted_def conn_fds_def map_of_eq_None_iff)

lemma all_wanted_simps:
  "all_wanted [] = Map.empty"
  "all_wanted ((i, c) # conns) = all_wanted conns ++
     [server_fd c \<mapsto> wanted (server_buffer c) (client_buffer c),
      client_fd c \<mapsto> wanted (client_buffer c) (server_buffer c)]"
  by (simp_all add: all_wanted_def)

lemma all_wanted_inside:
  assumes "distinct (conn_fds conns)" and "(i, c) \<in> set conns"
  shows "all_wanted conns (client_fd c) = Some (wanted (client_buffer c) (server_buffer c))"
    and "all_wanted conns (server_fd c) = Some (wanted (server_buffer c) (client_buffer c))"
proof -
  have "all_wanted conns (client_fd c) = Some (wanted (client_buffer c) (server_buffer c)) \<and>
      all_wanted conns (server_fd c) = Some (wanted (server_buffer c) (client_buffer c))"
    using assms
  proof (induction conns)
    case (Cons ic conns)
    then show ?case
      using conn_fds_mem [of i c conns] by (cases ic) (auto simp: all_wanted_simps map_add_Some_iff)
  qed simp
  then show "all_wanted conns (client_fd c) = Some (wanted (client_buffer c) (server_buffer c))"
    "all_wanted conns (server_fd c) = Some (wanted (server_buffer c) (client_buffer c))"
    by simp_all
qed

lemma updatePollFlags_sets:
  assumes "poll_table t" and "set (conn_fds conns) \<subseteq> descriptors t" and "distinct (conn_fds conns)"
    and "\<forall>(i, c) \<in> set conns. served (client_buffer c) \<and> served (server_buffer c)"
  shows "\<exists>t'. updatePollFlags conns t = Inr t' \<and> events_set (all_wanted conns) t t'"
  using assms
proof (induction conns arbitrary: t)
  case Nil
  then show ?case
    by (simp add: events_set_def all_wanted_simps retag_id)
next
  case (Cons ic conns)
  obtain i c where ic: "ic = (i, c)"
    by (cases ic)
  with Cons.prems obtain t1 where t1: "updatePollFlags_conn c t = Inr t1" "events_set
      [client_fd c \<mapsto> wanted (client_buffer c) (server_buffer c),
       server_fd c \<mapsto> wanted (server_buffer c) (client_buffer c)] t t1"
    using set_events_conn [of t c] served_ready by auto
  have "poll_table t1" "set (conn_fds conns) \<subseteq> descriptors t1"
    using t1(2) Cons.prems(2) ic by (auto simp: events_set_def)
  with Cons.IH [of t1] Cons.prems ic obtain t' where
    t': "updatePollFlags conns t1 = Inr t'" "events_set (all_wanted conns) t1 t'"
    by auto
  have "client_fd c \<noteq> server_fd c" "client_fd c \<notin> set (conn_fds conns)" "server_fd c \<notin> set (conn_fds conns)"
    using Cons.prems(3) ic by auto
  then have "pfd_of t' fd = map_res (retag (all_wanted (ic # conns) fd)) (pfd_of t fd)" for fd
    unfolding t'(2) [unfolded events_set_def, THEN conjunct2, THEN conjunct2, rule_format]
      t1(2) [unfolded events_set_def, THEN conjunct2, THEN conjunct2, rule_format] ic
    by (cases "pfd_of t fd"; cases "fd = client_fd c"; cases "fd = server_fd c")
      (simp_all add: all_wanted_simps all_wanted_outside map_add_def split: option.split)
  then have "events_set (all_wanted (ic # conns)) t t'"
    using t1(2) t'(2) by (auto simp: events_set_def)
  with t1(1) t'(1) ic show ?case
    by simp
qed

subsection \<open>One side of a connection\<close>

text \<open>
  What is needed of a side: its two buffers are different places, and the parser handles the
  buffer that was read into, leaves the other one and the sockets alone, and parses all that is
  complete.
\<close>

definition sound :: "connection \<Rightarrow> bool" where
  "sound c \<longleftrightarrow> served (client_buffer c) \<and> served (server_buffer c)"

lemma read_all_appends:
  assumes "served b" and "read_all recv b = Inr (b', k, None)"
  shows "wf_buffer b'" and "\<exists>n bs. recv n = Inr bs \<and> k = of_nat (length bs) \<and> content b' = content b @ bs"
proof -
  obtain n where "read_n recv n b = Inr (b', k, None)"
    using assms(2) by (simp add: read_all_def Let_def)
  moreover have "wf_buffer b"
    using assms(1) by (simp add: served_def)
  ultimately obtain bs where "wf_buffer b'" "recv n = Inr bs" "k = of_nat (length bs)" "content b' = content b @ bs"
    using read_n_law by blast
  then show "wf_buffer b'" "\<exists>n bs. recv n = Inr bs \<and> k = of_nat (length bs) \<and> content b' = content b @ bs"
    by blast+
qed

locale proxied_side =
  fixes D :: side
  assumes buffers [simp]:
      "in_buffer D (set_in_buffer D b c) = b" "out_buffer D (set_in_buffer D b c) = out_buffer D c"
      "out_buffer D (set_out_buffer D b c) = b" "in_buffer D (set_out_buffer D b c) = in_buffer D c"
    and sockets [simp]:
      "same_sockets c (set_in_buffer D b c') = same_sockets c c'"
      "same_sockets c (set_out_buffer D b c') = same_sockets c c'"
    and sound_iff: "sound c \<longleftrightarrow> served (in_buffer D c) \<and> served (out_buffer D c)"
    and logged: "log_messages D P c = Inr (P', c', n, lg, None) \<Longrightarrow> wf_buffer (in_buffer D c) \<Longrightarrow>
      same_sockets c c' \<and> out_buffer D c' = out_buffer D c \<and> served (in_buffer D c')"
    and logged_sockets: "log_messages D P c = Inr (P', c', n, lg, err) \<Longrightarrow> wf_buffer (in_buffer D c) \<Longrightarrow>
      same_sockets c c'"
begin

lemma logged_after_read:
  "log_messages D P (set_in_buffer D b c) = Inr (P', c', n, lg, err) \<Longrightarrow> wf_buffer b \<Longrightarrow> same_sockets c c'"
  "log_messages D P (set_in_buffer D b c) = Inr (P', c', n, lg, err) \<Longrightarrow> wf_buffer b \<Longrightarrow>
     served (out_buffer D c) \<Longrightarrow> err \<noteq> None \<or> sound c'"
proof -
  assume l: "log_messages D P (set_in_buffer D b c) = Inr (P', c', n, lg, err)" and b: "wf_buffer b"
  then have "same_sockets (set_in_buffer D b c) c'"
    using logged_sockets [OF l] by simp
  moreover have "same_sockets c (set_in_buffer D b c)"
    by simp
  ultimately show "same_sockets c c'"
    using same_sockets_trans by blast
next
  assume "log_messages D P (set_in_buffer D b c) = Inr (P', c', n, lg, err)" and "wf_buffer b"
    and "served (out_buffer D c)"
  then show "err \<noteq> None \<or> sound c'"
    using logged [of P "set_in_buffer D b c" P' c' n lg] by (cases err) (simp_all add: sound_iff)
qed

lemma serve_side_sockets:
  assumes "serve_side D w t P c = Inr (P', c', lg, closing)" and "sound c"
  shows "same_sockets c c'"
proof -
  have "served (in_buffer D c)"
    using assms(2) by (simp add: sound_iff)
  note wf = read_all_appends(1) [OF this]
  show ?thesis
    using assms(1) unfolding serve_side_def Let_def
    by (auto elim!: parser_elims ifE dest!: wf dest: logged_after_read(1))
qed

lemma serve_side_sound:
  assumes "serve_side D w t P c = Inr (P', c', lg, False)" and "sound c"
  shows "sound c'"
proof -
  have s: "served (in_buffer D c)" "served (out_buffer D c)"
    using assms(2) by (simp_all add: sound_iff)
  note wf = read_all_appends(1) [OF s(1)]
  show ?thesis
    using assms(1) s unfolding serve_side_def Let_def
    by (auto elim!: parser_elims ifE dest!: wf dest: logged_after_read(2) [OF _ _ s(2)] intro: assms(2))
      (auto simp: sound_iff intro: write_all_served(1))
qed

end

lemma side_simps [simp]:
  "side_fd client_side = client_fd" "in_buffer client_side = client_buffer"
  "set_in_buffer client_side = (\<lambda>b c. c\<lparr>client_buffer := b\<rparr>)" "out_buffer client_side = server_buffer"
  "set_out_buffer client_side = (\<lambda>b c. c\<lparr>server_buffer := b\<rparr>)" "log_messages client_side = client_messages"
  "side_fd server_side = server_fd" "in_buffer server_side = server_buffer"
  "set_in_buffer server_side = (\<lambda>b c. c\<lparr>server_buffer := b\<rparr>)" "out_buffer server_side = client_buffer"
  "set_out_buffer server_side = (\<lambda>b c. c\<lparr>client_buffer := b\<rparr>)" "log_messages server_side = server_messages"
  by (simp_all add: client_side_def server_side_def)

interpretation client: proxied_side client_side
  by unfold_locales
    (auto simp: sound_def client.in_transit_def dest: client_messages_transit)

interpretation server: proxied_side server_side
  by unfold_locales
    (auto simp: sound_def server.in_transit_def dest: server_messages_transit)

lemma serve_connection_keeps:
  assumes "serve_connection w t P c = Inr (P', c', lg, closing)" and "sound c"
  shows "same_sockets c c'" and "\<not> closing \<Longrightarrow> sound c'"
proof -
  from assms(1) obtain P1 c1 lg1 closing1 where one: "serve_side client_side w t P c = Inr (P1, c1, lg1, closing1)"
    and rest: "closing1 \<and> c' = c1 \<and> closing \<or>
      \<not> closing1 \<and> (\<exists>lg2. serve_side server_side w t P1 c1 = Inr (P', c', lg2, closing))"
    by (auto simp: serve_connection_def elim!: parser_elims split: if_splits)
  have c1: "same_sockets c c1" "\<not> closing1 \<Longrightarrow> sound c1"
    using client.serve_side_sockets [OF one assms(2)] client.serve_side_sound [of w t P c P1 c1 lg1] one assms(2)
    by simp_all
  show "same_sockets c c'"
    using rest c1 server.serve_side_sockets same_sockets_trans by blast
  show "sound c'" if "\<not> closing"
    using rest c1(2) server.serve_side_sound [of w t P1 c1 P' c'] that by auto
qed

text \<open>Every connection keeps its place and its sockets; the ones that are not to be closed stay sound.\<close>

lemma serve_connections_keeps:
  assumes "serve_connections w t P conns = Inr (P', conns', lg, ids)" and "\<forall>(i, c) \<in> set conns. sound c"
  shows "map fst conns' = map fst conns \<and> conn_fds conns' = conn_fds conns \<and> set ids \<subseteq> fst ` set conns \<and>
    (distinct (map fst conns) \<longrightarrow> distinct ids \<and> (\<forall>(i, c) \<in> set conns'. i \<in> set ids \<or> sound c))"
  using assms
proof (induction w t P conns arbitrary: P' conns' lg ids rule: serve_connections.induct)
  case (2 w t P i c conns)
  from "2.prems"(1) obtain P1 c1 lg1 closing conns2 lg2 ids2 where
    one: "serve_connection w t P c = Inr (P1, c1, lg1, closing)"
    and two: "serve_connections w t P1 conns = Inr (P', conns2, lg2, ids2)"
    and eqs: "conns' = (i, c1) # conns2" "ids = (if closing then [i] else []) @ ids2"
    by (auto elim!: parser_elims)
  have rest: "\<forall>(i, c) \<in> set conns. sound c" and c: "sound c"
    using "2.prems"(2) by simp_all
  note IH = "2.IH" [OF two rest]
  show ?case
    using IH serve_connection_keeps [OF one c] eqs by (auto simp: same_sockets_def)
qed simp

subsection \<open>The invariant of the server\<close>

text \<open>
  The poll table has exactly the listening socket and the two sockets of every connection, all of
  them different; \<open>linked\<close> holds also while connections are being closed. The keys of the
  connections are the serial numbers given out so far.
\<close>

definition linked :: "proxy_server \<Rightarrow> bool" where
  "linked s \<longleftrightarrow> indexed (poll_info s) \<and>
     descriptors (poll_info s) = insert (listener_fd s) (set (conn_fds (connections s))) \<and>
     distinct (conn_fds (connections s)) \<and> (\<forall>fd \<in> set (conn_fds (connections s)). listener_fd s < fd) \<and>
     0 \<le> listener_fd s \<and> distinct (map fst (connections s))"

definition proxy_ok :: "proxy_server \<Rightarrow> bool" where
  "proxy_ok s \<longleftrightarrow> linked s \<and> poll_table (poll_info s) \<and> (\<forall>(i, c) \<in> set (connections s). sound c)"

definition issued :: "nat \<Rightarrow> proxy_server \<Rightarrow> bool" where
  "issued m s \<longleftrightarrow> next_id s = of_nat m \<and>
     (\<forall>i \<in> fst ` set (connections s). \<exists>j < m. i = sint (of_nat j :: 32 word))"

definition numbered :: "nat \<Rightarrow> proxy_server \<Rightarrow> bool" where
  "numbered n s \<longleftrightarrow> (\<exists>m \<le> n. issued m s)"

lemma issued_next:
  assumes "issued m s" and "next_id s' = next_id s + 1"
    and "fst ` set (connections s') \<subseteq> insert (sint (of_nat m :: 32 word)) (fst ` set (connections s))"
  shows "issued (Suc m) s'"
  unfolding issued_def
proof (intro conjI ballI)
  show "next_id s' = of_nat (Suc m)"
    using assms(1,2) by (simp add: issued_def)
  fix i assume "i \<in> fst ` set (connections s')"
  with assms(1,3) have "i = sint (of_nat m :: 32 word) \<or> (\<exists>j < m. i = sint (of_nat j :: 32 word))"
    unfolding issued_def by blast
  then show "\<exists>j < Suc m. i = sint (of_nat j :: 32 word)"
    using less_SucI by blast
qed

lemma numbered_next:
  assumes "numbered n s" and "connections s' = connections s" and "next_id s' = next_id s + 1"
  shows "numbered (Suc n) s'"
proof -
  obtain m where "m \<le> n" "issued m s"
    using assms(1) by (auto simp: numbered_def)
  moreover from this(2) have "issued (Suc m) s'"
    using assms(2,3) by (intro issued_next) auto
  ultimately show ?thesis
    unfolding numbered_def by (intro exI [of _ "Suc m"]) simp
qed

lemma numbered_same:
  assumes "numbered n s" and "fst ` set (connections s') \<subseteq> fst ` set (connections s)"
    and "next_id s' = next_id s" and "n \<le> n'"
  shows "numbered n' s'"
proof -
  obtain m where "m \<le> n" "issued m s"
    using assms(1) by (auto simp: numbered_def)
  moreover from this(2) have "issued m s'"
    using assms(2,3) unfolding issued_def by (metis subsetD)
  ultimately show ?thesis
    unfolding numbered_def using assms(4) by (intro exI [of _ m]) simp
qed

lemma conn_fds_mset:
  assumes "mset conns = mset conns'"
  shows "mset (conn_fds conns) = mset (conn_fds conns')"
proof -
  have "mset (conn_fds xs) = sum_mset (image_mset (\<lambda>(_, c). {#client_fd c, server_fd c#}) (mset xs))" for xs
    by (induction xs) (auto simp: conn_fds_def)
  with assms show ?thesis
    by simp
qed

lemma conn_fds_erased:
  assumes "distinct (map fst conns)" and "distinct (conn_fds conns)" and "map_of conns i = Some c"
  shows "set (conn_fds (map_erase i conns)) = set (conn_fds conns) - {client_fd c, server_fd c}"
    and "distinct (conn_fds (map_erase i conns))"
proof -
  have sub: "set (conn_fds (map_erase i conns)) \<subseteq> set (conn_fds conns)" for i conns
    by (auto simp: conn_fds_def map_erase_def)
  have "set (conn_fds (map_erase i conns)) = set (conn_fds conns) - {client_fd c, server_fd c} \<and>
      distinct (conn_fds (map_erase i conns))"
    using assms
  proof (induction conns)
    case (Cons ic conns)
    obtain j d where ic: "ic = (j, d)"
      by (cases ic)
    show ?case
    proof (cases "j = i")
      case True
      then have "map_erase i (ic # conns) = conns"
        using Cons.prems(1) ic by (force simp: map_erase_def intro!: filter_True)
      with True Cons.prems ic show ?thesis
        by auto
    next
      case False
      then have "map_erase i (ic # conns) = ic # map_erase i conns"
        by (simp add: map_erase_def ic)
      moreover have "(i, c) \<in> set conns"
        using Cons.prems(3) False ic by (simp add: map_of_SomeD)
      ultimately show ?thesis
        using Cons.IH Cons.prems False ic sub [of i conns] conn_fds_mem [of i c conns] by auto
    qed
  qed simp
  then show "set (conn_fds (map_erase i conns)) = set (conn_fds conns) - {client_fd c, server_fd c}"
    and "distinct (conn_fds (map_erase i conns))"
    by simp_all
qed

subsection \<open>Closing keeps the invariant\<close>

lemma closeConnections_loop_keeps:
  assumes "closeConnections_loop close ids s = Inr s'" and "linked s"
  shows "linked s' \<and> connections s' = filter (\<lambda>(i, _). i \<notin> set ids) (connections s) \<and>
    listener_fd s' = listener_fd s \<and> next_id s' = next_id s"
  using assms
proof (induction ids arbitrary: s)
  case (Cons i ids)
  let ?erase = "\<lambda>fd t. t\<lparr>pfds_i_by_fd := map_erase fd (pfds_i_by_fd t)\<rparr>"
  from Cons.prems(1) obtain c c1 c2 where c: "map_of (connections s) i = Some c"
    and steps: "closeClientSide close c = Inr c1" "closeServerSide close c1 = Inr c2"
    and rest: "closeConnections_loop close ids
      ((server_line (discarded_line c (server_buffer c) SERVER_TO_CLIENT)
         (server_line (discarded_line c (client_buffer c) CLIENT_TO_SERVER) s))
       \<lparr>poll_info := ?erase (server_fd c) (?erase (client_fd c) (poll_info s)),
        connections := map_erase i (connections s)\<rparr>) = Inr s'" (is "closeConnections_loop _ _ ?s = _")
    by (auto simp: Let_def lookup_at_def server_line_def elim!: parser_elims split: option.splits)
  note l = Cons.prems(2) [unfolded linked_def]
  have idx: "indexed (poll_info ?s)"
    and desc: "descriptors (poll_info ?s) = descriptors (poll_info s) - {client_fd c} - {server_fd c}"
    using erase_keeps [of "poll_info s" "client_fd c"] l
      erase_keeps [of "?erase (client_fd c) (poll_info s)" "server_fd c"] by simp_all
  note fds = conn_fds_erased [OF _ _ c]
  from conn_fds_mem [OF map_of_SomeD [OF c]] have "listener_fd s \<noteq> client_fd c" "listener_fd s \<noteq> server_fd c"
    using l by auto
  moreover have "distinct (map fst (map_erase i (connections s)))"
    using l by (simp add: map_erase_def distinct_map_filter)
  ultimately have "linked ?s"
    using l idx desc fds unfolding linked_def by (auto simp: server_line_def)
  from Cons.IH [OF rest this] show ?case
    by (simp add: server_line_def map_erase_def split_beta conj_commute)
qed simp

lemma closeConnections_keeps:
  assumes "closeConnections close ids s = Inr s'" and "linked s"
  shows "linked s' \<and> poll_table (poll_info s') \<and> listener_fd s' = listener_fd s \<and> next_id s' = next_id s \<and>
    connections s' = filter (\<lambda>(i, _). i \<notin> set ids) (connections s)"
proof -
  from assms(1) obtain s1 t where s1: "closeConnections_loop close ids s = Inr s1"
    and t: "compact_pfds (poll_info s1) = Inr t" and s': "s' = s1\<lparr>poll_info := t\<rparr>"
    by (auto simp: closeConnections_def elim!: parser_elims)
  note keeps = closeConnections_loop_keeps [OF s1 assms(2)]
  then have "indexed (poll_info s1)" "pfds_i_by_fd (poll_info s1) \<noteq> []"
    by (auto simp: linked_def descriptors_def)
  from compact_pfds_ok [OF this] t have "poll_table t" "descriptors t = descriptors (poll_info s1)"
    by auto
  with keeps show ?thesis
    by (auto simp: s' linked_def poll_table_def)
qed

subsection \<open>Opening keeps the invariant\<close>

lemma acceptClient_result:
  "acceptClient w F c = Inr (c', ok) \<Longrightarrow>
   conn_id c' = conn_id c \<and> client_buffer c' = client_buffer c \<and> server_buffer c' = server_buffer c"
  by (auto simp: acceptClient_def Let_def split: if_splits peer.splits option.splits)

lemma openConnection_cases:
  assumes "openConnection w s = Inr s'"
    and new: "Connection_new (next_id s) (io_now w) = (c0, k)"
  obtains (failed) "s' = s\<lparr>next_id := k\<rparr>"
  | (opened) c where "conn_id c = conn_id c0" "client_buffer c = client_buffer c0"
      "server_buffer c = server_buffer c0" "listener_fd s < client_fd c" "listener_fd s < server_fd c"
      "addConnection w c (s\<lparr>next_id := k\<rparr>) = Inr s'"
proof -
  from assms(1) consider c1 where "acceptClient w (fmtl (parser_of s)) c0 = Inr (c1, False)"
      and "s' = s\<lparr>next_id := k\<rparr>"
    | c1 fd where "acceptClient w (fmtl (parser_of s)) c0 = Inr (c1, True)" "listener_fd s < client_fd c1"
      and "fd = - 1" "s' = s\<lparr>next_id := k\<rparr>"
    | c1 fd where "acceptClient w (fmtl (parser_of s)) c0 = Inr (c1, True)" "listener_fd s < client_fd c1"
      and "fd > listener_fd s" "addConnection w (c1\<lparr>server_fd := fd\<rparr>) (s\<lparr>next_id := k\<rparr>) = Inr s'"
    unfolding openConnection_def new Let_def prod.case by (auto elim!: parser_elims split: if_splits)
  then show ?thesis
  proof cases
    case (3 c1 fd)
    with acceptClient_result [OF 3(1)] show ?thesis
      by (intro opened [of "c1\<lparr>server_fd := fd\<rparr>"]) simp_all
  qed (use failed in simp_all)
qed

lemma openConnection_keeps:
  assumes "openConnection w s = Inr s'" and ok: "proxy_ok s" and n: "numbered n s" "n < 2 ^ 32"
    and perm: "\<And>xs. mset (io_rehash w xs) = mset xs"
  shows "proxy_ok s' \<and> numbered (Suc n) s'"
proof -
  let ?c = "fst (Connection_new (next_id s) (io_now w))" and ?s = "s\<lparr>next_id := next_id s + 1\<rparr>"
  have s: "proxy_ok ?s" "numbered (Suc n) ?s"
    using ok n numbered_next [OF n(1)] by (simp_all add: proxy_ok_def linked_def)
  have new: "Connection_new (next_id s) (io_now w) = (?c, next_id s + 1)"
    by (simp add: Connection_new_def)
  from assms(1) new show ?thesis
  proof (cases rule: openConnection_cases)
    case failed
    with s show ?thesis
      by simp
  next
    case (opened c)
    note c = opened(1-3) and fds = opened(4,5)
    obtain m where m: "m \<le> n" "issued m s"
      using n(1) by (auto simp: numbered_def)
    let ?i = "sint (of_nat m :: 32 word)" and ?conns = "io_rehash w ((sint (conn_id c), c) # connections s)"
    have i: "sint (conn_id c) = ?i"
      using c(1) m(2) by (simp add: Connection_new_def issued_def)
    have "?i \<noteq> sint (of_nat j :: 32 word)" if "j < m" for j
    proof
      assume "?i = sint (of_nat j :: 32 word)"
      then have "(of_nat m :: 32 word) = of_nat j"
        by (simp add: signed_word_eqI)
      then show False
        using that m(1) n(2) by (simp add: word_of_nat_eq_iff take_bit_nat_eq_self)
    qed
    then have fresh: "sint (conn_id c) \<notin> fst ` set (connections s)"
      using m(2) i by (auto simp: issued_def)
    then obtain t1 t2 where add: "addSocketToPoll (client_fd c) POLLNONE (poll_info s) = Inr t1"
        "addSocketToPoll (server_fd c) POLLNONE t1 = Inr t2"
      and s': "s' = ?s\<lparr>connections := ?conns, poll_info := t2\<rparr>"
      using opened(6) new by (auto simp: addConnection_def Let_def elim!: parser_elims)
    note perm = perm [of "(sint (conn_id c), c) # connections s"]
    have set: "set ?conns = insert (sint (conn_id c), c) (set (connections s))"
      using arg_cong [OF perm, of set_mset] by simp
    have conn_set: "set (conn_fds ?conns) = {client_fd c, server_fd c} \<union> set (conn_fds (connections s))"
      using arg_cong [OF conn_fds_mset [OF perm], of set_mset] by auto
    have ids: "mset (map fst ?conns) = mset (sint (conn_id c) # map fst (connections s))"
      using arg_cong [OF perm, of "image_mset fst"] by simp
    note t1 = addSocketToPoll_keeps [OF _ add(1)]
    note t2 = addSocketToPoll_keeps [OF t1(1) add(2)]
    have poll: "poll_table (poll_info s)" and l: "linked s"
      using ok by (simp_all add: proxy_ok_def)
    then have distinct: "distinct (conn_fds ?conns)" "distinct (map fst ?conns)"
      using mset_eq_imp_distinct_iff [OF conn_fds_mset [OF perm]] mset_eq_imp_distinct_iff [OF ids]
        t1(2,3) t2(3) fresh by (auto simp: linked_def)
    have "sound c"
      using c by (simp add: sound_def Connection_new_def served_new)
    then have "proxy_ok s'"
      using ok t2(1) [OF poll] t2(2) [OF poll] t1(2) [OF poll] fds distinct conn_set set
      by (auto simp: s' proxy_ok_def linked_def poll_table_def)
    moreover have "numbered (Suc n) s'"
    proof -
      have "issued (Suc m) s'"
        by (rule issued_next [OF m(2)]) (use i set in \<open>auto simp: s'\<close>)
      then show ?thesis
        unfolding numbered_def using m(1) by (intro exI [of _ "Suc m"]) simp
    qed
    ultimately show ?thesis
      by simp
  qed
qed

subsection \<open>The queue keeps the invariant\<close>

lemma processPolledSockets_keeps:
  assumes "processPolledSockets w s = Inr s'" and ok: "proxy_ok s" and n: "numbered n s" "n < 2 ^ 32"
    and perm: "\<And>xs. mset (io_rehash w xs) = mset xs"
  shows "proxy_ok s' \<and> numbered (Suc n) s'"
proof -
  from assms(1) obtain P conns lg ids s1 where
    serve: "serve_connections w (poll_info s) (parser_of s) (connections s) = Inr (P, conns, lg, ids)"
    and close: "closeConnections (io_close w) ids
      (s\<lparr>parser_of := P, connections := conns, log_out := log_out s @ lg\<rparr>) = Inr s1"
    and last: "s' = s1 \<or> openConnection w s1 = Inr s'"
    unfolding processPolledSockets_def by (auto elim!: parser_elims split: if_splits)
  let ?s = "s\<lparr>parser_of := P, connections := conns, log_out := log_out s @ lg\<rparr>"
  have snd: "\<forall>(i, c) \<in> set (connections s). sound c" and l: "linked s"
    using ok by (simp_all add: proxy_ok_def)
  note served = serve_connections_keeps [OF serve snd]
  have "linked ?s"
    using l served by (simp add: linked_def)
  note closed = closeConnections_keeps [OF close this]
  have "proxy_ok s1"
    using closed served l by (auto simp: proxy_ok_def linked_def)
  moreover have "numbered n s1"
  proof -
    have "fst ` set conns = fst ` set (connections s)"
      using served by (metis set_map)
    then have "fst ` set (connections s1) \<subseteq> fst ` set (connections s)" "next_id s1 = next_id s"
      using closed by auto
    then show ?thesis
      using numbered_same [OF n(1)] by blast
  qed
  ultimately show ?thesis
    using last openConnection_keeps [OF _ _ _ n(2) perm] numbered_same [of n s1 s1 "Suc n"] by auto
qed

lemma queue_turn_keeps:
  assumes "queue_turn child r s = Inr (Running s')" and ok: "proxy_ok s" and n: "numbered n s" "n < 2 ^ 32"
    and perm: "\<And>xs. mset (io_rehash (round_io r) xs) = mset xs"
  shows "proxy_ok s' \<and> numbered (Suc n) s'"
proof -
  from assms(1) obtain t where t: "updatePollFlags (connections s) (poll_info s) = Inr t"
    and rest: "(case poll_result r of
         Inl err \<Rightarrow>
           if err \<noteq> 0 \<and> err \<noteq> EINTR then Inr (Returned 1 (s\<lparr>poll_info := t\<rparr>))
           else Inr (Running (s\<lparr>poll_info := t\<rparr>))
       | Inr revents \<Rightarrow>
           map_res Running (processPolledSockets (round_io r) (s\<lparr>poll_info := polled revents t\<rparr>))) =
      Inr (Running s')"
    unfolding queue_turn_def Let_def by (auto elim!: and_thenE split: if_splits)
  have then_state: "s' = s\<lparr>poll_info := t\<rparr> \<or>
      (\<exists>revents. processPolledSockets (round_io r) (s\<lparr>poll_info := polled revents t\<rparr>) = Inr s')"
  proof (cases "poll_result r")
    case (Inr revents)
    with rest show ?thesis
      by (auto elim!: parser_elims)
  qed (use rest in \<open>auto split: if_splits\<close>)
  have "poll_table t" "descriptors t = descriptors (poll_info s)"
    using updatePollFlags_sets [of "poll_info s" "connections s"] ok t
    by (auto simp: proxy_ok_def linked_def sound_def events_set_def)
  then have "proxy_ok (s\<lparr>poll_info := t\<rparr>)" "proxy_ok (s\<lparr>poll_info := polled revents t\<rparr>)" for revents
    using ok polled_keeps [of t revents] by (simp_all add: proxy_ok_def linked_def poll_table_def)
  moreover have "numbered n (s\<lparr>poll_info := t\<rparr>)" "numbered n (s\<lparr>poll_info := polled revents t\<rparr>)" for revents t
    using n(1) by (simp_all add: numbered_def issued_def)
  ultimately show ?thesis
    using then_state processPolledSockets_keeps [OF _ _ _ n(2) perm] numbered_same [of n _ _ "Suc n"] by fastforce
qed

lemma queue_run_keeps:
  assumes "queue_run child rs s = Inr (Running s')" and "proxy_ok s" and "numbered n s" and "n + length rs \<le> 2 ^ 32"
    and "\<forall>r \<in> set rs. \<forall>xs. mset (io_rehash (round_io r) xs) = mset xs"
  shows "proxy_ok s'"
  using assms
proof (induction rs arbitrary: s n)
  case (Cons r rs)
  then obtain s1 where "queue_turn child r s = Inr (Running s1)" "queue_run child rs s1 = Inr (Running s')"
    by (auto elim!: parser_elims split: queue_state.splits)
  with Cons show ?case
    using queue_turn_keeps [of child r s s1 n] by auto
qed simp

lemma processClientQueue_keeps:
  assumes "processClientQueue child rs (ProxyX11Server_new fd ai_family P) = Inr (Running s)" and "0 \<le> fd"
    and "length rs \<le> 2 ^ 32" and "\<forall>r \<in> set rs. \<forall>xs. mset (io_rehash (round_io r) xs) = mset xs"
  shows "proxy_ok s"
proof -
  let ?s = "ProxyX11Server_new fd ai_family P"
  from assms(1) obtain t where t: "addSocketToPoll fd (POLLPRI OR POLLIN) (poll_info ?s) = Inr t"
    and run: "queue_run child rs (?s\<lparr>poll_info := t\<rparr>) = Inr (Running s)"
    by (auto simp: processClientQueue_def ProxyX11Server_new_def elim!: parser_elims)
  have "poll_table (poll_info ?s)"
    by (simp add: ProxyX11Server_new_def poll_table_def indexed_def descriptors_def)
  note t = addSocketToPoll_keeps [OF this t]
  have "proxy_ok (?s\<lparr>poll_info := t\<rparr>)" "numbered 0 (?s\<lparr>poll_info := t\<rparr>)"
    using t(1,2) assms(2)
    by (simp_all add: ProxyX11Server_new_def proxy_ok_def linked_def numbered_def issued_def
      poll_table_def descriptors_def)
  then show ?thesis
    using queue_run_keeps [OF run] assms(3,4) by simp
qed

subsection \<open>The bytes of the client\<close>

lemma content_cong: "buf b' = buf b \<Longrightarrow> br b' = br b \<Longrightarrow> bw b' = bw b \<Longrightarrow> content b' = content b"
  by (simp add: content_def)

lemma client_side_appends:
  assumes "serve_side client_side w t P c = Inr (P', c', lg, False)" and "sound c"
  shows "\<exists>got. content (client_buffer c') = content (client_buffer c) @ got \<and>
    (got = [] \<or> (\<exists>n. io_recv w (client_fd c) n = Inr got))"
proof -
  have s: "served (client_buffer c)" "served (server_buffer c)"
    using assms(2) by (simp_all add: sound_def)
  from assms(1) consider
      b k n lg2 err where "read_all (io_recv w (client_fd c)) (client_buffer c) = Inr (b, k, None)"
        "client_messages P (c\<lparr>client_buffer := b\<rparr>) = Inr (P', c', n, lg2, err)"
    | "client_buffer c' = client_buffer c"
    unfolding serve_side_def side_simps Let_def
    by (auto simp del: not_None_eq elim!: parser_elims ifE split: if_splits)
  then show ?thesis
  proof cases
    case (1 b k n lg2 err)
    note b = read_all_appends [OF s(1) 1(1)]
    have "content (client_buffer c') = content b"
      using client_messages_transit [OF 1(2)] client_messages_buf [OF 1(2)] b(1)
      by (intro content_cong) (simp_all add: client.in_transit_def)
    with b(2) show ?thesis
      by metis
  qed simp
qed

lemma server_side_takes:
  assumes "serve_side server_side w t P c = Inr (P', c', lg, False)" and "sound c"
  shows "\<exists>sent. content (client_buffer c) = sent @ content (client_buffer c') \<and>
    (sent = [] \<or> io_send w (server_fd c) sent = Inr (of_nat (length sent)))"
proof -
  have s: "served (client_buffer c)" "served (server_buffer c)"
    using assms(2) by (simp_all add: sound_def)
  from assms(1) consider
      b k n lg2 err where "read_all (io_recv w (server_fd c)) (server_buffer c) = Inr (b, k, None)"
        "server_messages P (c\<lparr>server_buffer := b\<rparr>) = Inr (P', c', n, lg2, err)"
    | b k where "write_all (io_send w (server_fd c)) (client_buffer c) = Inr (b, k, None)"
        "c' = c\<lparr>client_buffer := b\<rparr>"
    | "client_buffer c' = client_buffer c"
    unfolding serve_side_def side_simps Let_def
    by (auto simp del: not_None_eq elim!: parser_elims ifE split: if_splits) (metis option.exhaust)
  then show ?thesis
  proof cases
    case (1 b k n lg2 err)
    have "client_buffer c' = client_buffer c"
      using server_messages_transit [OF 1(2)] read_all_appends(1) [OF s(2) 1(1)]
      by (simp add: server.in_transit_def)
    then show ?thesis
      by simp
  next
    case (2 b k)
    with write_all_served(2) [OF s(1) 2(1)] show ?thesis
      by auto
  qed simp
qed

subsection \<open>Properties\<close>

text \<open>
  C1: Whatever the sockets do, as long as the main queue runs: before each \<open>poll(2)\<close> the table
  has exactly one entry for the listening socket and for each of the two sockets of every
  connection, no assertion on the buffers fails, and every connection makes progress in both
  directions: it is polled for input where the buffer is empty or waits for the rest of a
  message, and otherwise for output to the other side. (Up to \<open>2 ^ 32\<close> rounds, so that no serial
  number is given out twice.)
\<close>

theorem every_socket_is_polled:
  assumes "processClientQueue child rs (ProxyX11Server_new fd ai_family P) = Inr (Running s)" and "0 \<le> fd"
    and "length rs \<le> 2 ^ 32" and "\<forall>r \<in> set rs. \<forall>xs. mset (io_rehash (round_io r) xs) = mset xs"
  shows "\<exists>t. updatePollFlags (connections s) (poll_info s) = Inr t \<and> distinct (map pfd_fd (pfds t)) \<and>
    set (map pfd_fd (pfds t)) = insert (listener_fd s) (set (conn_fds (connections s))) \<and>
    (\<forall>(i, c) \<in> set (connections s).
       map_res pfd_events (pfd_of t (client_fd c)) = Inr (POLLPRI OR
         (if readReady (client_buffer c) then POLLIN else 0) OR (if readReady (server_buffer c) then 0 else POLLOUT)) \<and>
       map_res pfd_events (pfd_of t (server_fd c)) = Inr (POLLPRI OR
         (if readReady (server_buffer c) then POLLIN else 0) OR (if readReady (client_buffer c) then 0 else POLLOUT)) \<and>
       (readReady (client_buffer c) \<or> writeReady (client_buffer c)) \<and>
       (readReady (server_buffer c) \<or> writeReady (server_buffer c)))"
proof -
  have ok: "linked s" "poll_table (poll_info s)" "\<forall>(i, c) \<in> set (connections s). sound c"
    using processClientQueue_keeps [OF assms] by (simp_all add: proxy_ok_def)
  then obtain t where t: "updatePollFlags (connections s) (poll_info s) = Inr t"
    "events_set (all_wanted (connections s)) (poll_info s) t"
    using updatePollFlags_sets [of "poll_info s" "connections s"] by (auto simp: linked_def sound_def)
  have fds: "distinct (map pfd_fd (pfds t))"
    "set (map pfd_fd (pfds t)) = insert (listener_fd s) (set (conn_fds (connections s)))"
    using t(2) ok(1) by (simp_all add: events_set_def poll_table_def linked_def)
  moreover have "map_res pfd_events (pfd_of t (client_fd c)) = Inr (wanted (client_buffer c) (server_buffer c))"
    "map_res pfd_events (pfd_of t (server_fd c)) = Inr (wanted (server_buffer c) (client_buffer c))"
    if c: "(i, c) \<in> set (connections s)" for i c
  proof -
    have "client_fd c \<in> descriptors (poll_info s)" "server_fd c \<in> descriptors (poll_info s)"
      using conn_fds_mem [OF c] ok(1) by (auto simp: linked_def)
    then have "is_ok (pfd_of (poll_info s) (client_fd c))" "is_ok (pfd_of (poll_info s) (server_fd c))"
      using pfd_of_found [of "poll_info s"] ok(1) unfolding linked_def is_ok_def by blast+
    with t(2) all_wanted_inside [OF _ c] ok(1)
    show "map_res pfd_events (pfd_of t (client_fd c)) = Inr (wanted (client_buffer c) (server_buffer c))"
      "map_res pfd_events (pfd_of t (server_fd c)) = Inr (wanted (server_buffer c) (client_buffer c))"
      by (auto simp: events_set_def linked_def is_ok_def)
  qed
  moreover have "(readReady (client_buffer c) \<or> writeReady (client_buffer c)) \<and>
      (readReady (server_buffer c) \<or> writeReady (server_buffer c))" if "(i, c) \<in> set (connections s)" for i c
    using ok(3) that served_ready by (auto simp: sound_def)
  ultimately show ?thesis
    using t(1) unfolding wanted_def by blast
qed

text \<open>
  C14: The state of the main queue is always well-formed: in every state that it reaches, whatever
  clients and server send, each buffer of each connection holds the parsed and the unparsed bytes
  that are still to be sent within its memory, at most the beginning of one message of it is
  unparsed, and its sockets are its own and are neither closed nor the listening one.
\<close>

theorem connections_well_formed:
  assumes "processClientQueue child rs (ProxyX11Server_new fd ai_family P) = Inr (Running s)" and "0 \<le> fd"
    and "length rs \<le> 2 ^ 32" and "\<forall>r \<in> set rs. \<forall>xs. mset (io_rehash (round_io r) xs) = mset xs"
  shows "distinct (map fst (connections s)) \<and> distinct (conn_fds (connections s)) \<and>
    (\<forall>(i, c) \<in> set (connections s). \<forall>b \<in> {client_buffer c, server_buffer c}.
       unat (bw b) + unat (bp b) \<le> unat (br b) \<and> unat (br b) \<le> length (buf b) \<and>
       (unparsed b = 0 \<or> incompleteMessage b)) \<and>
    (\<forall>fd \<in> set (conn_fds (connections s)). fd \<noteq> FD_CLOSED \<and> fd \<noteq> listener_fd s)"
proof -
  have "linked s" "\<forall>(i, c) \<in> set (connections s). sound c"
    using processClientQueue_keeps [OF assms] by (simp_all add: proxy_ok_def)
  then show ?thesis
    by (fastforce simp: linked_def sound_def served_def wf_buffer_def FD_CLOSED_def)
qed


text \<open>
  C39: A client is disconnected in the middle of a message. When the rest of a message is waited
  for, \<open>read( sockfd )\<close> asks for the size of the message less all bytes in the buffer, also those
  of the earlier messages (or, the size not being known, for the free space). Once that is 0, \<open>recv\<close>
  is called with a length of 0, its answer 0 is taken for the end of the stream, and the connection
  is closed while the client has more data to send.
\<close>

theorem waiting_client_is_disconnected:
  assumes "clientSideOpen c" and "serverSideOpen c"
    and "socketReadReady t (client_fd c) = Inr True"
    and "wf_buffer (client_buffer c)"
    and "if messageSizeSet (client_buffer c) then buffer_size (client_buffer c) = messageSize (client_buffer c)
      else capacity (client_buffer c) = 0"
    and "io_recv w (client_fd c) 0 = Inr []"
  shows "serve_connection w t P c = Inr (P, c, eof_line c CLIENT_TO_SERVER P, True)"
proof -
  let ?b = "client_buffer c"
  have "read_all (io_recv w (client_fd c)) ?b = read_n (io_recv w (client_fd c)) 0 ?b"
    using assms(5) by (simp add: read_all_def messageSize_def Let_def split: if_splits)
  also have "\<dots> = Inr (?b, 0, None)"
    using assms(4,6) by (simp add: read_n_def reserve_def store_bytes_def wf_buffer_def)
  finally show ?thesis
    using assms(1-3) by (simp add: serve_connection_def serve_side_def Let_def)
      (simp add: client_side_def)
qed

subsection \<open>Witnesses\<close>

definition sample_io :: io where
  \<comment> \<open>a client connects; a server that takes everything\<close>
  "sample_io =
     \<lparr>io_recv = (\<lambda>fd n. Inr []), io_send = (\<lambda>fd bs. Inr (of_nat (length bs))), io_close = (\<lambda>fd. True),
      io_accept = (4, Peer_UNIX []), io_socket = 5, io_setsockopt = True, io_connect = True,
      io_now = 0, io_rehash = (\<lambda>conns. conns)\<rparr>"

definition sample_round :: round where
  "sample_round = \<lparr>child_running = True, poll_result = Inr (\<lambda>fd. POLLIN), round_io = sample_io\<rparr>"

definition sample_server :: proxy_server where
  "sample_server =
     (ProxyX11Server_new 3 AF_UNIX sample_parser)\<lparr>
        connections := [(0, (fst (Connection_new 0 0))\<lparr>client_fd := 4, client_desc := ''unknown(local)'', server_fd := 5\<rparr>)],
        next_id := 1,
        poll_info := \<lparr>pfds = [\<lparr>pfd_fd = 3, pfd_events = POLLPRI OR POLLIN, pfd_revents = POLLIN\<rparr>,
            \<lparr>pfd_fd = 4, pfd_events = 0, pfd_revents = 0\<rparr>, \<lparr>pfd_fd = 5, pfd_events = 0, pfd_revents = 0\<rparr>],
          pfds_i_by_fd = [(3, 0), (4, 1), (5, 2)]\<rparr>\<rparr>"

lemma sample_server_runs:
  "processClientQueue (False, 0) [sample_round] (ProxyX11Server_new 3 AF_UNIX sample_parser) = Inr (Running sample_server)"
  by (simp add: processClientQueue_def ProxyX11Server_new_def sample_server_def sample_round_def sample_io_def
    addSocketToPoll_def queue_turn_def processPolledSockets_def closeConnections_def compact_pfds_def pfd_at_def
    socketReadReady_def pfd_of_def polled_def openConnection_def addConnection_def acceptClient_def
    connectToServer_def Connection_new_def POLLNONE_def POLLIN_def)

theorem every_socket_is_polled_witness:
  "\<exists>t. updatePollFlags (connections sample_server) (poll_info sample_server) = Inr t \<and> distinct (map pfd_fd (pfds t)) \<and>
    set (map pfd_fd (pfds t)) = insert (listener_fd sample_server) (set (conn_fds (connections sample_server))) \<and>
    (\<forall>(i, c) \<in> set (connections sample_server).
       map_res pfd_events (pfd_of t (client_fd c)) = Inr (POLLPRI OR
         (if readReady (client_buffer c) then POLLIN else 0) OR (if readReady (server_buffer c) then 0 else POLLOUT)) \<and>
       map_res pfd_events (pfd_of t (server_fd c)) = Inr (POLLPRI OR
         (if readReady (server_buffer c) then POLLIN else 0) OR (if readReady (client_buffer c) then 0 else POLLOUT)) \<and>
       (readReady (client_buffer c) \<or> writeReady (client_buffer c)) \<and>
       (readReady (server_buffer c) \<or> writeReady (server_buffer c)))"
  by (rule every_socket_is_polled [OF sample_server_runs]) (simp_all add: sample_round_def sample_io_def)

theorem connections_well_formed_witness:
  "distinct (conn_fds (connections sample_server)) \<and>
    (\<exists>i c. (i, c) \<in> set (connections sample_server) \<and> client_fd c \<noteq> FD_CLOSED \<and>
       unat (bw (client_buffer c)) + unat (bp (client_buffer c)) \<le> unat (br (client_buffer c)))"
proof -
  note ok = connections_well_formed [OF sample_server_runs]
  obtain i c where c: "(i, c) \<in> set (connections sample_server)"
    by (simp add: sample_server_def)
  then have "client_fd c \<in> set (conn_fds (connections sample_server))"
    using conn_fds_mem(1) by blast
  with ok c show ?thesis
    by (fastforce simp: sample_round_def sample_io_def)
qed

definition sample_proxied :: connection where
  \<comment> \<open>a parsed request of 4 bytes waits for the server\<close>
  "sample_proxied = (fst (Connection_new 0 0))\<lparr>client_fd := 4, server_fd := 5,
     client_buffer := SocketBuffer_new\<lparr>buf := [127, 0, 1, 0] @ replicate 2044 0, br := 4, bp := 4\<rparr>\<rparr>"

definition sample_polled :: "16 word \<Rightarrow> 16 word \<Rightarrow> poll_state" where
  "sample_polled client_revents server_revents =
     \<lparr>pfds = [\<lparr>pfd_fd = 4, pfd_events = 0, pfd_revents = client_revents\<rparr>,
              \<lparr>pfd_fd = 5, pfd_events = 0, pfd_revents = server_revents\<rparr>],
      pfds_i_by_fd = [(4, 0), (5, 1)]\<rparr>"

lemma sample_polled_of [simp]:
  "pfd_of (sample_polled x y) 4 = Inr \<lparr>pfd_fd = 4, pfd_events = 0, pfd_revents = x\<rparr>"
  "pfd_of (sample_polled x y) 5 = Inr \<lparr>pfd_fd = 5, pfd_events = 0, pfd_revents = y\<rparr>"
  by (simp_all add: pfd_of_def pfd_at_def sample_polled_def)

lemma sample_proxied_buffers [simp]:
  "buf (client_buffer sample_proxied) = [127, 0, 1, 0] @ replicate 2044 0"
  "br (client_buffer sample_proxied) = 4" "bp (client_buffer sample_proxied) = 4"
  "bw (client_buffer sample_proxied) = 0" "nms (client_buffer sample_proxied) = UNKNOWN_SZ"
  "server_buffer sample_proxied = SocketBuffer_new"
  "client_fd sample_proxied = 4" "server_fd sample_proxied = 5"
  by (simp_all add: sample_proxied_def Connection_new_def SocketBuffer_new_def)

lemma sample_proxied_served: "served (client_buffer sample_proxied)" "served (server_buffer sample_proxied)"
  by (simp_all add: served_new) (simp add: served_def wf_buffer_def VECTOR_MAX_def unparsed_def buffer_size_def)

lemma sample_proxied_round:
  "serve_connection sample_io (sample_polled 0 POLLOUT) sample_parser sample_proxied =
    Inr (sample_parser, sample_proxied\<lparr>client_buffer :=
      (client_buffer sample_proxied)\<lparr>br := 0, bp := 0\<rparr>\<rparr>, [], False)"
  by (simp add: serve_connection_def serve_side_def clientSideOpen_def serverSideOpen_def FD_CLOSED_def
    socketReadReady_def socketWriteReady_def socketPollError_def POLLIN_def POLLOUT_def POLLERR_def POLLNVAL_def
    POLLPRI_def writeReady_def buffer_empty_def write_all_def write_n_def read_bytes_def buffer_data_def
    clear_if_drained_def clear_def parsed_def buffer_size_def sample_io_def moved_line_def debug_line_def
    SocketBuffer_new_def)


definition sample_waiting :: connection where
  \<comment> \<open>a parsed request of 4 bytes, and 8 of the 12 bytes of the next one\<close>
  "sample_waiting = (fst (Connection_new 0 0))\<lparr>client_fd := 4, server_fd := 5,
     client_buffer := SocketBuffer_new\<lparr>br := 12, bp := 4, nms := 12\<rparr>\<rparr>"

theorem waiting_client_is_disconnected_witness:
  "serve_connection sample_io (sample_polled POLLIN 0) sample_parser sample_waiting =
    Inr (sample_parser, sample_waiting, eof_line sample_waiting CLIENT_TO_SERVER sample_parser, True)"
  by (rule waiting_client_is_disconnected)
    (simp_all add: sample_waiting_def Connection_new_def SocketBuffer_new_def clientSideOpen_def serverSideOpen_def
      FD_CLOSED_def socketReadReady_def POLLIN_def wf_buffer_def VECTOR_MAX_def BLOCK_SZ_def messageSizeSet_def
      messageSize_def UNKNOWN_SZ_def buffer_size_def sample_io_def)

end
