(* ===== verification/Runs.thy ===== *)
theory Runs
  imports Proxy
begin

text \<open>
  What holds of the parser through a whole run of the main queue: a property that the handlers of
  client and server messages keep (the locale \<open>parser_invariant\<close>) is kept by every function of the
  proxy server between them and \<open>processClientQueue\<close>. It is used for the settings, which never
  change, and for the table of opcodes.
\<close>

lemma stream_loop_parser:
  assumes "\<And>P c d P' c' lg n. body P c d = Inr (Continue P' c' lg n) \<Longrightarrow> Q P \<Longrightarrow> Q P'"
  shows "stream_loop fuel buf_of body P c d tot out = Some (Inr (P', c', n, lg, err)) \<Longrightarrow> Q P \<Longrightarrow> Q P'"
proof (induction fuel arbitrary: P c d tot out)
  case (Suc fuel)
  then show ?case
    using assms by (fastforce split: if_splits sum.splits turn.splits)
qed simp

lemma stream_turn_continues:
  assumes "stream_turn buf_of set_buf glyph frame message P c d = Inr (Continue P' c' lg k)"
  obtains c1 c2 t n where "message P c1 d n = Inr (P', c2, t, k)"
  using assms by (auto simp: stream_turn_def Let_def elim!: parser_elims split: if_splits)

fun queue_outcome :: "(parser \<Rightarrow> bool) \<Rightarrow> bool \<times> int \<Rightarrow> queue_state \<Rightarrow> bool" where
  "queue_outcome Q child (Running s) = Q (parser_of s)"
| "queue_outcome Q child (Returned v s) = (Q (parser_of s) \<and>
     (v = 1 \<or> v = (if fst child \<and> \<not> keeprunning (settings (parser_of s)) then snd child else 0)))"

locale parser_invariant =
  fixes Q :: "parser \<Rightarrow> bool"
  assumes client_keeps: "client_message X11_client_handlers P c d n = Inr (P', c', t, k) \<Longrightarrow> Q P \<Longrightarrow> Q P'"
    and server_keeps: "server_message X11_server_handlers P c d n = Inr (P', c', t, k) \<Longrightarrow> Q P \<Longrightarrow> Q P'"
begin

lemma client_messages_parser:
  assumes "client_messages P c = Inr (P', c', n, lg, err)" and "Q P"
  shows "Q P'"
proof -
  from assms(1) have loop: "stream_loop (2 * unat (unparsed (client_buffer c)) + 3) client_buffer
      (client_turn X11_client_handlers) P c (buffer_data (client_buffer c)) 0 [] = Some (Inr (P', c', n, lg, err))"
    by (simp add: client_messages_def logClientMessages_def split: option.splits)
  have step: "Q P1" if "client_turn X11_client_handlers P0 c0 d = Inr (Continue P1 c1 lg1 n1)" "Q P0"
    for P0 c0 d P1 c1 lg1 n1
    using that by (auto simp: client_turn_def elim!: stream_turn_continues intro: client_keeps)
  show ?thesis
    by (rule stream_loop_parser [where Q = Q and body = "client_turn X11_client_handlers", OF step loop assms(2)])
qed

lemma server_messages_parser:
  assumes "server_messages P c = Inr (P', c', n, lg, err)" and "Q P"
  shows "Q P'"
proof -
  from assms(1) have loop: "stream_loop (2 * unat (unparsed (server_buffer c)) + 3) server_buffer
      (server_turn X11_server_handlers) P c (buffer_data (server_buffer c)) 0 [] = Some (Inr (P', c', n, lg, err))"
    by (simp add: server_messages_def logServerMessages_def split: option.splits)
  have step: "Q P1" if "server_turn X11_server_handlers P0 c0 d = Inr (Continue P1 c1 lg1 n1)" "Q P0"
    for P0 c0 d P1 c1 lg1 n1
    using that by (auto simp: server_turn_def elim!: stream_turn_continues intro: server_keeps)
  show ?thesis
    by (rule stream_loop_parser [where Q = Q and body = "server_turn X11_server_handlers", OF step loop assms(2)])
qed

lemma serve_side_parser:
  assumes "serve_side D w t P c = Inr (P', c', lg, closing)" and "Q P"
    and "\<And>c P' c' n lg err. log_messages D P c = Inr (P', c', n, lg, err) \<Longrightarrow> Q P'"
  shows "Q P'"
  using assms
  by (auto simp: serve_side_def Let_def elim!: parser_elims split: if_splits)

lemma serve_connection_parser:
  assumes "serve_connection w t P c = Inr (P', c', lg, closing)" and "Q P"
  shows "Q P'"
proof -
  have client: "Q P1" if "serve_side client_side w t P0 c0 = Inr (P1, c1, lg1, b)" "Q P0" for P0 c0 P1 c1 lg1 b
    using that client_messages_parser by (auto simp: client_side_def elim!: serve_side_parser)
  have server: "Q P1" if "serve_side server_side w t P0 c0 = Inr (P1, c1, lg1, b)" "Q P0" for P0 c0 P1 c1 lg1 b
    using that server_messages_parser by (auto simp: server_side_def elim!: serve_side_parser)
  show ?thesis
    using assms client server
    by (auto simp: serve_connection_def elim!: parser_elims split: if_splits)
qed

lemma serve_connections_parser:
  "serve_connections w t P conns = Inr (P', conns', lg, ids) \<Longrightarrow> Q P \<Longrightarrow> Q P'"
proof (induction conns arbitrary: P conns' lg ids)
  case (Cons ic conns)
  then show ?case
    by (cases ic) (auto elim!: parser_elims dest: serve_connection_parser)
qed simp

lemma closeConnections_loop_parser:
  "closeConnections_loop close ids s = Inr s' \<Longrightarrow> parser_of s' = parser_of s"
  by (induction ids arbitrary: s) (fastforce simp: Let_def server_line_def elim!: parser_elims)+

lemma openConnection_parser: "openConnection w s = Inr s' \<Longrightarrow> parser_of s' = parser_of s"
  by (auto simp: openConnection_def addConnection_def Let_def elim!: parser_elims split: prod.splits if_splits)

lemma processPolledSockets_parser:
  assumes "processPolledSockets w s = Inr s'" and "Q (parser_of s)"
  shows "Q (parser_of s')"
proof -
  from assms(1) obtain P conns lg ids where
    served: "serve_connections w (poll_info s) (parser_of s) (connections s) = Inr (P, conns, lg, ids)"
    and "parser_of s' = P"
    by (fastforce simp: processPolledSockets_def closeConnections_def
      elim!: parser_elims ifE dest!: closeConnections_loop_parser openConnection_parser)
  with serve_connections_parser [OF served assms(2)] show ?thesis
    by simp
qed

lemma queue_turn_parser:
  assumes "queue_turn child r s = Inr q" and "Q (parser_of s)"
  shows "queue_outcome Q child q"
proof (cases "child_running r \<or> connections s \<noteq> [] \<or> keeprunning (settings (parser_of s))")
  case False
  with assms show ?thesis
    by (auto simp: queue_turn_def Let_def)
next
  case True
  with assms(1) obtain t where "(case poll_result r of
      Inl err \<Rightarrow> if err \<noteq> 0 \<and> err \<noteq> EINTR then Inr (Returned 1 (s\<lparr>poll_info := t\<rparr>))
        else Inr (Running (s\<lparr>poll_info := t\<rparr>))
    | Inr revents \<Rightarrow>
        map_res Running (processPolledSockets (round_io r) (s\<lparr>poll_info := polled revents t\<rparr>))) = Inr q"
    unfolding queue_turn_def Let_def by (auto elim!: and_thenE)
  then show ?thesis
    using assms(2) by (auto elim!: parser_elims split: if_splits sum.splits dest: processPolledSockets_parser)
qed

lemma queue_run_parser:
  "queue_run child rs s = Inr q \<Longrightarrow> Q (parser_of s) \<Longrightarrow>
    queue_outcome Q child q"
proof (induction rs arbitrary: s)
  case (Cons r rs)
  from Cons.prems(1) obtain q1 where q1: "queue_turn child r s = Inr q1"
    and rest: "(case q1 of Running s' \<Rightarrow> queue_run child rs s' | Returned v s' \<Rightarrow> Inr (Returned v s')) = Inr q"
    by (auto elim!: parser_elims)
  note first = queue_turn_parser [OF q1 Cons.prems(2)]
  show ?case
  proof (cases q1)
    case (Running s1)
    with rest first show ?thesis
      by (intro Cons.IH [of s1]) simp_all
  next
    case (Returned v s1)
    with rest first show ?thesis
      by auto
  qed
qed auto

lemma processClientQueue_parser:
  assumes "processClientQueue child rs (ProxyX11Server_new fd ai_family P) = Inr q" and "Q P"
  shows "queue_outcome Q child q"
  using assms by (auto simp: processClientQueue_def ProxyX11Server_new_def elim!: parser_elims intro: queue_run_parser)

end

subsection \<open>Settings and opcodes\<close>

interpretation same: parser_invariant "same_parser P0" for P0
  by unfold_locales (use client_message_parser(1) server_message_parser(1) same_parser_trans in blast)+

interpretation reached: parser_invariant "reached st" for st
  by unfold_locales (auto intro: reached.client reached.server)

text \<open>
  C17: Throughout a run of the main queue, whatever clients and server send, an opcode is decoded as
  the core request that the protocol gives it, or as a request of an extension that is implemented
  and that the user's settings do not deny.
\<close>

theorem queue_decodes_known_requests:
  assumes "X11ProtocolParser_new F le False True st = Inr P"
    and "processClientQueue child rs (ProxyX11Server_new fd ai_family P) = Inr (Running s)"
  shows "case find_request core_events (parser_of s) mj mn of
      (None, traits) \<Rightarrow> traits = (case core_requests core_events mj of None \<Rightarrow> unknown_request | Some t \<Rightarrow> t)
    | (Some name, traits) \<Rightarrow> name \<in> set implemented_extensions \<and> \<not> extensionDenied st name \<and>
        core_requests core_events mj = None"
proof -
  have "reached st (parser_of s)"
    using reached.processClientQueue_parser [OF assms(2)] reached.start [OF assms(1)] by simp
  from reached_known [OF this] show ?thesis
    unfolding known_opcodes_def by (auto simp: find_request_def split: option.split)
qed

theorem queue_decodes_known_requests_witness:
  "\<exists>P s. X11ProtocolParser_new sample_fmt True False True Settings_default = Inr P \<and>
    processClientQueue (False, 0) [] (ProxyX11Server_new 3 AF_UNIX P) = Inr (Running s) \<and>
    (case find_request core_events (parser_of s) 16 0 of
      (None, traits) \<Rightarrow> traits = (case core_requests core_events 16 of None \<Rightarrow> unknown_request | Some t \<Rightarrow> t)
    | (Some name, traits) \<Rightarrow> name \<in> set implemented_extensions \<and> \<not> extensionDenied Settings_default name \<and>
        core_requests core_events 16 = None)"
proof -
  obtain P where P: "X11ProtocolParser_new sample_fmt True False True Settings_default = Inr P"
    using sample_ws_Whitespace2 by (simp add: X11ProtocolParser_new_def)
  obtain s where run: "processClientQueue (False, 0) [] (ProxyX11Server_new 3 AF_UNIX P) = Inr (Running s)"
    by (simp add: processClientQueue_def ProxyX11Server_new_def addSocketToPoll_def)
  show ?thesis
    by (intro exI conjI) (rule P, rule run, rule queue_decodes_known_requests [OF P run])
qed

end
