(* ===== verification/Prequeue.thy ===== *)
theory Prequeue
  imports Setup Requests Poll XAuth
begin

text \<open>
  The setup clients that the proxy runs before its main queue
  (\<open>ProxyX11Server_prequeue_clients.cpp\<close>): it connects to the X server itself, to get the server's
  time and the names of the atoms that exist already.

  Their system calls come one after the other; \<open>setup_io\<close> has the answers of \<open>poll\<close>, \<open>recv\<close>
  and \<open>send\<close>, and a counter says which one is next. A function returns \<open>True\<close> for an error that the
  program reports; the text of the messages is left out. The loop that reads the rest of a message
  may not end: then its result is \<open>None\<close>.
\<close>

datatype poll_answer =
    Poll_failed | Poll_timeout
  | Poll_ready "16 word"  \<comment> \<open>\<open>revents\<close>\<close>

record setup_io =
  setup_poll :: "nat \<Rightarrow> poll_answer"
  setup_recv :: "nat \<Rightarrow> recv_fn"
  setup_send :: "nat \<Rightarrow> send_fn"

definition then_opt :: "'a res option \<Rightarrow> ('a \<Rightarrow> 'b res option) \<Rightarrow> 'b res option" where
  "then_opt r f =
     (case r of None \<Rightarrow> None | Some (Inl e) \<Rightarrow> Some (Inl e) | Some (Inr x) \<Rightarrow> f x)"

abbreviation returned :: "'a res \<Rightarrow> 'a res option" where
  "returned \<equiv> Some"

lemma then_opt_simps [simp]:
  "then_opt None f = None" "then_opt (Some (Inl e)) f = Some (Inl e)" "then_opt (Some (Inr x)) f = f x"
  by (simp_all add: then_opt_def)

lemma then_opt_bind:
  "then_opt r f = Option.bind r (\<lambda>x. case x of Inl e \<Rightarrow> Some (Inl e) | Inr y \<Rightarrow> f y)"
  by (simp add: then_opt_def split: option.split sum.split)

lemma then_opt_mono [partial_function_mono]:
  assumes "mono_option B" and "\<And>y. mono_option (\<lambda>f. C y f)"
  shows "mono_option (\<lambda>f. then_opt (B f) (\<lambda>y. C y f))"
proof -
  have "mono_option (\<lambda>f. case x of Inl e \<Rightarrow> Some (Inl e) | Inr y \<Rightarrow> C y f)" for x
    using assms(2) by (cases x) (simp_all add: monotone_def flat_ord_def)
  then show ?thesis
    unfolding then_opt_bind by (rule bind_mono [OF assms(1)])
qed

subsection \<open>One socket\<close>

definition pollSingleSocket :: "poll_answer \<Rightarrow> bool" where
  "pollSingleSocket a =
     (case a of
        Poll_ready revents \<Rightarrow> revents AND POLLERR \<noteq> 0 \<or> revents AND POLLNVAL \<noteq> 0 \<or> revents AND POLLPRI \<noteq> 0
      | _ \<Rightarrow> True)"

definition polledWriteMessage ::
  "setup_io \<Rightarrow> nat \<Rightarrow> size_t \<Rightarrow> socket_buffer \<Rightarrow> (socket_buffer \<times> nat \<times> bool) res" where
  "polledWriteMessage w k message_sz b =
     require (buffer_size b = message_sz) (
     require (parsed b = message_sz) (
     if pollSingleSocket (setup_poll w k) then Inr (b, k + 1, True)
     else and_then (write_n (setup_send w k) message_sz b) (\<lambda>(b', bytes_written, write_error).
       if write_error \<noteq> None then Inr (b', k + 1, True)
       else require (buffer_empty b') (Inr (b', k + 1, False)))))"

definition polledRead ::
  "setup_io \<Rightarrow> nat \<Rightarrow> socket_buffer \<Rightarrow> (socket_buffer \<times> nat \<times> size_t \<times> bool) res" where
  "polledRead w k b =
     require (buffer_empty b) (
     if pollSingleSocket (setup_poll w k) then Inr (b, k + 1, 0, True)
     else map_res (\<lambda>(b', bytes_read, read_error). (b', k + 1, bytes_read, read_error \<noteq> None))
       (read_all (setup_recv w k) b))"

partial_function (option) read_rest ::
  "setup_io \<Rightarrow> size_t \<Rightarrow> nat \<Rightarrow> size_t \<Rightarrow> socket_buffer \<Rightarrow> (socket_buffer \<times> nat \<times> size_t \<times> bool) res option"
where
  "read_rest w message_sz k tl_bytes_read b =
     (if \<not> buffer_size b < messageSize b then Some (Inr (b, k, tl_bytes_read, False))
      else if pollSingleSocket (setup_poll w k) then Some (Inr (b, k + 1, tl_bytes_read, True))
      else case read_n (setup_recv w k) message_sz b of
        Inl e \<Rightarrow> Some (Inl e)
      | Inr (b', bytes_read, read_error) \<Rightarrow>
          if read_error \<noteq> None then Some (Inr (b', k + 1, tl_bytes_read, True))
          else read_rest w message_sz (k + 1) (tl_bytes_read + bytes_read) b')"

declare read_rest.simps [code]

definition polledReadMessage ::
  "setup_io \<Rightarrow> nat \<Rightarrow> size_t \<Rightarrow> socket_buffer \<Rightarrow> (socket_buffer \<times> nat \<times> size_t \<times> bool) res option" where
  "polledReadMessage w k message_sz b =
     then_opt (returned (if messageSizeSet b then Inr b else setMessageSize message_sz b)) (\<lambda>b1.
     then_opt (returned (require (messageSize b1 = message_sz) (Inr ()))) (\<lambda>_.
     then_opt (read_rest w message_sz k 0 b1) (\<lambda>(b2, k', tl_bytes_read, err).
     returned (if err then Inr (b2, k', tl_bytes_read, True)
       else require (buffer_size b + tl_bytes_read = messageSize b2) (Inr (b2, k', tl_bytes_read, False))))))"

subsection \<open>Messages to the server\<close>

text \<open>The memory of a struct: its members with their sizes, in the byte order of the host.\<close>

definition struct_bytes :: "bool \<Rightarrow> (nat \<times> nat) list \<Rightarrow> byte list" where
  "struct_bytes le members = concat (map (\<lambda>(w, v). if le then le_bytes w v else rev (le_bytes w v)) members)"

fun load_parts :: "byte list list \<Rightarrow> socket_buffer \<Rightarrow> socket_buffer res" where
  "load_parts [] b = Inr b"
| "load_parts (p # ps) b = and_then (buffer_load p b) (\<lambda>(b', _). load_parts ps b')"

definition load_message :: "byte list list \<Rightarrow> socket_buffer \<Rightarrow> socket_buffer res" where
  \<comment> \<open>load a message and mark it as parsed\<close>
  "load_message parts b =
     (let n = of_nat (length (concat parts)) in
      and_then (load_parts parts b) (\<lambda>b1.
      require (buffer_size b1 = n) (
      and_then (setMessageSize n b1) markMessageParsed)))"

definition send_message ::
  "setup_io \<Rightarrow> nat \<Rightarrow> byte list list \<Rightarrow> socket_buffer \<Rightarrow> (socket_buffer \<times> nat \<times> bool) res" where
  "send_message w k parts b =
     and_then (load_message parts b) (polledWriteMessage w k (of_nat (length (concat parts))))"

subsection \<open>Connection setup\<close>

definition initiation_header :: "bool \<Rightarrow> byte list" where
  "initiation_header le = struct_bytes le
     [(1, if le then LSBFIRST else MSBFIRST), (1, 0), (2, MAJOR_VERSION), (2, MINOR_VERSION),
      (2, length AUTH_NAME), (2, AUTH_DATA_SZ), (2, 0)]"

text \<open>
  \<open>name_memory\<close> is the memory from \<open>_AUTH_NAME.data()\<close> on: the name with its NUL, and what the
  program has behind it. The result is the counter, whether the connection is set up, and the
  \<open>root\<close> window of the first screen.
\<close>

definition parse_acceptance :: "parser \<Rightarrow> socket_buffer \<Rightarrow> nat res" where
  "parse_acceptance P b =
     and_then (unload (size_of Acceptance_Header) b) (\<lambda>(b1, _).
     and_then (unload_to (size_of Acceptance_Encoding) b1) (\<lambda>(b2, encoding, _).
     and_then (raw_member P Acceptance_Encoding encoding ''vendor_len'') (\<lambda>vendor_len.
     and_then (unload (Alignment_pad (of_nat vendor_len)) b2) (\<lambda>(b3, _).
     and_then (raw_member P Acceptance_Encoding encoding ''pixmap_formats_ct'') (\<lambda>pixmap_formats_ct.
     and_then (unload (of_nat pixmap_formats_ct * size_of FORMAT) b3) (\<lambda>(b4, _).
     and_then (raw_member P Acceptance_Encoding encoding ''roots_ct'') (\<lambda>roots_ct.
     require (roots_ct \<ge> 1) (
     and_then (unload_to (size_of SCREEN_Header) b4) (\<lambda>(b5, screen, _).
     raw_member P SCREEN_Header screen ''root'')))))))))"

definition authenticateServerConnection ::
  "setup_io \<Rightarrow> nat \<Rightarrow> parser \<Rightarrow> byte list \<Rightarrow> byte list \<Rightarrow> (nat \<times> nat option) res option" where
  "authenticateServerConnection w k P name_memory auth_bytes =
     then_opt (returned (read_bytes name_memory 0
       (unat (Alignment_pad (of_nat (length AUTH_NAME)))))) (\<lambda>name.
     then_opt (returned (read_bytes auth_bytes 0 (unat (Alignment_pad (of_nat AUTH_DATA_SZ))))) (\<lambda>cookie.
     then_opt (returned (send_message w k [initiation_header (little_endian P), name, cookie] SocketBuffer_new))
       (\<lambda>(b1, k1, write_error).
     if write_error then returned (Inr (k1, None))
     else then_opt (returned (polledRead w k1 b1)) (\<lambda>(b2, k2, first_bytes_read, read_error).
     if read_error then returned (Inr (k2, None))
     else then_opt (returned (require (first_bytes_read \<ge> size_of Acceptance_Header) (Inr ()))) (\<lambda>_.
     then_opt (returned (raw_member P Acceptance_Header (buffer_data b2) ''success'')) (\<lambda>success.
     then_opt (returned (raw_member P Acceptance_Header (buffer_data b2) ''protocol_major_version'')) (\<lambda>major.
     then_opt (returned (raw_member P Acceptance_Header (buffer_data b2) ''protocol_minor_version'')) (\<lambda>minor.
     then_opt (returned (raw_member P Acceptance_Header (buffer_data b2) ''following_aligned_units'')) (\<lambda>units.
     if success \<noteq> InitResponse_SUCCESS \<or> major \<noteq> MAJOR_VERSION \<or> minor \<noteq> MINOR_VERSION
     then returned (Inr (k2, None))
     else let acceptance_sz = size_of Acceptance_Header + Alignment_size (of_nat units) in
     then_opt (returned (setMessageSize acceptance_sz b2)) (\<lambda>b3.
     then_opt (polledReadMessage w k2 acceptance_sz b3) (\<lambda>(b4, k4, remaining_bytes_read, read_error).
     if read_error then returned (Inr (k4, None))
     else then_opt (returned (require (first_bytes_read + remaining_bytes_read = acceptance_sz) (Inr ()))) (\<lambda>_.
     returned (map_res (\<lambda>root. (k4, Some root)) (parse_acceptance P b4))))))))))))))"

subsection \<open>The time of the server\<close>

definition XCB_CW_EVENT_MASK :: nat where "XCB_CW_EVENT_MASK = 0x800"
definition XCB_EVENT_MASK_PROPERTY_CHANGE :: nat where "XCB_EVENT_MASK_PROPERTY_CHANGE = 0x400000"
definition XCB_PROP_MODE_APPEND :: nat where "XCB_PROP_MODE_APPEND = 2"
definition XCB_ATOM_WM_NAME :: nat where "XCB_ATOM_WM_NAME = 0x27"
definition XCB_ATOM_STRING :: nat where "XCB_ATOM_STRING = 0x1F"
definition XCB_PROPERTY_NEW_VALUE :: nat where "XCB_PROPERTY_NEW_VALUE = 0"

definition change_attributes_request :: "bool \<Rightarrow> nat \<Rightarrow> byte list list" where
  \<comment> \<open>\<open>ChangeWindowAttributes\<close>: have changes of the root window's properties reported\<close>
  "change_attributes_request le root =
     [struct_bytes le [(1, CHANGEWINDOWATTRIBUTES), (1, 0)],
      struct_bytes le [(2, unat (Alignment_units (BASE_ENCODING_SZ ChangeWindowAttributes + 4)))],
      struct_bytes le [(4, root), (4, XCB_CW_EVENT_MASK)],
      struct_bytes le [(4, XCB_EVENT_MASK_PROPERTY_CHANGE)]]"

definition change_property_request :: "bool \<Rightarrow> nat \<Rightarrow> byte list list" where
  \<comment> \<open>\<open>ChangeProperty\<close>: append nothing\<close>
  "change_property_request le root =
     [struct_bytes le [(1, CHANGEPROPERTY), (1, XCB_PROP_MODE_APPEND)],
      struct_bytes le [(2, unat (Alignment_units (BASE_ENCODING_SZ ChangeProperty)))],
      struct_bytes le [(4, root), (4, XCB_ATOM_WM_NAME), (4, XCB_ATOM_STRING), (1, 8), (3, 0), (4, 0)]]"

definition time_of_event :: "parser \<Rightarrow> nat \<Rightarrow> byte list \<Rightarrow> nat res" where
  "time_of_event P root event =
     and_then (raw_member P PropertyNotify_Encoding event ''header.code'') (\<lambda>code.
     require (code = PROPERTYNOTIFY) (
     and_then (raw_member P PropertyNotify_Encoding event ''header.sequence_num'') (\<lambda>sequence_num.
     require (sequence_num = 2) (
     and_then (raw_member P PropertyNotify_Encoding event ''window'') (\<lambda>window.
     require (window = root) (
     and_then (raw_member P PropertyNotify_Encoding event ''atom'') (\<lambda>atom.
     require (atom = XCB_ATOM_WM_NAME) (
     and_then (raw_member P PropertyNotify_Encoding event ''state'') (\<lambda>state.
     require (state = XCB_PROPERTY_NEW_VALUE) (
     raw_member P PropertyNotify_Encoding event ''time''))))))))))"

definition Event_SZ :: size_t where
  "Event_SZ = 32"

definition fetchCurrentServerTime ::
  "setup_io \<Rightarrow> int \<Rightarrow> parser \<Rightarrow> byte list \<Rightarrow> byte list \<Rightarrow> int \<Rightarrow> settings res option" where
  \<comment> \<open>the settings, with the reference times if all went well; \<open>now\<close> is what \<open>time(2)\<close> returns\<close>
  "fetchCurrentServerTime w fd P name_memory auth_bytes now =
     (let st = settings P; le = little_endian P in
      if fd < 0 then returned (Inr st)
      else then_opt (authenticateServerConnection w 0 P name_memory auth_bytes) (\<lambda>(k, setup).
      case setup of
        None \<Rightarrow> returned (Inr st)
      | Some root \<Rightarrow>
          then_opt (returned (send_message w k (change_attributes_request le root) SocketBuffer_new)) (\<lambda>(b1, k1, err).
          if err then returned (Inr st)
          else then_opt (returned (send_message w k1 (change_property_request le root) b1)) (\<lambda>(b2, k2, err).
          if err then returned (Inr st)
          else then_opt (returned (setMessageSize Event_SZ b2)) (\<lambda>b3.
          then_opt (polledReadMessage w k2 Event_SZ b3) (\<lambda>(b4, k4, bytes_read, err).
          if err then returned (Inr st)
          else then_opt (returned (require (bytes_read = Event_SZ) (unload_to Event_SZ b4))) (\<lambda>(b5, event, _).
          returned (map_res (\<lambda>t. st\<lparr>ref_TIMESTAMP := of_nat t, ref_unix_time := now\<rparr>)
            (time_of_event P root event)))))))))"

subsection \<open>The names of the atoms\<close>

definition get_atom_name_request :: "bool \<Rightarrow> 32 word \<Rightarrow> byte list list" where
  "get_atom_name_request le atom_i =
     [struct_bytes le [(1, GETATOMNAME), (1, 0)],
      struct_bytes le [(2, unat (Alignment_units (BASE_ENCODING_SZ GetAtomName)))],
      struct_bytes le [(4, unat atom_i)]]"

definition STRINGBUF_SZ :: size_t where
  "STRINGBUF_SZ = 1000"

definition response_size :: "parser \<Rightarrow> socket_buffer \<Rightarrow> (size_t \<times> bool) res" where
  \<comment> \<open>the size of the response, and whether it is an error\<close>
  "response_size P b =
     and_then (raw_member P Response_Header (buffer_data b) ''prefix'') (\<lambda>prefix.
     if prefix = ERROR_PREFIX then Inr (Error_ENCODING_SZ, True)
     else require (prefix = REPLY_PREFIX) (
          require (buffer_size b \<ge> size_of Reply_Header) (
          map_res (\<lambda>units. (Reply_DEFAULT_ENCODING_SZ + Alignment_size (of_nat units), False))
            (raw_member P Reply_Header (buffer_data b) ''extra_aligned_units''))))"

definition atom_name_of_reply :: "parser \<Rightarrow> 32 word \<Rightarrow> socket_buffer \<Rightarrow> (socket_buffer \<times> string) res" where
  "atom_name_of_reply P atom_i b =
     and_then (unload_to (size_of GetAtomName_Reply_Encoding) b) (\<lambda>(b1, encoding, _).
     and_then (raw_member P GetAtomName_Reply_Encoding encoding ''header.reply'') (\<lambda>reply.
     require (reply = REPLY_PREFIX) (
     and_then (raw_member P GetAtomName_Reply_Encoding encoding ''header.sequence_num'') (\<lambda>sequence_num.
     require (sequence_num = unat atom_i) (
     and_then (raw_member P GetAtomName_Reply_Encoding encoding ''header.extra_aligned_units'') (\<lambda>units.
     and_then (raw_member P GetAtomName_Reply_Encoding encoding ''name_len'') (\<lambda>name_len.
     require (of_nat units = Alignment_units (Alignment_pad (of_nat name_len))) (
     require (buffer_size b1 < STRINGBUF_SZ) (
     require (buffer_size b1 = Alignment_pad (of_nat name_len)) (
     and_then (unload_to (buffer_size b1) b1) (\<lambda>(b2, stringbuf, _).
     require (buffer_empty b2) (
     Inr (b2, map (\<lambda>c. char_of (unat c)) (takeWhile (\<lambda>c. c \<noteq> 0) (take name_len stringbuf)))))))))))))))"

partial_function (option) fetch_atoms ::
  "setup_io \<Rightarrow> nat \<Rightarrow> parser \<Rightarrow> 32 word \<Rightarrow> string list \<Rightarrow> socket_buffer \<Rightarrow> string list res option"
where
  "fetch_atoms w k P atom_i fetched_atoms b =
     then_opt (returned (send_message w k (get_atom_name_request (little_endian P) atom_i) b)) (\<lambda>(b1, k1, write_error).
     if write_error then returned (Inl (Exit 1))
     else then_opt (returned (polledRead w k1 b1)) (\<lambda>(b2, k2, first_bytes_read, read_error).
     if read_error then returned (Inl (Exit 1))
     else then_opt (returned (require (first_bytes_read \<ge> size_of Response_Header) (Inr ()))) (\<lambda>_.
     then_opt (returned (response_size P b2)) (\<lambda>(response_sz, protocol_error).
     then_opt (returned (setMessageSize response_sz b2)) (\<lambda>b3.
     then_opt (polledReadMessage w k2 response_sz b3) (\<lambda>(b4, k4, remaining_bytes_read, read_error).
     if read_error then returned (Inl (Exit 1))
     else then_opt (returned (require (first_bytes_read + remaining_bytes_read = response_sz) (Inr ()))) (\<lambda>_.
     if protocol_error then
       then_opt (returned (unload_to (size_of Error_Encoding) b4)) (\<lambda>(b5, err_encoding, _).
       then_opt (returned (require (buffer_empty b5) (raw_member P Error_Encoding err_encoding ''header.code''))) (\<lambda>code.
       returned (Inr (if code = error_ATOM then fetched_atoms else []))))
     else then_opt (returned (atom_name_of_reply P atom_i b4)) (\<lambda>(b5, name).
       fetch_atoms w k4 P (atom_i + 1) (fetched_atoms @ [name]) b5))))))))"

declare fetch_atoms.simps [code]

definition fetchInternedAtoms ::
  "setup_io \<Rightarrow> int \<Rightarrow> parser \<Rightarrow> byte list \<Rightarrow> byte list \<Rightarrow> string list res option" where
  "fetchInternedAtoms w fd P name_memory auth_bytes =
     (if fd < 0 then returned (Inl (Exit 1))
      else then_opt (authenticateServerConnection w 0 P name_memory auth_bytes) (\<lambda>(k, setup).
        if setup = None then returned (Inl (Exit 1))
        else fetch_atoms w k P 1 [[]] SocketBuffer_new))"

subsection \<open>Reading the rest of a message\<close>

lemma read_n_nothing:
  assumes "wf_buffer b" and "n \<le> capacity b" and "recv n = Inr []"
  shows "read_n recv n b = Inr (b, 0, None)"
  using assms by (simp add: read_n_def reserve_def store_bytes_def wf_buffer_def not_less [symmetric])

definition at_end :: "setup_io \<Rightarrow> nat \<Rightarrow> size_t \<Rightarrow> bool" where
  \<comment> \<open>the peer has closed the connection: \<open>poll\<close> says that the socket can be read, \<open>recv\<close> reads 0 bytes\<close>
  "at_end w k n \<longleftrightarrow> (\<forall>i \<ge> k. \<not> pollSingleSocket (setup_poll w i) \<and> setup_recv w i n = Inr [])"

lemma read_rest_hangs:
  assumes "at_end w k n" and "wf_buffer b" and "n \<le> capacity b" and "buffer_size b < messageSize b"
  shows "read_rest w n k t0 b = None"
proof (rule ccontr)
  assume "read_rest w n k t0 b \<noteq> None"
  then obtain r where "read_rest w n k t0 b = Some r"
    by blast
  then have "\<not> (at_end w k n \<and> wf_buffer b \<and> n \<le> capacity b \<and> buffer_size b < messageSize b)"
  proof (rule read_rest.raw_induct [rotated, where
      P = "\<lambda>w n k t0 b r. \<not> (at_end w k n \<and> wf_buffer b \<and> n \<le> capacity b \<and> buffer_size b < messageSize b)"])
    fix f w n k t0 b r
    assume IH: "\<And>w n k t0 b r. f w n k t0 b = Some r \<Longrightarrow>
        \<not> (at_end w k n \<and> wf_buffer b \<and> n \<le> capacity b \<and> buffer_size b < messageSize b)"
      and step: "(if \<not> buffer_size b < messageSize b then Some (Inr (b, k, t0, False))
        else if pollSingleSocket (setup_poll w k) then Some (Inr (b, k + 1, t0, True))
        else case read_n (setup_recv w k) n b of
          Inl e \<Rightarrow> Some (Inl e)
        | Inr (b', bytes_read, read_error) \<Rightarrow>
            if read_error \<noteq> None then Some (Inr (b', k + 1, t0, True))
            else f w n (k + 1) (t0 + bytes_read) b') = Some r"
    show "\<not> (at_end w k n \<and> wf_buffer b \<and> n \<le> capacity b \<and> buffer_size b < messageSize b)"
    proof
      assume h: "at_end w k n \<and> wf_buffer b \<and> n \<le> capacity b \<and> buffer_size b < messageSize b"
      then have now: "\<not> pollSingleSocket (setup_poll w k)" "setup_recv w k n = Inr []"
        and later: "at_end w (k + 1) n"
        by (auto simp: at_end_def)
      from h now step have "f w n (k + 1) (t0 + 0) b = Some r"
        by (simp add: read_n_nothing)
      from IH [OF this] show False
        using h later by blast
    qed
  qed
  with assms show False
    by blast
qed

lemma read_rest_completes:
  assumes "\<And>i. i < length css \<Longrightarrow> \<not> pollSingleSocket (setup_poll w (k + i)) \<and> setup_recv w (k + i) n = Inr (css ! i)"
    and "[] \<notin> set css" and "wf_buffer b" and "messageSize b = n"
    and "unat (buffer_size b) + length (concat css) = unat n"
    and "unat (br b) + length (concat css) + unat n + 2048 \<le> VECTOR_MAX"
  shows "\<exists>b'. read_rest w n k t0 b = Some (Inr (b', k + length css, t0 + of_nat (length (concat css)), False)) \<and>
    wf_buffer b' \<and> content b' = content b @ concat css \<and> bp b' = bp b \<and> nms b' = nms b"
  using assms
proof (induction css arbitrary: k t0 b)
  case Nil
  then have "\<not> buffer_size b < messageSize b"
    by (simp add: word_less_nat_alt)
  with Nil.prems(3) show ?case
    by (simp add: read_rest.simps)
next
  case (Cons cs css)
  have here: "\<not> pollSingleSocket (setup_poll w k)" "setup_recv w k n = Inr cs"
    using Cons.prems(1) [of 0] by simp_all
  have more: "buffer_size b < messageSize b"
    using Cons.prems(2,4,5) by (cases cs) (simp_all add: word_less_nat_alt)
  have le: "length cs \<le> unat n"
    using Cons.prems(5) by simp
  obtain b1 where b1: "read_n (setup_recv w k) n b = Inr (b1, of_nat (length cs), None)"
    using read_n_total [OF Cons.prems(3), where n = n] here(2) le Cons.prems(6) by fastforce
  from read_n_law [OF Cons.prems(3) b1] here(2)
  have laws: "wf_buffer b1" "content b1 = content b @ cs" "bp b1 = bp b" "nms b1 = nms b"
    by auto
  have bw: "bw b1 = bw b" "unat (br b1) = unat (br b) + length cs"
    using b1 here(2) receive_law(5,6) [OF Cons.prems(3)]
    by (auto simp: read_n_def and_then_eq_Inr map_res_eq_Inr)
  have size: "unat (buffer_size b1) = unat (buffer_size b) + length cs"
    using arg_cong [OF laws(2), of length] length_content [OF laws(1)] length_content [OF Cons.prems(3)]
    by (simp add: unat_buffer_size [OF laws(1)] unat_buffer_size [OF Cons.prems(3)])
  have "\<exists>b'. read_rest w n (k + 1) (t0 + of_nat (length cs)) b1 =
      Some (Inr (b', (k + 1) + length css, (t0 + of_nat (length cs)) + of_nat (length (concat css)), False)) \<and>
    wf_buffer b' \<and> content b' = content b1 @ concat css \<and> bp b' = bp b1 \<and> nms b' = nms b1"
  proof (rule Cons.IH)
    show "\<not> pollSingleSocket (setup_poll w (k + 1 + i)) \<and> setup_recv w (k + 1 + i) n = Inr (css ! i)"
      if "i < length css" for i
      using Cons.prems(1) [of "Suc i"] that by simp
    show "messageSize b1 = n" "[] \<notin> set css" "wf_buffer b1"
      using Cons.prems(2,4) laws by (simp_all add: messageSize_def)
    show "unat (buffer_size b1) + length (concat css) = unat n"
      using size Cons.prems(5) by simp
    show "unat (br b1) + length (concat css) + unat n + 2048 \<le> VECTOR_MAX"
      using bw(2) Cons.prems(6) by simp
  qed
  then show ?case
    using laws here more b1 by (simp add: read_rest.simps [of w n k t0 b] ac_simps)
qed

text \<open>
  C24: a message that arrives piece by piece is read to its end. If the message size is known, or
  unset, and the rest of the message comes in any number of non-empty pieces, each of which
  \<open>poll\<close> announces, then \<open>polledReadMessage\<close> returns; there is one \<open>poll\<close> for each piece,
  the buffer holds what it held and then the pieces in order, the count is that of the bytes read,
  and no error is reported.
\<close>

theorem message_is_completed:
  assumes "\<And>i. i < length css \<Longrightarrow>
      \<not> pollSingleSocket (setup_poll w (k + i)) \<and> setup_recv w (k + i) n = Inr (css ! i)"
    and "[] \<notin> set css" and "wf_buffer b" and "n \<noteq> UNKNOWN_SZ"
    and "messageSizeSet b \<Longrightarrow> messageSize b = n"
    and "unat (buffer_size b) + length (concat css) = unat n"
    and "unat (br b) + length (concat css) + unat n + 2048 \<le> VECTOR_MAX"
  shows "\<exists>b'. polledReadMessage w k n b =
      Some (Inr (b', k + length css, of_nat (length (concat css)), False)) \<and>
    wf_buffer b' \<and> content b' = content b @ concat css \<and> messageSize b' = n"
proof -
  define b1 where "b1 = b\<lparr>nms := n\<rparr>"
  have start: "(if messageSizeSet b then Inr b else setMessageSize n b) = Inr b1"
    using assms(4,5) by (cases b) (auto simp: b1_def setMessageSize_def messageSize_def)
  have b1: "wf_buffer b1" "messageSize b1 = n" "buffer_size b1 = buffer_size b" "br b1 = br b"
      "content b1 = content b"
    using assms(3)
    by (simp_all add: b1_def messageSize_def buffer_size_def content_def wf_buffer_def)
  obtain b' where b': "read_rest w n k 0 b1 =
        Some (Inr (b', k + length css, 0 + of_nat (length (concat css)), False))"
      "wf_buffer b'" "content b' = content b1 @ concat css" "nms b' = nms b1"
    using read_rest_completes [OF assms(1,2) b1(1,2), of 0] assms(6,7) b1(3,4) by auto
  have "buffer_size b + of_nat (length (concat css)) = n"
    using assms(6) by (metis Word.of_nat_unat of_nat_add ucast_id)
  with start b' b1 show ?thesis
    by (auto simp: polledReadMessage_def messageSize_def)
qed

definition pieces :: "byte list list \<Rightarrow> setup_io" where
  \<comment> \<open>a server that sends these pieces, and then closes the connection\<close>
  "pieces css = \<lparr>setup_poll = (\<lambda>_. Poll_ready POLLIN),
     setup_recv = (\<lambda>i _. Inr (if i < length css then css ! i else [])),
     setup_send = (\<lambda>_ bs. Inr (of_nat (length bs)))\<rparr>"

theorem message_is_completed_witness:
  "\<exists>b'. polledReadMessage (pieces [[1], [2, 3], [4]]) 0 4 SocketBuffer_new = Some (Inr (b', 3, 4, False)) \<and>
     content b' = [1, 2, 3, 4]"
proof -
  have "\<exists>b'. polledReadMessage (pieces [[1], [2, 3], [4]]) 0 4 SocketBuffer_new =
      Some (Inr (b', 0 + length [[1], [2, 3], [4 :: byte]], of_nat (length (concat [[1], [2, 3], [4 :: byte]])), False)) \<and>
    wf_buffer b' \<and> content b' = content SocketBuffer_new @ concat [[1], [2, 3], [4]] \<and> messageSize b' = 4"
    by (rule message_is_completed, rule_tac [3] wf_SocketBuffer_new)
      (simp_all add: pieces_def pollSingleSocket_def POLLIN_def POLLERR_def POLLNVAL_def POLLPRI_def
        UNKNOWN_SZ_def buffer_size_def messageSizeSet_def SocketBuffer_new_def VECTOR_MAX_def)
  then show ?thesis
    by (auto simp: numeral_3_eq_3)
qed

text \<open>
  C25: when the server closes the connection in the middle of a message, \<open>polledReadMessage\<close>
  never returns: \<open>poll\<close> reports the socket as readable, \<open>read\<close> gets 0 bytes and no error, and the
  loop starts again. Neither the poll timeout nor an error path ends it.
\<close>

theorem closed_server_hangs:
  assumes "at_end w k n" and "wf_buffer b" and "messageSizeSet b" and "messageSize b = n"
    and "n \<le> capacity b" and "buffer_size b < n"
  shows "polledReadMessage w k n b = None"
  using assms read_rest_hangs [of w k n b 0] by (simp add: polledReadMessage_def)

theorem closed_server_hangs_witness:
  "polledReadMessage (pieces []) 0 32 (SocketBuffer_new\<lparr>nms := 32\<rparr>) = None"
proof (rule closed_server_hangs)
  show "at_end (pieces []) 0 32"
    by (simp add: at_end_def pieces_def pollSingleSocket_def POLLIN_def POLLERR_def POLLNVAL_def POLLPRI_def)
  show "wf_buffer (SocketBuffer_new\<lparr>nms := 32\<rparr>)"
    using wf_SocketBuffer_new by (simp add: wf_buffer_def)
qed (simp_all add: messageSizeSet_def messageSize_def UNKNOWN_SZ_def capacity_def buffer_length_def
    buffer_size_def SocketBuffer_new_def BLOCK_SZ_def)

end
