(* ===== verification/HostFiles.thy ===== *)
theory HostFiles
  imports SettingsModel XAuth
begin

text \<open>
  The files of the host, operations on them, and what \<open>Settings\<close> does to them: the option \<open>-o\<close>
  opens the log file and the destructor closes it (\<open>Settings.cpp\<close>).

  An operation takes the files and gives the files that it leaves, together with its result, or
  none if it never returns. \<open>::exit\<close> leaves the files as they are.
\<close>

datatype node = Regular "byte list" | Socket_node

type_synonym files = "string \<rightharpoonup> node"
type_synonym 'a operation = "files \<Rightarrow> files \<times> 'a res option"

definition then_op :: "'a operation \<Rightarrow> ('a \<Rightarrow> 'b operation) \<Rightarrow> 'b operation" where
  "then_op m f fs =
     (case m fs of
        (fs', Some (Inr x)) \<Rightarrow> f x fs'
      | (fs', Some (Inl e)) \<Rightarrow> (fs', Some (Inl e))
      | (fs', None) \<Rightarrow> (fs', None))"

definition no_files_changed :: "'a res option \<Rightarrow> 'a operation" where
  "no_files_changed r fs = (fs, r)"

abbreviation answer :: "'a res \<Rightarrow> 'a operation" where
  "answer r \<equiv> no_files_changed (Some r)"

lemma then_op_simps [simp]:
  "then_op (answer (Inr x)) f = f x" "then_op (answer (Inl e)) f = answer (Inl e)"
  "then_op (no_files_changed None) f = no_files_changed None"
  by (simp_all add: then_op_def no_files_changed_def fun_eq_iff)

lemma then_opE [elim!]:
  assumes "then_op m f fs = (fs', Some (Inr y))"
  obtains x fs1 where "m fs = (fs1, Some (Inr x))" and "f x fs1 = (fs', Some (Inr y))"
  using assms by (auto simp: then_op_def split: prod.splits option.splits sum.splits)

lemma no_files_changedE [elim!]:
  assumes "no_files_changed r fs = (fs', Some (Inr y))"
  obtains "fs' = fs" and "r = Some (Inr y)"
  using assms by (simp add: no_files_changed_def)

definition remove_file :: "string \<Rightarrow> files \<Rightarrow> files" where
  \<comment> \<open>\<open>unlink(2)\<close>, and \<open>std::filesystem::remove\<close>, for which a missing file is no error\<close>
  "remove_file path fs = fs(path := None)"

definition rename_file :: "string \<Rightarrow> string \<Rightarrow> files \<Rightarrow> files option" where
  "rename_file old new fs = (case fs old of None \<Rightarrow> None | Some n \<Rightarrow> Some (fs(old := None, new := Some n)))"

definition create_file :: "string \<Rightarrow> files \<Rightarrow> files" where
  \<comment> \<open>\<open>fopen\<close> with the mode \<open>"we"\<close>\<close>
  "create_file path fs = fs(path \<mapsto> Regular [])"

subsection \<open>The log file\<close>

text \<open>
  The second use of \<open>-o\<close> removes the file that the first one has opened, and ends the program.
  What is logged is in the memory of the stream until the destructor of \<open>Settings\<close> closes it; the
  model writes it then. (The library may write earlier; no property here speaks of the file's
  content before.)
\<close>

fun opt_files :: "(string \<Rightarrow> bool) \<Rightarrow> opt \<Rightarrow> argv_state \<Rightarrow> files \<Rightarrow> files" where
  "opt_files fopen (Opt_o a) (S, en, dis) fs =
     (case log_path S of
        Some p \<Rightarrow> remove_file p fs
      | None \<Rightarrow> if a \<noteq> [] \<and> fopen a then create_file a fs else fs)"
| "opt_files fopen _ st fs = fs"

fun argv_files :: "(string \<Rightarrow> bool) \<Rightarrow> opt list \<Rightarrow> argv_state \<Rightarrow> files \<Rightarrow> files" where
  "argv_files fopen [] st fs = fs"
| "argv_files fopen (c # cs) st fs =
     (if begins_with_dash (optarg c) then fs
      else let fs1 = opt_files fopen c st fs in
           case parse_opt fopen c st of Inl _ \<Rightarrow> fs1 | Inr st1 \<Rightarrow> argv_files fopen cs st1 fs1)"

definition Settings_new :: "(string \<Rightarrow> bool) \<Rightarrow> bool \<Rightarrow> opt list \<Rightarrow> settings operation" where
  "Settings_new fopen setvbuf_ok opts fs =
     (argv_files fopen opts (Settings_default, {}, {}) fs, Some (parseFromArgv fopen setvbuf_ok opts Settings_default))"

datatype buffering = IOFBF | IOLBF | IONBF

record log_stream =
  fbufsize :: nat      \<comment> \<open>\<open>__fbufsize\<close> and \<open>__flbf\<close> of the standard output\<close>
  flbf :: bool
  fflush_ok :: bool
  restore_ok :: "buffering \<Rightarrow> nat \<Rightarrow> bool"   \<comment> \<open>\<open>setvbuf\<close>\<close>
  fclose_ok :: bool

definition recordFileStreamBufferDefaults :: "log_stream \<Rightarrow> buffering \<times> nat" where
  "recordFileStreamBufferDefaults L =
     (if flbf L then IOLBF else if fbufsize L = 0 then IONBF else IOFBF, fbufsize L)"

definition restoreFileStreamBufferDefaults :: "log_stream \<Rightarrow> buffering \<times> nat \<Rightarrow> unit res" where
  "restoreFileStreamBufferDefaults L = (\<lambda>(mode, sz). if restore_ok L mode sz then Inr () else Inl (Exit 1))"

definition written_log :: "string \<Rightarrow> string \<Rightarrow> files \<Rightarrow> files" where
  \<comment> \<open>the text reaches the file, if it still has its name\<close>
  "written_log path log fs =
     (case fs path of Some (Regular bs) \<Rightarrow> fs(path \<mapsto> Regular (bs @ c_bytes log)) | _ \<Rightarrow> fs)"

definition Settings_delete :: "log_stream \<Rightarrow> settings \<Rightarrow> string \<Rightarrow> unit operation" where
  "Settings_delete L S log fs =
     (if \<not> fflush_ok L then (fs, Some (Inl (Exit 1)))
      else case log_path S of
        None \<Rightarrow> (fs, Some (restoreFileStreamBufferDefaults L (recordFileStreamBufferDefaults L)))
      | Some p \<Rightarrow> (written_log p log fs, Some (if fclose_ok L then Inr () else Inl (Exit 1))))"

subsection \<open>What these leave\<close>

definition log_created :: "settings \<Rightarrow> files \<Rightarrow> files" where
  "log_created S fs = (case log_path S of None \<Rightarrow> fs | Some p \<Rightarrow> create_file p fs)"

lemma parse_opt_log:
  assumes "parse_opt fopen c (S, en, dis) = Inr (S', en', dis')"
  shows "(log_path S = None \<and> opt_files fopen c (S, en, dis) fs = log_created S' fs) \<or>
    (log_path S' = log_path S \<and> opt_files fopen c (S, en, dis) fs = fs)"
  using assms by (cases c) (auto simp: map_res_eq_Inr log_created_def require_def split: if_splits)

lemma parse_opts_log:
  assumes "parse_opts fopen cs (S, en, dis) = Inr (S', en', dis')"
  shows "(log_path S = None \<longrightarrow> argv_files fopen cs (S, en, dis) fs = log_created S' fs) \<and>
    (log_path S \<noteq> None \<longrightarrow> log_path S' = log_path S \<and> argv_files fopen cs (S, en, dis) fs = fs)"
  using assms
proof (induction cs arbitrary: S en dis fs)
  case (Cons c cs)
  from Cons.prems obtain S1 en1 dis1 where step: "parse_opt fopen c (S, en, dis) = Inr (S1, en1, dis1)"
    and rest: "parse_opts fopen cs (S1, en1, dis1) = Inr (S', en', dis')"
    and dash: "\<not> begins_with_dash (optarg c)"
    by (auto simp: and_then_eq_Inr split: if_splits)
  obtain fs1 where fs1: "opt_files fopen c (S, en, dis) fs = fs1"
    by simp
  from parse_opt_log [OF step, of fs, unfolded fs1] Cons.IH [OF rest, of fs1] step dash show ?case
    by (cases "log_path S1") (auto simp: fs1 log_created_def)
qed (auto simp: log_created_def)

lemma Settings_new_result:
  "snd (Settings_new fopen ok opts fs) = Some (parseFromArgv fopen ok opts Settings_default)"
  by (simp add: Settings_new_def)

lemma Settings_new_files:
  assumes "Settings_new fopen ok opts fs = (fs', Some (Inr S))"
  shows "fs' = log_created S fs"
proof -
  from assms obtain S1 en dis where run: "parse_opts fopen opts (Settings_default, {}, {}) = Inr (S1, en, dis)"
    and "S = apply_extension_options (S1, en, dis)" and fs': "fs' = argv_files fopen opts (Settings_default, {}, {}) fs"
    by (auto simp: Settings_new_def parseFromArgv_def and_then_eq_Inr Let_def split: if_splits)
  then have "log_path S = log_path S1"
    by (simp add: apply_extension_options_def Let_def)
  with parse_opts_log [OF run, of fs] show ?thesis
    by (simp add: fs' log_created_def Settings_default_def)
qed

lemma log_created_other: "log_path S \<noteq> Some x \<Longrightarrow> log_created S fs x = fs x"
  by (auto simp: log_created_def create_file_def split: option.split)

lemma Settings_delete_other:
  assumes "Settings_delete L S log fs = (fs', r)" and "log_path S \<noteq> Some x"
  shows "fs' x = fs x"
  using assms by (auto simp: Settings_delete_def written_log_def split: if_splits option.splits node.splits)

lemma Settings_delete_log:
  assumes "Settings_delete L S log fs = (fs', Some (Inr u))" and "log_path S = Some p" and "fs p = Some (Regular bs)"
  shows "fs' p = Some (Regular (bs @ c_bytes log))"
  using assms by (auto simp: Settings_delete_def written_log_def split: if_splits)

text \<open>A second \<open>-o\<close> removes what the first has made, together with what the file had before.\<close>

lemma second_log_removes_first:
  assumes "p \<noteq> []" "fopen p" "\<not> begins_with_dash (Some p)" "\<not> begins_with_dash (Some q)"
  shows "Settings_new fopen ok [Opt_o p, Opt_o q] fs = (fs(p := None), Some (Inl (Exit 1)))"
  using assms
  by (auto simp: Settings_new_def parseFromArgv_def Settings_default_def require_def create_file_def
    remove_file_def)

end
