(* ===== verification/Lifecycle.thy ===== *)
theory Lifecycle
  imports Runs Prequeue HostFiles
begin

text \<open>
  The life of the program (\<open>main.cpp\<close> and, in \<open>ProxyX11Server.cpp\<close>, the constructor, the destructor,
  the signal handlers, \<open>run\<close> and the functions these call): what it does to the files of the host.
  Operations are those of \<open>HostFiles\<close>; after \<open>::exit\<close> the destructor of the server, which is a local
  variable of \<open>main\<close>, does not run. Answers of system calls are members of \<open>host\<close>.
  The child process is another program; \<open>fork\<close> is followed in the parent only.
\<close>

subsection \<open>The host\<close>

record host =
  getenv :: "string \<Rightarrow> string option"
  services :: name_services
  fopen_ok :: "string \<Rightarrow> bool"
  setvbuf_ok :: bool
  copy_ok :: "string \<Rightarrow> string \<Rightarrow> bool"
  write_ok :: "string \<Rightarrow> bool"
  sigaction_ok :: bool
  name_memory :: "byte list"        \<comment> \<open>memory from \<open>_AUTH_NAME.data()\<close> on\<close>
  time_io :: "setup_io \<times> io"         \<comment> \<open>for the two setup clients\<close>
  atoms_io :: "setup_io \<times> io"
  now :: int
  listen_socket :: int
  listen_setsockopt :: bool
  bind_ok :: bool
  listen_ok :: bool
  fork_ok :: bool
  log_io :: log_stream

subsection \<open>Signals\<close>

text \<open>
  What a terminating signal does. \<open>Clean_up\<close> is the handler in \<open>ProxyX11Server.cpp\<close>,
  \<open>Show_cursor\<close> the one of the same name in \<open>ProxyX11Server_prequeue_clients.cpp\<close>.
\<close>

datatype disposition = Default | Clean_up | Show_cursor

record proxy_process =
  in_display :: display_info
  out_display :: display_info
  in_display_sun_path :: "string option"
  out_display_sun_path :: "string option"
  auth_paths :: "(string \<times> string) option"  \<comment> \<open>\<open>_xauth_path\<close> and \<open>_xauth_bup_path\<close>\<close>
  auth_cookie :: "byte list"
  on_signal :: disposition
  the_parser :: parser

definition SIGNAL_RETVAL_OFFSET :: int where
  "SIGNAL_RETVAL_OFFSET = 128"

datatype ending = Exited int | Killed int

definition unlink_path :: "string option \<Rightarrow> files \<Rightarrow> files" where
  "unlink_path p = (case p of None \<Rightarrow> id | Some path \<Rightarrow> remove_file path)"

definition handleTerminatingSignal :: "int \<Rightarrow> proxy_process \<Rightarrow> files \<Rightarrow> files \<times> ending" where
  \<comment> \<open>no error is checked\<close>
  "handleTerminatingSignal sig s fs =
     (let fs1 = unlink_path (out_display_sun_path s) (unlink_path (in_display_sun_path s) fs);
          fs2 = (case auth_paths s of
                   None \<Rightarrow> fs1
                 | Some (path, bup) \<Rightarrow> (case rename_file bup path fs1 of None \<Rightarrow> fs1 | Some fs2 \<Rightarrow> fs2)) in
      (fs2, Exited (SIGNAL_RETVAL_OFFSET + sig)))"

definition terminate :: "int \<Rightarrow> proxy_process \<Rightarrow> files \<Rightarrow> files \<times> ending" where
  \<comment> \<open>\<open>SIGINT\<close>, \<open>SIGTERM\<close>, \<open>SIGABRT\<close> or \<open>SIGSEGV\<close> arrives\<close>
  "terminate sig s fs =
     (case on_signal s of
        Default \<Rightarrow> (fs, Killed sig)
      | Clean_up \<Rightarrow> handleTerminatingSignal sig s fs
      | Show_cursor \<Rightarrow> (fs, Exited (SIGNAL_RETVAL_OFFSET + sig)))"

text \<open>
  A failing assertion and an exception that nobody catches raise \<open>SIGABRT\<close>. After a read out of
  bounds anything may happen; the model stops there.
\<close>

definition SIGABRT :: int where
  "SIGABRT = 6"

definition aborts :: "fault \<Rightarrow> bool" where
  "aborts e = (case e of
     Assertion_failure \<Rightarrow> True | Out_of_range \<Rightarrow> True | Length_error \<Rightarrow> True
   | System_error \<Rightarrow> True | Format_error \<Rightarrow> True | _ \<Rightarrow> False)"

definition guarded :: "proxy_process \<Rightarrow> 'a operation \<Rightarrow> 'a operation" where
  \<comment> \<open>the operation, with what the signal handler of this moment does if it aborts\<close>
  "guarded s m fs =
     (case m fs of
        (fs', Some (Inl e)) \<Rightarrow> (if aborts e then fst (terminate SIGABRT s fs') else fs', Some (Inl e))
      | r \<Rightarrow> r)"

lemma guardedE [elim!]:
  assumes "guarded s m fs = (fs', Some (Inr y))"
  obtains "m fs = (fs', Some (Inr y))"
  using assms by (auto simp: guarded_def split: prod.splits option.splits sum.splits)

datatype siginfo =
    CLD_EXITED int | CLD_KILLED int | CLD_DUMPED int | CLD_other

definition handleSIGCHLD :: "siginfo \<Rightarrow> int \<Rightarrow> int" where
  \<comment> \<open>the new \<open>child_retval\<close>\<close>
  "handleSIGCHLD info child_retval =
     (case info of
        CLD_EXITED si_status \<Rightarrow> si_status
      | CLD_KILLED si_status \<Rightarrow> SIGNAL_RETVAL_OFFSET + si_status
      | CLD_DUMPED si_status \<Rightarrow> SIGNAL_RETVAL_OFFSET + si_status
      | CLD_other \<Rightarrow> child_retval)"

subsection \<open>Constructor\<close>

definition DEFAULT_IN_DISPLAYNAME :: string where
  "DEFAULT_IN_DISPLAYNAME = '':9''"

definition sun_path :: "display_info \<Rightarrow> string option" where
  "sun_path D = (if di_family D = AF_UNIX then Some (di_sun_path D) else None)"

definition first_given :: "string option \<Rightarrow> string option \<Rightarrow> string option" where
  "first_given a b = (case a of Some x \<Rightarrow> Some x | None \<Rightarrow> b)"

definition parseDisplayNames :: "host \<Rightarrow> parser \<Rightarrow> proxy_process res" where
  "parseDisplayNames H P =
     (case first_given (out_displayname (settings P)) (getenv H ''DISPLAY'') of
        None \<Rightarrow> Inl Assertion_failure
      | Some out_name \<Rightarrow>
          and_then (DisplayInfo_new (services H) out_name OUT) (\<lambda>out_disp.
          let in_name = (case first_given (in_displayname (settings P)) (getenv H ''PROXYDISPLAY'') of
                           None \<Rightarrow> DEFAULT_IN_DISPLAYNAME | Some n \<Rightarrow> n) in
          and_then (DisplayInfo_new (services H) in_name IN) (\<lambda>in_disp.
          let unix = (sun_path out_disp \<noteq> None \<or> sun_path in_disp \<noteq> None) in
          if unix \<and> \<not> sigaction_ok H then Inl (Exit 1)
          else Inr \<lparr>in_display = in_disp, out_display = out_disp,
                    in_display_sun_path = sun_path in_disp, out_display_sun_path = sun_path out_disp,
                    auth_paths = None, auth_cookie = [],
                    on_signal = (if unix then Clean_up else Default), the_parser = P\<rparr>)))"

definition auth_view :: "host \<Rightarrow> files \<Rightarrow> auth_environment" where
  "auth_view H fs =
     \<lparr>env_XAUTHORITY = getenv H ''XAUTHORITY'', env_HOME = getenv H ''HOME'',
      auth_file = (\<lambda>path. case fs path of Some (Regular bs) \<Rightarrow> Some bs | _ \<Rightarrow> None),
      copy_file = copy_ok H, can_write = write_ok H\<rparr>"

definition copy_authentication :: "host \<Rightarrow> (nat \<Rightarrow> nat) \<Rightarrow> proxy_process \<Rightarrow> proxy_process operation" where
  \<comment> \<open>\<open>_copyAuthentication\<close> with its files: the backup is made before the file is opened for writing\<close>
  "copy_authentication H vector_capacity s fs =
     (case edited_entries (fmtl (the_parser s)) vector_capacity (auth_view H fs)
         (di_display (in_display s)) (di_display (out_display s)) of
        Inl e \<Rightarrow> (fs, Some (Inl e))
      | Inr (path, entries, cookie) \<Rightarrow>
          if \<not> copy_ok H path (backup_path path) then (fs, Some (Inl System_error))
          else let fs1 = fs(backup_path path := fs path) in
               if \<not> write_ok H path then (fs1, Some (Inl (Exit 1)))
               else (fs1(path \<mapsto> Regular (concat (map write_xauth entries))),
                     Some (Inr (s\<lparr>auth_paths := Some (path, backup_path path), auth_cookie := cookie\<rparr>))))"

definition with_auth_paths :: "host \<Rightarrow> files \<Rightarrow> proxy_process \<Rightarrow> proxy_process" where
  \<comment> \<open>the handler knows the paths before the file is read\<close>
  "with_auth_paths H fs s =
     (case auth_path (auth_view H fs) of
        Inl _ \<Rightarrow> s | Inr path \<Rightarrow> s\<lparr>auth_paths := Some (path, backup_path path)\<rparr>)"

definition fetch_time :: "host \<Rightarrow> proxy_process \<Rightarrow> proxy_process res option" where
  "fetch_time H s =
     then_opt (Some (connectToServer (snd (time_io H)) (di_family (out_display s)))) (\<lambda>fd.
     then_opt (fetchCurrentServerTime (fst (time_io H)) fd (the_parser s) (name_memory H) (auth_cookie s) (now H))
       (\<lambda>st. Some (Inr (s\<lparr>the_parser := (the_parser s)\<lparr>settings := st\<rparr>\<rparr>))))"

definition prefetch_connection :: "host \<Rightarrow> proxy_process \<Rightarrow> (nat \<times> nat option) res option" where
  "prefetch_connection H s =
     then_opt (Some (connectToServer (snd (atoms_io H)) (di_family (out_display s)))) (\<lambda>fd.
     if fd < 0 then Some (Inl (Exit 1))
     else authenticateServerConnection (fst (atoms_io H)) 0 (the_parser s) (name_memory H) (auth_cookie s))"

definition prefetch_atoms :: "host \<Rightarrow> proxy_process \<Rightarrow> proxy_process operation" where
  \<comment> \<open>\<open>_fetchInternedAtoms\<close> with its signal handlers: first its own, afterwards the default ones\<close>
  "prefetch_atoms H s =
     then_op (guarded s (no_files_changed (prefetch_connection H s))) (\<lambda>(k, setup).
     if setup = None \<or> \<not> sigaction_ok H then answer (Inl (Exit 1))
     else then_op (guarded (s\<lparr>on_signal := Show_cursor\<rparr>)
         (no_files_changed (fetch_atoms (fst (atoms_io H)) k (the_parser s) 1 [[]] SocketBuffer_new))) (\<lambda>atoms.
     let s1 = s\<lparr>on_signal := Default\<rparr> in
     then_op (guarded s1 (answer (importFetchedAtoms atoms (the_parser s)))) (\<lambda>P.
     answer (Inr (s1\<lparr>the_parser := P\<rparr>)))))"

definition construct :: "host \<Rightarrow> fmt_lib \<Rightarrow> bool \<Rightarrow> (nat \<Rightarrow> nat) \<Rightarrow> opt list \<Rightarrow> proxy_process operation" where
  "construct H F le vector_capacity opts =
     then_op (Settings_new (fopen_ok H) (setvbuf_ok H) opts) (\<lambda>st.
     then_op (answer (X11ProtocolParser_new F le False True st)) (\<lambda>P.
     then_op (answer (parseDisplayNames H P)) (\<lambda>s0.
     then_op (if copyauth st
          then \<lambda>fs. guarded (with_auth_paths H fs s0) (copy_authentication H vector_capacity s0) fs
          else answer (Inr s0)) (\<lambda>s1.
     then_op (if systemtimeformat st then guarded s1 (no_files_changed (fetch_time H s1)) else answer (Inr s1)) (\<lambda>s2.
     if prefetchatoms st then prefetch_atoms H s2 else answer (Inr s2))))))"

subsection \<open>Run\<close>

definition listenForClients :: "host \<Rightarrow> display_info \<Rightarrow> int operation" where
  \<comment> \<open>for a Unix socket, \<open>bind\<close> makes the file\<close>
  "listenForClients H D fs =
     (if listen_socket H < 0 then (fs, Some (Inl (Exit 1)))
      else if di_family D \<in> {AF_INET6, AF_INET} \<and> \<not> listen_setsockopt H then (fs, Some (Inl (Exit 1)))
      else let fs1 = unlink_path (sun_path D) fs in
           if \<not> bind_ok H then (fs1, Some (Inl (Exit 1)))
           else let fs2 = (case sun_path D of None \<Rightarrow> fs1 | Some path \<Rightarrow> fs1(path \<mapsto> Socket_node)) in
                if \<not> listen_ok H then (fs2, Some (Inl (Exit 1)))
                else (fs2, Some (Inr (listen_socket H))))"

definition startSubcommandClient :: "host \<Rightarrow> string list \<Rightarrow> bool res" where
  \<comment> \<open>\<open>_child_used\<close>\<close>
  "startSubcommandClient H subcmd_argv =
     (if subcmd_argv = [] then Inr False
      else if \<not> sigaction_ok H then Inl (Exit 1)
      else if \<not> fork_ok H then Inl (Exit 1)
      else Inr True)"

definition subcommand :: "string list \<Rightarrow> string list" where
  \<comment> \<open>\<open>subcmd_argv\<close>, from what \<open>getopt_long\<close> leaves of the command line\<close>
  "subcommand rest = (if rest \<noteq> [] \<and> hd rest \<noteq> ''--'' then rest else [])"

definition run_server ::
  "host \<Rightarrow> string list \<Rightarrow> round list \<Rightarrow> siginfo option \<Rightarrow> proxy_process \<Rightarrow> (int \<times> string) operation"
where
  \<comment> \<open>the exit status and what was logged: the rounds of the main queue until it returns, and what \<open>SIGCHLD\<close> brought by then\<close>
  "run_server H subcmd_argv rounds child_info s =
     then_op (listenForClients H (in_display s)) (\<lambda>listener.
     then_op (answer (startSubcommandClient H subcmd_argv)) (\<lambda>child_used.
     let child_retval = (case child_info of None \<Rightarrow> 0 | Some info \<Rightarrow> handleSIGCHLD info 0);
         rounds' = map (\<lambda>r. r\<lparr>child_running := child_used \<and> child_running r\<rparr>) rounds in
     then_op (answer (processClientQueue (child_used, child_retval) rounds'
         (ProxyX11Server_new listener (di_family (out_display s)) (the_parser s)))) (\<lambda>q.
     no_files_changed (case q of Running _ \<Rightarrow> None | Returned v s' \<Rightarrow> Some (Inr (v, log_out s'))))))"

subsection \<open>Destructor\<close>

definition destruct :: "proxy_process \<Rightarrow> unit operation" where
  \<comment> \<open>an exception of \<open>rename\<close> in a destructor ends the program\<close>
  "destruct s fs =
     (let fs1 = unlink_path (sun_path (out_display s)) (unlink_path (sun_path (in_display s)) fs) in
      case auth_paths s of
        None \<Rightarrow> (fs1, Some (Inr ()))
      | Some (path, bup) \<Rightarrow>
          (case rename_file bup path fs1 of
             None \<Rightarrow> (fs1, Some (Inl System_error))
           | Some fs2 \<Rightarrow> (fs2, Some (Inr ()))))"

definition main ::
  "host \<Rightarrow> fmt_lib \<Rightarrow> bool \<Rightarrow> (nat \<Rightarrow> nat) \<Rightarrow> opt list \<Rightarrow> string list \<Rightarrow> round list \<Rightarrow> siginfo option \<Rightarrow> int operation"
where
  "main H F le vector_capacity opts rest rounds child_info =
     then_op (construct H F le vector_capacity opts) (\<lambda>s.
     then_op (guarded s (run_server H (subcommand rest) rounds child_info s)) (\<lambda>(v, log).
     then_op (destruct s) (\<lambda>_.
     then_op (Settings_delete (log_io H) (settings (the_parser s)) log) (\<lambda>_. answer (Inr v)))))"

subsection \<open>What the constructor leaves\<close>

text \<open>The functions above are those of the component theories, with their files and signal handlers.\<close>

lemma copy_authentication_result:
  "map_option (map_res auth_cookie) (snd (copy_authentication H cap s fs)) =
   Some (map_res auth_data (copyAuthentication (fmtl (the_parser s)) cap (auth_view H fs)
     (di_display (in_display s)) (di_display (out_display s))))"
  by (simp add: copy_authentication_def copyAuthentication_def auth_view_def Let_def split: sum.split prod.split)

lemma snd_then_op: "snd (then_op (guarded s (no_files_changed r)) f fs) =
    then_opt r (\<lambda>x. snd (f x (fst (guarded s (no_files_changed r) fs))))"
  by (simp add: then_op_def guarded_def no_files_changed_def then_opt_def split: option.split sum.split)

lemma prefetch_atoms_result:
  assumes "sigaction_ok H"
  shows "snd (prefetch_atoms H s fs) =
    then_opt (Some (connectToServer (snd (atoms_io H)) (di_family (out_display s)))) (\<lambda>fd.
    then_opt (fetchInternedAtoms (fst (atoms_io H)) fd (the_parser s) (name_memory H) (auth_cookie s)) (\<lambda>atoms.
    Some (map_res (\<lambda>P. s\<lparr>on_signal := Default, the_parser := P\<rparr>) (importFetchedAtoms atoms (the_parser s)))))"
proof -
  have "snd (prefetch_atoms H s fs) = then_opt (prefetch_connection H s) (\<lambda>(k, setup).
      if setup = None then Some (Inl (Exit 1))
      else then_opt (fetch_atoms (fst (atoms_io H)) k (the_parser s) 1 [[]] SocketBuffer_new) (\<lambda>atoms.
        Some (map_res (\<lambda>P. s\<lparr>on_signal := Default, the_parser := P\<rparr>) (importFetchedAtoms atoms (the_parser s)))))"
    using assms unfolding prefetch_atoms_def snd_then_op
    by (intro arg_cong [where f = "then_opt _"] ext)
      (auto simp: snd_then_op no_files_changed_def Let_def then_opt_def map_res_def and_then_def
        split: prod.split option.split sum.split)
  then show ?thesis
    by (auto simp: prefetch_connection_def fetchInternedAtoms_def then_opt_def split: option.split sum.split prod.split)
qed

lemma then_optE [elim!]:
  assumes "then_opt r f = Some (Inr y)"
  obtains x where "r = Some (Inr x)" and "f x = Some (Inr y)"
  using assms by (auto simp: then_opt_def split: option.splits sum.splits)

definition inet_only :: "name_services \<Rightarrow> bool" where
  \<comment> \<open>\<open>getaddrinfo\<close> finds Internet addresses\<close>
  "inet_only W \<longleftrightarrow> (\<forall>host dir rs. getaddrinfo W host dir = Some rs \<longrightarrow>
     (\<forall>r \<in> set rs. gai_family r = AF_INET \<or> gai_family r = AF_INET6))"

definition socket_file :: "string \<Rightarrow> bool" where
  \<comment> \<open>a file in the place of the X servers' sockets\<close>
  "socket_file path \<longleftrightarrow> (\<exists>digits. path = UNIX_SOCKET_PATH_PREFIX @ digits)"

lemma parse_name_result:
  assumes "parse_name W name = Inr (D, digits)"
  shows "di_display D = UNSET \<or> di_socket_path D = []"
  using assms
  by (auto simp: parse_name_def parse_default_def map_res_eq_Inr and_then_eq_Inr DisplayInfo_default_def Let_def
    split: option.splits if_splits)

lemma inet_address_family:
  assumes "inet_address W dir D0 = Inr D" and "inet_only W"
  shows "di_family D \<noteq> AF_UNIX"
proof -
  from assms(1) obtain rs r where rs: "getaddrinfo W (if dir = IN then None else Some (di_hostname D0)) dir = Some rs"
    "find (\<lambda>r. gai_viable r (gai_port r)) (map (with_port dir (di_display D0)) rs) = Some r"
    "di_family D = gai_family (hd rs)"
    by (auto simp: inet_address_def Let_def split: option.splits if_splits)
  then have "hd rs \<in> set rs"
    by (cases rs) auto
  with rs(1) assms(2) have "gai_family (hd rs) = AF_INET \<or> gai_family (hd rs) = AF_INET6"
    unfolding inet_only_def by blast
  with rs(3) show ?thesis
    by auto
qed

lemma sun_path_is_socket:
  assumes "DisplayInfo_new W name dir = Inr D" and "inet_only W" and "sun_path D = Some path"
  shows "socket_file path"
proof -
  from assms(1) obtain D0 digits f where parsed: "parse_name W name = Inr (D0, digits)"
    and set: "di_display D0 \<noteq> UNSET"
    and addressed: "(let D' = D0\<lparr>di_family := f, di_screen := (if di_screen D0 = UNSET then 0 else di_screen D0)\<rparr> in
      if f = AF_UNIX then unix_address digits D' else inet_address W dir D') = Inr D"
    by (auto simp: DisplayInfo_new_def and_then_eq_Inr)
  have "f = AF_UNIX"
    using addressed inet_address_family [OF _ assms(2)] assms(3)
    by (auto simp: sun_path_def Let_def split: if_splits)
  then show ?thesis
    using addressed assms(3) parse_name_result [OF parsed] set
    by (auto simp: sun_path_def Let_def unix_address_def and_then_eq_Inr socket_file_def split: if_splits)
qed

lemma fetchCurrentServerTime_settings:
  assumes "fetchCurrentServerTime w fd P mem cookie t0 = Some (Inr st)"
  shows "\<exists>t u. st = settings P \<or> st = (settings P)\<lparr>ref_TIMESTAMP := t, ref_unix_time := u\<rparr>"
  using assms by (auto simp: fetchCurrentServerTime_def Let_def map_res_eq_Inr split: if_splits option.splits)

definition same_options :: "settings \<Rightarrow> settings \<Rightarrow> bool" where
  "same_options S S' \<longleftrightarrow> keeprunning S' = keeprunning S \<and> log_path S' = log_path S"

lemma same_options_refl [simp]: "same_options S S"
  by (simp add: same_options_def)

lemma fetch_time_keeps:
  assumes "fetch_time H s = Some (Inr s')"
  shows "\<exists>P'. s' = s\<lparr>the_parser := P'\<rparr> \<and> same_options (settings (the_parser s)) (settings P')"
proof -
  from assms obtain fd st where "fetchCurrentServerTime (fst (time_io H)) fd (the_parser s) (name_memory H)
      (auth_cookie s) (now H) = Some (Inr st)" and "s' = s\<lparr>the_parser := (the_parser s)\<lparr>settings := st\<rparr>\<rparr>"
    by (auto simp: fetch_time_def)
  with fetchCurrentServerTime_settings show ?thesis
    by (fastforce simp: same_options_def)
qed

lemma prefetch_atoms_keeps:
  assumes "prefetch_atoms H s fs = (fs', Some (Inr s'))"
  shows "fs' = fs \<and> (\<exists>P'. s' = s\<lparr>on_signal := Default, the_parser := P'\<rparr> \<and>
    same_options (settings (the_parser s)) (settings P'))"
  using assms
  by (auto simp: same_options_def prefetch_atoms_def importFetchedAtoms_def Let_def split: if_splits)
    (rule exI, rule conjI, rule refl, simp)

lemma parseDisplayNames_result:
  assumes "parseDisplayNames H P = Inr s" and "inet_only (services H)"
  shows "in_display_sun_path s = sun_path (in_display s)" "out_display_sun_path s = sun_path (out_display s)"
    and "auth_paths s = None" "the_parser s = P"
    and "on_signal s = (if sun_path (out_display s) \<noteq> None \<or> sun_path (in_display s) \<noteq> None then Clean_up else Default)"
    and "\<forall>p. sun_path (in_display s) = Some p \<or> sun_path (out_display s) = Some p \<longrightarrow> socket_file p"
    and "\<forall>n. first_given (out_displayname (settings P)) (getenv H ''DISPLAY'') = Some n \<longrightarrow>
      DisplayInfo_new (services H) n OUT = Inr (out_display s)"
  using assms sun_path_is_socket
  by (auto simp: parseDisplayNames_def and_then_eq_Inr Let_def split: option.splits if_splits)

lemma copy_authentication_keeps:
  assumes "copy_authentication H cap s fs = (fs', Some (Inr s'))"
  shows "\<exists>path bs new cookie. auth_path (auth_view H fs) = Inr path \<and> fs path = Some (Regular bs) \<and>
    s' = s\<lparr>auth_paths := Some (path, backup_path path), auth_cookie := cookie\<rparr> \<and>
    fs' = fs(backup_path path := fs path, path \<mapsto> Regular new)"
  using assms
  by (auto simp: copy_authentication_def edited_entries_def auth_view_def Let_def and_then_eq_Inr map_res_eq_Inr
    split: sum.splits if_splits option.splits node.splits)

definition started :: "host \<Rightarrow> settings \<Rightarrow> files \<Rightarrow> files \<Rightarrow> proxy_process \<Rightarrow> bool" where
  \<comment> \<open>the state and the files after the constructor, with the settings of the command line\<close>
  "started H st fs fs1 s \<longleftrightarrow>
     in_display_sun_path s = sun_path (in_display s) \<and> out_display_sun_path s = sun_path (out_display s) \<and>
     (\<forall>p. sun_path (in_display s) = Some p \<or> sun_path (out_display s) = Some p \<longrightarrow> socket_file p) \<and>
     (\<forall>n. first_given (out_displayname st) (getenv H ''DISPLAY'') = Some n \<longrightarrow>
       DisplayInfo_new (services H) n OUT = Inr (out_display s)) \<and>
     same_options st (settings (the_parser s)) \<and>
     on_signal s = (if prefetchatoms st then Default
       else if sun_path (out_display s) \<noteq> None \<or> sun_path (in_display s) \<noteq> None then Clean_up else Default) \<and>
     (if copyauth st
      then \<exists>path bs new. auth_path (auth_view H fs) = Inr path \<and> fs path = Some (Regular bs) \<and>
        auth_paths s = Some (path, backup_path path) \<and> fs1 = fs(backup_path path := fs path, path \<mapsto> Regular new)
      else auth_paths s = None \<and> fs1 = fs)"

lemma construct_starts:
  assumes "construct H F le cap opts fs = (fs1, Some (Inr s))" and "inet_only (services H)"
    and "parseFromArgv (fopen_ok H) (setvbuf_ok H) opts Settings_default = Inr st"
  shows "started H st (log_created st fs) fs1 s"
proof -
  let ?fs = "log_created st fs"
  from assms(1,3) obtain P s0 s1 s2 fs2 fs3 where
    P: "X11ProtocolParser_new F le False True st = Inr P" and s0: "parseDisplayNames H P = Inr s0"
    and s1: "(if copyauth st then \<lambda>fs. guarded (with_auth_paths H fs s0) (copy_authentication H cap s0) fs
      else answer (Inr s0)) ?fs = (fs2, Some (Inr s1))"
    and s2: "(if systemtimeformat st then guarded s1 (no_files_changed (fetch_time H s1)) else answer (Inr s1)) fs2 =
      (fs3, Some (Inr s2))"
    and s: "(if prefetchatoms st then prefetch_atoms H s2 else answer (Inr s2)) fs3 = (fs1, Some (Inr s))"
    unfolding construct_def
    by (elim then_opE no_files_changedE) (frule Settings_new_files, simp add: Settings_new_def)
  have "settings P = st"
    using P by (auto simp: X11ProtocolParser_new_def and_then_eq_Inr)
  with parseDisplayNames_result(4) [OF s0 assms(2)] have "settings (the_parser s0) = st"
    by simp
  note start = this parseDisplayNames_result [OF s0 assms(2), unfolded \<open>settings P = st\<close>]
  have one: "\<exists>a c. s1 = s0\<lparr>auth_paths := a, auth_cookie := c\<rparr> \<and>
    (if copyauth st
      then \<exists>path bs new. auth_path (auth_view H ?fs) = Inr path \<and> ?fs path = Some (Regular bs) \<and>
        a = Some (path, backup_path path) \<and> fs2 = ?fs(backup_path path := ?fs path, path \<mapsto> Regular new)
      else a = None \<and> fs2 = ?fs)"
  proof (cases "copyauth st")
    case True
    with s1 have "copy_authentication H cap s0 ?fs = (fs2, Some (Inr s1))"
      by auto
    from copy_authentication_keeps [OF this] True show ?thesis
      by auto
  next
    case False
    with s1 start(4) show ?thesis
      by (cases s0) auto
  qed
  have two: "fs3 = fs2 \<and> (\<exists>P'. s2 = s1\<lparr>the_parser := P'\<rparr> \<and> same_options (settings (the_parser s1)) (settings P'))"
    using s2 fetch_time_keeps [of H s1 s2] by (cases s1) (auto split: if_splits)
  have three: "fs1 = fs3 \<and> (\<exists>P'. s = s2\<lparr>on_signal := (if prefetchatoms st then Default else on_signal s2), the_parser := P'\<rparr> \<and>
    same_options (settings (the_parser s2)) (settings P'))"
    using s prefetch_atoms_keeps [of H s2 fs3 fs1 s] by (cases s2) (auto split: if_splits)
  obtain a c P2 P3 where e1: "s1 = s0\<lparr>auth_paths := a, auth_cookie := c\<rparr>" and e2: "s2 = s1\<lparr>the_parser := P2\<rparr>"
    and e3: "s = s2\<lparr>on_signal := (if prefetchatoms st then Default else on_signal s2), the_parser := P3\<rparr>"
    and keep: "same_options (settings (the_parser s2)) (settings P3)"
      "same_options (settings (the_parser s1)) (settings P2)"
    and files: "if copyauth st
      then \<exists>path bs new. auth_path (auth_view H ?fs) = Inr path \<and> ?fs path = Some (Regular bs) \<and>
        a = Some (path, backup_path path) \<and> fs2 = ?fs(backup_path path := ?fs path, path \<mapsto> Regular new)
      else a = None \<and> fs2 = ?fs"
    using one two three by blast
  have displays: "in_display s = in_display s0" "out_display s = out_display s0"
    "in_display_sun_path s = in_display_sun_path s0" "out_display_sun_path s = out_display_sun_path s0"
    "auth_paths s = a" "on_signal s = (if prefetchatoms st then Default else on_signal s0)"
    by (simp_all add: e1 e2 e3)
  have "fs1 = fs2"
    using two three by simp
  moreover have "same_options st (settings (the_parser s))"
    using keep start(1) by (simp add: e1 e2 e3 same_options_def)
  ultimately show ?thesis
    unfolding started_def displays start(2,3,6) using files start(7,8)
    by (cases "copyauth st") simp_all
qed

subsection \<open>What the rest of the program does to the files\<close>

lemma unlink_path_simps [simp]:
  "unlink_path None fs = fs" "unlink_path (Some p) fs = fs(p := None)"
  by (simp_all add: unlink_path_def remove_file_def)

lemma unlink_path_other: "(\<And>p. q = Some p \<Longrightarrow> socket_file p) \<Longrightarrow> \<not> socket_file x \<Longrightarrow> unlink_path q fs x = fs x"
  by (cases q) auto

lemma listenForClients_other:
  assumes "listenForClients H D fs = (fs', r)" and "\<And>p. sun_path D = Some p \<Longrightarrow> socket_file p" and "\<not> socket_file x"
  shows "fs' x = fs x"
  using assms
  by (cases "sun_path D") (auto simp: listenForClients_def Let_def split: if_splits)

lemma run_server_other:
  assumes "run_server H argv rounds info s fs = (fs', Some (Inr r))"
    and "\<And>p. sun_path (in_display s) = Some p \<Longrightarrow> socket_file p" and "\<not> socket_file x"
  shows "fs' x = fs x"
  using assms(1) listenForClients_other [OF _ assms(2,3)]
  by (auto simp: run_server_def Let_def split: queue_state.splits)

definition files_kept :: "settings \<Rightarrow> files \<Rightarrow> files \<Rightarrow> bool" where
  \<comment> \<open>except for the log file and what is in the place of the X servers' sockets\<close>
  "files_kept st fs fs' \<longleftrightarrow> (\<forall>x. \<not> socket_file x \<and> log_path st \<noteq> Some x \<longrightarrow> fs' x = fs x)"

definition own_place :: "settings \<Rightarrow> string \<Rightarrow> bool" where
  \<comment> \<open>neither the authorization file nor its backup is in the place of a socket or of the log\<close>
  "own_place st path \<longleftrightarrow>
     (\<forall>x \<in> {path, backup_path path}. \<not> socket_file x \<and> log_path st \<noteq> Some x)"

lemma files_keptD: "files_kept st fs fs' \<Longrightarrow> \<not> socket_file x \<Longrightarrow> log_path st \<noteq> Some x \<Longrightarrow> fs' x = fs x"
  by (simp add: files_kept_def)

lemma files_kept_trans: "files_kept st fs fs' \<Longrightarrow> files_kept st fs' fs'' \<Longrightarrow> files_kept st fs fs''"
  by (simp add: files_kept_def)

lemma files_kept_log_created [simp]: "files_kept st fs (log_created st fs)"
  by (simp add: files_kept_def log_created_other)

lemma auth_path_files: "auth_path (auth_view H fs) = auth_path (auth_view H fs')"
  by (simp add: auth_path_def auth_view_def split: option.split)

lemma auth_path_log [simp]: "auth_path (auth_view H (log_created st fs)) = auth_path (auth_view H fs)"
  by (rule auth_path_files)

text \<open>Both the destructor and the signal handler put the authorization file back.\<close>

lemma rename_restores:
  assumes "fs1 = fs(backup_path path := fs path, path \<mapsto> new)" and "fs path = Some old"
    and "files_kept st fs1 fs2" and "own_place st path"
  shows "\<exists>fs3. rename_file (backup_path path) path fs2 = Some fs3 \<and> files_kept st (fs(backup_path path := None)) fs3"
proof -
  have other: "backup_path path \<noteq> path"
    by (simp add: backup_path_def)
  then have "fs2 (backup_path path) = Some old"
    using assms by (simp add: files_kept_def own_place_def)
  then show ?thesis
    using assms other by (auto simp: rename_file_def files_kept_def own_place_def)
qed

lemma unlink_paths_kept:
  assumes "\<And>p. q = Some p \<or> q' = Some p \<Longrightarrow> socket_file p" and "files_kept st fs fs'"
  shows "files_kept st fs (unlink_path q (unlink_path q' fs'))"
  using assms unlink_path_other [of q] unlink_path_other [of q'] by (simp add: files_kept_def)

lemma destruct_restores:
  assumes "started H st fs fs1 s" and "files_kept st fs1 fs2"
    and "copyauth st \<Longrightarrow> auth_path (auth_view H fs) = Inr path \<and> own_place st path"
    and "destruct s fs2 = (fs3, r)"
  shows "r = Some (Inr ()) \<and> files_kept st (if copyauth st then fs(backup_path path := None) else fs) fs3"
proof -
  let ?fs = "unlink_path (sun_path (out_display s)) (unlink_path (sun_path (in_display s)) fs2)"
  have same: "files_kept st fs1 ?fs"
    using assms(1,2) by (intro unlink_paths_kept) (auto simp: started_def)
  show ?thesis
  proof (cases "copyauth st")
    case True
    with assms(1,3) obtain bs new where "fs path = Some (Regular bs)"
      and paths: "auth_paths s = Some (path, backup_path path)"
      and "fs1 = fs(backup_path path := fs path, path \<mapsto> Regular new)"
      by (auto simp: started_def)
    with rename_restores [of fs1 fs path "Regular new" "Regular bs" st ?fs] same assms(3) [OF True]
    show ?thesis
      using assms(4) True by (auto simp: destruct_def paths Let_def)
  next
    case False
    with assms(1,4) same show ?thesis
      by (simp add: destruct_def started_def Let_def)
  qed
qed

lemma main_runs:
  assumes "main H F le cap opts rest rounds info fs = (fs', Some (Inr v))"
  obtains s fs1 fs2 fs3 log where "construct H F le cap opts fs = (fs1, Some (Inr s))"
    and "run_server H (subcommand rest) rounds info s fs1 = (fs2, Some (Inr (v, log)))"
    and "destruct s fs2 = (fs3, Some (Inr ()))"
    and "Settings_delete (log_io H) (settings (the_parser s)) log fs3 = (fs', Some (Inr ()))"
  using assms unfolding main_def by (elim then_opE guardedE no_files_changedE) (auto split: prod.splits)

lemma destruct_removes:
  assumes "destruct s fs = (fs', r)" and "sun_path (out_display s) = Some x"
    and "\<And>p b. auth_paths s = Some (p, b) \<Longrightarrow> p \<noteq> x"
  shows "fs' x = None"
  using assms
  by (auto simp: destruct_def rename_file_def Let_def split: option.splits)

lemma destruct_other:
  assumes "destruct s fs = (fs', r)" and "\<And>p b. auth_paths s = Some (p, b) \<Longrightarrow> x \<noteq> p \<and> x \<noteq> b"
    and "\<And>p. sun_path (in_display s) = Some p \<or> sun_path (out_display s) = Some p \<Longrightarrow> p \<noteq> x"
  shows "fs' x = fs x"
proof -
  have "unlink_path (sun_path (out_display s)) (unlink_path (sun_path (in_display s)) fs) x = fs x"
    using assms(3) by (cases "sun_path (out_display s)"; cases "sun_path (in_display s)") auto
  with assms(1,2) show ?thesis
    by (auto simp: destruct_def rename_file_def Let_def split: option.splits)
qed

lemma Settings_delete_None:
  assumes "Settings_delete L S log fs = (fs', r)" and "fs x = None"
  shows "fs' x = None"
  using assms by (auto simp: Settings_delete_def written_log_def split: if_splits option.splits node.splits)

subsection \<open>Properties\<close>

text \<open>
  C10: A run that returns leaves the user's files as they were. Whatever the options, clients and the
  X server do: if \<open>main\<close> returns, then every file but the log and those in the directory of the X
  sockets has the content it had before, the authorization file included, which the constructor has
  rewritten; and its backup is gone.
\<close>

theorem files_are_restored:
  assumes "main H F le cap opts rest rounds info fs = (fs', Some (Inr v))" and "inet_only (services H)"
    and "parseFromArgv (fopen_ok H) (setvbuf_ok H) opts Settings_default = Inr st"
    and "copyauth st \<Longrightarrow> auth_path (auth_view H fs) = Inr path \<and> own_place st path"
  shows "files_kept st (if copyauth st then fs(backup_path path := None) else fs) fs'"
proof -
  from assms(1) obtain s fs1 fs2 fs3 log where run: "construct H F le cap opts fs = (fs1, Some (Inr s))"
    "run_server H (subcommand rest) rounds info s fs1 = (fs2, Some (Inr (v, log)))"
    "destruct s fs2 = (fs3, Some (Inr ()))"
    "Settings_delete (log_io H) (settings (the_parser s)) log fs3 = (fs', Some (Inr ()))"
    by (rule main_runs)
  note start = construct_starts [OF run(1) assms(2,3)]
  let ?restored = "\<lambda>fs. if copyauth st then fs(backup_path path := None) else fs"
  have "files_kept st fs1 fs2"
    using run_server_other [OF run(2)] start by (auto simp: started_def files_kept_def)
  from destruct_restores [OF start this _ run(3)] assms(4) have "files_kept st (?restored (log_created st fs)) fs3"
    by simp
  moreover have "files_kept st (?restored fs) (?restored (log_created st fs))"
    by (simp add: files_kept_def log_created_other)
  moreover have "files_kept st fs3 fs'"
    using Settings_delete_other [OF run(4)] start by (simp add: files_kept_def started_def same_options_def)
  ultimately show ?thesis
    using files_kept_trans by blast
qed



text \<open>
  C12: An interrupted run cleans up in the same way, at any time after the constructor: \<open>SIGINT\<close>,
  \<open>SIGTERM\<close> or a failed assertion restores the authorization file, if atoms were not prefetched and
  one of the displays is local.
\<close>

theorem interrupt_restores_files:
  assumes "construct H F le cap opts fs = (fs1, Some (Inr s))" and "inet_only (services H)"
    and "parseFromArgv (fopen_ok H) (setvbuf_ok H) opts Settings_default = Inr st" and "\<not> prefetchatoms st"
    and "sun_path (in_display s) \<noteq> None \<or> sun_path (out_display s) \<noteq> None" and "files_kept st fs1 fs2"
    and "copyauth st \<Longrightarrow> auth_path (auth_view H fs) = Inr path \<and> own_place st path"
  shows "snd (terminate sig s fs2) = Exited (128 + sig) \<and>
    files_kept st (if copyauth st then fs(backup_path path := None) else fs) (fst (terminate sig s fs2))"
proof -
  note start = construct_starts [OF assms(1-3)]
  have "on_signal s = Clean_up"
    using start assms(4,5) by (auto simp: started_def)
  moreover have "in_display_sun_path s = sun_path (in_display s)" "out_display_sun_path s = sun_path (out_display s)"
    using start by (simp_all add: started_def)
  ultimately have "terminate sig s fs2 = (fst (destruct s fs2), Exited (128 + sig))"
    by (auto simp: terminate_def handleTerminatingSignal_def destruct_def SIGNAL_RETVAL_OFFSET_def Let_def
      split: option.splits)
  with destruct_restores [OF start assms(6), of path "fst (destruct s fs2)" "snd (destruct s fs2)"] assms(7)
  show ?thesis
    by (auto simp: files_kept_def log_created_other)
qed

text \<open>
  With \<open>--prefetchatoms\<close> the cleaning up is lost: the prefetching ends by setting the default
  signal handlers. From then on a signal ends the program with the authorization file as the
  constructor has rewritten it; what the user had is in the backup file.
\<close>

lemma prefetching_loses_clean_up:
  assumes "construct H F le cap opts fs = (fs1, Some (Inr s))" and "inet_only (services H)"
    and "parseFromArgv (fopen_ok H) (setvbuf_ok H) opts Settings_default = Inr st" and "prefetchatoms st" and "copyauth st"
    and "auth_path (auth_view H fs) = Inr path" and "files_kept st fs1 fs2" and "own_place st path"
  shows "terminate sig s fs2 = (fs2, Killed sig) \<and> fs2 (backup_path path) = fs path \<and> fs path \<noteq> None"
proof -
  note start = construct_starts [OF assms(1-3)]
  then have "fs1 (backup_path path) = log_created st fs path" "log_created st fs path \<noteq> None" "on_signal s = Default"
    using assms(4-6) by (auto simp: started_def backup_path_def)
  with assms(7,8) show ?thesis
    by (simp add: terminate_def files_kept_def own_place_def log_created_other)
qed


subsection \<open>Witnesses\<close>

text \<open>A user with a cookie for display 0, whose server listens at its usual socket, and an old log.\<close>

definition sample_files :: files where
  "sample_files = [''auth'' \<mapsto> Regular sample_file, ''/tmp/.X11-unix/X0'' \<mapsto> Socket_node, ''log'' \<mapsto> Regular [1, 2]]"

definition sample_host :: host where
  "sample_host =
     \<lparr>getenv = [''XAUTHORITY'' \<mapsto> ''auth'', ''DISPLAY'' \<mapsto> '':0''],
      services = no_files sample_services, fopen_ok = \<lambda>_. True, setvbuf_ok = True,
      copy_ok = \<lambda>_ _. True, write_ok = \<lambda>_. True, sigaction_ok = True, name_memory = [],
      time_io = (pieces [], sample_io), atoms_io = (pieces [], sample_io), now = 0,
      listen_socket = 3, listen_setsockopt = True, bind_ok = True, listen_ok = True, fork_ok = True,
      log_io = \<lparr>fbufsize = 1024, flbf = True, fflush_ok = True, restore_ok = \<lambda>_ _. True, fclose_ok = True\<rparr>\<rparr>"

definition logged_settings :: settings where
  "logged_settings = Settings_default\<lparr>log_path := Some ''log''\<rparr>"

lemma sample_host_simps [simp]:
  "parseFromArgv (fopen_ok sample_host) (setvbuf_ok sample_host) [Opt_o ''log''] Settings_default = Inr logged_settings"
  "auth_path (auth_view sample_host sample_files) = Inr ''auth''"
  "inet_only (services sample_host)" "\<not> is_socket (services sample_host) path"
  "own_place logged_settings ''auth''" "\<not> socket_file ''auth''" "\<not> socket_file ''log''"
  by (simp_all add: parseFromArgv_def apply_extension_options_def auth_path_def auth_view_def sample_host_def
    inet_only_def sample_services_def socket_file_def UNIX_SOCKET_PATH_PREFIX_def backup_path_def
    Settings_default_def logged_settings_def own_place_def require_def begins_with_dash_def)

lemma sample_kept:
  "copyauth logged_settings" "\<not> prefetchatoms logged_settings" "log_path logged_settings = Some ''log''" "sample_files ''auth'' = Some (Regular sample_file)" "''auth'' \<noteq> backup_path ''auth''"
  by (simp_all add: logged_settings_def Settings_default_def sample_files_def backup_path_def)

lemma sample_starts:
  "\<exists>s fs1. construct sample_host decimal_fmt True Suc [Opt_o ''log''] sample_files = (fs1, Some (Inr s)) \<and>
     sun_path (in_display s) \<noteq> None"
proof -
  obtain P where P: "X11ProtocolParser_new decimal_fmt True False True logged_settings = Inr P"
      "fmtl P = decimal_fmt" "settings P = logged_settings"
    using sample_ws_Whitespace2
    by (simp add: X11ProtocolParser_new_def logged_settings_def Settings_default_def)
  have name: "display_name [] 0 None = '':0''" "display_name [] 9 None = '':9''"
    by code_simp+
  obtain D0 where D0: "DisplayInfo_new (services sample_host) '':0'' OUT = Inr D0" "di_display D0 = 0"
    using local_display [of "services sample_host" 0 None OUT] unfolding name by auto
  obtain D9 where D9: "DisplayInfo_new (services sample_host) '':9'' IN = Inr D9" "di_display D9 = 9"
      "di_family D9 = AF_UNIX"
    using local_display [of "services sample_host" 9 None IN] unfolding name by auto
  define s0 where "s0 = \<lparr>in_display = D9, out_display = D0, in_display_sun_path = sun_path D9,
    out_display_sun_path = sun_path D0, auth_paths = None, auth_cookie = [], on_signal = Clean_up, the_parser = P\<rparr>"
  have s0: "parseDisplayNames sample_host P = Inr s0"
    using P(3) D0(1) D9(1,3) unfolding parseDisplayNames_def first_given_def
    by (simp add: s0_def sample_host_def logged_settings_def Settings_default_def DEFAULT_IN_DISPLAYNAME_def sun_path_def)
  let ?fs = "log_created logged_settings sample_files"
  have "?fs ''auth'' = Some (Regular sample_file)"
    by (simp add: sample_kept log_created_other)
  then have "edited_entries decimal_fmt Suc (auth_view sample_host ?fs) 9 0 =
      Inr (''auth'', map xauth_of [sample_entry] @ [dup_auth decimal_fmt 9 (xauth_of sample_entry)],
        entry_data sample_entry)"
    using added_entry [where vector_capacity = Suc, OF sample_displays, of decimal_fmt]
      read_entries_encoded [of "[sample_entry]"] sample_displays
    by (simp add: edited_entries_def displays_def auth_view_def sample_host_def sample_file_def auth_path_def)
  then obtain fs1 where copied: "copy_authentication sample_host Suc s0 ?fs =
      (fs1, Some (Inr (s0\<lparr>auth_paths := Some (''auth'', backup_path ''auth''), auth_cookie := entry_data sample_entry\<rparr>)))"
    using P(2) D0(2) D9(2)
    by (simp add: copy_authentication_def s0_def Let_def) (simp add: sample_host_def)
  have opened: "Settings_new (fopen_ok sample_host) (setvbuf_ok sample_host) [Opt_o ''log''] sample_files =
      (?fs, Some (Inr logged_settings))"
    using Settings_new_files [of "fopen_ok sample_host" "setvbuf_ok sample_host" "[Opt_o ''log'']" sample_files]
    by (simp add: Settings_new_def)
  have "copyauth logged_settings" "\<not> systemtimeformat logged_settings" "\<not> prefetchatoms logged_settings"
    by (simp_all add: logged_settings_def Settings_default_def)
  with copied P(1) s0 opened have "construct sample_host decimal_fmt True Suc [Opt_o ''log''] sample_files =
      (fs1, Some (Inr (s0\<lparr>auth_paths := Some (''auth'', backup_path ''auth''), auth_cookie := entry_data sample_entry\<rparr>)))"
    by (simp add: construct_def then_op_def guarded_def no_files_changed_def)
  moreover have "sun_path D9 \<noteq> None"
    using D9(3) by (simp add: sun_path_def)
  ultimately show ?thesis
    by (simp add: s0_def)
qed

text \<open>A subcommand that ends with status 3 before a client connects.\<close>

lemma sample_main:
  "\<exists>fs'. main sample_host decimal_fmt True Suc [Opt_o ''log''] [''xclock''] [sample_round\<lparr>child_running := False\<rparr>]
     (Some (CLD_EXITED 3)) sample_files = (fs', Some (Inr 3))"
proof -
  obtain s fs1 where s: "construct sample_host decimal_fmt True Suc [Opt_o ''log''] sample_files = (fs1, Some (Inr s))"
    "sun_path (in_display s) \<noteq> None"
    using sample_starts by blast
  note start = construct_starts [OF s(1) sample_host_simps(3,1)]
  then have "\<not> keeprunning (settings (the_parser s))"
    by (simp add: started_def logged_settings_def Settings_default_def same_options_def)
  then have queue: "processClientQueue (True, 3) [sample_round\<lparr>child_running := False\<rparr>]
      (ProxyX11Server_new 3 (di_family (out_display s)) (the_parser s)) =
      Inr (Returned 3 ((ProxyX11Server_new 3 (di_family (out_display s)) (the_parser s))\<lparr>
        poll_info := \<lparr>pfds = [\<lparr>pfd_fd = 3, pfd_events = POLLPRI OR POLLIN, pfd_revents = 0\<rparr>], pfds_i_by_fd = [(3, 0)]\<rparr>\<rparr>))"
    by (simp add: processClientQueue_def ProxyX11Server_new_def addSocketToPoll_def queue_turn_def)
  obtain fs2 where listens: "listenForClients sample_host (in_display s) fs1 = (fs2, Some (Inr 3))"
    using s(2) by (auto simp: listenForClients_def sample_host_def sun_path_def split: if_splits)
  have "startSubcommandClient sample_host [''xclock''] = Inr True"
    by (simp add: startSubcommandClient_def sample_host_def)
  with listens queue obtain log where run: "run_server sample_host [''xclock''] [sample_round\<lparr>child_running := False\<rparr>]
      (Some (CLD_EXITED 3)) s fs1 = (fs2, Some (Inr (3, log)))"
    by (simp add: run_server_def then_op_def no_files_changed_def handleSIGCHLD_def)
  have "files_kept logged_settings fs1 fs2"
    using run_server_other [OF run] start by (auto simp: started_def files_kept_def)
  then have "snd (destruct s fs2) = Some (Inr ())"
    using destruct_restores [OF start, of fs2 "''auth''" "fst (destruct s fs2)" "snd (destruct s fs2)"] by simp
  then obtain fs3 where "destruct s fs2 = (fs3, Some (Inr ()))"
    by (metis prod.collapse)
  moreover obtain fs4 where "Settings_delete (log_io sample_host) (settings (the_parser s)) log fs3 = (fs4, Some (Inr ()))"
    by (cases "log_path (settings (the_parser s))")
      (simp_all add: Settings_delete_def sample_host_def restoreFileStreamBufferDefaults_def split: prod.split)
  moreover have "subcommand [''xclock''] = [''xclock'']"
    by (simp add: subcommand_def)
  ultimately have "main sample_host decimal_fmt True Suc [Opt_o ''log''] [''xclock''] [sample_round\<lparr>child_running := False\<rparr>]
     (Some (CLD_EXITED 3)) sample_files = (fs4, Some (Inr 3))"
    using s(1) run by (simp add: main_def then_op_def guarded_def no_files_changed_def)
  then show ?thesis
    by blast
qed

theorem files_are_restored_witness:
  "\<exists>fs'. main sample_host decimal_fmt True Suc [Opt_o ''log''] [''xclock''] [sample_round\<lparr>child_running := False\<rparr>]
     (Some (CLD_EXITED 3)) sample_files = (fs', Some (Inr 3)) \<and> fs' ''auth'' = Some (Regular sample_file)"
proof -
  obtain fs' where run: "main sample_host decimal_fmt True Suc [Opt_o ''log''] [''xclock''] [sample_round\<lparr>child_running := False\<rparr>]
     (Some (CLD_EXITED 3)) sample_files = (fs', Some (Inr 3))"
    using sample_main by blast
  have "fs' ''auth'' = Some (Regular sample_file)"
    using files_are_restored [OF run sample_host_simps(3,1), of "''auth''"]
    by (simp add: files_kept_def sample_kept)
  with run show ?thesis
    by blast
qed



theorem interrupt_restores_files_witness:
  "\<exists>s fs1. construct sample_host decimal_fmt True Suc [Opt_o ''log''] sample_files = (fs1, Some (Inr s)) \<and>
     snd (terminate 2 s fs1) = Exited 130 \<and> fst (terminate 2 s fs1) ''auth'' = Some (Regular sample_file)"
proof -
  obtain s fs1 where s: "construct sample_host decimal_fmt True Suc [Opt_o ''log''] sample_files = (fs1, Some (Inr s))"
    "sun_path (in_display s) \<noteq> None"
    using sample_starts by blast
  then show ?thesis
    using interrupt_restores_files [OF s(1) sample_host_simps(3,1), of fs1 "''auth''" 2]
    by (auto simp: files_kept_def sample_kept)
qed


end
