(* ===== verification/Diagnostics.thy ===== *)
theory Diagnostics
  imports SettingsModel Format
begin

text \<open>
  The texts of error messages: the functions of \<open>errors.cpp\<close>, the message about an extension name
  that is not recognized (\<open>Settings.cpp\<close>), and the debugging tool \<open>bufferHexDump.cpp\<close>.
  \<open>strerror\<close>, \<open>gai_strerror\<close> and what \<open>std::system_error\<close> makes of its arguments are parameters.
\<close>

subsection \<open>Errors of system calls\<close>

definition errno_names :: "string list" where
  "errno_names =
     [''(errno not set)'', ''EPERM'', ''ENOENT'', ''ESRCH'', ''EINTR'', ''EIO'', ''ENXIO'',
      ''E2BIG'', ''ENOEXEC'', ''EBADF'', ''ECHILD'', ''EAGAIN (EWOULDBLOCK)'', ''ENOMEM'',
      ''EACCES'', ''EFAULT'', ''ENOTBLK'', ''EBUSY'', ''EEXIST'', ''EXDEV'', ''ENODEV'',
      ''ENOTDIR'', ''EISDIR'', ''EINVAL'', ''ENFILE'', ''EMFILE'', ''ENOTTY'', ''ETXTBSY'',
      ''EFBIG'', ''ENOSPC'', ''ESPIPE'', ''EROFS'', ''EMLINK'', ''EPIPE'', ''EDOM'', ''ERANGE'',
      ''EDEADLK (EDEADLOCK)'', ''ENAMETOOLONG'', ''ENOLCK'', ''ENOSYS'', ''ENOTEMPTY'', ''ELOOP'',
      ''(undefined)'', ''ENOMSG'', ''EIDRM'', ''ECHRNG'', ''EL2NSYNC'', ''EL3HLT'', ''EL3RST'',
      ''ELNRNG'', ''EUNATCH'', ''ENOCSI'', ''EL2HLT'', ''EBADE'', ''EBADR'', ''EXFULL'', ''ENOANO'',
      ''EBADRQC'', ''EBADSLT'', ''(undefined)'', ''EBFONT'', ''ENOSTR'', ''ENODATA'', ''ETIME'',
      ''ENOSR'', ''ENONET'', ''ENOPKG'', ''EREMOTE'', ''ENOLINK'', ''EADV'', ''ESRMNT'', ''ECOMM'',
      ''EPROTO'', ''EMULTIHOP'', ''EDOTDOT'', ''EBADMSG'', ''EOVERFLOW'', ''ENOTUNIQ'', ''EBADFD'',
      ''EREMCHG'', ''ELIBACC'', ''ELIBBAD'', ''ELIBSCN'', ''ELIBMAX'', ''ELIBEXEC'', ''EILSEQ'',
      ''ERESTART'', ''ESTRPIPE'', ''EUSERS'', ''ENOTSOCK'', ''EDESTADDRREQ'', ''EMSGSIZE'',
      ''EPROTOTYPE'', ''ENOPROTOOPT'', ''EPROTONOSUPPORT'', ''ESOCKTNOSUPPORT'', ''EOPNOTSUPP'',
      ''EPFNOSUPPORT'', ''EAFNOSUPPORT'', ''EADDRINUSE'', ''EADDRNOTAVAIL'', ''ENETDOWN'',
      ''ENETUNREACH'', ''ENETRESET'', ''ECONNABORTED'', ''ECONNRESET'', ''ENOBUFS'', ''EISCONN'',
      ''ENOTCONN'', ''ESHUTDOWN'', ''ETOOMANYREFS'', ''ETIMEDOUT'', ''ECONNREFUSED'', ''EHOSTDOWN'',
      ''EHOSTUNREACH'', ''EALREADY'', ''EINPROGRESS'', ''ESTALE'', ''EUCLEAN'', ''ENOTNAM'',
      ''ENAVAIL'', ''EISNAM'', ''EREMOTEIO'', ''EDQUOT'', ''ENOMEDIUM'', ''EMEDIUMTYPE'',
      ''ECANCELED'', ''ENOKEY'', ''EKEYEXPIRED'', ''EKEYREVOKED'', ''EKEYREJECTED'', ''EOWNERDEAD'',
      ''ENOTRECOVERABLE'', ''ERFKILL'', ''EHWPOISON'']"

definition MAX_ERRNO :: int where
  "MAX_ERRNO = 133"

definition prefixed :: "string \<Rightarrow> string" where
  \<comment> \<open>\<open>msg, msg.empty() ? "" : ": "\<close>\<close>
  "prefixed msg = msg @ (if msg = [] then [] else '': '')"

definition errno_name :: "int \<Rightarrow> string res" where
  "errno_name errno =
     require (errno > - 1) (require (errno \<le> MAX_ERRNO) (
       if nat errno < length errno_names then Inr (errno_names ! nat errno) else Inl Out_of_range))"

definition system_message :: "(int \<Rightarrow> string) \<Rightarrow> int \<Rightarrow> string \<Rightarrow> string res" where
  "system_message strerror errno msg =
     map_res (\<lambda>name. prefixed msg @ ''errno '' @ name @ '': '' @ strerror errno) (errno_name errno)"

record system_error =
  error_code :: int
  error_category :: string
  what_arg :: string

definition system_exception :: "int \<Rightarrow> string \<Rightarrow> system_error res" where
  "system_exception errno msg =
     map_res (\<lambda>name. \<lparr>error_code = errno, error_category = ''generic'',
       what_arg = prefixed msg @ ''errno '' @ name\<rparr>) (errno_name errno)"

subsection \<open>Errors of getaddrinfo\<close>

definition gai_error_names :: "(int \<times> string) list" where
  "gai_error_names =
     [(- 1, ''EAI_BADFLAGS''), (- 2, ''EAI_NONAME''), (- 3, ''EAI_AGAIN''), (- 4, ''EAI_FAIL''),
      (- 5, ''EAI_NODATA''), (- 6, ''EAI_FAMILY''), (- 7, ''EAI_SOCKTYPE''), (- 8, ''EAI_SERVICE''),
      (- 9, ''EAI_ADDRFAMILY''), (- 10, ''EAI_MEMORY''), (- 11, ''EAI_SYSTEM''), (- 12, ''EAI_OVERFLOW''),
      (- 100, ''EAI_INPROGRESS''), (- 101, ''EAI_CANCELED''), (- 102, ''EAI_NOTCANCELED''), (- 103, ''EAI_ALLDONE''),
      (- 104, ''EAI_INTR''), (- 105, ''EAI_IDN_ENCODE'')]"

definition Category_name :: string where
  "Category_name = ''getaddrinfo''"

definition Category_message :: "(int \<Rightarrow> string) \<Rightarrow> int \<Rightarrow> string" where
  "Category_message gai_strerror gai_ret = gai_strerror gai_ret"

definition gai_error_name :: "int \<Rightarrow> string res" where
  "gai_error_name gai_ret =
     require (gai_ret < 0) (
       case map_of gai_error_names gai_ret of None \<Rightarrow> Inl Out_of_range | Some name \<Rightarrow> Inr name)"

definition getaddrinfo_message :: "(int \<Rightarrow> string) \<Rightarrow> int \<Rightarrow> string \<Rightarrow> string res" where
  "getaddrinfo_message gai_strerror gai_ret msg =
     map_res (\<lambda>name. prefixed msg @ ''getaddrinfo retval '' @ name @ '': '' @ gai_strerror gai_ret)
       (gai_error_name gai_ret)"

definition getaddrinfo_exception :: "int \<Rightarrow> string \<Rightarrow> system_error res" where
  "getaddrinfo_exception gai_ret msg =
     map_res (\<lambda>name. \<lparr>error_code = gai_ret, error_category = Category_name,
       what_arg = prefixed msg @ ''getaddrinfo retval '' @ name\<rparr>) (gai_error_name gai_ret)"

text \<open>
  Every error of Linux has a message, and no code of \<open>getaddrinfo\<close> is in its table twice.
\<close>

lemma length_errno_names: "length errno_names = nat MAX_ERRNO + 1"
  by (simp add: errno_names_def MAX_ERRNO_def)

lemma errno_name_cases:
  "errno_name errno =
     (if 0 \<le> errno \<and> errno \<le> 133 then Inr (errno_names ! nat errno) else Inl Assertion_failure)"
  by (auto simp: errno_name_def require_def length_errno_names MAX_ERRNO_def)

lemma system_message_total:
  assumes "0 \<le> errno" "errno \<le> 133"
  shows "system_message strerror errno msg =
    Inr (prefixed msg @ ''errno '' @ errno_names ! nat errno @ '': '' @ strerror errno)"
  using assms by (simp add: system_message_def errno_name_cases)

lemma gai_error_names_differ:
  "distinct (map fst gai_error_names) \<and> distinct (map snd gai_error_names) \<and> (\<forall>c \<in> fst ` set gai_error_names. c < 0)"
  by code_simp

subsection \<open>Names of extensions\<close>

fun match_score :: "string \<Rightarrow> string \<Rightarrow> nat" where
  "match_score (a # as) (b # bs) = (if a = b then Suc (match_score as bs) else 0)"
| "match_score _ _ = 0"

definition match_extension :: "fmt_lib \<Rightarrow> string \<Rightarrow> string \<Rightarrow> nat \<times> string \<Rightarrow> nat \<times> string" where
  "match_extension F name re_name = (\<lambda>(max_match_score, partial_matches).
     let score = match_score name re_name in
     if score > max_match_score then (score, fmt_debug F re_name)
     else if score = max_match_score then (max_match_score, partial_matches @ '','' @ fmt_debug F re_name)
     else (max_match_score, partial_matches))"

definition VALID_EXT_NAMES :: "fmt_lib \<Rightarrow> string list \<Rightarrow> string" where
  "VALID_EXT_NAMES F recognized =
     fold (\<lambda>name names. names @ (if names = [] then [] else '','') @ fmt_debug F name) recognized []"

definition unrecognized_extension :: "fmt_lib \<Rightarrow> string \<Rightarrow> string list \<Rightarrow> string \<Rightarrow> string" where
  \<comment> \<open>for the order in which the set \<open>_recognized_extensions\<close> is gone through\<close>
  "unrecognized_extension F process_name recognized name =
     (let (max_match_score, partial_matches) = fold (match_extension F name) recognized (0, []) in
      process_name @ '': unrecognized extension name '' @ fmt_debug F name @ '', '' @
      (if max_match_score = 0 then ''expected among: '' @ VALID_EXT_NAMES F recognized
       else ''partial matches: '' @ partial_matches))"

lemma match_score_prefix:
  "match_score a b \<le> length a \<and> take (match_score a b) a = take (match_score a b) b"
  by (induction a b rule: match_score.induct) auto

lemma match_extension_max:
  assumes "fold (match_extension F name) rs (m, s) = (m', s')"
  shows "m' = fold max (map (match_score name) rs) m"
  using assms
  by (induction rs arbitrary: m s)
    (auto simp: match_extension_def Let_def max_def split: if_splits)

subsection \<open>Dumps of buffers\<close>

definition BYTES_PER_ROW :: nat where
  "BYTES_PER_ROW = 16"

definition BYTES_PER_GROUP :: nat where
  "BYTES_PER_GROUP = 8"

record dump_fmt =
  fmt_02x :: "byte \<Rightarrow> string"   \<comment> \<open>\<open>{:02x}\<close>\<close>
  fmt_08x :: "nat \<Rightarrow> string"    \<comment> \<open>\<open>{:08x}\<close>\<close>
  fmt_pad23 :: "string \<Rightarrow> string"  \<comment> \<open>\<open>{: <23}\<close>\<close>

definition is_print :: "byte \<Rightarrow> bool" where
  \<comment> \<open>\<open>std::isprint\<close> in the locale "C", which the program does not change\<close>
  "is_print b \<longleftrightarrow> 0x20 \<le> b \<and> b \<le> 0x7e"

definition dump_char :: "byte \<Rightarrow> char" where
  "dump_char b = (if is_print b then char_of (unat b) else CHR ''.'')"

fun dump_group :: "dump_fmt \<Rightarrow> byte list \<Rightarrow> string" where
  "dump_group D [] = []"
| "dump_group D [b] = fmt_02x D b"
| "dump_group D (b # bs) = fmt_02x D b @ '' '' @ dump_group D bs"

definition dump_row :: "dump_fmt \<Rightarrow> nat \<Rightarrow> byte list \<Rightarrow> byte list \<Rightarrow> string" where
  "dump_row D address_index bs1 bs2 =
     fmt_08x D address_index @ ''  '' @ fmt_pad23 D (dump_group D bs1) @ ''  '' @ fmt_pad23 D (dump_group D bs2) @
     ''  '' @ map dump_char (bs1 @ bs2) @ [CHR 0x0A]"

function dump_rows :: "dump_fmt \<Rightarrow> nat \<Rightarrow> byte list \<Rightarrow> string" where
  "dump_rows D address_index data =
     (if data = [] then []
      else let bs1 = take BYTES_PER_GROUP data; rest = drop BYTES_PER_GROUP data;
               bs2 = take BYTES_PER_GROUP rest in
           dump_row D address_index bs1 bs2 @
           dump_rows D (address_index + BYTES_PER_ROW) (drop BYTES_PER_GROUP (drop BYTES_PER_GROUP data)))"
  by pat_completeness auto

termination
  by (relation "measure (\<lambda>(D, address_index, data). length data)") (simp_all add: BYTES_PER_GROUP_def)

declare dump_rows.simps [simp del]

definition bufferHexDump :: "dump_fmt \<Rightarrow> byte list \<Rightarrow> string" where
  \<comment> \<open>of the first \<open>sz\<close> bytes at \<open>data\<close>\<close>
  "bufferHexDump D data = dump_rows D 0 data"

text \<open>What is documented of the formats: two digits that tell a byte, and blanks behind the text.\<close>

definition dump_fmt_ok :: "dump_fmt \<Rightarrow> bool" where
  "dump_fmt_ok D \<longleftrightarrow> inj (fmt_02x D) \<and> (\<forall>b. length (fmt_02x D b) = 2) \<and>
     (\<forall>s. fmt_pad23 D s = s @ replicate (23 - length s) (CHR '' ''))"

lemma length_dump_group:
  assumes "dump_fmt_ok D"
  shows "length (dump_group D bs) = 3 * length bs - 1"
  using assms by (induction D bs rule: dump_group.induct) (auto simp: dump_fmt_ok_def)

lemma dump_group_inj:
  assumes "dump_fmt_ok D" and "length bs = length bs'" and "dump_group D bs = dump_group D bs'"
  shows "bs = bs'"
  using assms
proof (induction D bs arbitrary: bs' rule: dump_group.induct)
  case (2 D b)
  then show ?case
    by (cases bs') (auto simp: dump_fmt_ok_def inj_def)
next
  case (3 D b c bs)
  then obtain b' c' cs where "bs' = b' # c' # cs"
    by (cases bs'; cases "tl bs'") auto
  moreover from this have "fmt_02x D b = fmt_02x D b' \<and> dump_group D (c # bs) = dump_group D (c' # cs)"
    using 3(2,4) by (simp add: dump_fmt_ok_def)
  ultimately show ?case
    using 3(1) [of "c' # cs"] 3(2,3) by (simp add: dump_fmt_ok_def inj_def)
qed simp

lemma dump_char_no_newline: "dump_char b \<noteq> CHR 0x0A"
proof
  assume newline: "dump_char b = CHR 0x0A"
  then have "is_print b"
    by (auto simp: dump_char_def split: if_splits)
  then have "unat b mod 256 = of_char (dump_char b)"
    by (simp only: dump_char_def if_True of_char_of)
  moreover have "32 \<le> unat b" "unat b < 127"
    using \<open>is_print b\<close> by (simp_all add: is_print_def word_le_nat_alt)
  ultimately show False
    by (simp add: newline)
qed

lemma append_newline_inj:
  assumes "xs @ c # r = ys @ c # r'" and "c \<notin> set xs" "c \<notin> set ys"
  shows "xs = ys \<and> r = r'"
  using assms
proof (induction xs arbitrary: ys)
  case (Cons x xs)
  then show ?case
    by (cases ys) auto
next
  case Nil
  then show ?case
    by (cases ys) auto
qed

lemma dump_row_inj:
  assumes ok: "dump_fmt_ok D" and len: "length bs1 \<le> 8" "length bs1' \<le> 8" "length bs2 \<le> 8" "length bs2' \<le> 8"
    and full: "bs2 \<noteq> [] \<Longrightarrow> length bs1 = 8" "bs2' \<noteq> [] \<Longrightarrow> length bs1' = 8"
    and eq: "dump_row D n bs1 bs2 @ r = dump_row D n bs1' bs2' @ r'"
  shows "bs1 = bs1' \<and> bs2 = bs2' \<and> r = r'"
proof -
  have pad: "length (fmt_pad23 D (dump_group D bs)) = 23" if "length bs \<le> 8" for bs
    using that ok length_dump_group [OF ok, of bs] by (auto simp: dump_fmt_ok_def)
  have parts: "fmt_pad23 D (dump_group D bs1) = fmt_pad23 D (dump_group D bs1')"
    "fmt_pad23 D (dump_group D bs2) = fmt_pad23 D (dump_group D bs2')"
    "map dump_char (bs1 @ bs2) @ CHR 0x0A # r = map dump_char (bs1' @ bs2') @ CHR 0x0A # r'"
    using eq pad len unfolding dump_row_def by auto
  have none: "CHR 0x0A \<notin> set (map dump_char bs)" for bs
    by (metis dump_char_no_newline imageE set_map)
  have chars: "map dump_char (bs1 @ bs2) = map dump_char (bs1' @ bs2')" and r: "r = r'"
    using append_newline_inj [OF parts(3) none none] by blast+
  have sum: "length bs1 + length bs2 = length bs1' + length bs2'"
    using arg_cong [OF chars, of length] by simp
  have same: "length bs1 = length bs1'" "length bs2 = length bs2'"
    using sum full len by (cases "bs2 = []"; cases "bs2' = []"; fastforce)+
  then have "dump_group D bs1 = dump_group D bs1'" "dump_group D bs2 = dump_group D bs2'"
    using parts(1,2) ok length_dump_group [OF ok] by (auto simp: dump_fmt_ok_def)
  with dump_group_inj [OF ok] same r show ?thesis
    by blast
qed

text \<open>A dump tells all bytes of the buffer, also those that have no character.\<close>

lemma dump_rows_inj:
  assumes "dump_fmt_ok D" and "dump_rows D n bs = dump_rows D n bs'"
  shows "bs = bs'"
  using assms
proof (induction bs arbitrary: n bs' rule: length_induct)
  case (1 bs)
  have row: "dump_row D n a b \<noteq> []" for a b
    by (simp add: dump_row_def)
  show ?case
  proof (cases "bs = [] \<or> bs' = []")
    case True
    with 1 row show ?thesis
      by (auto simp: dump_rows.simps [of D n bs] dump_rows.simps [of D n bs'] Let_def split: if_splits)
  next
    case False
    let ?r = "\<lambda>bs. dump_rows D (n + BYTES_PER_ROW) (drop 8 (drop 8 bs))"
    have eq: "dump_row D n (take 8 bs) (take 8 (drop 8 bs)) @ ?r bs =
        dump_row D n (take 8 bs') (take 8 (drop 8 bs')) @ ?r bs'"
      using 1(3) False
      by (simp add: dump_rows.simps [of D n bs] dump_rows.simps [of D n bs'] Let_def BYTES_PER_GROUP_def)
    have same: "take 8 bs = take 8 bs'" "take 8 (drop 8 bs) = take 8 (drop 8 bs')" "?r bs = ?r bs'"
      using dump_row_inj [OF 1(2) _ _ _ _ _ _ eq] by auto
    have "length (drop 8 (drop 8 bs)) < length bs"
      using False by (cases bs) auto
    with 1(1,2) same(3) have "drop 8 (drop 8 bs) = drop 8 (drop 8 bs')"
      by blast
    with same show ?thesis
      by (metis append_take_drop_id)
  qed
qed

lemma bufferHexDump_inj: "dump_fmt_ok D \<Longrightarrow> bufferHexDump D bs = bufferHexDump D bs' \<Longrightarrow> bs = bs'"
  by (simp add: bufferHexDump_def) (rule dump_rows_inj)

end
