(* ===== verification/Spec2Isabelle.thy ===== *)
theory Spec2Isabelle
  imports Lifecycle Diagnostics
begin

text \<open>
  \<^bold>\<open>xtracepp\<close> is a proxy between X11 clients and an X server that logs the protocol. This
  development models its C++ sources (\<open>src/src\<close>) and proves what makes them correct.

  \<^bold>\<open>The program.\<close> \<open>main\<close> makes a \<open>ProxyX11Server\<close>: its constructor reads the command line
  (\<open>Settings\<close>), resolves the names of two displays (\<open>DisplayInfo\<close>), gives the user's authorization
  file an entry for the proxy, and on demand runs two clients of its own on the X server (for the
  server's time and the atoms that exist). \<open>run\<close> listens, starts the subcommand and enters the main
  queue: in each round, \<open>poll\<close> says which sockets are ready; bytes are received into the
  \<open>SocketBuffer\<close>s of a \<open>Connection\<close>, handed to the \<open>X11ProtocolParser\<close>, which cuts them into messages
  and logs each one, and sent on from the same buffer; finished connections are closed and new
  clients accepted. The parser reads every message through packed structs, in the byte order of
  the client, and keeps tables of requests that wait for a reply, of strings stashed with a request,
  of interned atoms and of the opcodes of extensions. The destructor, or a signal handler, puts
  the user's files back.

  \<^bold>\<open>Theories.\<close> In the order of the imports:
  \<^item> \<open>Prelude\<close>: faults, results and their combinators. Every failing assertion, uncaught exception,
    read out of bounds and call of \<open>exit\<close> is a value \<open>Inl f\<close>.
  \<^item> \<open>Wire\<close>, \<open>Types\<close>, \<open>Names\<close>: byte order, alignment, packed structs (\<open>X11ProtocolParser.hpp\<close>,
    \<open>protocol/common_types.hpp\<close>) and the name tables (\<open>protocol/enum_names.hpp\<close>).
  \<^item> \<open>SocketBuf\<close>, \<open>Conn\<close>, \<open>SettingsModel\<close>: the classes \<open>SocketBuffer\<close>, \<open>Connection\<close> and \<open>Settings\<close>.
  \<^item> \<open>Format\<close>, \<open>ListFormat\<close>, \<open>StructFormat\<close>: \<open>_formatVariable\<close>, \<open>_parseListMember\<close>, \<open>_parseLISTof\<close> and
    \<open>_parseLISTofVALUE\<close>, with all their instances.
  \<^item> \<open>EventLayout\<close>, \<open>EventCodec\<close>, \<open>ErrorCodec\<close>, \<open>RequestLayout\<close>, \<open>RequestCodec\<close>, \<open>ReplyLayout\<close>,
    \<open>ReplyCodec\<close>: for all events, errors, requests and replies of the core protocol and of
    BIG-REQUESTS, the structs (\<open>protocol/*.hpp\<close>) and the parsers (\<open>X11ProtocolParser__parse*.cpp\<close>),
    one definition per struct and per function.
  \<^item> \<open>Dispatch\<close>, \<open>Requests\<close>: the tables from codes to parsers and \<open>_logEvent\<close>, \<open>_logError\<close>,
    \<open>_logRequest\<close>, \<open>_logReply\<close>. \<open>Setup\<close>: \<open>X11ProtocolParser__logConnectionSetup.cpp\<close>.
    \<open>Streams\<close>: \<open>logClientMessages\<close> and \<open>logServerMessages\<close>.
  \<^item> \<open>RequestLaws\<close>, \<open>ReplyLaws\<close>, \<open>Logs\<close>, \<open>RequestFacts\<close>, \<open>Returns\<close>, \<open>Sessions\<close>, \<open>Tables\<close>, \<open>Transit\<close>: what is
    proved of these, below.
  \<^item> \<open>Poll\<close>, \<open>Proxy\<close>, \<open>Runs\<close>: the poll table and the main queue of \<open>ProxyX11Server.cpp\<close>.
  \<^item> \<open>XAuth\<close>, \<open>Display\<close>, \<open>Prequeue\<close>: the authorization file, \<open>DisplayInfo.cpp\<close>, and
    \<open>ProxyX11Server_prequeue_clients.cpp\<close>.
  \<^item> \<open>HostFiles\<close>, \<open>Lifecycle\<close>: the log file, \<open>main\<close>, constructor, destructor, listening, child process and
    signal handlers, with what they do to the files of the host.
  \<^item> \<open>Diagnostics\<close>: \<open>errors.cpp\<close>, the message about unknown extensions, and \<open>bufferHexDump.cpp\<close>.

  Names are those of the sources, where HOL allows it; a template instance carries its argument
  (\<open>parseRequest_CreateWindow\<close>), and nested names are joined by an underscore. Objects
  are records and a method returns the changed object. Machine integers are words of their width.
  A pointer \<open>data\<close> is the list of bytes from there to the end of the allocation, so that the model
  sees each read that leaves it.

  \<^bold>\<open>What is shown.\<close>
  \<^item> The buffers: any receives, marks and sends of a \<open>SocketBuffer\<close> refine a queue of bytes that gives
    out what was marked (the locale \<open>message_queue\<close>, interpreted on the class).
  \<^item> The streams: the message loops cut a buffer into the messages that its headers declare
    (\<open>message_stream\<close>), return on all bytes (\<open>counting_stream\<close>, \<open>Returns\<close>), and leave nothing complete
    behind (\<open>transit_stream\<close>).
  \<^item> The messages: a parser that accepts a request or a reply has consumed the length that the
    header declares and changed nothing else than its tables (\<open>RequestLaws\<close>, \<open>ReplyLaws\<close>); all well-formed
    events, errors and setup messages are parsed; the log lines show what the message has; the text
    depends neither on the byte order of the host nor, up to blanks, on the whitespace setting.
  \<^item> The tables: a request and its reply meet, the name that a client asked to intern gets the atom
    of the reply, denied extensions are hidden and never get an opcode.
  \<^item> The queue: every socket is polled for what its buffers need, no byte between client and server
    is lost, and the buffers stay well formed (the locales \<open>proxied_side\<close>, for both sides of a
    connection, and \<open>parser_invariant\<close>, for what whole runs keep of the parser).
  \<^item> The program: files are put back by the destructor and by the signal handler, the log file has
    what was logged, the exit status is that of the child.
  \<^item> Where the code does not do what it is meant to do, a theorem says what it does instead, with an
    input: requests that can not be parsed (\<open>requests_never_parsed\<close>), a partial message that never
    completes (\<open>partial_message_never_completes\<close>), a reply that fails because a buffer has grown
    (\<open>grown_buffer_breaks_stash\<close>), the socket of the X server that is removed
    (\<open>server_socket_is_removed\<close>), a setup client that waits for ever (\<open>closed_server_hangs\<close>), and others.

  \<^bold>\<open>Fuel and bounds.\<close> Loops with a structural measure are recursive functions. The message loops
  take fuel: \<open>length ns + 1\<close> turns are enough for \<open>ns\<close> whole messages, and \<open>2 * unparsed + 3\<close> for any
  bytes, as each turn parses a byte, learns the size of the next message, or stops;
  \<open>message_loops_end\<close> shows that the result is there. A list without a count is read with fuel
  for each byte of its size, which is never used up (\<open>Returns\<close>). The loop of \<open>Prequeue\<close> that
  reads the rest of a message can run for ever, and is a partial function. Buffers are
  assumed shorter than \<open>2 ^ 31\<close> bytes where counts of 32 bits are converted, and runs of the main
  queue have up to \<open>2 ^ 32\<close> rounds where serial numbers of connections must differ.

  \<^bold>\<open>Parameters.\<close> Code outside of \<open>src\<close> is an argument: the conversions of the fmt library
  (\<open>fmt_lib\<close>), the answers of system calls and of \<open>getaddrinfo\<close> (\<open>io\<close>, \<open>setup_io\<close>, \<open>name_services\<close>,
  \<open>host\<close>), the options that \<open>getopt_long\<close> finds, the byte order of the host, the order in which a
  \<open>std::unordered_map\<close> is iterated over, and the capacity of a \<open>std::vector\<close>. Assertions are
  active, as in the build of the repository.

  \<^bold>\<open>Not modelled.\<close> The messages on the standard error and the progress display, apart from the texts of
  \<open>Diagnostics\<close>; the child process after \<open>fork\<close>, which becomes another program; when the C library
  passes on parts of the log before the file is closed, and so the content of the log of a run that is
  killed; files with more than one name; the names of extensions are copied where the code keeps views
  of them. The tests of the repository are not part of the program.
\<close>

subsection \<open>Messages of the server\<close>

text \<open>
  C2: Bytes from the server that are a sequence of whole messages (their sizes as their own
  headers declare them) are cut into exactly these messages: each is handled once, in order,
  from its first byte, by the handlers of replies, events and errors; nothing is left unparsed
  and no error is reported.
\<close>

theorem server_messages_framed:
  assumes "conn_status c = OPEN" and "server_buffer c = b"
    and "wf_buffer b" and "bp b = 0" and "nms b = UNKNOWN_SZ"
    and "framed (server_declared (little_endian P) (byteswap c)) server_hdr (buffer_data b) ns"
    and "total_size ns = length (content b)"
    and "handle_all (server_message X11_server_handlers) SERVER_TO_CLIENT P c (buffer_data b) ns =
      Inr (P', c', lg)"
  shows "logServerMessages (length ns + Suc fuel) X11_server_handlers P c =
    Some (Inr (P', c'\<lparr>server_buffer := counters (buffer_size b) UNKNOWN_SZ (server_buffer c')\<rparr>,
      buffer_size b, lg, None))"
  using assms by (intro logServerMessages_whole) (simp_all add: obeys_logReply)

text \<open>
  C3: The same for the bytes of a client with an open connection, with the handler of requests:
  whole requests, with 16-bit or 32-bit lengths, are cut apart by the lengths they declare.
\<close>

theorem client_messages_framed:
  assumes "conn_status c = OPEN" and "client_buffer c = b"
    and "wf_buffer b" and "bp b = 0" and "nms b = UNKNOWN_SZ"
    and "framed (client_declared (little_endian P) (byteswap c)) client_hdr (buffer_data b) ns"
    and "total_size ns = length (content b)"
    and "handle_all (client_message X11_client_handlers) CLIENT_TO_SERVER P c (buffer_data b) ns =
      Inr (P', c', lg)"
  shows "logClientMessages (length ns + Suc fuel) X11_client_handlers P c =
    Some (Inr (P', c'\<lparr>client_buffer := counters (buffer_size b) UNKNOWN_SZ (client_buffer c')\<rparr>,
      buffer_size b, lg, None))"
  using assms by (intro logClientMessages_whole) (simp_all add: obeys_logRequest)

text \<open>
  C5: Both loops over the messages of a connection end, whatever bytes the buffers hold: a turn
  parses something, or answers the question that it waits for. \<open>2 * n + 3\<close> turns are enough
  for \<open>n\<close> unparsed bytes, further turns change nothing, and no parser within a turn runs into
  a loop of its own that does not end (the buffers being smaller than 2 GB).
\<close>

theorem message_loops_end:
  assumes "wf_buffer (client_buffer c)" and "wf_buffer (server_buffer c)"
    and "length (buf (client_buffer c)) < 2 ^ 31" and "length (buf (server_buffer c)) < 2 ^ 31"
  shows "\<exists>r r'. r \<noteq> Inl No_return \<and> r' \<noteq> Inl No_return \<and> (\<forall>more.
    logClientMessages (2 * unat (unparsed (client_buffer c)) + 3 + more) X11_client_handlers P c = Some r \<and>
    logServerMessages (2 * unat (unparsed (server_buffer c)) + 3 + more) X11_server_handlers P c = Some r')"
proof -
  let ?n = "2 * unat (unparsed (client_buffer c)) + 3" and ?m = "2 * unat (unparsed (server_buffer c)) + 3"
  obtain r where r: "logClientMessages ?n X11_client_handlers P c = Some r"
    using client_loop_ends [OF assms(1), of ?n P] by auto
  obtain r' where r': "logServerMessages ?m X11_server_handlers P c = Some r'"
    using server_loop_ends [OF assms(2), of ?m P] by auto
  show ?thesis
    using client_loop_returns [OF r assms(3)] server_loop_returns [OF r' assms(4)] r r'
    unfolding logClientMessages_def logServerMessages_def by (meson stream_loop_more)
qed



text \<open>
  C36: A request with an opcode that the parser does not know is logged all the same, by its
  declared length, for both byte orders, and its sequence number is registered.
\<close>

theorem unknown_request_is_logged:
  assumes "major_opcodes P (unat (hd d)) = None" and "4 \<le> length d" and "\<not> big_length d"
    and "4 * declared_units (little_endian P) (byteswap c) d \<le> unat sz"
  shows "\<exists>lg. logRequest core_events P c d sz = Inr (P, fst (registerRequest (hd d) 0 c), lg,
    of_nat (4 * declared_units (little_endian P) (byteswap c) d))"
  using assms by (rule unknown_request_handled)

text \<open>
  C37: No \<open>PolyArc\<close> and no \<open>ChangeKeyboardControl\<close> request can be parsed, whatever bytes it
  has: the first computes the size of its arcs in units instead of bytes, so its length never
  agrees; the second is printed with a format string that has the wrong number of fields.
\<close>

theorem requests_never_parsed:
  assumes "unat (hd d) = POLYARC \<or> unat (hd d) = CHANGEKEYBOARDCONTROL"
    and "major_opcodes P (unat (hd d)) = Some None"
  shows "\<not> is_ok (logRequest core_events P c d sz)"
  using assms by (rule never_parsed)

text \<open>
  C22: The log line of an accepted reply names the request by the opcode the request had: with
  no other open request of the sequence number, the two lines have the same number and major
  opcode. The minor opcode is not registered, so the reply to a request of an extension is taken
  for a reply to the extension's request 0.
\<close>

theorem reply_line_after_request:
  assumes "logRequest core_events P c d sz = Inr (P1, c1, line, k)"
    and "open_requests c (sequence c + 1) = None"
    and "logReply core_events P1 c1 r rsz = Inr (P2, c2, line', k')"
    and "ordered_member P1 (byteswap c1) Reply_Header r ''sequence_num'' = Inr seq"
    and "of_nat seq = sequence c + 1"
  shows "\<exists>mn request reply.
    line = request_line P c ''Request '' (sequence c + 1)
      (fst (find_request core_events P (unat (hd d)) mn)) (unat (hd d))
      (request_name (snd (find_request core_events P (unat (hd d)) mn))) mn request \<and>
    line' = request_line P1 c1 ''Reply to '' (sequence c + 1)
      (fst (find_request core_events P (unat (hd d)) 0)) (unat (hd d))
      (request_name (snd (find_request core_events P (unat (hd d)) 0))) 0 reply"
proof -
  note opened = logRequest_opens [OF assms(1,2)]
  from assms(1) obtain mn request where "line = request_line P c ''Request '' (sequence c + 1)
      (fst (find_request core_events P (unat (hd d)) mn)) (unat (hd d))
      (request_name (snd (find_request core_events P (unat (hd d)) mn))) mn request"
    by (rule logRequest_line)
  moreover obtain reply where "line' = request_line P1 c1 ''Reply to '' (sequence c + 1)
      (fst (find_request core_events P (unat (hd d)) 0)) (unat (hd d))
      (request_name (snd (find_request core_events P (unat (hd d)) 0))) 0 reply"
    using logReply_line [OF assms(3,4)] opened assms(5) by (metis find_request_stashed
      request_opcodes.select_convs unat_0)
  ultimately show ?thesis
    by blast
qed

text \<open>
  C16: Names of atoms make the round trip: if the client's buffer still holds the request when
  the reply with its sequence number arrives, the atom of the reply is known from then on by the
  very name that the request asked for, and the stashed name is gone.
\<close>

theorem interned_atom_has_requested_name:
  assumes "parseRequest_InternAtom P c d sz = Inr (P1, out)" and "\<not> big_length d"
    and "d = drop k (buf (client_buffer c))" and "k + 8 \<le> length (buf (client_buffer c))"
    and "ordered_member P (byteswap c) InternAtom_Encoding (drop 4 d) ''name_len'' = Inr nlen"
    and "parseReply_InternAtom P2 c2 r rsz = Inr (P3, out')"
    and "ordered_member P2 (byteswap c2) InternAtom_Reply_Encoding r ''atom'' = Inr a" and "a \<noteq> ATOM_NONE"
    and "ordered_member P2 (byteswap c2) InternAtom_Reply_Encoding r ''header.sequence_num'' = Inr s"
    and "conn_id c2 = conn_id c" and "of_nat s = sequence c"
    and "stashed_strings P2 (conn_id c, sequence c) = stashed_strings P1 (conn_id c, sequence c)"
    and "buf (client_buffer c2) = buf (client_buffer c)"
  shows "\<exists>name. read_text d 8 nlen = Inr name \<and> interned_atoms P3 a = Some name \<and>
    stashed_strings P3 (conn_id c, sequence c) = None"
  using atom_name_read [OF assms(1-12)] assms(3,13) by metis


text \<open>
  C18: An extension that the settings deny is hidden: if the server says that it is there, the
  reply that goes on to the client says that it is not, and the parser learns no opcode for it.
\<close>

theorem denied_extension_is_hidden:
  assumes "parseReply_QueryExtension P c d sz = Inr (P', c', out)"
    and "ordered_member P (byteswap c) QueryExtension_Reply_Encoding d ''header.sequence_num'' = Inr s"
    and "stashed_strings P (conn_id c, of_nat s) = Some v" and "read_view c v = Inr name"
    and "extensionDenied (settings P) name"
    and "d = drop k (buf (server_buffer c))" and "k + 32 \<le> length (buf (server_buffer c))"
  shows "buf (server_buffer c') = (buf (server_buffer c))[k + 8 := 0] \<and> extensions c' = extensions c \<and>
    major_opcodes P' = major_opcodes P"
  using QueryExtension_denied [OF assms(1-5)] assms(6,7) by (simp add: poke_server_buffer_def Let_def)

text \<open>
  At any time of a run, over any connections and any bytes, an opcode is decoded as the core
  request that the protocol gives it, or as a request of an extension that is implemented and
  not denied by the settings; core opcodes are never taken over by an extension.
\<close>

theorem decoded_requests_are_known:
  assumes "reached st P"
  shows "case find_request core_events P mj mn of
      (None, traits) \<Rightarrow> traits = (case core_requests core_events mj of None \<Rightarrow> unknown_request | Some t \<Rightarrow> t)
    | (Some name, traits) \<Rightarrow> name \<in> set implemented_extensions \<and> \<not> extensionDenied st name \<and>
        core_requests core_events mj = None"
  using reached_known [OF assms] unfolding known_opcodes_def
  by (auto simp: find_request_def split: option.split)

text \<open>
  BIG-REQUESTS can be enabled once on a connection. A reply that is accepted enables it, and
  a second reply to \<open>BigReqEnable\<close>, which the protocol allows, fails an assertion.
\<close>

theorem big_requests_enabled_once:
  assumes "parseReply_BigReqEnable P c d sz = Inr (P', c', out)" and "extensions c big_requests_name \<noteq> None"
  shows "extensionEnabled big_requests_name c' \<and> \<not> is_ok (parseReply_BigReqEnable P' c' d' sz')"
proof -
  from assms have "extensionEnabled big_requests_name c'"
    by (auto simp: parseReply_BigReqEnable_def Let_def enableExtension_def set_extension_def
      extensionEnabled_def elim!: parser_elims)
  then show ?thesis
    by (auto simp: parseReply_BigReqEnable_def Let_def is_ok_and_then)
qed

text \<open>
  C19: Every event with a core code is parsed, sent by \<open>SendEvent\<close> or not: if its members have
  zeroes where their types demand it, the dispatch finds its parser, which returns a text and
  consumes 32 bytes.
\<close>

theorem core_event_is_parsed:
  assumes "event_layout (unat (hd data) AND EVENT_CODE_MASK) = Some L" and "readable P L data sz"
  shows "\<exists>s. parseEvent core_events P conn data sz ws = Inr \<lparr>str = s, bytes_parsed = 32\<rparr>"
  using parseEvent_ok [OF assms, of conn ws] by (simp add: parses_def)

text \<open>
  An event code that is not in the table (2 to 34) is not handled: the lookup throws
  \<open>std::out_of_range\<close>, which ends the proxy.
\<close>

theorem unknown_event_ends_program:
  assumes "data \<noteq> []" and "32 \<le> unat sz"
    and "unat (hd data) AND EVENT_CODE_MASK \<notin> {2..34}"
  shows "parseEvent core_events P conn data sz ws = Inl Out_of_range"
proof -
  have "core_events (unat (hd data) AND EVENT_CODE_MASK) = None"
    using assms(3) core_event_codes [of "unat (hd data) AND EVENT_CODE_MASK"] by auto
  then show ?thesis
    using assms(1,2) by (simp add: parseEvent_def Event_Header_code Event_ENCODING_SZ_def word_le_nat_alt)
qed

text \<open>
  C30: \<open>--multiline\<close> only moves blanks and line breaks: with any two whitespace settings, an
  event prints the same text up to these, or fails in the same way.
\<close>

theorem multiline_moves_blanks:
  assumes "Whitespace2 n ml = Inr ws" and "Whitespace2 n' ml' = Inr ws'" and "fmt_pads_blank (fmtl P)"
  shows "same_text (parseEvent core_events P conn data sz ws) (parseEvent core_events P conn data sz ws')"
proof -
  have "only_blanks ws" "only_blanks ws'"
    using assms(1,2) by (auto simp: Whitespace2_def dest: Whitespace3_only_blanks)
  note same = core_event_text [OF _ this assms(3)]
  have check: "same_text (and_then r (\<lambda>e. require (unat (bytes_parsed e) = k) (Inr e)))
      (and_then r' (\<lambda>e. require (unat (bytes_parsed e) = k) (Inr e)))"
    if "same_text r r'" for r r' k
    using that by (cases r; cases r') (auto simp: same_text_def require_def dest: arg_cong [where f = bytes_parsed])
  show ?thesis
    unfolding parseEvent_def
    by (intro same_text_requireI same_text_and_then check same)
      (auto simp: lookup_at_def split: option.splits)
qed

text \<open>
  C29: The log line of an event names the connection, the sequence number in the client's byte
  order (unless it is a KeymapNotify, which has none), the event by name and code, and whether
  it was generated by a client.
\<close>

theorem event_log_line:
  assumes "event_layout (unat (hd data) AND EVENT_CODE_MASK) = Some L" and "readable P L data sz"
    and "parseEvent core_events P conn data sz (ROOT_WS P) = Inr out"
  shows "logEvent core_events P conn data sz = Inr (event_line P conn data (str out), 32)"
  using assms by (rule logEvent_line)

text \<open>
  C20: Any 32 bytes that start with 0 and have a core error code are logged as that error,
  whatever the other bytes are, and close the request with their sequence number.
\<close>

theorem core_error_is_logged:
  assumes "32 \<le> length data" and "32 \<le> unat sz" and "hd data = 0"
    and "1 \<le> unat (data ! 1)" and "unat (data ! 1) \<le> 17"
  shows "\<exists>body. logError core_errors P conn data sz =
    Inr (message_prefix P conn 32 SERVER_TO_CLIENT (fmt_zpad (fmtl P) 5 (sequence_num P conn data)) @
         ''Error '' @ error_names ! unat (data ! 1) @ ''('' @
         fmt_dec (fmtl P) (int (unat (data ! 1))) @ ''): '' @ body @ newline,
         32, unregisterRequest (of_nat (sequence_num P conn data)) conn)"
  using assms by (rule logError_ok)


subsection \<open>Witnesses\<close>

definition sample_error :: "byte list" where
  \<comment> \<open>Window error of the request with sequence number 5\<close>
  "sample_error = [0, 3, 5, 0, 32, 0, 96, 0, 0, 0, 15, 0, 0, 0, 0, 0, 0, 0, 0, 0, 0, 0, 0, 0, 0, 0, 0, 0, 0, 0, 0, 0]"

definition sample_event :: "byte list" where
  \<comment> \<open>Expose, generated by a client\<close>
  "sample_event = [140, 0, 7, 0, 0, 0, 96, 0, 10, 0, 20, 0, 30, 0, 40, 0, 0, 0, 0, 0, 0, 0, 0, 0, 0, 0, 0, 0, 0, 0, 0, 0]"

definition sample_open :: "byte list \<Rightarrow> connection" where
  "sample_open bs = sample_connection\<lparr>conn_status := OPEN, server_buffer := sample_buffer bs\<rparr>"

lemma sample_event_code: "unat (hd sample_event) AND EVENT_CODE_MASK = EXPOSE"
  by (simp add: sample_event_def EVENT_CODE_MASK_def EXPOSE_def)

lemma sample_event_layout: "event_layout EXPOSE = Some Expose_Encoding"
  by (simp add: event_layout_def event_codes)

lemma sample_event_readable: "readable sample_parser Expose_Encoding sample_event 32"
  by (simp add: readable_def sample_event_def zero_bits_ok_def event_layouts embed_def load_member_def
    load_def read_bytes_def host_val_def value_ok_def)

theorem core_event_is_parsed_witness:
  "\<exists>s. parseEvent core_events sample_parser sample_connection sample_event 32 sample_ws =
    Inr \<lparr>str = s, bytes_parsed = 32\<rparr>"
  by (rule core_event_is_parsed [OF _ sample_event_readable])
    (simp add: sample_event_code sample_event_layout)

theorem unknown_event_ends_program_witness:
  "parseEvent core_events sample_parser sample_connection [35, 0, 1, 0] 32 sample_ws = Inl Out_of_range"
  by (rule unknown_event_ends_program) (simp_all add: EVENT_CODE_MASK_def)

lemma sample_multiline: "\<exists>ws. Whitespace2 0 True = Inr ws \<and> ws_multiline ws"
  by (simp add: Whitespace2_def Whitespace3_def tabIndent_def WHITESPACE_SIZE_def Let_def)

theorem multiline_moves_blanks_witness:
  "\<exists>ws. ws_multiline ws \<and> same_text (parseEvent core_events sample_parser sample_connection sample_event 32 sample_ws)
    (parseEvent core_events sample_parser sample_connection sample_event 32 ws)"
proof -
  obtain ws where "Whitespace2 0 True = Inr ws" "ws_multiline ws"
    using sample_multiline by blast
  then show ?thesis
    using multiline_moves_blanks [OF sample_ws_Whitespace2, where P = sample_parser] by auto
qed

theorem event_log_line_witness:
  "\<exists>out :: parsing_outputs. logEvent core_events sample_parser sample_connection sample_event 32 =
    Inr (event_line sample_parser sample_connection sample_event (str out), 32)"
proof -
  obtain out where
    "parseEvent core_events sample_parser sample_connection sample_event 32 (ROOT_WS sample_parser) = Inr out"
    using parseEvent_ok [of sample_event Expose_Encoding sample_parser 32 sample_connection sample_ws]
      sample_event_readable by (auto simp: sample_event_code sample_event_layout parses_def)
  from event_log_line [OF _ sample_event_readable this]
  have "logEvent core_events sample_parser sample_connection sample_event 32 =
      Inr (event_line sample_parser sample_connection sample_event (str out), 32)"
    by (simp add: sample_event_code sample_event_layout)
  then show ?thesis
    by (rule exI)
qed

theorem core_error_is_logged_witness:
  "\<exists>body. logError core_errors sample_parser sample_connection sample_error 32 =
    Inr (message_prefix sample_parser sample_connection 32 SERVER_TO_CLIENT
          (fmt_zpad (fmtl sample_parser) 5 (sequence_num sample_parser sample_connection sample_error)) @
         ''Error '' @ error_names ! unat (sample_error ! 1) @ ''('' @
         fmt_dec (fmtl sample_parser) (int (unat (sample_error ! 1))) @ ''): '' @ body @ newline,
         32, unregisterRequest (of_nat (sequence_num sample_parser sample_connection sample_error))
           sample_connection)"
  by (rule core_error_is_logged) (simp_all add: sample_error_def)


theorem server_messages_framed_witness:
  "\<exists>P' c' lg. logServerMessages (length [32 :: size_t] + Suc 0) X11_server_handlers sample_parser
      (sample_open sample_error) =
    Some (Inr (P', c'\<lparr>server_buffer :=
        counters (buffer_size (sample_buffer sample_error)) UNKNOWN_SZ (server_buffer c')\<rparr>,
      buffer_size (sample_buffer sample_error), lg, None))"
proof -
  let ?c = "sample_open sample_error" and ?d = "sample_error @ replicate 2016 0"
  have len: "length sample_error = 32" "sample_error \<noteq> []" "hd ?d = 0" "?d ! 1 = 3"
    by (simp_all add: sample_error_def)
  have c: "conn_status ?c = OPEN" "server_buffer ?c = sample_buffer sample_error" "byteswap ?c = False"
    by (simp_all add: sample_open_def)
  have data: "buffer_data (sample_buffer sample_error) = ?d" "content (sample_buffer sample_error) = sample_error"
    by (simp_all add: buffer_data_def content_def len)
  obtain t c' where "logError core_errors sample_parser ?c ?d 32 = Inr (t, 32, c')"
    using logError_ok [of ?d 32 sample_parser ?c] len by auto
  moreover have "ordered_member sample_parser False Response_Header ?d ''prefix'' = Inr 0"
    using len by (subst Response_prefix) auto
  ultimately obtain P' c'' lg where "handle_all (server_message X11_server_handlers) SERVER_TO_CLIENT
      sample_parser ?c ?d [32] = Inr (P', c'', lg)"
    using c by (auto simp: server_message_def error_handler_def ERROR_PREFIX_def)
  then show ?thesis
    using server_messages_framed [OF c(1,2), of sample_parser "[32]" P' c'' lg 0]
    by (auto simp: data len server_declared_def server_hdr_def UNKNOWN_SZ_def)
qed

subsection \<open>Witnesses for requests and replies\<close>

definition sample_request :: "byte list" where
  \<comment> \<open>a request with the unknown opcode 200\<close>
  "sample_request = [200, 0, 1, 0]"

definition sample_reply :: "byte list" where
  \<comment> \<open>a reply to request 1; as a reply to InternAtom, with atom 69\<close>
  "sample_reply = [1, 0, 1, 0, 0, 0, 0, 0, 69, 0, 0, 0] @ replicate 20 0"

definition sample_atom_request :: "byte list" where
  \<comment> \<open>InternAtom of the name AB\<close>
  "sample_atom_request = [16, 0, 3, 0, 2, 0, 0, 0, 65, 66, 0, 0]"

definition sample_client :: "byte list \<Rightarrow> connection" where
  "sample_client bs = sample_connection\<lparr>conn_status := OPEN, client_buffer := sample_buffer bs\<rparr>"

lemma sample_client_simps [simp]:
  "conn_status (sample_client bs) = OPEN" "client_buffer (sample_client bs) = sample_buffer bs"
  "byteswap (sample_client bs) = False" "sequence (sample_client bs) = 0"
  "open_requests (sample_client bs) = Map.empty" "conn_id (sample_client bs) = 1"
  "extensions (sample_client bs) = [big_requests_name \<mapsto> False]"
  by (simp_all add: sample_client_def sample_connection_def Connection_new_def)

lemma sample_parser_tables [simp]:
  "major_opcodes sample_parser = Map.empty" "stashed_strings sample_parser = Map.empty"
  by (simp_all add: sample_parser_def)

lemma member_is_ok:
  "is_ok (member P bsw L m f (Inr r) bm) \<longleftrightarrow> (case load_member (little_endian P) L m f of
     Inl e \<Rightarrow> False | Inr (t, n) \<Rightarrow> is_ok (formatVariable P t n bsw r bm))"
  by (auto simp: member_def is_ok_and_then split: sum.split)

lemmas eval_bytes =
  ordered_member_def raw_member_def load_member_def load_def read_bytes_def host_val_def ordered_def
  zero_bits_ok_def value_ok_def request_layouts reply_layouts embed_def size_of_def

lemmas eval_rows =
  braces_ok length_rows_def member_is_ok is_ok_formatVariable names_ok_def no_names_def range_none_def
  BOOL_enum_names_def

lemma sample_request_length: "4 \<le> length (sample_request @ bs)" "\<not> big_length (sample_request @ bs)"
  "declared_units True False (sample_request @ bs) = 1" "hd (sample_request @ bs) = 200"
  by (simp_all add: sample_request_def big_length_def declared_units_def host_val_def ordered_def)

theorem unknown_request_is_logged_witness:
  "\<exists>lg. logRequest core_events sample_parser (sample_client sample_request) sample_request 4 =
    Inr (sample_parser, fst (registerRequest (hd sample_request) 0 (sample_client sample_request)), lg,
      of_nat (4 * declared_units (little_endian sample_parser) (byteswap (sample_client sample_request)) sample_request))"
  using sample_request_length [of "[]"] by (intro unknown_request_is_logged) simp_all

lemma sample_request_accepted:
  "\<exists>lg. logRequest core_events sample_parser (sample_client sample_request) (sample_request @ bs) 4 =
    Inr (sample_parser, fst (registerRequest 200 0 (sample_client sample_request)), lg, 4)"
  using unknown_request_handled [of sample_parser "sample_request @ bs" "sample_client sample_request" 4 core_events]
    sample_request_length [of bs] by simp


theorem client_messages_framed_witness:
  "\<exists>P' c' lg. logClientMessages (length [4 :: size_t] + Suc 0) X11_client_handlers sample_parser
      (sample_client sample_request) =
    Some (Inr (P', c'\<lparr>client_buffer :=
        counters (buffer_size (sample_buffer sample_request)) UNKNOWN_SZ (client_buffer c')\<rparr>,
      buffer_size (sample_buffer sample_request), lg, None))"
proof -
  let ?c = "sample_client sample_request" and ?d = "sample_request @ replicate 2044 0"
  have len: "length sample_request = 4" "sample_request \<noteq> []"
    by (simp_all add: sample_request_def)
  have data: "buffer_data (sample_buffer sample_request) = ?d" "content (sample_buffer sample_request) = sample_request"
    by (simp_all add: buffer_data_def content_def len)
  obtain P' c' lg where "handle_all (client_message X11_client_handlers) CLIENT_TO_SERVER
      sample_parser ?c ?d [4] = Inr (P', c', lg)"
    using sample_request_accepted [of "replicate 2044 0"] by (auto simp: client_message_def)
  moreover have "client_declared True False ?d = 4" "client_hdr ?d = 4"
    by (simp_all add: sample_request_def client_declared_def client_hdr_def big_length_def host_val_def ordered_def)
  ultimately show ?thesis
    using client_messages_framed [of ?c "sample_buffer sample_request" sample_parser "[4]" P' c' lg 0]
    by (auto simp: data len UNKNOWN_SZ_def)
qed

theorem message_loops_end_witness:
  "\<exists>r r'. r \<noteq> Inl No_return \<and> r' \<noteq> Inl No_return \<and> (\<forall>more.
    logClientMessages (2 * unat (unparsed (client_buffer (sample_client sample_request))) + 3 + more)
      X11_client_handlers sample_parser (sample_client sample_request) = Some r \<and>
    logServerMessages (2 * unat (unparsed (server_buffer (sample_client sample_request))) + 3 + more)
      X11_server_handlers sample_parser (sample_client sample_request) = Some r')"
  by (rule message_loops_end)
    (simp_all add: sample_request_def sample_client_def sample_connection_def Connection_new_def
      SocketBuffer_new_def wf_buffer_def BLOCK_SZ_def VECTOR_MAX_def)

lemma sample_reply_accepted:
  assumes "lookupRequest 1 c = Inr \<lparr>major = 200, minor = 0\<rparr>" and "byteswap c = False"
  shows "\<exists>x. logReply core_events sample_parser c sample_reply 32 = Inr x"
proof -
  have "is_ok (parseReply_UnknownRequest sample_parser c sample_reply 32)"
    by (simp add: parseReply_UnknownRequest_def Let_def assms(2) eval_bytes eval_rows sample_reply_def
      REPLY_PREFIX_def Reply_DEFAULT_ENCODING_SZ_def Alignment_units_def Alignment_size_def
      Alignment_pad_def ALIGN_def)
  moreover have "ends_request P c' sample_reply 200 = Inr True" for P c'
    by (simp add: ends_request_def LISTFONTSWITHINFO_def)
  moreover have "bytes_parsed (out :: parsing_outputs) = 32"
    if "parseReply_UnknownRequest sample_parser c sample_reply 32 = Inr out" for out
    using that by (auto simp: parseReply_UnknownRequest_def Let_def assms(2) eval_bytes sample_reply_def
      Alignment_size_def ALIGN_def elim!: parser_elims)
  ultimately show ?thesis
    by (auto simp: logReply_def Let_def assms split_beta find_request_def unknown_request_def reading_def
      eval_bytes sample_reply_def REPLY_PREFIX_def Reply_DEFAULT_ENCODING_SZ_def elim!: is_okE)
qed

theorem requests_never_parsed_witness:
  "\<not> is_ok (logRequest core_events (sample_parser\<lparr>major_opcodes := [68 \<mapsto> None]\<rparr>)
    (sample_client [68, 0, 3, 0]) [68, 0, 3, 0] 4)"
  by (rule requests_never_parsed) (simp_all add: POLYARC_def)

theorem big_requests_enabled_once_witness:
  "\<exists>P' c'. extensionEnabled big_requests_name c' \<and>
    \<not> is_ok (parseReply_BigReqEnable P' c' sample_reply 32)"
proof -
  have "is_ok (parseReply_BigReqEnable sample_parser (sample_client []) sample_reply 32)"
    by (simp add: parseReply_BigReqEnable_def Let_def eval_bytes eval_rows sample_reply_def
      REPLY_PREFIX_def Reply_DEFAULT_ENCODING_SZ_def Alignment_units_def Alignment_size_def
      extra_units_agree_def BigReqEnable_Reply_Encoding_def extensionEnabled_def
      Alignment_pad_def ALIGN_def)
  then obtain P' c' out where "parseReply_BigReqEnable sample_parser (sample_client []) sample_reply 32 = Inr (P', c', out)"
    by (metis is_okE prod.collapse)
  from big_requests_enabled_once [OF this] show ?thesis
    by auto
qed

theorem decoded_requests_are_known_witness:
  "\<exists>P. reached Settings_default P \<and> (case find_request core_events P 16 0 of
      (None, traits) \<Rightarrow> traits = (case core_requests core_events 16 of None \<Rightarrow> unknown_request | Some t \<Rightarrow> t)
    | (Some name, traits) \<Rightarrow> name \<in> set implemented_extensions \<and> \<not> extensionDenied Settings_default name \<and>
        core_requests core_events 16 = None)"
proof -
  obtain P where "X11ProtocolParser_new sample_fmt True False True Settings_default = Inr P"
    using sample_ws_Whitespace2 by (simp add: X11ProtocolParser_new_def)
  then have "reached Settings_default P"
    by (rule reached.start)
  then show ?thesis
    by (intro exI [of _ P] conjI decoded_requests_are_known)
qed

lemma sample_registered:
  "lookupRequest 1 (fst (registerRequest 200 0 (sample_client sample_request))) = Inr \<lparr>major = 200, minor = 0\<rparr>"
  "byteswap (fst (registerRequest 200 0 (sample_client sample_request))) = False"
  using registerRequest_lookup [of 200 0 "sample_client sample_request"]
  by (auto simp: registerRequest_def Let_def)

lemma sample_reply_sequence:
  "ordered_member sample_parser False Reply_Header sample_reply ''sequence_num'' = Inr 1"
  by (simp add: eval_bytes sample_reply_def)


theorem reply_line_after_request_witness:
  "\<exists>line line' mn request reply.
    line = request_line sample_parser (sample_client sample_request) ''Request '' (sequence (sample_client sample_request) + 1)
      (fst (find_request core_events sample_parser (unat (hd sample_request)) mn)) (unat (hd sample_request))
      (request_name (snd (find_request core_events sample_parser (unat (hd sample_request)) mn))) mn request \<and>
    line' = request_line sample_parser (fst (registerRequest 200 0 (sample_client sample_request))) ''Reply to ''
      (sequence (sample_client sample_request) + 1)
      (fst (find_request core_events sample_parser (unat (hd sample_request)) 0)) (unat (hd sample_request))
      (request_name (snd (find_request core_events sample_parser (unat (hd sample_request)) 0))) 0 reply"
proof -
  obtain lg where "logRequest core_events sample_parser (sample_client sample_request) (sample_request @ []) 4 =
      Inr (sample_parser, fst (registerRequest 200 0 (sample_client sample_request)), lg, 4)"
    using sample_request_accepted by blast
  moreover obtain P2 c2 line' k' where "logReply core_events sample_parser
      (fst (registerRequest 200 0 (sample_client sample_request))) sample_reply 32 = Inr (P2, c2, line', k')"
    using sample_reply_accepted [OF sample_registered] by (metis prod.collapse)
  ultimately show ?thesis
    using reply_line_after_request [of sample_parser "sample_client sample_request" sample_request 4 sample_parser
        "fst (registerRequest 200 0 (sample_client sample_request))" lg 4 sample_reply 32 P2 c2 line' k' 1]
      sample_reply_sequence sample_registered(2) by (fastforce simp del: One_nat_def)
qed

definition sample_atom_client :: connection where
  \<comment> \<open>the client's request is its first\<close>
  "sample_atom_client = (sample_client sample_atom_request)\<lparr>sequence := 1\<rparr>"

lemma sample_atom_client_simps [simp]:
  "client_buffer sample_atom_client = sample_buffer sample_atom_request" "sequence sample_atom_client = 1"
  "byteswap sample_atom_client = False" "conn_id sample_atom_client = 1"
  by (simp_all add: sample_atom_client_def)

lemma sample_atom_parsed:
  "\<exists>S out. parseRequest_InternAtom sample_parser sample_atom_client
    (sample_atom_request @ replicate 2036 0) 12 = Inr (sample_parser\<lparr>stashed_strings := S\<rparr>, out)"
proof -
  let ?c = sample_atom_client and ?d = "sample_atom_request @ replicate 2036 0"
  have fe: "RequestFixedEncoding sample_parser InternAtom ?c ?d 12 =
     Inr \<lparr>prefix = ?d, length_at = drop 2 ?d, encoding = drop 4 ?d,
       fe_bytes_parsed = 8, big_request = False, header_only = False\<rparr>"
    by (simp add: RequestFixedEncoding_def Let_def InternAtom_def sample_atom_request_def eval_bytes
      EXTENDED_LENGTH_FLAG_def)
  have "is_ok (parseRequest_InternAtom sample_parser ?c ?d 12)"
    by (simp add: parseRequest_InternAtom_def Let_def fe)
      (simp add: InternAtom_def sample_atom_request_def length_assertion_def Alignment_units_def
        Alignment_pad_def ALIGN_def stashString_def eval_bytes INTERNATOM_def eval_rows)
  then show ?thesis
    by (auto simp: parseRequest_InternAtom_def Let_def stashString_def elim!: is_okE parser_elims)
qed

lemma sample_atom_facts:
  "\<not> big_length (sample_atom_request @ bs)"
  "buf (client_buffer sample_atom_client) = sample_atom_request @ replicate 2036 0"
  "ordered_member sample_parser False InternAtom_Encoding (drop 4 (sample_atom_request @ bs)) ''name_len'' = Inr 2"
  "ordered_member (sample_parser\<lparr>stashed_strings := S\<rparr>) False InternAtom_Reply_Encoding sample_reply ''atom'' = Inr 69"
  "ordered_member (sample_parser\<lparr>stashed_strings := S\<rparr>) False InternAtom_Reply_Encoding sample_reply ''header.sequence_num'' = Inr 1"
  "read_text (sample_atom_request @ bs) 8 2 = Inr ''AB''"
  by (simp_all add: sample_atom_request_def sample_reply_def big_length_def eval_bytes read_text_def char_of_def bit_0)

lemma sample_atom_answered:
  assumes "parseRequest_InternAtom sample_parser sample_atom_client (sample_atom_request @ replicate 2036 0) 12 =
    Inr (sample_parser\<lparr>stashed_strings := S\<rparr>, out)"
  shows "\<exists>P3 out'. parseReply_InternAtom (sample_parser\<lparr>stashed_strings := S\<rparr>) sample_atom_client sample_reply 32 =
    Inr (P3, out')"
proof -
  have stash: "S (1, 1) = Some (string_view_at sample_atom_client (drop 8 (sample_atom_request @ replicate 2036 0)) 2)"
    using InternAtom_stashes [OF assms] sample_atom_facts by simp
  have view: "is_ok (read_view sample_atom_client
      (string_view_at sample_atom_client (drop 8 (sample_atom_request @ replicate 2036 0)) 2))"
    by (simp add: read_view_def string_view_at_def Let_def sample_atom_request_def)
  have row: "is_ok (member P' False InternAtom_Reply_Encoding sample_reply ''atom''
      (range_all InternAtom_Reply_atom_names) NOT_BITMASK)"
    if "little_endian P'" for P'
    using that by (intro member_fits_ok)
      (simp_all add: member_fits_def eval_bytes sample_reply_def InternAtom_Reply_atom_names_def
        range_all_def range_min_max_def names_ok_def enum_names_zero_none_def)
  have "is_ok (parseReply_InternAtom (sample_parser\<lparr>stashed_strings := S\<rparr>) sample_atom_client sample_reply 32)"
    using view row by (auto simp: parseReply_InternAtom_def Let_def unstashString_def sample_atom_facts stash
      extra_units_agree_def sample_reply_def eval_bytes eval_rows REPLY_PREFIX_def Reply_DEFAULT_ENCODING_SZ_def
      Alignment_units_def Alignment_pad_def ALIGN_def ATOM_NONE_def elim!: is_okE)
  then show ?thesis
    by (auto elim: is_okE)
qed

theorem interned_atom_has_requested_name_witness:
  "\<exists>(P3 :: parser) name. read_text (sample_atom_request @ replicate 2036 0) 8 2 = Inr name \<and>
    interned_atoms P3 69 = Some name \<and> stashed_strings P3 (conn_id sample_atom_client, sequence sample_atom_client) = None"
proof -
  obtain S out where request: "parseRequest_InternAtom sample_parser sample_atom_client
      (sample_atom_request @ replicate 2036 0) 12 = Inr (sample_parser\<lparr>stashed_strings := S\<rparr>, out)"
    using sample_atom_parsed by blast
  obtain P3 out' where "parseReply_InternAtom (sample_parser\<lparr>stashed_strings := S\<rparr>) sample_atom_client sample_reply 32 =
      Inr (P3, out')"
    using sample_atom_answered [OF request] by blast
  from interned_atom_has_requested_name [OF request _ _ _ _ this, of 0 2 69 1] show ?thesis
    using sample_atom_facts by - (intro exI [of _ P3], auto simp: ATOM_NONE_def sample_atom_request_def)
qed


definition sample_query_reply :: "byte list" where
  \<comment> \<open>the server has the extension that request 1 asked for, with major opcode 130\<close>
  "sample_query_reply = [1, 0, 1, 0, 0, 0, 0, 0, 1, 130, 0, 0] @ replicate 20 0"

definition sample_view :: string_view where
  "sample_view = string_view_at sample_atom_client (drop 8 (sample_atom_request @ replicate 2036 0)) 2"

definition sample_query :: "parser \<times> connection" where
  "sample_query =
     (sample_parser\<lparr>stashed_strings := [(1, 1) \<mapsto> sample_view]\<rparr>,
      sample_atom_client\<lparr>server_buffer := sample_buffer sample_query_reply\<rparr>)"

theorem denied_extension_is_hidden_witness:
  "\<exists>(P' :: parser) (c' :: connection). buf (server_buffer c') = (buf (server_buffer (snd sample_query)))[0 + 8 := 0] \<and>
    extensions c' = extensions (snd sample_query) \<and> major_opcodes P' = major_opcodes (fst sample_query)"
proof -
  let ?P = "fst sample_query" and ?c = "snd sample_query" and ?d = "sample_query_reply @ replicate 2016 0"
  have d: "buf (server_buffer ?c) = ?d"
    by (simp add: sample_query_def sample_query_reply_def)
  have seq: "ordered_member ?P (byteswap ?c) QueryExtension_Reply_Encoding ?d ''header.sequence_num'' = Inr 1"
    by (simp add: sample_query_def sample_query_reply_def eval_bytes)
  have stash: "stashed_strings ?P (conn_id ?c, of_nat 1) =
      Some sample_view"
    by (simp add: sample_query_def)
  have name: "read_view ?c sample_view =
      Inr ''AB''"
    using sample_atom_facts(6) [of "replicate 2036 0"]
    by (simp add: sample_query_def sample_view_def read_view_def string_view_at_def Let_def sample_atom_request_def)
  have denied: "extensionDenied (settings ?P) ''AB''"
    by (simp add: sample_query_def extensionDenied_def Settings_default_def recognized_extensions_def big_requests_name_def)
  have ids: "fmtl ?P = sample_fmt" "little_endian ?P" "ROOT_WS ?P = sample_ws" "byteswap ?c = False"
    "settings ?P = Settings_default" "conn_id ?c = 1"
    by (simp_all add: sample_query_def)
  have offset: "member_offset QueryExtension_Reply_Encoding ''present'' = Inr 8"
    by (simp add: member_offset_def reply_layouts embed_def)
  have "is_ok (parseReply_QueryExtension ?P ?c ?d 32)"
    by (simp add: parseReply_QueryExtension_def Let_def seq [unfolded ids] stash [unfolded ids of_nat_1] unstashString_def name denied [unfolded ids] offset ids)
      (simp add: ids sample_query_reply_def eval_bytes eval_rows extra_units_agree_def REPLY_PREFIX_def
        Reply_DEFAULT_ENCODING_SZ_def Alignment_units_def Alignment_pad_def ALIGN_def)
  then obtain P' c' out where "parseReply_QueryExtension ?P ?c ?d 32 = Inr (P', c', out)"
    by (metis is_okE prod.collapse)
  from denied_extension_is_hidden [OF this seq stash name denied, of 0] show ?thesis
    by (auto simp: d sample_query_reply_def)
qed

end
